(* ===== verification/Prelude.thy ===== *)
theory Prelude
  imports Main
begin

text \<open>
  Shared vocabulary of the development: the simp collections, the JavaScript string
  operations the program uses (\<open>trim\<close>, \<open>includes\<close>, \<open>startsWith\<close>,
  template-literal rendering of integers), list helpers for database rows, the error
  values, and the state-and-error computations in which the services are written.

  A \<open>string\<close> stands for a JavaScript string all of whose code units are below 256.
\<close>

named_theorems js_simps "evaluation of the JavaScript string and number operations"
named_theorems effect_simps "unfolding of state-and-error computations"
named_theorems row_simps "reads and writes of table rows"


section \<open>Characters and strings\<close>

text \<open>
  The white space and line terminators that \<open>String.prototype.trim\<close> removes, as far as
  they are below code unit 256: TAB, LF, VT, FF, CR, SPACE and NBSP.
\<close>

definition js_space :: "char \<Rightarrow> bool" where
  "js_space c \<longleftrightarrow>
     c \<in> set [CHR 0x09, CHR 0x0A, CHR 0x0B, CHR 0x0C, CHR 0x0D, CHR 0x20, CHR 0xA0]"

definition js_trim :: "string \<Rightarrow> string" where
  "js_trim s = rev (dropWhile js_space (rev (dropWhile js_space s)))"

definition starts_with :: "string \<Rightarrow> string \<Rightarrow> bool" where
  "starts_with p s \<longleftrightarrow> take (length p) s = p"

fun js_includes :: "string \<Rightarrow> string \<Rightarrow> bool" where
  "js_includes p [] \<longleftrightarrow> p = []"
| "js_includes p (c # s) \<longleftrightarrow> starts_with p (c # s) \<or> js_includes p s"

definition ends_with :: "string \<Rightarrow> string \<Rightarrow> bool" where
  "ends_with p s \<longleftrightarrow> starts_with (rev p) (rev s)"

fun js_join :: "string \<Rightarrow> string list \<Rightarrow> string" where
  "js_join sep [] = []"
| "js_join sep [x] = x"
| "js_join sep (x # y # xs) = x @ sep @ js_join sep (y # xs)"

lemma starts_with_iff: "starts_with p s \<longleftrightarrow> (\<exists>r. s = p @ r)"
  unfolding starts_with_def by (metis append_eq_conv_conj append_take_drop_id)

lemma js_includes_iff: "js_includes p s \<longleftrightarrow> (\<exists>a b. s = a @ p @ b)"
proof (induction s)
  case Nil
  then show ?case by auto
next
  case (Cons c s)
  show ?case
  proof
    assume "js_includes p (c # s)"
    then consider r where "c # s = [] @ p @ r" | a b where "c # s = (c # a) @ p @ b"
      using Cons.IH by (auto simp: starts_with_iff)
    then show "\<exists>a b. c # s = a @ p @ b" by cases blast+
  next
    assume "\<exists>a b. c # s = a @ p @ b"
    then obtain a b where ab: "c # s = a @ p @ b" by blast
    show "js_includes p (c # s)"
    proof (cases a)
      case Nil
      with ab have "starts_with p (c # s)" by (simp add: starts_with_iff)
      then show ?thesis by simp
    next
      case (Cons d a')
      with ab have "s = a' @ p @ b" by simp
      then show ?thesis using Cons.IH by auto
    qed
  qed
qed

lemma dropWhile_fixed: "(xs = [] \<or> \<not> P (hd xs)) \<Longrightarrow> dropWhile P xs = xs"
  by (cases xs) auto

lemma js_trim_ends:
  "js_trim s = [] \<or> \<not> js_space (hd (js_trim s)) \<and> \<not> js_space (last (js_trim s))"
proof (cases "js_trim s = []")
  case False
  define u where "u = dropWhile js_space s"
  define v where "v = dropWhile js_space (rev u)"
  have t: "js_trim s = rev v" by (simp add: js_trim_def u_def v_def)
  with False have vne: "v \<noteq> []" by simp
  then have lst: "\<not> js_space (hd v)" unfolding v_def by (rule hd_dropWhile)
  obtain pre where "rev u = pre @ v" unfolding v_def by (metis takeWhile_dropWhile_id)
  then have "u = rev v @ rev pre" by (metis rev_append rev_rev_ident)
  then have "hd u = hd (rev v)" and une: "u \<noteq> []" using vne by auto
  moreover have "\<not> js_space (hd u)" using une unfolding u_def by (rule hd_dropWhile)
  ultimately show ?thesis using t lst vne by (simp add: last_rev hd_rev)
qed simp

lemma js_trim_idem [simp]: "js_trim (js_trim s) = js_trim s"
proof -
  have "dropWhile js_space (js_trim s) = js_trim s"
    using js_trim_ends[of s] by (intro dropWhile_fixed) blast
  moreover have "dropWhile js_space (rev (js_trim s)) = rev (js_trim s)"
    using js_trim_ends[of s] by (intro dropWhile_fixed) (auto simp: hd_rev)
  ultimately show ?thesis by (simp add: js_trim_def[of "js_trim s"])
qed


section \<open>Decimal rendering and reading of integers\<close>

definition digit_char :: "nat \<Rightarrow> char" where
  "digit_char d = char_of (48 + d)"

definition is_digit :: "char \<Rightarrow> bool" where
  "is_digit c \<longleftrightarrow> 48 \<le> (of_char c :: nat) \<and> (of_char c :: nat) \<le> 57"

definition digit_val :: "char \<Rightarrow> nat" where
  "digit_val c = of_char c - 48"

fun digits_val :: "nat \<Rightarrow> string \<Rightarrow> nat" where
  "digits_val acc [] = acc"
| "digits_val acc (c # s) = digits_val (10 * acc + digit_val c) s"

text \<open>\<open>String(n)\<close> of a non-negative integer, and of an integer.\<close>

fun nat_str :: "nat \<Rightarrow> string" where
  "nat_str n = (if n < 10 then [digit_char n] else nat_str (n div 10) @ [digit_char (n mod 10)])"

declare nat_str.simps [simp del]

definition int_str :: "int \<Rightarrow> string" where
  "int_str i = (if i < 0 then ''-'' @ nat_str (nat (- i)) else nat_str (nat i))"

text \<open>The last \<open>w\<close> decimal digits, zero-padded.\<close>

fun fixed_digits :: "nat \<Rightarrow> nat \<Rightarrow> string" where
  "fixed_digits 0 n = []"
| "fixed_digits (Suc w) n = fixed_digits w (n div 10) @ [digit_char (n mod 10)]"

lemma digit_char_digit: "d < 10 \<Longrightarrow> is_digit (digit_char d) \<and> digit_val (digit_char d) = d"
  by (simp add: digit_char_def is_digit_def digit_val_def)

lemma digit_chars [js_simps]:
  "digit_char 0 = CHR ''0''" "digit_char 1 = CHR ''1''" "digit_char (Suc 0) = CHR ''1''"
  "digit_char 2 = CHR ''2''" "digit_char 3 = CHR ''3''" "digit_char 4 = CHR ''4''"
  "digit_char 5 = CHR ''5''" "digit_char 6 = CHR ''6''" "digit_char 7 = CHR ''7''"
  "digit_char 8 = CHR ''8''" "digit_char 9 = CHR ''9''"
  by (simp_all add: digit_char_def char_of_def bit_iff_odd)

lemma digits_val_append: "digits_val a (s @ t) = digits_val (digits_val a s) t"
  by (induction a s rule: digits_val.induct) auto

lemma nat_str_digits: "\<forall>c \<in> set (nat_str n). is_digit c"
proof (induction n rule: nat_str.induct)
  case (1 n)
  then show ?case by (subst nat_str.simps) (auto simp: digit_char_digit)
qed

lemma nat_str_nonempty [simp]: "nat_str n \<noteq> []"
  by (subst nat_str.simps) simp

lemma digits_val_nat_str [simp]: "digits_val 0 (nat_str n) = n"
proof (induction n rule: nat_str.induct)
  case (1 n)
  show ?case
  proof (cases "n < 10")
    case True
    then show ?thesis by (subst nat_str.simps) (simp add: digit_char_digit)
  next
    case False
    with 1 show ?thesis
      by (subst nat_str.simps) (simp add: digits_val_append digit_char_digit)
  qed
qed

lemma nat_str_inj [simp]: "nat_str m = nat_str n \<longleftrightarrow> m = n"
  by (metis digits_val_nat_str)

lemma fixed_digits_length [simp]: "length (fixed_digits w n) = w"
  by (induction w n rule: fixed_digits.induct) auto

lemma fixed_digits_digits: "\<forall>c \<in> set (fixed_digits w n). is_digit c"
  by (induction w n rule: fixed_digits.induct) (auto simp: digit_char_digit)

lemma digits_val_fixed_digits: "n < 10 ^ w \<Longrightarrow> digits_val 0 (fixed_digits w n) = n"
proof (induction w n rule: fixed_digits.induct)
  case (1 n)
  then show ?case by simp
next
  case (2 w n)
  then have "n div 10 < 10 ^ w" by (simp add: less_mult_imp_div_less mult.commute)
  with 2 show ?case by (simp add: digits_val_append digit_char_digit)
qed

lemma is_digit_not_sep: "is_digit c \<Longrightarrow> c \<noteq> CHR '':'' \<and> c \<noteq> CHR ''-'' \<and> c \<noteq> CHR ''+''"
  by (auto simp: is_digit_def)

lemma colon_notin_nat_str [simp]: "CHR '':'' \<notin> set (nat_str n)"
  using nat_str_digits[of n] is_digit_not_sep by blast

lemma minus_notin_nat_str [simp]: "CHR ''-'' \<notin> set (nat_str n)"
  using nat_str_digits[of n] is_digit_not_sep by blast

lemma colon_notin_int_str [simp]: "CHR '':'' \<notin> set (int_str i)"
  by (simp add: int_str_def)

lemma int_str_inj [simp]: "int_str i = int_str j \<longleftrightarrow> i = j"
proof
  assume eq: "int_str i = int_str j"
  have ne: "nat_str n \<noteq> CHR ''-'' # s" for n s
    using minus_notin_nat_str[of n] by (metis list.set_intros(1))
  show "i = j"
  proof (cases "i < 0 \<longleftrightarrow> j < 0")
    case True
    with eq show ?thesis by (auto simp: int_str_def split: if_splits)
  next
    case False
    with eq ne ne[symmetric] show ?thesis by (auto simp: int_str_def split: if_splits)
  qed
qed simp

text \<open>
  A string that ends in a separator and a suffix free of that separator determines both
  parts: the reason why the program's composite keys \<open>id:version\<close> are unambiguous.
\<close>

lemma split_at_last:
  assumes "a @ c # x = b @ c # y" and "c \<notin> set x" and "c \<notin> set y"
  shows "a = b \<and> x = y"
proof -
  have "takeWhile (\<lambda>d. d \<noteq> c) (rev x @ c # rev a) = takeWhile (\<lambda>d. d \<noteq> c) (rev y @ c # rev b)"
    using assms(1) by (metis append_Cons append_Nil append_assoc rev.simps(2) rev_append)
  moreover have "takeWhile (\<lambda>d. d \<noteq> c) (rev z @ c # w) = rev z" if "c \<notin> set z" for z w
    using that by (subst takeWhile_append2) auto
  ultimately have "x = y" using assms(2,3) by simp
  with assms(1) show ?thesis by simp
qed


section \<open>Errors\<close>

text \<open>
  The exceptions that the program raises or that its database client raises for it:
  the Nest HTTP exceptions, plain \<open>Error\<close>, \<open>RangeError\<close> and
  \<open>TypeError\<close> objects, the typed
  miss of the instance repository, and constraint violations of the tables.
\<close>

datatype error =
    ConflictException string
  | NotFoundException string
  | BadRequestException string
  | UnauthorizedException string
  | PlainError string
  | RangeError string
  | TypeError string
  | InstanceNotFoundError string
  | UniqueViolation string
  | ForeignKeyViolation string


section \<open>State-and-error computations\<close>

text \<open>
  An operation takes the state and gives an outcome (an exception or a value) with the
  next state. \<open>and_then\<close> is \<open>await\<close> in sequence: an exception skips the rest.
\<close>

type_synonym ('s, 'a) op = "'s \<Rightarrow> (error + 'a) \<times> 's"

definition ret :: "'a \<Rightarrow> ('s, 'a) op" where
  "ret x s = (Inr x, s)"

definition throw :: "error \<Rightarrow> ('s, 'a) op" where
  "throw e s = (Inl e, s)"

definition and_then :: "('s, 'a) op \<Rightarrow> ('a \<Rightarrow> ('s, 'b) op) \<Rightarrow> ('s, 'b) op" where
  "and_then m f s = (case m s of (Inl e, s') \<Rightarrow> (Inl e, s') | (Inr x, s') \<Rightarrow> f x s')"

definition read_state :: "('s \<Rightarrow> 'a) \<Rightarrow> ('s, 'a) op" where
  "read_state f s = (Inr (f s), s)"

definition lift_result :: "error + 'a \<Rightarrow> ('s, 'a) op" where
  "lift_result r s = (r, s)"

declare ret_def [effect_simps] throw_def [effect_simps] read_state_def [effect_simps]
  lift_result_def [effect_simps]

lemma and_then_Inl [effect_simps]: "m s = (Inl e, s') \<Longrightarrow> and_then m f s = (Inl e, s')"
  by (simp add: and_then_def)

lemma and_then_Inr [effect_simps]: "m s = (Inr x, s') \<Longrightarrow> and_then m f s = f x s'"
  by (simp add: and_then_def)

lemma and_then_ret [simp]: "and_then (ret x) f = f x"
  by (simp add: and_then_def ret_def fun_eq_iff)

lemma and_then_throw [simp]: "and_then (throw e) f = throw e"
  by (simp add: and_then_def throw_def fun_eq_iff)

lemma and_then_read [simp]: "and_then (read_state g) f s = f (g s) s"
  by (simp add: and_then_def read_state_def)

lemma and_then_assoc: "and_then (and_then m f) g = and_then m (\<lambda>x. and_then (f x) g)"
  by (auto simp: and_then_def fun_eq_iff split: prod.splits sum.splits)

text \<open>Inversion of a successful and of a failed sequence.\<close>

lemma and_then_InrE:
  assumes "and_then m f s = (Inr y, s'')"
  obtains x s' where "m s = (Inr x, s')" and "f x s' = (Inr y, s'')"
  using assms by (auto simp: and_then_def split: prod.splits sum.splits)

lemma and_then_InlE:
  assumes "and_then m f s = (Inl e, s'')"
  obtains (first) "m s = (Inl e, s'')"
    | (later) x s' where "m s = (Inr x, s')" and "f x s' = (Inl e, s'')"
  using assms by (auto simp: and_then_def split: prod.splits sum.splits)


section \<open>Rows of a table\<close>

text \<open>
  A table is the list of its rows in insertion order. \<open>patch_rows\<close> is
  \<open>UPDATE ... SET ... WHERE\<close>; \<open>insert_row\<close> fails when a row clashes with the
  new one under the table's unique constraint.
\<close>

definition patch_rows :: "('r \<Rightarrow> bool) \<Rightarrow> ('r \<Rightarrow> 'r) \<Rightarrow> 'r list \<Rightarrow> 'r list" where
  "patch_rows p f rows = map (\<lambda>r. if p r then f r else r) rows"

definition insert_row ::
  "string \<Rightarrow> ('r \<Rightarrow> 'r \<Rightarrow> bool) \<Rightarrow> 'r \<Rightarrow> 'r list \<Rightarrow> error + 'r list" where
  "insert_row constraint clash r rows =
     (if \<exists>r' \<in> set rows. clash r r' then Inl (UniqueViolation constraint)
      else Inr (rows @ [r]))"

lemma patch_rows_length [simp]: "length (patch_rows p f rows) = length rows"
  by (simp add: patch_rows_def)

lemma patch_rows_Nil [simp]: "patch_rows p f [] = []"
  by (simp add: patch_rows_def)

lemma patch_rows_Cons [simp]:
  "patch_rows p f (r # rows) = (if p r then f r else r) # patch_rows p f rows"
  by (simp add: patch_rows_def)

lemma patch_rows_none: "\<forall>r \<in> set rows. \<not> p r \<Longrightarrow> patch_rows p f rows = rows"
  by (induction rows) auto

lemma set_patch_rows: "set (patch_rows p f rows) = (\<lambda>r. if p r then f r else r) ` set rows"
  by (simp add: patch_rows_def)

lemma patch_rows_map_key:
  "(\<And>r. p r \<Longrightarrow> key (f r) = key r) \<Longrightarrow> map key (patch_rows p f rows) = map key rows"
  by (induction rows) auto

lemma find_patch_rows:
  "(\<And>r. p r \<Longrightarrow> q (f r) = q r) \<Longrightarrow>
   find q (patch_rows p f rows) = map_option (\<lambda>r. if p r then f r else r) (find q rows)"
  by (induction rows) auto

lemma find_append: "find q (xs @ ys) = (case find q xs of None \<Rightarrow> find q ys | Some x \<Rightarrow> Some x)"
  by (induction xs) auto

lemma find_SomeD: "find q xs = Some x \<Longrightarrow> x \<in> set xs \<and> q x"
  by (induction xs) (auto split: if_splits)

lemma find_None_iff_all: "find q xs = None \<longleftrightarrow> (\<forall>x \<in> set xs. \<not> q x)"
  by (induction xs) auto

lemma insert_row_Inr [row_simps]:
  "insert_row c clash r rows = Inr rows' \<longleftrightarrow> rows' = rows @ [r] \<and> (\<forall>r' \<in> set rows. \<not> clash r r')"
  by (auto simp: insert_row_def)

text \<open>Looking up a row by a key that the rows do not share.\<close>

lemma find_by_key: "distinct (map f xs) \<Longrightarrow> x \<in> set xs \<Longrightarrow> List.find (\<lambda>y. f y = f x) xs = Some x"
  by (induction xs) (auto simp: image_iff)

end
