(* ===== verification/JsNumber.thy ===== *)
theory JsNumber
  imports Prelude Complex_Main
begin

text \<open>
  JavaScript numbers: IEEE 754 binary64 values as exact rationals with the three special
  values (the sign of a zero is not kept: no operation of the program can observe it).
  \<open>round_double\<close> rounds an exact result to the nearest double, ties to even, and
  overflows to an infinity; the arithmetic operators round the exact rational result.
\<close>

datatype js_number = JsNaN | PosInf | NegInf | Fin rat


section \<open>Rounding to binary64\<close>

definition pow2 :: "int \<Rightarrow> rat" where
  "pow2 e = (if 0 \<le> e then 2 ^ nat e else 1 / 2 ^ nat (- e))"

function bit_len :: "int \<Rightarrow> nat" where
  "bit_len n = (if n \<le> 0 then 0 else Suc (bit_len (n div 2)))"
  by pat_completeness auto
termination
  by (relation "measure nat") auto

declare bit_len.simps [simp del]

text \<open>The exponent of the leading binary digit of a positive rational.\<close>

definition lead_exp :: "rat \<Rightarrow> int" where
  "lead_exp x =
     (let (n, d) = quotient_of x;
          k = int (bit_len n) - int (bit_len d)
      in if pow2 k \<le> x then k else k - 1)"

definition round_half_even :: "rat \<Rightarrow> int" where
  "round_half_even y =
     (let f = \<lfloor>y\<rfloor>; r = y - of_int f
      in if r < 1 / 2 then f
         else if 1 / 2 < r then f + 1
         else if even f then f else f + 1)"

text \<open>Position of the last binary digit a double keeps: 53 digits, or the subnormal grid.\<close>

definition unit_exp :: "rat \<Rightarrow> int" where
  "unit_exp x = max (- 1074) (lead_exp x - 52)"

definition round_double :: "rat \<Rightarrow> js_number" where
  "round_double x =
     (if x = 0 then Fin 0
      else let q = unit_exp \<bar>x\<bar>;
               v = of_int (round_half_even (\<bar>x\<bar> / pow2 q)) * pow2 q
           in if pow2 1024 \<le> v then (if 0 < x then PosInf else NegInf)
              else Fin (if 0 < x then v else - v))"


section \<open>Operators\<close>

fun js_neg :: "js_number \<Rightarrow> js_number" where
  "js_neg JsNaN = JsNaN"
| "js_neg PosInf = NegInf"
| "js_neg NegInf = PosInf"
| "js_neg (Fin x) = Fin (- x)"

fun js_add :: "js_number \<Rightarrow> js_number \<Rightarrow> js_number" where
  "js_add (Fin x) (Fin y) = round_double (x + y)"
| "js_add JsNaN _ = JsNaN"
| "js_add _ JsNaN = JsNaN"
| "js_add PosInf NegInf = JsNaN"
| "js_add NegInf PosInf = JsNaN"
| "js_add PosInf _ = PosInf"
| "js_add _ PosInf = PosInf"
| "js_add NegInf _ = NegInf"
| "js_add _ NegInf = NegInf"

definition js_sub :: "js_number \<Rightarrow> js_number \<Rightarrow> js_number" where
  "js_sub x y = js_add x (js_neg y)"

definition js_scale_inf :: "js_number \<Rightarrow> rat \<Rightarrow> js_number" where
  "js_scale_inf i y = (if y = 0 then JsNaN else if 0 < y then i else js_neg i)"

fun js_mul :: "js_number \<Rightarrow> js_number \<Rightarrow> js_number" where
  "js_mul (Fin x) (Fin y) = round_double (x * y)"
| "js_mul JsNaN _ = JsNaN"
| "js_mul _ JsNaN = JsNaN"
| "js_mul PosInf (Fin y) = js_scale_inf PosInf y"
| "js_mul NegInf (Fin y) = js_scale_inf NegInf y"
| "js_mul (Fin x) PosInf = js_scale_inf PosInf x"
| "js_mul (Fin x) NegInf = js_scale_inf NegInf x"
| "js_mul PosInf y = y"
| "js_mul NegInf y = js_neg y"

text \<open>Division, as far as the program divides: by a non-zero finite constant.\<close>

fun js_div_const :: "js_number \<Rightarrow> rat \<Rightarrow> js_number" where
  "js_div_const (Fin x) c = round_double (x / c)"
| "js_div_const JsNaN c = JsNaN"
| "js_div_const PosInf c = js_scale_inf PosInf c"
| "js_div_const NegInf c = js_scale_inf NegInf c"

text \<open>Relational operators are false on NaN; \<open>===\<close> on numbers likewise.\<close>

fun js_less :: "js_number \<Rightarrow> js_number \<Rightarrow> bool" where
  "js_less (Fin x) (Fin y) \<longleftrightarrow> x < y"
| "js_less JsNaN _ \<longleftrightarrow> False"
| "js_less _ JsNaN \<longleftrightarrow> False"
| "js_less NegInf NegInf \<longleftrightarrow> False"
| "js_less NegInf _ \<longleftrightarrow> True"
| "js_less _ NegInf \<longleftrightarrow> False"
| "js_less PosInf _ \<longleftrightarrow> False"
| "js_less (Fin x) PosInf \<longleftrightarrow> True"

definition js_eq :: "js_number \<Rightarrow> js_number \<Rightarrow> bool" where
  "js_eq x y \<longleftrightarrow> x \<noteq> JsNaN \<and> x = y"

definition js_le :: "js_number \<Rightarrow> js_number \<Rightarrow> bool" where
  "js_le x y \<longleftrightarrow> js_less x y \<or> js_eq x y"

fun is_finite :: "js_number \<Rightarrow> bool" where
  "is_finite (Fin x) \<longleftrightarrow> True"
| "is_finite _ \<longleftrightarrow> False"

definition rat_trunc :: "rat \<Rightarrow> int" where
  "rat_trunc x = (if 0 \<le> x then \<lfloor>x\<rfloor> else - \<lfloor>- x\<rfloor>)"

text \<open>\<open>Math.round\<close>: to the nearest integer, ties upwards.\<close>

fun js_round :: "js_number \<Rightarrow> js_number" where
  "js_round (Fin x) = Fin (of_int \<lfloor>x + 1 / 2\<rfloor>)"
| "js_round v = v"


section \<open>Integers below two to the 53 are exact\<close>

lemma bit_len_bounds: "0 < n \<Longrightarrow> 2 ^ (bit_len n - 1) \<le> n \<and> n < 2 ^ bit_len n \<and> 0 < bit_len n"
proof (induction n rule: bit_len.induct)
  case (1 n)
  show ?case
  proof (cases "n = 1")
    case True
    then show ?thesis by (simp add: bit_len.simps)
  next
    case False
    with \<open>0 < n\<close> have half: "0 < n div 2" by linarith
    have s: "bit_len n = Suc (bit_len (n div 2))"
      using \<open>0 < n\<close> by (subst bit_len.simps) simp
    from 1 half have ih: "2 ^ (bit_len (n div 2) - 1) \<le> n div 2 \<and> n div 2 < 2 ^ bit_len (n div 2)"
      and pos: "0 < bit_len (n div 2)" by auto
    have "(2::int) ^ bit_len (n div 2) = 2 * 2 ^ (bit_len (n div 2) - 1)"
      using pos by (simp add: power_eq_if)
    with ih have "2 ^ bit_len (n div 2) \<le> n \<and> n < 2 * 2 ^ bit_len (n div 2)" by linarith
    then show ?thesis by (simp add: s)
  qed
qed

lemma bit_len_le:
  assumes "n < 2 ^ k"
  shows "bit_len n \<le> k"
proof (rule ccontr)
  assume "\<not> bit_len n \<le> k"
  then have k: "k \<le> bit_len n - 1" and "0 < bit_len n" by auto
  then have pos: "0 < n" by (metis bit_len.simps less_irrefl not_le)
  from k have "(2::int) ^ k \<le> 2 ^ (bit_len n - 1)" by (intro power_increasing) auto
  also have "\<dots> \<le> n" using bit_len_bounds[OF pos] by blast
  finally show False using assms by simp
qed

lemma lead_exp_int:
  assumes "0 < n"
  shows "lead_exp (of_int n) = int (bit_len n) - 1"
proof -
  have one: "bit_len 1 = Suc 0" by (simp add: bit_len.simps)
  have b: "2 ^ (bit_len n - 1) \<le> n" "0 < bit_len n" using bit_len_bounds[OF assms] by auto
  from b(1) have "(of_int (2 ^ (bit_len n - 1)) :: rat) \<le> of_int n" by (simp only: of_int_le_iff)
  moreover have "nat (int (bit_len n) - 1) = bit_len n - 1" by simp
  ultimately have "pow2 (int (bit_len n) - 1) \<le> of_int n"
    using b(2) by (simp add: pow2_def)
  then show ?thesis by (simp add: lead_exp_def one)
qed

lemma round_half_even_int [simp]: "round_half_even (of_int i) = i"
  by (simp add: round_half_even_def)

lemma round_double_pos_int:
  assumes "0 < n" and "n < 2 ^ 53"
  shows "round_double (of_int n) = Fin (of_int n)"
proof -
  define u where "u = nat (52 - (int (bit_len n) - 1))"
  have b: "bit_len n \<le> 53" using bit_len_le[OF assms(2)] .
  have ue: "unit_exp (of_int n) = - int u"
    using assms(1) b by (simp add: unit_exp_def lead_exp_int u_def)
  have p: "pow2 (- int u) = 1 / 2 ^ u" by (simp add: pow2_def)
  have "of_int n / pow2 (- int u) = (of_int (n * 2 ^ u) :: rat)" by (simp add: p)
  then have v: "of_int (round_half_even (of_int n / pow2 (- int u))) * pow2 (- int u) = of_int n"
    by (simp only: round_half_even_int) (simp add: p)
  have "n < 2 ^ 1024" using assms(2) by simp
  then have "(of_int n :: rat) < of_int (2 ^ 1024)" by (simp only: of_int_less_iff)
  then have lt: "\<not> pow2 1024 \<le> of_int n" by (simp add: pow2_def)
  show ?thesis using assms(1) lt by (simp add: round_double_def ue v)
qed

lemma round_double_uminus: "round_double (- x) = js_neg (round_double x)"
  by (auto simp: round_double_def Let_def)

lemma round_double_int:
  assumes "\<bar>i\<bar> < 2 ^ 53"
  shows "round_double (of_int i) = Fin (of_int i)"
proof -
  consider "i = 0" | "0 < i" | "0 < - i" by linarith
  then show ?thesis
  proof cases
    case 1
    then show ?thesis by (simp add: round_double_def)
  next
    case 2
    with assms show ?thesis by (simp add: round_double_pos_int)
  next
    case 3
    with assms have "round_double (of_int (- i)) = Fin (of_int (- i))"
      by (intro round_double_pos_int) auto
    then show ?thesis using round_double_uminus[of "of_int (- i)"] by simp
  qed
qed

end
