(* ===== verification/JsValue.thy ===== *)
theory JsValue
  imports JsNumber "HOL-Library.AList"
begin

text \<open>
  JSON values, as they arrive in workflow documents, signal payloads and HTTP responses.
  An object is its list of members in insertion order; \<open>undefined\<close> is \<open>None\<close> of
  an option. \<open>obj_get\<close> reads a property and \<open>obj_set\<close> assigns one, in place when
  the property exists and at the end otherwise.
\<close>

datatype json =
    JNull
  | JBool bool
  | JNum js_number
  | JStr string
  | JArr "json list"
  | JObj "(string \<times> json) list"

type_synonym json_object = "(string \<times> json) list"

definition obj_get :: "(string \<times> 'v) list \<Rightarrow> string \<Rightarrow> 'v option" where
  "obj_get = map_of"

definition obj_set :: "string \<Rightarrow> 'v \<Rightarrow> (string \<times> 'v) list \<Rightarrow> (string \<times> 'v) list" where
  "obj_set = AList.update"

definition obj_delete :: "string \<Rightarrow> (string \<times> 'v) list \<Rightarrow> (string \<times> 'v) list" where
  "obj_delete k o' = filter (\<lambda>(k', _). k' \<noteq> k) o'"

text \<open>The object spread \<open>{ ...a, ...b }\<close>.\<close>

definition obj_spread :: "(string \<times> 'v) list \<Rightarrow> (string \<times> 'v) list \<Rightarrow> (string \<times> 'v) list" where
  "obj_spread a b = fold (\<lambda>(k, v). obj_set k v) b a"

text \<open>An optional chain \<open>o?.k\<close> on an object that may be undefined.\<close>

definition opt_get :: "(string \<times> 'v) list option \<Rightarrow> string \<Rightarrow> 'v option" where
  "opt_get o' k = (case o' of None \<Rightarrow> None | Some m \<Rightarrow> obj_get m k)"

lemma obj_get_Nil [simp]: "obj_get [] k = None"
  by (simp add: obj_get_def)

lemma obj_get_Cons [simp]: "obj_get ((k', v) # m) k = (if k = k' then Some v else obj_get m k)"
  by (auto simp: obj_get_def)

lemma obj_get_set [simp]: "obj_get (obj_set k v m) k' = (if k' = k then Some v else obj_get m k')"
  by (simp add: obj_get_def obj_set_def update_conv')

lemma obj_get_delete [simp]: "obj_get (obj_delete k m) k' = (if k' = k then None else obj_get m k')"
  by (induction m) (auto simp: obj_delete_def)

lemma opt_get_simps [simp]: "opt_get None k = None" "opt_get (Some m) k = obj_get m k"
  by (simp_all add: opt_get_def)

lemma obj_get_spread:
  "distinct (map fst b) \<Longrightarrow>
   obj_get (obj_spread a b) k = (case obj_get b k of None \<Rightarrow> obj_get a k | Some v \<Rightarrow> Some v)"
proof (induction b arbitrary: a)
  case Nil
  then show ?case by (simp add: obj_spread_def)
next
  case (Cons p b)
  obtain k' v where p: "p = (k', v)" by force
  have "obj_spread a (p # b) = obj_spread (obj_set k' v a) b" by (simp add: obj_spread_def p)
  moreover have "obj_get b k' = None"
    using Cons.prems by (auto simp: p obj_get_def map_of_eq_None_iff)
  ultimately show ?case using Cons by (auto simp: p split: option.splits)
qed

lemma obj_set_distinct: "distinct (map fst m) \<Longrightarrow> distinct (map fst (obj_set k v m))"
  by (simp add: obj_set_def distinct_update)

end
