(* ===== verification/JsDate.thy ===== *)
theory JsDate
  imports Prelude
begin

text \<open>
  JavaScript dates. An \<open>instant\<close> is a time value: milliseconds since 1970-01-01 UTC.
  \<open>to_iso\<close> is \<open>Date.prototype.toISOString\<close> (\<open>None\<close> where it throws a
  RangeError), \<open>date_parse\<close> is \<open>Date.parse\<close> and the string constructor of
  \<open>Date\<close> (\<open>None\<close> is NaN). The date-time string format of the language standard is
  read by \<open>iso_parse\<close>; a string outside that format, or one that names local time,
  is left to the parameter \<open>host\<close>, the engine's own reading of it.
  The main fact is the round trip \<open>date_parse_to_iso\<close>.
\<close>

type_synonym instant = int
type_synonym host_parse = "string \<Rightarrow> instant option"

definition ms_per_day :: int where
  "ms_per_day = 86400000"

definition max_time :: int where
  "max_time = 8640000000000000"

text \<open>The abstract operation TimeClip: \<open>None\<close> is an invalid date.\<close>

definition time_clip :: "int \<Rightarrow> instant option" where
  "time_clip t = (if \<bar>t\<bar> \<le> max_time then Some t else None)"


section \<open>The proleptic Gregorian calendar\<close>

text \<open>
  Days are counted in eras of 400 years starting on the first of March, so that the leap
  day is the last day of a year; month 0 is March.
\<close>

definition day_of_era_year :: "int \<Rightarrow> int" where
  "day_of_era_year y = 365 * y + y div 4 - y div 100"

definition month_start :: "int \<Rightarrow> int" where
  "month_start m = (153 * m + 2) div 5"

definition days_from_civil :: "int \<Rightarrow> int \<Rightarrow> int \<Rightarrow> int" where
  "days_from_civil y m d =
     (let y' = (if m \<le> 2 then y - 1 else y);
          m' = (if m \<le> 2 then m + 9 else m - 3)
      in (y' div 400) * 146097 + day_of_era_year (y' mod 400) + month_start m' + d - 1 - 719468)"

definition era_year :: "int \<Rightarrow> int" where
  "era_year doe =
     (let c = min 3 (doe div 36524); r = doe - 36524 * c;
          q = min 24 (r div 1461); s = r - 1461 * q
      in 100 * c + 4 * q + min 3 (s div 365))"

definition civil_from_days :: "int \<Rightarrow> int \<times> int \<times> int" where
  "civil_from_days z =
     (let z' = z + 719468; era = z' div 146097; doe = z' mod 146097;
          yoe = era_year doe; doy = doe - day_of_era_year yoe;
          m' = (5 * doy + 2) div 153; d = doy - month_start m' + 1;
          m = (if m' < 10 then m' + 3 else m' - 9)
      in (yoe + era * 400 + (if m \<le> 2 then 1 else 0), m, d))"

lemma era_year_split:
  assumes "0 \<le> doe" and "doe < 146097"
  obtains c q y where "era_year doe = 100 * c + 4 * q + y"
    and "0 \<le> c" "c \<le> 3" "0 \<le> q" "q \<le> 24" "0 \<le> y" "y \<le> 3"
    and "day_of_era_year (era_year doe) = 36524 * c + 1461 * q + 365 * y"
    and "0 \<le> doe - (36524 * c + 1461 * q + 365 * y)"
    and "doe - (36524 * c + 1461 * q + 365 * y) \<le> 365"
proof -
  define c where "c = min 3 (doe div 36524)"
  define r where "r = doe - 36524 * c"
  define q where "q = min 24 (r div 1461)"
  define s where "s = r - 1461 * q"
  define y where "y = min 3 (s div 365)"
  have c: "0 \<le> c" "c \<le> 3" using assms by (auto simp: c_def)
  have r: "0 \<le> r" "r \<le> 36524" using assms unfolding r_def c_def by linarith+
  have q: "0 \<le> q" "q \<le> 24" using r by (auto simp: q_def)
  have s: "0 \<le> s" "s \<le> 1460" using r unfolding s_def q_def by linarith+
  have y: "0 \<le> y" "y \<le> 3" using s by (auto simp: y_def)
  have d: "0 \<le> s - 365 * y" "s - 365 * y \<le> 365" using s unfolding y_def by linarith+
  have e: "era_year doe = 100 * c + 4 * q + y"
    by (simp add: era_year_def Let_def c_def r_def q_def s_def y_def)
  have "(100 * c + 4 * q + y) div 4 = 25 * c + q" and "(100 * c + 4 * q + y) div 100 = c"
    using q y by linarith+
  then have "day_of_era_year (era_year doe) = 36524 * c + 1461 * q + 365 * y"
    by (simp add: e day_of_era_year_def)
  with that e c q y d show thesis by (simp add: r_def s_def)
qed

lemma month_length:
  assumes "0 \<le> doy" and "doy \<le> 365"
  shows "1 \<le> doy - month_start ((5 * doy + 2) div 153) + 1"
    and "doy - month_start ((5 * doy + 2) div 153) + 1 \<le> 31"
proof -
  define m where "m = (5 * doy + 2) div 153"
  have "0 \<le> m" "m \<le> 11" using assms unfolding m_def by linarith+
  then have "m \<in> {0, 1, 2, 3, 4, 5, 6, 7, 8, 9, 10, 11}"
    unfolding insert_iff empty_iff by presburger
  moreover have "153 * m \<le> 5 * doy + 2" "5 * doy + 2 < 153 * m + 153"
    unfolding m_def by linarith+
  ultimately show "1 \<le> doy - month_start ((5 * doy + 2) div 153) + 1"
    and "doy - month_start ((5 * doy + 2) div 153) + 1 \<le> 31"
    unfolding m_def[symmetric] month_start_def by auto
qed

lemma civil_from_days_ranges:
  assumes "civil_from_days z = (y, m, d)"
  shows "1 \<le> m \<and> m \<le> 12 \<and> 1 \<le> d \<and> d \<le> 31"
    and "days_from_civil y m d = z"
proof -
  define era where "era = (z + 719468) div 146097"
  define doe where "doe = (z + 719468) mod 146097"
  define yoe where "yoe = era_year doe"
  define doy where "doy = doe - day_of_era_year yoe"
  define m' where "m' = (5 * doy + 2) div 153"
  have doe: "0 \<le> doe" "doe < 146097" by (simp_all add: doe_def)
  obtain c q x where parts: "yoe = 100 * c + 4 * q + x"
      "0 \<le> c" "c \<le> 3" "0 \<le> q" "q \<le> 24" "0 \<le> x" "x \<le> 3"
    and doy: "0 \<le> doy" "doy \<le> 365"
    using era_year_split[OF doe] by (metis yoe_def doy_def)
  have yoe: "0 \<le> yoe" "yoe < 400" using parts by linarith+
  have m': "0 \<le> m'" "m' \<le> 11" using doy unfolding m'_def by linarith+
  have d: "1 \<le> doy - month_start m' + 1" "doy - month_start m' + 1 \<le> 31"
    using month_length doy by (auto simp: m'_def)
  define b :: int where "b = (if m' < 10 then 0 else 1)"
  have ymd: "y = yoe + era * 400 + b" "m = (if m' < 10 then m' + 3 else m' - 9)"
      "d = doy - month_start m' + 1"
    using assms m' unfolding civil_from_days_def Let_def b_def
    by (auto simp: era_def doe_def yoe_def doy_def m'_def split: if_splits)
  show "1 \<le> m \<and> m \<le> 12 \<and> 1 \<le> d \<and> d \<le> 31" using ymd m' d by auto
  have shifted: "(if m \<le> 2 then y - 1 else y) = yoe + era * 400"
    "(if m \<le> 2 then m + 9 else m - 3) = m'"
    using ymd m' by (auto simp: b_def split: if_splits)
  have "(yoe + era * 400) div 400 = era" "(yoe + era * 400) mod 400 = yoe" using yoe by auto
  moreover have "era * 146097 + doe = z + 719468" by (simp add: era_def doe_def)
  ultimately show "days_from_civil y m d = z"
    unfolding days_from_civil_def Let_def shifted by (simp add: ymd(3) doy_def)
qed


section \<open>toISOString\<close>

definition iso_year :: "int \<Rightarrow> string" where
  "iso_year y =
     (if 0 \<le> y \<and> y \<le> 9999 then fixed_digits 4 (nat y)
      else (if y < 0 then CHR ''-'' else CHR ''+'') # fixed_digits 6 (nat \<bar>y\<bar>))"

definition iso_time :: "int \<Rightarrow> string" where
  "iso_time ms =
     fixed_digits 2 (nat (ms div 3600000)) @ CHR '':'' #
     fixed_digits 2 (nat (ms div 60000 mod 60)) @ CHR '':'' #
     fixed_digits 2 (nat (ms div 1000 mod 60)) @ CHR ''.'' #
     fixed_digits 3 (nat (ms mod 1000)) @ ''Z''"

definition iso_render :: "instant \<Rightarrow> string" where
  "iso_render t =
     (case civil_from_days (t div ms_per_day) of (y, m, d) \<Rightarrow>
        iso_year y @ CHR ''-'' # fixed_digits 2 (nat m) @ CHR ''-'' # fixed_digits 2 (nat d) @
        CHR ''T'' # iso_time (t mod ms_per_day))"

definition to_iso :: "instant \<Rightarrow> string option" where
  "to_iso t = map_option iso_render (time_clip t)"


section \<open>Date.parse\<close>

definition read_digits :: "nat \<Rightarrow> string \<Rightarrow> (int \<times> string) option" where
  "read_digits w s =
     (if length (take w s) = w \<and> list_all is_digit (take w s)
      then Some (int (digits_val 0 (take w s)), drop w s) else None)"

fun read_year :: "string \<Rightarrow> (int \<times> string) option" where
  "read_year [] = None"
| "read_year (c # s) =
     (if c = CHR ''+'' then read_digits 6 s
      else if c = CHR ''-'' then
        (case read_digits 6 s of
           Some (y, r) \<Rightarrow> if y = 0 then None else Some (- y, r)
         | None \<Rightarrow> None)
      else read_digits 4 (c # s))"

text \<open>A two-digit field after a given separator.\<close>

fun read_field :: "char \<Rightarrow> string \<Rightarrow> (int \<times> string) option" where
  "read_field sep [] = None"
| "read_field sep (c # s) = (if c = sep then read_digits 2 s else None)"

fun read_fraction :: "string \<Rightarrow> (int \<times> string) option" where
  "read_fraction [] = Some (0, [])"
| "read_fraction (c # s) = (if c = CHR ''.'' then read_digits 3 s else Some (0, c # s))"

text \<open>The offset from UTC in minutes and whether its fields are in bounds.\<close>

fun read_offset :: "string \<Rightarrow> (int \<times> bool) option" where
  "read_offset [] = None"
| "read_offset (c # s) =
     (if c = CHR ''Z'' then (if s = [] then Some (0, True) else None)
      else if c = CHR ''+'' \<or> c = CHR ''-'' then
        (case read_digits 2 s of
           Some (h, r) \<Rightarrow>
             (case read_field (CHR '':'') r of
                Some (m, []) \<Rightarrow>
                  Some ((if c = CHR ''+'' then 1 else - 1) * (60 * h + m), h \<le> 23 \<and> m \<le> 59)
              | _ \<Rightarrow> None)
         | None \<Rightarrow> None)
      else None)"

definition make_time :: "int \<Rightarrow> int \<Rightarrow> int \<Rightarrow> int \<Rightarrow> int \<Rightarrow> int \<Rightarrow> int \<Rightarrow> int \<Rightarrow> instant option" where
  "make_time y mo d h mi s ms off =
     time_clip (ms_per_day * (days_from_civil y mo 1 + d - 1)
                + 3600000 * h + 60000 * mi + 1000 * s + ms - 60000 * off)"

definition fields_ok :: "int \<Rightarrow> int \<Rightarrow> int \<Rightarrow> int \<Rightarrow> int \<Rightarrow> int \<Rightarrow> bool" where
  "fields_ok mo d h mi s ms \<longleftrightarrow>
     1 \<le> mo \<and> mo \<le> 12 \<and> 1 \<le> d \<and> d \<le> 31 \<and>
     (h \<le> 23 \<and> mi \<le> 59 \<and> s \<le> 59 \<or> h = 24 \<and> mi = 0 \<and> s = 0 \<and> ms = 0)"

text \<open>
  The result \<open>None\<close> means that the string is not in the standard's format (or is in
  local time); \<open>Some None\<close> that it is, with an element out of bounds.
\<close>

definition finish_parse ::
  "int \<Rightarrow> int \<Rightarrow> int \<Rightarrow> int \<Rightarrow> int \<Rightarrow> int \<Rightarrow> int \<Rightarrow> int \<times> bool \<Rightarrow> instant option" where
  "finish_parse y mo d h mi s ms off =
     (if fields_ok mo d h mi s ms \<and> snd off then make_time y mo d h mi s ms (fst off) else None)"

definition parse_seconds ::
  "int \<Rightarrow> int \<Rightarrow> int \<Rightarrow> int \<Rightarrow> int \<Rightarrow> string \<Rightarrow> instant option option" where
  "parse_seconds y mo d h mi r =
     (case read_field (CHR '':'') r of
        None \<Rightarrow> map_option (finish_parse y mo d h mi 0 0) (read_offset r)
      | Some (s, r1) \<Rightarrow>
          (case read_fraction r1 of
             None \<Rightarrow> None
           | Some (ms, r2) \<Rightarrow> map_option (finish_parse y mo d h mi s ms) (read_offset r2)))"

definition parse_clock :: "int \<Rightarrow> int \<Rightarrow> int \<Rightarrow> string \<Rightarrow> instant option option" where
  "parse_clock y mo d r =
     (case r of
        [] \<Rightarrow> Some (finish_parse y mo d 0 0 0 0 (0, True))
      | _ \<Rightarrow>
        (case read_field (CHR ''T'') r of
           None \<Rightarrow> None
         | Some (h, r1) \<Rightarrow>
             (case read_field (CHR '':'') r1 of
                None \<Rightarrow> None
              | Some (mi, r2) \<Rightarrow> parse_seconds y mo d h mi r2)))"

definition iso_parse :: "string \<Rightarrow> instant option option" where
  "iso_parse str =
     (case read_year str of
        None \<Rightarrow> None
      | Some (y, []) \<Rightarrow> Some (finish_parse y 1 1 0 0 0 0 (0, True))
      | Some (y, r) \<Rightarrow>
          (case read_field (CHR ''-'') r of
             None \<Rightarrow> None
           | Some (mo, r1) \<Rightarrow>
               (case read_field (CHR ''-'') r1 of
                  None \<Rightarrow> parse_clock y mo 1 r1
                | Some (d, r2) \<Rightarrow> parse_clock y mo d r2)))"

definition date_parse :: "host_parse \<Rightarrow> string \<Rightarrow> instant option" where
  "date_parse host s = (case iso_parse s of Some r \<Rightarrow> r | None \<Rightarrow> Option.bind (host s) time_clip)"


section \<open>The round trip\<close>

lemma read_digits_fixed:
  "n < 10 ^ w \<Longrightarrow> read_digits w (fixed_digits w n @ r) = Some (int n, r)"
  using fixed_digits_digits[of w n]
  by (simp add: read_digits_def list_all_iff digits_val_fixed_digits)

lemma read_field_fixed:
  "0 \<le> n \<Longrightarrow> n < 100 \<Longrightarrow> read_field c (c # fixed_digits 2 (nat n) @ r) = Some (n, r)"
  by (simp add: read_digits_fixed)

lemma read_year_iso:
  assumes "\<bar>y\<bar> < 1000000"
  shows "read_year (iso_year y @ r) = Some (y, r)"
proof (cases "0 \<le> y \<and> y \<le> 9999")
  case True
  then have n: "nat y < 10 ^ 4" by (simp add: nat_less_iff)
  have "\<exists>c s. fixed_digits 4 (nat y) = c # s \<and> is_digit c"
    using fixed_digits_digits[of 4 "nat y"] fixed_digits_length[of 4 "nat y"]
    by (cases "fixed_digits 4 (nat y)") auto
  then obtain c s where cs: "fixed_digits 4 (nat y) = c # s" and c: "is_digit c" by blast
  have "read_year (fixed_digits 4 (nat y) @ r) = read_digits 4 (fixed_digits 4 (nat y) @ r)"
    using is_digit_not_sep[OF c] by (simp add: cs)
  with True n show ?thesis by (simp add: iso_year_def read_digits_fixed)
next
  case False
  have n: "nat \<bar>y\<bar> < 10 ^ 6" using assms by (simp add: nat_less_iff)
  show ?thesis
  proof (cases "y < 0")
    case True
    then show ?thesis using n by (simp add: iso_year_def read_digits_fixed)
  next
    case neg: False
    with False show ?thesis using n by (simp add: iso_year_def read_digits_fixed)
  qed
qed

lemma clock_fields:
  "3600000 * (ms div 3600000) + 60000 * (ms div 60000 mod 60) + 1000 * (ms div 1000 mod 60)
   + ms mod 1000 = (ms :: int)"
proof -
  have q: "ms div 60000 = ms div 1000 div 60" "ms div 3600000 = ms div 1000 div 60 div 60"
    by (simp_all add: zdiv_zmult2_eq[symmetric])
  have "ms = 1000 * (ms div 1000) + ms mod 1000"
    and "ms div 1000 = 60 * (ms div 1000 div 60) + ms div 1000 mod 60"
    and "ms div 1000 div 60 = 60 * (ms div 1000 div 60 div 60) + ms div 1000 div 60 mod 60"
    by simp_all
  then show ?thesis unfolding q by linarith
qed

lemma parse_clock_fields:
  assumes "0 \<le> h" "h < 100" "0 \<le> mi" "mi < 100" "0 \<le> sec" "sec < 100" "0 \<le> ms" "ms < 1000"
  shows "parse_clock y mo d
     (CHR ''T'' # fixed_digits 2 (nat h) @ CHR '':'' # fixed_digits 2 (nat mi) @ CHR '':'' #
      fixed_digits 2 (nat sec) @ CHR ''.'' # fixed_digits 3 (nat ms) @ ''Z'')
   = Some (finish_parse y mo d h mi sec ms (0, True))"
proof -
  have f: "read_fraction (CHR ''.'' # fixed_digits 3 (nat ms) @ r) = Some (ms, r)" for r
    using assms(7,8) by (simp add: read_digits_fixed nat_less_iff)
  show ?thesis using assms(1-6)
    by (simp add: parse_clock_def parse_seconds_def read_field_fixed f
        del: read_field.simps read_fraction.simps)
qed

lemma parse_clock_iso:
  assumes ms: "0 \<le> ms" "ms < ms_per_day" and dt: "1 \<le> mo" "mo \<le> 12" "1 \<le> d" "d \<le> 31"
  shows "parse_clock y mo d (CHR ''T'' # iso_time ms) =
         Some (time_clip (ms_per_day * (days_from_civil y mo 1 + d - 1) + ms))"
proof -
  define h mi sec u where "h = ms div 3600000" and "mi = ms div 60000 mod 60"
    and "sec = ms div 1000 mod 60" and "u = ms mod 1000"
  have h: "0 \<le> h" "h \<le> 23" using ms unfolding h_def ms_per_day_def by linarith+
  have sixty: "0 \<le> x mod 60 \<and> x mod 60 \<le> 59" for x :: int by presburger
  have mi: "0 \<le> mi" "mi \<le> 59" "0 \<le> sec" "sec \<le> 59" by (simp_all add: mi_def sec_def sixty)
  have u: "0 \<le> u" "u < 1000" by (simp_all add: u_def)
  have total: "3600000 * h + 60000 * mi + 1000 * sec + u = ms"
    unfolding h_def mi_def sec_def u_def by (rule clock_fields)
  have "parse_clock y mo d (CHR ''T'' # iso_time ms) = Some (finish_parse y mo d h mi sec u (0, True))"
    unfolding iso_time_def h_def[symmetric] mi_def[symmetric] sec_def[symmetric] u_def[symmetric]
    using h mi u by (intro parse_clock_fields) auto
  moreover have "fields_ok mo d h mi sec u" using dt h mi by (simp add: fields_ok_def)
  ultimately show ?thesis using total by (simp add: finish_parse_def make_time_def add.assoc)
qed

lemma civil_year_bound:
  assumes "civil_from_days (t div ms_per_day) = (y, m, d)" and "\<bar>t\<bar> \<le> max_time"
  shows "\<bar>y\<bar> < 1000000"
proof -
  define z where "z = t div ms_per_day"
  define doe where "doe = (z + 719468) mod 146097"
  have z: "\<bar>z\<bar> \<le> 100000001" using assms(2) unfolding z_def ms_per_day_def max_time_def by linarith
  have doe: "0 \<le> doe" "doe < 146097" by (simp_all add: doe_def)
  obtain c q x where "era_year doe = 100 * c + 4 * q + x"
      "0 \<le> c" "c \<le> 3" "0 \<le> q" "q \<le> 24" "0 \<le> x" "x \<le> 3"
    using era_year_split[OF doe] by metis
  then have yoe: "0 \<le> era_year doe" "era_year doe < 400" by linarith+
  define b :: int where "b = (if m \<le> 2 then 1 else 0)"
  have "y = era_year doe + (z + 719468) div 146097 * 400 + (if m \<le> 2 then 1 else 0)"
    using assms(1) unfolding civil_from_days_def Let_def z_def[symmetric] doe_def[symmetric]
    by (metis prod.inject)
  then have b: "y = era_year doe + (z + 719468) div 146097 * 400 + b" "0 \<le> b" "b \<le> 1"
    by (simp_all add: b_def)
  have "\<bar>(z + 719468) div 146097\<bar> \<le> 700" using z by linarith
  with b yoe show ?thesis by linarith
qed

lemma iso_parse_to_iso:
  assumes "to_iso t = Some s"
  shows "iso_parse s = Some (Some t)"
proof -
  have t: "\<bar>t\<bar> \<le> max_time" and s: "s = iso_render t"
    using assms by (auto simp: to_iso_def time_clip_def split: if_splits)
  obtain y m d where ymd: "civil_from_days (t div ms_per_day) = (y, m, d)"
    using prod_cases3 by blast
  note r = civil_from_days_ranges[OF ymd]
  have y: "\<bar>y\<bar> < 1000000" using civil_year_bound[OF ymd t] .
  have ms: "0 \<le> t mod ms_per_day" "t mod ms_per_day < ms_per_day" by (simp_all add: ms_per_day_def)
  have "days_from_civil y m 1 + d - 1 = t div ms_per_day"
    using r(2) by (simp add: days_from_civil_def Let_def)
  then have "ms_per_day * (days_from_civil y m 1 + d - 1) + t mod ms_per_day = t" by simp
  moreover have "parse_clock y m d (CHR ''T'' # iso_time (t mod ms_per_day)) =
      Some (time_clip (ms_per_day * (days_from_civil y m 1 + d - 1) + t mod ms_per_day))"
    using parse_clock_iso[OF ms] r(1) by blast
  ultimately have "parse_clock y m d (CHR ''T'' # iso_time (t mod ms_per_day)) = Some (Some t)"
    using t by (simp add: time_clip_def)
  then show ?thesis using r(1)
    by (simp add: s iso_render_def ymd iso_parse_def read_year_iso[OF y] read_field_fixed
        del: read_field.simps)
qed

lemma date_parse_to_iso [simp]: "to_iso t = Some s \<Longrightarrow> date_parse host s = Some t"
  by (simp add: date_parse_def iso_parse_to_iso)

lemma to_iso_Some_iff: "(\<exists>s. to_iso t = Some s) \<longleftrightarrow> \<bar>t\<bar> \<le> max_time"
  by (auto simp: to_iso_def time_clip_def)

lemma to_iso_inj: "to_iso t = Some s \<Longrightarrow> to_iso t' = Some s \<Longrightarrow> t = t'"
  by (drule iso_parse_to_iso, drule iso_parse_to_iso) simp


text \<open>Every parsed date is a valid time value.\<close>

lemma time_clip_bound: "time_clip t = Some u \<Longrightarrow> u = t \<and> \<bar>t\<bar> \<le> max_time"
  by (simp add: time_clip_def split: if_splits)

lemma finish_parse_bound: "finish_parse y mo d h mi s ms off = Some t \<Longrightarrow> \<bar>t\<bar> \<le> max_time"
  by (auto simp: finish_parse_def make_time_def split: if_splits dest: time_clip_bound)

lemma iso_parse_bound: "iso_parse s = Some (Some t) \<Longrightarrow> \<bar>t\<bar> \<le> max_time"
  unfolding iso_parse_def parse_clock_def parse_seconds_def
  by (auto split: option.splits list.splits dest!: finish_parse_bound)

lemma date_parse_bound: "date_parse host s = Some t \<Longrightarrow> \<bar>t\<bar> \<le> max_time"
  unfolding date_parse_def
  by (auto split: option.splits dest: iso_parse_bound time_clip_bound simp: bind_eq_Some_conv)

end
