(* ===== verification/Findings.thy ===== *)
theory Findings
  imports Prelude
begin

text \<open>
  Validation findings (\<open>process.types.ts\<close>, \<open>policy.types.ts\<close>,
  \<open>workflow.types.ts\<close>, \<open>capability-reference.ts\<close>) and the verdict that the three
  validators draw from them: valid when no finding has severity \<open>fail\<close>. The locale
  \<open>validator\<close> is the contract the validators share; each of them interprets it.
\<close>

text \<open>The lifecycle statuses, the same union for processes, policies and workflows.\<close>

datatype lifecycle_status = Draft | Validated | Scheduled | Active | Paused | Retired

datatype severity = Pass | Warning | Fail

record validation_finding =
  vf_code :: string
  vf_severity :: severity
  vf_message :: string

definition severity_count :: "severity \<Rightarrow> ('a validation_finding_scheme) list \<Rightarrow> nat" where
  "severity_count sev fs = length (filter (\<lambda>f. vf_severity f = sev) fs)"

definition verdict :: "('a validation_finding_scheme) list \<Rightarrow> bool" where
  "verdict fs \<longleftrightarrow> list_all (\<lambda>f. vf_severity f \<noteq> Fail) fs"

text \<open>The severity of a check: \<open>condition ? 'pass' : 'fail'\<close>.\<close>

definition check :: "bool \<Rightarrow> severity" where
  "check b = (if b then Pass else Fail)"

lemma check_simps [simp]: "check b = Fail \<longleftrightarrow> \<not> b" "check b = Pass \<longleftrightarrow> b" "check b \<noteq> Warning"
  by (simp_all add: check_def)

lemma verdict_simps [simp]:
  "verdict []"
  "verdict (f # fs) \<longleftrightarrow> vf_severity f \<noteq> Fail \<and> verdict fs"
  "verdict (fs @ gs) \<longleftrightarrow> verdict fs \<and> verdict gs"
  by (simp_all add: verdict_def)

lemma verdict_concat [simp]: "verdict (concat fss) \<longleftrightarrow> list_all verdict fss"
  by (induction fss) auto

lemma verdict_map: "verdict (map g xs) \<longleftrightarrow> list_all (\<lambda>x. vf_severity (g x) \<noteq> Fail) xs"
  by (simp add: verdict_def list.pred_map o_def)

lemma verdict_iff_no_fail: "verdict fs \<longleftrightarrow> severity_count Fail fs = 0"
  by (induction fs) (auto simp: severity_count_def)

lemma verdict_set: "verdict fs \<longleftrightarrow> (\<forall>f \<in> set fs. vf_severity f \<noteq> Fail)"
  by (simp add: verdict_def list_all_iff)

lemma severity_count_append [simp]:
  "severity_count s (fs @ gs) = severity_count s fs + severity_count s gs"
  by (simp add: severity_count_def)

lemma severity_count_total:
  "severity_count Pass fs + severity_count Warning fs + severity_count Fail fs = length fs"
proof (induction fs)
  case (Cons f fs)
  then show ?case by (cases "vf_severity f") (auto simp: severity_count_def)
qed (simp add: severity_count_def)

locale validator =
  fixes findings_of :: "'d \<Rightarrow> ('a validation_finding_scheme) list"
    and is_valid :: "'d \<Rightarrow> bool"
  assumes is_valid_verdict: "is_valid d = verdict (findings_of d)"
begin

lemma fail_finding_blocks: "f \<in> set (findings_of d) \<Longrightarrow> vf_severity f = Fail \<Longrightarrow> \<not> is_valid d"
  by (auto simp: is_valid_verdict verdict_set)

lemma valid_iff_fail_count: "is_valid d \<longleftrightarrow> severity_count Fail (findings_of d) = 0"
  by (simp add: is_valid_verdict verdict_iff_no_fail)

lemma invalid_has_fail:
  "\<not> is_valid d \<Longrightarrow> \<exists>f \<in> set (findings_of d). vf_severity f = Fail"
  by (auto simp: is_valid_verdict verdict_set)

end

end
