(* ===== verification/SequencedLog.thy ===== *)
theory SequencedLog
  imports Prelude
begin

text \<open>
  Append-only tables whose text id ends in a number drawn from a database sequence: the
  audit trail and the event outbox. The locale \<open>sequenced_log\<close> states what the
  repositories rely on (the id of a row is a prefix, a colon and the row's sequence
  number); its lemmas show that an append never violates the unique constraint on the id
  and that the rows stay in sequence order.
\<close>

definition log_ok :: "('r \<Rightarrow> bool) \<Rightarrow> ('r \<Rightarrow> int) \<Rightarrow> int \<Rightarrow> 'r list \<Rightarrow> bool" where
  "log_ok good sq n rows \<longleftrightarrow>
     0 \<le> n \<and> list_all (\<lambda>r. good r \<and> 0 < sq r \<and> sq r \<le> n) rows \<and> sorted_wrt (<) (map sq rows)"

lemma log_ok_Nil [simp]: "log_ok good sq n [] \<longleftrightarrow> 0 \<le> n"
  by (simp add: log_ok_def)

lemma log_ok_mono: "log_ok good sq n rows \<Longrightarrow> n \<le> m \<Longrightarrow> log_ok good sq m rows"
  unfolding log_ok_def list_all_iff by force

lemma log_ok_append:
  "log_ok good sq n rows \<Longrightarrow> good r \<Longrightarrow> sq r = n + 1 \<Longrightarrow> log_ok good sq (n + 1) (rows @ [r])"
  unfolding log_ok_def list_all_iff by (auto simp: sorted_wrt_append)

lemma log_ok_patch:
  assumes "log_ok good sq n rows"
    and "\<And>r. p r \<Longrightarrow> sq (f r) = sq r" and "\<And>r. p r \<Longrightarrow> good r \<Longrightarrow> good (f r)"
  shows "log_ok good sq n (patch_rows p f rows)"
proof -
  have "map sq (patch_rows p f rows) = map sq rows"
    using assms(2) by (rule patch_rows_map_key)
  then show ?thesis
    using assms unfolding log_ok_def list_all_iff by (auto simp: set_patch_rows)
qed

locale sequenced_log =
  fixes good :: "'r \<Rightarrow> bool" and sq :: "'r \<Rightarrow> int"
    and key :: "'r \<Rightarrow> string" and pre :: "'r \<Rightarrow> string"
  assumes key_form: "good r \<Longrightarrow> key r = pre r @ CHR '':'' # int_str (sq r)"
begin

lemma key_determines_seq: "good r \<Longrightarrow> good r' \<Longrightarrow> key r = key r' \<Longrightarrow> sq r = sq r'"
  using split_at_last[of "pre r" "CHR '':''" "int_str (sq r)" "pre r'" "int_str (sq r')"]
  by (simp add: key_form)

lemma append_never_clashes:
  assumes "log_ok good sq n rows" and "good r" and "sq r = n + 1"
  shows "insert_row c (\<lambda>a b. key a = key b) r rows = Inr (rows @ [r])"
proof -
  have "key r \<noteq> key r'" if "r' \<in> set rows" for r'
    using that assms key_determines_seq[of r r'] by (auto simp: log_ok_def list_all_iff)
  then show ?thesis by (auto simp: insert_row_def)
qed

lemma distinct_keys: "log_ok good sq n rows \<Longrightarrow> distinct (map key rows)"
proof (induction rows)
  case (Cons r rows)
  have "key r \<noteq> key r'" if "r' \<in> set rows" for r'
    using that Cons.prems key_determines_seq[of r r'] by (auto simp: log_ok_def list_all_iff)
  moreover have "log_ok good sq n rows" using Cons.prems by (simp add: log_ok_def)
  ultimately show ?case using Cons.IH by auto
qed simp

end

end
