(* ===== verification/Outbox.thy ===== *)
theory Outbox
  imports JsValue JsDate Findings SequencedLog "HOL-Library.Product_Lexorder" "HOL-Library.Multiset"
begin

text \<open>
  The durable event outbox: the data of \<open>src/src/events/process-event.types.ts\<close>, the
  table of \<open>entities/process-event-outbox.entity.ts\<close> and the operations of
  \<open>process-event-outbox.repository.ts\<close>. The state is the table (its rows in insertion
  order) and the last value of its sequence; the operations are polymorphic in the rest of
  the database, so they run inside the transactions of the process registry. Database
  times are in microseconds, JavaScript times in milliseconds.
\<close>

section \<open>Data\<close>

datatype process_event_type =
  ProcessCreated | ProcessValidated | ProcessScheduled | ProcessPublished | ProcessPaused
| ProcessRetired

fun event_type_text :: "process_event_type \<Rightarrow> string" where
  "event_type_text ProcessCreated = ''process.created''"
| "event_type_text ProcessValidated = ''process.validated''"
| "event_type_text ProcessScheduled = ''process.scheduled''"
| "event_type_text ProcessPublished = ''process.published''"
| "event_type_text ProcessPaused = ''process.paused''"
| "event_type_text ProcessRetired = ''process.retired''"

datatype delivery_state = Pending | Dispatched | Failed

datatype delivery_transport = LocalJsonOutbox | RabbitmqTopic

record lifecycle_payload =
  lp_auditAction :: string
  lp_details :: json_object

record validation_payload =
  vp_valid :: bool
  vp_validatedAt :: string
  vp_failCount :: nat
  vp_warningCount :: nat

record event_payload =
  ep_activeFrom :: "string option"
  ep_activeTo :: "string option"
  ep_lifecycle :: lifecycle_payload
  ep_validation :: "validation_payload option"

record delivery =
  dl_state :: delivery_state
  dl_transport :: delivery_transport
  dl_attempts :: int
  dl_exchange :: "string option"
  dl_routingKey :: "string option"
  dl_lastAttemptAt :: "string option"
  dl_dispatchedAt :: "string option"
  dl_error :: "string option"
  dl_missing :: "string list"

text \<open>An event without its id (\<open>Omit<ProcessEventEnvelope, 'id'>\<close>) and with it.\<close>

record event_draft =
  ev_schemaVersion :: string
  ev_type :: process_event_type
  ev_processId :: string
  ev_version :: int
  ev_status :: lifecycle_status
  ev_policyRefs :: "string list"
  ev_workflowRefs :: "string list"
  ev_campaignRefs :: "string list"
  ev_occurredAt :: string
  ev_payload :: event_payload
  ev_delivery :: delivery

record event_envelope = event_draft +
  ev_id :: string

datatype dispatch_state = ResDispatched | ResFailed | ResSkipped

record dispatch_result =
  dr_schemaVersion :: string
  dr_eventId :: string
  dr_state :: dispatch_state
  dr_transport :: delivery_transport
  dr_exchange :: string
  dr_routingKey :: string
  dr_attemptedAt :: string
  dr_error :: "string option"
  dr_blockers :: "string list"


section \<open>The table\<close>

type_synonym db_time = int

record outbox_row =
  or_sequenceNumber :: int
  or_schemaVersion :: string
  or_eventId :: string
  or_type :: process_event_type
  or_processId :: string
  or_version :: int
  or_status :: lifecycle_status
  or_policyRefs :: "string list"
  or_workflowRefs :: "string list"
  or_campaignRefs :: "string list"
  or_occurredAt :: instant
  or_payload :: event_payload
  or_delivery :: delivery
  or_deliveryState :: delivery_state
  or_dispatching :: bool
  or_updatedAt :: db_time

record outbox_db =
  ob_rows :: "outbox_row list"
  ob_seq :: int

text \<open>\<open>nextval\<close> followed by the check of the value that both repositories make.\<close>

definition checked_sequence :: "string \<Rightarrow> int \<Rightarrow> error + int" where
  "checked_sequence message v = (if v \<le> 0 then Inl (PlainError message) else Inr v)"

definition next_outbox_sequence :: "('r outbox_db_scheme, int) op" where
  "next_outbox_sequence s =
     (checked_sequence ''Failed to allocate process outbox sequence number'' (ob_seq s + 1),
      s\<lparr>ob_seq := ob_seq s + 1\<rparr>)"

text \<open>\<open>toDate\<close>: the date of an ISO string, or an error.\<close>

definition to_date :: "host_parse \<Rightarrow> string \<Rightarrow> error + instant" where
  "to_date host s =
     (case date_parse host s of
        None \<Rightarrow> Inl (PlainError (''Invalid ISO date value: '' @ s))
      | Some t \<Rightarrow> Inr t)"

text \<open>\<open>toISOString\<close>, which throws on an invalid date.\<close>

definition iso_or_throw :: "instant \<Rightarrow> error + string" where
  "iso_or_throw t =
     (case to_iso t of None \<Rightarrow> Inl (RangeError ''Invalid time value'') | Some s \<Rightarrow> Inr s)"

definition to_envelope :: "outbox_row \<Rightarrow> error + event_envelope" where
  "to_envelope r =
     (case iso_or_throw (or_occurredAt r) of
        Inl e \<Rightarrow> Inl e
      | Inr occurredAt \<Rightarrow> Inr
          \<lparr>ev_schemaVersion = or_schemaVersion r, ev_type = or_type r,
           ev_processId = or_processId r, ev_version = or_version r, ev_status = or_status r,
           ev_policyRefs = or_policyRefs r, ev_workflowRefs = or_workflowRefs r,
           ev_campaignRefs = or_campaignRefs r, ev_occurredAt = occurredAt,
           ev_payload = or_payload r, ev_delivery = or_delivery r, ev_id = or_eventId r\<rparr>)"

fun map_result :: "('a \<Rightarrow> error + 'b) \<Rightarrow> 'a list \<Rightarrow> error + 'b list" where
  "map_result f [] = Inr []"
| "map_result f (x # xs) =
     (case f x of
        Inl e \<Rightarrow> Inl e
      | Inr y \<Rightarrow> (case map_result f xs of Inl e \<Rightarrow> Inl e | Inr ys \<Rightarrow> Inr (y # ys)))"

definition event_id :: "string \<Rightarrow> int \<Rightarrow> process_event_type \<Rightarrow> int \<Rightarrow> string" where
  "event_id processId version type sequenceNumber =
     processId @ '':'' @ int_str version @ '':'' @ event_type_text type @ '':'' @
     int_str sequenceNumber"

definition save_outbox_row :: "outbox_row \<Rightarrow> ('r outbox_db_scheme, outbox_row) op" where
  "save_outbox_row r s =
     (case insert_row ''uq_bpcp_process_event_outbox_id''
             (\<lambda>a b. or_eventId a = or_eventId b) r (ob_rows s) of
        Inl e \<Rightarrow> (Inl e, s)
      | Inr rows \<Rightarrow> (Inr r, s\<lparr>ob_rows := rows\<rparr>))"

definition outbox_entity :: "event_draft \<Rightarrow> int \<Rightarrow> instant \<Rightarrow> db_time \<Rightarrow> outbox_row" where
  "outbox_entity input sequenceNumber occurredAt dbnow =
     \<lparr>or_sequenceNumber = sequenceNumber, or_schemaVersion = ev_schemaVersion input,
      or_eventId = event_id (ev_processId input) (ev_version input) (ev_type input) sequenceNumber,
      or_type = ev_type input, or_processId = ev_processId input, or_version = ev_version input,
      or_status = ev_status input, or_policyRefs = ev_policyRefs input,
      or_workflowRefs = ev_workflowRefs input, or_campaignRefs = ev_campaignRefs input,
      or_occurredAt = occurredAt, or_payload = ev_payload input, or_delivery = ev_delivery input,
      or_deliveryState = dl_state (ev_delivery input), or_dispatching = False,
      or_updatedAt = dbnow\<rparr>"

definition append_event ::
  "host_parse \<Rightarrow> db_time \<Rightarrow> event_draft \<Rightarrow> ('r outbox_db_scheme, event_envelope) op" where
  "append_event host dbnow input =
     and_then next_outbox_sequence (\<lambda>sequenceNumber.
     and_then (lift_result (to_date host (ev_occurredAt input))) (\<lambda>occurredAt.
     and_then (save_outbox_row (outbox_entity input sequenceNumber occurredAt dbnow)) (\<lambda>saved.
     lift_result (to_envelope saved))))"


section \<open>Queries\<close>

definition outbox_order :: "outbox_row list \<Rightarrow> outbox_row list" where
  "outbox_order = sort_key (\<lambda>r. (or_occurredAt r, or_sequenceNumber r))"

text \<open>A filter on the process id that is absent or empty selects every row.\<close>

definition matches_filter :: "string option \<Rightarrow> string \<Rightarrow> bool" where
  "matches_filter f v \<longleftrightarrow> (case f of None \<Rightarrow> True | Some x \<Rightarrow> x = [] \<or> x = v)"

definition list_events ::
  "string option \<Rightarrow> ('r outbox_db_scheme, event_envelope list) op" where
  "list_events processId s =
     (map_result to_envelope
        (outbox_order (filter (\<lambda>r. matches_filter processId (or_processId r)) (ob_rows s))), s)"

definition bound_limit :: "js_number \<Rightarrow> int" where
  "bound_limit limit =
     (case limit of Fin q \<Rightarrow> max 1 (min (rat_trunc q) 500) | _ \<Rightarrow> 100)"

definition list_undispatched ::
  "js_number \<Rightarrow> ('r outbox_db_scheme, event_envelope list) op" where
  "list_undispatched limit s =
     (map_result to_envelope
        (take (nat (bound_limit limit))
           (outbox_order (filter (\<lambda>r. or_deliveryState r \<noteq> Dispatched) (ob_rows s)))), s)"

record replay_filter =
  rp_limit :: js_number
  rp_processId :: "string option"
  rp_eventType :: "string option"

definition list_dispatched_for_replay ::
  "replay_filter \<Rightarrow> ('r outbox_db_scheme, event_envelope list) op" where
  "list_dispatched_for_replay f s =
     (map_result to_envelope
        (take (nat (bound_limit (rp_limit f)))
           (outbox_order
             (filter (\<lambda>r. or_deliveryState r = Dispatched \<and>
                        matches_filter (rp_processId f) (or_processId r) \<and>
                        matches_filter (rp_eventType f) (event_type_text (or_type r)))
                (ob_rows s)))), s)"

definition count_by_state :: "('r outbox_db_scheme, nat \<times> nat \<times> nat) op" where
  "count_by_state s =
     (let n = (\<lambda>st. length (filter (\<lambda>r. or_deliveryState r = st) (ob_rows s)))
      in (Inr (n Pending, n Dispatched, n Failed), s))"


section \<open>Claiming rows for dispatch\<close>

definition claim_stale_microseconds :: int where
  "claim_stale_microseconds = 300 * 1000000"

definition claimable :: "db_time \<Rightarrow> outbox_row \<Rightarrow> bool" where
  "claimable dbnow r \<longleftrightarrow>
     or_deliveryState r \<noteq> Dispatched \<and>
     (\<not> or_dispatching r \<or> or_updatedAt r \<le> dbnow - claim_stale_microseconds)"

definition claim_candidates :: "db_time \<Rightarrow> js_number \<Rightarrow> outbox_row list \<Rightarrow> outbox_row list" where
  "claim_candidates dbnow limit rows =
     take (nat (bound_limit limit)) (outbox_order (filter (claimable dbnow) rows))"

text \<open>
  What the driver hands back for a statement with \<open>RETURNING\<close>: an array whose elements
  are rows, or (for an UPDATE) the two elements rows and count. The shape is a parameter
  \<open>returning\<close> of the claim.
\<close>

datatype 'row raw = RawRow 'row | RawRows "'row list" | RawCount nat

definition flat_returning :: "'row list \<Rightarrow> 'row raw list" where
  "flat_returning rows = map RawRow rows"

definition tuple_returning :: "'row list \<Rightarrow> 'row raw list" where
  "tuple_returning rows = [RawRows rows, RawCount (length rows)]"

text \<open>
  An element that is not a row has none of the columns: each of them reads as undefined.
  \<open>String(undefined)\<close> is a text, an absent array is empty, and the three reads below
  throw. The columns of a row have the types of the table; in particular \<open>occurredAt\<close> is
  a date, so that the branch of \<open>toIsoString\<close> for texts is not taken.
\<close>

fun row_of :: "'row raw \<Rightarrow> 'row option" where
  "row_of (RawRow r) = Some r"
| "row_of (RawRows rs) = None"
| "row_of (RawCount n) = None"

definition column_text :: "('row \<Rightarrow> string) \<Rightarrow> 'row option \<Rightarrow> string" where
  "column_text column row = (case row of None \<Rightarrow> ''undefined'' | Some r \<Rightarrow> column r)"

definition read_string_array :: "string list option \<Rightarrow> string list" where
  "read_string_array v = (case v of None \<Rightarrow> [] | Some xs \<Rightarrow> xs)"

definition to_iso_string :: "instant option \<Rightarrow> error + string" where
  "to_iso_string v =
     (case v of
        Some t \<Rightarrow> iso_or_throw t
      | None \<Rightarrow> Inl (PlainError (''Unable to map outbox occurredAt value: '' @ ''undefined'')))"

definition read_payload :: "event_payload option \<Rightarrow> error + event_payload" where
  "read_payload v =
     (case v of
        None \<Rightarrow> Inl (PlainError ''Outbox payload column contains non-object JSON'')
      | Some payload \<Rightarrow> Inr payload)"

definition read_delivery :: "delivery option \<Rightarrow> error + delivery" where
  "read_delivery v =
     (case v of
        None \<Rightarrow> Inl (PlainError ''Outbox delivery column contains non-object JSON'')
      | Some d \<Rightarrow> Inr d)"

text \<open>
  The columns are read in the order of the source. The three columns with a type of their
  own (type, version, status) are read last: reading them never throws, and when the
  others have been read there is a row.
\<close>

definition from_raw_row :: "outbox_row raw \<Rightarrow> error + event_envelope" where
  "from_raw_row raw =
     (let row = row_of raw in
      case to_iso_string (map_option or_occurredAt row) of Inl e \<Rightarrow> Inl e | Inr occurredAt \<Rightarrow>
      case read_payload (map_option or_payload row) of Inl e \<Rightarrow> Inl e | Inr payload \<Rightarrow>
      case read_delivery (map_option or_delivery row) of Inl e \<Rightarrow> Inl e | Inr d \<Rightarrow>
      Inr \<lparr>ev_schemaVersion = column_text or_schemaVersion row, ev_type = or_type (the row),
           ev_processId = column_text or_processId row, ev_version = or_version (the row),
           ev_status = or_status (the row),
           ev_policyRefs = read_string_array (map_option or_policyRefs row),
           ev_workflowRefs = read_string_array (map_option or_workflowRefs row),
           ev_campaignRefs = read_string_array (map_option or_campaignRefs row),
           ev_occurredAt = occurredAt, ev_payload = payload, ev_delivery = d,
           ev_id = column_text or_eventId row\<rparr>)"

lemma from_raw_row_simps [simp]:
  "from_raw_row (RawRow r) = to_envelope r"
  "from_raw_row (RawRows rs) = Inl (PlainError ''Unable to map outbox occurredAt value: undefined'')"
  "from_raw_row (RawCount n) = Inl (PlainError ''Unable to map outbox occurredAt value: undefined'')"
  by (simp_all add: from_raw_row_def to_envelope_def to_iso_string_def read_payload_def
      read_delivery_def column_text_def read_string_array_def Let_def split: sum.splits)

definition claim_rows :: "db_time \<Rightarrow> string list \<Rightarrow> outbox_row list \<Rightarrow> outbox_row list" where
  "claim_rows dbnow ids rows =
     patch_rows (\<lambda>r. or_eventId r \<in> set ids)
       (\<lambda>r. r\<lparr>or_dispatching := True, or_updatedAt := dbnow\<rparr>) rows"

definition claim_undispatched ::
  "(outbox_row list \<Rightarrow> outbox_row raw list) \<Rightarrow> db_time \<Rightarrow> js_number \<Rightarrow>
   ('r outbox_db_scheme, event_envelope list) op" where
  "claim_undispatched returning dbnow limit s =
     (let ids = map or_eventId (claim_candidates dbnow limit (ob_rows s));
          rows = claim_rows dbnow ids (ob_rows s)
      in (map_result from_raw_row (returning (filter (\<lambda>r. or_eventId r \<in> set ids) rows)),
          s\<lparr>ob_rows := rows\<rparr>))"


section \<open>Recording a result and releasing a claim\<close>

definition dispatch_delivery :: "delivery \<Rightarrow> dispatch_result \<Rightarrow> delivery" where
  "dispatch_delivery d res =
     (case dr_state res of
        ResDispatched \<Rightarrow>
          \<lparr>dl_state = Dispatched, dl_transport = dr_transport res, dl_attempts = dl_attempts d + 1,
           dl_exchange = Some (dr_exchange res), dl_routingKey = Some (dr_routingKey res),
           dl_lastAttemptAt = Some (dr_attemptedAt res),
           dl_dispatchedAt = Some (dr_attemptedAt res), dl_error = None, dl_missing = []\<rparr>
      | ResFailed \<Rightarrow>
          d\<lparr>dl_state := Failed, dl_transport := dr_transport res,
            dl_attempts := dl_attempts d + 1, dl_exchange := Some (dr_exchange res),
            dl_routingKey := Some (dr_routingKey res),
            dl_lastAttemptAt := Some (dr_attemptedAt res), dl_error := dr_error res,
            dl_missing := dr_blockers res\<rparr>
      | ResSkipped \<Rightarrow> d)"

definition update_delivery ::
  "string \<Rightarrow> db_time \<Rightarrow> delivery \<Rightarrow> 'r outbox_db_scheme \<Rightarrow> 'r outbox_db_scheme" where
  "update_delivery eventId dbnow d s =
     s\<lparr>ob_rows := patch_rows (\<lambda>r. or_eventId r = eventId)
         (\<lambda>r. r\<lparr>or_delivery := d, or_deliveryState := dl_state d, or_dispatching := False,
               or_updatedAt := dbnow\<rparr>) (ob_rows s)\<rparr>"

definition apply_dispatch_result ::
  "db_time \<Rightarrow> string \<Rightarrow> dispatch_result \<Rightarrow> ('r outbox_db_scheme, unit) op" where
  "apply_dispatch_result dbnow eventId res s =
     (case find (\<lambda>r. or_eventId r = eventId) (ob_rows s) of
        None \<Rightarrow> (Inr (), s)
      | Some entity \<Rightarrow>
          (Inr (), update_delivery eventId dbnow (dispatch_delivery (or_delivery entity) res) s))"

definition release_dispatch_claim ::
  "db_time \<Rightarrow> string \<Rightarrow> string list \<Rightarrow> ('r outbox_db_scheme, unit) op" where
  "release_dispatch_claim dbnow eventId blockers s =
     (case find (\<lambda>r. or_eventId r = eventId) (ob_rows s) of
        None \<Rightarrow> (Inr (), s)
      | Some entity \<Rightarrow>
          (Inr (), update_delivery eventId dbnow
             ((or_delivery entity)\<lparr>dl_missing :=
                (if blockers \<noteq> [] then blockers else dl_missing (or_delivery entity))\<rparr>) s))"



section \<open>The invariant of the table\<close>

text \<open>
  Every row carries the id built from its own columns, its delivery-state column repeats
  the state inside its delivery document, its occurrence time is a valid date, and the
  rows are in sequence order.
\<close>

definition outbox_row_ok :: "outbox_row \<Rightarrow> bool" where
  "outbox_row_ok r \<longleftrightarrow>
     or_eventId r = event_id (or_processId r) (or_version r) (or_type r) (or_sequenceNumber r) \<and>
     or_deliveryState r = dl_state (or_delivery r) \<and> \<bar>or_occurredAt r\<bar> \<le> max_time"

definition outbox_ok :: "('r outbox_db_scheme) \<Rightarrow> bool" where
  "outbox_ok s \<longleftrightarrow> log_ok outbox_row_ok or_sequenceNumber (ob_seq s) (ob_rows s)"

definition event_prefix :: "outbox_row \<Rightarrow> string" where
  "event_prefix r =
     or_processId r @ '':'' @ int_str (or_version r) @ '':'' @ event_type_text (or_type r)"

interpretation ob_log: sequenced_log outbox_row_ok or_sequenceNumber or_eventId event_prefix
  by unfold_locales (simp add: outbox_row_ok_def event_id_def event_prefix_def)

lemma outbox_ok_distinct_ids: "outbox_ok s \<Longrightarrow> distinct (map or_eventId (ob_rows s))"
  unfolding outbox_ok_def by (rule ob_log.distinct_keys)



section \<open>Appending\<close>

definition envelope_of :: "outbox_row \<Rightarrow> event_envelope" where
  "envelope_of r =
     \<lparr>ev_schemaVersion = or_schemaVersion r, ev_type = or_type r,
      ev_processId = or_processId r, ev_version = or_version r, ev_status = or_status r,
      ev_policyRefs = or_policyRefs r, ev_workflowRefs = or_workflowRefs r,
      ev_campaignRefs = or_campaignRefs r, ev_occurredAt = iso_render (or_occurredAt r),
      ev_payload = or_payload r, ev_delivery = or_delivery r, ev_id = or_eventId r\<rparr>"

lemma iso_or_throw_bounded: "\<bar>t\<bar> \<le> max_time \<Longrightarrow> iso_or_throw t = Inr (iso_render t)"
  by (simp add: iso_or_throw_def to_iso_def time_clip_def)

lemma iso_or_throw_Inr_iff: "iso_or_throw t = Inr s \<longleftrightarrow> \<bar>t\<bar> \<le> max_time \<and> s = iso_render t"
  by (auto simp: iso_or_throw_def to_iso_def time_clip_def)

lemma to_envelope_ok: "outbox_row_ok r \<Longrightarrow> to_envelope r = Inr (envelope_of r)"
  by (simp add: to_envelope_def envelope_of_def outbox_row_ok_def iso_or_throw_bounded)

lemma map_result_Inr: "\<forall>x \<in> set xs. f x = Inr (g x) \<Longrightarrow> map_result f xs = Inr (map g xs)"
  by (induction xs) auto

lemma map_result_map: "map_result f (map g xs) = map_result (\<lambda>x. f (g x)) xs"
  by (induction xs) (auto split: sum.splits)

lemma outbox_entity_ok:
  "\<bar>t\<bar> \<le> max_time \<Longrightarrow> outbox_row_ok (outbox_entity input n t dbnow)"
  "or_sequenceNumber (outbox_entity input n t dbnow) = n"
  by (simp_all add: outbox_row_ok_def outbox_entity_def)

lemma append_event_eq:
  assumes "outbox_ok s"
  shows "append_event host dbnow input s =
    (case date_parse host (ev_occurredAt input) of
       None \<Rightarrow> (Inl (PlainError (''Invalid ISO date value: '' @ ev_occurredAt input)),
                s\<lparr>ob_seq := ob_seq s + 1\<rparr>)
     | Some t \<Rightarrow>
         (Inr (envelope_of (outbox_entity input (ob_seq s + 1) t dbnow)),
          s\<lparr>ob_seq := ob_seq s + 1,
            ob_rows := ob_rows s @ [outbox_entity input (ob_seq s + 1) t dbnow]\<rparr>))"
proof -
  have "0 \<le> ob_seq s" using assms by (simp add: outbox_ok_def log_ok_def)
  then have nxt: "next_outbox_sequence s = (Inr (ob_seq s + 1), s\<lparr>ob_seq := ob_seq s + 1\<rparr>)"
    by (simp add: next_outbox_sequence_def checked_sequence_def)
  show ?thesis
  proof (cases "date_parse host (ev_occurredAt input)")
    case None
    then show ?thesis
      by (simp add: append_event_def and_then_def nxt lift_result_def to_date_def)
  next
    case (Some t)
    let ?r = "outbox_entity input (ob_seq s + 1) t dbnow"
    have ok: "outbox_row_ok ?r" using date_parse_bound[OF Some] by (rule outbox_entity_ok)
    have "insert_row ''uq_bpcp_process_event_outbox_id'' (\<lambda>a b. or_eventId a = or_eventId b) ?r
        (ob_rows s) = Inr (ob_rows s @ [?r])"
      using assms ok unfolding outbox_ok_def
      by (rule ob_log.append_never_clashes) (simp add: outbox_entity_def)
    then show ?thesis
      by (simp add: append_event_def and_then_def nxt lift_result_def to_date_def Some
          save_outbox_row_def to_envelope_ok[OF ok])
  qed
qed

lemma append_event_ok:
  assumes "outbox_ok s" and "append_event host dbnow input s = (res, s')"
  shows "outbox_ok s'" and "ob_seq s' = ob_seq s + 1"
proof -
  let ?r = "\<lambda>t. outbox_entity input (ob_seq s + 1) t dbnow"
  have rows: "ob_rows s' = ob_rows s \<or>
      (\<exists>t. \<bar>t\<bar> \<le> max_time \<and> ob_rows s' = ob_rows s @ [?r t])"
    and sq: "ob_seq s' = ob_seq s + 1"
    using assms(2) unfolding append_event_eq[OF assms(1)]
    by (auto split: option.splits dest: date_parse_bound)
  have "log_ok outbox_row_ok or_sequenceNumber (ob_seq s + 1) (ob_rows s @ [?r t])"
    if "\<bar>t\<bar> \<le> max_time" for t
    using assms(1) that unfolding outbox_ok_def
    by (intro log_ok_append) (simp_all add: outbox_entity_ok)
  moreover have "log_ok outbox_row_ok or_sequenceNumber (ob_seq s + 1) (ob_rows s)"
    using assms(1) unfolding outbox_ok_def by (rule log_ok_mono) simp
  ultimately show "outbox_ok s'" using rows sq by (auto simp: outbox_ok_def)
  show "ob_seq s' = ob_seq s + 1" by (rule sq)
qed


section \<open>Claims\<close>

lemma bound_limit_bounds: "1 \<le> bound_limit l \<and> bound_limit l \<le> 500"
  by (cases l) (simp_all add: bound_limit_def)

lemma set_outbox_order [simp]: "set (outbox_order rows) = set rows"
  by (simp add: outbox_order_def)

lemma set_outbox_take: "set (take n (outbox_order rows)) \<subseteq> set rows"
  using set_take_subset[of n "outbox_order rows"] by simp

lemma claim_candidates_claimable:
  "r \<in> set (claim_candidates t l rows) \<Longrightarrow> r \<in> set rows \<and> claimable t r"
  using set_outbox_take[of "nat (bound_limit l)" "filter (claimable t) rows"]
  by (auto simp: claim_candidates_def)

lemma claim_rows_ok:
  "log_ok outbox_row_ok or_sequenceNumber n rows \<Longrightarrow>
   log_ok outbox_row_ok or_sequenceNumber n (claim_rows t ids rows)"
  unfolding claim_rows_def by (rule log_ok_patch) (auto simp: outbox_row_ok_def)

lemma claim_undispatched_ok:
  "outbox_ok s \<Longrightarrow> outbox_ok (snd (claim_undispatched returning t l s))"
  by (simp add: claim_undispatched_def Let_def outbox_ok_def claim_rows_ok)

lemma update_delivery_ok:
  "outbox_ok s \<Longrightarrow> outbox_ok (update_delivery i t d s)"
  unfolding outbox_ok_def update_delivery_def
  by (simp, rule log_ok_patch) (auto simp: outbox_row_ok_def)

lemma apply_dispatch_result_ok: "outbox_ok s \<Longrightarrow> outbox_ok (snd (apply_dispatch_result t i res s))"
  by (auto simp: apply_dispatch_result_def update_delivery_ok split: option.splits)

lemma release_dispatch_claim_ok: "outbox_ok s \<Longrightarrow> outbox_ok (snd (release_dispatch_claim t i bs s))"
  by (auto simp: release_dispatch_claim_def update_delivery_ok split: option.splits)

text \<open>The rows a claim returns when the driver hands back the updated rows.\<close>

definition claimed_ids :: "db_time \<Rightarrow> js_number \<Rightarrow> ('r outbox_db_scheme) \<Rightarrow> string list" where
  "claimed_ids t l s = map or_eventId (claim_candidates t l (ob_rows s))"

lemma claimed_row_fresh:
  assumes "r \<in> set (ob_rows (snd (claim_undispatched returning t l s)))"
    and "or_eventId r \<in> set (claimed_ids t l s)"
  shows "or_dispatching r \<and> or_updatedAt r = t"
  using assms
  by (auto simp: claim_undispatched_def Let_def claim_rows_def set_patch_rows claimed_ids_def
      split: if_splits)

text \<open>
  What the rest of the system may do between two claims without settling event \<open>i\<close>: new
  events are appended, other dispatchers claim (at any time, with any driver), the results
  of other events are recorded or their claims released, and anything else changes.
\<close>

inductive unsettled ::
  "string \<Rightarrow> 'r outbox_db_scheme \<Rightarrow> 'r outbox_db_scheme \<Rightarrow> bool" for i s where
  unsettled_refl: "unsettled i s s"
| unsettled_append: "unsettled i s u \<Longrightarrow> unsettled i s (snd (append_event host t input u))"
| unsettled_claim: "unsettled i s u \<Longrightarrow> unsettled i s (snd (claim_undispatched returning t l u))"
| unsettled_apply: "unsettled i s u \<Longrightarrow> j \<noteq> i \<Longrightarrow>
    unsettled i s (snd (apply_dispatch_result t j res u))"
| unsettled_release: "unsettled i s u \<Longrightarrow> j \<noteq> i \<Longrightarrow>
    unsettled i s (snd (release_dispatch_claim t j bs u))"
| unsettled_elsewhere: "unsettled i s u \<Longrightarrow> ob_rows u' = ob_rows u \<Longrightarrow> ob_seq u' = ob_seq u \<Longrightarrow>
    unsettled i s u'"

text \<open>A row held since time \<open>t\<close>: marked, and not touched before \<open>t\<close>.\<close>

definition held_since :: "db_time \<Rightarrow> string \<Rightarrow> 'r outbox_db_scheme \<Rightarrow> bool" where
  "held_since t i s \<longleftrightarrow> i \<in> or_eventId ` set (ob_rows s) \<and>
     (\<forall>r \<in> set (ob_rows s). or_eventId r = i \<longrightarrow> or_dispatching r \<and> t \<le> or_updatedAt r)"

lemma held_since_not_claimed:
  assumes "held_since t i s" and "t' < t + claim_stale_microseconds"
  shows "i \<notin> set (claimed_ids t' l s)"
proof
  assume "i \<in> set (claimed_ids t' l s)"
  then obtain r where "r \<in> set (claim_candidates t' l (ob_rows s))" and i: "or_eventId r = i"
    by (auto simp: claimed_ids_def)
  then have "r \<in> set (ob_rows s)" and c: "claimable t' r"
    using claim_candidates_claimable by blast+
  then have "or_dispatching r \<and> t \<le> or_updatedAt r" using assms(1) i by (simp add: held_since_def)
  with c assms(2) show False by (simp add: claimable_def)
qed

lemma held_since_claimed:
  assumes "i \<in> set (claimed_ids t l s)"
  shows "held_since t i (snd (claim_undispatched returning t l s))"
proof -
  let ?s = "snd (claim_undispatched returning t l s)"
  have "map or_eventId (ob_rows ?s) = map or_eventId (ob_rows s)"
    by (simp add: claim_undispatched_def Let_def claim_rows_def patch_rows_map_key)
  then have ids: "or_eventId ` set (ob_rows ?s) = or_eventId ` set (ob_rows s)"
    by (metis list.set_map)
  have "i \<in> or_eventId ` set (ob_rows s)"
    using assms claim_candidates_claimable by (fastforce simp: claimed_ids_def)
  moreover have "or_dispatching r \<and> or_updatedAt r = t"
    if "r \<in> set (ob_rows ?s)" "or_eventId r = i" for r
    using claimed_row_fresh[OF that(1)] assms that(2) by simp
  ultimately show ?thesis by (auto simp: held_since_def ids)
qed

lemma held_since_claim:
  assumes "held_since t i s"
  shows "held_since t i (snd (claim_undispatched returning t1 l s))"
proof (cases "i \<in> set (claimed_ids t1 l s)")
  case True
  then have "\<not> t1 < t + claim_stale_microseconds"
    using held_since_not_claimed[OF assms] by blast
  moreover note held_since_claimed[OF True, of returning]
  ultimately show ?thesis
    by (fastforce simp: held_since_def claim_stale_microseconds_def)
next
  case False
  then show ?thesis
    using assms
    by (auto simp: held_since_def claim_undispatched_def Let_def claim_rows_def set_patch_rows
        claimed_ids_def image_iff split: if_splits)
qed

lemma held_since_update:
  "held_since t i s \<Longrightarrow> j \<noteq> i \<Longrightarrow> held_since t i (update_delivery j t1 d s)"
  by (auto simp: held_since_def update_delivery_def set_patch_rows image_iff split: if_splits)

lemma held_since_append:
  assumes "outbox_ok s" and "held_since t i s"
  shows "held_since t i (snd (append_event host t1 input s))"
proof -
  let ?s = "snd (append_event host t1 input s)"
  have "distinct (map or_eventId (ob_rows ?s))"
    using append_event_ok(1)[OF assms(1)] outbox_ok_distinct_ids by (metis prod.collapse)
  then show ?thesis
    using assms(2) unfolding append_event_eq[OF assms(1)]
    by (auto simp: held_since_def split: option.splits)
qed

lemma unsettled_held:
  assumes "unsettled i s s'" and "outbox_ok s" and "held_since t i s"
  shows "outbox_ok s' \<and> held_since t i s'"
  using assms(1)
proof induction
  case (unsettled_append u host t1 input)
  then show ?case
    using assms append_event_ok(1)[of u host t1 input] held_since_append by (metis prod.collapse)
next
  case (unsettled_claim u returning t1 l)
  then show ?case by (simp add: claim_undispatched_ok held_since_claim)
next
  case (unsettled_apply u j t1 res)
  then show ?case
    by (auto simp: apply_dispatch_result_ok apply_dispatch_result_def held_since_update
        update_delivery_ok split: option.splits)
next
  case (unsettled_release u j t1 bs)
  then show ?case
    by (auto simp: release_dispatch_claim_ok release_dispatch_claim_def held_since_update
        update_delivery_ok split: option.splits)
next
  case (unsettled_elsewhere u u')
  then show ?case by (simp add: outbox_ok_def held_since_def)
qed (use assms in simp)

text \<open>
  C10. Two dispatchers never hold the same event: from the claim of an event until its
  result is recorded or its claim released, no claim made less than 300 seconds after the
  first selects it again, whatever was appended, claimed, recorded for or released from
  other events in between and whatever the driver returned. (A released event may be
  claimed again at once, and so may one whose dispatch has failed.)
\<close>

theorem claims_exclusive:
  assumes "outbox_ok s" and "i \<in> set (claimed_ids t l s)"
    and "unsettled i (snd (claim_undispatched returning t l s)) s'"
    and "t' < t + claim_stale_microseconds"
  shows "i \<notin> set (claimed_ids t' l' s')"
proof -
  have "held_since t i s'"
    using unsettled_held[OF assms(3) claim_undispatched_ok[OF assms(1)]
        held_since_claimed[OF assms(2)]] by blast
  then show ?thesis using assms(4) by (rule held_since_not_claimed)
qed

text \<open>
  A claim of one pending row at time 0; another dispatcher claims and an event is appended;
  a claim 299 seconds after the first.
\<close>

definition sample_delivery :: delivery where
  "sample_delivery =
     \<lparr>dl_state = Pending, dl_transport = LocalJsonOutbox, dl_attempts = 0, dl_exchange = None,
      dl_routingKey = None, dl_lastAttemptAt = None, dl_dispatchedAt = None, dl_error = None,
      dl_missing = []\<rparr>"

definition sample_outbox_row :: outbox_row where
  "sample_outbox_row =
     \<lparr>or_sequenceNumber = 1, or_schemaVersion = ''bpcp.process-event.v1'',
      or_eventId = ''p:1:process.created:1'', or_type = ProcessCreated, or_processId = ''p'',
      or_version = 1, or_status = Draft, or_policyRefs = [], or_workflowRefs = [],
      or_campaignRefs = [], or_occurredAt = 0,
      or_payload = \<lparr>ep_activeFrom = None, ep_activeTo = None,
        ep_lifecycle = \<lparr>lp_auditAction = ''created'', lp_details = []\<rparr>, ep_validation = None\<rparr>,
      or_delivery = sample_delivery, or_deliveryState = Pending, or_dispatching = False,
      or_updatedAt = 0\<rparr>"

definition sample_outbox :: outbox_db where
  "sample_outbox = \<lparr>ob_rows = [sample_outbox_row], ob_seq = 1\<rparr>"

lemma sample_outbox_ok: "outbox_ok sample_outbox"
  by (simp add: outbox_ok_def log_ok_def sample_outbox_def outbox_row_ok_def sample_outbox_row_def
      sample_delivery_def event_id_def int_str_def nat_str.simps js_simps max_time_def)

lemma sample_claim: "claimed_ids 0 (Fin 10) sample_outbox = [''p:1:process.created:1'']"
  by (simp add: claimed_ids_def claim_candidates_def sample_outbox_def claimable_def
      sample_outbox_row_def bound_limit_def rat_trunc_def outbox_order_def)

lemma claims_exclusive_witness:
  "claimed_ids 0 (Fin 10) sample_outbox = [''p:1:process.created:1''] \<and>
   (\<forall>input. ''p:1:process.created:1'' \<notin> set (claimed_ids 299000000 (Fin 10)
     (snd (append_event (\<lambda>_. None) 200000000 input
       (snd (claim_undispatched tuple_returning 100000000 (Fin 1)
         (snd (claim_undispatched flat_returning 0 (Fin 10) sample_outbox))))))))"
proof (rule conjI[OF sample_claim], rule allI, rule claims_exclusive[OF sample_outbox_ok])
  show "''p:1:process.created:1'' \<in> set (claimed_ids 0 (Fin 10) sample_outbox)"
    by (simp add: sample_claim)
qed (rule unsettled_append, rule unsettled_claim, rule unsettled_refl,
    simp add: claim_stale_microseconds_def)


section \<open>What one claim does\<close>

text \<open>
  Which rows a claim should pick, without the code's query: of the rows that are due at
  time \<open>t\<close> (not dispatched, and not marked in the last 300 seconds) the \<open>n\<close> oldest.
\<close>

definition due :: "db_time \<Rightarrow> outbox_row \<Rightarrow> bool" where
  "due t r \<longleftrightarrow> dl_state (or_delivery r) \<in> {Pending, Failed} \<and>
     (or_dispatching r \<longrightarrow> or_updatedAt r + 300 * 1000000 \<le> t)"

definition oldest_due :: "db_time \<Rightarrow> nat \<Rightarrow> outbox_row list \<Rightarrow> outbox_row set \<Rightarrow> bool" where
  "oldest_due t n rows picked \<longleftrightarrow>
     picked \<subseteq> {r \<in> set rows. due t r} \<and> card picked = min n (card {r \<in> set rows. due t r}) \<and>
     (\<forall>r \<in> picked. \<forall>r' \<in> {r \<in> set rows. due t r} - picked.
        or_occurredAt r < or_occurredAt r' \<or>
        or_occurredAt r = or_occurredAt r' \<and> or_sequenceNumber r < or_sequenceNumber r')"

lemma claimable_iff_due: "outbox_row_ok r \<Longrightarrow> claimable t r \<longleftrightarrow> due t r"
  by (cases "dl_state (or_delivery r)")
    (auto simp: claimable_def due_def outbox_row_ok_def claim_stale_microseconds_def)

lemma outbox_ok_rows:
  assumes "outbox_ok s"
  shows "\<forall>r \<in> set (ob_rows s). outbox_row_ok r" and "distinct (ob_rows s)"
    and "inj_on or_eventId (set (ob_rows s))" and "inj_on or_sequenceNumber (set (ob_rows s))"
proof -
  show "\<forall>r \<in> set (ob_rows s). outbox_row_ok r"
    using assms by (simp add: outbox_ok_def log_ok_def list_all_iff)
  show "distinct (ob_rows s)" "inj_on or_eventId (set (ob_rows s))"
    using outbox_ok_distinct_ids[OF assms] by (simp_all add: distinct_map)
  have "distinct (map or_sequenceNumber (ob_rows s))"
    using assms by (auto simp: outbox_ok_def log_ok_def strict_sorted_iff)
  then show "inj_on or_sequenceNumber (set (ob_rows s))" by (simp add: distinct_map)
qed

lemma sorted_take_drop:
  assumes "sorted (map key xs)" and "x \<in> set (take n xs)" and "y \<in> set (drop n xs)"
  shows "key x \<le> key y"
proof -
  have "sorted (map key (take n xs) @ map key (drop n xs))"
    using assms(1) by (simp add: map_append[symmetric] del: map_append)
  then show ?thesis using assms(2,3) by (auto simp: sorted_append)
qed

lemma claim_candidates_oldest:
  assumes "outbox_ok s"
  shows "oldest_due t (nat (bound_limit l)) (ob_rows s)
     (set (claim_candidates t l (ob_rows s)))"
proof -
  let ?n = "nat (bound_limit l)"
  let ?xs = "outbox_order (filter (claimable t) (ob_rows s))"
  note ok = outbox_ok_rows[OF assms]
  have due: "{r \<in> set (ob_rows s). due t r} = set ?xs"
    using ok(1) by (auto simp: claimable_iff_due)
  have d: "distinct ?xs" using ok(2) by (simp add: outbox_order_def)
  have "card (set (take ?n ?xs)) = min ?n (card (set ?xs))"
    using distinct_card[OF distinct_take[OF d]] distinct_card[OF d] by (simp add: min.commute)
  moreover have "or_occurredAt r < or_occurredAt r' \<or>
      or_occurredAt r = or_occurredAt r' \<and> or_sequenceNumber r < or_sequenceNumber r'"
    if "r \<in> set (take ?n ?xs)" and "r' \<in> set ?xs - set (take ?n ?xs)" for r r'
  proof -
    have r': "r' \<in> set (drop ?n ?xs)"
      using that(2) by (metis DiffE append_take_drop_id set_append UnE)
    have "sorted (map (\<lambda>r. (or_occurredAt r, or_sequenceNumber r)) ?xs)"
      by (simp add: outbox_order_def)
    from sorted_take_drop[OF this that(1) r']
    have "(or_occurredAt r, or_sequenceNumber r) \<le> (or_occurredAt r', or_sequenceNumber r')"
      by simp
    moreover have "r \<in> set ?xs" "r \<noteq> r'" using that by (auto dest: in_set_takeD)
    then have "or_sequenceNumber r \<noteq> or_sequenceNumber r'"
      using ok(4) that(2) by (auto simp: inj_on_def)
    ultimately show ?thesis by (auto simp: less_eq_prod_def)
  qed
  ultimately show ?thesis
    unfolding oldest_due_def due claim_candidates_def by (auto dest: in_set_takeD)
qed

lemma claim_effect:
  assumes "outbox_ok s"
  shows "snd (claim_undispatched returning t l s) =
     s\<lparr>ob_rows := map (\<lambda>r. if r \<in> set (claim_candidates t l (ob_rows s))
                  then r\<lparr>or_dispatching := True, or_updatedAt := t\<rparr> else r) (ob_rows s)\<rparr>"
proof -
  have "or_eventId r \<in> or_eventId ` set (claim_candidates t l (ob_rows s)) \<longleftrightarrow>
      r \<in> set (claim_candidates t l (ob_rows s))" if "r \<in> set (ob_rows s)" for r
    by (rule inj_on_image_mem_iff[OF outbox_ok_rows(3)[OF assms] that])
      (use claim_candidates_claimable in blast)
  then show ?thesis
    by (simp add: claim_undispatched_def Let_def claim_rows_def patch_rows_def cong: map_cong)
qed

text \<open>
  C13. With the result shape that the database client documents for an UPDATE (the rows
  and their number), every claim ends in an error, because \<open>fromRawRow\<close> is applied to the
  array of rows; but its transaction has committed: the oldest due events, up to the
  limit, are marked as dispatching at the time of the claim, all other rows are as before,
  and none of the marked events can be claimed during the next 300 seconds.
\<close>

theorem claim_throws_after_commit:
  assumes "outbox_ok s"
  shows "\<exists>picked s'.
     claim_undispatched tuple_returning t l s =
       (Inl (PlainError ''Unable to map outbox occurredAt value: undefined''), s') \<and>
     oldest_due t (nat (bound_limit l)) (ob_rows s) picked \<and>
     s' = s\<lparr>ob_rows := map (\<lambda>r. if r \<in> picked
              then r\<lparr>or_dispatching := True, or_updatedAt := t\<rparr> else r) (ob_rows s)\<rparr> \<and>
     (\<forall>t' < t + 300 * 1000000. \<forall>l'.
        set (claimed_ids t' l' s') \<inter> or_eventId ` picked = {})"
proof -
  let ?s = "snd (claim_undispatched tuple_returning t l s)"
  let ?p = "set (claim_candidates t l (ob_rows s))"
  have "fst (claim_undispatched tuple_returning t l s) =
      Inl (PlainError ''Unable to map outbox occurredAt value: undefined'')"
    by (simp add: claim_undispatched_def tuple_returning_def Let_def)
  moreover have "set (claimed_ids t' l' ?s) \<inter> or_eventId ` ?p = {}"
    if "t' < t + 300 * 1000000" for t' l'
    using held_since_claimed[of _ t l s tuple_returning] held_since_not_claimed[of t _ ?s t' l'] that
    by (auto simp: claimed_ids_def[of t l s] claim_stale_microseconds_def)
  ultimately show ?thesis
    using claim_candidates_oldest[OF assms] claim_effect[OF assms, of tuple_returning]
    by (intro exI[of _ ?p] exI[of _ ?s]) (auto intro: prod_eqI)
qed

lemma claim_throws_after_commit_witness:
  "claimed_ids 0 (Fin 10) sample_outbox = [''p:1:process.created:1''] \<and>
   (\<exists>picked s'.
     claim_undispatched tuple_returning 0 (Fin 10) sample_outbox =
       (Inl (PlainError ''Unable to map outbox occurredAt value: undefined''), s') \<and>
     oldest_due 0 (nat (bound_limit (Fin 10))) (ob_rows sample_outbox) picked \<and>
     s' = sample_outbox\<lparr>ob_rows := map (\<lambda>r. if r \<in> picked
              then r\<lparr>or_dispatching := True, or_updatedAt := 0\<rparr> else r) (ob_rows sample_outbox)\<rparr> \<and>
     (\<forall>t' < 0 + 300 * 1000000. \<forall>l'.
        set (claimed_ids t' l' s') \<inter> or_eventId ` picked = {}))"
  by (rule conjI[OF sample_claim claim_throws_after_commit[OF sample_outbox_ok]])

end
