(* ===== verification/Transport.thy ===== *)
theory Transport
  imports Outbox
begin

text \<open>
  The RabbitMQ transport: \<open>src/src/events/rabbitmq-process-event-transport.service.ts\<close>.
  The process environment, the message broker (each step of the amqplib session) and the
  HMAC function are parameters. A dispatch gives its result and the messages it handed to
  the broker. The body of a message is the event whose JSON text it is.
\<close>

type_synonym environment = "string \<Rightarrow> string option"


section \<open>Configuration\<close>

definition optional_env :: "environment \<Rightarrow> string \<Rightarrow> string option" where
  "optional_env env name =
     (case env name of
        None \<Rightarrow> None
      | Some raw \<Rightarrow>
          (let value = js_trim raw
           in if value = [] \<or> starts_with ''[MISSING:'' value then None else Some value))"

text \<open>\<open>Number.parseInt(s, 10)\<close>.\<close>

definition parse_int :: "string \<Rightarrow> js_number" where
  "parse_int s =
     (let t = dropWhile js_space s;
          neg = (t \<noteq> [] \<and> hd t = CHR ''-'');
          u = (if t \<noteq> [] \<and> (hd t = CHR ''-'' \<or> hd t = CHR ''+'') then tl t else t);
          ds = takeWhile is_digit u;
          v = round_double (of_nat (digits_val 0 ds))
      in if ds = [] then JsNaN else if neg then js_neg v else v)"

definition positive_int_env :: "environment \<Rightarrow> string \<Rightarrow> js_number \<Rightarrow> js_number" where
  "positive_int_env env name fallback =
     (let value = parse_int (case env name of None \<Rightarrow> [] | Some s \<Rightarrow> s)
      in if is_finite value \<and> js_less (Fin 0) value then value else fallback)"

record transport_config =
  tc_enabled :: bool
  tc_url :: "string option"
  tc_signingSecret :: "string option"
  tc_exchange :: string
  tc_routingKeyPrefix :: string
  tc_publishTimeoutMs :: js_number
  tc_blockers :: "string list"

definition first_some :: "'a option \<Rightarrow> 'a option \<Rightarrow> 'a option" where
  "first_some a b = (case a of None \<Rightarrow> b | Some x \<Rightarrow> Some x)"

definition or_else :: "'a option \<Rightarrow> 'a \<Rightarrow> 'a" where
  "or_else a b = (case a of None \<Rightarrow> b | Some x \<Rightarrow> x)"

definition get_config :: "environment \<Rightarrow> transport_config" where
  "get_config env =
     (let enabled = (env ''BPCP_EVENT_BUS_ENABLED'' = Some ''true'');
          url = first_some (optional_env env ''BPCP_EVENT_BUS_URL'') (optional_env env ''RABBITMQ_URL'');
          signingSecret = optional_env env ''BPCP_PROCESS_SIGNING_SECRET''
      in \<lparr>tc_enabled = enabled, tc_url = url, tc_signingSecret = signingSecret,
          tc_exchange = or_else (optional_env env ''BPCP_EVENTS_EXCHANGE'') ''bpcp.events'',
          tc_routingKeyPrefix =
            or_else (optional_env env ''BPCP_EVENTS_ROUTING_KEY_PREFIX'') ''bpcp.process'',
          tc_publishTimeoutMs =
            positive_int_env env ''BPCP_EVENT_BUS_PUBLISH_TIMEOUT_MS'' (Fin 5000),
          tc_blockers =
            (if \<not> enabled
             then [''[MISSING: BPCP_EVENT_BUS_ENABLED=true approval for RabbitMQ dispatch]''] else []) @
            (if url = None then [''[MISSING: BPCP_EVENT_BUS_URL or RABBITMQ_URL]''] else []) @
            (if signingSecret = None
             then [''[MISSING: BPCP_PROCESS_SIGNING_SECRET vault-managed secret]''] else [])\<rparr>)"

definition routing_keys :: "string \<Rightarrow> (string \<times> string) list" where
  "routing_keys prefix =
     [(''process.created'', prefix @ ''.created.v1''),
      (''process.validated'', prefix @ ''.validated.v1''),
      (''process.scheduled'', prefix @ ''.scheduled.v1''),
      (''process.published'', prefix @ ''.published.v1''),
      (''process.paused'', prefix @ ''.paused.v1''),
      (''process.retired'', prefix @ ''.retired.v1'')]"

definition routing_key_for :: "process_event_type \<Rightarrow> string \<Rightarrow> string" where
  "routing_key_for type prefix = the (obj_get (routing_keys prefix) (event_type_text type))"

record transport_info =
  ti_schemaVersion :: string
  ti_enabled :: bool
  ti_exchange :: string
  ti_routingKeyPrefix :: string
  ti_urlConfigured :: bool
  ti_signingSecretConfigured :: bool
  ti_publishTimeoutMs :: js_number
  ti_readyForDispatch :: bool
  ti_blockers :: "string list"
  ti_routingKeys :: "(string \<times> string) list"

definition get_transport_info :: "environment \<Rightarrow> transport_info" where
  "get_transport_info env =
     (let config = get_config env
      in \<lparr>ti_schemaVersion = ''bpcp.process-event-transport-info.v1'',
          ti_enabled = tc_enabled config, ti_exchange = tc_exchange config,
          ti_routingKeyPrefix = tc_routingKeyPrefix config,
          ti_urlConfigured = (tc_url config \<noteq> None),
          ti_signingSecretConfigured = (tc_signingSecret config \<noteq> None),
          ti_publishTimeoutMs = tc_publishTimeoutMs config,
          ti_readyForDispatch = (tc_blockers config = []),
          ti_blockers = tc_blockers config,
          ti_routingKeys = routing_keys (tc_routingKeyPrefix config)\<rparr>)"


section \<open>The broker session\<close>

datatype stage = StageOk | StageRejects string | StageHangs

datatype publish_outcome = PublishThrows string | Buffered bool

record amqp_message =
  am_exchange :: string
  am_routingKey :: string
  am_body :: event_envelope
  am_contentType :: string
  am_persistent :: bool
  am_messageId :: string
  am_type :: string
  am_headers :: "(string \<times> string) list"

record broker =
  bk_connect :: "string \<Rightarrow> stage"
  bk_createChannel :: stage
  bk_assertExchange :: "string \<Rightarrow> string option"
  bk_publish :: "amqp_message \<Rightarrow> publish_outcome"

text \<open>
  \<open>withTimeout\<close>: the message of the rejection, if the promise rejects or outlasts the
  limit. The limit is a positive integer, shown in decimal.
\<close>

definition with_timeout :: "stage \<Rightarrow> js_number \<Rightarrow> string option" where
  "with_timeout st timeoutMs =
     (case st of
        StageOk \<Rightarrow> None
      | StageRejects m \<Rightarrow> Some m
      | StageHangs \<Rightarrow> Some (''RabbitMQ operation timed out after '' @
          (case timeoutMs of Fin q \<Rightarrow> int_str (rat_trunc q) | _ \<Rightarrow> ''Infinity'') @ ''ms''))"

definition signed_message ::
  "(string \<Rightarrow> event_envelope \<Rightarrow> string) \<Rightarrow> string \<Rightarrow> string \<Rightarrow> string \<Rightarrow> event_envelope \<Rightarrow>
   amqp_message" where
  "signed_message hmac secret exchange routingKey event =
     \<lparr>am_exchange = exchange, am_routingKey = routingKey, am_body = event,
      am_contentType = ''application/json'', am_persistent = True,
      am_messageId = ev_id event, am_type = routingKey,
      am_headers =
        [(''eventType'', routingKey),
         (''schemaVersion'', ev_schemaVersion event),
         (''processId'', ev_processId event),
         (''version'', int_str (ev_version event)),
         (''x-bpcp-signature-algorithm'', ''hmac-sha256''),
         (''x-bpcp-signature'', hmac secret event)]\<rparr>"

text \<open>
  The body of the \<open>try\<close> block: the error message, if one is thrown, and the messages
  handed to the broker. A refused buffer (\<open>Buffered False\<close>) still holds the message.
\<close>

definition publish_session ::
  "broker \<Rightarrow> transport_config \<Rightarrow> string \<Rightarrow> amqp_message \<Rightarrow> string option \<times> amqp_message list" where
  "publish_session bk config url message =
     (case with_timeout (bk_connect bk url) (tc_publishTimeoutMs config) of
        Some m \<Rightarrow> (Some m, [])
      | None \<Rightarrow>
        (case with_timeout (bk_createChannel bk) (tc_publishTimeoutMs config) of
           Some m \<Rightarrow> (Some m, [])
         | None \<Rightarrow>
           (case bk_assertExchange bk (tc_exchange config) of
              Some m \<Rightarrow> (Some m, [])
            | None \<Rightarrow>
              (case bk_publish bk message of
                 PublishThrows m \<Rightarrow> (Some m, [])
               | Buffered accepted \<Rightarrow>
                   (if accepted then None
                    else Some ''RabbitMQ channel returned backpressure for process event publish'',
                    [message])))))"

definition result_of ::
  "transport_config \<Rightarrow> event_envelope \<Rightarrow> string \<Rightarrow> dispatch_state \<Rightarrow> string option \<Rightarrow>
   string list \<Rightarrow> dispatch_result" where
  "result_of config event attemptedAt state err blockers =
     \<lparr>dr_schemaVersion = ''bpcp.process-event-dispatch-result.v1'', dr_eventId = ev_id event,
      dr_state = state, dr_transport = RabbitmqTopic, dr_exchange = tc_exchange config,
      dr_routingKey = routing_key_for (ev_type event) (tc_routingKeyPrefix config),
      dr_attemptedAt = attemptedAt, dr_error = err, dr_blockers = blockers\<rparr>"

definition transport_dispatch ::
  "environment \<Rightarrow> (string \<Rightarrow> event_envelope \<Rightarrow> string) \<Rightarrow> broker \<Rightarrow> string \<Rightarrow> event_envelope \<Rightarrow>
   dispatch_result \<times> amqp_message list" where
  "transport_dispatch env hmac bk attemptedAt event =
     (let config = get_config env
      in case (tc_blockers config, tc_url config, tc_signingSecret config) of
           ([], Some url, Some secret) \<Rightarrow>
             (let message = signed_message hmac secret (tc_exchange config)
                    (routing_key_for (ev_type event) (tc_routingKeyPrefix config)) event
              in case publish_session bk config url message of
                   (None, sent) \<Rightarrow> (result_of config event attemptedAt ResDispatched None [], sent)
                 | (Some m, sent) \<Rightarrow>
                     (result_of config event attemptedAt ResFailed (Some m) [], sent))
         | _ \<Rightarrow> (result_of config event attemptedAt ResSkipped None (tc_blockers config), []))"


section \<open>What the publisher relies on\<close>

lemma routing_key_for_text:
  "routing_key_for t p =
     p @ (case t of ProcessCreated \<Rightarrow> ''.created.v1'' | ProcessValidated \<Rightarrow> ''.validated.v1''
        | ProcessScheduled \<Rightarrow> ''.scheduled.v1'' | ProcessPublished \<Rightarrow> ''.published.v1''
        | ProcessPaused \<Rightarrow> ''.paused.v1'' | ProcessRetired \<Rightarrow> ''.retired.v1'')"
  by (cases t) (simp_all add: routing_key_for_def routing_keys_def)

lemma config_no_blockers:
  "tc_blockers (get_config env) = [] \<longleftrightarrow>
     tc_enabled (get_config env) \<and> (\<exists>u. tc_url (get_config env) = Some u) \<and>
     (\<exists>k. tc_signingSecret (get_config env) = Some k)"
  by (auto simp: get_config_def Let_def)

text \<open>
  The contract of a transport: it is ready or it is not; a dispatch never changes the
  event's identity; it skips exactly when it is not ready, and then sends nothing; when it
  reports success it has handed the broker exactly one message, with the event as body and
  its id as message id.
\<close>

locale event_transport =
  fixes is_ready :: bool
    and dispatch_one :: "'b \<Rightarrow> event_envelope \<Rightarrow> dispatch_result \<times> amqp_message list"
  assumes result_event: "dr_eventId (fst (dispatch_one b e)) = ev_id e"
    and skipped_iff: "dr_state (fst (dispatch_one b e)) = ResSkipped \<longleftrightarrow> \<not> is_ready"
    and skipped_silent: "\<not> is_ready \<Longrightarrow> snd (dispatch_one b e) = []"
    and dispatched_sent: "dr_state (fst (dispatch_one b e)) = ResDispatched \<Longrightarrow>
          \<exists>m. snd (dispatch_one b e) = [m] \<and> am_body m = e \<and> am_messageId m = ev_id e"
begin

lemma ready_result:
  "is_ready \<Longrightarrow>
   dr_state (fst (dispatch_one b e)) = ResDispatched \<or> dr_state (fst (dispatch_one b e)) = ResFailed"
  using skipped_iff[of b e] by (cases "dr_state (fst (dispatch_one b e))") auto

lemma nothing_lost:
  "dr_state (fst (dispatch_one b e)) = ResDispatched \<Longrightarrow> e \<in> am_body ` set (snd (dispatch_one b e))"
  by (drule dispatched_sent) auto

end

lemma publish_session_sent:
  "fst (publish_session bk c u m) = None \<Longrightarrow> snd (publish_session bk c u m) = [m]"
  unfolding publish_session_def
  by (simp split: option.splits publish_outcome.splits if_splits)

lemma result_of_sel [simp]:
  "dr_eventId (result_of c e a st err bs) = ev_id e" "dr_state (result_of c e a st err bs) = st"
  "dr_attemptedAt (result_of c e a st err bs) = a" "dr_blockers (result_of c e a st err bs) = bs"
  by (simp_all add: result_of_def)

lemma signed_message_sel [simp]:
  "am_body (signed_message h k x rk e) = e" "am_messageId (signed_message h k x rk e) = ev_id e"
  by (simp_all add: signed_message_def)

lemma transport_not_ready:
  "tc_blockers (get_config env) \<noteq> [] \<Longrightarrow>
   transport_dispatch env hmac bk a e =
     (result_of (get_config env) e a ResSkipped None (tc_blockers (get_config env)), [])"
  by (auto simp: transport_dispatch_def Let_def split: list.splits)

lemma transport_ready:
  assumes "tc_blockers (get_config env) = []"
  obtains url secret where "tc_url (get_config env) = Some url"
    and "tc_signingSecret (get_config env) = Some secret"
    and "transport_dispatch env hmac bk a e =
      (let c = get_config env;
           m = signed_message hmac secret (tc_exchange c)
                 (routing_key_for (ev_type e) (tc_routingKeyPrefix c)) e;
           r = publish_session bk c url m
       in (result_of c e a (if fst r = None then ResDispatched else ResFailed) (fst r) [], snd r))"
proof -
  obtain url secret where "tc_url (get_config env) = Some url"
      "tc_signingSecret (get_config env) = Some secret"
    using assms config_no_blockers by auto
  then show thesis
    using assms that by (simp add: transport_dispatch_def Let_def split: prod.splits option.splits)
qed

interpretation rabbit: event_transport "tc_blockers (get_config env) = []"
  "\<lambda>(bk, a). transport_dispatch env hmac bk a" for env hmac
proof unfold_locales
  fix b :: "broker \<times> string" and e
  obtain bk a where b: "b = (bk, a)" by force
  let ?d = "transport_dispatch env hmac bk a e"
  have split: "(tc_blockers (get_config env) \<noteq> [] \<longrightarrow>
        dr_eventId (fst ?d) = ev_id e \<and> dr_state (fst ?d) = ResSkipped \<and> snd ?d = []) \<and>
      (tc_blockers (get_config env) = [] \<longrightarrow>
        dr_eventId (fst ?d) = ev_id e \<and> dr_state (fst ?d) \<noteq> ResSkipped \<and>
        (dr_state (fst ?d) = ResDispatched \<longrightarrow>
          (\<exists>m. snd ?d = [m] \<and> am_body m = e \<and> am_messageId m = ev_id e)))"
  proof (cases "tc_blockers (get_config env) = []")
    case True
    obtain url secret where eq: "?d =
      (let c = get_config env;
           m = signed_message hmac secret (tc_exchange c)
                 (routing_key_for (ev_type e) (tc_routingKeyPrefix c)) e;
           r = publish_session bk c url m
       in (result_of c e a (if fst r = None then ResDispatched else ResFailed) (fst r) [], snd r))"
      using transport_ready[OF True] by metis
    show ?thesis unfolding eq Let_def using True by (auto simp: publish_session_sent)
  qed (simp add: transport_not_ready)
  show "dr_eventId (fst ((case b of (bk, a) \<Rightarrow> transport_dispatch env hmac bk a) e)) = ev_id e"
    using split by (auto simp: b)
  show "dr_state (fst ((case b of (bk, a) \<Rightarrow> transport_dispatch env hmac bk a) e)) = ResSkipped
      \<longleftrightarrow> \<not> tc_blockers (get_config env) = []"
    using split by (auto simp: b)
  show "snd ((case b of (bk, a) \<Rightarrow> transport_dispatch env hmac bk a) e) = []"
    if "\<not> tc_blockers (get_config env) = []"
    using split that by (auto simp: b)
  show "\<exists>m. snd ((case b of (bk, a) \<Rightarrow> transport_dispatch env hmac bk a) e) = [m] \<and>
      am_body m = e \<and> am_messageId m = ev_id e"
    if "dr_state (fst ((case b of (bk, a) \<Rightarrow> transport_dispatch env hmac bk a) e)) = ResDispatched"
    using split that by (cases "tc_blockers (get_config env) = []") (auto simp: b)
qed

end
