(* ===== verification/ProcessTypes.thy ===== *)
theory ProcessTypes
  imports JsValue Findings
begin

text \<open>
  The data of the process registry: \<open>src/src/processes/process.types.ts\<close> and the body
  of a create request (\<open>dto/create-process.dto.ts\<close>).
\<close>

datatype audit_action =
  ActCreated | ActValidated | ActScheduled | ActPublished | ActPaused | ActRetired | ActSeeded

fun audit_action_text :: "audit_action \<Rightarrow> string" where
  "audit_action_text ActCreated = ''created''"
| "audit_action_text ActValidated = ''validated''"
| "audit_action_text ActScheduled = ''scheduled''"
| "audit_action_text ActPublished = ''published''"
| "audit_action_text ActPaused = ''paused''"
| "audit_action_text ActRetired = ''retired''"
| "audit_action_text ActSeeded = ''seeded''"

record process_validation =
  pv_processId :: string
  pv_version :: int
  pv_valid :: bool
  pv_validatedAt :: string
  pv_findings :: "validation_finding list"

record process_definition =
  pd_schemaVersion :: string
  pd_processId :: string
  pd_version :: int
  pd_status :: lifecycle_status
  pd_activeFrom :: "string option"
  pd_activeTo :: "string option"
  pd_policyRefs :: "string list"
  pd_workflowRefs :: "string list"
  pd_campaignRefs :: "string list"
  pd_killSwitch :: bool
  pd_createdAt :: string
  pd_updatedAt :: string
  pd_lastValidation :: "process_validation option"

record process_audit_event =
  pa_schemaVersion :: string
  pa_id :: string
  pa_processId :: string
  pa_version :: int
  pa_action :: audit_action
  pa_actor :: string
  pa_createdAt :: string
  pa_details :: json_object

record create_process_dto =
  cp_processId :: string
  cp_version :: "int option"
  cp_status :: "lifecycle_status option"
  cp_activeFrom :: "string option"
  cp_activeTo :: "string option"
  cp_policyRefs :: "string list"
  cp_workflowRefs :: "string list"
  cp_campaignRefs :: "string list option"
  cp_killSwitch :: "bool option"

end
