(* ===== verification/Publisher.thy ===== *)
theory Publisher
  imports Transport ProcessTypes
begin

text \<open>
  The event publisher: \<open>src/src/events/event-publisher.service.ts\<close>, with the reading of
  the query parameters in \<open>events.controller.ts\<close>. Each use of the broker, of the clock
  and of the database clock is one entry of the oracle \<open>att\<close>, in call order.
\<close>

section \<open>Publishing\<close>

definition event_bus_missing :: string where
  "event_bus_missing = ''[MISSING: RabbitMQ dispatch not attempted; use POST /api/events/outbox/dispatch after transport config is approved]''"

definition validation_summary :: "process_validation \<Rightarrow> validation_payload" where
  "validation_summary v =
     \<lparr>vp_valid = pv_valid v, vp_validatedAt = pv_validatedAt v,
      vp_failCount = severity_count Fail (pv_findings v),
      vp_warningCount = severity_count Warning (pv_findings v)\<rparr>"

definition event_draft_of ::
  "process_event_type \<Rightarrow> process_definition \<Rightarrow> audit_action \<Rightarrow> json_object \<Rightarrow> instant \<Rightarrow>
   event_draft" where
  "event_draft_of type p action details now =
     \<lparr>ev_schemaVersion = ''bpcp.process-event.v1'', ev_type = type,
      ev_processId = pd_processId p, ev_version = pd_version p, ev_status = pd_status p,
      ev_policyRefs = pd_policyRefs p, ev_workflowRefs = pd_workflowRefs p,
      ev_campaignRefs = pd_campaignRefs p, ev_occurredAt = iso_render now,
      ev_payload =
        \<lparr>ep_activeFrom = pd_activeFrom p, ep_activeTo = pd_activeTo p,
         ep_lifecycle = \<lparr>lp_auditAction = audit_action_text action, lp_details = details\<rparr>,
         ep_validation = map_option validation_summary (pd_lastValidation p)\<rparr>,
      ev_delivery =
        \<lparr>dl_state = Pending, dl_transport = LocalJsonOutbox, dl_attempts = 0,
         dl_exchange = None, dl_routingKey = None, dl_lastAttemptAt = None,
         dl_dispatchedAt = None, dl_error = None, dl_missing = [event_bus_missing]\<rparr>\<rparr>"

definition publish_process_event ::
  "host_parse \<Rightarrow> db_time \<Rightarrow> instant \<Rightarrow> process_event_type \<Rightarrow> process_definition \<Rightarrow>
   audit_action \<Rightarrow> json_object \<Rightarrow> ('r outbox_db_scheme, event_envelope) op" where
  "publish_process_event host dbnow now type p action details =
     append_event host dbnow (event_draft_of type p action details now)"


section \<open>Dispatching\<close>

record attempt_env =
  at_broker :: broker
  at_now :: instant
  at_db :: db_time

record dispatch_summary =
  su_schemaVersion :: string
  su_attempted :: nat
  su_dispatched :: nat
  su_failed :: nat
  su_skipped :: nat
  su_blockers :: "string list"
  su_results :: "dispatch_result list"

definition skipped_result ::
  "environment \<Rightarrow> instant \<Rightarrow> event_envelope \<Rightarrow> string list \<Rightarrow> dispatch_result" where
  "skipped_result env now event blockers =
     (let info = get_transport_info env
      in \<lparr>dr_schemaVersion = ''bpcp.process-event-dispatch-result.v1'', dr_eventId = ev_id event,
          dr_state = ResSkipped, dr_transport = RabbitmqTopic, dr_exchange = ti_exchange info,
          dr_routingKey = the (obj_get (ti_routingKeys info) (event_type_text (ev_type event))),
          dr_attemptedAt = iso_render now, dr_error = None, dr_blockers = blockers\<rparr>)"

definition skipped_summary ::
  "environment \<Rightarrow> (nat \<Rightarrow> attempt_env) \<Rightarrow> string \<Rightarrow> event_envelope list \<Rightarrow> dispatch_summary" where
  "skipped_summary env att schemaVersion candidates =
     (let blockers = ti_blockers (get_transport_info env)
      in \<lparr>su_schemaVersion = schemaVersion, su_attempted = 0, su_dispatched = 0, su_failed = 0,
          su_skipped = length candidates, su_blockers = blockers,
          su_results = map (\<lambda>(i, event). skipped_result env (at_now (att i)) event blockers)
                         (enumerate 0 candidates)\<rparr>)"

text \<open>The loop over the candidates: the results and the messages sent.\<close>

definition record_result ::
  "db_time \<Rightarrow> event_envelope \<Rightarrow> dispatch_result \<Rightarrow> 'r outbox_db_scheme \<Rightarrow> 'r outbox_db_scheme" where
  "record_result dbnow event result s =
     snd (if dr_state result = ResSkipped
          then release_dispatch_claim dbnow (ev_id event) (dr_blockers result) s
          else apply_dispatch_result dbnow (ev_id event) result s)"

fun dispatch_loop ::
  "environment \<Rightarrow> (string \<Rightarrow> event_envelope \<Rightarrow> string) \<Rightarrow> (nat \<Rightarrow> attempt_env) \<Rightarrow> bool \<Rightarrow> nat \<Rightarrow>
   event_envelope list \<Rightarrow> 'r outbox_db_scheme \<Rightarrow>
   (dispatch_result list \<times> amqp_message list) \<times> 'r outbox_db_scheme" where
  "dispatch_loop env hmac att mutate i [] s = (([], []), s)"
| "dispatch_loop env hmac att mutate i (event # events) s =
     (let (result, sent) =
            transport_dispatch env hmac (at_broker (att i)) (iso_render (at_now (att i))) event;
          s' = (if mutate then record_result (at_db (att i)) event result s else s);
          ((results, sents), s'') = dispatch_loop env hmac att mutate (Suc i) events s'
      in ((result # results, sent @ sents), s''))"

definition release_all ::
  "(nat \<Rightarrow> attempt_env) \<Rightarrow> string list \<Rightarrow> event_envelope list \<Rightarrow> 'r outbox_db_scheme \<Rightarrow>
   'r outbox_db_scheme" where
  "release_all att blockers events s =
     fold (\<lambda>(i, event) s. snd (release_dispatch_claim (at_db (att i)) (ev_id event) blockers s))
       (enumerate 0 events) s"

definition state_count :: "dispatch_state \<Rightarrow> dispatch_result list \<Rightarrow> nat" where
  "state_count st rs = length (filter (\<lambda>r. dr_state r = st) rs)"

definition dispatch_candidates ::
  "environment \<Rightarrow> (string \<Rightarrow> event_envelope \<Rightarrow> string) \<Rightarrow> (nat \<Rightarrow> attempt_env) \<Rightarrow> string \<Rightarrow>
   event_envelope list \<Rightarrow> bool \<Rightarrow> ('r outbox_db_scheme, dispatch_summary \<times> amqp_message list) op" where
  "dispatch_candidates env hmac att schemaVersion candidates mutate s =
     (let info = get_transport_info env in
      if \<not> ti_readyForDispatch info
      then (Inr (skipped_summary env att schemaVersion candidates, []),
            if mutate then release_all att (ti_blockers info) candidates s else s)
      else
        let ((results, sent), s') = dispatch_loop env hmac att mutate 0 candidates s
        in (Inr (\<lparr>su_schemaVersion = schemaVersion, su_attempted = length results,
                   su_dispatched = state_count ResDispatched results,
                   su_failed = state_count ResFailed results,
                   su_skipped = state_count ResSkipped results,
                   su_blockers = [], su_results = results\<rparr>, sent), s'))"

definition summary_schema :: string where
  "summary_schema = ''bpcp.process-event-dispatch-summary.v1''"

definition replay_schema :: string where
  "replay_schema = ''bpcp.process-event-replay-summary.v1''"

definition default_limit :: "js_number option \<Rightarrow> js_number" where
  "default_limit limit = (case limit of None \<Rightarrow> Fin 100 | Some l \<Rightarrow> l)"

definition dispatch_pending ::
  "environment \<Rightarrow> (string \<Rightarrow> event_envelope \<Rightarrow> string) \<Rightarrow> (outbox_row list \<Rightarrow> outbox_row raw list) \<Rightarrow>
   (nat \<Rightarrow> attempt_env) \<Rightarrow> db_time \<Rightarrow> js_number option \<Rightarrow>
   ('r outbox_db_scheme, dispatch_summary \<times> amqp_message list) op" where
  "dispatch_pending env hmac returning att dbnow limit =
     (let bounded = Fin (of_int (bound_limit (default_limit limit))) in
      if \<not> ti_readyForDispatch (get_transport_info env)
      then and_then (list_undispatched bounded)
             (\<lambda>candidates. ret (skipped_summary env att summary_schema candidates, []))
      else and_then (claim_undispatched returning dbnow bounded)
             (\<lambda>candidates. dispatch_candidates env hmac att summary_schema candidates True))"

definition replay_dispatched ::
  "environment \<Rightarrow> (string \<Rightarrow> event_envelope \<Rightarrow> string) \<Rightarrow> (nat \<Rightarrow> attempt_env) \<Rightarrow>
   js_number option \<Rightarrow> string option \<Rightarrow> string option \<Rightarrow>
   ('r outbox_db_scheme, dispatch_summary \<times> amqp_message list) op" where
  "replay_dispatched env hmac att limit processId eventType =
     and_then (list_dispatched_for_replay
         \<lparr>rp_limit = Fin (of_int (bound_limit (default_limit limit))),
          rp_processId = processId, rp_eventType = eventType\<rparr>)
       (\<lambda>candidates. dispatch_candidates env hmac att replay_schema candidates False)"

record outbox_info =
  oi_eventCount :: nat
  oi_pendingCount :: nat
  oi_dispatchedCount :: nat
  oi_failedCount :: nat
  oi_dispatchTransport :: transport_info
  oi_readyForProductionDispatch :: bool
  oi_blockers :: "string list"

definition get_outbox_info :: "environment \<Rightarrow> ('r outbox_db_scheme, outbox_info) op" where
  "get_outbox_info env =
     and_then count_by_state (\<lambda>(pending, dispatched, failed).
       ret \<lparr>oi_eventCount = pending + dispatched + failed, oi_pendingCount = pending,
            oi_dispatchedCount = dispatched, oi_failedCount = failed,
            oi_dispatchTransport = get_transport_info env,
            oi_readyForProductionDispatch = ti_readyForDispatch (get_transport_info env),
            oi_blockers = ti_blockers (get_transport_info env)\<rparr>)"


section \<open>The query parameter \<open>limit\<close>\<close>

definition integer_text :: "string \<Rightarrow> bool" where
  "integer_text s \<longleftrightarrow>
     (let ds = (if s \<noteq> [] \<and> hd s = CHR ''-'' then tl s else s) in ds \<noteq> [] \<and> list_all is_digit ds)"

definition parse_limit :: "string option \<Rightarrow> error + js_number option" where
  "parse_limit limit =
     (case limit of
        None \<Rightarrow> Inr None
      | Some raw \<Rightarrow>
          (let normalized = js_trim raw
           in if \<not> integer_text normalized
              then Inl (BadRequestException ''Query parameter \"limit\" must be an integer.'')
              else Inr (Some (parse_int normalized))))"



section \<open>The dispatch loop\<close>

lemma ready_iff: "ti_readyForDispatch (get_transport_info env) \<longleftrightarrow> tc_blockers (get_config env) = []"
  by (simp add: get_transport_info_def Let_def)

text \<open>A row after one recorded result or release: untouched, or the event's own.\<close>

lemma update_delivery_row:
  "r \<in> set (ob_rows (update_delivery i t d s)) \<Longrightarrow>
   (or_eventId r \<noteq> i \<and> r \<in> set (ob_rows s)) \<or>
   (or_eventId r = i \<and> or_delivery r = d \<and> or_deliveryState r = dl_state d \<and> \<not> or_dispatching r)"
  by (auto simp: update_delivery_def set_patch_rows)

lemma apply_dispatch_result_row:
  "r \<in> set (ob_rows (snd (apply_dispatch_result t i res s))) \<Longrightarrow>
   (or_eventId r \<noteq> i \<and> r \<in> set (ob_rows s)) \<or>
   (or_eventId r = i \<and> \<not> or_dispatching r \<and>
    (\<exists>d. or_deliveryState r = dl_state (dispatch_delivery d res)))"
  unfolding apply_dispatch_result_def
  by (auto split: option.splits simp: find_None_iff_all dest!: update_delivery_row)

lemma release_dispatch_claim_row:
  "r \<in> set (ob_rows (snd (release_dispatch_claim t i bs s))) \<Longrightarrow>
   (or_eventId r \<noteq> i \<and> r \<in> set (ob_rows s)) \<or> (or_eventId r = i \<and> \<not> or_dispatching r)"
  unfolding release_dispatch_claim_def
  by (auto split: option.splits simp: find_None_iff_all dest!: update_delivery_row)

lemma dispatch_delivery_state:
  "dr_state res = ResDispatched \<Longrightarrow> dl_state (dispatch_delivery d res) = Dispatched"
  "dr_state res = ResFailed \<Longrightarrow> dl_state (dispatch_delivery d res) = Failed"
  by (simp_all add: dispatch_delivery_def)

lemma record_result_row:
  "r \<in> set (ob_rows (record_result t e res s)) \<Longrightarrow>
   (or_eventId r \<noteq> ev_id e \<and> r \<in> set (ob_rows s)) \<or>
   (or_eventId r = ev_id e \<and> \<not> or_dispatching r \<and>
    (dr_state res = ResDispatched \<longrightarrow> or_deliveryState r = Dispatched) \<and>
    (dr_state res = ResFailed \<longrightarrow> or_deliveryState r = Failed))"
  unfolding record_result_def
  by (auto split: if_splits dest!: release_dispatch_claim_row apply_dispatch_result_row
      simp: dispatch_delivery_state)

lemma record_result_ok: "outbox_ok s \<Longrightarrow> outbox_ok (record_result t e res s)"
  by (simp add: record_result_def release_dispatch_claim_ok apply_dispatch_result_ok)

lemma dispatch_loop_ConsE:
  assumes "dispatch_loop env hmac att mutate i (e # es) s = ((rs, ms), s')"
  obtains res sent rs' ms' where
    "transport_dispatch env hmac (at_broker (att i)) (iso_render (at_now (att i))) e = (res, sent)"
    and "rs = res # rs'" and "ms = sent @ ms'"
    and "dispatch_loop env hmac att mutate (Suc i) es
           (if mutate then record_result (at_db (att i)) e res s else s) = ((rs', ms'), s')"
  using assms by (auto simp: Let_def split: prod.splits)

lemma transport_result:
  assumes "transport_dispatch env hmac bk a e = (res, sent)"
  shows "dr_eventId res = ev_id e"
    and "tc_blockers (get_config env) = [] \<Longrightarrow> dr_state res \<noteq> ResSkipped"
    and "dr_state res = ResDispatched \<Longrightarrow> ev_id e \<in> am_messageId ` set sent"
  using rabbit.result_event[of env hmac "(bk, a)" e] rabbit.skipped_iff[of env hmac "(bk, a)" e]
    rabbit.dispatched_sent[of env hmac "(bk, a)" e] assms by auto

lemma dispatch_loop_ids:
  "dispatch_loop env hmac att mutate i es s = ((rs, ms), s') \<Longrightarrow> map dr_eventId rs = map ev_id es"
proof (induction es arbitrary: i s rs ms s')
  case (Cons e es)
  from Cons.prems show ?case
    by (rule dispatch_loop_ConsE) (simp add: Cons.IH transport_result(1))
qed simp

lemma dispatch_loop_ready:
  "dispatch_loop env hmac att mutate i es s = ((rs, ms), s') \<Longrightarrow>
   tc_blockers (get_config env) = [] \<Longrightarrow> \<forall>r \<in> set rs. dr_state r \<noteq> ResSkipped"
proof (induction es arbitrary: i s rs ms s')
  case (Cons e es)
  from Cons.prems(1) show ?case
    by (rule dispatch_loop_ConsE)
      (use Cons.IH Cons.prems(2) transport_result(2) in \<open>fastforce\<close>)
qed simp

lemma dispatch_loop_pure:
  "dispatch_loop env hmac att False i es s = ((rs, ms), s') \<Longrightarrow> s' = s"
proof (induction es arbitrary: i s rs ms s')
  case (Cons e es)
  from Cons.prems show ?case
    by (rule dispatch_loop_ConsE) (simp add: Cons.IH)
qed simp

lemma dispatch_loop_sent:
  "dispatch_loop env hmac att mutate i es s = ((rs, ms), s') \<Longrightarrow>
   \<forall>r \<in> set rs. dr_state r = ResDispatched \<longrightarrow> dr_eventId r \<in> am_messageId ` set ms"
proof (induction es arbitrary: i s rs ms s')
  case (Cons e es)
  from Cons.prems show ?case
    by (rule dispatch_loop_ConsE)
      (use Cons.IH transport_result(1,3) in \<open>fastforce simp: image_Un\<close>)
qed simp

lemma dispatch_loop_ok:
  "dispatch_loop env hmac att mutate i es s = ((rs, ms), s') \<Longrightarrow> outbox_ok s \<Longrightarrow> outbox_ok s'"
proof (induction es arbitrary: i s rs ms s')
  case (Cons e es)
  from Cons.prems(1) show ?case
    by (rule dispatch_loop_ConsE) (auto dest: Cons.IH simp: record_result_ok Cons.prems(2))
qed simp

lemma dispatch_loop_frame:
  "dispatch_loop env hmac att mutate i es s = ((rs, ms), s') \<Longrightarrow>
   row \<in> set (ob_rows s') \<Longrightarrow> or_eventId row \<notin> ev_id ` set es \<Longrightarrow> row \<in> set (ob_rows s)"
proof (induction es arbitrary: i s rs ms s')
  case (Cons e es)
  from Cons.prems(1) show ?case
  proof (rule dispatch_loop_ConsE)
    fix res sent rs' ms'
    assume "dispatch_loop env hmac att mutate (Suc i) es
       (if mutate then record_result (at_db (att i)) e res s else s) = ((rs', ms'), s')"
    from Cons.IH[OF this] Cons.prems(2,3) show ?thesis
      by (auto split: if_splits dest: record_result_row)
  qed
qed simp

lemma dispatch_loop_recorded:
  assumes "dispatch_loop env hmac att True i es s = ((rs, ms), s')"
    and "distinct (map ev_id es)" and "r \<in> set rs"
    and "row \<in> set (ob_rows s')" and "or_eventId row = dr_eventId r"
  shows "\<not> or_dispatching row \<and>
    (dr_state r = ResDispatched \<longrightarrow> or_deliveryState row = Dispatched) \<and>
    (dr_state r = ResFailed \<longrightarrow> or_deliveryState row = Failed)"
  using assms
proof (induction es arbitrary: i s rs ms s')
  case (Cons e es)
  from Cons.prems(1) show ?case
  proof (rule dispatch_loop_ConsE)
    fix res sent rs' ms'
    assume d: "transport_dispatch env hmac (at_broker (att i)) (iso_render (at_now (att i))) e =
        (res, sent)" and rs: "rs = res # rs'"
      and loop: "dispatch_loop env hmac att True (Suc i) es
       (if True then record_result (at_db (att i)) e res s else s) = ((rs', ms'), s')"
    show ?thesis
    proof (cases "r \<in> set rs'")
      case True
      then show ?thesis using Cons.IH[OF loop] Cons.prems by simp
    next
      case False
      then have r: "r = res" using Cons.prems(3) rs by simp
      moreover have id: "dr_eventId res = ev_id e" using d by (rule transport_result)
      ultimately have "or_eventId row \<notin> ev_id ` set es" using Cons.prems(2,5) by auto
      then have "row \<in> set (ob_rows (record_result (at_db (att i)) e res s))"
        using dispatch_loop_frame[OF loop Cons.prems(4)] by simp
      then show ?thesis using Cons.prems(5) r id by (auto dest!: record_result_row)
    qed
  qed
qed simp

lemma state_count_total:
  "state_count ResDispatched rs + state_count ResFailed rs + state_count ResSkipped rs = length rs"
proof (induction rs)
  case (Cons r rs)
  then show ?case by (cases "dr_state r") (auto simp: state_count_def)
qed (simp add: state_count_def)



section \<open>Dispatching pending events\<close>

lemma bound_limit_idem [simp]: "bound_limit (Fin (of_int (bound_limit l))) = bound_limit l"
proof -
  have "rat_trunc (of_int i) = i" for i by (simp add: rat_trunc_def)
  then show ?thesis using bound_limit_bounds[of l] by (simp add: bound_limit_def[of "Fin _"])
qed

lemma claim_candidates_bound [simp]:
  "claim_candidates t (Fin (of_int (bound_limit l))) rows = claim_candidates t l rows"
  by (simp add: claim_candidates_def)

lemma claimed_rows_ids:
  assumes "outbox_ok s"
  shows "mset (map or_eventId (filter (\<lambda>r. or_eventId r \<in> set (claimed_ids t l s))
           (claim_rows t (claimed_ids t l s) (ob_rows s)))) = mset (claimed_ids t l s)"
    and "distinct (claimed_ids t l s)"
proof -
  let ?ids = "claimed_ids t l s"
  let ?rows = "filter (\<lambda>r. or_eventId r \<in> set ?ids) (claim_rows t ?ids (ob_rows s))"
  have all: "distinct (map or_eventId (ob_rows s))" using assms by (rule outbox_ok_distinct_ids)
  have keep: "map or_eventId (claim_rows t ?ids (ob_rows s)) = map or_eventId (ob_rows s)"
    unfolding claim_rows_def by (rule patch_rows_map_key) simp
  have fm: "map or_eventId (filter (\<lambda>r. or_eventId r \<in> A) xs) =
      filter (\<lambda>i. i \<in> A) (map or_eventId xs)" for A xs by (induction xs) auto
  have "distinct (map or_eventId (filter (claimable t) (ob_rows s)))"
    using all by (simp add: distinct_map_filter)
  then have "distinct (map or_eventId (outbox_order (filter (claimable t) (ob_rows s))))"
    using mset_eq_imp_distinct_iff[of "map or_eventId (outbox_order (filter (claimable t) (ob_rows s)))"
        "map or_eventId (filter (claimable t) (ob_rows s))"]
    by (simp add: outbox_order_def)
  then show d: "distinct ?ids"
    unfolding claimed_ids_def claim_candidates_def take_map[symmetric] by (rule distinct_take)
  have "set ?ids \<subseteq> set (map or_eventId (ob_rows s))"
    by (auto simp: claimed_ids_def dest: claim_candidates_claimable)
  then have "set (map or_eventId ?rows) = set ?ids" unfolding fm keep by auto
  moreover have "distinct (map or_eventId ?rows)" unfolding fm keep using all by simp
  ultimately show "mset (map or_eventId ?rows) = mset ?ids"
    using d by (simp only: set_eq_iff_mset_eq_distinct)
qed

lemma claim_undispatched_flat:
  assumes ok: "outbox_ok s" and order: "\<And>rs. mset (order rs) = mset rs"
  obtains es where
    "claim_undispatched (\<lambda>rs. map RawRow (order rs)) t l s =
       (Inr es, s\<lparr>ob_rows := claim_rows t (claimed_ids t l s) (ob_rows s)\<rparr>)"
    and "mset (map ev_id es) = mset (claimed_ids t l s)" and "distinct (map ev_id es)"
proof
  let ?ids = "claimed_ids t l s"
  let ?rows = "filter (\<lambda>r. or_eventId r \<in> set ?ids) (claim_rows t ?ids (ob_rows s))"
  have "log_ok outbox_row_ok or_sequenceNumber (ob_seq s) (claim_rows t ?ids (ob_rows s))"
    using ok unfolding outbox_ok_def by (rule claim_rows_ok)
  then have "\<forall>r \<in> set ?rows. outbox_row_ok r" by (simp add: log_ok_def list_all_iff)
  moreover have "set (order ?rows) = set ?rows" using order by (metis set_mset_mset)
  ultimately have "\<forall>r \<in> set (order ?rows). to_envelope r = Inr (envelope_of r)"
    by (simp add: to_envelope_ok)
  then show "claim_undispatched (\<lambda>rs. map RawRow (order rs)) t l s =
       (Inr (map envelope_of (order ?rows)), s\<lparr>ob_rows := claim_rows t ?ids (ob_rows s)\<rparr>)"
    by (simp add: claim_undispatched_def Let_def claimed_ids_def[symmetric] map_result_map
        map_result_Inr)
  have ids: "map ev_id (map envelope_of rs) = map or_eventId rs" for rs
    by (simp add: envelope_of_def)
  have "mset (map or_eventId (order ?rows)) = mset (map or_eventId ?rows)"
    using order[of ?rows] by (metis mset_map)
  then show m: "mset (map ev_id (map envelope_of (order ?rows))) = mset ?ids"
    using claimed_rows_ids(1)[OF ok, of t l] unfolding ids by simp
  then show "distinct (map ev_id (map envelope_of (order ?rows)))"
    using claimed_rows_ids(2)[OF ok, of t l] by (metis mset_eq_imp_distinct_iff)
qed

text \<open>What a finished dispatch run guarantees about the database and the broker.\<close>

definition run_recorded :: "dispatch_summary \<Rightarrow> amqp_message list \<Rightarrow> ('r outbox_db_scheme) \<Rightarrow> bool" where
  "run_recorded su ms s' \<longleftrightarrow>
     list_all (\<lambda>r.
       (dr_state r = ResDispatched \<or> dr_state r = ResFailed) \<and>
       (if dr_state r = ResDispatched then dr_eventId r \<in> am_messageId ` set ms else True) \<and>
       list_all (\<lambda>row. if or_eventId row = dr_eventId r
          then \<not> or_dispatching row \<and>
               or_deliveryState row = (if dr_state r = ResDispatched then Dispatched else Failed)
          else True) (ob_rows s')) (su_results su)"

text \<open>What a run leaves behind when the client hands the updated rows back one by one.\<close>

lemma dispatch_run_flat:
  assumes "outbox_ok s" and "ti_readyForDispatch (get_transport_info env)"
    and "\<And>rs. mset (order rs) = mset rs"
  shows "\<exists>su ms s'.
    dispatch_pending env hmac (\<lambda>rs. map RawRow (order rs)) att t limit s = (Inr (su, ms), s') \<and>
    mset (map dr_eventId (su_results su)) = mset (claimed_ids t (default_limit limit) s) \<and>
    su_attempted su = length (su_results su) \<and> su_attempted su \<le> 500 \<and>
    su_dispatched su + su_failed su = su_attempted su \<and> su_skipped su = 0 \<and>
    run_recorded su ms s' \<and> outbox_ok s'"
proof -
  let ?b = "Fin (of_int (bound_limit (default_limit limit)))"
  let ?s1 = "s\<lparr>ob_rows := claim_rows t (claimed_ids t ?b s) (ob_rows s)\<rparr>"
  obtain es where claim: "claim_undispatched (\<lambda>rs. map RawRow (order rs)) t ?b s = (Inr es, ?s1)"
    and es: "mset (map ev_id es) = mset (claimed_ids t ?b s)" "distinct (map ev_id es)"
    using claim_undispatched_flat[OF assms(1,3)] by metis
  obtain rs ms s' where loop: "dispatch_loop env hmac att True 0 es ?s1 = ((rs, ms), s')"
    by (metis prod.exhaust)
  let ?su = "\<lparr>su_schemaVersion = summary_schema, su_attempted = length rs,
    su_dispatched = state_count ResDispatched rs, su_failed = state_count ResFailed rs,
    su_skipped = state_count ResSkipped rs, su_blockers = [], su_results = rs\<rparr>"
  have run: "dispatch_pending env hmac (\<lambda>rs. map RawRow (order rs)) att t limit s = (Inr (?su, ms), s')"
    using assms(2) claim loop by (simp add: dispatch_pending_def and_then_def dispatch_candidates_def)
  have ready: "\<forall>r \<in> set rs. dr_state r \<noteq> ResSkipped"
    using dispatch_loop_ready[OF loop] assms(2) by (simp add: ready_iff)
  then have skip: "state_count ResSkipped rs = 0"
    by (auto simp: state_count_def filter_empty_conv)
  have ids: "claimed_ids t ?b s = claimed_ids t (default_limit limit) s"
    by (simp add: claimed_ids_def)
  have res: "map dr_eventId rs = map ev_id es" using loop by (rule dispatch_loop_ids)
  have "length es = length (claimed_ids t (default_limit limit) s)"
    using es(1) by (metis ids length_map size_mset)
  then have "length rs \<le> 500"
    using res bound_limit_bounds[of "default_limit limit"]
    by (auto simp: claimed_ids_def claim_candidates_def dest!: map_eq_imp_length_eq)
  moreover have "run_recorded ?su ms s'"
    using ready dispatch_loop_recorded[OF loop es(2)] dispatch_loop_sent[OF loop]
    unfolding run_recorded_def list_all_iff by (auto intro: dispatch_state.exhaust)
  moreover have "outbox_ok ?s1"
    using claim_undispatched_ok[OF assms(1), of "\<lambda>rs. map RawRow (order rs)" t ?b] claim by simp
  then have "outbox_ok s'" using dispatch_loop_ok[OF loop] by blast
  moreover have "state_count ResDispatched rs + state_count ResFailed rs = length rs"
    using state_count_total[of rs] skip by simp
  ultimately show ?thesis
    using run es(1) res skip unfolding ids
    by (intro exI[of _ ?su] exI[of _ ms] exI[of _ s']) simp
qed


text \<open>And when it hands back the two elements rows and count.\<close>

lemma dispatch_run_tuple:
  assumes "ti_readyForDispatch (get_transport_info env)"
  shows "\<exists>s'. dispatch_pending env hmac (\<lambda>rs. [RawRows (order rs), RawCount (length rs)]) att t limit s
      = (Inl (PlainError ''Unable to map outbox occurredAt value: undefined''), s') \<and>
    map (\<lambda>r. (or_eventId r, or_delivery r, or_deliveryState r)) (ob_rows s') =
    map (\<lambda>r. (or_eventId r, or_delivery r, or_deliveryState r)) (ob_rows s)"
  using assms
  by (simp add: dispatch_pending_def and_then_def claim_undispatched_def Let_def claim_rows_def
      patch_rows_map_key)

text \<open>
  C9. With the transport configured, the outcome of a dispatch run depends on the shape in
  which the database client hands back the rows of an UPDATE. If it hands them back one by
  one (in any order), the run handles exactly the claimed events, at most 500; each one
  ends dispatched or failed, none skipped; its row is released and records that outcome;
  and for each event reported as dispatched a message carrying its id was handed to the
  broker. If it hands back the rows and their number, as it documents, every run ends in an
  error with the delivery of every event as it was.
\<close>

theorem dispatch_run:
  assumes "outbox_ok s" and "ti_readyForDispatch (get_transport_info env)"
    and "\<And>rs. mset (order rs) = mset rs"
  shows "(\<exists>su ms s'.
    dispatch_pending env hmac (\<lambda>rs. map RawRow (order rs)) att t limit s = (Inr (su, ms), s') \<and>
    mset (map dr_eventId (su_results su)) = mset (claimed_ids t (default_limit limit) s) \<and>
    su_attempted su = length (su_results su) \<and> su_attempted su \<le> 500 \<and>
    su_dispatched su + su_failed su = su_attempted su \<and> su_skipped su = 0 \<and>
    run_recorded su ms s' \<and> outbox_ok s') \<and>
   (\<exists>s'. dispatch_pending env hmac (\<lambda>rs. [RawRows (order rs), RawCount (length rs)]) att t limit s
      = (Inl (PlainError ''Unable to map outbox occurredAt value: undefined''), s') \<and>
    map (\<lambda>r. (or_eventId r, or_delivery r, or_deliveryState r)) (ob_rows s') =
    map (\<lambda>r. (or_eventId r, or_delivery r, or_deliveryState r)) (ob_rows s))"
  by (rule conjI[OF dispatch_run_flat[OF assms] dispatch_run_tuple[OF assms(2)]])


definition sample_env :: environment where
  "sample_env name =
     (if name = ''BPCP_EVENT_BUS_ENABLED'' then Some ''true''
      else if name = ''RABBITMQ_URL'' then Some ''amqp://broker''
      else if name = ''BPCP_PROCESS_SIGNING_SECRET'' then Some ''s3cret'' else None)"

definition sample_attempt :: attempt_env where
  "sample_attempt =
     \<lparr>at_broker = \<lparr>bk_connect = (\<lambda>_. StageOk), bk_createChannel = StageOk,
        bk_assertExchange = (\<lambda>_. None), bk_publish = (\<lambda>_. Buffered True)\<rparr>,
      at_now = 1000, at_db = 1000000\<rparr>"

lemma sample_env_ready: "ti_readyForDispatch (get_transport_info sample_env)"
  by (simp add: ready_iff get_config_def Let_def optional_env_def sample_env_def js_trim_def
      js_space_def starts_with_def first_some_def)

lemma dispatch_run_witness:
  "claimed_ids 0 (default_limit None) sample_outbox = [''p:1:process.created:1''] \<and>
   (\<exists>su ms s'.
    dispatch_pending sample_env (\<lambda>_ _. []) (\<lambda>rs. map RawRow (rev rs)) (\<lambda>_. sample_attempt) 0 None
      sample_outbox = (Inr (su, ms), s') \<and>
    mset (map dr_eventId (su_results su)) = mset (claimed_ids 0 (default_limit None) sample_outbox) \<and>
    su_attempted su = length (su_results su) \<and> su_attempted su \<le> 500 \<and>
    su_dispatched su + su_failed su = su_attempted su \<and> su_skipped su = 0 \<and>
    run_recorded su ms s' \<and> outbox_ok s') \<and>
   (\<exists>s'. dispatch_pending sample_env (\<lambda>_ _. []) (\<lambda>rs. [RawRows (rev rs), RawCount (length rs)])
       (\<lambda>_. sample_attempt) 0 None sample_outbox
      = (Inl (PlainError ''Unable to map outbox occurredAt value: undefined''), s') \<and>
    map (\<lambda>r. (or_eventId r, or_delivery r, or_deliveryState r)) (ob_rows s') =
    map (\<lambda>r. (or_eventId r, or_delivery r, or_deliveryState r)) (ob_rows sample_outbox))"
proof
  show "claimed_ids 0 (default_limit None) sample_outbox = [''p:1:process.created:1'']"
    by (simp add: claimed_ids_def claim_candidates_def sample_outbox_def claimable_def
        sample_outbox_row_def bound_limit_def rat_trunc_def outbox_order_def default_limit_def)
qed (rule dispatch_run[OF sample_outbox_ok sample_env_ready], simp)

text \<open>
  While the transport is not configured, a dispatch run changes no row, sends nothing
  and attempts nothing: it lists at most 500 undispatched events as skipped, each with the
  missing configuration as its blockers.
\<close>

theorem dispatch_blocked:
  assumes "outbox_ok s" and "\<not> ti_readyForDispatch (get_transport_info env)"
  shows "\<exists>su. dispatch_pending env hmac returning att t limit s = (Inr (su, []), s) \<and>
    su_attempted su = 0 \<and> su_dispatched su = 0 \<and> su_failed su = 0 \<and>
    su_skipped su = min (nat (bound_limit (default_limit limit)))
      (length (filter (\<lambda>r. or_deliveryState r \<noteq> Dispatched) (ob_rows s))) \<and>
    length (su_results su) = su_skipped su \<and> su_blockers su \<noteq> [] \<and>
    list_all (\<lambda>r. dr_state r = ResSkipped \<and> dr_blockers r = su_blockers su) (su_results su)"
proof -
  let ?rows = "take (nat (bound_limit (default_limit limit)))
    (outbox_order (filter (\<lambda>r. or_deliveryState r \<noteq> Dispatched) (ob_rows s)))"
  let ?es = "map envelope_of ?rows"
  have "\<forall>r \<in> set ?rows. outbox_row_ok r"
    using assms(1) set_outbox_take by (fastforce simp: outbox_ok_def log_ok_def list_all_iff)
  then have "map_result to_envelope ?rows = Inr ?es"
    by (intro map_result_Inr) (simp add: to_envelope_ok)
  then have run: "dispatch_pending env hmac returning att t limit s =
      (Inr (skipped_summary env att summary_schema ?es, []), s)"
    using assms(2) by (simp add: dispatch_pending_def list_undispatched_def and_then_def ret_def Let_def)
  have "length ?rows = min (nat (bound_limit (default_limit limit)))
      (length (filter (\<lambda>r. or_deliveryState r \<noteq> Dispatched) (ob_rows s)))"
    by (simp add: outbox_order_def min.commute)
  moreover have "ti_blockers (get_transport_info env) \<noteq> []"
    using assms(2) by (simp add: get_transport_info_def Let_def)
  ultimately show ?thesis
    unfolding run
    by (intro exI[of _ "skipped_summary env att summary_schema ?es"])
      (auto simp: skipped_summary_def Let_def list_all_iff skipped_result_def)
qed

lemma dispatch_blocked_witness:
  "\<exists>su. dispatch_pending (\<lambda>_. None) (\<lambda>_ _. []) tuple_returning (\<lambda>_. sample_attempt) 0
      (Some PosInf) sample_outbox = (Inr (su, []), sample_outbox) \<and>
    su_attempted su = 0 \<and> su_dispatched su = 0 \<and> su_failed su = 0 \<and>
    su_skipped su = min (nat (bound_limit (default_limit (Some PosInf))))
      (length (filter (\<lambda>r. or_deliveryState r \<noteq> Dispatched) (ob_rows sample_outbox))) \<and>
    length (su_results su) = su_skipped su \<and> su_blockers su \<noteq> [] \<and>
    list_all (\<lambda>r. dr_state r = ResSkipped \<and> dr_blockers r = su_blockers su) (su_results su)"
  by (rule dispatch_blocked[OF sample_outbox_ok])
    (simp add: ready_iff get_config_def Let_def)

text \<open>
  A replay never changes the database, whatever the broker does: it only sends the
  dispatched events again.
\<close>

theorem replay_pure: "snd (replay_dispatched env hmac att limit processId eventType s) = s"
  by (auto simp: replay_dispatched_def and_then_def list_dispatched_for_replay_def
      dispatch_candidates_def Let_def dest: dispatch_loop_pure split: prod.splits sum.splits)


section \<open>What dispatching leaves alone\<close>

definition event_key :: "outbox_row \<Rightarrow> process_event_type \<times> string \<times> int \<times> int" where
  "event_key r = (or_type r, or_processId r, or_version r, or_sequenceNumber r)"

text \<open>Only the rows of the outbox differ, and only in their delivery columns.\<close>

definition delivery_only :: "('r outbox_db_scheme) \<Rightarrow> ('r outbox_db_scheme) \<Rightarrow> bool" where
  "delivery_only s s' \<longleftrightarrow>
     (\<exists>rows. s' = s\<lparr>ob_rows := rows\<rparr> \<and> map event_key rows = map event_key (ob_rows s))"

lemma delivery_only_refl [intro]: "delivery_only s s"
  unfolding delivery_only_def by (rule exI[of _ "ob_rows s"]) simp

lemma delivery_only_trans: "delivery_only s t \<Longrightarrow> delivery_only t u \<Longrightarrow> delivery_only s u"
  by (auto simp: delivery_only_def)

lemma delivery_only_update_delivery: "delivery_only s (update_delivery i t d s)"
  unfolding delivery_only_def update_delivery_def
  by (intro exI conjI) (rule refl, rule patch_rows_map_key, simp add: event_key_def)

lemma delivery_only_ops [intro]:
  "delivery_only s (snd (apply_dispatch_result t i res s))"
  "delivery_only s (snd (release_dispatch_claim t i bs s))"
  "delivery_only s (record_result t e res s)"
  by (auto simp: apply_dispatch_result_def release_dispatch_claim_def record_result_def
      delivery_only_update_delivery split: option.splits)

lemma delivery_only_claim [intro]: "delivery_only s (snd (claim_undispatched returning t l s))"
  unfolding delivery_only_def claim_undispatched_def Let_def claim_rows_def snd_conv
  by (intro exI conjI) (rule refl, rule patch_rows_map_key, simp add: event_key_def)

lemma delivery_only_release_all: "delivery_only s (release_all att bs es s)"
proof -
  have "delivery_only s (fold (\<lambda>(i, e) s. snd (release_dispatch_claim (at_db (att i)) (ev_id e) bs s)) xs s)"
    for xs :: "(nat \<times> event_envelope) list"
    by (induction xs arbitrary: s) (auto intro: delivery_only_trans)
  then show ?thesis by (simp add: release_all_def)
qed

lemma delivery_only_loop:
  "dispatch_loop env hmac att mutate i es s = ((rs, ms), s') \<Longrightarrow> delivery_only s s'"
proof (induction es arbitrary: i s rs ms s')
  case (Cons e es)
  from Cons.prems show ?case
  proof (rule dispatch_loop_ConsE)
    fix res sent rs' ms'
    assume "dispatch_loop env hmac att mutate (Suc i) es
       (if mutate then record_result (at_db (att i)) e res s else s) = ((rs', ms'), s')"
    from Cons.IH[OF this] show ?thesis
      by (cases mutate) (auto intro: delivery_only_trans[OF delivery_only_ops(3)])
  qed
qed auto

lemma delivery_only_candidates:
  "delivery_only s (snd (dispatch_candidates env hmac att schema es mutate s))"
proof (cases "ti_readyForDispatch (get_transport_info env)")
  case True
  obtain rs ms s' where l: "dispatch_loop env hmac att mutate 0 es s = ((rs, ms), s')"
    by (metis prod.exhaust)
  with True show ?thesis
    using delivery_only_loop[OF l] by (simp add: dispatch_candidates_def Let_def)
next
  case False
  then show ?thesis
    by (auto simp: dispatch_candidates_def Let_def delivery_only_release_all)
qed

lemma delivery_only_dispatch:
  "delivery_only s (snd (dispatch_pending env hmac returning att t limit s))"
proof (cases "ti_readyForDispatch (get_transport_info env)")
  case True
  let ?l = "Fin (of_int (bound_limit (default_limit limit)))"
  obtain r s' where c: "claim_undispatched returning t ?l s = (r, s')" by fastforce
  then have "delivery_only s s'" using delivery_only_claim[of s returning t ?l] by simp
  moreover have "delivery_only s' (snd (dispatch_candidates env hmac att summary_schema es True s'))"
    for es by (rule delivery_only_candidates)
  ultimately show ?thesis
    using True by (cases r) (auto simp: dispatch_pending_def and_then_def c intro: delivery_only_trans)
next
  case False
  then show ?thesis
    by (auto simp: dispatch_pending_def list_undispatched_def ret_def and_then_def split: sum.splits)
qed

lemma release_all_ok: "outbox_ok s \<Longrightarrow> outbox_ok (release_all att bs es s)"
proof -
  have "outbox_ok (fold (\<lambda>(i, e) s. snd (release_dispatch_claim (at_db (att i)) (ev_id e) bs s)) xs u)"
    if "outbox_ok u" for xs :: "(nat \<times> event_envelope) list" and u :: "'a outbox_db_scheme"
    using that by (induction xs arbitrary: u) (auto simp: release_dispatch_claim_ok)
  then show "outbox_ok s \<Longrightarrow> outbox_ok (release_all att bs es s)" by (simp add: release_all_def)
qed

lemma dispatch_candidates_ok:
  "outbox_ok s \<Longrightarrow> outbox_ok (snd (dispatch_candidates env hmac att schema es mutate s))"
proof (cases "ti_readyForDispatch (get_transport_info env)")
  case True
  obtain rs ms s' where l: "dispatch_loop env hmac att mutate 0 es s = ((rs, ms), s')"
    by (metis prod.exhaust)
  then show "outbox_ok s \<Longrightarrow> ?thesis"
    using True dispatch_loop_ok[OF l] by (simp add: dispatch_candidates_def Let_def)
next
  case False
  then show "outbox_ok s \<Longrightarrow> ?thesis"
    by (simp add: dispatch_candidates_def Let_def release_all_ok)
qed

lemma dispatch_pending_ok:
  assumes "outbox_ok s"
  shows "outbox_ok (snd (dispatch_pending env hmac returning att t limit s))"
proof (cases "ti_readyForDispatch (get_transport_info env)")
  case True
  let ?l = "Fin (of_int (bound_limit (default_limit limit)))"
  obtain r s' where c: "claim_undispatched returning t ?l s = (r, s')" by fastforce
  then have "outbox_ok s'" using claim_undispatched_ok[OF assms, of returning t ?l] by simp
  then show ?thesis
    using True by (cases r) (auto simp: dispatch_pending_def and_then_def c dispatch_candidates_ok)
next
  case False
  then show ?thesis
    using assms
    by (auto simp: dispatch_pending_def list_undispatched_def ret_def and_then_def split: sum.splits)
qed


section \<open>The query parameter\<close>

text \<open>
  A limit read from the query string is rejected unless it is an optional minus sign
  and decimal digits (after trimming); an accepted one leads to a claim of 1 to 500 rows.
\<close>

theorem parse_limit_bounded:
  "(case parse_limit (Some raw) of
      Inl e \<Rightarrow> \<not> integer_text (js_trim raw)
    | Inr l \<Rightarrow> integer_text (js_trim raw) \<and> l = Some (parse_int (js_trim raw)) \<and>
        1 \<le> bound_limit (default_limit l) \<and> bound_limit (default_limit l) \<le> 500)"
  using bound_limit_bounds by (simp add: parse_limit_def Let_def)

end
