(* ===== verification/Registry.thy ===== *)
theory Registry
  imports JsValue
begin

text \<open>
  In-memory registries keyed by \<open>id:version\<close>, as the policy and the workflow service
  keep them: a JavaScript \<open>Map\<close> (here the list of its entries in insertion order) and
  the composite key. The locale \<open>keyed_registry\<close> states what its two clients rely on:
  what a lookup returns after an upsert. Its lemmas say how a sequence of upserts (the
  constructors' seed loops) determines every later lookup.
\<close>

definition composite_key :: "string \<Rightarrow> int \<Rightarrow> string" where
  "composite_key i v = i @ CHR '':'' # int_str v"

lemma composite_key_inj [simp]: "composite_key i v = composite_key j w \<longleftrightarrow> i = j \<and> v = w"
proof
  assume "composite_key i v = composite_key j w"
  then have "i = j \<and> int_str v = int_str w"
    unfolding composite_key_def by (rule split_at_last) simp_all
  then show "i = j \<and> v = w" by simp
qed simp

text \<open>The last upsert of a key decides; a key never upserted is looked up as before.\<close>

definition last_with :: "('d \<Rightarrow> 'k) \<Rightarrow> 'k \<Rightarrow> 'd list \<Rightarrow> 'd option" where
  "last_with key k ds = find (\<lambda>d. key d = k) (rev ds)"

lemma last_with_append:
  "last_with key k (ds @ es) =
   (case last_with key k es of None \<Rightarrow> last_with key k ds | Some d \<Rightarrow> Some d)"
  by (simp add: last_with_def find_append split: option.splits)

lemma last_with_SomeD: "last_with key k ds = Some d \<Longrightarrow> d \<in> set ds \<and> key d = k"
  using find_SomeD[of "\<lambda>d. key d = k" "rev ds" d] by (simp add: last_with_def)

lemma last_with_None_iff: "last_with key k ds = None \<longleftrightarrow> (\<forall>d \<in> set ds. key d \<noteq> k)"
  by (simp add: last_with_def find_None_iff_all)

locale keyed_registry =
  fixes key :: "'d \<Rightarrow> 'k"
    and upsert :: "'d \<Rightarrow> 'm \<Rightarrow> 'm"
    and lookup :: "'m \<Rightarrow> 'k \<Rightarrow> 'd option"
  assumes lookup_upsert: "lookup (upsert d m) k = (if k = key d then Some d else lookup m k)"
begin

lemma lookup_load:
  "lookup (fold upsert ds m) k =
   (case last_with key k ds of None \<Rightarrow> lookup m k | Some d \<Rightarrow> Some d)"
proof (induction ds arbitrary: m)
  case Nil
  then show ?case by (simp add: last_with_def)
next
  case (Cons d ds)
  have "last_with key k (d # ds) =
      (case last_with key k ds of None \<Rightarrow> (if key d = k then Some d else None) | Some e \<Rightarrow> Some e)"
    using last_with_append[of key k "[d]" ds] by (simp add: last_with_def split: option.splits)
  then show ?case by (auto simp: Cons.IH lookup_upsert split: option.splits)
qed

lemma lookup_load_hit:
  "d \<in> set ds \<Longrightarrow> \<exists>e \<in> set ds. key e = key d \<and> lookup (fold upsert ds m) (key d) = Some e"
proof -
  assume "d \<in> set ds"
  then obtain e where "last_with key (key d) ds = Some e"
    by (metis last_with_None_iff option.exhaust)
  then show ?thesis using last_with_SomeD by (fastforce simp: lookup_load)
qed

lemma upsert_other: "k \<noteq> key d \<Longrightarrow> lookup (upsert d m) k = lookup m k"
  by (simp add: lookup_upsert)

lemma upsert_twice: "key e = key d \<Longrightarrow> lookup (upsert e (upsert d m)) k = lookup (upsert e m) k"
  by (simp add: lookup_upsert)

lemma lookup_upsert_map: "lookup (upsert d m) = (lookup m)(key d \<mapsto> d)"
  by (rule ext) (simp add: lookup_upsert)

lemma later_seeds_win:
  "lookup (fold upsert (ds @ es) m) k =
   (case last_with key k es of None \<Rightarrow> lookup (fold upsert ds m) k | Some e \<Rightarrow> Some e)"
  by (simp add: lookup_load last_with_append split: option.splits)

end

end
