(* ===== verification/ProcessStore.thy ===== *)
theory ProcessStore
  imports Publisher Registry "HOL-Library.List_Lexorder" "HOL-Library.Char_ord"
begin

text \<open>
  The process registry's tables and repository:
  \<open>src/src/processes/process-registry.repository.ts\<close> and the two entities. The
  database record extends the outbox's, so one transaction covers both. The surrogate
  keys (uuids that no code reads) are left out: a row is identified by its unique key.
\<close>

section \<open>Tables\<close>

record process_row =
  pr_schemaVersion :: string
  pr_processId :: string
  pr_version :: int
  pr_status :: lifecycle_status
  pr_activeFrom :: "string option"
  pr_activeTo :: "string option"
  pr_policyRefs :: "string list"
  pr_workflowRefs :: "string list"
  pr_campaignRefs :: "string list"
  pr_killSwitch :: bool
  pr_lastValidation :: "process_validation option"
  pr_createdAt :: instant
  pr_updatedAt :: instant

record audit_row =
  ar_processId :: string
  ar_version :: int
  ar_sequenceNumber :: int
  ar_schemaVersion :: string
  ar_id :: string
  ar_action :: audit_action
  ar_actor :: string
  ar_createdAt :: instant
  ar_details :: json_object

record process_db = outbox_db +
  db_processes :: "process_row list"
  db_audit :: "audit_row list"
  db_auditSeq :: int

text \<open>
  \<open>dataSource.transaction\<close>: an exception restores the tables, but a value drawn from
  a sequence stays drawn.
\<close>

definition transaction :: "(process_db, 'a) op \<Rightarrow> (process_db, 'a) op" where
  "transaction m s =
     (case m s of
        (Inr x, s') \<Rightarrow> (Inr x, s')
      | (Inl e, s') \<Rightarrow> (Inl e, s\<lparr>ob_seq := ob_seq s', db_auditSeq := db_auditSeq s'\<rparr>))"

lemma transaction_simps [effect_simps]:
  "m s = (Inr x, s') \<Longrightarrow> transaction m s = (Inr x, s')"
  "m s = (Inl e, s') \<Longrightarrow>
     transaction m s = (Inl e, s\<lparr>ob_seq := ob_seq s', db_auditSeq := db_auditSeq s'\<rparr>)"
  by (simp_all add: transaction_def)


section \<open>Process definitions\<close>

text \<open>
  The version columns are 32-bit integers: the database refuses a query, an insert or an
  update whose version does not fit.
\<close>

definition int4 :: "int \<Rightarrow> bool" where
  "int4 v \<longleftrightarrow> - (2 ^ 31) \<le> v \<and> v < 2 ^ 31"

definition out_of_range :: "int \<Rightarrow> error" where
  "out_of_range v = PlainError (''value \"'' @ int_str v @ ''\" is out of range for type integer'')"

definition int4_parameter :: "int \<Rightarrow> (process_db, unit) op" where
  "int4_parameter v = (if int4 v then ret () else throw (out_of_range v))"

definition same_key :: "string \<Rightarrow> int \<Rightarrow> process_row \<Rightarrow> bool" where
  "same_key i v r \<longleftrightarrow> pr_processId r = i \<and> pr_version r = v"

definition to_process_definition :: "process_row \<Rightarrow> error + process_definition" where
  "to_process_definition r =
     (case iso_or_throw (pr_createdAt r) of
        Inl e \<Rightarrow> Inl e
      | Inr createdAt \<Rightarrow>
          (case iso_or_throw (pr_updatedAt r) of
             Inl e \<Rightarrow> Inl e
           | Inr updatedAt \<Rightarrow> Inr
               \<lparr>pd_schemaVersion = pr_schemaVersion r, pd_processId = pr_processId r,
                pd_version = pr_version r, pd_status = pr_status r,
                pd_activeFrom = pr_activeFrom r, pd_activeTo = pr_activeTo r,
                pd_policyRefs = pr_policyRefs r, pd_workflowRefs = pr_workflowRefs r,
                pd_campaignRefs = pr_campaignRefs r, pd_killSwitch = pr_killSwitch r,
                pd_createdAt = createdAt, pd_updatedAt = updatedAt,
                pd_lastValidation = pr_lastValidation r\<rparr>))"

text \<open>The database's text order of process ids is the parameter \<open>db_collate\<close>.\<close>

definition list_processes ::
  "(string \<Rightarrow> string) \<Rightarrow> (process_db, process_definition list) op" where
  "list_processes db_collate s =
     (map_result to_process_definition
        (sort_key (\<lambda>r. (db_collate (pr_processId r), pr_version r))
           (db_processes s)), s)"

text \<open>
  \<open>findProcess\<close> and \<open>findProcessForUpdate\<close>: the latter also locks the row for the
  rest of the transaction.
\<close>

definition find_process :: "string \<Rightarrow> int \<Rightarrow> (process_db, process_definition option) op" where
  "find_process i v =
     and_then (int4_parameter v) (\<lambda>_ s.
       case find (same_key i v) (db_processes s) of
         None \<Rightarrow> (Inr None, s)
       | Some r \<Rightarrow> (map_sum id Some (to_process_definition r), s))"

definition process_entity :: "process_definition \<Rightarrow> instant \<Rightarrow> instant \<Rightarrow> process_row" where
  "process_entity p createdAt updatedAt =
     \<lparr>pr_schemaVersion = pd_schemaVersion p, pr_processId = pd_processId p,
      pr_version = pd_version p, pr_status = pd_status p, pr_activeFrom = pd_activeFrom p,
      pr_activeTo = pd_activeTo p, pr_policyRefs = pd_policyRefs p,
      pr_workflowRefs = pd_workflowRefs p, pr_campaignRefs = pd_campaignRefs p,
      pr_killSwitch = pd_killSwitch p, pr_lastValidation = pd_lastValidation p,
      pr_createdAt = createdAt, pr_updatedAt = updatedAt\<rparr>"

text \<open>
  Saving an entity: an UPDATE of the row whose key the entity carries, an INSERT otherwise.
\<close>

definition save_process_row :: "bool \<Rightarrow> process_row \<Rightarrow> (process_db, process_row) op" where
  "save_process_row existing r s =
     (if existing
      then (Inr r, s\<lparr>db_processes :=
              patch_rows (same_key (pr_processId r) (pr_version r)) (\<lambda>_. r) (db_processes s)\<rparr>)
      else
        (case insert_row ''uq_bpcp_process_definition''
                (\<lambda>a b. same_key (pr_processId a) (pr_version a) b) r (db_processes s) of
           Inl e \<Rightarrow> (Inl e, s)
         | Inr rows \<Rightarrow> (Inr r, s\<lparr>db_processes := rows\<rparr>)))"

definition save_process ::
  "host_parse \<Rightarrow> process_definition \<Rightarrow> (process_db, process_definition) op" where
  "save_process host p =
     and_then (int4_parameter (pd_version p)) (\<lambda>_.
     and_then (read_state (\<lambda>s. find (same_key (pd_processId p) (pd_version p)) (db_processes s) \<noteq> None))
       (\<lambda>existing.
     and_then (lift_result (to_date host (pd_createdAt p))) (\<lambda>createdAt.
     and_then (lift_result (to_date host (pd_updatedAt p))) (\<lambda>updatedAt.
     and_then (save_process_row existing (process_entity p createdAt updatedAt)) (\<lambda>saved.
     lift_result (to_process_definition saved))))))"


section \<open>The audit trail\<close>

definition next_audit_sequence :: "(process_db, int) op" where
  "next_audit_sequence s =
     (checked_sequence ''Failed to allocate process audit sequence number'' (db_auditSeq s + 1),
      s\<lparr>db_auditSeq := db_auditSeq s + 1\<rparr>)"

definition audit_id :: "string \<Rightarrow> int \<Rightarrow> audit_action \<Rightarrow> int \<Rightarrow> string" where
  "audit_id i v action sequenceNumber =
     i @ '':'' @ int_str v @ '':'' @ audit_action_text action @ '':'' @ int_str sequenceNumber"

definition save_audit_row :: "audit_row \<Rightarrow> (process_db, audit_row) op" where
  "save_audit_row r s =
     (case insert_row ''uq_bpcp_process_audit_event_id'' (\<lambda>a b. ar_id a = ar_id b) r (db_audit s) of
        Inl e \<Rightarrow> (Inl e, s)
      | Inr rows \<Rightarrow> (Inr r, s\<lparr>db_audit := rows\<rparr>))"

definition audit_entity ::
  "audit_action \<Rightarrow> process_definition \<Rightarrow> string \<Rightarrow> json_object \<Rightarrow> int \<Rightarrow> instant \<Rightarrow> audit_row" where
  "audit_entity action p actor details sequenceNumber createdAt =
     \<lparr>ar_processId = pd_processId p, ar_version = pd_version p,
      ar_sequenceNumber = sequenceNumber, ar_schemaVersion = ''bpcp.process-audit.v1'',
      ar_id = audit_id (pd_processId p) (pd_version p) action sequenceNumber,
      ar_action = action, ar_actor = actor, ar_createdAt = createdAt, ar_details = details\<rparr>"

definition append_audit ::
  "host_parse \<Rightarrow> instant \<Rightarrow> audit_action \<Rightarrow> process_definition \<Rightarrow> string \<Rightarrow> json_object \<Rightarrow>
   (process_db, process_audit_event) op" where
  "append_audit host now action p actor details =
     and_then next_audit_sequence (\<lambda>sequenceNumber.
     and_then (lift_result (to_date host (iso_render now))) (\<lambda>createdAt.
     and_then (save_audit_row (audit_entity action p actor details sequenceNumber createdAt)) (\<lambda>_.
     ret \<lparr>pa_schemaVersion = ''bpcp.process-audit.v1'',
          pa_id = audit_id (pd_processId p) (pd_version p) action sequenceNumber,
          pa_processId = pd_processId p, pa_version = pd_version p, pa_action = action,
          pa_actor = actor, pa_createdAt = iso_render now, pa_details = details\<rparr>)))"

definition to_audit_event :: "audit_row \<Rightarrow> error + process_audit_event" where
  "to_audit_event r =
     (case iso_or_throw (ar_createdAt r) of
        Inl e \<Rightarrow> Inl e
      | Inr createdAt \<Rightarrow> Inr
          \<lparr>pa_schemaVersion = ar_schemaVersion r, pa_id = ar_id r,
           pa_processId = ar_processId r, pa_version = ar_version r, pa_action = ar_action r,
           pa_actor = ar_actor r, pa_createdAt = createdAt, pa_details = ar_details r\<rparr>)"

definition list_audit :: "string \<Rightarrow> int option \<Rightarrow> (process_db, process_audit_event list) op" where
  "list_audit i version =
     and_then (case version of None \<Rightarrow> ret () | Some v \<Rightarrow> int4_parameter v) (\<lambda>_ s.
       (map_result to_audit_event
          (sort_key ar_sequenceNumber
             (filter (\<lambda>r. ar_processId r = i \<and>
                        (case version of None \<Rightarrow> True | Some v \<Rightarrow> ar_version r = v))
                (db_audit s))), s))"

definition counts :: "(process_db, nat \<times> nat) op" where
  "counts s = (Inr (length (db_processes s), length (db_audit s)), s)"


section \<open>Invariant\<close>

definition process_row_ok :: "process_row \<Rightarrow> bool" where
  "process_row_ok r \<longleftrightarrow> int4 (pr_version r) \<and> \<bar>pr_createdAt r\<bar> \<le> max_time \<and> \<bar>pr_updatedAt r\<bar> \<le> max_time"

definition process_rows_ok :: "process_row list \<Rightarrow> bool" where
  "process_rows_ok rows \<longleftrightarrow>
     list_all process_row_ok rows \<and> distinct (map (\<lambda>r. (pr_processId r, pr_version r)) rows)"

definition audit_row_ok :: "audit_row \<Rightarrow> bool" where
  "audit_row_ok r \<longleftrightarrow>
     ar_id r = audit_id (ar_processId r) (ar_version r) (ar_action r) (ar_sequenceNumber r) \<and>
     \<bar>ar_createdAt r\<bar> \<le> max_time"

definition process_db_ok :: "process_db \<Rightarrow> bool" where
  "process_db_ok s \<longleftrightarrow>
     outbox_ok s \<and> process_rows_ok (db_processes s) \<and>
     log_ok audit_row_ok ar_sequenceNumber (db_auditSeq s) (db_audit s)"

definition audit_prefix :: "audit_row \<Rightarrow> string" where
  "audit_prefix r =
     ar_processId r @ '':'' @ int_str (ar_version r) @ '':'' @ audit_action_text (ar_action r)"

interpretation audit_log: sequenced_log audit_row_ok ar_sequenceNumber ar_id audit_prefix
  by unfold_locales (simp add: audit_row_ok_def audit_id_def audit_prefix_def)



section \<open>Lookup and save\<close>

text \<open>A save as a function on the rows, and the map that the rows stand for.\<close>

definition put_process :: "process_row \<Rightarrow> process_row list \<Rightarrow> process_row list" where
  "put_process r rows =
     (if find (same_key (pr_processId r) (pr_version r)) rows = None then rows @ [r]
      else patch_rows (same_key (pr_processId r) (pr_version r)) (\<lambda>_. r) rows)"

definition process_key :: "process_row \<Rightarrow> string \<times> int" where
  "process_key r = (pr_processId r, pr_version r)"

definition lookup_process :: "process_row list \<Rightarrow> string \<times> int \<Rightarrow> process_row option" where
  "lookup_process rows k = find (same_key (fst k) (snd k)) rows"

lemma same_key_simp [simp]: "same_key i v = (\<lambda>r. process_key r = (i, v))"
  by (auto simp: same_key_def process_key_def)

lemma process_key_fold [simp]: "(pr_processId r, pr_version r) = process_key r"
  by (simp add: process_key_def)

lemma lookup_put:
  "lookup_process (put_process r rows) k =
     (if k = process_key r then Some r else lookup_process rows k)"
proof -
  have patched: "find (\<lambda>x. process_key x = k) (patch_rows (\<lambda>x. process_key x = process_key r) (\<lambda>_. r) rows) =
      (if k = process_key r then map_option (\<lambda>_. r) (find (\<lambda>x. process_key x = k) rows)
       else find (\<lambda>x. process_key x = k) rows)"
    by (induction rows) auto
  then show ?thesis
    by (auto simp: lookup_process_def put_process_def find_append split: option.splits)
qed

interpretation pstore: keyed_registry process_key put_process lookup_process
  by unfold_locales (rule lookup_put)

lemma lookup_process_SomeD: "lookup_process rows k = Some r \<Longrightarrow> r \<in> set rows \<and> process_key r = k"
  by (auto simp: lookup_process_def dest: find_SomeD)

lemma process_rows_ok_keys:
  "process_rows_ok rows \<longleftrightarrow> list_all process_row_ok rows \<and> distinct (map process_key rows)"
  by (simp add: process_rows_ok_def)

lemma put_process_ok:
  assumes "process_rows_ok rows" and "process_row_ok r"
  shows "process_rows_ok (put_process r rows)"
proof (cases "find (\<lambda>x. process_key x = process_key r) rows")
  case None
  then show ?thesis
    using assms by (auto simp: process_rows_ok_keys put_process_def find_None_iff_all)
next
  case (Some r')
  then have p: "put_process r rows = patch_rows (\<lambda>x. process_key x = process_key r) (\<lambda>_. r) rows"
    by (simp add: put_process_def)
  have "map process_key (put_process r rows) = map process_key rows"
    unfolding p by (rule patch_rows_map_key) simp
  then show ?thesis
    using assms unfolding process_rows_ok_keys p by (auto simp: list_all_iff set_patch_rows)
qed

definition definition_of :: "process_row \<Rightarrow> process_definition" where
  "definition_of r =
     \<lparr>pd_schemaVersion = pr_schemaVersion r, pd_processId = pr_processId r,
      pd_version = pr_version r, pd_status = pr_status r,
      pd_activeFrom = pr_activeFrom r, pd_activeTo = pr_activeTo r,
      pd_policyRefs = pr_policyRefs r, pd_workflowRefs = pr_workflowRefs r,
      pd_campaignRefs = pr_campaignRefs r, pd_killSwitch = pr_killSwitch r,
      pd_createdAt = iso_render (pr_createdAt r), pd_updatedAt = iso_render (pr_updatedAt r),
      pd_lastValidation = pr_lastValidation r\<rparr>"

lemma definition_of_sel [simp]:
  "pd_schemaVersion (definition_of r) = pr_schemaVersion r"
  "pd_processId (definition_of r) = pr_processId r" "pd_version (definition_of r) = pr_version r"
  "pd_status (definition_of r) = pr_status r" "pd_activeFrom (definition_of r) = pr_activeFrom r"
  "pd_activeTo (definition_of r) = pr_activeTo r" "pd_policyRefs (definition_of r) = pr_policyRefs r"
  "pd_workflowRefs (definition_of r) = pr_workflowRefs r"
  "pd_campaignRefs (definition_of r) = pr_campaignRefs r"
  "pd_killSwitch (definition_of r) = pr_killSwitch r"
  "pd_createdAt (definition_of r) = iso_render (pr_createdAt r)"
  "pd_updatedAt (definition_of r) = iso_render (pr_updatedAt r)"
  "pd_lastValidation (definition_of r) = pr_lastValidation r"
  by (simp_all add: definition_of_def)

lemma to_process_definition_ok: "process_row_ok r \<Longrightarrow> to_process_definition r = Inr (definition_of r)"
  by (simp add: to_process_definition_def process_row_ok_def definition_of_def iso_or_throw_bounded)

lemma lookup_row_ok:
  "process_db_ok s \<Longrightarrow> lookup_process (db_processes s) k = Some r \<Longrightarrow> process_row_ok r"
  by (auto simp: process_db_ok_def process_rows_ok_keys list_all_iff dest: lookup_process_SomeD)

lemma lookup_int4:
  "process_db_ok s \<Longrightarrow> lookup_process (db_processes s) (i, v) = Some r \<Longrightarrow> int4 v"
  using lookup_row_ok[of s "(i, v)" r] lookup_process_SomeD[of "db_processes s" "(i, v)" r]
  by (auto simp: process_row_ok_def process_key_def simp del: process_key_fold)

lemma int4_parameter_simps [effect_simps]:
  "int4 v \<Longrightarrow> int4_parameter v = ret ()"
  "\<not> int4 v \<Longrightarrow> int4_parameter v = throw (out_of_range v)"
  by (simp_all add: int4_parameter_def)

lemma find_process_eq:
  "process_db_ok s \<Longrightarrow>
   find_process i v s =
     (if int4 v then Inr (map_option definition_of (lookup_process (db_processes s) (i, v)))
      else Inl (out_of_range v), s)"
  using lookup_row_ok[of s "(i, v)"]
  by (auto simp: find_process_def lookup_process_def to_process_definition_ok and_then_def ret_def
      throw_def int4_parameter_def split: option.splits)

lemma date_parse_render [simp]: "\<bar>t\<bar> \<le> max_time \<Longrightarrow> date_parse host (iso_render t) = Some t"
  by (rule date_parse_to_iso) (simp add: to_iso_def time_clip_def)

text \<open>
  Saving the definition of a valid row stores exactly that row and returns the definition.
\<close>

lemma save_process_row_eq:
  "save_process_row (lookup_process (db_processes s) (process_key r) \<noteq> None) r s =
     (Inr r, s\<lparr>db_processes := put_process r (db_processes s)\<rparr>)"
proof (cases "find (\<lambda>x. process_key x = process_key r) (db_processes s)")
  case None
  then have "insert_row c (\<lambda>a b. process_key b = process_key a) r (db_processes s) =
      Inr (db_processes s @ [r])" for c
    by (simp add: insert_row_def find_None_iff_all)
  with None show ?thesis
    by (simp add: save_process_row_def put_process_def lookup_process_def)
next
  case (Some r')
  then show ?thesis by (simp add: save_process_row_def put_process_def lookup_process_def)
qed

lemma save_process_eq:
  assumes "process_row_ok r"
  shows "save_process host (definition_of r) s =
    (Inr (definition_of r), s\<lparr>db_processes := put_process r (db_processes s)\<rparr>)"
proof -
  have dates: "int4 (pr_version r)" "\<bar>pr_createdAt r\<bar> \<le> max_time" "\<bar>pr_updatedAt r\<bar> \<le> max_time"
    using assms by (simp_all add: process_row_ok_def)
  have entity: "process_entity (definition_of r) (pr_createdAt r) (pr_updatedAt r) = r"
    by (simp add: process_entity_def)
  have row: "save_process_row (\<exists>y. find (\<lambda>x. process_key x = process_key r) (db_processes s) = Some y) r s =
      (Inr r, s\<lparr>db_processes := put_process r (db_processes s)\<rparr>)"
    using save_process_row_eq[of s r] by (simp add: lookup_process_def)
  show ?thesis
    using dates
    by (simp add: save_process_def int4_parameter_simps ret_def and_then_def read_state_def lift_result_def to_date_def entity
        row to_process_definition_ok[OF assms])
qed

end
