(* ===== verification/ProcessRegistry.thy ===== *)
theory ProcessRegistry
  imports ProcessStore
begin

text \<open>
  The process registry: \<open>src/src/processes/process-registry.service.ts\<close>, with the
  actor of \<open>process-registry.controller.ts\<close>. The readings of the clocks that one
  transaction takes are a record \<open>clock_reads\<close>; schedule and publish run two
  transactions, so they take two.
\<close>

record clock_reads =
  ck_validatedAt :: instant
  ck_now :: instant
  ck_audit :: instant
  ck_event :: instant
  ck_db :: db_time

definition clock_ok :: "clock_reads \<Rightarrow> bool" where
  "clock_ok ck \<longleftrightarrow>
     \<bar>ck_validatedAt ck\<bar> \<le> max_time \<and> \<bar>ck_now ck\<bar> \<le> max_time \<and> \<bar>ck_audit ck\<bar> \<le> max_time \<and>
     \<bar>ck_event ck\<bar> \<le> max_time"


section \<open>Validation\<close>

definition validate_date_window ::
  "host_parse \<Rightarrow> string option \<Rightarrow> string option \<Rightarrow> bool \<times> string" where
  "validate_date_window host activeFrom activeTo =
     (case (activeFrom, activeTo) of
        (Some (c # from), Some (d # to')) \<Rightarrow>
          (case (date_parse host (c # from), date_parse host (d # to')) of
             (Some f, Some t) \<Rightarrow>
               if f > t then (False, ''activeFrom must be before activeTo.'')
               else (True, ''Date window is valid.'')
           | _ \<Rightarrow> (False, ''Date window values must be valid ISO-compatible dates.''))
      | _ \<Rightarrow>
          (True, ''Date window is optional for drafts; scheduled/active process owners should define it.''))"

definition finding :: "string \<Rightarrow> severity \<Rightarrow> string \<Rightarrow> validation_finding" where
  "finding c s m = \<lparr>vf_code = c, vf_severity = s, vf_message = m\<rparr>"

definition collect_validation_findings ::
  "host_parse \<Rightarrow> process_definition \<Rightarrow> validation_finding list" where
  "collect_validation_findings host p =
     (let dateWindow = validate_date_window host (pd_activeFrom p) (pd_activeTo p) in
      [finding ''SCHEMA_VERSION_SUPPORTED'' (check (pd_schemaVersion p = ''bpcp.process.v1''))
         ''Process schema version must be bpcp.process.v1.'',
       finding ''PROCESS_ID_PRESENT'' (check (length (js_trim (pd_processId p)) > 0))
         ''Process id must be present.'',
       finding ''POLICY_REFS_PRESENT'' (check (length (pd_policyRefs p) > 0))
         ''At least one policy reference is required.'',
       finding ''WORKFLOW_REFS_PRESENT'' (check (length (pd_workflowRefs p) > 0))
         ''At least one workflow reference is required.'',
       finding ''KILL_SWITCH_PRESENT'' (check (pd_killSwitch p))
         ''Every active-capable process must define a kill switch.'',
       finding ''DATE_WINDOW_VALID'' (check (fst dateWindow)) (snd dateWindow),
       finding ''POSTGRES_RUNTIME_STORE_CONFIGURED'' Pass
         ''Process registry runtime persistence is backed by PostgreSQL tables and TypeORM migrations.'',
       finding ''POLICY_WORKFLOW_REGISTRY_PENDING'' Warning
         ''[MISSING: policy/workflow module integration must verify every ref before production publish]'',
       finding ''LOCAL_EVENT_OUTBOX_CONFIGURED'' Pass
         ''Process lifecycle transitions append durable process events to the PostgreSQL outbox.'',
       finding ''EVENT_BUS_PRODUCTION_ENABLEMENT_MISSING'' Warning
         ''[MISSING: BPCP event dispatch enablement, signing secret, and approved consumer bindings]''])"


section \<open>Audit and event\<close>

fun event_type_by_audit_action :: "audit_action \<Rightarrow> process_event_type option" where
  "event_type_by_audit_action ActCreated = Some ProcessCreated"
| "event_type_by_audit_action ActValidated = Some ProcessValidated"
| "event_type_by_audit_action ActScheduled = Some ProcessScheduled"
| "event_type_by_audit_action ActPublished = Some ProcessPublished"
| "event_type_by_audit_action ActPaused = Some ProcessPaused"
| "event_type_by_audit_action ActRetired = Some ProcessRetired"
| "event_type_by_audit_action ActSeeded = None"

definition append_audit_and_event ::
  "host_parse \<Rightarrow> clock_reads \<Rightarrow> audit_action \<Rightarrow> process_definition \<Rightarrow> string \<Rightarrow> json_object \<Rightarrow>
   (process_db, unit) op" where
  "append_audit_and_event host ck action p actor details =
     and_then (append_audit host (ck_audit ck) action p actor details) (\<lambda>_.
       case event_type_by_audit_action action of
         None \<Rightarrow> ret ()
       | Some type \<Rightarrow>
           and_then (publish_process_event host (ck_db ck) (ck_event ck) type p action details)
             (\<lambda>_. ret ()))"

definition normalized_actor :: "string \<Rightarrow> string" where
  "normalized_actor actor = (let trimmed = js_trim actor in if length trimmed > 0 then trimmed else ''system'')"

definition not_found :: "string \<Rightarrow> int \<Rightarrow> error" where
  "not_found i v = NotFoundException (''Process '' @ i @ '':'' @ int_str v @ '' was not found'')"

definition require_process_for_update :: "string \<Rightarrow> int \<Rightarrow> (process_db, process_definition) op" where
  "require_process_for_update i v =
     and_then (find_process i v) (\<lambda>found.
       case found of None \<Rightarrow> throw (not_found i v) | Some p \<Rightarrow> ret p)"


section \<open>Operations\<close>

definition new_process_definition :: "create_process_dto \<Rightarrow> instant \<Rightarrow> process_definition" where
  "new_process_definition dto now =
     \<lparr>pd_schemaVersion = ''bpcp.process.v1'', pd_processId = cp_processId dto,
      pd_version = or_else (cp_version dto) 1, pd_status = or_else (cp_status dto) Draft,
      pd_activeFrom = cp_activeFrom dto, pd_activeTo = cp_activeTo dto,
      pd_policyRefs = cp_policyRefs dto, pd_workflowRefs = cp_workflowRefs dto,
      pd_campaignRefs = or_else (cp_campaignRefs dto) [],
      pd_killSwitch = or_else (cp_killSwitch dto) True,
      pd_createdAt = iso_render now, pd_updatedAt = iso_render now, pd_lastValidation = None\<rparr>"

definition create_process ::
  "host_parse \<Rightarrow> clock_reads \<Rightarrow> create_process_dto \<Rightarrow> string \<Rightarrow> (process_db, process_definition) op" where
  "create_process host ck dto actor =
     (let version = or_else (cp_version dto) 1 in
      transaction
        (and_then (find_process (cp_processId dto) version) (\<lambda>existing.
           if existing \<noteq> None
           then throw (ConflictException (''Process '' @ cp_processId dto @ '':'' @ int_str version @
                  '' already exists''))
           else
             and_then (save_process host (new_process_definition dto (ck_now ck))) (\<lambda>saved.
             and_then (append_audit_and_event host ck ActCreated saved (normalized_actor actor)
                         [(''source'', JStr ''api'')]) (\<lambda>_.
             ret saved)))))"

definition get_process :: "string \<Rightarrow> int \<Rightarrow> (process_db, process_definition) op" where
  "get_process i v =
     and_then (find_process i v) (\<lambda>found.
       case found of None \<Rightarrow> throw (not_found i v) | Some p \<Rightarrow> ret p)"

definition count_details :: "process_validation \<Rightarrow> json_object" where
  "count_details v =
     [(''valid'', JBool (pv_valid v)),
      (''failCount'', JNum (Fin (of_nat (severity_count Fail (pv_findings v))))),
      (''warningCount'', JNum (Fin (of_nat (severity_count Warning (pv_findings v)))))]"

definition validation_of ::
  "host_parse \<Rightarrow> instant \<Rightarrow> string \<Rightarrow> int \<Rightarrow> process_definition \<Rightarrow> process_validation" where
  "validation_of host now i v p =
     (let findings = collect_validation_findings host p
      in \<lparr>pv_processId = i, pv_version = v, pv_valid = verdict findings,
          pv_validatedAt = iso_render now, pv_findings = findings\<rparr>)"

definition validate_process ::
  "host_parse \<Rightarrow> clock_reads \<Rightarrow> string \<Rightarrow> int \<Rightarrow> string \<Rightarrow> (process_db, process_validation) op" where
  "validate_process host ck i v actor =
     transaction
       (and_then (require_process_for_update i v) (\<lambda>p.
          let validation = validation_of host (ck_validatedAt ck) i v p;
              updated = p\<lparr>pd_status := (if pv_valid validation \<and> pd_status p = Draft
                                       then Validated else pd_status p),
                          pd_lastValidation := Some validation,
                          pd_updatedAt := iso_render (ck_now ck)\<rparr>
          in and_then (save_process host updated) (\<lambda>saved.
             and_then (append_audit_and_event host ck ActValidated saved (normalized_actor actor)
                         (count_details validation)) (\<lambda>_.
             ret validation))))"

definition transition ::
  "host_parse \<Rightarrow> clock_reads \<Rightarrow> string \<Rightarrow> int \<Rightarrow> lifecycle_status \<Rightarrow> audit_action \<Rightarrow> json_object \<Rightarrow>
   string \<Rightarrow> (process_definition \<Rightarrow> error option) \<Rightarrow> (process_db, process_definition) op" where
  "transition host ck i v status action details actor guard =
     transaction
       (and_then (require_process_for_update i v) (\<lambda>p.
          case guard p of
            Some e \<Rightarrow> throw e
          | None \<Rightarrow>
              and_then (save_process host (p\<lparr>pd_status := status, pd_updatedAt := iso_render (ck_now ck)\<rparr>))
                (\<lambda>saved.
              and_then (append_audit_and_event host ck action saved (normalized_actor actor) details)
                (\<lambda>_. ret saved))))"

definition warnings :: "string \<Rightarrow> json_object" where
  "warnings w = [(''warnings'', JArr [JStr w])]"

definition schedule_process ::
  "host_parse \<Rightarrow> clock_reads \<Rightarrow> clock_reads \<Rightarrow> string \<Rightarrow> int \<Rightarrow> string \<Rightarrow>
   (process_db, process_definition) op" where
  "schedule_process host ck ck' i v actor =
     and_then (validate_process host ck i v actor) (\<lambda>validation.
       if \<not> pv_valid validation
       then throw (ConflictException (''Process '' @ i @ '':'' @ int_str v @
              '' cannot be scheduled before validation passes''))
       else transition host ck' i v Scheduled ActScheduled
              (warnings ''[MISSING: activation scheduler runtime is not wired]'') actor (\<lambda>_. None))"

definition publish_process ::
  "host_parse \<Rightarrow> clock_reads \<Rightarrow> clock_reads \<Rightarrow> string \<Rightarrow> int \<Rightarrow> string \<Rightarrow>
   (process_db, process_definition) op" where
  "publish_process host ck ck' i v actor =
     and_then (validate_process host ck i v actor) (\<lambda>validation.
       if \<not> pv_valid validation
       then throw (ConflictException (''Process '' @ i @ '':'' @ int_str v @
              '' cannot be published before validation passes''))
       else transition host ck' i v Active ActPublished
              (warnings ''[MISSING: signed publication and event bus broadcast]'') actor (\<lambda>_. None))"

definition pause_process ::
  "host_parse \<Rightarrow> clock_reads \<Rightarrow> string \<Rightarrow> int \<Rightarrow> string \<Rightarrow> (process_db, process_definition) op" where
  "pause_process host ck i v actor =
     transition host ck i v Paused ActPaused
       (warnings ''[MISSING: pause event broadcast to service adapters]'') actor
       (\<lambda>p. if \<not> pd_killSwitch p
            then Some (ConflictException (''Process '' @ i @ '':'' @ int_str v @
                   '' cannot be paused because killSwitch is disabled''))
            else None)"

definition retire_process ::
  "host_parse \<Rightarrow> clock_reads \<Rightarrow> string \<Rightarrow> int \<Rightarrow> string \<Rightarrow> (process_db, process_definition) op" where
  "retire_process host ck i v actor =
     transition host ck i v Retired ActRetired
       (warnings ''[MISSING: retirement event broadcast to service adapters]'') actor (\<lambda>_. None)"

record store_info =
  si_processCount :: nat
  si_auditEventCount :: nat

definition get_store_info :: "(process_db, store_info) op" where
  "get_store_info =
     and_then counts (\<lambda>(p, a). ret \<lparr>si_processCount = p, si_auditEventCount = a\<rparr>)"


section \<open>Seeds\<close>

definition ensure_seed_process ::
  "host_parse \<Rightarrow> clock_reads \<Rightarrow> process_definition \<Rightarrow> json_object \<Rightarrow> (process_db, unit) op" where
  "ensure_seed_process host ck p details =
     transaction
       (and_then (find_process (pd_processId p) (pd_version p)) (\<lambda>existing.
          if existing \<noteq> None then ret ()
          else
            and_then (save_process host p) (\<lambda>saved.
            and_then (append_audit host (ck_audit ck) ActSeeded saved ''system'' details) (\<lambda>_.
            ret ()))))"

definition seed_holiday_discount_definition :: "instant \<Rightarrow> process_definition" where
  "seed_holiday_discount_definition now =
     \<lparr>pd_schemaVersion = ''bpcp.process.v1'', pd_processId = ''holiday-discount-2026'',
      pd_version = 1, pd_status = Draft, pd_activeFrom = Some ''2026-12-01T00:00:00Z'',
      pd_activeTo = Some ''2027-01-07T23:59:59Z'',
      pd_policyRefs = [''holiday-10-percent-selected-categories''],
      pd_workflowRefs =
        [''product-view-holiday-badge'', ''cart-updated-discount-evaluation'',
         ''checkout-upsell-suggestion'', ''order-paid-holiday-notification''],
      pd_campaignRefs = [''holiday-2026-main''], pd_killSwitch = True,
      pd_createdAt = iso_render now, pd_updatedAt = iso_render now, pd_lastValidation = None\<rparr>"

definition seed_flipflop_definition :: "instant \<Rightarrow> process_definition" where
  "seed_flipflop_definition now =
     \<lparr>pd_schemaVersion = ''bpcp.process.v1'',
      pd_processId = ''flipflop.successful_customer_journey.v1'', pd_version = 1,
      pd_status = Draft, pd_activeFrom = None, pd_activeTo = None, pd_policyRefs = [],
      pd_workflowRefs = [], pd_campaignRefs = [], pd_killSwitch = True,
      pd_createdAt = iso_render now, pd_updatedAt = iso_render now, pd_lastValidation = None\<rparr>"

definition ensure_seed_processes ::
  "host_parse \<Rightarrow> clock_reads \<Rightarrow> clock_reads \<Rightarrow> (process_db, unit) op" where
  "ensure_seed_processes host ck ck' =
     and_then (ensure_seed_process host ck (seed_holiday_discount_definition (ck_now ck))
         [(''source'', JStr ''service bootstrap''),
          (''reason'', JStr ''Holiday Discount pilot seed process'')])
       (\<lambda>_. ensure_seed_process host ck' (seed_flipflop_definition (ck_now ck'))
         [(''source'', JStr ''process-registry/definitions/flipflop.successful_customer_journey.v1/1.0.0-draft.json''),
          (''reason'', JStr ''FlipFlop successful customer journey registry-first draft seed''),
          (''blockers'', JArr
             [JStr ''[MISSING: approved FlipFlop process-owner role and approval authority]'',
              JStr ''[MISSING: event payload contracts for customer journey steps]'',
              JStr ''[MISSING: runtime projection storage decision]''])])"


section \<open>The caller named by the controller\<close>

record auth_identity =
  ai_subject :: string
  ai_actor :: string

definition request_actor :: "auth_identity option \<Rightarrow> string" where
  "request_actor identity = (case identity of None \<Rightarrow> ''system'' | Some a \<Rightarrow> ai_actor a)"

end
