(* ===== verification/ProcessLifecycle.thy ===== *)
theory ProcessLifecycle
  imports ProcessRegistry
begin

text \<open>
  What the process registry guarantees. Each operation is reduced to one equation on the
  database (\<open>recorded\<close>: the row saved, the audit row and the event appended); the
  lifecycle, the audit and event coupling and the reachable states follow from these.
\<close>

section \<open>One recorded change\<close>

definition appended_event ::
  "clock_reads \<Rightarrow> process_event_type \<Rightarrow> audit_action \<Rightarrow> process_row \<Rightarrow> json_object \<Rightarrow> int \<Rightarrow>
   outbox_row" where
  "appended_event ck type action r details n =
     outbox_entity (event_draft_of type (definition_of r) action details (ck_event ck)) n
       (ck_event ck) (ck_db ck)"

definition appended_audit ::
  "clock_reads \<Rightarrow> audit_action \<Rightarrow> process_row \<Rightarrow> string \<Rightarrow> json_object \<Rightarrow> int \<Rightarrow> audit_row" where
  "appended_audit ck action r actor details n =
     audit_entity action (definition_of r) actor details n (ck_audit ck)"

definition recorded ::
  "clock_reads \<Rightarrow> audit_action \<Rightarrow> process_row \<Rightarrow> string \<Rightarrow> json_object \<Rightarrow> process_db \<Rightarrow> process_db" where
  "recorded ck action r actor details s =
     (let s' = s\<lparr>db_processes := put_process r (db_processes s),
                 db_auditSeq := db_auditSeq s + 1,
                 db_audit := db_audit s @ [appended_audit ck action r actor details (db_auditSeq s + 1)]\<rparr>
      in case event_type_by_audit_action action of
           None \<Rightarrow> s'
         | Some type \<Rightarrow>
             s'\<lparr>ob_seq := ob_seq s + 1,
                ob_rows := ob_rows s @ [appended_event ck type action r details (ob_seq s + 1)]\<rparr>)"

lemma outbox_ok_ext: "ob_rows s = ob_rows t \<Longrightarrow> ob_seq s = ob_seq t \<Longrightarrow> outbox_ok s = outbox_ok t"
  for s :: "'a outbox_db_scheme" and t :: "'b outbox_db_scheme"
  by (simp add: outbox_ok_def)

lemma appended_audit_ok:
  "clock_ok ck \<Longrightarrow> audit_row_ok (appended_audit ck action r actor details n)"
  "ar_sequenceNumber (appended_audit ck action r actor details n) = n"
  by (simp_all add: appended_audit_def audit_entity_def audit_row_ok_def clock_ok_def)

lemma append_audit_eq:
  assumes "process_db_ok s" and "clock_ok ck"
  shows "append_audit host (ck_audit ck) action (definition_of r) actor details s =
    (Inr \<lparr>pa_schemaVersion = ''bpcp.process-audit.v1'',
          pa_id = audit_id (pr_processId r) (pr_version r) action (db_auditSeq s + 1),
          pa_processId = pr_processId r, pa_version = pr_version r, pa_action = action,
          pa_actor = actor, pa_createdAt = iso_render (ck_audit ck), pa_details = details\<rparr>,
     s\<lparr>db_auditSeq := db_auditSeq s + 1,
       db_audit := db_audit s @ [appended_audit ck action r actor details (db_auditSeq s + 1)]\<rparr>)"
proof -
  let ?n = "db_auditSeq s + 1"
  have log: "log_ok audit_row_ok ar_sequenceNumber (db_auditSeq s) (db_audit s)"
    using assms(1) by (simp add: process_db_ok_def)
  then have nxt: "next_audit_sequence s = (Inr ?n, s\<lparr>db_auditSeq := ?n\<rparr>)"
    by (simp add: next_audit_sequence_def checked_sequence_def log_ok_def)
  have "insert_row ''uq_bpcp_process_audit_event_id'' (\<lambda>a b. ar_id a = ar_id b)
      (appended_audit ck action r actor details ?n) (db_audit s) =
      Inr (db_audit s @ [appended_audit ck action r actor details ?n])"
    using log by (rule audit_log.append_never_clashes) (simp_all add: appended_audit_ok assms(2))
  then show ?thesis
    using assms(2)
    by (simp add: append_audit_def and_then_def nxt lift_result_def to_date_def clock_ok_def
        save_audit_row_def appended_audit_def ret_def)
qed

lemma record_step:
  assumes ok: "process_db_ok s" and row: "process_row_ok r" and ck: "clock_ok ck"
  shows "and_then (save_process host (definition_of r)) (\<lambda>saved.
      and_then (append_audit_and_event host ck action saved actor details) (\<lambda>_. ret (f saved))) s =
    (Inr (f (definition_of r)), recorded ck action r actor details s)"
proof -
  let ?s1 = "s\<lparr>db_processes := put_process r (db_processes s)\<rparr>"
  have ok1: "process_db_ok ?s1"
    using ok row by (simp add: process_db_ok_def put_process_ok outbox_ok_def)
  note audit = append_audit_eq[OF ok1 ck, of host action r actor details, simplified]
  have ev: "\<bar>ck_event ck\<bar> \<le> max_time" using ck by (simp add: clock_ok_def)
  show ?thesis
  proof (cases "event_type_by_audit_action action")
    case None
    then show ?thesis
      by (simp add: and_then_def save_process_eq[OF row] append_audit_and_event_def audit ret_def
          recorded_def)
  next
    case (Some type)
    let ?s2 = "?s1\<lparr>db_auditSeq := db_auditSeq s + 1,
      db_audit := db_audit s @ [appended_audit ck action r actor details (db_auditSeq s + 1)]\<rparr>"
    have "outbox_ok ?s2" using ok by (simp add: process_db_ok_def outbox_ok_def)
    from append_event_eq[OF this, of host "ck_db ck"
        "event_draft_of type (definition_of r) action details (ck_event ck)"]
    have "\<exists>e. publish_process_event host (ck_db ck) (ck_event ck) type (definition_of r) action details ?s2 =
        (Inr e, ?s2\<lparr>ob_seq := ob_seq s + 1,
           ob_rows := ob_rows s @ [appended_event ck type action r details (ob_seq s + 1)]\<rparr>)"
      using ev by (simp add: publish_process_event_def event_draft_of_def appended_event_def)
    then show ?thesis
      using Some
      by (auto simp: and_then_def save_process_eq[OF row] append_audit_and_event_def audit ret_def
          recorded_def)
  qed
qed

lemma recorded_ok:
  assumes ok: "process_db_ok s" and row: "process_row_ok r" and ck: "clock_ok ck"
  shows "process_db_ok (recorded ck action r actor details s)"
proof -
  have audit: "log_ok audit_row_ok ar_sequenceNumber (db_auditSeq s + 1)
      (db_audit s @ [appended_audit ck action r actor details (db_auditSeq s + 1)])"
    using ok by (intro log_ok_append) (simp_all add: process_db_ok_def appended_audit_ok ck)
  have "log_ok outbox_row_ok or_sequenceNumber (ob_seq s + 1)
      (ob_rows s @ [appended_event ck t action r details (ob_seq s + 1)])" for t
    using ok ck unfolding appended_event_def
    by (intro log_ok_append)
      (simp_all add: process_db_ok_def outbox_ok_def outbox_entity_ok clock_ok_def)
  then show ?thesis
    using ok row audit
    by (auto simp: recorded_def Let_def process_db_ok_def put_process_ok outbox_ok_def
        split: option.splits)
qed

lemma recorded_processes [simp]:
  "db_processes (recorded ck action r actor details s) = put_process r (db_processes s)"
  by (simp add: recorded_def Let_def split: option.splits)

lemma recorded_audit [simp]:
  "db_audit (recorded ck action r actor details s) =
     db_audit s @ [appended_audit ck action r actor details (db_auditSeq s + 1)]"
  by (simp add: recorded_def Let_def split: option.splits)

lemma recorded_outbox:
  "ob_rows (recorded ck action r actor details s) =
     ob_rows s @ (case event_type_by_audit_action action of None \<Rightarrow> []
                  | Some t \<Rightarrow> [appended_event ck t action r details (ob_seq s + 1)])"
  by (simp add: recorded_def Let_def split: option.splits)



section \<open>Each operation as an equation\<close>

lemma transaction_ret: "transaction (ret x) s = (Inr x, s)"
  by (simp add: transaction_def ret_def)

lemma transaction_throw: "transaction (throw e) s = (Inl e, s)"
  by (simp add: transaction_def throw_def)

text \<open>A transaction that first looks the process up and then continues.\<close>

lemma transaction_lookup:
  assumes "process_db_ok s"
  shows "transaction (and_then (find_process i v) k) s =
    (if int4 v
     then transaction (k (map_option definition_of (lookup_process (db_processes s) (i, v)))) s
     else (Inl (out_of_range v), s))"
  by (simp add: transaction_def and_then_def find_process_eq[OF assms])

text \<open>The answer for a version that is not stored: no such process, or no such integer.\<close>

definition missing_process :: "string \<Rightarrow> int \<Rightarrow> error" where
  "missing_process i v = (if int4 v then not_found i v else out_of_range v)"

lemma transaction_require:
  assumes "process_db_ok s"
  shows "transaction (and_then (require_process_for_update i v) k) s =
    (case lookup_process (db_processes s) (i, v) of
       None \<Rightarrow> (Inl (missing_process i v), s)
     | Some r \<Rightarrow> transaction (k (definition_of r)) s)"
proof (cases "lookup_process (db_processes s) (i, v)")
  case None
  then show ?thesis
    unfolding require_process_for_update_def and_then_assoc transaction_lookup[OF assms]
    by (simp add: missing_process_def transaction_throw)
next
  case (Some r)
  then show ?thesis
    unfolding require_process_for_update_def and_then_assoc transaction_lookup[OF assms]
    using lookup_int4[OF assms Some] by simp
qed

lemma record_tx:
  assumes "process_db_ok s" and "process_row_ok r" and "clock_ok ck"
  shows "transaction (and_then (save_process host (definition_of r)) (\<lambda>saved.
      and_then (append_audit_and_event host ck action saved actor details) (\<lambda>_. ret (f saved)))) s =
    (Inr (f (definition_of r)), recorded ck action r actor details s)"
  by (rule transaction_simps(1)) (rule record_step[OF assms])

definition transitioned_row :: "lifecycle_status \<Rightarrow> clock_reads \<Rightarrow> process_row \<Rightarrow> process_row" where
  "transitioned_row status ck r = r\<lparr>pr_status := status, pr_updatedAt := ck_now ck\<rparr>"

definition validated_row :: "host_parse \<Rightarrow> clock_reads \<Rightarrow> process_row \<Rightarrow> process_row" where
  "validated_row host ck r =
     (let validation = validation_of host (ck_validatedAt ck) (pr_processId r) (pr_version r) (definition_of r)
      in r\<lparr>pr_status := (if pv_valid validation \<and> pr_status r = Draft then Validated else pr_status r),
           pr_lastValidation := Some validation, pr_updatedAt := ck_now ck\<rparr>)"

definition created_row :: "create_process_dto \<Rightarrow> instant \<Rightarrow> process_row" where
  "created_row dto now = process_entity (new_process_definition dto now) now now"

lemma definition_of_update:
  "(definition_of r)\<lparr>pd_status := st, pd_lastValidation := lv, pd_updatedAt := iso_render t\<rparr> =
   definition_of (r\<lparr>pr_status := st, pr_lastValidation := lv, pr_updatedAt := t\<rparr>)"
  by (simp add: definition_of_def)

lemma definition_of_created: "definition_of (created_row dto now) = new_process_definition dto now"
  by (simp add: definition_of_def created_row_def process_entity_def new_process_definition_def)

lemma row_ok_updates:
  "clock_ok ck \<Longrightarrow> process_row_ok r \<Longrightarrow> process_row_ok (transitioned_row status ck r)"
  "clock_ok ck \<Longrightarrow> process_row_ok r \<Longrightarrow> process_row_ok (validated_row host ck r)"
  "clock_ok ck \<Longrightarrow> int4 (or_else (cp_version dto) 1) \<Longrightarrow> process_row_ok (created_row dto (ck_now ck))"
  by (simp_all add: process_row_ok_def clock_ok_def transitioned_row_def validated_row_def Let_def
      created_row_def process_entity_def new_process_definition_def)

lemma row_key_updates [simp]:
  "process_key (transitioned_row status ck r) = process_key r"
  "process_key (validated_row host ck r) = process_key r"
  "process_key (created_row dto now) = (cp_processId dto, or_else (cp_version dto) 1)"
  by (simp_all add: process_key_def transitioned_row_def validated_row_def Let_def created_row_def
      process_entity_def new_process_definition_def del: process_key_fold)

lemma row_status_updates [simp]:
  "pr_status (transitioned_row status ck r) = status"
  "pr_status (created_row dto now) = or_else (cp_status dto) Draft"
  by (simp_all add: transitioned_row_def created_row_def process_entity_def new_process_definition_def)

lemma lookup_key: "lookup_process rows (i, v) = Some r \<Longrightarrow> pr_processId r = i \<and> pr_version r = v"
  by (drule lookup_process_SomeD) (simp add: process_key_def del: process_key_fold)

lemma transition_eq:
  assumes ok: "process_db_ok s" and ck: "clock_ok ck"
  shows "transition host ck i v status action details actor guard s =
    (case lookup_process (db_processes s) (i, v) of
       None \<Rightarrow> (Inl (missing_process i v), s)
     | Some r \<Rightarrow>
         (case guard (definition_of r) of
            Some e \<Rightarrow> (Inl e, s)
          | None \<Rightarrow>
              (Inr (definition_of (transitioned_row status ck r)),
               recorded ck action (transitioned_row status ck r) (normalized_actor actor) details s)))"
proof (cases "lookup_process (db_processes s) (i, v)")
  case None
  then show ?thesis by (simp add: transition_def transaction_require[OF ok])
next
  case (Some r)
  then have row: "process_row_ok (transitioned_row status ck r)"
    using ok ck by (intro row_ok_updates) (auto dest: lookup_row_ok)
  have upd: "(definition_of r)\<lparr>pd_status := status, pd_updatedAt := iso_render (ck_now ck)\<rparr> =
      definition_of (transitioned_row status ck r)"
    by (simp add: definition_of_def transitioned_row_def)
  show ?thesis
    using Some record_tx[OF ok row ck, of host action "normalized_actor actor" details "\<lambda>x. x"]
    by (simp add: transition_def transaction_require[OF ok] transaction_throw upd
        split: option.splits)
qed

lemma validate_process_eq:
  assumes ok: "process_db_ok s" and ck: "clock_ok ck"
  shows "validate_process host ck i v actor s =
    (case lookup_process (db_processes s) (i, v) of
       None \<Rightarrow> (Inl (missing_process i v), s)
     | Some r \<Rightarrow>
         (let validation = validation_of host (ck_validatedAt ck) i v (definition_of r)
          in (Inr validation,
              recorded ck ActValidated (validated_row host ck r) (normalized_actor actor)
                (count_details validation) s)))"
proof (cases "lookup_process (db_processes s) (i, v)")
  case None
  then show ?thesis by (simp add: validate_process_def transaction_require[OF ok])
next
  case (Some r)
  then have row: "process_row_ok (validated_row host ck r)"
    using ok ck by (intro row_ok_updates) (auto dest: lookup_row_ok)
  let ?val = "validation_of host (ck_validatedAt ck) i v (definition_of r)"
  have upd: "(definition_of r)\<lparr>pd_status := (if pv_valid ?val \<and> pd_status (definition_of r) = Draft
        then Validated else pd_status (definition_of r)), pd_lastValidation := Some ?val, pd_updatedAt := iso_render (ck_now ck)\<rparr> =
      definition_of (validated_row host ck r)"
    unfolding definition_of_update validated_row_def Let_def using lookup_key[OF Some] by simp
  show ?thesis
    using Some record_tx[OF ok row ck, of host ActValidated "normalized_actor actor"
        "count_details ?val" "\<lambda>_. ?val"]
    unfolding validate_process_def transaction_require[OF ok] Let_def by (simp only: option.case upd)
qed

lemma create_process_eq:
  assumes ok: "process_db_ok s" and ck: "clock_ok ck"
  shows "create_process host ck dto actor s =
    (if \<not> int4 (or_else (cp_version dto) 1) then (Inl (out_of_range (or_else (cp_version dto) 1)), s) else
     case lookup_process (db_processes s) (cp_processId dto, or_else (cp_version dto) 1) of
       Some r \<Rightarrow>
         (Inl (ConflictException (''Process '' @ cp_processId dto @ '':'' @
            int_str (or_else (cp_version dto) 1) @ '' already exists'')), s)
     | None \<Rightarrow>
         (Inr (new_process_definition dto (ck_now ck)),
          recorded ck ActCreated (created_row dto (ck_now ck)) (normalized_actor actor)
            [(''source'', JStr ''api'')] s))"
proof (cases "int4 (or_else (cp_version dto) 1)")
  case True
  then have row: "process_row_ok (created_row dto (ck_now ck))" using ck by (intro row_ok_updates)
  show ?thesis
    using True record_tx[OF ok row ck, of host ActCreated "normalized_actor actor"
        "[(''source'', JStr ''api'')]" "\<lambda>x. x"]
    by (simp add: create_process_def Let_def transaction_lookup[OF ok] transaction_throw
        definition_of_created split: option.splits)
next
  case False
  then show ?thesis by (simp add: create_process_def Let_def transaction_lookup[OF ok])
qed

lemma ensure_seed_eq:
  assumes ok: "process_db_ok s" and ck: "clock_ok ck" and row: "process_row_ok r"
  shows "ensure_seed_process host ck (definition_of r) details s =
    (Inr (), case lookup_process (db_processes s) (process_key r) of
       Some r' \<Rightarrow> s
     | None \<Rightarrow> recorded ck ActSeeded r ''system'' details s)"
proof -
  let ?s1 = "s\<lparr>db_processes := put_process r (db_processes s)\<rparr>"
  have ok1: "process_db_ok ?s1"
    using ok row by (simp add: process_db_ok_def put_process_ok outbox_ok_def)
  note audit = append_audit_eq[OF ok1 ck, of host ActSeeded r "''system''" details, simplified]
  have v: "int4 (pr_version r)" using row by (simp add: process_row_ok_def)
  have "transaction (and_then (save_process host (definition_of r)) (\<lambda>saved.
      and_then (append_audit host (ck_audit ck) ActSeeded saved ''system'' details) (\<lambda>_. ret ()))) s =
      (Inr (), recorded ck ActSeeded r ''system'' details s)"
    by (rule transaction_simps(1))
      (simp add: and_then_def save_process_eq[OF row] audit ret_def recorded_def)
  then show ?thesis
    by (simp add: ensure_seed_process_def transaction_lookup[OF ok] transaction_ret v
        split: option.splits)
qed

end
