(* ===== verification/ProcessProperties.thy ===== *)
theory ProcessProperties
  imports ProcessLifecycle
begin

text \<open>
  The properties of the process registry: what validation accepts, the gate before
  publishing and scheduling, the lifecycle as a refinement of an abstract map from process
  versions to statuses, and the invariants of every reachable database.
\<close>

section \<open>What validation accepts\<close>

definition date_window_ok :: "host_parse \<Rightarrow> string option \<Rightarrow> string option \<Rightarrow> bool" where
  "date_window_ok host activeFrom activeTo \<longleftrightarrow>
     (case (activeFrom, activeTo) of
        (Some a, Some b) \<Rightarrow>
          a = [] \<or> b = [] \<or>
          (case (date_parse host a, date_parse host b) of (Some f, Some t) \<Rightarrow> f \<le> t | _ \<Rightarrow> False)
      | _ \<Rightarrow> True)"

lemma validate_date_window_iff:
  "fst (validate_date_window host activeFrom activeTo) \<longleftrightarrow> date_window_ok host activeFrom activeTo"
  by (auto simp: validate_date_window_def date_window_ok_def split: option.splits list.splits)

definition publishable :: "host_parse \<Rightarrow> process_definition \<Rightarrow> bool" where
  "publishable host p \<longleftrightarrow>
     pd_schemaVersion p = ''bpcp.process.v1'' \<and> js_trim (pd_processId p) \<noteq> [] \<and>
     pd_policyRefs p \<noteq> [] \<and> pd_workflowRefs p \<noteq> [] \<and> pd_killSwitch p \<and>
     date_window_ok host (pd_activeFrom p) (pd_activeTo p)"

text \<open>
  A process definition passes validation exactly when it has the supported schema
  version, a non-blank id, at least one policy and one workflow reference, a kill switch,
  and a date window that is absent or parses and does not end before it starts.
\<close>

lemma validation_verdict_iff:
  "verdict (collect_validation_findings host p) = publishable host p"
  by (simp add: collect_validation_findings_def finding_def publishable_def Let_def
      validate_date_window_iff)

interpretation proc_validator: validator "collect_validation_findings host"
  "\<lambda>p. pv_valid (validation_of host now i v p)" for host now i v
  by unfold_locales (simp add: validation_of_def Let_def)

lemma validation_valid: "pv_valid (validation_of host now i v p) = publishable host p"
  by (simp add: proc_validator.is_valid_verdict validation_verdict_iff)

lemma validated_row_status:
  "pr_status (validated_row host ck r) =
     (if publishable host (definition_of r) \<and> pr_status r = Draft then Validated else pr_status r)"
  by (simp add: validated_row_def Let_def validation_valid)

lemma publishable_updates [simp]:
  "publishable host (definition_of (transitioned_row st ck r)) = publishable host (definition_of r)"
  "publishable host (definition_of (validated_row host' ck r)) = publishable host (definition_of r)"
  by (simp_all add: publishable_def transitioned_row_def validated_row_def Let_def)

lemma killSwitch_updates [simp]:
  "pr_killSwitch (transitioned_row st ck r) = pr_killSwitch r"
  "pr_killSwitch (validated_row host ck r) = pr_killSwitch r"
  by (simp_all add: transitioned_row_def validated_row_def Let_def)


section \<open>What an operation appends\<close>

definition appended :: "process_db \<Rightarrow> process_db \<Rightarrow> audit_action list \<Rightarrow> process_event_type list \<Rightarrow> bool" where
  "appended s s' acts evs \<longleftrightarrow>
     take (length (db_audit s)) (db_audit s') = db_audit s \<and>
     map ar_action (drop (length (db_audit s)) (db_audit s')) = acts \<and>
     take (length (ob_rows s)) (ob_rows s') = ob_rows s \<and>
     map or_type (drop (length (ob_rows s)) (ob_rows s')) = evs"

lemma appendedI:
  "db_audit s' = db_audit s @ as \<Longrightarrow> ob_rows s' = ob_rows s @ es \<Longrightarrow>
   appended s s' (map ar_action as) (map or_type es)"
  by (simp add: appended_def)

lemma appended_audit_sel [simp]: "ar_action (appended_audit ck a r x d n) = a"
  "ar_processId (appended_audit ck a r x d n) = pr_processId r"
  "ar_version (appended_audit ck a r x d n) = pr_version r"
  by (simp_all add: appended_audit_def audit_entity_def)

lemma appended_event_sel [simp]: "or_type (appended_event ck t a r d n) = t"
  "or_processId (appended_event ck t a r d n) = pr_processId r"
  "or_version (appended_event ck t a r d n) = pr_version r"
  by (simp_all add: appended_event_def outbox_entity_def event_draft_of_def)


section \<open>The gate before publishing and scheduling\<close>

definition gated ::
  "host_parse \<Rightarrow> clock_reads \<Rightarrow> clock_reads \<Rightarrow> string \<Rightarrow> int \<Rightarrow> string \<Rightarrow> string \<Rightarrow>
   lifecycle_status \<Rightarrow> audit_action \<Rightarrow> json_object \<Rightarrow> (process_db, process_definition) op" where
  "gated host ck ck' i v actor verb status action details =
     and_then (validate_process host ck i v actor) (\<lambda>validation.
       if \<not> pv_valid validation
       then throw (ConflictException (''Process '' @ i @ '':'' @ int_str v @
              '' cannot be '' @ verb @ '' before validation passes''))
       else transition host ck' i v status action details actor (\<lambda>_. None))"

lemma publish_gated:
  "publish_process host ck ck' i v actor =
     gated host ck ck' i v actor ''published'' Active ActPublished
       (warnings ''[MISSING: signed publication and event bus broadcast]'')"
  by (simp add: publish_process_def gated_def cong: if_cong)

lemma schedule_gated:
  "schedule_process host ck ck' i v actor =
     gated host ck ck' i v actor ''scheduled'' Scheduled ActScheduled
       (warnings ''[MISSING: activation scheduler runtime is not wired]'')"
  by (simp add: schedule_process_def gated_def cong: if_cong)

lemma gated_eq:
  fixes host and actor
  assumes ok: "process_db_ok s" and ck: "clock_ok ck" and ck': "clock_ok ck'"
    and look: "lookup_process (db_processes s) (i, v) = Some r"
  defines "s1 \<equiv> recorded ck ActValidated (validated_row host ck r) (normalized_actor actor)
      (count_details (validation_of host (ck_validatedAt ck) i v (definition_of r))) s"
  shows "gated host ck ck' i v actor verb status action details s =
    (if publishable host (definition_of r)
     then (Inr (definition_of (transitioned_row status ck' (validated_row host ck r))),
           recorded ck' action (transitioned_row status ck' (validated_row host ck r))
             (normalized_actor actor) details s1)
     else (Inl (ConflictException (''Process '' @ i @ '':'' @ int_str v @
              '' cannot be '' @ verb @ '' before validation passes'')), s1))"
proof -
  have key: "process_key r = (i, v)" using look by (auto dest: lookup_process_SomeD)
  have ok1: "process_db_ok s1"
    unfolding s1_def using ok ck look
    by (intro recorded_ok row_ok_updates) (auto dest: lookup_row_ok)
  have look1: "lookup_process (db_processes s1) (i, v) = Some (validated_row host ck r)"
    by (simp add: s1_def lookup_put key)
  have val: "validate_process host ck i v actor s =
      (Inr (validation_of host (ck_validatedAt ck) i v (definition_of r)), s1)"
    by (simp add: validate_process_eq[OF ok ck] look s1_def Let_def)
  show ?thesis
    by (simp add: gated_def and_then_def val validation_valid throw_def transition_eq[OF ok1 ck'] look1)
qed

text \<open>The outcome of a gated operation on a stored process.\<close>

definition gate_outcome ::
  "host_parse \<Rightarrow> process_db \<Rightarrow> string \<times> int \<Rightarrow> process_row \<Rightarrow> lifecycle_status \<Rightarrow>
   audit_action \<Rightarrow> process_event_type \<Rightarrow> (error + process_definition) \<times> process_db \<Rightarrow> bool" where
  "gate_outcome host s k r status action type outcome \<longleftrightarrow>
     (case outcome of
        (Inr p, s') \<Rightarrow>
          publishable host (definition_of r) \<and> pd_status p = status \<and>
          map_option definition_of (lookup_process (db_processes s') k) = Some p \<and>
          appended s s' [ActValidated, action] [ProcessValidated, type]
      | (Inl e, s') \<Rightarrow>
          \<not> publishable host (definition_of r) \<and> (\<exists>m. e = ConflictException m) \<and>
          map_option pr_status (lookup_process (db_processes s') k) = Some (pr_status r) \<and>
          appended s s' [ActValidated] [ProcessValidated])"

lemma gated_outcome:
  assumes "process_db_ok s" and "clock_ok ck" and "clock_ok ck'"
    and "lookup_process (db_processes s) (i, v) = Some r"
    and "event_type_by_audit_action action = Some type"
  shows "gate_outcome host s (i, v) r status action type
    (gated host ck ck' i v actor verb status action details s)"
  using assms lookup_process_SomeD[OF assms(4)]
  by (simp add: gated_eq gate_outcome_def lookup_put validated_row_status appended_def
      recorded_outbox)

text \<open>
  C1. Publishing is gated by validation: a stored process becomes active exactly when it
  passes, and then the database holds the returned definition and has gained the audit rows
  and events of a validation and a publication; otherwise the call fails with a conflict,
  the status stays, and only the validation is recorded; an unknown process, or a version
  that is no 32-bit integer, changes nothing.
\<close>

theorem publish_gate:
  assumes "process_db_ok s" and "clock_ok ck" and "clock_ok ck'"
  shows "case lookup_process (db_processes s) (i, v) of
      None \<Rightarrow> publish_process host ck ck' i v actor s = (Inl (missing_process i v), s)
    | Some r \<Rightarrow> gate_outcome host s (i, v) r Active ActPublished ProcessPublished
        (publish_process host ck ck' i v actor s)"
proof (cases "lookup_process (db_processes s) (i, v)")
  case None
  then show ?thesis
    by (simp add: publish_gated gated_def and_then_def validate_process_eq[OF assms(1,2)])
next
  case (Some r)
  then show ?thesis by (simp add: publish_gated gated_outcome[OF assms])
qed

text \<open>
  Scheduling is gated in the same way: the status becomes scheduled exactly when
  validation passes.
\<close>

theorem schedule_gate:
  assumes "process_db_ok s" and "clock_ok ck" and "clock_ok ck'"
  shows "case lookup_process (db_processes s) (i, v) of
      None \<Rightarrow> schedule_process host ck ck' i v actor s = (Inl (missing_process i v), s)
    | Some r \<Rightarrow> gate_outcome host s (i, v) r Scheduled ActScheduled ProcessScheduled
        (schedule_process host ck ck' i v actor s)"
proof (cases "lookup_process (db_processes s) (i, v)")
  case None
  then show ?thesis
    by (simp add: schedule_gated gated_def and_then_def validate_process_eq[OF assms(1,2)])
next
  case (Some r)
  then show ?thesis by (simp add: schedule_gated gated_outcome[OF assms])
qed


definition sample_clock :: clock_reads where
  "sample_clock = \<lparr>ck_validatedAt = 1000, ck_now = 1001, ck_audit = 1002, ck_event = 1003, ck_db = 0\<rparr>"

definition sample_process_row :: process_row where
  "sample_process_row = process_entity (seed_holiday_discount_definition 0) 0 0"

definition empty_db :: process_db where
  "empty_db = \<lparr>ob_rows = [], ob_seq = 0, db_processes = [], db_audit = [], db_auditSeq = 0\<rparr>"

definition sample_registry :: process_db where
  "sample_registry = empty_db\<lparr>db_processes := [sample_process_row]\<rparr>"

lemma sample_clock_ok: "clock_ok sample_clock"
  by (simp add: clock_ok_def sample_clock_def max_time_def)

lemma empty_db_ok: "process_db_ok empty_db"
  by (simp add: process_db_ok_def outbox_ok_def process_rows_ok_def empty_db_def)

lemma sample_registry_ok: "process_db_ok sample_registry"
  by (simp add: process_db_ok_def outbox_ok_def process_rows_ok_def empty_db_def sample_registry_def
      process_row_ok_def sample_process_row_def process_entity_def max_time_def int4_def
      seed_holiday_discount_definition_def)

lemma sample_lookup:
  "lookup_process (db_processes sample_registry) (''holiday-discount-2026'', 1) = Some sample_process_row"
  by (simp add: lookup_process_def sample_registry_def process_key_def sample_process_row_def
      process_entity_def seed_holiday_discount_definition_def del: process_key_fold)

lemma sample_publishable: "publishable host (definition_of sample_process_row)"
proof -
  have a: "iso_parse ''2026-12-01T00:00:00Z'' = Some (Some 1796083200000)" by code_simp
  have b: "iso_parse ''2027-01-07T23:59:59Z'' = Some (Some 1799366399000)" by code_simp
  show ?thesis
    by (simp add: date_parse_def a b publishable_def sample_process_row_def process_entity_def
        seed_holiday_discount_definition_def date_window_ok_def js_trim_def js_space_def)
qed

lemma publish_gate_witness:
  "publishable (\<lambda>_. None) (definition_of sample_process_row) \<and>
   gate_outcome (\<lambda>_. None) sample_registry (''holiday-discount-2026'', 1) sample_process_row Active
     ActPublished ProcessPublished
     (publish_process (\<lambda>_. None) sample_clock sample_clock ''holiday-discount-2026'' 1 ''ops''
        sample_registry)"
  using publish_gate[OF sample_registry_ok sample_clock_ok sample_clock_ok,
      where i = "''holiday-discount-2026''" and v = 1 and host = "\<lambda>_. None" and actor = "''ops''"]
  by (simp add: sample_lookup sample_publishable)

lemma schedule_gate_witness:
  "gate_outcome (\<lambda>_. None) sample_registry (''holiday-discount-2026'', 1) sample_process_row Scheduled
     ActScheduled ProcessScheduled
     (schedule_process (\<lambda>_. None) sample_clock sample_clock ''holiday-discount-2026'' 1 ''ops''
        sample_registry)"
  using schedule_gate[OF sample_registry_ok sample_clock_ok sample_clock_ok,
      where i = "''holiday-discount-2026''" and v = 1 and host = "\<lambda>_. None" and actor = "''ops''"]
  by (simp add: sample_lookup)


section \<open>The lifecycle as a map from versions to statuses\<close>

text \<open>
  The abstract registry maps each process version to its status, whether it passes
  validation, and whether its kill switch is on; a request is a partial update of that map.
\<close>

type_synonym registry_view = "string \<times> int \<Rightarrow> (lifecycle_status \<times> bool \<times> bool) option"

datatype lifecycle_request =
  CreateReq create_process_dto
| ValidateReq string int
| ScheduleReq string int
| PublishReq string int
| PauseReq string int
| RetireReq string int

definition run_request ::
  "host_parse \<Rightarrow> clock_reads \<Rightarrow> clock_reads \<Rightarrow> string \<Rightarrow> lifecycle_request \<Rightarrow> process_db \<Rightarrow> process_db" where
  "run_request host ck ck' actor req s =
     (case req of
        CreateReq dto \<Rightarrow> snd (create_process host ck dto actor s)
      | ValidateReq i v \<Rightarrow> snd (validate_process host ck i v actor s)
      | ScheduleReq i v \<Rightarrow> snd (schedule_process host ck ck' i v actor s)
      | PublishReq i v \<Rightarrow> snd (publish_process host ck ck' i v actor s)
      | PauseReq i v \<Rightarrow> snd (pause_process host ck i v actor s)
      | RetireReq i v \<Rightarrow> snd (retire_process host ck i v actor s))"

definition abs_row :: "host_parse \<Rightarrow> process_row \<Rightarrow> lifecycle_status \<times> bool \<times> bool" where
  "abs_row host r = (pr_status r, publishable host (definition_of r), pr_killSwitch r)"

definition abs_registry :: "host_parse \<Rightarrow> process_db \<Rightarrow> registry_view" where
  "abs_registry host s k = map_option (abs_row host) (lookup_process (db_processes s) k)"

definition on_key :: "string \<times> int \<Rightarrow> ('a \<Rightarrow> 'a) \<Rightarrow> (string \<times> int \<Rightarrow> 'a option) \<Rightarrow> string \<times> int \<Rightarrow> 'a option" where
  "on_key k f m = (case m k of None \<Rightarrow> m | Some x \<Rightarrow> m(k \<mapsto> f x))"

fun spec_request :: "host_parse \<Rightarrow> lifecycle_request \<Rightarrow> registry_view \<Rightarrow> registry_view" where
  "spec_request host (CreateReq dto) m =
     (let k = (cp_processId dto, or_else (cp_version dto) 1) in
      if m k = None \<and> snd k \<in> {- (2 ^ 31)..<2 ^ 31}
      then m(k \<mapsto> (or_else (cp_status dto) Draft, publishable host (new_process_definition dto 0),
                   or_else (cp_killSwitch dto) True))
      else m)"
| "spec_request host (ValidateReq i v) m =
     on_key (i, v) (\<lambda>(st, ok, ks). (if ok \<and> st = Draft then Validated else st, ok, ks)) m"
| "spec_request host (ScheduleReq i v) m =
     on_key (i, v) (\<lambda>(st, ok, ks). (if ok then Scheduled else st, ok, ks)) m"
| "spec_request host (PublishReq i v) m =
     on_key (i, v) (\<lambda>(st, ok, ks). (if ok then Active else st, ok, ks)) m"
| "spec_request host (PauseReq i v) m =
     on_key (i, v) (\<lambda>(st, ok, ks). (if ks then Paused else st, ok, ks)) m"
| "spec_request host (RetireReq i v) m =
     on_key (i, v) (\<lambda>(st, ok, ks). (Retired, ok, ks)) m"

lemma abs_row_updates:
  "abs_row host (transitioned_row st ck r) = (st, publishable host (definition_of r), pr_killSwitch r)"
  "abs_row host (validated_row host ck r) =
     (if publishable host (definition_of r) \<and> pr_status r = Draft then Validated else pr_status r,
      publishable host (definition_of r), pr_killSwitch r)"
  by (simp_all add: abs_row_def validated_row_status)

lemma abs_row_created:
  "abs_row host (created_row dto now) =
     (or_else (cp_status dto) Draft, publishable host (new_process_definition dto 0),
      or_else (cp_killSwitch dto) True)"
  by (simp add: abs_row_def created_row_def process_entity_def new_process_definition_def
      publishable_def)

lemma abs_registry_put:
  "db_processes s' = put_process r (db_processes s) \<Longrightarrow>
   abs_registry host s' = (abs_registry host s)(process_key r \<mapsto> abs_row host r)"
  by (rule ext) (simp add: abs_registry_def lookup_put)

lemma abs_registry_gated:
  assumes "process_db_ok s" and "clock_ok ck" and "clock_ok ck'"
  shows "abs_registry host (snd (gated host ck ck' i v actor verb status action details s)) =
    on_key (i, v) (\<lambda>(st, ok, ks). (if ok then status else st, ok, ks)) (abs_registry host s)"
proof (cases "lookup_process (db_processes s) (i, v)")
  case None
  then show ?thesis
    by (simp add: gated_def and_then_def validate_process_eq[OF assms(1,2)] on_key_def abs_registry_def)
next
  case (Some r)
  then have "process_key r = (i, v)" by (auto dest: lookup_process_SomeD)
  then show ?thesis
    using Some
    by (auto simp: gated_eq[OF assms Some] on_key_def abs_registry_def lookup_put abs_row_updates
        abs_row_def[of host r] fun_eq_iff)
qed

lemma abs_registry_transition:
  assumes "process_db_ok s" and "clock_ok ck"
  shows "abs_registry host (snd (transition host' ck i v status action details actor guard s)) =
    (case lookup_process (db_processes s) (i, v) of
       None \<Rightarrow> abs_registry host s
     | Some r \<Rightarrow> if guard (definition_of r) = None
                 then (abs_registry host s)((i, v) \<mapsto> (status, publishable host (definition_of r), pr_killSwitch r))
                 else abs_registry host s)"
proof (cases "lookup_process (db_processes s) (i, v)")
  case (Some r)
  then have "process_key r = (i, v)" by (auto dest: lookup_process_SomeD)
  then show ?thesis
    using Some
    by (auto simp: transition_eq[OF assms] abs_registry_def lookup_put abs_row_updates fun_eq_iff
        split: option.splits)
qed (simp add: transition_eq[OF assms])

text \<open>
  C2. The registry refines the abstract lifecycle: every create, validate, schedule,
  publish, pause and retire request, failing ones included, changes the map from process
  versions to (status, validity, kill switch) exactly as the specification says; a version
  that does not fit the database's integers is never stored.
\<close>

theorem lifecycle_refines:
  assumes "process_db_ok s" and "clock_ok ck" and "clock_ok ck'"
  shows "abs_registry host (run_request host ck ck' actor req s) =
         spec_request host req (abs_registry host s)"
proof (cases req)
  case (CreateReq dto)
  then show ?thesis
    by (auto simp: create_process_eq[OF assms(1,2)] run_request_def abs_registry_def lookup_put
        abs_row_created fun_eq_iff Let_def int4_def split: option.splits)
next
  case (ValidateReq i v)
  then show ?thesis
    using lookup_process_SomeD[of "db_processes s" "(i, v)"]
    by (auto simp: run_request_def validate_process_eq[OF assms(1,2)] on_key_def abs_registry_def
        lookup_put abs_row_def validated_row_status fun_eq_iff Let_def split: option.splits)
next
  case (ScheduleReq i v)
  then show ?thesis
    by (simp add: run_request_def schedule_gated abs_registry_gated[OF assms])
next
  case (PublishReq i v)
  then show ?thesis
    by (simp add: run_request_def publish_gated abs_registry_gated[OF assms])
next
  case (PauseReq i v)
  then show ?thesis
    by (auto simp: run_request_def pause_process_def abs_registry_transition[OF assms(1,2)]
        on_key_def abs_registry_def abs_row_def fun_eq_iff split: option.splits)
next
  case (RetireReq i v)
  then show ?thesis
    by (auto simp: run_request_def retire_process_def abs_registry_transition[OF assms(1,2)]
        on_key_def abs_registry_def abs_row_def fun_eq_iff split: option.splits)
qed

lemma lifecycle_refines_witness:
  "abs_registry (\<lambda>_. None) (run_request (\<lambda>_. None) sample_clock sample_clock ''ops''
      (PublishReq ''holiday-discount-2026'' 1) sample_registry) (''holiday-discount-2026'', 1) =
   Some (Active, True, True)"
proof -
  have "pr_killSwitch sample_process_row"
    by (simp add: sample_process_row_def process_entity_def seed_holiday_discount_definition_def)
  then show ?thesis
    unfolding lifecycle_refines[OF sample_registry_ok sample_clock_ok sample_clock_ok]
    by (simp add: on_key_def abs_registry_def sample_lookup abs_row_def sample_publishable)
qed



section \<open>Reachable databases\<close>

text \<open>
  A database is reachable when lifecycle requests, seeding at start-up and dispatch runs
  (with any environment, broker and driver behaviour) lead to it from the empty tables.
\<close>

inductive reachable :: "host_parse \<Rightarrow> process_db \<Rightarrow> bool" for host where
  start: "reachable host empty_db"
| request: "reachable host s \<Longrightarrow> clock_ok ck \<Longrightarrow> clock_ok ck' \<Longrightarrow>
    reachable host (run_request host ck ck' actor req s)"
| seed: "reachable host s \<Longrightarrow> clock_ok ck \<Longrightarrow> clock_ok ck' \<Longrightarrow>
    reachable host (snd (ensure_seed_processes host ck ck' s))"
| dispatch: "reachable host s \<Longrightarrow>
    reachable host (snd (dispatch_pending env hmac returning att t limit s))"

inductive_cases reachable_emptyE: "reachable host empty_db"

text \<open>
  The audit trail and the outbox tell the same story: leaving out the seeding rows, the
  audit rows and the events agree one by one in type, process and version.
\<close>

definition audit_view :: "audit_row \<Rightarrow> process_event_type option \<times> string \<times> int" where
  "audit_view a = (event_type_by_audit_action (ar_action a), ar_processId a, ar_version a)"

definition event_view :: "outbox_row \<Rightarrow> process_event_type option \<times> string \<times> int" where
  "event_view e = (Some (or_type e), or_processId e, or_version e)"

definition audit_matches_events :: "process_db \<Rightarrow> bool" where
  "audit_matches_events s \<longleftrightarrow>
     map audit_view (filter (\<lambda>a. ar_action a \<noteq> ActSeeded) (db_audit s)) = map event_view (ob_rows s)"

definition registry_inv :: "process_db \<Rightarrow> bool" where
  "registry_inv s \<longleftrightarrow> process_db_ok s \<and> audit_matches_events s"

lemma recorded_inv:
  assumes "registry_inv s" and "process_row_ok r" and "clock_ok ck"
  shows "registry_inv (recorded ck action r actor details s)"
proof -
  have "event_type_by_audit_action action = None \<longleftrightarrow> action = ActSeeded" by (cases action) auto
  then show ?thesis
    using assms recorded_ok[of s r ck]
    by (auto simp: registry_inv_def audit_matches_events_def recorded_outbox audit_view_def
        event_view_def split: option.splits)
qed

lemma transition_inv:
  assumes "registry_inv s" and "clock_ok ck"
  shows "registry_inv (snd (transition host ck i v status action details actor guard s))"
proof -
  have ok: "process_db_ok s" using assms(1) by (simp add: registry_inv_def)
  show ?thesis
    unfolding transition_eq[OF ok assms(2)]
    using assms by (auto intro!: recorded_inv row_ok_updates dest: lookup_row_ok[OF ok] split: option.splits)
qed

lemma validate_inv:
  assumes "registry_inv s" and "clock_ok ck"
  shows "registry_inv (snd (validate_process host ck i v actor s))"
proof -
  have ok: "process_db_ok s" using assms(1) by (simp add: registry_inv_def)
  show ?thesis
    unfolding validate_process_eq[OF ok assms(2)] Let_def
    using assms by (auto intro!: recorded_inv row_ok_updates dest: lookup_row_ok[OF ok] split: option.splits)
qed

lemma gated_inv:
  assumes "registry_inv s" and "clock_ok ck" and "clock_ok ck'"
  shows "registry_inv (snd (gated host ck ck' i v actor verb status action details s))"
proof -
  obtain x s' where val: "validate_process host ck i v actor s = (x, s')" by fastforce
  then have "registry_inv s'" using validate_inv[OF assms(1,2), of host i v actor] by simp
  then show ?thesis
    using assms(3) by (cases x) (auto simp: gated_def and_then_def val throw_def transition_inv)
qed

lemma create_inv:
  assumes "registry_inv s" and "clock_ok ck"
  shows "registry_inv (snd (create_process host ck dto actor s))"
proof -
  have ok: "process_db_ok s" using assms(1) by (simp add: registry_inv_def)
  show ?thesis
    unfolding create_process_eq[OF ok assms(2)]
    using assms by (auto intro!: recorded_inv row_ok_updates split: option.splits)
qed

lemma run_request_inv:
  "registry_inv s \<Longrightarrow> clock_ok ck \<Longrightarrow> clock_ok ck' \<Longrightarrow>
   registry_inv (run_request host ck ck' actor req s)"
  by (cases req)
    (simp_all add: run_request_def create_inv validate_inv schedule_gated publish_gated gated_inv
      pause_process_def retire_process_def transition_inv)

lemma ensure_seed_inv:
  assumes "registry_inv s" and "clock_ok ck" and "process_row_ok r"
  shows "registry_inv (snd (ensure_seed_process host ck (definition_of r) details s))"
proof -
  have ok: "process_db_ok s" using assms(1) by (simp add: registry_inv_def)
  show ?thesis
    unfolding ensure_seed_eq[OF ok assms(2,3)]
    using assms by (auto intro!: recorded_inv split: option.splits)
qed

definition seed_row :: "(instant \<Rightarrow> process_definition) \<Rightarrow> instant \<Rightarrow> process_row" where
  "seed_row f now = process_entity (f now) now now"

lemma seed_rows:
  "seed_holiday_discount_definition now = definition_of (seed_row seed_holiday_discount_definition now)"
  "seed_flipflop_definition now = definition_of (seed_row seed_flipflop_definition now)"
  "\<bar>now\<bar> \<le> max_time \<Longrightarrow> process_row_ok (seed_row seed_holiday_discount_definition now)"
  "\<bar>now\<bar> \<le> max_time \<Longrightarrow> process_row_ok (seed_row seed_flipflop_definition now)"
  by (simp_all add: int4_def seed_row_def process_entity_def definition_of_def process_row_ok_def
      seed_holiday_discount_definition_def seed_flipflop_definition_def)

definition holiday_details :: json_object where
  "holiday_details =
     [(''source'', JStr ''service bootstrap''),
      (''reason'', JStr ''Holiday Discount pilot seed process'')]"

definition flipflop_details :: json_object where
  "flipflop_details =
     [(''source'', JStr ''process-registry/definitions/flipflop.successful_customer_journey.v1/1.0.0-draft.json''),
      (''reason'', JStr ''FlipFlop successful customer journey registry-first draft seed''),
      (''blockers'', JArr
         [JStr ''[MISSING: approved FlipFlop process-owner role and approval authority]'',
          JStr ''[MISSING: event payload contracts for customer journey steps]'',
          JStr ''[MISSING: runtime projection storage decision]''])]"

definition after_seed :: "clock_reads \<Rightarrow> process_row \<Rightarrow> json_object \<Rightarrow> process_db \<Rightarrow> process_db" where
  "after_seed ck r details s =
     (case lookup_process (db_processes s) (process_key r) of
        Some r' \<Rightarrow> s | None \<Rightarrow> recorded ck ActSeeded r ''system'' details s)"

lemma after_seed_ok:
  "process_db_ok s \<Longrightarrow> clock_ok ck \<Longrightarrow> process_row_ok r \<Longrightarrow> process_db_ok (after_seed ck r d s)"
  by (auto simp: after_seed_def intro: recorded_ok split: option.splits)

lemma after_seed_lookup:
  "lookup_process (db_processes (after_seed ck r d s)) k =
     (case lookup_process (db_processes s) k of
        Some r' \<Rightarrow> Some r' | None \<Rightarrow> if k = process_key r then Some r else None)"
  by (auto simp: after_seed_def lookup_put split: option.splits)

lemma ensure_seed_processes_rows:
  "ensure_seed_processes host ck ck' =
     and_then (ensure_seed_process host ck
         (definition_of (seed_row seed_holiday_discount_definition (ck_now ck))) holiday_details)
       (\<lambda>_. ensure_seed_process host ck'
         (definition_of (seed_row seed_flipflop_definition (ck_now ck'))) flipflop_details)"
  by (simp only: ensure_seed_processes_def seed_rows(1,2)[symmetric] holiday_details_def
      flipflop_details_def)

lemma seed_processes_eq:
  assumes "process_db_ok s" and "clock_ok ck" and "clock_ok ck'"
  shows "ensure_seed_processes host ck ck' s =
    (Inr (), after_seed ck' (seed_row seed_flipflop_definition (ck_now ck')) flipflop_details
       (after_seed ck (seed_row seed_holiday_discount_definition (ck_now ck)) holiday_details s))"
proof -
  have rows: "process_row_ok (seed_row seed_holiday_discount_definition (ck_now ck))"
      "process_row_ok (seed_row seed_flipflop_definition (ck_now ck'))"
    using assms(2,3) by (simp_all add: seed_rows clock_ok_def)
  have fst_eq: "ensure_seed_process host ck
      (definition_of (seed_row seed_holiday_discount_definition (ck_now ck))) holiday_details s =
      (Inr (), after_seed ck (seed_row seed_holiday_discount_definition (ck_now ck)) holiday_details s)"
    by (simp add: ensure_seed_eq[OF assms(1,2) rows(1)] after_seed_def)
  show ?thesis
    using ensure_seed_eq[OF after_seed_ok[OF assms(1,2) rows(1)] assms(3) rows(2)]
    by (simp add: ensure_seed_processes_rows and_then_def fst_eq after_seed_def[of ck'])
qed

text \<open>
  C40. Seeding at start-up succeeds and is idempotent: a second start-up, at any later
  time, changes nothing, neither the processes nor the audit trail.
\<close>

theorem seeding_idempotent:
  assumes "process_db_ok s" and "clock_ok ck" and "clock_ok ck'" and "clock_ok ck2" and "clock_ok ck2'"
  shows "\<exists>s'. ensure_seed_processes host ck ck' s = (Inr (), s') \<and>
              ensure_seed_processes host ck2 ck2' s' = (Inr (), s')"
proof -
  let ?h = "\<lambda>ck. seed_row seed_holiday_discount_definition (ck_now ck)"
  let ?f = "\<lambda>ck. seed_row seed_flipflop_definition (ck_now ck)"
  let ?s1 = "after_seed ck (?h ck) holiday_details s"
  let ?s' = "after_seed ck' (?f ck') flipflop_details ?s1"
  have keys: "process_key (?h c) = (''holiday-discount-2026'', 1)"
      "process_key (?f c) = (''flipflop.successful_customer_journey.v1'', 1)" for c
    by (simp_all add: process_key_def seed_row_def process_entity_def
        seed_holiday_discount_definition_def seed_flipflop_definition_def del: process_key_fold)
  have ok: "process_db_ok ?s'"
    using assms(1-3) by (intro after_seed_ok) (simp_all add: seed_rows clock_ok_def)
  have "lookup_process (db_processes ?s') (process_key (?h ck2)) \<noteq> None"
      "lookup_process (db_processes ?s') (process_key (?f ck2')) \<noteq> None"
    by (auto simp: after_seed_lookup keys split: option.splits)
  then have "after_seed ck2 (?h ck2) holiday_details ?s' = ?s'"
      "after_seed ck2' (?f ck2') flipflop_details ?s' = ?s'"
    by (auto simp: after_seed_def[of ck2] after_seed_def[of ck2'])
  then show ?thesis
    using seed_processes_eq[OF assms(1-3)] seed_processes_eq[OF ok assms(4,5)]
    by (intro exI[of _ ?s']) simp
qed

lemma seeding_idempotent_witness:
  "\<exists>s'. ensure_seed_processes (\<lambda>_. None) sample_clock sample_clock empty_db = (Inr (), s') \<and>
        ensure_seed_processes (\<lambda>_. None) sample_clock sample_clock s' = (Inr (), s')"
  by (rule seeding_idempotent[OF empty_db_ok sample_clock_ok sample_clock_ok sample_clock_ok
        sample_clock_ok])

lemma seeds_inv:
  assumes "registry_inv s" and "clock_ok ck" and "clock_ok ck'"
  shows "registry_inv (snd (ensure_seed_processes host ck ck' s))"
proof -
  have rows: "process_row_ok (seed_row seed_holiday_discount_definition (ck_now ck))"
      "process_row_ok (seed_row seed_flipflop_definition (ck_now ck'))"
    using assms(2,3) by (simp_all add: seed_rows clock_ok_def)
  obtain x s1 where s1: "ensure_seed_process host ck
      (definition_of (seed_row seed_holiday_discount_definition (ck_now ck))) holiday_details s = (x, s1)"
    by fastforce
  then have "registry_inv s1"
    using ensure_seed_inv[OF assms(1,2) rows(1), of host holiday_details] by simp
  then show ?thesis
    using ensure_seed_inv[OF _ assms(3) rows(2)] s1
    by (cases x) (simp_all add: ensure_seed_processes_rows and_then_def)
qed

lemma delivery_only_inv:
  assumes "registry_inv s" and "delivery_only s s'" and "outbox_ok s'"
  shows "registry_inv s'"
proof -
  obtain rows where s': "s' = s\<lparr>ob_rows := rows\<rparr>"
    and keys: "map event_key rows = map event_key (ob_rows s)"
    using assms(2) by (auto simp: delivery_only_def)
  have ev: "map event_view rows = map (\<lambda>(t, i, v, n). (Some t, i, v)) (map event_key rows)" for rows
    by (simp add: event_view_def event_key_def)
  have "map event_view rows = map event_view (ob_rows s)" by (simp only: ev keys)
  then show ?thesis
    using assms(1,3) s' by (simp add: registry_inv_def audit_matches_events_def process_db_ok_def)
qed

text \<open>
  C3. In every reachable database no two process rows share an id and version, all audit
  ids are distinct, all event ids are distinct, and the audit trail and the outbox agree one
  by one, failed requests and interrupted dispatch runs included.
\<close>

theorem reachable_invariant:
  assumes "reachable host s"
  shows "distinct (map process_key (db_processes s)) \<and> distinct (map ar_id (db_audit s)) \<and>
         distinct (map or_eventId (ob_rows s)) \<and> audit_matches_events s"
proof -
  from assms have "registry_inv s"
  proof induction
    case start
    show ?case
      by (simp add: registry_inv_def empty_db_ok audit_matches_events_def) (simp add: empty_db_def)
  next
    case (request s ck ck' actor req)
    then show ?case by (intro run_request_inv)
  next
    case (seed s ck ck')
    then show ?case by (intro seeds_inv)
  next
    case (dispatch s env hmac returning att t limit)
    then show ?case
      using delivery_only_inv[OF _ delivery_only_dispatch dispatch_pending_ok]
      by (simp add: registry_inv_def process_db_ok_def)
  qed
  then show ?thesis
    by (auto simp: registry_inv_def process_db_ok_def process_rows_ok_keys outbox_ok_distinct_ids
        audit_log.distinct_keys)
qed


lemma reachable_invariant_witness:
  "let s = run_request (\<lambda>_. None) sample_clock sample_clock ''ops'' (PublishReq ''holiday-discount-2026'' 1)
         (snd (ensure_seed_processes (\<lambda>_. None) sample_clock sample_clock empty_db))
   in distinct (map process_key (db_processes s)) \<and> distinct (map ar_id (db_audit s)) \<and>
      distinct (map or_eventId (ob_rows s)) \<and> audit_matches_events s"
  unfolding Let_def
  by (rule reachable_invariant[where host = "\<lambda>_. None"])
    (intro reachable.request reachable.seed reachable.start sample_clock_ok)


section \<open>Versions are immutable\<close>

definition same_content :: "process_row \<Rightarrow> process_row \<Rightarrow> bool" where
  "same_content r r' \<longleftrightarrow>
     r' = r\<lparr>pr_status := pr_status r', pr_lastValidation := pr_lastValidation r',
            pr_updatedAt := pr_updatedAt r'\<rparr>"

lemma same_content_refl [simp]: "same_content r r"
  by (simp add: same_content_def)

lemma same_content_updates [simp]:
  "same_content r (transitioned_row st ck r)" "same_content r (validated_row host ck r)"
  "same_content r (transitioned_row st ck (validated_row host ck' r))"
  by (simp_all add: same_content_def transitioned_row_def validated_row_def Let_def)

lemma version_kept:
  assumes "process_db_ok s" and "clock_ok ck" and "clock_ok ck'"
    and "lookup_process (db_processes s) k = Some r"
  shows "\<exists>r'. lookup_process (db_processes (run_request host ck ck' actor req s)) k = Some r' \<and>
              same_content r r'"
proof -
  have t: "\<exists>r'. lookup_process (db_processes (snd (transition host ck i v st a d actor g s))) k =
      Some r' \<and> same_content r r'" for i v st a d g
    using assms(4) lookup_process_SomeD[of "db_processes s"]
    by (fastforce simp: transition_eq[OF assms(1,2)] lookup_put split: option.splits)
  have val: "\<exists>r'. lookup_process (db_processes (snd (validate_process host ck i v actor s))) k =
      Some r' \<and> same_content r r'" for i v
    using assms(4) lookup_process_SomeD[of "db_processes s"]
    by (fastforce simp: validate_process_eq[OF assms(1,2)] lookup_put Let_def split: option.splits)
  have cr: "\<exists>r'. lookup_process (db_processes (snd (create_process host ck dto actor s))) k =
      Some r' \<and> same_content r r'" for dto
    using assms(4)
    by (fastforce simp: create_process_eq[OF assms(1,2)] lookup_put split: option.splits)
  have g: "\<exists>r'. lookup_process (db_processes (snd (gated host ck ck' i v actor verb st a d s))) k =
      Some r' \<and> same_content r r'" for i v verb st a d
  proof (cases "lookup_process (db_processes s) (i, v)")
    case None
    then show ?thesis
      using assms(4) by (simp add: gated_def and_then_def validate_process_eq[OF assms(1,2)])
  next
    case (Some r0)
    then show ?thesis
      using assms(4) lookup_process_SomeD[OF Some]
      by (auto simp: gated_eq[OF assms(1-3) Some] lookup_put)
  qed
  show ?thesis
    by (cases req)
      (simp_all add: run_request_def cr val t g schedule_gated publish_gated pause_process_def
        retire_process_def)
qed

text \<open>
  C28. A process version, once stored, is immutable but for its status, its last
  validation and its update time, and no request ever removes it.
\<close>

theorem versions_immutable:
  assumes "process_db_ok s" and "clock_ok ck" and "clock_ok ck'"
    and "lookup_process (db_processes s) k = Some r"
  shows "\<exists>r'. lookup_process (db_processes (run_request host ck ck' actor req s)) k = Some r' \<and>
              same_content r r'"
  by (rule version_kept[OF assms])

lemma versions_immutable_witness:
  "\<exists>r'. lookup_process (db_processes (run_request (\<lambda>_. None) sample_clock sample_clock ''ops''
           (RetireReq ''holiday-discount-2026'' 1) sample_registry)) (''holiday-discount-2026'', 1) =
           Some r' \<and> same_content sample_process_row r'"
  by (rule versions_immutable[OF sample_registry_ok sample_clock_ok sample_clock_ok sample_lookup])


section \<open>The way around the gate\<close>

definition unchecked_dto :: create_process_dto where
  "unchecked_dto =
     \<lparr>cp_processId = ''p'', cp_version = None, cp_status = Some Active, cp_activeFrom = None,
      cp_activeTo = None, cp_policyRefs = [], cp_workflowRefs = [], cp_campaignRefs = None,
      cp_killSwitch = Some False\<rparr>"

text \<open>
  C34. A create request may name any initial status: it can store a process as active that
  has no references and no kill switch, without any validation, so it fails validation and
  cannot be paused either.
\<close>

theorem create_bypasses_gate:
  "case create_process (\<lambda>_. None) sample_clock unchecked_dto ''ops'' empty_db of
     (Inl e, s') \<Rightarrow> False
   | (Inr p, s') \<Rightarrow>
       pd_status p = Active \<and> pd_lastValidation p = None \<and> \<not> publishable (\<lambda>_. None) p \<and>
       map_option definition_of (lookup_process (db_processes s') (''p'', 1)) = Some p \<and>
       (case pause_process (\<lambda>_. None) sample_clock ''p'' 1 ''ops'' s' of
          (Inl e, s'') \<Rightarrow> s'' = s' | (Inr q, s'') \<Rightarrow> False)"
proof -
  let ?r = "created_row unchecked_dto (ck_now sample_clock)"
  have none: "lookup_process (db_processes empty_db) k = None" for k
    by (simp add: lookup_process_def empty_db_def)
  have dto: "cp_processId unchecked_dto = ''p''" "or_else (cp_version unchecked_dto) 1 = 1"
    by (simp_all add: unchecked_dto_def or_else_def)
  define s' where "s' = recorded sample_clock ActCreated ?r (normalized_actor ''ops'')
      [(''source'', JStr ''api'')] empty_db"
  have create: "create_process (\<lambda>_. None) sample_clock unchecked_dto ''ops'' empty_db =
      (Inr (definition_of ?r), s')"
    by (simp add: create_process_eq[OF empty_db_ok sample_clock_ok] none definition_of_created
        s'_def dto int4_def)
  have row: "process_row_ok ?r"
    by (rule row_ok_updates) (simp_all add: sample_clock_ok dto int4_def)
  have ok: "process_db_ok s'"
    unfolding s'_def by (intro recorded_ok empty_db_ok sample_clock_ok row)
  have look: "lookup_process (db_processes s') (''p'', 1) = Some ?r"
    by (simp add: s'_def lookup_put dto)
  have ks: "\<not> pr_killSwitch ?r" and st: "or_else (cp_status unchecked_dto) Draft = Active" and lv: "pr_lastValidation ?r = None"
    by (simp_all add: created_row_def process_entity_def new_process_definition_def
        unchecked_dto_def or_else_def)
  show ?thesis
    by (simp add: create ks st lv publishable_def look pause_process_def
        transition_eq[OF ok sample_clock_ok])
qed

end
