(* ===== verification/Capability.thy ===== *)
theory Capability
  imports JsValue Findings
begin

text \<open>
  Service capability references: \<open>src/src/policies/capability-reference.ts\<close> (the
  snapshot of known services, the \<open>[MISSING:\<close> marker scan and the reference
  validation used by the policy and the workflow registry) and the listing of
  \<open>src/src/capabilities/capability-registry.service.ts\<close>.
\<close>

record capability_ref =
  cr_service :: string
  cr_capability :: string
  cr_reason :: "string option"

record ref_finding = validation_finding +
  rf_ref :: "capability_ref option"

definition mk_finding :: "string \<Rightarrow> severity \<Rightarrow> string \<Rightarrow> ref_finding" where
  "mk_finding c s m = \<lparr>vf_code = c, vf_severity = s, vf_message = m, rf_ref = None\<rparr>"

definition mk_ref_finding :: "string \<Rightarrow> severity \<Rightarrow> string \<Rightarrow> capability_ref \<Rightarrow> ref_finding" where
  "mk_ref_finding c s m r = \<lparr>vf_code = c, vf_severity = s, vf_message = m, rf_ref = Some r\<rparr>"

lemma mk_finding_sel [simp]:
  "vf_code (mk_finding c s m) = c" "vf_severity (mk_finding c s m) = s"
  "vf_message (mk_finding c s m) = m"
  "vf_code (mk_ref_finding c s m r) = c" "vf_severity (mk_ref_finding c s m r) = s"
  "rf_ref (mk_ref_finding c s m r) = Some r"
  by (simp_all add: mk_finding_def mk_ref_finding_def)


section \<open>The snapshot of known services\<close>

record capability_snapshot =
  cs_capabilities :: "string list"
  cs_missing :: "string list"

definition capability_snapshots :: "(string \<times> capability_snapshot) list" where
  "capability_snapshots =
   [(''marketing-microservice'',
      \<lparr>cs_capabilities = [''campaign-content-ref'', ''experience-slot-content'', ''upsell-content''],
       cs_missing = [''canonical campaign content API'']\<rparr>),
    (''catalog-microservice'',
      \<lparr>cs_capabilities = [''product-category-facts'', ''product-tags'', ''discount-eligibility-facts''],
       cs_missing = [''final holiday eligibility fact schema'']\<rparr>),
    (''[MISSING: pricing service owner]'',
      \<lparr>cs_capabilities = [''discount-evaluation'', ''final-price-quote''],
       cs_missing = [''service owner'', ''API contract'']\<rparr>),
    (''[MISSING: cart service owner]'',
      \<lparr>cs_capabilities = [''discount-line-display'', ''quote-to-checkout''],
       cs_missing = [''service owner'', ''API contract'']\<rparr>),
    (''orders-microservice'',
      \<lparr>cs_capabilities = [''applied-discounts-snapshot'', ''order-lifecycle-events''],
       cs_missing = [''final snapshot field contract'']\<rparr>),
    (''invoices-microservice'',
      \<lparr>cs_capabilities = [''invoice-discount-lines''],
       cs_missing = [''legal/tax display constraints'']\<rparr>),
    (''notifications-microservice'',
      \<lparr>cs_capabilities = [''template-ref-delivery'', ''idempotent-notification''],
       cs_missing = [''final paid-order event contract'']\<rparr>)]"

text \<open>The capability registry's own listing, with the role of each service.\<close>

record service_capability =
  sc_service :: string
  sc_role :: string
  sc_capabilities :: "string list"
  sc_missing :: "string list"

definition list_capabilities :: "service_capability list" where
  "list_capabilities =
   [\<lparr>sc_service = ''marketing-microservice'',
     sc_role = ''campaign provider'',
     sc_capabilities = [''campaign-content-ref'', ''experience-slot-content'', ''upsell-content''],
     sc_missing = [''canonical campaign content API'']\<rparr>,
    \<lparr>sc_service = ''catalog-microservice'',
     sc_role = ''product fact provider'',
     sc_capabilities = [''product-category-facts'', ''product-tags'', ''discount-eligibility-facts''],
     sc_missing = [''final holiday eligibility fact schema'']\<rparr>,
    \<lparr>sc_service = ''[MISSING: pricing service owner]'',
     sc_role = ''monetary authority'',
     sc_capabilities = [''discount-evaluation'', ''final-price-quote''],
     sc_missing = [''service owner'', ''API contract'']\<rparr>,
    \<lparr>sc_service = ''[MISSING: cart service owner]'',
     sc_role = ''cart display and checkout quote consumer'',
     sc_capabilities = [''discount-line-display'', ''quote-to-checkout''],
     sc_missing = [''service owner'', ''API contract'']\<rparr>,
    \<lparr>sc_service = ''orders-microservice'',
     sc_role = ''immutable order snapshot owner'',
     sc_capabilities = [''applied-discounts-snapshot'', ''order-lifecycle-events''],
     sc_missing = [''final snapshot field contract'']\<rparr>,
    \<lparr>sc_service = ''invoices-microservice'',
     sc_role = ''invoice discount line renderer'',
     sc_capabilities = [''invoice-discount-lines''],
     sc_missing = [''legal/tax display constraints'']\<rparr>,
    \<lparr>sc_service = ''notifications-microservice'',
     sc_role = ''post-purchase notification executor'',
     sc_capabilities = [''template-ref-delivery'', ''idempotent-notification''],
     sc_missing = [''final paid-order event contract'']\<rparr>]"


section \<open>Missing markers\<close>

abbreviation missing_marker :: string where
  "missing_marker \<equiv> ''[MISSING:''"

fun contains_missing_marker :: "json \<Rightarrow> bool" where
  "contains_missing_marker (JStr s) = js_includes missing_marker s"
| "contains_missing_marker (JArr xs) = list_ex contains_missing_marker xs"
| "contains_missing_marker (JObj kvs) = list_ex contains_missing_marker (map snd kvs)"
| "contains_missing_marker _ = False"

text \<open>The scan of an optional value: \<open>undefined\<close> contains no marker.\<close>

definition opt_missing_marker :: "json option \<Rightarrow> bool" where
  "opt_missing_marker v = (case v of None \<Rightarrow> False | Some j \<Rightarrow> contains_missing_marker j)"


section \<open>Validation of references\<close>

definition validate_capability_ref :: "capability_ref \<Rightarrow> string \<Rightarrow> ref_finding list" where
  "validate_capability_ref ref context =
     (let owner = (if contains_missing_marker (JStr (cr_service ref))
           then [mk_ref_finding ''SERVICE_OWNER_MISSING'' Fail
                   (context @ '' references unresolved service owner '' @ cr_service ref @ ''.'') ref]
           else [])
      in case obj_get capability_snapshots (cr_service ref) of
           None \<Rightarrow> owner @
             [mk_ref_finding ''SERVICE_CAPABILITY_REF_MISSING'' Fail
                (context @ '' references unknown service '' @ cr_service ref @ ''.'') ref]
         | Some service \<Rightarrow> owner @
             (if contains_missing_marker (JStr (cr_capability ref))
              then [mk_ref_finding ''SERVICE_CAPABILITY_REF_MISSING'' Fail
                      (context @ '' references unresolved capability '' @ cr_capability ref @ ''.'') ref]
              else if cr_capability ref \<notin> set (cs_capabilities service)
              then [mk_ref_finding ''SERVICE_CAPABILITY_REF_MISSING'' Fail
                      (context @ '' references capability '' @ cr_capability ref @
                       '' that is not registered on '' @ cr_service ref @ ''.'') ref]
              else if \<not> contains_missing_marker (JStr (cr_service ref))
              then [mk_ref_finding ''SERVICE_CAPABILITY_REF_PRESENT'' Pass
                      (context @ '' references registered capability '' @ cr_service ref @ '':'' @
                       cr_capability ref @ ''.'') ref]
              else []) @
             (if cs_missing service \<noteq> []
              then [mk_ref_finding ''SERVICE_CAPABILITY_RUNTIME_FACT_MISSING''
                      (if contains_missing_marker (JStr (cr_service ref)) then Fail else Warning)
                      (context @ '' has unresolved capability facts for '' @ cr_service ref @ '':'' @
                       cr_capability ref @ '': '' @ js_join '', '' (cs_missing service) @ ''.'') ref]
              else []))"

definition validate_capability_refs :: "capability_ref list \<Rightarrow> string \<Rightarrow> ref_finding list" where
  "validate_capability_refs refs context =
     (if refs = []
      then [mk_finding ''SERVICE_CAPABILITY_REFS_MISSING'' Fail
              (context @ '' must declare at least one service capability reference.'')]
      else concat (map (\<lambda>ref. validate_capability_ref ref context) refs))"

text \<open>What a reference must be to pass: a resolved, registered capability of a known service.\<close>

definition ref_resolved :: "capability_ref \<Rightarrow> bool" where
  "ref_resolved ref \<longleftrightarrow>
     \<not> js_includes missing_marker (cr_service ref) \<and>
     \<not> js_includes missing_marker (cr_capability ref) \<and>
     (case obj_get capability_snapshots (cr_service ref) of
        None \<Rightarrow> False
      | Some service \<Rightarrow> cr_capability ref \<in> set (cs_capabilities service))"

lemma validate_capability_ref_verdict [simp]:
  "verdict (validate_capability_ref ref context) \<longleftrightarrow> ref_resolved ref"
  by (auto simp: validate_capability_ref_def ref_resolved_def Let_def split: option.splits)

lemma validate_capability_refs_verdict [simp]:
  "verdict (validate_capability_refs refs context) \<longleftrightarrow> refs \<noteq> [] \<and> list_all ref_resolved refs"
  by (cases refs) (auto simp: validate_capability_refs_def list.pred_map o_def)

text \<open>
  A list of capability references passes validation exactly when it is non-empty and
  every reference names a registered capability of a known service with no unresolved
  marker: the \<open>SERVICE_OWNER_MISSING\<close>, \<open>SERVICE_CAPABILITY_REF_MISSING\<close> and
  \<open>SERVICE_CAPABILITY_RUNTIME_FACT_MISSING\<close> branches block nothing else.
\<close>

theorem capability_refs_pass_iff:
  "verdict (validate_capability_refs refs context) =
   (refs \<noteq> [] \<and> (\<nexists>ref. ref \<in> set refs \<and> \<not> ref_resolved ref))"
  by (auto simp: list_all_iff)

end
