(* ===== verification/Workflow.thy ===== *)
theory Workflow
  imports Capability Registry "HOL-Library.List_Lexorder" "HOL-Library.Char_ord"
begin

text \<open>
  Workflow definitions: \<open>src/src/workflows/workflow.types.ts\<close> (the data and the
  parameters of a wait action), \<open>workflow-seed-loader.ts\<close> (documents mounted by other
  services) and \<open>workflow-registry.service.ts\<close> (the built-in Holiday Discount
  workflows, the registry and the validation). The seed directory, the JSON reader and the
  unchecked cast of a loaded document to a definition are parameters.
\<close>

section \<open>Data\<close>

definition known_trigger_types :: "string list" where
  "known_trigger_types =
     [''product-viewed'', ''cart-updated'', ''checkout-context-loaded'', ''order-paid'']"

definition known_action_types :: "string list" where
  "known_action_types =
     [''evaluate-policy'', ''call-service-capability'', ''render-experience'',
      ''snapshot-order-discount'', ''send-notification-template'',
      ''record-observability-event'', ''wait-for-signal'']"

record workflow_trigger =
  wt_type :: string
  wt_sourceService :: string
  wt_eventRef :: string
  wt_correlationKeys :: "string list"
  wt_missingRuntimeFacts :: "string list option"

record workflow_action =
  wa_actionId :: string
  wa_type :: string
  wa_dependsOn :: "string list option"
  wa_policyRefs :: "string list option"
  wa_serviceCapabilityRefs :: "capability_ref list"
  wa_parameters :: "json_object option"

record workflow_definition =
  wd_schemaVersion :: string
  wd_workflowId :: string
  wd_version :: int
  wd_status :: lifecycle_status
  wd_description :: string
  wd_appliesToProcessRefs :: "string list"
  wd_trigger :: workflow_trigger
  wd_actions :: "workflow_action list"
  wd_requiredCapabilities :: "capability_ref list"
  wd_missingRuntimeFacts :: "string list"
  wd_createdAt :: string
  wd_updatedAt :: string

record workflow_validation =
  wv_workflowId :: string
  wv_version :: int
  wv_valid :: bool
  wv_findings :: "ref_finding list"


section \<open>Wait actions\<close>

datatype on_timeout = OnTimeoutFail | OnTimeoutContinue

record wait_parameters =
  wp_signalName :: string
  wp_timeoutMs :: "js_number option"
  wp_onTimeout :: on_timeout

definition is_wait_for_signal :: "workflow_action \<Rightarrow> bool" where
  "is_wait_for_signal action \<longleftrightarrow> wa_type action = ''wait-for-signal''"

definition read_timeout_ms :: "json option \<Rightarrow> js_number option" where
  "read_timeout_ms raw =
     (case raw of
        Some (JNum n) \<Rightarrow> if js_less (Fin 0) n then Some n else None
      | _ \<Rightarrow> None)"

definition read_wait_parameters :: "workflow_action \<Rightarrow> error + wait_parameters" where
  "read_wait_parameters action =
     (let params = (case wa_parameters action of None \<Rightarrow> [] | Some p \<Rightarrow> p);
          timeoutMs = read_timeout_ms (obj_get params ''timeoutMs'');
          onTimeout = (if obj_get params ''onTimeout'' = Some (JStr ''continue'')
                       then OnTimeoutContinue else OnTimeoutFail);
          missing = PlainError (''wait-for-signal action \"'' @ wa_actionId action @
                                ''\" is missing a signalName parameter'')
      in case obj_get params ''signalName'' of
           Some (JStr s) \<Rightarrow>
             if s = [] then Inl missing
             else Inr \<lparr>wp_signalName = s, wp_timeoutMs = timeoutMs, wp_onTimeout = onTimeout\<rparr>
         | _ \<Rightarrow> Inl missing)"


section \<open>Seed documents from a mounted directory\<close>

text \<open>
  The part of the file system the loader reads: whether a directory exists, the names in
  it, the joined path, and the content of a file as parsed JSON or the reader's message.
\<close>

record seed_host =
  sh_exists :: "string \<Rightarrow> bool"
  sh_readdir :: "string \<Rightarrow> string list"
  sh_join :: "string \<Rightarrow> string \<Rightarrow> string"
  sh_readJson :: "string \<Rightarrow> string + json"

definition seed_suffix :: string where
  "seed_suffix = ''.workflow.json''"

definition required_fields :: "string list" where
  "required_fields =
     [''workflowId'', ''version'', ''status'', ''description'', ''appliesToProcessRefs'',
      ''trigger'', ''actions'', ''requiredCapabilities'', ''missingRuntimeFacts'']"

text \<open>
  The check of one document. \<open>shown\<close> is how \<open>JSON.stringify\<close> renders the schema
  version in the message. An array is an object to \<open>typeof\<close> and has none of the
  fields.
\<close>

definition assert_workflow_definition ::
  "(json option \<Rightarrow> string) \<Rightarrow> json \<Rightarrow> string \<Rightarrow> error + json" where
  "assert_workflow_definition shown v path =
     (case (case v of JObj kvs \<Rightarrow> Some kvs | JArr _ \<Rightarrow> Some [] | _ \<Rightarrow> None) of
        None \<Rightarrow> Inl (PlainError (''workflow seed '' @ path @ '' is not an object''))
      | Some candidate \<Rightarrow>
          if obj_get candidate ''schemaVersion'' \<noteq> Some (JStr ''bpcp.workflow.v1'')
          then Inl (PlainError (''workflow seed '' @ path @ '' has schemaVersion '' @
                 shown (obj_get candidate ''schemaVersion'') @ ''; expected \"bpcp.workflow.v1\"''))
          else
            let missing = filter (\<lambda>field. obj_get candidate field = None) required_fields
            in if missing \<noteq> []
               then Inl (PlainError (''workflow seed '' @ path @ '' is missing required field(s): '' @
                      js_join '', '' missing))
               else (case obj_get candidate ''actions'' of
                       Some (JArr (a # as)) \<Rightarrow> Inr v
                     | _ \<Rightarrow> Inl (PlainError (''workflow seed '' @ path @ '' defines no actions''))))"

fun load_files ::
  "seed_host \<Rightarrow> (json option \<Rightarrow> string) \<Rightarrow> string \<Rightarrow> string list \<Rightarrow> error + json list" where
  "load_files fs shown dir [] = Inr []"
| "load_files fs shown dir (file # files) =
     (let path = sh_join fs dir file
      in case sh_readJson fs path of
           Inl message \<Rightarrow> Inl (PlainError (''workflow seed '' @ path @ '' is not valid JSON: '' @ message))
         | Inr parsed \<Rightarrow>
             (case assert_workflow_definition shown parsed path of
                Inl e \<Rightarrow> Inl e
              | Inr d \<Rightarrow>
                  (case load_files fs shown dir files of
                     Inl e \<Rightarrow> Inl e
                   | Inr ds \<Rightarrow> Inr (d # ds))))"

definition load_workflows_from_directory ::
  "seed_host \<Rightarrow> (json option \<Rightarrow> string) \<Rightarrow> string option \<Rightarrow> error + json list" where
  "load_workflows_from_directory fs shown directory =
     (case directory of
        None \<Rightarrow> Inr []
      | Some dir \<Rightarrow>
          if dir = [] then Inr []
          else if \<not> sh_exists fs dir
          then Inl (PlainError (''workflow seed directory '' @ dir @ '' does not exist''))
          else load_files fs shown dir
                 (sort (filter (\<lambda>name. ends_with seed_suffix name) (sh_readdir fs dir))))"


section \<open>The built-in Holiday Discount workflows\<close>

definition holiday_created_at :: string where
  "holiday_created_at = ''2026-07-02T00:00:00.000Z''"

definition holiday_policy_ref :: string where
  "holiday_policy_ref = ''holiday-10-percent-selected-categories''"

definition cap_ref :: "string \<Rightarrow> string \<Rightarrow> capability_ref" where
  "cap_ref s c = \<lparr>cr_service = s, cr_capability = c, cr_reason = None\<rparr>"

definition cap_ref_because :: "string \<Rightarrow> string \<Rightarrow> string \<Rightarrow> capability_ref" where
  "cap_ref_because s c r = \<lparr>cr_service = s, cr_capability = c, cr_reason = Some r\<rparr>"

definition product_view_holiday_badge :: workflow_definition where
  "product_view_holiday_badge =
   \<lparr>wd_schemaVersion = ''bpcp.workflow.v1'',
    wd_workflowId = ''product-view-holiday-badge'',
    wd_version = 1,
    wd_status = Draft,
    wd_description = ''Evaluate product eligibility and render the Holiday Discount badge on product-view surfaces.'',
    wd_appliesToProcessRefs = [''holiday-discount-2026''],
    wd_trigger =
      \<lparr>wt_type = ''product-viewed'',
       wt_sourceService = ''storefront-web'',
       wt_eventRef = ''[MISSING: storefront product-view event contract]'',
       wt_correlationKeys = [''processId'', ''productId'', ''sessionId''],
       wt_missingRuntimeFacts = Some [''[MISSING: storefront product-view event contract]'']\<rparr>,
    wd_actions =
      [\<lparr>wa_actionId = ''evaluate-holiday-policy-for-product'',
        wa_type = ''evaluate-policy'',
        wa_dependsOn = None,
        wa_policyRefs = Some [holiday_policy_ref],
        wa_serviceCapabilityRefs =
          [cap_ref_because ''catalog-microservice'' ''discount-eligibility-facts''
             ''Resolve selected-category eligibility facts for the viewed product.''],
        wa_parameters = None\<rparr>,
       \<lparr>wa_actionId = ''render-holiday-product-badge'',
        wa_type = ''render-experience'',
        wa_dependsOn = Some [''evaluate-holiday-policy-for-product''],
        wa_policyRefs = Some [holiday_policy_ref],
        wa_serviceCapabilityRefs =
          [cap_ref_because ''marketing-microservice'' ''experience-slot-content''
             ''Marketing owns badge copy/content references for storefront slots.''],
        wa_parameters = Some
          [(''slot'', JStr ''product-view-holiday-badge''),
           (''campaignRef'', JStr ''holiday-2026-main'')]\<rparr>],
    wd_requiredCapabilities =
      [cap_ref ''catalog-microservice'' ''discount-eligibility-facts'',
       cap_ref ''marketing-microservice'' ''experience-slot-content''],
    wd_missingRuntimeFacts = [''[MISSING: storefront product-view event contract]''],
    wd_createdAt = holiday_created_at,
    wd_updatedAt = holiday_created_at\<rparr>"

definition cart_updated_discount_evaluation :: workflow_definition where
  "cart_updated_discount_evaluation =
   \<lparr>wd_schemaVersion = ''bpcp.workflow.v1'',
    wd_workflowId = ''cart-updated-discount-evaluation'',
    wd_version = 1,
    wd_status = Draft,
    wd_description = ''Re-evaluate discount eligibility when the cart changes and request a fail-closed monetary quote.'',
    wd_appliesToProcessRefs = [''holiday-discount-2026''],
    wd_trigger =
      \<lparr>wt_type = ''cart-updated'',
       wt_sourceService = ''[MISSING: cart service owner]'',
       wt_eventRef = ''[MISSING: cart updated event contract]'',
       wt_correlationKeys = [''processId'', ''cartId'', ''customerId''],
       wt_missingRuntimeFacts = Some [''[MISSING: cart updated event contract]'']\<rparr>,
    wd_actions =
      [\<lparr>wa_actionId = ''evaluate-holiday-policy-for-cart'',
        wa_type = ''evaluate-policy'',
        wa_dependsOn = None,
        wa_policyRefs = Some [holiday_policy_ref],
        wa_serviceCapabilityRefs = [cap_ref ''catalog-microservice'' ''discount-eligibility-facts''],
        wa_parameters = None\<rparr>,
       \<lparr>wa_actionId = ''request-holiday-discount-quote'',
        wa_type = ''call-service-capability'',
        wa_dependsOn = Some [''evaluate-holiday-policy-for-cart''],
        wa_policyRefs = Some [holiday_policy_ref],
        wa_serviceCapabilityRefs =
          [cap_ref_because ''[MISSING: pricing service owner]'' ''discount-evaluation''
             ''Pricing owner must calculate monetary discount and fail closed on invalid input.''],
        wa_parameters = None\<rparr>,
       \<lparr>wa_actionId = ''display-holiday-cart-discount-line'',
        wa_type = ''call-service-capability'',
        wa_dependsOn = Some [''request-holiday-discount-quote''],
        wa_policyRefs = Some [holiday_policy_ref],
        wa_serviceCapabilityRefs =
          [cap_ref_because ''[MISSING: cart service owner]'' ''discount-line-display''
             ''Cart owner must display the accepted quote without owning monetary calculation.''],
        wa_parameters = None\<rparr>],
    wd_requiredCapabilities =
      [cap_ref ''catalog-microservice'' ''discount-eligibility-facts'',
       cap_ref ''[MISSING: pricing service owner]'' ''discount-evaluation'',
       cap_ref ''[MISSING: cart service owner]'' ''discount-line-display''],
    wd_missingRuntimeFacts =
      [''[MISSING: cart service owner and API contract]'',
       ''[MISSING: pricing service owner and API contract]'',
       ''[MISSING: cart updated event contract]''],
    wd_createdAt = holiday_created_at,
    wd_updatedAt = holiday_created_at\<rparr>"

definition checkout_upsell_suggestion :: workflow_definition where
  "checkout_upsell_suggestion =
   \<lparr>wd_schemaVersion = ''bpcp.workflow.v1'',
    wd_workflowId = ''checkout-upsell-suggestion'',
    wd_version = 1,
    wd_status = Draft,
    wd_description = ''Suggest eligible Holiday Discount upsells during checkout without moving pricing authority into BPCP.'',
    wd_appliesToProcessRefs = [''holiday-discount-2026''],
    wd_trigger =
      \<lparr>wt_type = ''checkout-context-loaded'',
       wt_sourceService = ''[MISSING: cart service owner]'',
       wt_eventRef = ''[MISSING: checkout context event contract]'',
       wt_correlationKeys = [''processId'', ''cartId'', ''customerId''],
       wt_missingRuntimeFacts = Some [''[MISSING: checkout context event contract]'']\<rparr>,
    wd_actions =
      [\<lparr>wa_actionId = ''evaluate-holiday-policy-for-checkout'',
        wa_type = ''evaluate-policy'',
        wa_dependsOn = None,
        wa_policyRefs = Some [holiday_policy_ref],
        wa_serviceCapabilityRefs = [cap_ref ''catalog-microservice'' ''discount-eligibility-facts''],
        wa_parameters = None\<rparr>,
       \<lparr>wa_actionId = ''select-holiday-upsell-content'',
        wa_type = ''render-experience'',
        wa_dependsOn = Some [''evaluate-holiday-policy-for-checkout''],
        wa_policyRefs = Some [holiday_policy_ref],
        wa_serviceCapabilityRefs =
          [cap_ref_because ''marketing-microservice'' ''upsell-content''
             ''Marketing owns upsell content references.''],
        wa_parameters = Some
          [(''slot'', JStr ''checkout-holiday-upsell''),
           (''campaignRef'', JStr ''holiday-2026-main'')]\<rparr>,
       \<lparr>wa_actionId = ''quote-holiday-upsell-price'',
        wa_type = ''call-service-capability'',
        wa_dependsOn = Some [''select-holiday-upsell-content''],
        wa_policyRefs = Some [holiday_policy_ref],
        wa_serviceCapabilityRefs =
          [cap_ref_because ''[MISSING: pricing service owner]'' ''final-price-quote''
             ''Pricing owner must quote upsell totals before checkout acceptance.''],
        wa_parameters = None\<rparr>],
    wd_requiredCapabilities =
      [cap_ref ''catalog-microservice'' ''discount-eligibility-facts'',
       cap_ref ''marketing-microservice'' ''upsell-content'',
       cap_ref ''[MISSING: pricing service owner]'' ''final-price-quote''],
    wd_missingRuntimeFacts =
      [''[MISSING: cart service owner and checkout context event contract]'',
       ''[MISSING: pricing service owner and final quote API contract]''],
    wd_createdAt = holiday_created_at,
    wd_updatedAt = holiday_created_at\<rparr>"

definition order_paid_holiday_notification :: workflow_definition where
  "order_paid_holiday_notification =
   \<lparr>wd_schemaVersion = ''bpcp.workflow.v1'',
    wd_workflowId = ''order-paid-holiday-notification'',
    wd_version = 1,
    wd_status = Draft,
    wd_description = ''After an order is paid, preserve the applied discount snapshot and send the approved Holiday Discount notification template.'',
    wd_appliesToProcessRefs = [''holiday-discount-2026''],
    wd_trigger =
      \<lparr>wt_type = ''order-paid'',
       wt_sourceService = ''orders-microservice'',
       wt_eventRef = ''[MISSING: final paid-order event contract]'',
       wt_correlationKeys = [''processId'', ''orderId'', ''customerId''],
       wt_missingRuntimeFacts = Some [''[MISSING: final paid-order event contract]'']\<rparr>,
    wd_actions =
      [\<lparr>wa_actionId = ''snapshot-holiday-discount-on-order'',
        wa_type = ''snapshot-order-discount'',
        wa_dependsOn = None,
        wa_policyRefs = Some [holiday_policy_ref],
        wa_serviceCapabilityRefs =
          [cap_ref_because ''orders-microservice'' ''applied-discounts-snapshot''
             ''Orders own immutable order discount snapshots.''],
        wa_parameters = None\<rparr>,
       \<lparr>wa_actionId = ''send-holiday-paid-order-notification'',
        wa_type = ''send-notification-template'',
        wa_dependsOn = Some [''snapshot-holiday-discount-on-order''],
        wa_policyRefs = Some [holiday_policy_ref],
        wa_serviceCapabilityRefs =
          [cap_ref_because ''notifications-microservice'' ''template-ref-delivery''
             ''Notifications own template execution and idempotent delivery.''],
        wa_parameters = Some
          [(''templateRef'', JStr ''[MISSING: approved Holiday Discount paid-order notification template ref]'')]\<rparr>,
       \<lparr>wa_actionId = ''record-holiday-discount-observability'',
        wa_type = ''record-observability-event'',
        wa_dependsOn = Some [''send-holiday-paid-order-notification''],
        wa_policyRefs = Some [holiday_policy_ref],
        wa_serviceCapabilityRefs =
          [cap_ref_because ''orders-microservice'' ''order-lifecycle-events''
             ''Orders provide the lifecycle correlation source until observability ownership is finalized.''],
        wa_parameters = Some
          [(''eventBus'', JStr ''[MISSING: event bus owner, transport, topic, and publication contract]'')]\<rparr>],
    wd_requiredCapabilities =
      [cap_ref ''orders-microservice'' ''applied-discounts-snapshot'',
       cap_ref ''orders-microservice'' ''order-lifecycle-events'',
       cap_ref ''notifications-microservice'' ''template-ref-delivery''],
    wd_missingRuntimeFacts =
      [''[MISSING: final paid-order event contract]'',
       ''[MISSING: approved Holiday Discount paid-order notification template ref]'',
       ''[MISSING: event bus owner, transport, topic, and publication contract]''],
    wd_createdAt = holiday_created_at,
    wd_updatedAt = holiday_created_at\<rparr>"

definition holiday_discount_workflows :: "workflow_definition list" where
  "holiday_discount_workflows =
     [product_view_holiday_badge, cart_updated_discount_evaluation,
      checkout_upsell_suggestion, order_paid_holiday_notification]"


section \<open>The registry\<close>

text \<open>
  A \<open>Map\<close> is the list of its entries in insertion order. \<open>localeCompare\<close> orders
  strings by their collation sort keys; the key function \<open>collate\<close> is the platform's.
\<close>

type_synonym workflow_map = "(string \<times> workflow_definition) list"

definition workflow_key :: "workflow_definition \<Rightarrow> string" where
  "workflow_key w = composite_key (wd_workflowId w) (wd_version w)"

definition upsert_workflow :: "workflow_definition \<Rightarrow> workflow_map \<Rightarrow> workflow_map" where
  "upsert_workflow w m = obj_set (workflow_key w) w m"

text \<open>
  The constructor: the built-in workflows, then the documents of the seed directory. The
  parameter \<open>as_definition\<close> reads a checked document as a definition (the source's
  cast, which converts nothing).
\<close>

definition new_workflow_registry ::
  "(json \<Rightarrow> workflow_definition) \<Rightarrow> error + json list \<Rightarrow> error + workflow_map" where
  "new_workflow_registry as_definition mounted =
     (let built_in = fold upsert_workflow holiday_discount_workflows []
      in case mounted of
           Inl e \<Rightarrow> Inl e
         | Inr documents \<Rightarrow> Inr (fold upsert_workflow (map as_definition documents) built_in))"

definition list_workflows :: "(string \<Rightarrow> string) \<Rightarrow> workflow_map \<Rightarrow> workflow_definition list" where
  "list_workflows collate m = sort_key (\<lambda>w. collate (workflow_key w)) (map snd m)"

definition get_workflow :: "workflow_map \<Rightarrow> string \<Rightarrow> int \<Rightarrow> error + workflow_definition" where
  "get_workflow m workflowId version =
     (case obj_get m (composite_key workflowId version) of
        None \<Rightarrow> Inl (NotFoundException
          (''Workflow '' @ workflowId @ '':'' @ int_str version @ '' was not found''))
      | Some w \<Rightarrow> Inr w)"


section \<open>Validation\<close>

definition trigger_findings :: "workflow_definition \<Rightarrow> ref_finding list" where
  "trigger_findings w =
     (let t = wd_trigger w in
      (if wt_type t \<notin> set known_trigger_types
       then [mk_finding ''UNKNOWN_WORKFLOW_TRIGGER_TYPE'' Fail
               (''Workflow '' @ wd_workflowId w @ '' uses unknown trigger type '' @ wt_type t @
                ''; validation fails closed.'')]
       else []) @
      (if contains_missing_marker (JStr (wt_sourceService t)) \<or>
          contains_missing_marker (JStr (wt_eventRef t))
       then [mk_finding ''WORKFLOW_TRIGGER_RUNTIME_FACT_MISSING'' Fail
               (''Workflow '' @ wd_workflowId w @
                '' trigger has unresolved runtime facts; validation fails closed.'')]
       else []) @
      map (\<lambda>missingFact. mk_finding ''WORKFLOW_TRIGGER_RUNTIME_FACT_MISSING'' Fail
             (missingFact @ ''; workflow trigger cannot be published until resolved.''))
          (case wt_missingRuntimeFacts t of None \<Rightarrow> [] | Some fs \<Rightarrow> fs))"

definition action_findings :: "string list \<Rightarrow> workflow_action \<Rightarrow> ref_finding list" where
  "action_findings actionIds a =
     (if wa_type a \<notin> set known_action_types
      then [mk_finding ''UNKNOWN_WORKFLOW_ACTION_TYPE'' Fail
              (''Action '' @ wa_actionId a @ '' uses unknown action type '' @ wa_type a @
               ''; validation fails closed.'')]
      else []) @
     map (\<lambda>dependency. mk_finding ''WORKFLOW_ACTION_DEPENDENCY_PRESENT''
            (check (dependency \<in> set actionIds))
            (''Action '' @ wa_actionId a @ '' dependency '' @ dependency @
             '' must reference another action in the same workflow.''))
         (case wa_dependsOn a of None \<Rightarrow> [] | Some ds \<Rightarrow> ds) @
     map (\<lambda>policyRef. mk_finding ''WORKFLOW_POLICY_REF_PRESENT''
            (check (policyRef = holiday_policy_ref))
            (''Action '' @ wa_actionId a @ '' policy ref '' @ policyRef @
             '' must resolve to a known policy seed.''))
         (case wa_policyRefs a of None \<Rightarrow> [] | Some ps \<Rightarrow> ps) @
     (if opt_missing_marker (map_option JObj (wa_parameters a))
      then [mk_finding ''WORKFLOW_ACTION_RUNTIME_FACT_MISSING'' Fail
              (''Action '' @ wa_actionId a @
               '' contains unresolved runtime facts; validation fails closed.'')]
      else []) @
     validate_capability_refs (wa_serviceCapabilityRefs a) (''Workflow action '' @ wa_actionId a)"

definition workflow_findings :: "workflow_definition \<Rightarrow> ref_finding list" where
  "workflow_findings w =
     [mk_finding ''WORKFLOW_ID_PRESENT'' (check (wd_workflowId w \<noteq> []))
        ''Workflow id must be present.'',
      mk_finding ''WORKFLOW_PROCESS_REFS_PRESENT'' (check (wd_appliesToProcessRefs w \<noteq> []))
        ''Workflow must reference at least one business process.'',
      mk_finding ''WORKFLOW_ACTIONS_PRESENT'' (check (wd_actions w \<noteq> []))
        ''Workflow must define at least one action.''] @
     trigger_findings w @
     concat (map (action_findings (map wa_actionId (wd_actions w))) (wd_actions w)) @
     validate_capability_refs (wd_requiredCapabilities w)
       (''Workflow '' @ wd_workflowId w @ '' required capabilities'') @
     map (\<lambda>missingFact. mk_finding ''WORKFLOW_RUNTIME_FACT_MISSING'' Fail
            (missingFact @ ''; workflow cannot be published until resolved.''))
         (wd_missingRuntimeFacts w) @
     [mk_finding ''WORKFLOW_PERSISTENCE_MISSING'' Warning
        ''[MISSING: persistent workflow store is not implemented in skeleton]'']"

definition validate_workflow_definition :: "workflow_definition \<Rightarrow> workflow_validation" where
  "validate_workflow_definition w =
     \<lparr>wv_workflowId = wd_workflowId w, wv_version = wd_version w,
      wv_valid = verdict (workflow_findings w), wv_findings = workflow_findings w\<rparr>"

definition validate_workflow ::
  "workflow_map \<Rightarrow> string \<Rightarrow> int \<Rightarrow> error + workflow_validation" where
  "validate_workflow m workflowId version =
     (case get_workflow m workflowId version of
        Inl e \<Rightarrow> Inl e
      | Inr w \<Rightarrow> Inr (validate_workflow_definition w))"

interpretation wf_validator: validator workflow_findings "\<lambda>w. wv_valid (validate_workflow_definition w)"
  by unfold_locales (simp add: validate_workflow_definition_def)

interpretation wf_map: keyed_registry workflow_key upsert_workflow obj_get
  by unfold_locales (simp add: upsert_workflow_def)


section \<open>What the validation accepts\<close>

definition opt_list :: "'a list option \<Rightarrow> 'a list" where
  "opt_list o' = (case o' of None \<Rightarrow> [] | Some xs \<Rightarrow> xs)"

definition trigger_accepted :: "workflow_trigger \<Rightarrow> bool" where
  "trigger_accepted t \<longleftrightarrow>
     wt_type t \<in> set known_trigger_types \<and>
     \<not> js_includes missing_marker (wt_sourceService t) \<and>
     \<not> js_includes missing_marker (wt_eventRef t) \<and>
     opt_list (wt_missingRuntimeFacts t) = []"

definition action_accepted :: "string list \<Rightarrow> workflow_action \<Rightarrow> bool" where
  "action_accepted actionIds a \<longleftrightarrow>
     wa_type a \<in> set known_action_types \<and>
     set (opt_list (wa_dependsOn a)) \<subseteq> set actionIds \<and>
     set (opt_list (wa_policyRefs a)) \<subseteq> {holiday_policy_ref} \<and>
     \<not> opt_missing_marker (map_option JObj (wa_parameters a)) \<and>
     wa_serviceCapabilityRefs a \<noteq> [] \<and> list_all ref_resolved (wa_serviceCapabilityRefs a)"

definition workflow_accepted :: "workflow_definition \<Rightarrow> bool" where
  "workflow_accepted w \<longleftrightarrow>
     wd_workflowId w \<noteq> [] \<and> wd_appliesToProcessRefs w \<noteq> [] \<and> wd_actions w \<noteq> [] \<and>
     trigger_accepted (wd_trigger w) \<and>
     list_all (action_accepted (map wa_actionId (wd_actions w))) (wd_actions w) \<and>
     wd_requiredCapabilities w \<noteq> [] \<and> list_all ref_resolved (wd_requiredCapabilities w) \<and>
     wd_missingRuntimeFacts w = []"

lemma trigger_findings_verdict [simp]:
  "verdict (trigger_findings w) \<longleftrightarrow> trigger_accepted (wd_trigger w)"
  by (auto simp: trigger_findings_def trigger_accepted_def opt_list_def Let_def verdict_map
      list_all_iff split: option.splits)

lemma action_findings_verdict [simp]:
  "verdict (action_findings ids a) \<longleftrightarrow> action_accepted ids a"
  unfolding action_findings_def action_accepted_def opt_list_def
  by (auto simp: verdict_map list_all_iff split: option.splits)

lemma workflow_findings_verdict: "verdict (workflow_findings w) \<longleftrightarrow> workflow_accepted w"
proof -
  have "verdict (map (\<lambda>m. mk_finding ''WORKFLOW_RUNTIME_FACT_MISSING'' Fail (g m)) ms) \<longleftrightarrow> ms = []"
    for g and ms :: "string list"
    by (cases ms) (simp_all add: verdict_map)
  moreover have "list_all verdict (map (action_findings ids) as) \<longleftrightarrow> list_all (action_accepted ids) as"
    for ids as by (simp add: list.pred_map o_def)
  ultimately show ?thesis unfolding workflow_findings_def workflow_accepted_def by simp
qed

text \<open>
  A workflow is valid exactly when its id, process references and actions are
  present, the trigger type is known and resolved, every action has a known type, depends
  only on actions of the workflow, references only the Holiday policy, carries no
  unresolved marker and names registered capabilities, the required capabilities are
  registered, and no runtime fact is missing.
\<close>

lemma workflow_valid_iff:
  "wv_valid (validate_workflow_definition w) = workflow_accepted w"
  by (simp add: validate_workflow_definition_def workflow_findings_verdict)


section \<open>The registry after construction\<close>

definition newest :: "string \<Rightarrow> int \<Rightarrow> workflow_definition list \<Rightarrow> workflow_definition option" where
  "newest i v ws = last_with workflow_key (composite_key i v) ws"

lemma newest_SomeD:
  "newest i v ws = Some w \<Longrightarrow> w \<in> set ws \<and> wd_workflowId w = i \<and> wd_version w = v"
  unfolding newest_def by (drule last_with_SomeD) (simp add: workflow_key_def)

text \<open>
  After construction a lookup gives the last mounted document of the id and version,
  else the built-in workflow of that id and version, else the not-found error; in
  particular a mounted document overrides a built-in one.
\<close>

theorem workflow_registry_lookup:
  "(case new_workflow_registry as_definition (Inr documents) of
      Inl e \<Rightarrow> False
    | Inr m \<Rightarrow>
        get_workflow m i v =
          (case newest i v (map as_definition documents) of
             Some w \<Rightarrow> Inr w
           | None \<Rightarrow>
               (case newest i v holiday_discount_workflows of
                  Some w \<Rightarrow> Inr w
                | None \<Rightarrow> Inl (NotFoundException
                    (''Workflow '' @ i @ '':'' @ int_str v @ '' was not found'')))))"
  by (simp add: new_workflow_registry_def get_workflow_def newest_def Let_def wf_map.lookup_load
      split: option.splits)

text \<open>
  None of the four built-in Holiday workflows validates: each has unresolved runtime
  facts, so none of them can pass as publishable.
\<close>

theorem holiday_workflows_fail_closed:
  "list_all (\<lambda>w. \<not> wv_valid (validate_workflow_definition w)) holiday_discount_workflows"
proof -
  have "\<not> workflow_accepted product_view_holiday_badge"
    by (simp add: workflow_accepted_def product_view_holiday_badge_def)
  moreover have "\<not> workflow_accepted cart_updated_discount_evaluation"
    by (simp add: workflow_accepted_def cart_updated_discount_evaluation_def)
  moreover have "\<not> workflow_accepted checkout_upsell_suggestion"
    by (simp add: workflow_accepted_def checkout_upsell_suggestion_def)
  moreover have "\<not> workflow_accepted order_paid_holiday_notification"
    by (simp add: workflow_accepted_def order_paid_holiday_notification_def)
  ultimately show ?thesis
    by (simp add: holiday_discount_workflows_def validate_workflow_definition_def
        workflow_findings_verdict)
qed


section \<open>What the seed loader lets through\<close>

text \<open>The shape every loaded document has.\<close>

definition seed_document_ok :: "json \<Rightarrow> bool" where
  "seed_document_ok d \<longleftrightarrow>
     (case d of
        JObj kvs \<Rightarrow>
          obj_get kvs ''schemaVersion'' = Some (JStr ''bpcp.workflow.v1'') \<and>
          list_all (\<lambda>field. obj_get kvs field \<noteq> None) required_fields \<and>
          (case obj_get kvs ''actions'' of Some (JArr as) \<Rightarrow> as \<noteq> [] | _ \<Rightarrow> False)
      | _ \<Rightarrow> False)"

lemma assert_workflow_definition_Inr:
  "assert_workflow_definition shown v path = Inr d \<longleftrightarrow> d = v \<and> seed_document_ok v"
  by (cases v)
    (auto simp: assert_workflow_definition_def seed_document_ok_def Let_def filter_empty_conv
      list_all_iff split: option.splits json.splits list.splits if_splits)

lemma load_files_Inr:
  "load_files fs shown dir files = Inr ds \<Longrightarrow>
   length ds = length files \<and> list_all seed_document_ok ds"
  by (induction files arbitrary: ds)
    (auto simp: Let_def assert_workflow_definition_Inr split: sum.splits)

text \<open>
  When the seed directory loads, every file with the seed suffix contributed exactly
  one document, and every document is an object with the expected schema version, all
  required fields and at least one action; anything else is an error at boot.
\<close>

theorem seed_load_checked:
  assumes "load_workflows_from_directory fs shown (Some dir) = Inr ds" and "dir \<noteq> []"
  shows "length ds = length (filter (ends_with seed_suffix) (sh_readdir fs dir)) \<and>
         list_all seed_document_ok ds"
proof -
  have "load_files fs shown dir (sort (filter (ends_with seed_suffix) (sh_readdir fs dir))) = Inr ds"
    using assms by (simp add: load_workflows_from_directory_def split: if_splits)
  then show ?thesis using load_files_Inr by fastforce
qed

definition sample_seed :: json where
  "sample_seed = JObj
     [(''schemaVersion'', JStr ''bpcp.workflow.v1''), (''workflowId'', JStr ''watch''),
      (''version'', JNum (Fin 1)), (''status'', JStr ''draft''), (''description'', JStr ''d''),
      (''appliesToProcessRefs'', JArr []), (''trigger'', JObj []), (''actions'', JArr [JObj []]),
      (''requiredCapabilities'', JArr []), (''missingRuntimeFacts'', JArr [])]"

definition sample_seed_host :: seed_host where
  "sample_seed_host =
     \<lparr>sh_exists = (\<lambda>d. d = ''seeds''),
      sh_readdir = (\<lambda>d. [''watch.workflow.json'', ''README.md'']),
      sh_join = (\<lambda>d f. d @ ''/'' @ f),
      sh_readJson = (\<lambda>p. if p = ''seeds/watch.workflow.json'' then Inr sample_seed
                        else Inl ''unexpected token'')\<rparr>"

lemma sample_seed_loads:
  "load_workflows_from_directory sample_seed_host (\<lambda>_. []) (Some ''seeds'') = Inr [sample_seed]"
proof -
  have "assert_workflow_definition (\<lambda>_. []) sample_seed p = Inr sample_seed" for p
    unfolding assert_workflow_definition_Inr
    by (simp add: seed_document_ok_def sample_seed_def required_fields_def)
  then show ?thesis
    by (simp add: load_workflows_from_directory_def sample_seed_host_def ends_with_def
        starts_with_def seed_suffix_def Let_def)
qed

lemma seed_load_checked_witness:
  "length [sample_seed] =
     length (filter (ends_with seed_suffix) (sh_readdir sample_seed_host ''seeds'')) \<and>
   list_all seed_document_ok [sample_seed]"
  by (rule seed_load_checked[OF sample_seed_loads]) simp

end
