(* ===== verification/Instances.thy ===== *)
theory Instances
  imports Workflow Outbox
begin

text \<open>
  Workflow instances and their repository: \<open>src/src/instances/instance.types.ts\<close>, the
  three entities and \<open>instance-repository.service.ts\<close>. The state is the three tables,
  the log of HTTP requests sent and the number of clock readings taken; a transaction that
  fails restores the tables only. Columns that no code reads (\<open>stepId\<close>,
  \<open>startedAt\<close>, \<open>updatedAt\<close>) are left out.
\<close>

section \<open>Data\<close>

datatype instance_status = Running | Waiting | Completed | InstFailed | Cancelled

fun instance_status_text :: "instance_status \<Rightarrow> string" where
  "instance_status_text Running = ''running''"
| "instance_status_text Waiting = ''waiting''"
| "instance_status_text Completed = ''completed''"
| "instance_status_text InstFailed = ''failed''"
| "instance_status_text Cancelled = ''cancelled''"

datatype step_status = StepPending | StepRunning | StepSucceeded | StepFailed | StepSkipped

record instance_error =
  ie_actionId :: string
  ie_code :: string
  ie_message :: string
  ie_permanent :: bool
  ie_context :: "json_object option"
  ie_occurredAt :: string

record wait_descriptor =
  wx_actionId :: string
  wx_signalName :: string
  wx_waitingSince :: string
  wx_timeoutAt :: "string option"
  wx_onTimeout :: on_timeout

record instance_row =
  in_instanceId :: string
  in_workflowId :: string
  in_workflowVersion :: int
  in_correlationKey :: string
  in_status :: instance_status
  in_currentState :: "string option"
  in_context :: json_object
  in_wait :: "wait_descriptor option"
  in_lastError :: "instance_error option"
  in_createdAt :: db_time

record step_row =
  sp_instanceId :: string
  sp_actionId :: string
  sp_status :: step_status
  sp_attempts :: int
  sp_output :: "json option"
  sp_error :: "instance_error option"
  sp_finishedAt :: "instant option"

record signal_row =
  sg_signalId :: string
  sg_instanceId :: string
  sg_name :: string
  sg_payload :: json_object
  sg_receivedAt :: db_time
  sg_consumedAt :: "db_time option"

text \<open>A request of the action dispatcher: the URL, the headers and the members of its body.\<close>

record http_request =
  rq_url :: string
  rq_headers :: "(string \<times> string) list"
  rq_actionId :: string
  rq_parameters :: "json_object option"
  rq_context :: json_object

record instance_db =
  idb_instances :: "instance_row list"
  idb_steps :: "step_row list"
  idb_signals :: "signal_row list"
  idb_requests :: "http_request list"
  idb_ticks :: nat

text \<open>
  The clock of the process: \<open>clock n\<close> is its \<open>n\<close>-th reading.
\<close>

type_synonym process_clock = "nat \<Rightarrow> instant"

definition read_clock :: "process_clock \<Rightarrow> (instance_db, instant) op" where
  "read_clock clock s = (Inr (clock (idb_ticks s)), s\<lparr>idb_ticks := Suc (idb_ticks s)\<rparr>)"

definition inst_transaction :: "(instance_db, 'a) op \<Rightarrow> (instance_db, 'a) op" where
  "inst_transaction m s =
     (case m s of
        (Inr x, s') \<Rightarrow> (Inr x, s')
      | (Inl e, s') \<Rightarrow> (Inl e, s\<lparr>idb_requests := idb_requests s', idb_ticks := idb_ticks s'\<rparr>))"

definition modify :: "('s \<Rightarrow> 's) \<Rightarrow> ('s, unit) op" where
  "modify f s = (Inr (), f s)"

declare modify_def [effect_simps]


section \<open>Lookups\<close>

definition find_by_id :: "string \<Rightarrow> instance_db \<Rightarrow> instance_row option" where
  "find_by_id i s = find (\<lambda>r. in_instanceId r = i) (idb_instances s)"

definition find_by_correlation :: "string \<Rightarrow> string \<Rightarrow> instance_db \<Rightarrow> instance_row option" where
  "find_by_correlation w k s =
     find (\<lambda>r. in_workflowId r = w \<and> in_correlationKey r = k) (idb_instances s)"

text \<open>An absent or empty filter selects everything; the newest instance comes first.\<close>

definition list_instances :: "string option \<Rightarrow> string option \<Rightarrow> instance_db \<Rightarrow> instance_row list" where
  "list_instances correlationKey status s =
     sort_key (\<lambda>r. - in_createdAt r)
       (filter (\<lambda>r. matches_filter correlationKey (in_correlationKey r) \<and>
                  matches_filter status (instance_status_text (in_status r))) (idb_instances s))"

definition find_steps :: "string \<Rightarrow> instance_db \<Rightarrow> step_row list" where
  "find_steps i s = filter (\<lambda>r. sp_instanceId r = i) (idb_steps s)"


section \<open>Updates\<close>

definition update_instance ::
  "string \<Rightarrow> (instance_row \<Rightarrow> instance_row) \<Rightarrow> instance_db \<Rightarrow> instance_db" where
  "update_instance i f s =
     s\<lparr>idb_instances := patch_rows (\<lambda>r. in_instanceId r = i) f (idb_instances s)\<rparr>"

definition update_step ::
  "string \<Rightarrow> string \<Rightarrow> (step_row \<Rightarrow> step_row) \<Rightarrow> instance_db \<Rightarrow> instance_db" where
  "update_step i actionId f s =
     s\<lparr>idb_steps := patch_rows (\<lambda>r. sp_instanceId r = i \<and> sp_actionId r = actionId) f (idb_steps s)\<rparr>"

record create_instance_input =
  ci_workflowId :: string
  ci_workflowVersion :: int
  ci_correlationKey :: string
  ci_actionIds :: "string list"
  ci_context :: "json_object option"

definition insert_instance :: "instance_row \<Rightarrow> (instance_db, instance_row) op" where
  "insert_instance r s =
     (case insert_row ''uq_instance_workflow_correlation''
             (\<lambda>a b. in_workflowId a = in_workflowId b \<and> in_correlationKey a = in_correlationKey b)
             r (idb_instances s) of
        Inl e \<Rightarrow> (Inl e, s)
      | Inr rows \<Rightarrow> (Inr r, s\<lparr>idb_instances := rows\<rparr>))"

definition same_step :: "step_row \<Rightarrow> step_row \<Rightarrow> bool" where
  "same_step a b \<longleftrightarrow> sp_instanceId a = sp_instanceId b \<and> sp_actionId a = sp_actionId b"

definition pending_step :: "string \<Rightarrow> string \<Rightarrow> step_row" where
  "pending_step i actionId =
     \<lparr>sp_instanceId = i, sp_actionId = actionId, sp_status = StepPending, sp_attempts = 0,
      sp_output = None, sp_error = None, sp_finishedAt = None\<rparr>"

fun insert_steps :: "string \<Rightarrow> string list \<Rightarrow> (instance_db, unit) op" where
  "insert_steps i [] s = (Inr (), s)"
| "insert_steps i (a # as) s =
     (case insert_row ''uq_step_instance_action'' same_step (pending_step i a) (idb_steps s) of
        Inl e \<Rightarrow> (Inl e, s)
      | Inr rows \<Rightarrow> insert_steps i as (s\<lparr>idb_steps := rows\<rparr>))"

definition new_instance :: "string \<Rightarrow> db_time \<Rightarrow> create_instance_input \<Rightarrow> instance_row" where
  "new_instance newId dbnow input =
     \<lparr>in_instanceId = newId, in_workflowId = ci_workflowId input,
      in_workflowVersion = ci_workflowVersion input, in_correlationKey = ci_correlationKey input,
      in_status = Running, in_currentState = None,
      in_context = (case ci_context input of None \<Rightarrow> [] | Some c \<Rightarrow> c),
      in_wait = None, in_lastError = None, in_createdAt = dbnow\<rparr>"

definition create_if_absent ::
  "string \<Rightarrow> db_time \<Rightarrow> create_instance_input \<Rightarrow> (instance_db, instance_row \<times> bool) op" where
  "create_if_absent newId dbnow input =
     inst_transaction
       (and_then (read_state (find_by_correlation (ci_workflowId input) (ci_correlationKey input)))
         (\<lambda>existing.
          case existing of
            Some r \<Rightarrow> ret (r, False)
          | None \<Rightarrow>
              and_then (insert_instance (new_instance newId dbnow input)) (\<lambda>saved.
              and_then (insert_steps (in_instanceId saved) (ci_actionIds input)) (\<lambda>_.
              ret (saved, True)))))"

text \<open>
  The signal row references its instance: for an unknown instance the insert violates the
  foreign key.
\<close>

definition record_signal ::
  "string \<Rightarrow> db_time \<Rightarrow> string \<Rightarrow> string \<Rightarrow> json_object \<Rightarrow> (instance_db, signal_row) op" where
  "record_signal newId dbnow i name payload s =
     (if find_by_id i s = None
      then (Inl (ForeignKeyViolation ''bpcp_instance_signal_instanceId_fkey''), s)
      else
        let r = \<lparr>sg_signalId = newId, sg_instanceId = i, sg_name = name, sg_payload = payload,
                 sg_receivedAt = dbnow, sg_consumedAt = None\<rparr>
        in (Inr r, s\<lparr>idb_signals := idb_signals s @ [r]\<rparr>))"

definition with_locked_instance ::
  "string \<Rightarrow> (instance_row \<Rightarrow> (instance_db, 'a) op) \<Rightarrow> (instance_db, 'a) op" where
  "with_locked_instance i f =
     inst_transaction
       (and_then (read_state (find_by_id i)) (\<lambda>found.
          case found of
            None \<Rightarrow> throw (InstanceNotFoundError i)
          | Some r \<Rightarrow> f r))"

text \<open>\<open>Array.isArray(raw[0]) ? raw[0] : raw\<close>, for either shape of a result.\<close>

fun unwrap_rows :: "'row raw list \<Rightarrow> 'row list" where
  "unwrap_rows (RawRows rs # _) = rs"
| "unwrap_rows (RawRow r # raws) = r # unwrap_rows raws"
| "unwrap_rows _ = []"

definition open_signals :: "string \<Rightarrow> string \<Rightarrow> instance_db \<Rightarrow> signal_row list" where
  "open_signals i name s =
     sort_key sg_receivedAt
       (filter (\<lambda>r. sg_instanceId r = i \<and> sg_name r = name \<and> sg_consumedAt r = None) (idb_signals s))"

definition claim_signal ::
  "(signal_row list \<Rightarrow> signal_row raw list) \<Rightarrow> db_time \<Rightarrow> string \<Rightarrow> string \<Rightarrow>
   (instance_db, signal_row option) op" where
  "claim_signal returning dbnow i name s =
     (case open_signals i name s of
        [] \<Rightarrow> (Inr (case unwrap_rows (returning []) of [] \<Rightarrow> None | r # _ \<Rightarrow> Some r), s)
      | c # _ \<Rightarrow>
          (let hit = (\<lambda>r. sg_signalId r = sg_signalId c);
               rows = patch_rows hit (\<lambda>r. r\<lparr>sg_consumedAt := Some dbnow\<rparr>) (idb_signals s)
           in (Inr (case unwrap_rows (returning (filter hit rows)) of [] \<Rightarrow> None | r # _ \<Rightarrow> Some r),
               s\<lparr>idb_signals := rows\<rparr>)))"

text \<open>
  The waits past their deadline. The cast of the stored text to a timestamp is the
  database's (\<open>None\<close> where it rejects the text, which fails the whole query).
\<close>

definition find_expired_waits ::
  "(string \<Rightarrow> instant option) \<Rightarrow> instant \<Rightarrow> instance_db \<Rightarrow> error + instance_row list" where
  "find_expired_waits as_timestamp now s =
     (let candidates = filter (\<lambda>r. in_status r = Waiting \<and>
            (case in_wait r of None \<Rightarrow> False | Some w \<Rightarrow> wx_timeoutAt w \<noteq> None)) (idb_instances s);
          deadline = (\<lambda>r. as_timestamp (the (wx_timeoutAt (the (in_wait r)))))
      in if list_ex (\<lambda>r. deadline r = None) candidates
         then Inl (PlainError ''invalid input syntax for type timestamp with time zone'')
         else Inr (filter (\<lambda>r. the (deadline r) \<le> now) candidates))"

definition wait_timeout_error :: "string \<Rightarrow> instant \<Rightarrow> instance_error" where
  "wait_timeout_error actionId now =
     \<lparr>ie_actionId = actionId, ie_code = ''WAIT_TIMEOUT'',
      ie_message = ''wait on '' @ actionId @ '' expired'', ie_permanent = True,
      ie_context = None, ie_occurredAt = iso_render now\<rparr>"

definition fail_wait_timeout ::
  "process_clock \<Rightarrow> string \<Rightarrow> string \<Rightarrow> (instance_db, unit) op" where
  "fail_wait_timeout clock i actionId =
     and_then (read_clock clock) (\<lambda>now.
       let err = wait_timeout_error actionId now in
       inst_transaction
         (and_then (read_clock clock) (\<lambda>finishedAt.
          and_then (modify (update_step i actionId
             (\<lambda>r. r\<lparr>sp_status := StepFailed, sp_error := Some err,
                    sp_finishedAt := Some finishedAt\<rparr>))) (\<lambda>_.
          modify (update_instance i
             (\<lambda>r. r\<lparr>in_status := InstFailed, in_lastError := Some err, in_wait := None\<rparr>))))))"

definition cancel_instance :: "string \<Rightarrow> (instance_db, instance_row option) op" where
  "cancel_instance i =
     with_locked_instance i (\<lambda>r.
       if in_status r = Completed \<or> in_status r = InstFailed then ret (Some r)
       else and_then (modify (update_instance i (\<lambda>r. r\<lparr>in_status := Cancelled, in_wait := None\<rparr>)))
              (\<lambda>_. read_state (find_by_id i)))"

end
