(* ===== verification/Dispatcher.thy ===== *)
theory Dispatcher
  imports Instances Transport
begin

text \<open>
  The action dispatcher: \<open>src/src/instances/action-dispatcher.service.ts\<close>. The
  environment and the answers of the network (the \<open>n\<close>-th request sent gets the answer
  \<open>net n\<close>) are parameters.
\<close>

definition max_attempts :: int where
  "max_attempts = 3"


section \<open>References to the environment\<close>

definition is_name_start :: "char \<Rightarrow> bool" where
  "is_name_start c \<longleftrightarrow>
     (let n = (of_char c :: nat) in (65 \<le> n \<and> n \<le> 90) \<or> (97 \<le> n \<and> n \<le> 122) \<or> n = 95)"

definition is_name_char :: "char \<Rightarrow> bool" where
  "is_name_char c \<longleftrightarrow> is_name_start c \<or> is_digit c"

definition env_open :: string where
  "env_open = ''${env:''"

text \<open>A match of the pattern at the start of a string: the name and what follows it.\<close>

definition match_env_ref :: "string \<Rightarrow> (string \<times> string) option" where
  "match_env_ref s =
     (if starts_with env_open s
      then
        let t = drop (length env_open) s; name = takeWhile is_name_char t; r = dropWhile is_name_char t
        in if name \<noteq> [] \<and> is_name_start (hd name) \<and> r \<noteq> [] \<and> hd r = CHR ''}''
           then Some (name, tl r) else None
      else None)"

lemma match_env_ref_shorter: "match_env_ref s = Some (name, r) \<Longrightarrow> length r < length s"
proof -
  assume m: "match_env_ref s = Some (name, r)"
  let ?t = "drop (length env_open) s"
  have r: "r = tl (dropWhile is_name_char ?t)" and ne: "dropWhile is_name_char ?t \<noteq> []"
    using m by (auto simp: match_env_ref_def Let_def split: if_splits)
  have "length (dropWhile is_name_char ?t) \<le> length s"
    by (metis diff_le_self length_drop length_dropWhile_le order_trans)
  moreover have "0 < length (dropWhile is_name_char ?t)" using ne by simp
  ultimately show "length r < length s" unfolding r length_tl by linarith
qed

definition unset_variable :: "string \<Rightarrow> error" where
  "unset_variable name =
     PlainError (''workflow parameter references environment variable '' @ name @ '', which is not set'')"

definition env_value :: "environment \<Rightarrow> string \<Rightarrow> error + string" where
  "env_value env name =
     (case env name of
        None \<Rightarrow> Inl (unset_variable name)
      | Some v \<Rightarrow> if v = [] then Inl (unset_variable name) else Inr v)"

function resolve_env_references :: "environment \<Rightarrow> string \<Rightarrow> error + string" where
  "resolve_env_references env [] = Inr []"
| "resolve_env_references env (c # s) =
     (case match_env_ref (c # s) of
        Some (name, rest) \<Rightarrow>
          (case env_value env name of
             Inl e \<Rightarrow> Inl e
           | Inr v \<Rightarrow> map_sum id (\<lambda>r. v @ r) (resolve_env_references env rest))
      | None \<Rightarrow> map_sum id (\<lambda>r. c # r) (resolve_env_references env s))"
  by pat_completeness auto
termination
  by (relation "measure (length \<circ> snd)") (auto dest: match_env_ref_shorter)


section \<open>Headers and body\<close>

fun resolve_header_entries ::
  "environment \<Rightarrow> string \<Rightarrow> json_object \<Rightarrow> error + (string \<times> string) list" where
  "resolve_header_entries env actionId [] = Inr []"
| "resolve_header_entries env actionId ((name, value) # entries) =
     (case value of
        JStr v \<Rightarrow>
          (case resolve_env_references env v of
             Inl e \<Rightarrow> Inl e
           | Inr v' \<Rightarrow>
               map_sum id (\<lambda>hs. (name, v') # hs) (resolve_header_entries env actionId entries))
      | _ \<Rightarrow> Inl (PlainError (''action \"'' @ actionId @ ''\" header \"'' @ name @ ''\" is not a string'')))"

definition resolve_headers ::
  "environment \<Rightarrow> workflow_action \<Rightarrow> error + (string \<times> string) list" where
  "resolve_headers env action =
     (case opt_get (wa_parameters action) ''headers'' of
        None \<Rightarrow> Inr []
      | Some (JObj entries) \<Rightarrow> resolve_header_entries env (wa_actionId action) entries
      | Some _ \<Rightarrow> Inl (PlainError (''action \"'' @ wa_actionId action @
            ''\" has a headers parameter that is not an object'')))"

definition body_parameters :: "workflow_action \<Rightarrow> json_object option" where
  "body_parameters action = map_option (obj_delete ''headers'') (wa_parameters action)"


section \<open>Execution\<close>

text \<open>
  An answer of the network: the request fails, or a response arrives with a status, the
  outcome of reading its text and the outcome of reading it as JSON.
\<close>

datatype http_answer = NetworkError string | Response int "string + string" "string + json"

definition response_ok :: "int \<Rightarrow> bool" where
  "response_ok status \<longleftrightarrow> 200 \<le> status \<and> status \<le> 299"

definition permanent_status :: "int \<Rightarrow> bool" where
  "permanent_status status \<longleftrightarrow> status \<ge> 400 \<and> status < 500 \<and> status \<noteq> 429"

definition mk_error ::
  "process_clock \<Rightarrow> workflow_action \<Rightarrow> string \<Rightarrow> string \<Rightarrow> bool \<Rightarrow> json_object option \<Rightarrow>
   (instance_db, instance_error) op" where
  "mk_error clock action code message permanent context =
     and_then (read_clock clock) (\<lambda>now.
       ret \<lparr>ie_actionId = wa_actionId action, ie_code = code, ie_message = message,
            ie_permanent = permanent, ie_context = context, ie_occurredAt = iso_render now\<rparr>)"

definition misconfigured ::
  "process_clock \<Rightarrow> workflow_action \<Rightarrow> string \<Rightarrow> (instance_db, instance_error + json) op" where
  "misconfigured clock action message =
     and_then (mk_error clock action ''ACTION_MISCONFIGURED'' message True None) (\<lambda>e. ret (Inl e))"

definition js_ms :: "instant \<Rightarrow> json" where
  "js_ms t = JNum (Fin (of_int t))"

definition transport_error ::
  "process_clock \<Rightarrow> workflow_action \<Rightarrow> string \<Rightarrow> instant \<Rightarrow> string \<Rightarrow>
   (instance_db, instance_error + json) op" where
  "transport_error clock action url startedAt message =
     and_then (read_clock clock) (\<lambda>now.
     and_then (mk_error clock action ''ACTION_TRANSPORT_ERROR'' message False
                 (Some [(''url'', JStr url), (''durationMs'', js_ms (now - startedAt))])) (\<lambda>e.
     ret (Inl e)))"

definition http_error ::
  "process_clock \<Rightarrow> workflow_action \<Rightarrow> string \<Rightarrow> instant \<Rightarrow> int \<Rightarrow> string \<Rightarrow>
   (instance_db, instance_error + json) op" where
  "http_error clock action url startedAt status body =
     and_then (read_clock clock) (\<lambda>now.
     and_then (mk_error clock action ''ACTION_HTTP_ERROR'' (''action '' @ wa_actionId action @ '' failed'')
                 (permanent_status status)
                 (Some [(''url'', JStr url), (''status'', js_ms status), (''body'', JStr body),
                        (''durationMs'', js_ms (now - startedAt))])) (\<lambda>e.
     ret (Inl e)))"

definition send_request ::
  "(nat \<Rightarrow> http_request \<Rightarrow> http_answer) \<Rightarrow> http_request \<Rightarrow> (instance_db, http_answer) op" where
  "send_request net rq s =
     (Inr (net (length (idb_requests s)) rq), s\<lparr>idb_requests := idb_requests s @ [rq]\<rparr>)"

definition action_request ::
  "workflow_action \<Rightarrow> json_object \<Rightarrow> string \<Rightarrow> (string \<times> string) list \<Rightarrow> http_request" where
  "action_request action context url headers =
     \<lparr>rq_url = url, rq_headers = obj_spread [(''content-type'', ''application/json'')] headers,
      rq_actionId = wa_actionId action, rq_parameters = body_parameters action,
      rq_context = context\<rparr>"

definition perform ::
  "(nat \<Rightarrow> http_request \<Rightarrow> http_answer) \<Rightarrow> process_clock \<Rightarrow> workflow_action \<Rightarrow> http_request \<Rightarrow>
   (instance_db, instance_error + json) op" where
  "perform net clock action rq =
     and_then (read_clock clock) (\<lambda>startedAt.
     and_then (send_request net rq) (\<lambda>answer.
       case answer of
         NetworkError m \<Rightarrow> transport_error clock action (rq_url rq) startedAt m
       | Response status text json \<Rightarrow>
           if \<not> response_ok status
           then (case text of
                   Inl m \<Rightarrow> transport_error clock action (rq_url rq) startedAt m
                 | Inr body \<Rightarrow> http_error clock action (rq_url rq) startedAt status body)
           else (case json of
                   Inl m \<Rightarrow> transport_error clock action (rq_url rq) startedAt m
                 | Inr output \<Rightarrow>
                     and_then (read_clock clock) (\<lambda>_. ret (Inr output)))))"

definition error_message :: "error \<Rightarrow> string" where
  "error_message e =
     (case e of
        ConflictException m \<Rightarrow> m | NotFoundException m \<Rightarrow> m | BadRequestException m \<Rightarrow> m
      | UnauthorizedException m \<Rightarrow> m | PlainError m \<Rightarrow> m | RangeError m \<Rightarrow> m | TypeError m \<Rightarrow> m
      | InstanceNotFoundError i \<Rightarrow> ''workflow instance not found: '' @ i
      | UniqueViolation m \<Rightarrow> m | ForeignKeyViolation m \<Rightarrow> m)"

definition execute ::
  "environment \<Rightarrow> (nat \<Rightarrow> http_request \<Rightarrow> http_answer) \<Rightarrow> process_clock \<Rightarrow> workflow_action \<Rightarrow>
   json_object \<Rightarrow> (instance_db, instance_error + json) op" where
  "execute env net clock action context =
     (case opt_get (wa_parameters action) ''url'' of
        Some (JStr (c # rawUrl)) \<Rightarrow>
          (case resolve_env_references env (c # rawUrl) of
             Inl e \<Rightarrow> misconfigured clock action (error_message e)
           | Inr url \<Rightarrow>
               (case resolve_headers env action of
                  Inl e \<Rightarrow> misconfigured clock action (error_message e)
                | Inr headers \<Rightarrow>
                    perform net clock action (action_request action context url headers)))
      | _ \<Rightarrow> misconfigured clock action ''action has no url parameter'')"



section \<open>The outcome of an execution\<close>

text \<open>The request an action leads to, when it is configured.\<close>

definition request_of :: "environment \<Rightarrow> workflow_action \<Rightarrow> json_object \<Rightarrow> http_request option" where
  "request_of env action context =
     (case opt_get (wa_parameters action) ''url'' of
        Some (JStr (c # rawUrl)) \<Rightarrow>
          (case (resolve_env_references env (c # rawUrl), resolve_headers env action) of
             (Inr url, Inr headers) \<Rightarrow> Some (action_request action context url headers)
           | _ \<Rightarrow> None)
      | _ \<Rightarrow> None)"

definition answer_output :: "http_answer \<Rightarrow> json option" where
  "answer_output answer =
     (case answer of
        Response status text (Inr j) \<Rightarrow> if response_ok status then Some j else None
      | _ \<Rightarrow> None)"

definition answer_permanent :: "http_answer \<Rightarrow> bool" where
  "answer_permanent answer =
     (case answer of Response status (Inr body) j \<Rightarrow> permanent_status status | _ \<Rightarrow> False)"

definition outcome_matches :: "workflow_action \<Rightarrow> http_answer \<Rightarrow> instance_error + json \<Rightarrow> bool" where
  "outcome_matches action answer res \<longleftrightarrow>
     (case res of
        Inr output \<Rightarrow> answer_output answer = Some output
      | Inl err \<Rightarrow>
          answer_output answer = None \<and> ie_permanent err = answer_permanent answer \<and>
          ie_actionId err = wa_actionId action)"

lemma misconfigured_eq:
  "misconfigured clock action m s =
     (Inr (Inl \<lparr>ie_actionId = wa_actionId action, ie_code = ''ACTION_MISCONFIGURED'', ie_message = m,
        ie_permanent = True, ie_context = None, ie_occurredAt = iso_render (clock (idb_ticks s))\<rparr>),
      s\<lparr>idb_ticks := Suc (idb_ticks s)\<rparr>)"
  by (simp add: misconfigured_def mk_error_def and_then_def read_clock_def ret_def)

lemma permanent_not_ok: "permanent_status st \<Longrightarrow> \<not> response_ok st"
  by (simp add: permanent_status_def response_ok_def)

lemma perform_outcome:
  "\<exists>res s'. perform net clock action rq s = (Inr res, s') \<and>
     idb_requests s' = idb_requests s @ [rq] \<and>
     outcome_matches action (net (length (idb_requests s)) rq) res"
proof (cases "net (length (idb_requests s)) rq")
  case (NetworkError m)
  then show ?thesis
    by (simp add: perform_def transport_error_def mk_error_def and_then_def read_clock_def ret_def
        send_request_def outcome_matches_def answer_output_def answer_permanent_def)
next
  case (Response st content j)
  then show ?thesis
    by (cases content; cases j;
      auto simp: perform_def transport_error_def http_error_def mk_error_def and_then_def
        read_clock_def ret_def send_request_def outcome_matches_def answer_output_def
        answer_permanent_def dest: permanent_not_ok)
qed

lemma execute_result:
  "case execute env net clock action ctx s of
     (Inl e, s') \<Rightarrow> False
   | (Inr res, s') \<Rightarrow>
       (case request_of env action ctx of
          None \<Rightarrow>
            idb_requests s' = idb_requests s \<and>
            (case res of Inr output \<Rightarrow> False
             | Inl err \<Rightarrow> ie_permanent err \<and> ie_code err = ''ACTION_MISCONFIGURED'')
        | Some rq \<Rightarrow>
            idb_requests s' = idb_requests s @ [rq] \<and> rq_context rq = ctx \<and>
            opt_get (rq_parameters rq) ''headers'' = None \<and>
            outcome_matches action (net (length (idb_requests s)) rq) res)"
proof (cases "request_of env action ctx")
  case None
  then show ?thesis
    by (auto simp: request_of_def execute_def misconfigured_eq
        split: option.splits json.splits list.splits sum.splits)
next
  case (Some rq)
  then have ex: "execute env net clock action ctx = perform net clock action rq"
    and rq: "\<exists>url headers. rq = action_request action ctx url headers"
    by (auto simp: request_of_def execute_def split: option.splits json.splits list.splits sum.splits)
  have body: "rq_context rq = ctx" "opt_get (rq_parameters rq) ''headers'' = None"
    using rq by (cases "wa_parameters action"; auto simp: action_request_def body_parameters_def)+
  obtain res s' where "perform net clock action rq s = (Inr res, s')"
      "idb_requests s' = idb_requests s @ [rq]"
      "outcome_matches action (net (length (idb_requests s)) rq) res"
    using perform_outcome by blast
  then show ?thesis by (simp add: ex Some body)
qed

text \<open>
  What substitution means, apart from the code's scanner: the longest run of references
  and single characters, left to right, each reference \<open>${env:NAME}\<close> giving way to the
  value of a variable that is set and not empty.
\<close>

definition env_letters :: string where
  "env_letters = ''ABCDEFGHIJKLMNOPQRSTUVWXYZabcdefghijklmnopqrstuvwxyz_''"

definition env_name :: "string \<Rightarrow> bool" where
  "env_name name \<longleftrightarrow> name \<noteq> [] \<and> hd name \<in> set env_letters \<and>
     set name \<subseteq> set env_letters \<union> set ''0123456789''"

definition env_reference :: "string \<Rightarrow> string" where
  "env_reference name = ''${env:'' @ name @ ''}''"

inductive substituted :: "environment \<Rightarrow> string \<Rightarrow> string \<Rightarrow> bool" for env where
  substituted_end: "substituted env [] []"
| substituted_ref: "env_name name \<Longrightarrow> env name = Some v \<Longrightarrow> v \<noteq> [] \<Longrightarrow> substituted env s t \<Longrightarrow>
    substituted env (env_reference name @ s) (v @ t)"
| substituted_char: "\<nexists>name r. env_name name \<and> c # s = env_reference name @ r \<Longrightarrow>
    substituted env s t \<Longrightarrow> substituted env (c # s) (c # t)"

lemma char_between:
  assumes "b \<le> 256"
  shows "c \<in> set (map char_of [a..<b]) \<longleftrightarrow> a \<le> (of_char c :: nat) \<and> (of_char c :: nat) < b"
proof
  assume "a \<le> (of_char c :: nat) \<and> (of_char c :: nat) < b"
  then have "(of_char c :: nat) \<in> set [a..<b]" by simp
  then have "char_of (of_char c :: nat) \<in> set (map char_of [a..<b])" by (simp only: set_map imageI)
  then show "c \<in> set (map char_of [a..<b])" by simp
qed (use assms in auto)

lemma is_name_start_iff: "is_name_start c \<longleftrightarrow> c \<in> set env_letters"
proof -
  have l: "map char_of [65..<91::nat] = ''ABCDEFGHIJKLMNOPQRSTUVWXYZ''"
      "map char_of [97..<123::nat] = ''abcdefghijklmnopqrstuvwxyz''"
      "map char_of [95..<96::nat] = ''_''"
    by code_simp+
  have b: "(91 :: nat) \<le> 256" "(123 :: nat) \<le> 256" "(96 :: nat) \<le> 256" by simp_all
  have "is_name_start c \<longleftrightarrow> c \<in> set (map char_of [65..<91::nat]) \<or>
      c \<in> set (map char_of [97..<123::nat]) \<or> c \<in> set (map char_of [95..<96::nat])"
    unfolding char_between[of 91 c 65, OF b(1)] char_between[of 123 c 97, OF b(2)]
      char_between[of 96 c 95, OF b(3)] is_name_start_def Let_def by auto
  moreover have e: "env_letters = ''ABCDEFGHIJKLMNOPQRSTUVWXYZ'' @ ''abcdefghijklmnopqrstuvwxyz'' @ ''_''"
    by (simp add: env_letters_def)
  ultimately show ?thesis unfolding l e set_append by blast
qed

lemma is_name_char_iff: "is_name_char c \<longleftrightarrow> c \<in> set env_letters \<union> set ''0123456789''"
proof -
  have d: "map char_of [48..<58::nat] = ''0123456789''" by code_simp
  have b: "(58 :: nat) \<le> 256" by simp
  have "is_digit c \<longleftrightarrow> c \<in> set (map char_of [48..<58::nat])"
    unfolding char_between[of 58 c 48, OF b] is_digit_def Let_def by auto
  then show ?thesis unfolding d is_name_char_def is_name_start_iff by blast
qed

lemma env_name_iff: "env_name name \<longleftrightarrow> name \<noteq> [] \<and> is_name_start (hd name) \<and> list_all is_name_char name"
  by (auto simp: env_name_def is_name_start_iff is_name_char_iff list_all_iff subset_iff)

lemma match_env_ref_iff:
  "match_env_ref s = Some (name, r) \<longleftrightarrow> env_name name \<and> s = env_reference name @ r"
proof
  assume m: "match_env_ref s = Some (name, r)"
  let ?t = "drop (length env_open) s"
  have s: "s = env_open @ ?t" and n: "name = takeWhile is_name_char ?t"
    and r: "r = tl (dropWhile is_name_char ?t)" and h: "dropWhile is_name_char ?t \<noteq> []"
      "hd (dropWhile is_name_char ?t) = CHR ''}''" and ok: "name \<noteq> []" "is_name_start (hd name)"
    using m by (auto simp: match_env_ref_def Let_def starts_with_iff split: if_splits)
  have "?t = name @ CHR ''}'' # r"
    unfolding n r using h by (metis list.collapse takeWhile_dropWhile_id)
  moreover have "list_all is_name_char name"
    unfolding n by (auto simp: list_all_iff dest: set_takeWhileD)
  ultimately show "env_name name \<and> s = env_reference name @ r"
    using s ok by (simp add: env_name_iff env_reference_def env_open_def)
next
  assume "env_name name \<and> s = env_reference name @ r"
  then have ok: "name \<noteq> []" "is_name_start (hd name)" "\<forall>c \<in> set name. is_name_char c"
    and s: "s = env_open @ name @ CHR ''}'' # r"
    by (auto simp: env_name_iff env_reference_def env_open_def list_all_iff)
  have "\<not> is_name_char (CHR ''}'')"
    by (simp add: is_name_char_def is_name_start_def is_digit_def)
  then have "takeWhile is_name_char (name @ CHR ''}'' # r) = name"
    "dropWhile is_name_char (name @ CHR ''}'' # r) = CHR ''}'' # r"
    using ok(3) by (simp_all add: takeWhile_append2 dropWhile_append2)
  with ok s show "match_env_ref s = Some (name, r)"
    by (simp add: match_env_ref_def starts_with_iff Let_def \<open>\<not> is_name_char (CHR ''}'')\<close>)
qed

lemma env_value_Inr: "env_value env name = Inr v \<longleftrightarrow> env name = Some v \<and> v \<noteq> []"
  by (auto simp: env_value_def split: option.splits)

lemma substitutedI:
  "resolve_env_references env s = Inr t \<Longrightarrow> substituted env s t"
proof (induction env s arbitrary: t rule: resolve_env_references.induct)
  case (2 env c s)
  show ?case
  proof (cases "match_env_ref (c # s)")
    case None
    then have none: "\<nexists>name r. env_name name \<and> c # s = env_reference name @ r"
      using match_env_ref_iff[of "c # s"] by auto
    obtain t' where t: "t = c # t'" and t': "resolve_env_references env s = Inr t'"
      using 2(3) None by (cases "resolve_env_references env s") auto
    show ?thesis unfolding t by (rule substituted_char[OF none]) (rule 2(1)[OF None t'])
  next
    case (Some m)
    obtain name r where m: "m = (name, r)" by (cases m)
    obtain v t' where v: "env_value env name = Inr v" and t: "t = v @ t'"
        and t': "resolve_env_references env r = Inr t'"
      using 2(3) Some m by (cases "env_value env name"; cases "resolve_env_references env r") auto
    have "substituted env r t'" using 2(2)[OF Some m[symmetric] v t'] .
    moreover have "env_name name" "c # s = env_reference name @ r"
      using Some m match_env_ref_iff by auto
    ultimately show ?thesis
      using v unfolding t env_value_Inr by (metis substituted_ref)
  qed
qed (simp add: substituted_end)

lemma substitutedD: "substituted env s t \<Longrightarrow> resolve_env_references env s = Inr t"
proof (induction rule: substituted.induct)
  case (substituted_ref name v s t)
  obtain c u where cu: "env_reference name @ s = c # u" by (simp add: env_reference_def)
  moreover have "match_env_ref (c # u) = Some (name, s)"
    using substituted_ref(1) by (simp add: match_env_ref_iff flip: cu)
  ultimately show ?case
    using substituted_ref by (simp add: env_value_Inr[THEN iffD2])
next
  case (substituted_char c s t)
  then have "match_env_ref (c # s) = None"
    using match_env_ref_iff[of "c # s"] by (cases "match_env_ref (c # s)") auto
  with substituted_char show ?case by simp
qed simp

lemma resolve_iff_substituted: "resolve_env_references env s = Inr t \<longleftrightarrow> substituted env s t"
  using substitutedI substitutedD by blast

text \<open>An action that is configured, with its address and its own headers.\<close>

definition header_resolved :: "environment \<Rightarrow> string \<times> json \<Rightarrow> string \<times> string \<Rightarrow> bool" where
  "header_resolved env entry header \<longleftrightarrow> fst entry = fst header \<and>
     (\<exists>raw. snd entry = JStr raw \<and> substituted env raw (snd header))"

definition configured ::
  "environment \<Rightarrow> workflow_action \<Rightarrow> string \<Rightarrow> (string \<times> string) list \<Rightarrow> bool" where
  "configured env action url headers \<longleftrightarrow>
     (\<exists>parameters raw. wa_parameters action = Some parameters \<and>
        obj_get parameters ''url'' = Some (JStr raw) \<and> raw \<noteq> [] \<and> substituted env raw url \<and>
        (obj_get parameters ''headers'' = None \<and> headers = [] \<or>
         (\<exists>entries. obj_get parameters ''headers'' = Some (JObj entries) \<and>
            list_all2 (header_resolved env) entries headers)))"

lemma map_sum_Inr_iff: "map_sum id f x = Inr y \<longleftrightarrow> (\<exists>z. x = Inr z \<and> y = f z)"
  by (cases x) auto

lemma resolve_header_entries_iff:
  "resolve_header_entries env i entries = Inr headers \<longleftrightarrow>
   list_all2 (header_resolved env) entries headers"
proof (induction entries arbitrary: headers)
  case Nil
  show ?case by auto
next
  case (Cons e entries)
  obtain name v where e: "e = (name, v)" by (cases e)
  show ?case
    using Cons.IH
    by (auto simp: e list_all2_Cons1 header_resolved_def resolve_iff_substituted[symmetric]
        map_sum_Inr_iff split: json.splits sum.splits)
qed

lemma configured_iff:
  "request_of env action context = Some rq \<longleftrightarrow>
   (\<exists>url headers. configured env action url headers \<and> rq = action_request action context url headers)"
proof (cases "wa_parameters action")
  case (Some parameters)
  have h: "resolve_headers env action = Inr headers \<longleftrightarrow>
      obj_get parameters ''headers'' = None \<and> headers = [] \<or>
      (\<exists>entries. obj_get parameters ''headers'' = Some (JObj entries) \<and>
         list_all2 (header_resolved env) entries headers)" for headers
    by (auto simp: resolve_headers_def Some resolve_header_entries_iff split: option.splits json.splits)
  have "request_of env action context = Some rq \<longleftrightarrow>
     (\<exists>raw url headers. obj_get parameters ''url'' = Some (JStr raw) \<and> raw \<noteq> [] \<and>
        resolve_env_references env raw = Inr url \<and> resolve_headers env action = Inr headers \<and>
        rq = action_request action context url headers)"
    by (auto simp: request_of_def Some split: option.splits json.splits list.splits sum.splits)
  then show ?thesis by (auto simp: configured_def Some h resolve_iff_substituted)
qed (simp add: request_of_def configured_def)

text \<open>
  What each answer should lead to: the JSON of a 2xx answer is the output; an answer that
  does not arrive or cannot be read is a failure that may be retried; any other status is
  a failure, permanent for the statuses from 400 to 499 except 429.
\<close>

definition fails_with :: "workflow_action \<Rightarrow> string \<Rightarrow> string \<Rightarrow> bool \<Rightarrow> instance_error + json \<Rightarrow> bool" where
  "fails_with action code message permanent res \<longleftrightarrow>
     (\<exists>err. res = Inl err \<and> ie_actionId err = wa_actionId action \<and> ie_code err = code \<and>
        ie_message err = message \<and> ie_permanent err = permanent)"

fun answered :: "workflow_action \<Rightarrow> http_answer \<Rightarrow> instance_error + json \<Rightarrow> bool" where
  "answered action (NetworkError m) res \<longleftrightarrow> fails_with action ''ACTION_TRANSPORT_ERROR'' m False res"
| "answered action (Response status body json) res \<longleftrightarrow>
     (if status \<in> {200..299}
      then (case json of
              Inr output \<Rightarrow> res = Inr output
            | Inl m \<Rightarrow> fails_with action ''ACTION_TRANSPORT_ERROR'' m False res)
      else (case body of
              Inl m \<Rightarrow> fails_with action ''ACTION_TRANSPORT_ERROR'' m False res
            | Inr _ \<Rightarrow> fails_with action ''ACTION_HTTP_ERROR''
                (''action '' @ wa_actionId action @ '' failed'')
                (status \<in> {400..499} \<and> status \<noteq> 429) res))"

lemma perform_answered:
  "\<exists>res s'. perform net clock action rq s = (Inr res, s') \<and>
     idb_requests s' = idb_requests s @ [rq] \<and> answered action (net (length (idb_requests s)) rq) res"
proof (cases "net (length (idb_requests s)) rq")
  case (NetworkError m)
  then show ?thesis
    by (simp add: perform_def transport_error_def mk_error_def and_then_def read_clock_def ret_def
        send_request_def fails_with_def)
next
  case (Response st content j)
  then show ?thesis
    by (cases content; cases j;
      auto simp: perform_def transport_error_def http_error_def mk_error_def and_then_def
        read_clock_def ret_def send_request_def fails_with_def response_ok_def permanent_status_def)
qed

text \<open>
  C25. Executing an action always returns a result. An action whose parameters have no
  usable URL, whose headers are not an object of texts, or which refers to an environment
  variable that is unset or empty, sends nothing and fails permanently with
  \<open>ACTION_MISCONFIGURED\<close>. Any other action sends exactly one request, to the URL and with
  the headers in which every reference is substituted, echoing its parameters without the
  headers; and its result follows the answer: output for a 2xx status with a JSON body, a
  retryable \<open>ACTION_TRANSPORT_ERROR\<close> when no answer arrives or it cannot be read, otherwise
  \<open>ACTION_HTTP_ERROR\<close>, permanent exactly for the statuses from 400 to 499 except 429.
\<close>

theorem execute_outcome:
  "\<exists>res s'. execute env net clock action ctx s = (Inr res, s') \<and>
     (if \<exists>url headers. configured env action url headers
      then \<exists>rq url headers. configured env action url headers \<and>
             rq_url rq = url \<and>
             rq_headers rq = obj_spread [(''content-type'', ''application/json'')] headers \<and>
             rq_actionId rq = wa_actionId action \<and> rq_context rq = ctx \<and>
             (\<forall>k. opt_get (rq_parameters rq) k =
                (if k = ''headers'' then None else opt_get (wa_parameters action) k)) \<and>
             idb_requests s' = idb_requests s @ [rq] \<and>
             answered action (net (length (idb_requests s)) rq) res
      else idb_requests s' = idb_requests s \<and>
           (\<exists>message. fails_with action ''ACTION_MISCONFIGURED'' message True res))"
proof (cases "request_of env action ctx")
  case None
  then have "\<nexists>url headers. configured env action url headers"
    using configured_iff[of env action ctx] by auto
  moreover have "\<exists>m. execute env net clock action ctx s = misconfigured clock action m s"
    using None by (auto simp: request_of_def execute_def
        split: option.splits json.splits list.splits sum.splits)
  ultimately show ?thesis by (auto simp: misconfigured_eq fails_with_def)
next
  case (Some rq)
  then obtain url headers where c: "configured env action url headers"
    and rq: "rq = action_request action ctx url headers"
    using configured_iff by blast
  have ex: "execute env net clock action ctx = perform net clock action rq"
    using Some by (auto simp: request_of_def execute_def
        split: option.splits json.splits list.splits sum.splits)
  have "opt_get (rq_parameters rq) k =
      (if k = ''headers'' then None else opt_get (wa_parameters action) k)" for k
    by (cases "wa_parameters action") (simp_all add: rq action_request_def body_parameters_def)
  moreover obtain res s' where "perform net clock action rq s = (Inr res, s')"
      "idb_requests s' = idb_requests s @ [rq]" "answered action (net (length (idb_requests s)) rq) res"
    using perform_answered by blast
  ultimately show ?thesis
    using c unfolding ex
    by (intro exI[of _ res] exI[of _ s']) (auto simp: rq action_request_def)
qed


text \<open>A string without the opening of a reference is sent as it is.\<close>

lemma resolve_plain: "\<not> js_includes env_open s \<Longrightarrow> resolve_env_references env s = Inr s"
proof (induction s)
  case (Cons c s)
  then have "match_env_ref (c # s) = None" by (simp add: match_env_ref_def)
  with Cons show ?case by simp
qed simp

end
