(* ===== verification/Executor.thy ===== *)
theory Executor
  imports Dispatcher
begin

text \<open>
  The workflow executor: \<open>src/src/instances/workflow-executor.service.ts\<close>. The loop
  \<open>while (progressed)\<close> is given fuel; \<open>walk_enough_fuel\<close> in ExecutorProperties shows
  that one round more than the workflow has actions is always enough.
\<close>

text \<open>What the executor runs in: registry, environment, network, driver, clocks.\<close>

record exec_env =
  xe_workflows :: workflow_map
  xe_env :: environment
  xe_net :: "nat \<Rightarrow> http_request \<Rightarrow> http_answer"
  xe_clock :: process_clock
  xe_returning :: "signal_row list \<Rightarrow> signal_row raw list"
  xe_dbnow :: db_time


section \<open>The steps as the walker sees them\<close>

record step_view =
  sv_status :: step_status
  sv_attempts :: int

type_synonym step_map = "(string \<times> step_view) list"

definition step_map_of :: "step_row list \<Rightarrow> step_map" where
  "step_map_of rows =
     fold (\<lambda>r m. obj_set (sp_actionId r) \<lparr>sv_status = sp_status r, sv_attempts = sp_attempts r\<rparr> m) rows []"

definition status_of :: "step_map \<Rightarrow> string \<Rightarrow> step_status option" where
  "status_of m a = map_option sv_status (obj_get m a)"

definition dependencies_met :: "workflow_action \<Rightarrow> step_map \<Rightarrow> bool" where
  "dependencies_met action m \<longleftrightarrow>
     list_all (\<lambda>dep. status_of m dep = Some StepSucceeded)
       (case wa_dependsOn action of None \<Rightarrow> [] | Some ds \<Rightarrow> ds)"

definition is_done :: "step_status option \<Rightarrow> bool" where
  "is_done st \<longleftrightarrow> st = Some StepSucceeded \<or> st = Some StepSkipped"

definition set_status :: "string \<Rightarrow> step_status \<Rightarrow> step_map \<Rightarrow> step_map" where
  "set_status a st m =
     (case obj_get m a of None \<Rightarrow> m | Some v \<Rightarrow> obj_set a (v\<lparr>sv_status := st\<rparr>) m)"


section \<open>Reaching a wait\<close>

text \<open>
  \<open>timeoutMs ? new Date(Date.now() + timeoutMs).toISOString() : null\<close>; the time value is
  truncated to an integer and clipped, and an invalid date throws.
\<close>

definition deadline_text :: "instant \<Rightarrow> js_number \<Rightarrow> error + string" where
  "deadline_text now ms =
     (case js_add (Fin (of_int now)) ms of
        Fin q \<Rightarrow> iso_or_throw (rat_trunc q)
      | _ \<Rightarrow> Inl (RangeError ''Invalid time value''))"

definition timeout_at :: "exec_env \<Rightarrow> js_number option \<Rightarrow> (instance_db, string option) op" where
  "timeout_at xe ms =
     (case ms of
        None \<Rightarrow> ret None
      | Some n \<Rightarrow>
          and_then (read_clock (xe_clock xe)) (\<lambda>now.
          and_then (lift_result (deadline_text now n)) (\<lambda>t. ret (Some t))))"

definition start_waiting ::
  "exec_env \<Rightarrow> string \<Rightarrow> workflow_action \<Rightarrow> wait_parameters \<Rightarrow> (instance_db, unit) op" where
  "start_waiting xe i action params =
     and_then (read_clock (xe_clock xe)) (\<lambda>now.
     and_then (timeout_at xe (wp_timeoutMs params)) (\<lambda>timeoutAt.
     modify (update_instance i (\<lambda>r. r\<lparr>in_status := Waiting,
       in_currentState := Some (wa_actionId action),
       in_wait := Some \<lparr>wx_actionId = wa_actionId action, wx_signalName = wp_signalName params,
         wx_waitingSince = iso_render now, wx_timeoutAt = timeoutAt,
         wx_onTimeout = wp_onTimeout params\<rparr>\<rparr>))))"

definition resume_from ::
  "exec_env \<Rightarrow> string \<Rightarrow> workflow_action \<Rightarrow> signal_row \<Rightarrow> (instance_db, unit) op" where
  "resume_from xe i action signal =
     and_then (read_clock (xe_clock xe)) (\<lambda>finishedAt.
     and_then (modify (update_step i (wa_actionId action) (\<lambda>r. r\<lparr>sp_status := StepSucceeded,
        sp_output := Some (JObj [(''signal'', JStr (sg_name signal)), (''payload'', JObj (sg_payload signal))]),
        sp_finishedAt := Some finishedAt\<rparr>))) (\<lambda>_.
     modify (update_instance i (\<lambda>r. r\<lparr>in_status := Running, in_wait := None\<rparr>))))"


section \<open>Running an action\<close>

definition succeed_step :: "exec_env \<Rightarrow> string \<Rightarrow> string \<Rightarrow> json \<Rightarrow> (instance_db, unit) op" where
  "succeed_step xe i a output =
     and_then (read_clock (xe_clock xe)) (\<lambda>finishedAt.
     modify (update_step i a (\<lambda>r. r\<lparr>sp_status := StepSucceeded, sp_output := Some output,
       sp_finishedAt := Some finishedAt\<rparr>)))"

definition fail_instance ::
  "exec_env \<Rightarrow> string \<Rightarrow> string \<Rightarrow> int \<Rightarrow> instance_error \<Rightarrow> (instance_db, unit) op" where
  "fail_instance xe i a attempts err =
     and_then (read_clock (xe_clock xe)) (\<lambda>finishedAt.
     and_then (modify (update_step i a (\<lambda>r. r\<lparr>sp_status := StepFailed, sp_attempts := attempts,
        sp_error := Some err, sp_finishedAt := Some finishedAt\<rparr>))) (\<lambda>_.
     modify (update_instance i (\<lambda>r. r\<lparr>in_status := InstFailed, in_currentState := Some a,
        in_lastError := Some err, in_wait := None\<rparr>))))"

text \<open>One action of the inner loop: it is passed over, it makes progress, or the walk halts.\<close>

datatype action_outcome = PassedOver | Progressed step_map | Halted

definition wait_action ::
  "exec_env \<Rightarrow> string \<Rightarrow> workflow_action \<Rightarrow> step_map \<Rightarrow> (instance_db, action_outcome) op" where
  "wait_action xe i action m =
     and_then (lift_result (read_wait_parameters action)) (\<lambda>params.
     and_then (claim_signal (xe_returning xe) (xe_dbnow xe) i (wp_signalName params)) (\<lambda>found.
       case found of
         None \<Rightarrow> and_then (start_waiting xe i action params) (\<lambda>_. ret Halted)
       | Some signal \<Rightarrow>
           and_then (resume_from xe i action signal) (\<lambda>_.
           ret (Progressed (set_status (wa_actionId action) StepSucceeded m)))))"

definition call_action ::
  "exec_env \<Rightarrow> string \<Rightarrow> json_object \<Rightarrow> workflow_action \<Rightarrow> step_view \<Rightarrow> step_map \<Rightarrow>
   (instance_db, action_outcome) op" where
  "call_action xe i context action step m =
     and_then (execute (xe_env xe) (xe_net xe) (xe_clock xe) action context) (\<lambda>outcome.
       case outcome of
         Inr output \<Rightarrow>
           and_then (succeed_step xe i (wa_actionId action) output) (\<lambda>_.
           ret (Progressed (set_status (wa_actionId action) StepSucceeded m)))
       | Inl err \<Rightarrow>
           (let attempts = sv_attempts step + 1; exhausted = (attempts \<ge> max_attempts)
            in if ie_permanent err \<or> exhausted
               then and_then (fail_instance xe i (wa_actionId action) attempts err) (\<lambda>_. ret Halted)
               else
                 and_then (modify (update_step i (wa_actionId action)
                    (\<lambda>r. r\<lparr>sp_attempts := attempts, sp_error := Some err\<rparr>))) (\<lambda>_. ret Halted)))"

definition visit_action ::
  "exec_env \<Rightarrow> string \<Rightarrow> json_object \<Rightarrow> workflow_action \<Rightarrow> step_map \<Rightarrow> (instance_db, action_outcome) op" where
  "visit_action xe i context action m =
     (case obj_get m (wa_actionId action) of
        None \<Rightarrow> ret PassedOver
      | Some step \<Rightarrow>
          if is_done (Some (sv_status step)) then ret PassedOver
          else if \<not> dependencies_met action m then ret PassedOver
          else if is_wait_for_signal action then wait_action xe i action m
          else call_action xe i context action step m)"


section \<open>The loops\<close>

text \<open>The inner loop: \<open>None\<close> when it returned, else whether it progressed and the steps.\<close>

fun pass_actions ::
  "exec_env \<Rightarrow> string \<Rightarrow> json_object \<Rightarrow> workflow_action list \<Rightarrow> bool \<Rightarrow> step_map \<Rightarrow>
   (instance_db, (bool \<times> step_map) option) op" where
  "pass_actions xe i context [] progressed m = ret (Some (progressed, m))"
| "pass_actions xe i context (action # actions) progressed m =
     and_then (visit_action xe i context action m) (\<lambda>outcome.
       case outcome of
         PassedOver \<Rightarrow> pass_actions xe i context actions progressed m
       | Progressed m' \<Rightarrow> pass_actions xe i context actions True m'
       | Halted \<Rightarrow> ret None)"

datatype walk_end = WalkHalted | WalkDone step_map | OutOfFuel

fun walk ::
  "nat \<Rightarrow> exec_env \<Rightarrow> string \<Rightarrow> json_object \<Rightarrow> workflow_action list \<Rightarrow> step_map \<Rightarrow>
   (instance_db, walk_end) op" where
  "walk 0 xe i context actions m = ret OutOfFuel"
| "walk (Suc fuel) xe i context actions m =
     and_then (pass_actions xe i context actions False m) (\<lambda>r.
       case r of
         None \<Rightarrow> ret WalkHalted
       | Some (progressed, m') \<Rightarrow>
           if progressed then walk fuel xe i context actions m' else ret (WalkDone m'))"

definition complete_instance :: "string \<Rightarrow> (instance_db, unit) op" where
  "complete_instance i =
     modify (update_instance i (\<lambda>r. r\<lparr>in_status := Completed, in_currentState := None, in_wait := None\<rparr>))"

definition finish_walk ::
  "string \<Rightarrow> workflow_action list \<Rightarrow> walk_end \<Rightarrow> (instance_db, instance_row option) op" where
  "finish_walk i actions w =
     (case w of
        WalkDone m \<Rightarrow>
          and_then (if list_all (\<lambda>a. is_done (status_of m (wa_actionId a))) actions
                    then complete_instance i else ret ())
            (\<lambda>_. read_state (find_by_id i))
      | _ \<Rightarrow> read_state (find_by_id i))"

definition terminal :: "instance_status \<Rightarrow> bool" where
  "terminal st \<longleftrightarrow> st = Completed \<or> st = InstFailed \<or> st = Cancelled"

definition advance_locked ::
  "exec_env \<Rightarrow> string \<Rightarrow> instance_row \<Rightarrow> (instance_db, instance_row option) op" where
  "advance_locked xe i inst =
     (if terminal (in_status inst) then ret (Some inst)
      else
        and_then (lift_result (get_workflow (xe_workflows xe) (in_workflowId inst) (in_workflowVersion inst)))
          (\<lambda>definition.
        and_then (read_state (find_steps i)) (\<lambda>steps.
        and_then (walk (Suc (length (wd_actions definition))) xe i (in_context inst)
                    (wd_actions definition) (step_map_of steps))
          (finish_walk i (wd_actions definition)))))"

definition advance :: "exec_env \<Rightarrow> string \<Rightarrow> (instance_db, instance_row option) op" where
  "advance xe i = with_locked_instance i (advance_locked xe i)"

record start_input =
  st_workflowId :: string
  st_workflowVersion :: int
  st_correlationKey :: string
  st_context :: "json_object option"

definition start_instance ::
  "exec_env \<Rightarrow> string \<Rightarrow> start_input \<Rightarrow> (instance_db, instance_row option) op" where
  "start_instance xe newId input =
     and_then (lift_result (get_workflow (xe_workflows xe) (st_workflowId input) (st_workflowVersion input)))
       (\<lambda>definition.
     and_then (create_if_absent newId (xe_dbnow xe)
        \<lparr>ci_workflowId = st_workflowId input, ci_workflowVersion = st_workflowVersion input,
         ci_correlationKey = st_correlationKey input,
         ci_actionIds = map wa_actionId (wd_actions definition), ci_context = st_context input\<rparr>)
       (\<lambda>(inst, created).
          if \<not> created then ret (Some inst) else advance xe (in_instanceId inst)))"

definition deliver_signal ::
  "exec_env \<Rightarrow> string \<Rightarrow> string \<Rightarrow> string \<Rightarrow> json_object \<Rightarrow> (instance_db, instance_row option) op" where
  "deliver_signal xe newId i name payload =
     and_then (record_signal newId (xe_dbnow xe) i name payload) (\<lambda>_. advance xe i)"


section \<open>The timeout sweep\<close>

record sweep_result =
  sw_examined :: nat
  sw_failed :: nat
  sw_continued :: nat

text \<open>
  One expired instance: what it adds to the counters. An exception is logged and counted
  nowhere; \<open>newId\<close> is the id of the signal row that may be written.
\<close>

definition sweep_one ::
  "exec_env \<Rightarrow> string \<Rightarrow> instance_row \<Rightarrow> instance_db \<Rightarrow> (nat \<times> nat) \<times> instance_db" where
  "sweep_one xe newId inst s =
     (case in_wait inst of
        None \<Rightarrow> ((0, 0), s)
      | Some w \<Rightarrow>
          if wx_onTimeout w = OnTimeoutContinue
          then (case deliver_signal xe newId (in_instanceId inst) (wx_signalName w)
                       [(''timedOut'', JBool True)] s of
                  (Inr _, s') \<Rightarrow> ((0, 1), s') | (Inl _, s') \<Rightarrow> ((0, 0), s'))
          else (case fail_wait_timeout (xe_clock xe) (in_instanceId inst) (wx_actionId w) s of
                  (Inr _, s') \<Rightarrow> ((1, 0), s') | (Inl _, s') \<Rightarrow> ((0, 0), s')))"

fun sweep_all ::
  "exec_env \<Rightarrow> (nat \<Rightarrow> string) \<Rightarrow> instance_row list \<Rightarrow> instance_db \<Rightarrow> (nat \<times> nat) \<times> instance_db" where
  "sweep_all xe ids [] s = ((0, 0), s)"
| "sweep_all xe ids (inst # rest) s =
     (let ((f, c), s') = sweep_one xe (ids (length rest)) inst s;
          ((fs, cs), s'') = sweep_all xe ids rest s'
      in ((f + fs, c + cs), s''))"

definition sweep ::
  "exec_env \<Rightarrow> (string \<Rightarrow> instant option) \<Rightarrow> (nat \<Rightarrow> string) \<Rightarrow> instant \<Rightarrow> (instance_db, sweep_result) op" where
  "sweep xe as_timestamp ids now s =
     (case find_expired_waits as_timestamp now s of
        Inl e \<Rightarrow> (Inl e, s)
      | Inr expired \<Rightarrow>
          (let ((failed, continued), s') = sweep_all xe ids expired s
           in (Inr \<lparr>sw_examined = length expired, sw_failed = failed, sw_continued = continued\<rparr>, s')))"

end
