(* ===== verification/ExecutorProperties.thy ===== *)
theory ExecutorProperties
  imports Executor
begin

text \<open>
  The properties of workflow execution. First the frame of each operation (which tables it
  may touch), then the walk over the actions, then the properties of \<open>advance\<close>,
  \<open>start\<close>, signal delivery and the timeout sweep.
\<close>

section \<open>Operations that stay within a relation\<close>

text \<open>
  \<open>keeps R m\<close>: whatever the outcome of \<open>m\<close>, the states before and after it are
  related. For a preorder this is closed under sequencing.
\<close>

definition keeps :: "('s \<Rightarrow> 's \<Rightarrow> bool) \<Rightarrow> ('s, 'a) op \<Rightarrow> bool" where
  "keeps R m \<longleftrightarrow> (\<forall>s. R s (snd (m s)))"

lemma keepsD: "keeps R m \<Longrightarrow> m s = (r, s') \<Longrightarrow> R s s'"
  by (auto simp: keeps_def dest: spec[of _ s])

locale state_preorder =
  fixes R :: "'s \<Rightarrow> 's \<Rightarrow> bool"
  assumes refl: "R s s" and trans: "R s t \<Longrightarrow> R t u \<Longrightarrow> R s u"
begin

lemma keeps_pure: "keeps R (ret x)" "keeps R (throw e)" "keeps R (lift_result r)"
  "keeps R (read_state f)"
  by (simp_all add: keeps_def ret_def throw_def lift_result_def read_state_def refl)

lemma keeps_then: "keeps R m \<Longrightarrow> (\<And>x. keeps R (f x)) \<Longrightarrow> keeps R (and_then m f)"
proof (unfold keeps_def, rule allI)
  fix s
  assume m: "\<forall>s. R s (snd (m s))" and f: "\<And>x. \<forall>s. R s (snd (f x s))"
  obtain r s1 where eq: "m s = (r, s1)" by fastforce
  then have "R s s1" using m by (metis snd_conv)
  moreover have "R s1 (snd (f x s1))" for x using f by blast
  ultimately show "R s (snd (and_then m f s))"
    using eq by (cases r) (auto simp: and_then_def intro: trans)
qed

lemmas keeps_rules = keeps_pure keeps_then

end

text \<open>Only the request log and the clock may move: what the dispatcher may do.\<close>

definition tables :: "instance_db \<Rightarrow> instance_row list \<times> step_row list \<times> signal_row list" where
  "tables s = (idb_instances s, idb_steps s, idb_signals s)"

definition same_tables :: "instance_db \<Rightarrow> instance_db \<Rightarrow> bool" where
  "same_tables s s' \<longleftrightarrow> tables s' = tables s"

definition sent_by :: "string \<Rightarrow> instance_db \<Rightarrow> instance_db \<Rightarrow> bool" where
  "sent_by a s s' \<longleftrightarrow>
     (\<exists>rqs. idb_requests s' = idb_requests s @ rqs \<and> list_all (\<lambda>rq. rq_actionId rq = a) rqs)"

interpretation tables_pre: state_preorder same_tables
  by unfold_locales (simp_all add: same_tables_def)

interpretation sent_pre: state_preorder "sent_by a" for a
  by unfold_locales (auto simp: sent_by_def)

lemma read_clock_keeps [simp]:
  "keeps same_tables (read_clock c)" "keeps (sent_by a) (read_clock c)"
  by (simp_all add: keeps_def read_clock_def same_tables_def tables_def sent_by_def)

lemma mk_error_keeps [simp]:
  "keeps same_tables (mk_error c action code msg p ctx)"
  "keeps (sent_by a) (mk_error c action code msg p ctx)"
  unfolding mk_error_def
  by (intro tables_pre.keeps_rules sent_pre.keeps_rules read_clock_keeps)+

lemma error_keeps [simp]:
  "keeps same_tables (misconfigured c action msg)" "keeps (sent_by a) (misconfigured c action msg)"
  "keeps same_tables (transport_error c action u t m)" "keeps (sent_by a) (transport_error c action u t m)"
  "keeps same_tables (http_error c action u t st b)" "keeps (sent_by a) (http_error c action u t st b)"
  unfolding misconfigured_def transport_error_def http_error_def
  by (intro tables_pre.keeps_rules sent_pre.keeps_rules read_clock_keeps mk_error_keeps)+

lemma send_request_keeps [simp]:
  "keeps same_tables (send_request net rq)" "rq_actionId rq = a \<Longrightarrow> keeps (sent_by a) (send_request net rq)"
  by (auto simp: keeps_def send_request_def same_tables_def tables_def sent_by_def)

lemma perform_keeps:
  "keeps same_tables (perform net c action rq)"
  "rq_actionId rq = a \<Longrightarrow> keeps (sent_by a) (perform net c action rq)"
  unfolding perform_def
  by (auto intro!: tables_pre.keeps_rules sent_pre.keeps_rules split: http_answer.splits sum.splits)

lemma execute_keeps:
  "keeps same_tables (execute env net c action ctx)"
  "keeps (sent_by (wa_actionId action)) (execute env net c action ctx)"
  unfolding execute_def
  by (auto intro!: perform_keeps simp: action_request_def split: option.splits json.splits list.splits sum.splits)

lemma execute_frame:
  assumes "execute env net c action ctx s = (r, s')"
  shows "idb_instances s' = idb_instances s" "idb_steps s' = idb_steps s"
    "idb_signals s' = idb_signals s" "sent_by (wa_actionId action) s s'"
  using keepsD[OF execute_keeps(1) assms] keepsD[OF execute_keeps(2) assms]
  by (simp_all add: same_tables_def tables_def)


section \<open>The walk ends\<close>

lemma status_of_set_status:
  "obj_get m a \<noteq> None \<Longrightarrow> status_of (set_status a st m) b = (if b = a then Some st else status_of m b)"
  by (auto simp: status_of_def set_status_def)

definition open_count :: "step_map \<Rightarrow> workflow_action list \<Rightarrow> nat" where
  "open_count m actions = length (filter (\<lambda>a. \<not> is_done (status_of m (wa_actionId a))) actions)"

text \<open>Later step maps have at least the same steps done.\<close>

definition done_grows :: "step_map \<Rightarrow> step_map \<Rightarrow> bool" where
  "done_grows m m' \<longleftrightarrow> (\<forall>a. is_done (status_of m a) \<longrightarrow> is_done (status_of m' a))"

lemma done_grows_refl [simp]: "done_grows m m"
  by (simp add: done_grows_def)

lemma done_grows_trans: "done_grows m m' \<Longrightarrow> done_grows m' m'' \<Longrightarrow> done_grows m m''"
  by (simp add: done_grows_def)

lemma visit_progressed:
  assumes "visit_action xe i ctx action m s = (Inr (Progressed m'), s')"
  shows "m' = set_status (wa_actionId action) StepSucceeded m"
    and "obj_get m (wa_actionId action) \<noteq> None"
    and "\<not> is_done (status_of m (wa_actionId action))" and "dependencies_met action m"
  using assms
  by (auto simp: visit_action_def ret_def status_of_def wait_action_def call_action_def Let_def
      elim!: and_then_InrE split: option.splits if_splits sum.splits)

lemma visit_progressed_done:
  assumes "visit_action xe i ctx action m s = (Inr (Progressed m'), s')"
  shows "done_grows m m'" and "is_done (status_of m' (wa_actionId action))"
  using visit_progressed[OF assms] by (auto simp: done_grows_def status_of_set_status is_done_def)

lemma pass_actions_done:
  assumes "pass_actions xe i ctx actions b m s = (Inr (Some (b', m')), s')"
  shows "done_grows m m' \<and>
    (b' \<longrightarrow> b \<or> (\<exists>a \<in> set actions. \<not> is_done (status_of m (wa_actionId a)) \<and>
                                   is_done (status_of m' (wa_actionId a))))"
  using assms
proof (induction actions arbitrary: b m s)
  case Nil
  then show ?case by (simp add: ret_def)
next
  case (Cons action actions)
  from Cons.prems obtain out s1 where visit: "visit_action xe i ctx action m s = (Inr out, s1)"
    and rest: "(case out of PassedOver \<Rightarrow> pass_actions xe i ctx actions b m
       | Progressed m' \<Rightarrow> pass_actions xe i ctx actions True m' | Halted \<Rightarrow> ret None) s1 =
      (Inr (Some (b', m')), s')"
    by (auto elim!: and_then_InrE)
  show ?case
  proof (cases out)
    case PassedOver
    with rest Cons.IH show ?thesis by fastforce
  next
    case (Progressed m1)
    note p = visit_progressed[OF visit[unfolded Progressed]] visit_progressed_done[OF visit[unfolded Progressed]]
    have "done_grows m1 m'" using Cons.IH rest Progressed by simp
    then show ?thesis using p by (auto simp: done_grows_def)
  next
    case Halted
    with rest show ?thesis by (simp add: ret_def)
  qed
qed

lemma open_count_le: "done_grows m m' \<Longrightarrow> open_count m' actions \<le> open_count m actions"
  unfolding open_count_def done_grows_def by (induction actions) auto

lemma open_count_less:
  "done_grows m m' \<Longrightarrow> a \<in> set actions \<Longrightarrow> \<not> is_done (status_of m (wa_actionId a)) \<Longrightarrow>
   is_done (status_of m' (wa_actionId a)) \<Longrightarrow> open_count m' actions < open_count m actions"
proof (induction actions)
  case (Cons b actions)
  have "open_count m' actions \<le> open_count m actions" using Cons.prems(1) by (rule open_count_le)
  then show ?case using Cons by (auto simp: open_count_def done_grows_def)
qed simp

lemma walk_enough_fuel:
  "open_count m actions < fuel \<Longrightarrow> walk fuel xe i ctx actions m s = (Inr w, s') \<Longrightarrow> w \<noteq> OutOfFuel"
proof (induction fuel arbitrary: m s)
  case (Suc fuel)
  from Suc.prems(2) obtain r s1 where pass: "pass_actions xe i ctx actions False m s = (Inr r, s1)"
    and rest: "(case r of None \<Rightarrow> ret WalkHalted
       | Some (progressed, m') \<Rightarrow> if progressed then walk fuel xe i ctx actions m' else ret (WalkDone m')) s1 =
      (Inr w, s')"
    by (auto elim!: and_then_InrE)
  show ?case
  proof (cases r)
    case (Some p)
    then obtain b m' where p: "r = Some (b, m')" by (cases p) auto
    show ?thesis
    proof (cases b)
      case True
      then have "open_count m' actions < open_count m actions"
        using pass_actions_done[OF pass[unfolded p]] open_count_less by blast
      then show ?thesis using Suc.IH[of m' s1] Suc.prems(1) rest p True by simp
    next
      case False
      then show ?thesis using rest p by (auto simp: ret_def)
    qed
  next
    case None
    then show ?thesis using rest by (auto simp: ret_def)
  qed
qed simp

lemma walk_has_fuel:
  "fst (walk (Suc (length actions)) xe i context actions m s) \<noteq> Inr OutOfFuel"
proof
  assume "fst (walk (Suc (length actions)) xe i context actions m s) = Inr OutOfFuel"
  then obtain s' where "walk (Suc (length actions)) xe i context actions m s = (Inr OutOfFuel, s')"
    by (metis prod.collapse)
  moreover have "open_count m actions < Suc (length actions)"
    by (simp add: open_count_def le_imp_less_Suc)
  ultimately show False using walk_enough_fuel by blast
qed

text \<open>
  C26. The executor's loop always ends: from any state, the walk over a workflow never
  needs more rounds than the workflow has actions plus one, whatever the network answers
  and whatever cycles the dependencies have.
\<close>

theorem walk_terminates:
  "fst (walk (Suc (length actions)) xe i context actions m s) \<noteq> Inr OutOfFuel"
  by (rule walk_has_fuel)


section \<open>The walker's steps and the table\<close>

definition find_step :: "string \<Rightarrow> string \<Rightarrow> instance_db \<Rightarrow> step_row option" where
  "find_step i a s = find (\<lambda>r. sp_instanceId r = i \<and> sp_actionId r = a) (idb_steps s)"

definition step_status_of :: "string \<Rightarrow> string \<Rightarrow> instance_db \<Rightarrow> step_status option" where
  "step_status_of i a s = map_option sp_status (find_step i a s)"

definition view_of :: "step_row \<Rightarrow> step_view" where
  "view_of r = \<lparr>sv_status = sp_status r, sv_attempts = sp_attempts r\<rparr>"

definition synced :: "string \<Rightarrow> step_map \<Rightarrow> instance_db \<Rightarrow> bool" where
  "synced i m s \<longleftrightarrow> (\<forall>a. obj_get m a = map_option view_of (find_step i a s))"

lemma synced_status: "synced i m s \<Longrightarrow> status_of m a = step_status_of i a s"
  by (cases "find_step i a s") (simp_all add: synced_def status_of_def step_status_of_def view_of_def)

lemma find_step_cong: "idb_steps s' = idb_steps s \<Longrightarrow> find_step i a s' = find_step i a s"
  by (simp add: find_step_def)

lemma synced_cong: "idb_steps s' = idb_steps s \<Longrightarrow> synced i m s' = synced i m s"
  by (simp add: synced_def find_step_def)

lemma find_step_patch:
  assumes "\<And>r. sp_instanceId (f r) = sp_instanceId r" and "\<And>r. sp_actionId (f r) = sp_actionId r"
  shows "find (\<lambda>r. sp_instanceId r = i \<and> sp_actionId r = a)
      (patch_rows (\<lambda>r. sp_instanceId r = i \<and> sp_actionId r = b) f rows) =
    (if a = b then map_option f (find (\<lambda>r. sp_instanceId r = i \<and> sp_actionId r = a) rows)
     else find (\<lambda>r. sp_instanceId r = i \<and> sp_actionId r = a) rows)"
  using assms by (induction rows) auto

lemma obj_get_fold_steps:
  "obj_get (fold (\<lambda>r m. obj_set (sp_actionId r) \<lparr>sv_status = sp_status r, sv_attempts = sp_attempts r\<rparr> m) rows m) a =
   (case last_with sp_actionId a rows of None \<Rightarrow> obj_get m a | Some r \<Rightarrow> Some (view_of r))"
proof (induction rows arbitrary: m)
  case Nil
  then show ?case by (simp add: last_with_def)
next
  case (Cons r rows)
  then show ?case
    using last_with_append[of sp_actionId a "[r]" rows]
    by (auto simp: last_with_def view_of_def split: option.splits)
qed

definition step_key :: "step_row \<Rightarrow> string \<times> string" where
  "step_key r = (sp_instanceId r, sp_actionId r)"

lemma find_last_unique:
  "distinct (map sp_actionId rows) \<Longrightarrow> last_with sp_actionId a rows = find (\<lambda>r. sp_actionId r = a) rows"
proof (induction rows)
  case (Cons r rows)
  have "last_with sp_actionId a (r # rows) =
      (case last_with sp_actionId a rows of None \<Rightarrow> last_with sp_actionId a [r] | Some x \<Rightarrow> Some x)"
    using last_with_append[of sp_actionId a "[r]" rows] by simp
  moreover have "last_with sp_actionId a rows = None" if "sp_actionId r = a"
  proof -
    have "a \<notin> sp_actionId ` set rows" using Cons.prems that by simp
    then show ?thesis unfolding last_with_None_iff by blast
  qed
  ultimately show ?case
    using Cons by (auto simp: last_with_def split: option.splits)
qed (simp add: last_with_def)

lemma find_filter: "find p (filter q xs) = find (\<lambda>x. q x \<and> p x) xs"
  by (induction xs) auto

lemma distinct_filter_key:
  "distinct (map step_key rows) \<Longrightarrow>
   distinct (map sp_actionId (filter (\<lambda>r. sp_instanceId r = i) rows))"
  by (auto simp: distinct_map inj_on_def step_key_def)

lemma synced_start:
  "distinct (map step_key (idb_steps s)) \<Longrightarrow> synced i (step_map_of (find_steps i s)) s"
  by (simp add: synced_def step_map_of_def obj_get_fold_steps find_steps_def find_last_unique
      distinct_filter_key find_filter find_step_def split: option.splits)


section \<open>What a visit does\<close>

text \<open>The step of one action becomes succeeded, and all else of the steps stays.\<close>

definition step_succeeds :: "string \<Rightarrow> string \<Rightarrow> instance_db \<Rightarrow> instance_db \<Rightarrow> bool" where
  "step_succeeds i a s s' \<longleftrightarrow>
     (\<exists>f. (\<forall>r. step_key (f r) = step_key r \<and> sp_status (f r) = StepSucceeded \<and>
              sp_attempts (f r) = sp_attempts r) \<and>
          idb_steps s' = patch_rows (\<lambda>r. sp_instanceId r = i \<and> sp_actionId r = a) f (idb_steps s))"

lemma step_succeeds_cong:
  "idb_steps s2 = idb_steps s1 \<Longrightarrow> idb_steps s3 = idb_steps s' \<Longrightarrow>
   step_succeeds i a s2 s' \<Longrightarrow> step_succeeds i a s1 s3"
  by (simp add: step_succeeds_def)

lemma synced_step_succeeds:
  assumes "synced i m s" and "step_succeeds i a s s'" and "obj_get m a \<noteq> None"
  shows "synced i (set_status a StepSucceeded m) s'"
proof -
  obtain f where f: "\<And>r. sp_instanceId (f r) = sp_instanceId r" "\<And>r. sp_actionId (f r) = sp_actionId r"
      "\<And>r. sp_status (f r) = StepSucceeded" "\<And>r. sp_attempts (f r) = sp_attempts r"
    and s': "idb_steps s' = patch_rows (\<lambda>r. sp_instanceId r = i \<and> sp_actionId r = a) f (idb_steps s)"
    using assms(2) by (auto simp: step_succeeds_def step_key_def)
  have "find_step i b s' = (if b = a then map_option f (find_step i b s) else find_step i b s)" for b
    unfolding find_step_def s' using f(1,2) by (rule find_step_patch)
  then show ?thesis
    using assms(1,3) f(3,4)
    by (auto simp: synced_def set_status_def view_of_def split: option.splits)
qed

lemma claim_signal_frame:
  assumes "claim_signal returning t i name s = (r, s')"
  shows "idb_instances s' = idb_instances s" "idb_steps s' = idb_steps s"
    "idb_requests s' = idb_requests s"
  using assms by (auto simp: claim_signal_def Let_def split: list.splits)

lemma start_waiting_frame:
  assumes "start_waiting xe i action params s = (r, s')"
  shows "idb_steps s' = idb_steps s" "idb_requests s' = idb_requests s" "idb_signals s' = idb_signals s"
  using assms
  by (auto simp: start_waiting_def and_then_def read_clock_def timeout_at_def lift_result_def
      modify_def ret_def update_instance_def split: option.splits sum.splits)

lemma step_succeedsI:
  "idb_steps s' = patch_rows (\<lambda>r. sp_instanceId r = i \<and> sp_actionId r = a) f (idb_steps s) \<Longrightarrow>
   (\<And>r. step_key (f r) = step_key r \<and> sp_status (f r) = StepSucceeded \<and> sp_attempts (f r) = sp_attempts r) \<Longrightarrow>
   step_succeeds i a s s'"
  by (auto simp: step_succeeds_def)

lemma succeed_step_effect:
  assumes "succeed_step xe i a output s = (r, s')"
  shows "step_succeeds i a s s'" "idb_instances s' = idb_instances s"
    "idb_requests s' = idb_requests s" "idb_signals s' = idb_signals s"
  using assms
  by (auto simp: succeed_step_def and_then_def read_clock_def modify_def update_step_def
      step_key_def intro!: step_succeedsI)

lemma resume_from_effect:
  assumes "resume_from xe i action signal s = (r, s')"
  shows "step_succeeds i (wa_actionId action) s s'" "idb_requests s' = idb_requests s"
    "idb_signals s' = idb_signals s"
  using assms
  by (auto simp: resume_from_def and_then_def read_clock_def modify_def update_step_def
      update_instance_def step_key_def intro!: step_succeedsI)

lemma fail_instance_effect:
  assumes "fail_instance xe i a attempts err s = (r, s')"
  shows "b \<noteq> a \<Longrightarrow> find_step i b s' = find_step i b s" "idb_requests s' = idb_requests s"
    "idb_signals s' = idb_signals s"
  using assms
  by (auto simp: fail_instance_def and_then_def read_clock_def modify_def update_step_def
      update_instance_def find_step_def find_step_patch)

lemma execute_requests:
  assumes "execute env net c action ctx s = (Inr res, s')"
  shows "idb_requests s' = idb_requests s \<and> (\<exists>err. res = Inl err \<and> ie_permanent err) \<or>
    (\<exists>rq. idb_requests s' = idb_requests s @ [rq] \<and> rq_actionId rq = wa_actionId action)"
  using execute_result[where env = env and net = net and clock = c and action = action
      and ctx = ctx and s = s] execute_frame(4)[OF assms]
  by (auto simp: assms sent_by_def split: option.splits sum.splits)

text \<open>The two ways a visit makes progress, and the three in which it halts the walk.\<close>

lemma visit_progressedE:
  assumes "visit_action xe i ctx action m s = (Inr (Progressed m'), s')"
  obtains (resumes) params sgl s1 where "is_wait_for_signal action"
      "read_wait_parameters action = Inr params"
      "claim_signal (xe_returning xe) (xe_dbnow xe) i (wp_signalName params) s = (Inr (Some sgl), s1)"
      "resume_from xe i action sgl s1 = (Inr (), s')"
    | (calls) step out s1 where "\<not> is_wait_for_signal action"
      "obj_get m (wa_actionId action) = Some step"
      "execute (xe_env xe) (xe_net xe) (xe_clock xe) action ctx s = (Inr (Inr out), s1)"
      "succeed_step xe i (wa_actionId action) out s1 = (Inr (), s')"
proof (cases "is_wait_for_signal action")
  case True
  then have "wait_action xe i action m s = (Inr (Progressed m'), s')"
    using assms by (auto simp: visit_action_def ret_def split: option.splits if_splits)
  then show thesis
    using resumes[OF True]
    by (auto simp: wait_action_def lift_result_def ret_def elim!: and_then_InrE split: option.splits)
next
  case False
  then obtain step where "obj_get m (wa_actionId action) = Some step"
      "call_action xe i ctx action step m s = (Inr (Progressed m'), s')"
    using assms by (auto simp: visit_action_def ret_def split: option.splits if_splits)
  then show thesis
    using calls[OF False]
    by (auto simp: call_action_def Let_def ret_def elim!: and_then_InrE split: sum.splits if_splits)
qed

lemma visit_haltedE:
  assumes "visit_action xe i ctx action m s = (Inr Halted, s')"
  obtains (waits) params s1 where "is_wait_for_signal action"
      "read_wait_parameters action = Inr params"
      "claim_signal (xe_returning xe) (xe_dbnow xe) i (wp_signalName params) s = (Inr None, s1)"
      "start_waiting xe i action params s1 = (Inr (), s')"
    | (fails) step err s1 where "\<not> is_wait_for_signal action"
      "obj_get m (wa_actionId action) = Some step"
      "execute (xe_env xe) (xe_net xe) (xe_clock xe) action ctx s = (Inr (Inl err), s1)"
      "ie_permanent err \<or> max_attempts \<le> sv_attempts step + 1"
      "fail_instance xe i (wa_actionId action) (sv_attempts step + 1) err s1 = (Inr (), s')"
    | (retries) step err s1 where "\<not> is_wait_for_signal action"
      "obj_get m (wa_actionId action) = Some step"
      "execute (xe_env xe) (xe_net xe) (xe_clock xe) action ctx s = (Inr (Inl err), s1)"
      "\<not> ie_permanent err" "sv_attempts step + 1 < max_attempts"
      "s' = update_step i (wa_actionId action)
         (\<lambda>r. r\<lparr>sp_attempts := sv_attempts step + 1, sp_error := Some err\<rparr>) s1"
proof (cases "is_wait_for_signal action")
  case True
  then have "wait_action xe i action m s = (Inr Halted, s')"
    using assms by (auto simp: visit_action_def ret_def split: option.splits if_splits)
  then show thesis
    using waits[OF True]
    by (auto simp: wait_action_def lift_result_def ret_def elim!: and_then_InrE split: option.splits)
next
  case False
  then obtain step where st: "obj_get m (wa_actionId action) = Some step"
      "call_action xe i ctx action step m s = (Inr Halted, s')"
    using assms by (auto simp: visit_action_def ret_def split: option.splits if_splits)
  then obtain err s1 where ex: "execute (xe_env xe) (xe_net xe) (xe_clock xe) action ctx s = (Inr (Inl err), s1)"
    and rest: "(if ie_permanent err \<or> max_attempts \<le> sv_attempts step + 1
       then fail_instance xe i (wa_actionId action) (sv_attempts step + 1) err s1 = (Inr (), s')
       else s' = update_step i (wa_actionId action)
         (\<lambda>r. r\<lparr>sp_attempts := sv_attempts step + 1, sp_error := Some err\<rparr>) s1)"
    by (auto simp: call_action_def Let_def ret_def modify_def elim!: and_then_InrE
        split: sum.splits if_splits)
  show thesis
    using rest fails[OF False st(1) ex] retries[OF False st(1) ex] by (auto split: if_splits)
qed

text \<open>
  A visit that makes progress sends one request for its action (none for a wait), and
  marks the action's step.
\<close>

lemma visit_progressed_effect:
  assumes "visit_action xe i ctx action m s = (Inr (Progressed m'), s')"
  shows "step_succeeds i (wa_actionId action) s s'"
    and "\<exists>rqs. idb_requests s' = idb_requests s @ rqs \<and>
      (if is_wait_for_signal action then rqs = []
       else \<exists>rq. rqs = [rq] \<and> rq_actionId rq = wa_actionId action)"
proof -
  have "step_succeeds i (wa_actionId action) s s' \<and> (\<exists>rqs. idb_requests s' = idb_requests s @ rqs \<and>
      (if is_wait_for_signal action then rqs = []
       else \<exists>rq. rqs = [rq] \<and> rq_actionId rq = wa_actionId action))"
    using assms
  proof (cases rule: visit_progressedE)
    case (resumes params sgl s1)
    then show ?thesis
      using step_succeeds_cong[OF claim_signal_frame(2) HOL.refl resume_from_effect(1)]
        claim_signal_frame(3) resume_from_effect(2) by fastforce
  next
    case (calls step out s1)
    then show ?thesis
      using step_succeeds_cong[OF execute_frame(2) HOL.refl succeed_step_effect(1)]
        execute_requests[OF calls(3)] succeed_step_effect(3)[OF calls(4)] by fastforce
  qed
  then show "step_succeeds i (wa_actionId action) s s'"
    "\<exists>rqs. idb_requests s' = idb_requests s @ rqs \<and>
      (if is_wait_for_signal action then rqs = []
       else \<exists>rq. rqs = [rq] \<and> rq_actionId rq = wa_actionId action)"
    by blast+
qed

lemma visit_passed_over: "visit_action xe i ctx action m s = (Inr PassedOver, s') \<Longrightarrow> s' = s"
  by (auto simp: visit_action_def ret_def wait_action_def call_action_def Let_def
      elim!: and_then_InrE split: option.splits if_splits sum.splits)

lemma visit_not_done:
  assumes "visit_action xe i ctx action m s = (Inr out, s')" and "out \<noteq> PassedOver"
  shows "\<not> is_done (status_of m (wa_actionId action))" and "dependencies_met action m"
  using assms by (auto simp: visit_action_def ret_def status_of_def split: option.splits if_splits)

lemma retry_step_keeps:
  "b \<noteq> a \<Longrightarrow> find_step i b (update_step i a (\<lambda>r. r\<lparr>sp_attempts := n, sp_error := Some err\<rparr>) s) = find_step i b s"
  by (simp add: find_step_def update_step_def find_step_patch)

text \<open>A visit that halts the walk touches no other step, and sends at most one request.\<close>

lemma visit_halted:
  assumes "visit_action xe i ctx action m s = (Inr Halted, s')"
  shows "\<not> is_done (status_of m (wa_actionId action))" and "dependencies_met action m"
    and "b \<noteq> wa_actionId action \<Longrightarrow> find_step i b s' = find_step i b s"
    and "idb_requests s' = idb_requests s \<or>
      (\<not> is_wait_for_signal action \<and>
       (\<exists>rq. idb_requests s' = idb_requests s @ [rq] \<and> rq_actionId rq = wa_actionId action))"
proof -
  let ?a = "wa_actionId action"
  have *: "(b \<noteq> ?a \<longrightarrow> find_step i b s' = find_step i b s) \<and> (idb_requests s' = idb_requests s \<or>
      (\<not> is_wait_for_signal action \<and> (\<exists>rq. idb_requests s' = idb_requests s @ [rq] \<and> rq_actionId rq = ?a)))" for b
    using assms
  proof (cases rule: visit_haltedE)
    case (waits params s1)
    then show ?thesis using claim_signal_frame start_waiting_frame by (simp add: find_step_def)
  next
    case (fails step err s1)
    have "find_step i b s1 = find_step i b s" using execute_frame(2)[OF fails(3)] by (rule find_step_cong)
    then show ?thesis
      using execute_requests[OF fails(3)] fail_instance_effect(1,2)[OF fails(5)] fails(1) by auto
  next
    case (retries step err s1)
    have "find_step i b s1 = find_step i b s" using execute_frame(2)[OF retries(3)] by (rule find_step_cong)
    moreover have "idb_requests s' = idb_requests s1" using retries(6) by (simp add: update_step_def)
    ultimately show ?thesis
      using execute_requests[OF retries(3)] retries(1,6) retry_step_keeps by auto
  qed
  show "\<not> is_done (status_of m ?a)" "dependencies_met action m"
    using visit_not_done[OF assms] by simp_all
  show "b \<noteq> ?a \<Longrightarrow> find_step i b s' = find_step i b s"
    "idb_requests s' = idb_requests s \<or> (\<not> is_wait_for_signal action \<and>
       (\<exists>rq. idb_requests s' = idb_requests s @ [rq] \<and> rq_actionId rq = ?a))"
    using * by blast+
qed

end
