(* ===== verification/WalkProperties.thy ===== *)
theory WalkProperties
  imports ExecutorProperties
begin

text \<open>
  What a walk over the actions of a workflow achieves: an induction rule for the two nested
  loops, the requests a walk sends, and when it completes the instance.
\<close>

section \<open>Induction over the two loops\<close>

text \<open>
  \<open>P\<close> holds of the steps and the state between two visits; \<open>Q\<close> holds when a visit
  halted the walk.
\<close>

definition walk_steps ::
  "exec_env \<Rightarrow> string \<Rightarrow> json_object \<Rightarrow> workflow_action list \<Rightarrow>
   (step_map \<Rightarrow> instance_db \<Rightarrow> bool) \<Rightarrow> (instance_db \<Rightarrow> bool) \<Rightarrow> bool" where
  "walk_steps xe i ctx actions P Q \<longleftrightarrow>
     (\<forall>action \<in> set actions. \<forall>m s out s'.
        P m s \<and> visit_action xe i ctx action m s = (Inr out, s') \<longrightarrow>
        (case out of PassedOver \<Rightarrow> True | Progressed m' \<Rightarrow> P m' s' | Halted \<Rightarrow> Q s'))"

lemma walk_stepsI:
  assumes "\<And>action m s m' s'. action \<in> set actions \<Longrightarrow> P m s \<Longrightarrow>
      visit_action xe i ctx action m s = (Inr (Progressed m'), s') \<Longrightarrow> P m' s'"
    and "\<And>action m s s'. action \<in> set actions \<Longrightarrow> P m s \<Longrightarrow>
      visit_action xe i ctx action m s = (Inr Halted, s') \<Longrightarrow> Q s'"
  shows "walk_steps xe i ctx actions P Q"
  unfolding walk_steps_def
proof (intro ballI allI impI, elim conjE)
  fix action m s out s'
  assume a: "action \<in> set actions" and p: "P m s"
    and v: "visit_action xe i ctx action m s = (Inr out, s')"
  show "case out of PassedOver \<Rightarrow> True | Progressed m' \<Rightarrow> P m' s' | Halted \<Rightarrow> Q s'"
  proof (cases out)
    case (Progressed m')
    show ?thesis using assms(1)[OF a p v[unfolded Progressed]] by (simp add: Progressed)
  next
    case Halted
    show ?thesis using assms(2)[OF a p v[unfolded Halted]] by (simp add: Halted)
  qed simp
qed

lemma pass_rule:
  assumes "walk_steps xe i ctx actions P Q" and "set as \<subseteq> set actions" and "P m s"
    and "pass_actions xe i ctx as b m s = (Inr r, s')"
  shows "case r of None \<Rightarrow> Q s' | Some (b', m') \<Rightarrow> P m' s'"
  using assms(2-)
proof (induction as arbitrary: b m s)
  case Nil
  then show ?case by (auto simp: ret_def)
next
  case (Cons action as)
  from Cons.prems(3) obtain out s1 where visit: "visit_action xe i ctx action m s = (Inr out, s1)"
    and rest: "(case out of PassedOver \<Rightarrow> pass_actions xe i ctx as b m
       | Progressed m' \<Rightarrow> pass_actions xe i ctx as True m' | Halted \<Rightarrow> ret None) s1 = (Inr r, s')"
    by (auto elim!: and_then_InrE)
  have v: "case out of PassedOver \<Rightarrow> True | Progressed m' \<Rightarrow> P m' s1 | Halted \<Rightarrow> Q s1"
    using assms(1) Cons.prems(1,2) visit unfolding walk_steps_def by fastforce
  have as: "set as \<subseteq> set actions" using Cons.prems(1) by simp
  show ?case
  proof (cases out)
    case PassedOver
    then show ?thesis using Cons.IH[OF as Cons.prems(2)] rest visit_passed_over[of xe i ctx action m s s1] visit
      by simp
  qed (use Cons.IH[OF as] v rest in \<open>auto simp: ret_def\<close>)
qed

lemma pass_unprogressed:
  assumes "pass_actions xe i ctx as b m s = (Inr (Some (False, m')), s')"
  shows "m' = m \<and> s' = s \<and> \<not> b \<and>
    (\<forall>a \<in> set as. visit_action xe i ctx a m s = (Inr PassedOver, s))"
  using assms
proof (induction as arbitrary: b m s)
  case Nil
  then show ?case by (simp add: ret_def)
next
  case (Cons action as)
  from Cons.prems obtain out s1 where visit: "visit_action xe i ctx action m s = (Inr out, s1)"
    and rest: "(case out of PassedOver \<Rightarrow> pass_actions xe i ctx as b m
       | Progressed m' \<Rightarrow> pass_actions xe i ctx as True m' | Halted \<Rightarrow> ret None) s1 =
      (Inr (Some (False, m')), s')"
    by (auto elim!: and_then_InrE)
  show ?case
  proof (cases out)
    case PassedOver
    then show ?thesis using Cons.IH rest visit visit_passed_over[of xe i ctx action m s s1] by fastforce
  next
    case (Progressed m1)
    then show ?thesis using Cons.IH[of True m1 s1] rest by simp
  next
    case Halted
    then show ?thesis using rest by (simp add: ret_def)
  qed
qed

definition quiescent :: "step_map \<Rightarrow> workflow_action list \<Rightarrow> bool" where
  "quiescent m actions \<longleftrightarrow>
     list_all (\<lambda>a. obj_get m (wa_actionId a) = None \<or> is_done (status_of m (wa_actionId a)) \<or>
                \<not> dependencies_met a m) actions"

text \<open>A walk that is done has left no action that could run.\<close>

lemma visit_quiet:
  "visit_action xe i ctx a m s = (Inr PassedOver, s') \<Longrightarrow>
   obj_get m (wa_actionId a) = None \<or> is_done (status_of m (wa_actionId a)) \<or> \<not> dependencies_met a m"
  by (auto simp: visit_action_def status_of_def wait_action_def call_action_def ret_def Let_def
      elim!: and_then_InrE split: option.splits if_splits sum.splits)

lemma walk_rule:
  assumes "walk_steps xe i ctx actions P Q" and "P m s"
    and "walk fuel xe i ctx actions m s = (Inr w, s')"
  shows "case w of WalkDone m' \<Rightarrow> P m' s' \<and> quiescent m' actions | WalkHalted \<Rightarrow> Q s'
    | OutOfFuel \<Rightarrow> \<exists>m'. P m' s'"
  using assms(2-)
proof (induction fuel arbitrary: m s)
  case 0
  then show ?case by (auto simp: ret_def)
next
  case (Suc fuel)
  from Suc.prems(2) obtain r s1 where pass: "pass_actions xe i ctx actions False m s = (Inr r, s1)"
    and rest: "(case r of None \<Rightarrow> ret WalkHalted
       | Some (progressed, m') \<Rightarrow> if progressed then walk fuel xe i ctx actions m' else ret (WalkDone m')) s1 =
      (Inr w, s')"
    by (auto elim!: and_then_InrE)
  note p = pass_rule[OF assms(1) subset_refl Suc.prems(1) pass]
  show ?case
  proof (cases r)
    case None
    then show ?thesis using p rest by (auto simp: ret_def)
  next
    case (Some x)
    then obtain b m1 where x: "r = Some (b, m1)" by (cases x) auto
    show ?thesis
    proof (cases b)
      case True
      then show ?thesis using Suc.IH[of m1 s1] p rest x by simp
    next
      case False
      then have "\<forall>a \<in> set actions. visit_action xe i ctx a m1 s1 = (Inr PassedOver, s1)"
        using pass_unprogressed pass x by fastforce
      then have "quiescent m1 actions"
        unfolding quiescent_def list_all_iff using visit_quiet by blast
      then show ?thesis using p rest x False by (auto simp: ret_def)
    qed
  qed
qed


section \<open>Requests and their dependencies\<close>

text \<open>
  A request is justified in a state when it belongs to an action of the workflow, not a
  wait, all of whose dependencies have succeeded.
\<close>

definition justified :: "string \<Rightarrow> workflow_action list \<Rightarrow> instance_db \<Rightarrow> http_request \<Rightarrow> bool" where
  "justified i actions s rq \<longleftrightarrow>
     list_ex (\<lambda>a. wa_actionId a = rq_actionId rq \<and> \<not> is_wait_for_signal a \<and>
       list_all (\<lambda>dep. step_status_of i dep s = Some StepSucceeded) (opt_list (wa_dependsOn a))) actions"

definition requests_justified ::
  "string \<Rightarrow> workflow_action list \<Rightarrow> instance_db \<Rightarrow> instance_db \<Rightarrow> bool" where
  "requests_justified i actions s s' \<longleftrightarrow>
     (let new = drop (length (idb_requests s)) (idb_requests s') in
      take (length (idb_requests s)) (idb_requests s') = idb_requests s \<and>
      distinct (map rq_actionId new) \<and> list_all (justified i actions s') new)"

lemma requests_justifiedI:
  "idb_requests s' = idb_requests s @ rqs \<Longrightarrow> distinct (map rq_actionId rqs) \<Longrightarrow>
   \<forall>rq \<in> set rqs. justified i actions s' rq \<Longrightarrow> requests_justified i actions s s'"
  by (simp add: requests_justified_def list_all_iff)

definition walk_inv ::
  "string \<Rightarrow> workflow_action list \<Rightarrow> instance_db \<Rightarrow> step_map \<Rightarrow> instance_db \<Rightarrow> bool" where
  "walk_inv i actions s0 m s \<longleftrightarrow>
     synced i m s \<and>
     (\<exists>rqs. idb_requests s = idb_requests s0 @ rqs \<and> distinct (map rq_actionId rqs) \<and>
        (\<forall>rq \<in> set rqs. justified i actions s rq \<and>
           step_status_of i (rq_actionId rq) s = Some StepSucceeded))"

lemma dependencies_met_synced:
  "synced i m s \<Longrightarrow> dependencies_met action m \<longleftrightarrow>
   list_all (\<lambda>dep. step_status_of i dep s = Some StepSucceeded) (opt_list (wa_dependsOn action))"
  by (simp add: dependencies_met_def opt_list_def synced_status)

lemma justified_mono:
  "justified i actions s rq \<Longrightarrow>
   (\<And>a. step_status_of i a s = Some StepSucceeded \<Longrightarrow> step_status_of i a s' = Some StepSucceeded) \<Longrightarrow>
   justified i actions s' rq"
  unfolding justified_def list_ex_iff list_all_iff by blast

lemma step_succeeds_status:
  assumes "synced i m s" and "step_succeeds i a s s'" and "obj_get m a \<noteq> None"
  shows "step_status_of i b s' = (if b = a then Some StepSucceeded else step_status_of i b s)"
  using synced_status[OF synced_step_succeeds[OF assms]] synced_status[OF assms(1)]
    status_of_set_status[OF assms(3)] by metis

lemma walk_inv_progress:
  assumes inv: "walk_inv i actions s0 m s" and a: "action \<in> set actions"
    and v: "visit_action xe i ctx action m s = (Inr (Progressed m'), s')"
  shows "walk_inv i actions s0 m' s'"
proof -
  let ?a = "wa_actionId action"
  note p = visit_progressed[OF v]
  note eff = visit_progressed_effect[OF v]
  from inv obtain rqs where sync: "synced i m s" and rqs: "idb_requests s = idb_requests s0 @ rqs"
      "distinct (map rq_actionId rqs)" "\<forall>rq \<in> set rqs. justified i actions s rq \<and>
       step_status_of i (rq_actionId rq) s = Some StepSucceeded"
    by (auto simp: walk_inv_def)
  note st = step_succeeds_status[OF sync eff(1) p(2)]
  obtain new where new: "idb_requests s' = idb_requests s @ new"
      "if is_wait_for_signal action then new = [] else \<exists>rq. new = [rq] \<and> rq_actionId rq = ?a"
    using eff(2) by blast
  have old: "\<forall>rq \<in> set rqs. justified i actions s' rq \<and>
      step_status_of i (rq_actionId rq) s' = Some StepSucceeded"
    using rqs(3) justified_mono[of i actions s _ s'] by (auto simp: st)
  have "step_status_of i ?a s \<noteq> Some StepSucceeded"
    using p(3) synced_status[OF sync] by (simp add: is_done_def)
  then have fresh: "\<forall>rq \<in> set rqs. rq_actionId rq \<noteq> ?a" using rqs(3) by auto
  have deps: "list_all (\<lambda>dep. step_status_of i dep s' = Some StepSucceeded) (opt_list (wa_dependsOn action))"
    using p(4) unfolding dependencies_met_synced[OF sync] list_all_iff by (auto simp: st)
  have "\<forall>rq \<in> set new. rq_actionId rq = ?a \<and> justified i actions s' rq"
    using new(2) a deps by (auto simp: justified_def list_ex_iff split: if_splits)
  moreover have "distinct (map rq_actionId (rqs @ new))"
    using rqs(2) fresh new(2) by (auto split: if_splits)
  moreover have "synced i m' s'" unfolding p(1) by (rule synced_step_succeeds[OF sync eff(1) p(2)])
  moreover have "idb_requests s' = idb_requests s0 @ rqs @ new" using new(1) rqs(1) by simp
  ultimately show ?thesis
    unfolding walk_inv_def using old by (intro conjI exI[of _ "rqs @ new"]) (auto simp: st)
qed

lemma walk_inv_halted:
  assumes inv: "walk_inv i actions s0 m s" and a: "action \<in> set actions"
    and v: "visit_action xe i ctx action m s = (Inr Halted, s')"
  shows "requests_justified i actions s0 s'"
proof -
  let ?a = "wa_actionId action"
  note h = visit_halted[OF v]
  from inv obtain rqs where sync: "synced i m s" and rqs: "idb_requests s = idb_requests s0 @ rqs"
      "distinct (map rq_actionId rqs)" "\<forall>rq \<in> set rqs. justified i actions s rq \<and>
       step_status_of i (rq_actionId rq) s = Some StepSucceeded"
    by (auto simp: walk_inv_def)
  have notdone: "step_status_of i ?a s \<noteq> Some StepSucceeded"
    using h(1) synced_status[OF sync] by (simp add: is_done_def)
  have keep: "step_status_of i b s' = Some StepSucceeded" if "step_status_of i b s = Some StepSucceeded" for b
    using that notdone h(3)[of b] by (cases "b = ?a") (auto simp: step_status_of_def)
  have old: "\<forall>rq \<in> set rqs. justified i actions s' rq"
    using rqs(3) justified_mono[of i actions s _ s'] keep by blast
  have fresh: "\<forall>rq \<in> set rqs. rq_actionId rq \<noteq> ?a" using rqs(3) notdone by auto
  have deps: "list_all (\<lambda>dep. step_status_of i dep s' = Some StepSucceeded) (opt_list (wa_dependsOn action))"
    using h(2) keep unfolding dependencies_met_synced[OF sync] list_all_iff by blast
  show ?thesis
  proof (cases "idb_requests s' = idb_requests s")
    case True
    then show ?thesis using rqs old by (intro requests_justifiedI[of _ _ rqs]) simp_all
  next
    case False
    with h(4) obtain rq where rq: "idb_requests s' = idb_requests s @ [rq]" "rq_actionId rq = ?a"
        "\<not> is_wait_for_signal action" by blast
    then have "justified i actions s' rq" using a deps by (auto simp: justified_def list_ex_iff)
    then show ?thesis
      using rqs rq old fresh by (intro requests_justifiedI[of _ _ "rqs @ [rq]"]) auto
  qed
qed

lemma walk_inv_steps:
  "walk_steps xe i ctx actions (walk_inv i actions s0) (requests_justified i actions s0)"
  using walk_inv_progress walk_inv_halted by (intro walk_stepsI) blast+

lemma walk_inv_requests: "walk_inv i actions s0 m s \<Longrightarrow> requests_justified i actions s0 s"
  by (auto simp: walk_inv_def intro: requests_justifiedI)

lemma walk_inv_start: "synced i m s \<Longrightarrow> walk_inv i actions s m s"
  by (simp add: walk_inv_def)


section \<open>Relations that the whole walk keeps\<close>

text \<open>
  A preorder on states that is kept by the elementary writes of the walker (claiming a
  signal, updating a step, and the three ways it updates the instance row) is kept by the
  whole walk.
\<close>

locale executor_frame = state_preorder R for R :: "instance_db \<Rightarrow> instance_db \<Rightarrow> bool" +
  fixes i :: string
  assumes quiet: "same_tables s s' \<Longrightarrow> R s s'"
    and claims: "keeps R (claim_signal returning t i name)"
    and steps: "(\<And>r. step_key (f r) = step_key r) \<Longrightarrow> R s (update_step i a f s)"
    and waits: "R s (update_instance i (\<lambda>r. r\<lparr>in_status := Waiting, in_currentState := Some (wx_actionId w),
                 in_wait := Some w\<rparr>) s)"
    and resumes: "R s (update_instance i (\<lambda>r. r\<lparr>in_status := Running, in_wait := None\<rparr>) s)"
    and fails: "R s (update_instance i (\<lambda>r. r\<lparr>in_status := InstFailed, in_currentState := c,
                 in_lastError := Some e, in_wait := None\<rparr>) s)"
begin

lemma keeps_modify: "(\<And>s. R s (f s)) \<Longrightarrow> keeps R (modify f)"
  by (simp add: keeps_def modify_def)

lemma keeps_quiet: "keeps same_tables m \<Longrightarrow> keeps R m"
  by (auto simp: keeps_def intro: quiet)

lemma keeps_clock: "keeps R (read_clock c)"
  by (rule keeps_quiet) simp

lemma keeps_execute: "keeps R (execute env net c action ctx)"
  by (rule keeps_quiet) (rule execute_keeps)

lemma waits_here:
  "R s (update_instance i (\<lambda>r. r\<lparr>in_status := Waiting, in_currentState := Some a,
     in_wait := Some \<lparr>wx_actionId = a, wx_signalName = n, wx_waitingSince = t,
       wx_timeoutAt = d, wx_onTimeout = ot\<rparr>\<rparr>) s)"
  using waits[of s "\<lparr>wx_actionId = a, wx_signalName = n, wx_waitingSince = t,
       wx_timeoutAt = d, wx_onTimeout = ot\<rparr>"] by simp

lemma keeps_start_waiting: "keeps R (start_waiting xe i action params)"
  unfolding start_waiting_def timeout_at_def
  by (auto intro!: keeps_rules keeps_clock keeps_modify waits_here split: option.splits)

lemma keeps_resume: "keeps R (resume_from xe i action signal)"
  unfolding resume_from_def
  by (intro keeps_rules keeps_clock keeps_modify resumes steps) (simp add: step_key_def)

lemma keeps_succeed: "keeps R (succeed_step xe i a output)"
  unfolding succeed_step_def
  by (intro keeps_rules keeps_clock keeps_modify steps) (simp add: step_key_def)

lemma keeps_fail: "keeps R (fail_instance xe i a n err)"
  unfolding fail_instance_def
  by (intro keeps_rules keeps_clock keeps_modify fails steps) (simp add: step_key_def)

lemma keeps_wait_action: "keeps R (wait_action xe i action m)"
  unfolding wait_action_def
  by (auto intro!: keeps_rules claims keeps_start_waiting keeps_resume split: option.splits)

lemma keeps_call_action: "keeps R (call_action xe i ctx action step m)"
proof -
  have "keeps R (modify (update_step i a (\<lambda>r. r\<lparr>sp_attempts := n, sp_error := Some e\<rparr>)))" for a n e
    by (intro keeps_modify steps) (simp add: step_key_def)
  then show ?thesis
    unfolding call_action_def Let_def
    by (auto intro!: keeps_rules keeps_execute keeps_succeed keeps_fail split: sum.splits)
qed

lemma keeps_visit: "keeps R (visit_action xe i ctx action m)"
  unfolding visit_action_def
  by (auto intro!: keeps_rules keeps_wait_action keeps_call_action split: option.splits)

lemma keeps_pass: "keeps R (pass_actions xe i ctx actions b m)"
proof (induction actions arbitrary: b m)
  case (Cons a actions)
  then show ?case
    by (auto intro!: keeps_rules keeps_visit split: action_outcome.splits)
qed (simp add: keeps_rules)

lemma keeps_walk: "keeps R (walk fuel xe i ctx actions m)"
proof (induction fuel arbitrary: m)
  case (Suc fuel)
  then show ?case
    by (auto intro!: keeps_rules keeps_pass split: option.splits)
qed (simp add: keeps_rules)

end

text \<open>
  Instance: the instance is not completed during the walk. \<open>preserves P\<close> relates states
  in which \<open>P\<close> carries over.
\<close>

definition preserves :: "('s \<Rightarrow> bool) \<Rightarrow> 's \<Rightarrow> 's \<Rightarrow> bool" where
  "preserves P s s' \<longleftrightarrow> (P s \<longrightarrow> P s')"

definition not_completed :: "string \<Rightarrow> instance_db \<Rightarrow> bool" where
  "not_completed i s \<longleftrightarrow>
     list_all (\<lambda>r. in_instanceId r = i \<longrightarrow> in_status r \<noteq> Completed) (idb_instances s)"

lemma claim_signal_keeps_instances:
  "(\<And>s s'. idb_instances s' = idb_instances s \<Longrightarrow> idb_steps s' = idb_steps s \<Longrightarrow> R s s') \<Longrightarrow>
   keeps R (claim_signal returning t i name)"
  by (simp add: keeps_def claim_signal_def Let_def split: list.splits)

lemma not_completed_update:
  "(\<And>r. in_status (f r) \<noteq> Completed \<and> in_instanceId (f r) = in_instanceId r) \<Longrightarrow>
   not_completed i s \<Longrightarrow> not_completed i (update_instance i f s)"
  by (auto simp: not_completed_def update_instance_def list_all_iff set_patch_rows)

lemma not_completed_cong:
  "idb_instances s' = idb_instances s \<Longrightarrow> not_completed i s \<Longrightarrow> not_completed i s'"
  by (simp add: not_completed_def)

interpretation nc: executor_frame "preserves (not_completed i)" i for i
proof unfold_locales
  show "keeps (preserves (not_completed i)) (claim_signal returning t i name)" for returning t name
    by (rule claim_signal_keeps_instances) (simp add: preserves_def not_completed_def)
qed (auto simp: preserves_def same_tables_def tables_def update_step_def
      intro: not_completed_cong not_completed_update)

end
