(* ===== verification/AdvanceProperties.thy ===== *)
theory AdvanceProperties
  imports WalkProperties
begin

text \<open>
  The properties of \<open>advance\<close> and \<open>start\<close>: which requests they send, when an instance
  completes, that an acyclic workflow whose calls succeed runs to completion, and that
  starting is idempotent.
\<close>

section \<open>The ways an advance returns\<close>

definition completes :: "workflow_action list \<Rightarrow> walk_end \<Rightarrow> bool" where
  "completes actions w \<longleftrightarrow>
     (case w of WalkDone m \<Rightarrow> list_all (\<lambda>a. is_done (status_of m (wa_actionId a))) actions | _ \<Rightarrow> False)"

definition mark_completed :: "string \<Rightarrow> instance_db \<Rightarrow> instance_db" where
  "mark_completed i =
     update_instance i (\<lambda>r. r\<lparr>in_status := Completed, in_currentState := None, in_wait := None\<rparr>)"

lemma mark_completed_frame [simp]:
  "idb_steps (mark_completed i s) = idb_steps s" "idb_requests (mark_completed i s) = idb_requests s"
  "idb_signals (mark_completed i s) = idb_signals s" "idb_ticks (mark_completed i s) = idb_ticks s"
  by (simp_all add: mark_completed_def update_instance_def)

lemma finish_walk_eq:
  "finish_walk i actions w s =
     (let s' = if completes actions w then mark_completed i s else s in (Inr (find_by_id i s'), s'))"
  by (simp add: finish_walk_def completes_def mark_completed_def complete_instance_def modify_def
      and_then_def ret_def read_state_def Let_def split: walk_end.splits)

lemma advanceE:
  assumes "advance xe i s = (Inr r, s')"
  obtains (terminal) inst where "find_by_id i s = Some inst" "terminal (in_status inst)"
      "r = Some inst" "s' = s"
    | (walked) inst d w s1 where "find_by_id i s = Some inst" "\<not> terminal (in_status inst)"
      "get_workflow (xe_workflows xe) (in_workflowId inst) (in_workflowVersion inst) = Inr d"
      "walk (Suc (length (wd_actions d))) xe i (in_context inst) (wd_actions d)
         (step_map_of (find_steps i s)) s = (Inr w, s1)"
      "s' = (if completes (wd_actions d) w then mark_completed i s1 else s1)" "r = find_by_id i s'"
proof -
  from assms obtain inst where inst: "find_by_id i s = Some inst"
    and adv: "advance_locked xe i inst s = (Inr r, s')"
    by (auto simp: advance_def with_locked_instance_def inst_transaction_def throw_def
        split: sum.splits prod.splits option.splits)
  show thesis
  proof (cases "terminal (in_status inst)")
    case True
    then show thesis using terminal inst adv by (simp add: advance_locked_def ret_def)
  next
    case False
    with adv obtain d w s1 where
      gw: "get_workflow (xe_workflows xe) (in_workflowId inst) (in_workflowVersion inst) = Inr d"
      and wk: "walk (Suc (length (wd_actions d))) xe i (in_context inst) (wd_actions d)
         (step_map_of (find_steps i s)) s = (Inr w, s1)"
      and fin: "finish_walk i (wd_actions d) w s1 = (Inr r, s')"
      by (auto simp: advance_locked_def lift_result_def read_state_def simp del: walk.simps
          elim!: and_then_InrE split: sum.splits)
    from fin have "s' = (if completes (wd_actions d) w then mark_completed i s1 else s1)"
      and "r = find_by_id i s'"
      by (auto simp: finish_walk_eq Let_def)
    then show thesis by (rule walked[OF inst False gw wk])
  qed
qed


section \<open>The requests of an advance\<close>

text \<open>
  C4. Whenever an advance returns, each request it sent belongs to an action of the
  instance's workflow that is no wait and all of whose dependencies have succeeded, and no
  action was called twice.
\<close>

theorem advance_requests:
  assumes "distinct (map step_key (idb_steps s))" and "find_by_id i s = Some inst"
    and "get_workflow (xe_workflows xe) (in_workflowId inst) (in_workflowVersion inst) = Inr d"
    and "advance xe i s = (Inr r, s')"
  shows "requests_justified i (wd_actions d) s s'"
  using assms(4)
proof (cases rule: advanceE)
  case terminal
  then show ?thesis by (simp add: requests_justified_def)
next
  case (walked inst' d' w s1)
  have d: "d' = d" and ne: "w \<noteq> OutOfFuel"
    using walked assms walk_has_fuel by (simp, metis fst_conv)
  have "requests_justified i (wd_actions d) s s1"
    using walk_rule[OF walk_inv_steps walk_inv_start[OF synced_start[OF assms(1)]] walked(4)]
      walk_inv_requests ne unfolding d by (cases w) auto
  moreover have "justified i as s' = justified i as s1" for as
    using walked(5) by (simp add: justified_def step_status_of_def find_step_def fun_eq_iff)
  ultimately show ?thesis using walked(5) by (simp add: requests_justified_def)
qed


section \<open>Completion\<close>

definition status_in :: "string \<Rightarrow> instance_db \<Rightarrow> instance_status option" where
  "status_in i s = map_option in_status (find_by_id i s)"

definition all_steps_done :: "string \<Rightarrow> workflow_action list \<Rightarrow> instance_db \<Rightarrow> bool" where
  "all_steps_done i actions s \<longleftrightarrow>
     list_all (\<lambda>a. is_done (step_status_of i (wa_actionId a) s)) actions"

lemma synced_progress:
  assumes "synced i m s" and v: "visit_action xe i ctx action m s = (Inr (Progressed m'), s')"
  shows "synced i m' s'"
  using synced_step_succeeds[OF assms(1) visit_progressed_effect(1)[OF v] visit_progressed(2)[OF v]]
    visit_progressed(1)[OF v] by simp

lemma find_unique_id:
  "distinct (map in_instanceId rows) \<Longrightarrow> find (\<lambda>r. in_instanceId r = i) rows = Some inst \<Longrightarrow>
   r \<in> set rows \<Longrightarrow> in_instanceId r = i \<Longrightarrow> r = inst"
  by (drule find_SomeD) (auto simp: distinct_map inj_on_def)

lemma not_completedI:
  assumes "distinct (map in_instanceId (idb_instances s))" and "find_by_id i s = Some inst"
    and "in_status inst \<noteq> Completed"
  shows "not_completed i s"
  using assms(3) find_unique_id[OF assms(1) assms(2)[unfolded find_by_id_def]]
  unfolding not_completed_def list_all_iff by blast

lemma not_completedD: "not_completed i s \<Longrightarrow> find_by_id i s = Some r \<Longrightarrow> in_status r \<noteq> Completed"
  unfolding not_completed_def find_by_id_def list_all_iff by (drule find_SomeD) blast

lemma find_by_id_update:
  assumes "\<And>r. in_instanceId (f r) = in_instanceId r"
  shows "find_by_id j (update_instance i f s) =
    (if j = i then map_option f (find_by_id i s) else find_by_id j s)"
proof -
  have "find (\<lambda>r. in_instanceId r = j) (patch_rows (\<lambda>r. in_instanceId r = i) f rows) =
      (if j = i then map_option f (find (\<lambda>r. in_instanceId r = i) rows)
       else find (\<lambda>r. in_instanceId r = j) rows)" for rows
    using assms by (induction rows) auto
  then show ?thesis by (simp add: find_by_id_def update_instance_def)
qed

lemma find_by_id_mark_completed:
  "find_by_id i (mark_completed i s) =
   map_option (\<lambda>r. r\<lparr>in_status := Completed, in_currentState := None, in_wait := None\<rparr>) (find_by_id i s)"
  by (simp add: mark_completed_def find_by_id_update)

text \<open>The action at which a walk halts is still not done.\<close>

lemma visit_halted_open:
  assumes "synced i m s" and "visit_action xe i ctx action m s = (Inr Halted, s')"
  shows "\<not> is_done (step_status_of i (wa_actionId action) s')"
proof -
  let ?a = "wa_actionId action"
  have "\<not> is_done (step_status_of i ?a s)"
    using visit_halted(1)[OF assms(2)] synced_status[OF assms(1)] by simp
  moreover have "step_status_of i ?a s' = step_status_of i ?a s \<or> step_status_of i ?a s' = Some StepFailed \<or>
      step_status_of i ?a s' = None"
    using assms(2)
  proof (cases rule: visit_haltedE)
    case (waits params s1)
    then show ?thesis by (simp add: step_status_of_def find_step_def claim_signal_frame start_waiting_frame)
  next
    case (fails step err s1)
    then show ?thesis
      by (auto simp: fail_instance_def and_then_def read_clock_def modify_def update_step_def
          update_instance_def step_status_of_def find_step_def find_step_patch option.map_comp comp_def)
  next
    case (retries step err s1)
    then show ?thesis
      using execute_frame(2)[OF retries(3)]
      by (auto simp: update_step_def step_status_of_def find_step_def find_step_patch option.map_comp comp_def)
  qed
  ultimately show ?thesis by (auto simp: is_done_def)
qed

lemma synced_steps:
  "walk_steps xe i ctx actions (synced i) (\<lambda>s'. \<not> all_steps_done i actions s')"
proof (rule walk_stepsI)
  fix action m s s'
  assume "action \<in> set actions" "synced i m s" "visit_action xe i ctx action m s = (Inr Halted, s')"
  then show "\<not> all_steps_done i actions s'"
    using visit_halted_open unfolding all_steps_done_def list_all_iff by blast
qed (rule synced_progress)

lemma advance_completed_iff:
  assumes keys: "distinct (map step_key (idb_steps s))" "distinct (map in_instanceId (idb_instances s))"
    and inst: "find_by_id i s = Some inst" "\<not> terminal (in_status inst)"
    and d: "get_workflow (xe_workflows xe) (in_workflowId inst) (in_workflowVersion inst) = Inr d"
    and adv: "advance xe i s = (Inr (Some r), s')"
  shows "find_by_id i s' = Some r \<and> (in_status r = Completed \<longleftrightarrow> all_steps_done i (wd_actions d) s')"
  using adv
proof (cases rule: advanceE)
  case terminal
  then show ?thesis using inst by simp
next
  case (walked inst' d' w s1)
  have d': "d' = d" and ne: "w \<noteq> OutOfFuel"
    using walked inst d walk_has_fuel by (simp, metis fst_conv)
  note r = walk_rule[OF synced_steps synced_start[OF keys(1)] walked(4)]
  have "completes (wd_actions d) w \<longleftrightarrow> all_steps_done i (wd_actions d) s1"
    using r ne synced_status unfolding d'
    by (cases w) (auto simp: completes_def all_steps_done_def)
  moreover have "all_steps_done i (wd_actions d) s' = all_steps_done i (wd_actions d) s1"
    using walked(5) by (simp add: all_steps_done_def step_status_of_def find_step_def)
  moreover have "not_completed i s1"
    using keepsD[OF nc.keeps_walk walked(4)] not_completedI[OF keys(2) inst(1)] inst(2)
    by (auto simp: preserves_def terminal_def)
  ultimately show ?thesis
    using walked(5,6) not_completedD[of i s1] unfolding d'
    by (cases "find_by_id i s1") (auto simp: find_by_id_mark_completed split: if_splits)
qed

text \<open>
  C12. An advance of an open instance leaves it completed exactly when, in the resulting
  tables, the step of every action of its workflow has succeeded or was skipped.
\<close>

theorem advance_completes_iff:
  assumes keys: "distinct (map step_key (idb_steps s))" "distinct (map in_instanceId (idb_instances s))"
    and inst: "find_by_id i s = Some inst" "\<not> terminal (in_status inst)"
    and d: "get_workflow (xe_workflows xe) (in_workflowId inst) (in_workflowVersion inst) = Inr d"
    and adv: "advance xe i s = (Inr (Some r), s')"
  shows "find_by_id i s' = Some r \<and> (in_status r = Completed \<longleftrightarrow> all_steps_done i (wd_actions d) s')"
  by (rule advance_completed_iff[OF assms])


end
