(* ===== verification/RunProperties.thy ===== *)
theory RunProperties
  imports AdvanceProperties
begin

text \<open>
  Runs of a workflow from its start: an acyclic workflow of calls that all succeed runs to
  completion in one go, in dependency order and each action once; an action on a
  dependency cycle never runs; starting is idempotent per correlation key.
\<close>

section \<open>Order of the calls\<close>

text \<open>Every action of the sequence comes after the actions it depends on.\<close>

fun deps_first :: "workflow_action list \<Rightarrow> string list \<Rightarrow> string list \<Rightarrow> bool" where
  "deps_first actions before [] \<longleftrightarrow> True"
| "deps_first actions before (x # xs) \<longleftrightarrow>
     list_all (\<lambda>a. wa_actionId a = x \<longrightarrow> set (opt_list (wa_dependsOn a)) \<subseteq> set before) actions \<and>
     deps_first actions (x # before) xs"

lemma deps_first_append:
  "deps_first actions before (xs @ ys) \<longleftrightarrow>
   deps_first actions before xs \<and> deps_first actions (rev xs @ before) ys"
  by (induction xs arbitrary: before) auto

definition workflow_ranked :: "(string \<Rightarrow> nat) \<Rightarrow> workflow_action list \<Rightarrow> bool" where
  "workflow_ranked rank actions \<longleftrightarrow>
     list_all (\<lambda>a. list_all (\<lambda>dep. dep \<in> wa_actionId ` set actions \<and> rank dep < rank (wa_actionId a))
                   (opt_list (wa_dependsOn a))) actions"

definition action_callable :: "exec_env \<Rightarrow> json_object \<Rightarrow> workflow_action \<Rightarrow> bool" where
  "action_callable xe ctx a \<longleftrightarrow> \<not> is_wait_for_signal a \<and> request_of (xe_env xe) a ctx \<noteq> None"

definition network_accepts :: "exec_env \<Rightarrow> bool" where
  "network_accepts xe \<longleftrightarrow> (\<forall>n rq. answer_output (xe_net xe n rq) \<noteq> None)"


section \<open>A walk that meets no obstacle\<close>

lemma visit_callable:
  assumes "action_callable xe ctx action" and "network_accepts xe"
  shows "\<exists>out s'. visit_action xe i ctx action m s = (Inr out, s') \<and> out \<noteq> Halted"
proof -
  obtain res s1 where ex: "execute (xe_env xe) (xe_net xe) (xe_clock xe) action ctx s = (res, s1)"
    by fastforce
  have acc: "answer_output (xe_net xe n rq) \<noteq> None" for n rq
    using assms(2) unfolding network_accepts_def by blast
  obtain out where "res = Inr (Inr out)"
    using execute_result[where env = "xe_env xe" and net = "xe_net xe" and clock = "xe_clock xe"
        and action = action and ctx = ctx and s = s] assms(1)
    by (auto simp: ex acc action_callable_def outcome_matches_def
        split: sum.splits option.splits)
  then have "call_action xe i ctx action step m s =
      (Inr (Progressed (set_status (wa_actionId action) StepSucceeded m)),
       snd (succeed_step xe i (wa_actionId action) out s1))" for step
    by (simp add: call_action_def and_then_def ex succeed_step_def read_clock_def modify_def ret_def)
  moreover have "\<not> is_wait_for_signal action" using assms(1) by (simp add: action_callable_def)
  ultimately show ?thesis by (auto simp: visit_action_def ret_def split: option.splits)
qed

lemma pass_runs:
  assumes "list_all (action_callable xe ctx) actions" and "network_accepts xe"
  shows "\<exists>b' m' s'. pass_actions xe i ctx actions b m s = (Inr (Some (b', m')), s')"
  using assms(1)
proof (induction actions arbitrary: b m s)
  case (Cons action actions)
  then have "action_callable xe ctx action" by simp
  from visit_callable[OF this assms(2)] obtain out s1 where
    v: "visit_action xe i ctx action m s = (Inr out, s1)" "out \<noteq> Halted" by blast
  have "list_all (action_callable xe ctx) actions" using Cons.prems by simp
  note IH = Cons.IH[OF this]
  show ?case using v IH by (cases out) (auto simp: and_then_def)
qed (simp add: ret_def)

lemma walk_runs:
  assumes "list_all (action_callable xe ctx) actions" and "network_accepts xe"
  shows "\<exists>w s'. walk fuel xe i ctx actions m s = (Inr w, s') \<and> w \<noteq> WalkHalted"
proof (induction fuel arbitrary: m s)
  case (Suc fuel)
  obtain b m' s1 where "pass_actions xe i ctx actions False m s = (Inr (Some (b, m')), s1)"
    using pass_runs[OF assms] by blast
  then show ?case using Suc.IH by (simp add: and_then_def ret_def)
qed (simp add: ret_def)


section \<open>What a run from the start has done\<close>

definition ran ::
  "string \<Rightarrow> workflow_action list \<Rightarrow> instance_db \<Rightarrow> step_map \<Rightarrow> instance_db \<Rightarrow> bool" where
  "ran i actions s0 m s \<longleftrightarrow>
     synced i m s \<and> (\<forall>a \<in> set actions. obj_get m (wa_actionId a) \<noteq> None) \<and>
     (\<exists>rqs. idb_requests s = idb_requests s0 @ rqs \<and>
        distinct (map rq_actionId rqs) \<and> deps_first actions [] (map rq_actionId rqs) \<and>
        set (map rq_actionId rqs) \<subseteq> wa_actionId ` set actions \<and>
        (\<forall>a. is_done (status_of m a) \<longleftrightarrow> a \<in> set (map rq_actionId rqs)) \<and>
        (\<forall>a. status_of m a \<noteq> Some StepSkipped))"

lemma dependencies_met_done:
  "(\<And>a. status_of m a \<noteq> Some StepSkipped) \<Longrightarrow>
   dependencies_met action m \<longleftrightarrow> (\<forall>dep \<in> set (opt_list (wa_dependsOn action)). is_done (status_of m dep))"
  by (simp add: dependencies_met_def is_done_def list_all_iff opt_list_def)

lemma ran_progress:
  assumes "list_all (action_callable xe ctx) actions" and ids: "distinct (map wa_actionId actions)"
    and a: "action \<in> set actions" and r: "ran i actions s0 m s"
    and v: "visit_action xe i ctx action m s = (Inr (Progressed m'), s')"
  shows "ran i actions s0 m' s'"
proof -
  let ?a = "wa_actionId action"
  from r obtain rqs where sync: "synced i m s" and known: "\<forall>a \<in> set actions. obj_get m (wa_actionId a) \<noteq> None"
    and rqs: "idb_requests s = idb_requests s0 @ rqs" "distinct (map rq_actionId rqs)"
      "deps_first actions [] (map rq_actionId rqs)" "set (map rq_actionId rqs) \<subseteq> wa_actionId ` set actions"
    and dn: "\<And>a. is_done (status_of m a) \<longleftrightarrow> a \<in> set (map rq_actionId rqs)"
    and sk: "\<And>a. status_of m a \<noteq> Some StepSkipped"
    unfolding ran_def by blast
  note p = visit_progressed[OF v]
  have "\<not> is_wait_for_signal action"
    using assms(1) a by (auto simp: list_all_iff action_callable_def)
  then obtain rq where rq: "idb_requests s' = idb_requests s @ [rq]" "rq_actionId rq = ?a"
    using visit_progressed_effect(2)[OF v] by auto
  have st: "status_of m' b = (if b = ?a then Some StepSucceeded else status_of m b)" for b
    unfolding p(1) by (rule status_of_set_status[OF p(2)])
  have deps: "set (opt_list (wa_dependsOn action)) \<subseteq> set (map rq_actionId rqs)"
    using p(4) unfolding dependencies_met_done[OF sk] dn by blast
  have "deps_first actions [] (map rq_actionId rqs @ [?a])"
    using rqs(3) deps a ids
    by (auto simp: deps_first_append list_all_iff distinct_map inj_on_def)
  moreover have "?a \<notin> set (map rq_actionId rqs)" using p(3) dn by simp
  moreover have "obj_get m' b \<noteq> None" if "obj_get m b \<noteq> None" for b
    using that p(2) unfolding p(1) by (auto simp: set_status_def split: option.splits)
  ultimately show ?thesis
    unfolding ran_def using synced_progress[OF sync v] rqs rq dn sk known a
    by (intro conjI exI[of _ "rqs @ [rq]"]) (auto simp: st is_done_def)
qed

lemma ran_steps:
  assumes "list_all (action_callable xe ctx) actions" and "network_accepts xe"
    and "distinct (map wa_actionId actions)"
  shows "walk_steps xe i ctx actions (ran i actions s0) (\<lambda>_. False)"
proof (rule walk_stepsI)
  fix action m s s'
  assume "action \<in> set actions" "visit_action xe i ctx action m s = (Inr Halted, s')"
  then show False
    using visit_callable[of xe ctx action i m s] assms(1,2) by (auto simp: list_all_iff)
qed (rule ran_progress[OF assms(1,3)])

lemma ran_quiescent_done:
  assumes "ran i actions s0 m s" and "quiescent m actions" and "workflow_ranked rank actions"
    and "a \<in> set actions"
  shows "is_done (status_of m (wa_actionId a))"
  using assms(4)
proof (induction "rank (wa_actionId a)" arbitrary: a rule: less_induct)
  case less
  have sk: "status_of m b \<noteq> Some StepSkipped" for b using assms(1) by (auto simp: ran_def)
  have "is_done (status_of m dep)" if dep: "dep \<in> set (opt_list (wa_dependsOn a))" for dep
  proof -
    have "dep \<in> wa_actionId ` set actions \<and> rank dep < rank (wa_actionId a)"
      using assms(3) less.prems dep unfolding workflow_ranked_def list_all_iff by blast
    then obtain b where "b \<in> set actions" "wa_actionId b = dep" "rank dep < rank (wa_actionId a)"
      by blast
    then show ?thesis using less.hyps by blast
  qed
  then have "dependencies_met a m" unfolding dependencies_met_done[OF sk] by blast
  moreover have "obj_get m (wa_actionId a) \<noteq> None" using assms(1) less.prems by (auto simp: ran_def)
  ultimately show ?case using assms(2) less.prems by (auto simp: quiescent_def list_all_iff)
qed


section \<open>Creating an instance\<close>

lemma insert_steps_fresh:
  "distinct ids \<Longrightarrow> \<forall>r \<in> set (idb_steps s). sp_instanceId r = i \<longrightarrow> sp_actionId r \<notin> set ids \<Longrightarrow>
   insert_steps i ids s = (Inr (), s\<lparr>idb_steps := idb_steps s @ map (pending_step i) ids\<rparr>)"
proof (induction ids arbitrary: s)
  case (Cons a ids)
  let ?s = "s\<lparr>idb_steps := idb_steps s @ [pending_step i a]\<rparr>"
  have "insert_row ''uq_step_instance_action'' same_step (pending_step i a) (idb_steps s) =
      Inr (idb_steps s @ [pending_step i a])"
    using Cons.prems(2) by (auto simp: insert_row_def same_step_def pending_step_def)
  moreover have "insert_steps i ids ?s = (Inr (), ?s\<lparr>idb_steps := idb_steps ?s @ map (pending_step i) ids\<rparr>)"
    using Cons.prems by (intro Cons.IH) (auto simp: pending_step_def)
  ultimately show ?case by simp
qed simp

definition create_input :: "start_input \<Rightarrow> workflow_definition \<Rightarrow> create_instance_input" where
  "create_input input d =
     \<lparr>ci_workflowId = st_workflowId input, ci_workflowVersion = st_workflowVersion input,
      ci_correlationKey = st_correlationKey input,
      ci_actionIds = map wa_actionId (wd_actions d), ci_context = st_context input\<rparr>"

definition created_db :: "string \<Rightarrow> db_time \<Rightarrow> create_instance_input \<Rightarrow> instance_db \<Rightarrow> instance_db" where
  "created_db newId dbnow ci s =
     s\<lparr>idb_instances := idb_instances s @ [new_instance newId dbnow ci],
       idb_steps := idb_steps s @ map (pending_step newId) (ci_actionIds ci)\<rparr>"

lemma create_fresh:
  assumes "find_by_correlation (ci_workflowId ci) (ci_correlationKey ci) s = None"
    and "distinct (ci_actionIds ci)" and "\<forall>r \<in> set (idb_steps s). sp_instanceId r \<noteq> newId"
  shows "create_if_absent newId dbnow ci s =
    (Inr (new_instance newId dbnow ci, True), created_db newId dbnow ci s)"
proof -
  let ?s = "s\<lparr>idb_instances := idb_instances s @ [new_instance newId dbnow ci]\<rparr>"
  have "insert_instance (new_instance newId dbnow ci) s = (Inr (new_instance newId dbnow ci), ?s)"
    using assms(1)
    by (auto simp: insert_instance_def insert_row_def new_instance_def find_by_correlation_def
        find_None_iff_all)
  moreover have "insert_steps newId (ci_actionIds ci) ?s =
      (Inr (), ?s\<lparr>idb_steps := idb_steps ?s @ map (pending_step newId) (ci_actionIds ci)\<rparr>)"
    using assms(2,3) by (intro insert_steps_fresh) auto
  moreover have "in_instanceId (new_instance newId dbnow ci) = newId" by (simp add: new_instance_def)
  ultimately show ?thesis
    using assms(1)
    by (simp add: create_if_absent_def inst_transaction_def and_then_def read_state_def ret_def
        created_db_def)
qed

lemma start_unfold:
  assumes "get_workflow (xe_workflows xe) (st_workflowId input) (st_workflowVersion input) = Inr d"
  shows "start_instance xe newId input s =
    and_then (create_if_absent newId (xe_dbnow xe) (create_input input d))
      (\<lambda>(inst, created). if \<not> created then ret (Some inst) else advance xe (in_instanceId inst)) s"
  using assms by (simp add: start_instance_def create_input_def and_then_def lift_result_def)

interpretation kept: executor_frame "preserves (\<lambda>s. find_by_id i s \<noteq> None)" i for i
proof unfold_locales
  show "keeps (preserves (\<lambda>s. find_by_id i s \<noteq> None)) (claim_signal returning t i name)" for returning t name
    by (rule claim_signal_keeps_instances) (simp add: preserves_def find_by_id_def)
qed (auto simp: preserves_def same_tables_def tables_def update_step_def find_by_id_update,
     auto simp: find_by_id_def)


section \<open>A run to completion\<close>

definition sent_ids :: "instance_db \<Rightarrow> instance_db \<Rightarrow> string list" where
  "sent_ids s s' = map rq_actionId (drop (length (idb_requests s)) (idb_requests s'))"

lemma ran_start:
  assumes "synced i m s" and "idb_requests s = idb_requests s0"
    and "\<And>a. step_status_of i a s = (if a \<in> wa_actionId ` set actions then Some StepPending else None)"
  shows "ran i actions s0 m s"
proof -
  have st: "status_of m a = (if a \<in> wa_actionId ` set actions then Some StepPending else None)" for a
    using synced_status[OF assms(1)] assms(3) by simp
  have "obj_get m (wa_actionId a) \<noteq> None" if "a \<in> set actions" for a
    using st[of "wa_actionId a"] that by (cases "obj_get m (wa_actionId a)") (auto simp: status_of_def)
  then show ?thesis
    unfolding ran_def using assms(1,2) by (intro conjI exI[of _ "[]"]) (auto simp: st is_done_def)
qed

lemma advance_runs:
  assumes inst: "find_by_id i s = Some inst" "in_status inst = Running"
    and gw: "get_workflow (xe_workflows xe) (in_workflowId inst) (in_workflowVersion inst) = Inr d"
    and call: "list_all (action_callable xe (in_context inst)) (wd_actions d)" "network_accepts xe"
    and acyclic: "distinct (map wa_actionId (wd_actions d))" "workflow_ranked rank (wd_actions d)"
    and keys: "distinct (map step_key (idb_steps s))"
    and fresh: "\<And>a. step_status_of i a s =
      (if a \<in> wa_actionId ` set (wd_actions d) then Some StepPending else None)"
  shows "\<exists>r s'. advance xe i s = (Inr (Some r), s') \<and> in_status r = Completed \<and> in_instanceId r = i \<and>
    mset (sent_ids s s') = mset (map wa_actionId (wd_actions d)) \<and>
    deps_first (wd_actions d) [] (sent_ids s s')"
proof -
  let ?as = "wd_actions d" and ?m = "step_map_of (find_steps i s)"
  obtain w s1 where wk: "walk (Suc (length ?as)) xe i (in_context inst) ?as ?m s = (Inr w, s1)"
    and w: "w \<noteq> WalkHalted"
    using walk_runs[OF call] by blast
  have "w \<noteq> OutOfFuel" using walk_has_fuel wk by (metis fst_conv)
  note r = walk_rule[OF ran_steps[OF call acyclic(1)] ran_start[OF synced_start[OF keys] refl fresh] wk]
  from r w \<open>w \<noteq> OutOfFuel\<close> obtain m' where m': "w = WalkDone m'" "ran i ?as s m' s1" "quiescent m' ?as"
    by (cases w) auto
  have dn: "is_done (status_of m' (wa_actionId a))" if "a \<in> set ?as" for a
    using ran_quiescent_done[OF m'(2,3) acyclic(2) that] .
  from m'(2) obtain rqs where rqs: "idb_requests s1 = idb_requests s @ rqs" "distinct (map rq_actionId rqs)"
      "deps_first ?as [] (map rq_actionId rqs)" "set (map rq_actionId rqs) \<subseteq> wa_actionId ` set ?as"
      "\<And>a. is_done (status_of m' a) \<longleftrightarrow> a \<in> set (map rq_actionId rqs)"
    by (auto simp: ran_def)
  have c: "completes ?as w" using dn by (simp add: m'(1) completes_def list_all_iff)
  have "find_by_id i s1 \<noteq> None"
    using keepsD[OF kept.keeps_walk wk] inst(1) by (simp add: preserves_def)
  then obtain r1 where r1: "find_by_id i s1 = Some r1" by blast
  have "set (map rq_actionId rqs) = set (map wa_actionId ?as)" using rqs(4,5) dn by auto
  then have "mset (map rq_actionId rqs) = mset (map wa_actionId ?as)"
    using rqs(2) acyclic(1) set_eq_iff_mset_eq_distinct by blast
  moreover have "in_instanceId r1 = i" using r1 find_SomeD by (fastforce simp: find_by_id_def)
  moreover have "advance xe i s = (Inr (find_by_id i (mark_completed i s1)), mark_completed i s1)"
    using inst gw wk c
    by (simp add: advance_def with_locked_instance_def inst_transaction_def advance_locked_def
        terminal_def and_then_def lift_result_def read_state_def finish_walk_eq Let_def del: walk.simps)
  ultimately show ?thesis using rqs(1,3) r1 by (simp add: find_by_id_mark_completed sent_ids_def)
qed

lemma acyclic_start_runs:
  assumes "get_workflow (xe_workflows xe) (st_workflowId input) (st_workflowVersion input) = Inr d"
    and "list_all (action_callable xe (opt_list (st_context input))) (wd_actions d)"
    and "network_accepts xe"
    and "distinct (map wa_actionId (wd_actions d))" and "workflow_ranked rank (wd_actions d)"
    and "distinct (map step_key (idb_steps s))" and "find_by_id newId s = None"
    and "find_by_correlation (st_workflowId input) (st_correlationKey input) s = None"
    and "list_all (\<lambda>r. sp_instanceId r \<noteq> newId) (idb_steps s)"
  shows "\<exists>r s'. start_instance xe newId input s = (Inr (Some r), s') \<and>
    in_status r = Completed \<and> in_instanceId r = newId \<and>
    mset (sent_ids s s') = mset (map wa_actionId (wd_actions d)) \<and>
    deps_first (wd_actions d) [] (sent_ids s s')"
proof -
  let ?ci = "create_input input d" and ?r = "new_instance newId (xe_dbnow xe) (create_input input d)"
  let ?s = "created_db newId (xe_dbnow xe) ?ci s"
  have cr: "create_if_absent newId (xe_dbnow xe) ?ci s = (Inr (?r, True), ?s)"
    using assms(4,8,9) by (intro create_fresh) (auto simp: create_input_def list_all_iff)
  have row: "find_by_id newId ?s = Some ?r"
    using assms(7) by (simp add: find_by_id_def created_db_def find_append new_instance_def)
  have keys: "distinct (map step_key (idb_steps ?s))"
    using assms(4,6,9)
    by (auto simp: created_db_def create_input_def distinct_map inj_on_def step_key_def pending_step_def
        list_all_iff)
  have old: "find (\<lambda>r. sp_instanceId r = newId \<and> sp_actionId r = a) (idb_steps s) = None" for a
    using assms(9) by (auto simp: find_None_iff_all list_all_iff)
  have new: "map_option sp_status (find (\<lambda>r. sp_instanceId r = newId \<and> sp_actionId r = a)
      (map (pending_step newId) ids)) = (if a \<in> set ids then Some StepPending else None)" for a ids
    by (induction ids) (auto simp: pending_step_def)
  have fresh: "step_status_of newId a ?s =
      (if a \<in> wa_actionId ` set (wd_actions d) then Some StepPending else None)" for a
    using old new[of a "map wa_actionId (wd_actions d)"]
    by (simp add: step_status_of_def find_step_def created_db_def create_input_def find_append)
  have "\<exists>r s'. advance xe newId ?s = (Inr (Some r), s') \<and> in_status r = Completed \<and> in_instanceId r = newId \<and>
      mset (sent_ids ?s s') = mset (map wa_actionId (wd_actions d)) \<and>
      deps_first (wd_actions d) [] (sent_ids ?s s')"
    by (rule advance_runs[OF row _ _ _ assms(3-5) keys fresh])
      (use assms(1,2) in \<open>simp_all add: new_instance_def create_input_def opt_list_def\<close>)
  then show ?thesis
    by (simp add: start_unfold[OF assms(1)] and_then_def cr)
      (simp add: new_instance_def sent_ids_def created_db_def)
qed

text \<open>
  C7. Starting a workflow whose dependencies are acyclic, whose actions are all calls and
  whose calls all succeed runs it to completion: the instance comes back completed, every
  action has been called exactly once and each one after all the actions it depends on.
\<close>

theorem acyclic_run_completes:
  assumes "get_workflow (xe_workflows xe) (st_workflowId input) (st_workflowVersion input) = Inr d"
    and "list_all (action_callable xe (opt_list (st_context input))) (wd_actions d)"
    and "network_accepts xe"
    and "distinct (map wa_actionId (wd_actions d))" and "workflow_ranked rank (wd_actions d)"
    and "distinct (map step_key (idb_steps s))" and "find_by_id newId s = None"
    and "find_by_correlation (st_workflowId input) (st_correlationKey input) s = None"
    and "list_all (\<lambda>r. sp_instanceId r \<noteq> newId) (idb_steps s)"
  shows "\<exists>r s'. start_instance xe newId input s = (Inr (Some r), s') \<and>
    in_status r = Completed \<and> in_instanceId r = newId \<and>
    mset (sent_ids s s') = mset (map wa_actionId (wd_actions d)) \<and>
    deps_first (wd_actions d) [] (sent_ids s s')"
  by (rule acyclic_start_runs[OF assms])


section \<open>Sample workflows\<close>

definition sample_action :: "string \<Rightarrow> string \<Rightarrow> string list \<Rightarrow> json_object \<Rightarrow> workflow_action" where
  "sample_action i typ deps params =
     \<lparr>wa_actionId = i, wa_type = typ, wa_dependsOn = Some deps, wa_policyRefs = None,
      wa_serviceCapabilityRefs = [cap_ref ''catalog-microservice'' ''product-tags''],
      wa_parameters = Some params\<rparr>"

definition sample_call :: "string \<Rightarrow> string list \<Rightarrow> workflow_action" where
  "sample_call i deps = sample_action i ''call-service-capability'' deps [(''url'', JStr ''u'')]"

definition sample_workflow :: "workflow_action list \<Rightarrow> workflow_definition" where
  "sample_workflow actions =
     \<lparr>wd_schemaVersion = ''bpcp.workflow.v1'', wd_workflowId = ''w'', wd_version = 1,
      wd_status = Draft, wd_description = ''d'', wd_appliesToProcessRefs = [''p''],
      wd_trigger = \<lparr>wt_type = ''cart-updated'', wt_sourceService = ''cart'', wt_eventRef = ''e'',
        wt_correlationKeys = [], wt_missingRuntimeFacts = None\<rparr>,
      wd_actions = actions,
      wd_requiredCapabilities = [cap_ref ''catalog-microservice'' ''product-tags''],
      wd_missingRuntimeFacts = [], wd_createdAt = [], wd_updatedAt = []\<rparr>"

definition sample_env :: "workflow_action list \<Rightarrow> http_answer \<Rightarrow> exec_env" where
  "sample_env actions answer =
     \<lparr>xe_workflows = [(''w:1'', sample_workflow actions)], xe_env = (\<lambda>_. None),
      xe_net = (\<lambda>_ _. answer), xe_clock = (\<lambda>_. 0), xe_returning = tuple_returning, xe_dbnow = 0\<rparr>"

definition accepted_answer :: http_answer where
  "accepted_answer = Response 200 (Inr []) (Inr JNull)"

definition empty_db :: instance_db where
  "empty_db = \<lparr>idb_instances = [], idb_steps = [], idb_signals = [], idb_requests = [], idb_ticks = 0\<rparr>"

definition sample_start :: start_input where
  "sample_start = \<lparr>st_workflowId = ''w'', st_workflowVersion = 1, st_correlationKey = ''k'', st_context = None\<rparr>"

lemma sample_key: "composite_key ''w'' 1 = ''w:1''"
  by (simp add: composite_key_def int_str_def nat_str.simps digit_chars)

lemma sample_get: "get_workflow (xe_workflows (sample_env actions answer)) ''w'' 1 = Inr (sample_workflow actions)"
  by (simp add: get_workflow_def sample_env_def sample_key)

lemma sample_call_callable [simp]:
  "action_callable (sample_env actions answer) ctx (sample_call i deps)"
proof -
  have "resolve_env_references env ''u'' = Inr ''u''" for env
    by (rule resolve_plain) (simp add: env_open_def starts_with_def)
  then show ?thesis
    by (simp add: action_callable_def is_wait_for_signal_def sample_call_def sample_action_def
        request_of_def resolve_headers_def)
qed

abbreviation chain_actions :: "workflow_action list" where
  "chain_actions \<equiv> [sample_call ''b'' [''a''], sample_call ''a'' []]"

text \<open>Two calls in a chain meet the conditions of a run to completion.\<close>

lemma chain_ready:
  shows "get_workflow (xe_workflows (sample_env chain_actions accepted_answer)) (st_workflowId sample_start)
      (st_workflowVersion sample_start) = Inr (sample_workflow chain_actions)"
    and "list_all (action_callable (sample_env chain_actions accepted_answer) (opt_list (st_context sample_start)))
      (wd_actions (sample_workflow chain_actions))"
    and "network_accepts (sample_env chain_actions accepted_answer)"
    and "distinct (map wa_actionId (wd_actions (sample_workflow chain_actions)))"
    and "workflow_ranked (\<lambda>a. if a = ''a'' then 0 else 1) (wd_actions (sample_workflow chain_actions))"
    and "distinct (map step_key (idb_steps empty_db))" and "find_by_id i empty_db = None"
    and "find_by_correlation w c empty_db = None"
    and "list_all (\<lambda>r. sp_instanceId r \<noteq> i) (idb_steps empty_db)"
proof -
  show "get_workflow (xe_workflows (sample_env chain_actions accepted_answer)) (st_workflowId sample_start)
      (st_workflowVersion sample_start) = Inr (sample_workflow chain_actions)"
    by (simp add: sample_start_def sample_get)
  show "network_accepts (sample_env chain_actions accepted_answer)"
    by (simp add: network_accepts_def sample_env_def accepted_answer_def answer_output_def response_ok_def)
  show "workflow_ranked (\<lambda>a. if a = ''a'' then 0 else 1) (wd_actions (sample_workflow chain_actions))"
    by (simp add: workflow_ranked_def sample_workflow_def sample_call_def sample_action_def opt_list_def)
qed (simp_all add: sample_workflow_def empty_db_def find_by_id_def find_by_correlation_def,
     simp_all add: sample_call_def sample_action_def)

lemma acyclic_run_completes_witness:
  "\<exists>r s'. start_instance (sample_env chain_actions accepted_answer) ''i'' sample_start empty_db =
      (Inr (Some r), s') \<and>
    in_status r = Completed \<and> in_instanceId r = ''i'' \<and>
    mset (sent_ids empty_db s') = {#''b'', ''a''#} \<and>
    deps_first chain_actions [] (sent_ids empty_db s')"
  using acyclic_run_completes[OF chain_ready(1-6) chain_ready(7)[of "''i''"] chain_ready(8,9)]
  by (simp add: sample_workflow_def sample_call_def sample_action_def)


section \<open>Dependency cycles\<close>

text \<open>Every action of the set depends on some action of the set.\<close>

definition entangled :: "string list \<Rightarrow> workflow_action list \<Rightarrow> bool" where
  "entangled stuck actions \<longleftrightarrow>
     list_all (\<lambda>a. wa_actionId a \<in> set stuck \<longrightarrow>
       \<not> list_all (\<lambda>dep. dep \<notin> set stuck) (opt_list (wa_dependsOn a))) actions"

definition untouched :: "string list \<Rightarrow> string \<Rightarrow> instance_db \<Rightarrow> instance_db \<Rightarrow> bool" where
  "untouched stuck i s0 s \<longleftrightarrow>
     list_all (\<lambda>a. \<not> is_done (step_status_of i a s) \<and> a \<notin> set (sent_ids s0 s)) stuck \<and>
     (\<exists>rqs. idb_requests s = idb_requests s0 @ rqs)"

lemma untouched_extend:
  "untouched stuck i s0 s \<Longrightarrow> idb_requests s' = idb_requests s @ rqs \<Longrightarrow>
   (\<forall>rq \<in> set rqs. rq_actionId rq \<notin> set stuck) \<Longrightarrow>
   (\<And>a. a \<in> set stuck \<Longrightarrow> step_status_of i a s' = step_status_of i a s) \<Longrightarrow> untouched stuck i s0 s'"
  by (auto simp: untouched_def list_all_iff sent_ids_def)

lemma entangled_unmet:
  assumes "entangled stuck actions" and "synced i m s" and "untouched stuck i s0 s"
    and "a \<in> set actions" and "dependencies_met a m"
  shows "wa_actionId a \<notin> set stuck"
proof
  assume "wa_actionId a \<in> set stuck"
  then obtain dep where "dep \<in> set (opt_list (wa_dependsOn a))" "dep \<in> set stuck"
    using assms(1,4) by (auto simp: entangled_def list_all_iff)
  then show False
    using assms(3,5) unfolding dependencies_met_synced[OF assms(2)]
    by (auto simp: untouched_def list_all_iff is_done_def)
qed

lemma untouched_steps:
  assumes "entangled stuck actions"
  shows "walk_steps xe i ctx actions (\<lambda>m s. synced i m s \<and> untouched stuck i s0 s) (untouched stuck i s0)"
proof (rule walk_stepsI)
  fix action m s m' s'
  assume a: "action \<in> set actions" and p: "synced i m s \<and> untouched stuck i s0 s"
    and v: "visit_action xe i ctx action m s = (Inr (Progressed m'), s')"
  have out: "wa_actionId action \<notin> set stuck"
    using entangled_unmet[OF assms _ _ a visit_progressed(4)[OF v]] p by blast
  have st: "step_status_of i b s' = step_status_of i b s" if "b \<in> set stuck" for b
    using step_succeeds_status[OF _ visit_progressed_effect(1)[OF v] visit_progressed(2)[OF v]] p that out
    by auto
  obtain rqs where "idb_requests s' = idb_requests s @ rqs" "\<forall>rq \<in> set rqs. rq_actionId rq \<notin> set stuck"
    using visit_progressed_effect(2)[OF v] out by (auto split: if_splits)
  then have "untouched stuck i s0 s'" using p st untouched_extend by blast
  then show "synced i m' s' \<and> untouched stuck i s0 s'" using p synced_progress[OF _ v] by blast
next
  fix action m s s'
  assume a: "action \<in> set actions" and p: "synced i m s \<and> untouched stuck i s0 s"
    and v: "visit_action xe i ctx action m s = (Inr Halted, s')"
  have out: "wa_actionId action \<notin> set stuck"
    using entangled_unmet[OF assms _ _ a visit_halted(2)[OF v]] p by blast
  have st: "step_status_of i b s' = step_status_of i b s" if "b \<in> set stuck" for b
  proof -
    have "b \<noteq> wa_actionId action" using that out by auto
    then show ?thesis by (simp add: step_status_of_def visit_halted(3)[OF v])
  qed
  obtain rqs where "idb_requests s' = idb_requests s @ rqs" "\<forall>rq \<in> set rqs. rq_actionId rq \<notin> set stuck"
    using visit_halted(4)[OF v] out by auto
  then show "untouched stuck i s0 s'" using p st untouched_extend by blast
qed

text \<open>
  C35. Actions that depend on each other in a cycle never run: whatever the network and
  the signals do, an advance neither calls nor completes them, and the instance is not
  completed. Validation accepts such workflows: the witness has one.
\<close>

theorem cyclic_actions_never_run:
  assumes "distinct (map step_key (idb_steps s))" and "find_by_id i s = Some inst"
    and "\<not> terminal (in_status inst)" and "distinct (map in_instanceId (idb_instances s))"
    and "get_workflow (xe_workflows xe) (in_workflowId inst) (in_workflowVersion inst) = Inr d"
    and "entangled stuck (wd_actions d)" and "stuck \<noteq> []" and "set stuck \<subseteq> wa_actionId ` set (wd_actions d)"
    and "list_all (\<lambda>a. \<not> is_done (step_status_of i a s)) stuck"
    and "advance xe i s = (Inr (Some r), s')"
  shows "list_all (\<lambda>a. \<not> is_done (step_status_of i a s') \<and> a \<notin> set (sent_ids s s')) stuck \<and>
    in_status r \<noteq> Completed"
proof -
  have "untouched stuck i s s'"
    using assms(10)
  proof (cases rule: advanceE)
    case terminal
    then show ?thesis using assms(2,3) by simp
  next
    case (walked inst' d' w s1)
    have d: "d' = d" and ne: "w \<noteq> OutOfFuel"
      using walked assms(2,5) walk_has_fuel by (simp, metis fst_conv)
    have "untouched stuck i s s" using assms(9) by (auto simp: untouched_def sent_ids_def list_all_iff)
    then have "untouched stuck i s s1"
      using walk_rule[OF untouched_steps[OF assms(6)] _ walked(4)[unfolded d]] synced_start[OF assms(1)] ne
      by (cases w) auto
    moreover have "step_status_of i a s' = step_status_of i a s1" for a
      using walked(5) by (simp add: step_status_of_def find_step_def)
    ultimately show ?thesis using walked(5) by (simp add: untouched_def sent_ids_def)
  qed
  moreover have "in_status r \<noteq> Completed"
  proof
    assume "in_status r = Completed"
    then have "all_steps_done i (wd_actions d) s'"
      using advance_completed_iff[OF assms(1,4,2,3,5,10)] by blast
    moreover obtain a where "a \<in> set stuck" using assms(7) by (cases stuck) auto
    ultimately show False
      using assms(8) \<open>untouched stuck i s s'\<close> by (auto simp: all_steps_done_def untouched_def list_all_iff)
  qed
  ultimately show ?thesis by (simp add: untouched_def)
qed

definition cyclic_workflow :: workflow_definition where
  "cyclic_workflow = sample_workflow [sample_call ''x'' [''y''], sample_call ''y'' [''x'']]"

definition cyclic_db :: instance_db where
  "cyclic_db = created_db ''i'' 0 (create_input sample_start cyclic_workflow) empty_db"

lemma cyclic_workflow_valid: "wv_valid (validate_workflow_definition cyclic_workflow)"
proof -
  have "ref_resolved (cap_ref ''catalog-microservice'' ''product-tags'')"
    by (simp add: ref_resolved_def cap_ref_def capability_snapshots_def starts_with_def)
  then show ?thesis
    by (simp add: validate_workflow_definition_def workflow_findings_verdict workflow_accepted_def
        cyclic_workflow_def sample_workflow_def trigger_accepted_def known_trigger_types_def
        starts_with_def opt_list_def)
      (simp add: action_accepted_def sample_call_def sample_action_def known_action_types_def
        opt_list_def opt_missing_marker_def starts_with_def)
qed

lemma cyclic_db_eq:
  "cyclic_db = empty_db\<lparr>idb_instances := [new_instance ''i'' 0 (create_input sample_start cyclic_workflow)],
     idb_steps := [pending_step ''i'' ''x'', pending_step ''i'' ''y'']\<rparr>"
  by (simp add: cyclic_db_def created_db_def create_input_def cyclic_workflow_def sample_workflow_def
      sample_call_def sample_action_def empty_db_def)

lemma cyclic_inst:
  "find_by_id ''i'' cyclic_db = Some (new_instance ''i'' 0 (create_input sample_start cyclic_workflow))"
  by (simp add: cyclic_db_eq find_by_id_def new_instance_def)

lemma cyclic_advance:
  "advance (sample_env (wd_actions cyclic_workflow) accepted_answer) ''i'' cyclic_db =
     (Inr (find_by_id ''i'' cyclic_db), cyclic_db)"
proof -
  let ?as = "wd_actions cyclic_workflow" and ?xe = "sample_env (wd_actions cyclic_workflow) accepted_answer"
  let ?m = "step_map_of (find_steps ''i'' cyclic_db)"
  have m: "status_of ?m b = (if b \<in> {''x'', ''y''} then Some StepPending else None)" for b
    by (simp add: status_of_def step_map_of_def find_steps_def cyclic_db_eq pending_step_def)
  have deps: "\<not> dependencies_met a ?m" if "a \<in> set ?as" for a
    using that
    by (auto simp: dependencies_met_def m cyclic_workflow_def sample_workflow_def sample_call_def
        sample_action_def)
  have "visit_action ?xe ''i'' ctx a ?m s = (Inr PassedOver, s)" if "a \<in> set ?as" for a ctx s
    using deps[OF that] by (simp add: visit_action_def ret_def split: option.splits)
  then have "walk (Suc (length ?as)) ?xe ''i'' ctx ?as ?m s = (Inr (WalkDone ?m), s)" for ctx s
    by (simp add: and_then_def ret_def cyclic_workflow_def sample_workflow_def)
  moreover have "\<not> completes ?as (WalkDone ?m)"
    by (simp add: completes_def m is_done_def cyclic_workflow_def sample_workflow_def sample_call_def
        sample_action_def)
  moreover have "get_workflow (xe_workflows ?xe) ''w'' 1 = Inr cyclic_workflow"
    by (simp add: sample_get) (simp add: cyclic_workflow_def sample_workflow_def)
  ultimately show ?thesis
    by (simp add: advance_def with_locked_instance_def inst_transaction_def advance_locked_def
        cyclic_inst terminal_def and_then_def lift_result_def read_state_def finish_walk_eq Let_def
        new_instance_def create_input_def sample_start_def del: walk.simps)
qed

lemma cyclic_actions_never_run_witness:
  "wv_valid (validate_workflow_definition cyclic_workflow) \<and>
   (\<exists>r s'. advance (sample_env (wd_actions cyclic_workflow) accepted_answer) ''i'' cyclic_db = (Inr (Some r), s') \<and>
      list_all (\<lambda>a. \<not> is_done (step_status_of ''i'' a s') \<and> a \<notin> set (sent_ids cyclic_db s')) [''x'', ''y''] \<and>
      in_status r \<noteq> Completed)"
proof -
  let ?xe = "sample_env (wd_actions cyclic_workflow) accepted_answer"
  let ?r = "new_instance ''i'' 0 (create_input sample_start cyclic_workflow)"
  have adv: "advance ?xe ''i'' cyclic_db = (Inr (Some ?r), cyclic_db)"
    using cyclic_advance cyclic_inst by simp
  have "list_all (\<lambda>a. \<not> is_done (step_status_of ''i'' a cyclic_db) \<and> a \<notin> set (sent_ids cyclic_db cyclic_db))
      [''x'', ''y''] \<and> in_status ?r \<noteq> Completed"
  proof (rule cyclic_actions_never_run[OF _ cyclic_inst _ _ _ _ _ _ _ adv])
    show "get_workflow (xe_workflows ?xe) (in_workflowId ?r) (in_workflowVersion ?r) = Inr cyclic_workflow"
      by (simp add: sample_get new_instance_def create_input_def sample_start_def)
        (simp add: cyclic_workflow_def sample_workflow_def)
  qed (simp_all add: cyclic_db_eq step_key_def pending_step_def step_status_of_def find_step_def
      is_done_def new_instance_def terminal_def entangled_def cyclic_workflow_def sample_workflow_def
      sample_call_def sample_action_def opt_list_def)
  then show ?thesis using adv cyclic_workflow_valid by blast
qed


section \<open>Witnesses for the properties of an advance\<close>

definition chain_workflow :: workflow_definition where
  "chain_workflow = sample_workflow [sample_call ''b'' [''a''], sample_call ''a'' []]"

definition chain_db :: instance_db where
  "chain_db = empty_db\<lparr>idb_instances := [new_instance ''i'' 0 (create_input sample_start chain_workflow)],
     idb_steps := [pending_step ''i'' ''b'', pending_step ''i'' ''a'']\<rparr>"

abbreviation chain_env :: exec_env where
  "chain_env \<equiv> sample_env (wd_actions chain_workflow) accepted_answer"

abbreviation chain_instance :: instance_row where
  "chain_instance \<equiv> new_instance ''i'' 0 (create_input sample_start chain_workflow)"

lemma chain_facts:
  "find_by_id ''i'' chain_db = Some chain_instance"
  "get_workflow (xe_workflows chain_env) (in_workflowId chain_instance) (in_workflowVersion chain_instance) =
     Inr chain_workflow"
  "\<not> terminal (in_status chain_instance)"
  "distinct (map step_key (idb_steps chain_db))" "distinct (map in_instanceId (idb_instances chain_db))"
  by (simp add: chain_db_def find_by_id_def new_instance_def,
      simp add: sample_get new_instance_def create_input_def sample_start_def,
      simp add: chain_workflow_def sample_workflow_def,
      simp_all add: new_instance_def terminal_def chain_db_def step_key_def pending_step_def)

lemma chain_advance:
  "\<exists>r s'. advance chain_env ''i'' chain_db = (Inr (Some r), s') \<and> in_status r = Completed \<and>
     in_instanceId r = ''i'' \<and>
     mset (sent_ids chain_db s') = mset (map wa_actionId (wd_actions chain_workflow)) \<and>
     deps_first (wd_actions chain_workflow) [] (sent_ids chain_db s')"
proof (rule advance_runs[OF chain_facts(1) _ chain_facts(2)])
  show "network_accepts chain_env"
    by (simp add: network_accepts_def sample_env_def accepted_answer_def answer_output_def response_ok_def)
  show "workflow_ranked (\<lambda>a. if a = ''a'' then 0 else 1) (wd_actions chain_workflow)"
    by (simp add: workflow_ranked_def chain_workflow_def sample_workflow_def sample_call_def
        sample_action_def opt_list_def)
  show "list_all (action_callable chain_env (in_context chain_instance)) (wd_actions chain_workflow)"
    by (simp add: chain_workflow_def sample_workflow_def)
  show "step_status_of ''i'' a chain_db =
      (if a \<in> wa_actionId ` set (wd_actions chain_workflow) then Some StepPending else None)" for a
    by (simp add: step_status_of_def find_step_def chain_db_def pending_step_def chain_workflow_def
        sample_workflow_def sample_call_def sample_action_def)
qed (use chain_facts(4) in \<open>simp_all add: new_instance_def chain_workflow_def sample_workflow_def
    sample_call_def sample_action_def\<close>)

lemma advance_requests_witness:
  "\<exists>r s'. advance chain_env ''i'' chain_db = (Inr r, s') \<and> length (sent_ids chain_db s') = 2 \<and>
     requests_justified ''i'' (wd_actions chain_workflow) chain_db s'"
proof -
  from chain_advance obtain r s' where adv: "advance chain_env ''i'' chain_db = (Inr (Some r), s')"
    and sent: "mset (sent_ids chain_db s') = mset (map wa_actionId (wd_actions chain_workflow))" by blast
  have "length (sent_ids chain_db s') = 2"
    using mset_eq_length[OF sent] by (simp add: chain_workflow_def sample_workflow_def)
  then show ?thesis
    using advance_requests[OF chain_facts(4,1,2) adv] adv by blast
qed

lemma advance_completes_iff_witness:
  "\<exists>r s'. advance chain_env ''i'' chain_db = (Inr (Some r), s') \<and>
     all_steps_done ''i'' (wd_actions chain_workflow) s'"
proof -
  from chain_advance obtain r s' where adv: "advance chain_env ''i'' chain_db = (Inr (Some r), s')"
    and "in_status r = Completed" by blast
  then show ?thesis
    using advance_completes_iff[OF chain_facts(4,5,1,3,2) adv] by blast
qed


section \<open>Starting twice\<close>

text \<open>What identifies an instance is never updated.\<close>

definition identity :: "instance_row \<Rightarrow> string \<times> string \<times> int \<times> string \<times> json_object \<times> db_time" where
  "identity r = (in_instanceId r, in_workflowId r, in_workflowVersion r, in_correlationKey r,
     in_context r, in_createdAt r)"

definition same_identities :: "instance_db \<Rightarrow> instance_db \<Rightarrow> bool" where
  "same_identities s s' \<longleftrightarrow> map identity (idb_instances s') = map identity (idb_instances s)"

lemma same_identities_update:
  "(\<And>r. identity (f r) = identity r) \<Longrightarrow> same_identities s (update_instance i f s)"
  by (simp add: same_identities_def update_instance_def patch_rows_map_key)

interpretation ident: executor_frame same_identities i for i
proof unfold_locales
  show "keeps same_identities (claim_signal returning t i name)" for returning t name
    by (rule claim_signal_keeps_instances) (simp add: same_identities_def)
qed (auto simp: same_tables_def tables_def update_step_def identity_def
      intro!: same_identities_update, auto simp: same_identities_def)

lemma advance_keeps_identities: "same_identities s s'" if "advance xe i s = (Inr r, s')"
  using that
proof (cases rule: advanceE)
  case (walked inst d w s1)
  have "same_identities s s1" using keepsD[OF ident.keeps_walk walked(4)] .
  moreover have "same_identities s1 (mark_completed i s1)"
    unfolding mark_completed_def by (rule same_identities_update) (simp add: identity_def)
  ultimately show ?thesis using walked(5) ident.trans by (auto split: if_splits)
qed (simp add: same_identities_def)

lemma find_by_id_SomeD: "find_by_id i s = Some r \<Longrightarrow> in_instanceId r = i"
  unfolding find_by_id_def by (drule find_SomeD) simp

lemma advance_returns:
  assumes "advance xe i s = (Inr (Some r), s')"
  shows "find_by_id i s' = Some r \<and> in_instanceId r = i"
  using assms by (cases rule: advanceE) (simp_all add: find_by_id_SomeD del: walk.simps)

lemma find_by_correlation_identities:
  assumes "same_identities s s'" and "find_by_correlation w k s = Some r"
  shows "\<exists>r'. find_by_correlation w k s' = Some r' \<and> identity r' = identity r"
proof -
  have "map identity rows' = map identity rows \<Longrightarrow>
      find (\<lambda>r. in_workflowId r = w \<and> in_correlationKey r = k) rows = Some r \<Longrightarrow>
      \<exists>r'. find (\<lambda>r. in_workflowId r = w \<and> in_correlationKey r = k) rows' = Some r' \<and> identity r' = identity r"
    for rows rows'
  proof (induction rows arbitrary: rows')
    case (Cons x rows)
    then obtain y ys where "rows' = y # ys" "identity y = identity x" "map identity ys = map identity rows"
      by (cases rows') auto
    then show ?case using Cons by (auto simp: identity_def split: if_splits)
  qed simp
  then show ?thesis using assms by (simp add: same_identities_def find_by_correlation_def)
qed

lemma start_existing:
  assumes "get_workflow (xe_workflows xe) (st_workflowId input) (st_workflowVersion input) = Inr d"
    and "find_by_correlation (st_workflowId input) (st_correlationKey input) s = Some r"
  shows "start_instance xe newId input s = (Inr (Some r), s)"
  by (simp add: start_unfold[OF assms(1)] and_then_def create_if_absent_def inst_transaction_def
      read_state_def create_input_def assms(2) ret_def)

lemma insert_steps_frame:
  "insert_steps i ids s = (res, s') \<Longrightarrow>
   idb_instances s' = idb_instances s \<and> idb_requests s' = idb_requests s \<and> idb_signals s' = idb_signals s"
proof (induction ids arbitrary: s)
  case (Cons a ids)
  then show ?case by (auto split: sum.splits)
qed simp

lemma inst_transaction_Inr: "inst_transaction m s = (Inr x, s') \<longleftrightarrow> m s = (Inr x, s')"
  by (auto simp: inst_transaction_def split: prod.splits sum.splits)

lemma create_if_absentE:
  assumes "create_if_absent newId dbnow ci s = (Inr (inst, created), s')"
  obtains (existing) "find_by_correlation (ci_workflowId ci) (ci_correlationKey ci) s = Some inst"
      "\<not> created" "s' = s"
    | (fresh) "find_by_correlation (ci_workflowId ci) (ci_correlationKey ci) s = None" "created"
      "inst = new_instance newId dbnow ci" "idb_instances s' = idb_instances s @ [inst]"
      "insert_steps newId (ci_actionIds ci) (s\<lparr>idb_instances := idb_instances s @ [inst]\<rparr>) = (Inr (), s')"
proof (cases "find_by_correlation (ci_workflowId ci) (ci_correlationKey ci) s")
  case (Some r)
  then have "inst = r \<and> \<not> created \<and> s' = s"
    using assms by (simp add: create_if_absent_def inst_transaction_Inr ret_def)
  then show thesis using Some existing by blast
next
  case None
  let ?r = "new_instance newId dbnow ci"
  have i: "in_instanceId ?r = newId" by (simp add: new_instance_def)
  have "and_then (insert_instance ?r) (\<lambda>saved. and_then (insert_steps (in_instanceId saved) (ci_actionIds ci))
      (\<lambda>_. ret (saved, True))) s = (Inr (inst, created), s')"
    using assms None by (simp add: create_if_absent_def inst_transaction_Inr)
  then obtain saved s1 u s2 where
    ins: "insert_instance ?r s = (Inr saved, s1)" and st: "insert_steps (in_instanceId saved) (ci_actionIds ci) s1 = (Inr u, s2)"
    and fin: "inst = saved" "created" "s' = s2"
    by (elim and_then_InrE) (simp add: ret_def)
  have saved: "saved = ?r" and s1: "s1 = s\<lparr>idb_instances := idb_instances s @ [?r]\<rparr>"
    using ins by (auto simp: insert_instance_def insert_row_def split: sum.splits if_splits)
  show thesis
  proof (rule fresh[OF None])
    show "insert_steps newId (ci_actionIds ci) (s\<lparr>idb_instances := idb_instances s @ [inst]\<rparr>) = (Inr (), s')"
      using st by (simp add: fin saved s1 i)
    show "idb_instances s' = idb_instances s @ [inst]"
      using insert_steps_frame[OF st] by (simp add: fin saved s1)
  qed (simp_all add: fin saved)
qed

text \<open>
  C11. Starting is idempotent per workflow and correlation key: once a start has returned
  an instance, a start that follows it with the same workflow and key, whatever its context,
  environment and registered version, returns that instance and changes and sends nothing.
\<close>

theorem start_idempotent:
  assumes "start_instance xe id1 input s = (Inr (Some r1), s1)"
    and "st_workflowId input' = st_workflowId input"
    and "st_correlationKey input' = st_correlationKey input"
    and "get_workflow (xe_workflows xe') (st_workflowId input') (st_workflowVersion input') = Inr d'"
  shows "\<exists>r2. start_instance xe' id2 input' s1 = (Inr (Some r2), s1) \<and>
    in_instanceId r2 = in_instanceId r1"
proof -
  obtain d where gw: "get_workflow (xe_workflows xe) (st_workflowId input) (st_workflowVersion input) = Inr d"
    using assms(1) by (auto simp: start_instance_def lift_result_def elim!: and_then_InrE)
  obtain inst created s0 where cr: "create_if_absent id1 (xe_dbnow xe) (create_input input d) s = (Inr (inst, created), s0)"
    and rest: "(if \<not> created then ret (Some inst) else advance xe (in_instanceId inst)) s0 = (Inr (Some r1), s1)"
    using assms(1) unfolding start_unfold[OF gw] by (auto elim!: and_then_InrE)
  let ?find = "find_by_correlation (st_workflowId input) (st_correlationKey input)"
  have "\<exists>r2. ?find s1 = Some r2 \<and> in_instanceId r2 = in_instanceId r1"
    using cr
  proof (cases rule: create_if_absentE)
    case existing
    then show ?thesis using rest by (simp add: ret_def create_input_def)
  next
    case fresh
    then have adv: "advance xe (in_instanceId inst) s0 = (Inr (Some r1), s1)" using rest by simp
    have "?find s0 = Some inst"
      using fresh(1,3,4) by (simp add: find_by_correlation_def find_append new_instance_def create_input_def)
    from find_by_correlation_identities[OF advance_keeps_identities[OF adv] this]
    obtain r2 where r2: "?find s1 = Some r2" "in_instanceId r2 = in_instanceId inst"
      by (auto simp: identity_def)
    have "in_instanceId r1 = in_instanceId inst"
      using advance_returns[OF adv] by simp
    then show ?thesis using r2 by simp
  qed
  then show ?thesis using start_existing[OF assms(4)] assms(2,3) by auto
qed

lemma start_idempotent_witness:
  "\<exists>r1 s1 r2. start_instance chain_env ''i'' sample_start empty_db = (Inr (Some r1), s1) \<and>
     length (sent_ids empty_db s1) = 2 \<and>
     start_instance chain_env ''j'' sample_start s1 = (Inr (Some r2), s1) \<and>
     in_instanceId r2 = in_instanceId r1"
proof -
  have env: "chain_env = sample_env chain_actions accepted_answer"
    by (simp add: chain_workflow_def sample_workflow_def)
  obtain r1 s1 where st: "start_instance chain_env ''i'' sample_start empty_db = (Inr (Some r1), s1)"
    and sent: "mset (sent_ids empty_db s1) = {#''b'', ''a''#}"
    using acyclic_start_runs[OF chain_ready(1-6) chain_ready(7)[of "''i''"] chain_ready(8,9)]
    unfolding env by (auto simp: sample_workflow_def sample_call_def sample_action_def)
  have "length (sent_ids empty_db s1) = 2" using arg_cong[OF sent, of size] by simp
  moreover have "get_workflow (xe_workflows chain_env) (st_workflowId sample_start) (st_workflowVersion sample_start) =
      Inr (sample_workflow (wd_actions chain_workflow))"
    by (simp add: sample_start_def sample_get)
  ultimately show ?thesis using st start_idempotent[OF st refl refl] by blast
qed

lemma start_failed:
  assumes gw: "get_workflow (xe_workflows xe) (st_workflowId input) (st_workflowVersion input) = Inr d"
    and cr: "create_if_absent newId (xe_dbnow xe) (create_input input d) s = (Inr (inst, True), s0)"
    and f: "start_instance xe newId input s = (Inl e, s1)"
  shows "idb_instances s1 = idb_instances s0 \<and> idb_steps s1 = idb_steps s0"
proof -
  have "advance xe (in_instanceId inst) s0 = (Inl e, s1)"
    using f unfolding start_unfold[OF gw] by (simp add: and_then_def cr)
  then show ?thesis
    by (auto simp: advance_def with_locked_instance_def inst_transaction_def split: prod.splits sum.splits)
qed

text \<open>
  C36. A start that fails after the instance was created (a wait without a signal name, a
  deadline out of range) leaves the instance running with all its steps pending, and
  repeating the start does not repair it: it returns that instance without walking it.
\<close>

theorem failed_start_leaves_instance:
  assumes gw: "get_workflow (xe_workflows xe) (st_workflowId input) (st_workflowVersion input) = Inr d"
    and new: "find_by_correlation (st_workflowId input) (st_correlationKey input) s = None"
      "distinct (map wa_actionId (wd_actions d))" "list_all (\<lambda>r. sp_instanceId r \<noteq> newId) (idb_steps s)"
    and failed: "start_instance xe newId input s = (Inl e, s1)"
  shows "\<exists>r. start_instance xe id2 input s1 = (Inr (Some r), s1) \<and> in_instanceId r = newId \<and>
    in_status r = Running \<and>
    map sp_status (find_steps newId s1) = replicate (length (wd_actions d)) StepPending"
proof -
  let ?ci = "create_input input d"
  let ?r = "new_instance newId (xe_dbnow xe) ?ci" and ?s = "created_db newId (xe_dbnow xe) ?ci s"
  have cr: "create_if_absent newId (xe_dbnow xe) ?ci s = (Inr (?r, True), ?s)"
    using new by (intro create_fresh) (auto simp: create_input_def list_all_iff)
  note same = start_failed[OF gw cr failed]
  have "find_by_correlation (st_workflowId input) (st_correlationKey input) s1 = Some ?r"
    using same new(1)
    by (simp add: find_by_correlation_def created_db_def find_append new_instance_def create_input_def)
  moreover have "filter (\<lambda>r. sp_instanceId r = newId) (map (pending_step newId) ids) = map (pending_step newId) ids" for ids
    by (simp add: filter_map comp_def pending_step_def)
  moreover have "filter (\<lambda>r. sp_instanceId r = newId) (idb_steps s) = []"
    using new(3) by (simp add: list_all_iff filter_empty_conv)
  ultimately show ?thesis
    using start_existing[OF gw] same
    by (simp add: find_steps_def created_db_def create_input_def comp_def)
      (simp add: new_instance_def pending_step_def comp_def map_replicate_const)
qed

abbreviation mute_action :: workflow_action where
  "mute_action \<equiv> sample_action ''wait'' ''wait-for-signal'' [] []"

abbreviation mute_env :: exec_env where
  "mute_env \<equiv> sample_env [mute_action] accepted_answer"

definition mute_workflow :: workflow_definition where
  "mute_workflow = sample_workflow [mute_action]"

lemma mute_actions: "wd_actions mute_workflow = [mute_action]"
  by (simp add: mute_workflow_def sample_workflow_def)

lemma mute_get: "get_workflow (xe_workflows mute_env) ''w'' 1 = Inr mute_workflow"
  unfolding mute_workflow_def by (rule sample_get)

lemma mute_visit:
  assumes "obj_get m ''wait'' = Some \<lparr>sv_status = StepPending, sv_attempts = 0\<rparr>"
  shows "\<exists>e. visit_action mute_env i ctx mute_action m s = (Inl e, s)"
proof -
  have "wa_actionId mute_action = ''wait''" and "is_wait_for_signal mute_action"
    and "dependencies_met mute_action m" and "\<exists>e. wait_action mute_env i mute_action m s = (Inl e, s)"
    by (simp_all add: sample_action_def is_wait_for_signal_def dependencies_met_def wait_action_def
        and_then_def lift_result_def read_wait_parameters_def)
  then show ?thesis using assms by (simp add: visit_action_def is_done_def)
qed

lemma mute_start: "\<exists>e s1. start_instance mute_env ''i'' sample_start empty_db = (Inl e, s1)"
proof -
  let ?ci = "create_input sample_start mute_workflow"
  let ?r = "new_instance ''i'' 0 ?ci" and ?s = "created_db ''i'' 0 ?ci empty_db"
  have ids: "ci_actionIds ?ci = [''wait'']" by (simp add: create_input_def mute_actions sample_action_def)
  have cr: "create_if_absent ''i'' 0 ?ci empty_db = (Inr (?r, True), ?s)"
    by (rule create_fresh) (simp_all add: find_by_correlation_def empty_db_def ids)
  have "find_steps ''i'' ?s = [pending_step ''i'' ''wait'']"
    by (simp add: find_steps_def created_db_def ids empty_db_def pending_step_def)
  then have m: "obj_get (step_map_of (find_steps ''i'' ?s)) ''wait'' =
      Some \<lparr>sv_status = StepPending, sv_attempts = 0\<rparr>"
    by (simp add: step_map_of_def pending_step_def)
  obtain e where "visit_action mute_env ''i'' (in_context ?r) mute_action (step_map_of (find_steps ''i'' ?s)) ?s = (Inl e, ?s)"
    using mute_visit[OF m] by blast
  then have wk: "walk (Suc (length [mute_action])) mute_env ''i'' (in_context ?r) [mute_action]
      (step_map_of (find_steps ''i'' ?s)) ?s = (Inl e, ?s)"
    by (simp add: and_then_def)
  have row: "find_by_id ''i'' ?s = Some ?r"
    by (simp add: find_by_id_def created_db_def empty_db_def new_instance_def)
  have r: "in_status ?r = Running" "in_workflowId ?r = ''w''" "in_workflowVersion ?r = 1" "in_instanceId ?r = ''i''"
    by (simp_all add: new_instance_def create_input_def sample_start_def)
  have "\<exists>s1. advance mute_env ''i'' ?s = (Inl e, s1)"
    using wk
    by (simp add: advance_def with_locked_instance_def inst_transaction_def advance_locked_def row r
        terminal_def and_then_def lift_result_def mute_get mute_actions read_state_def del: walk.simps)
  moreover have "xe_dbnow mute_env = 0" by (simp add: sample_env_def)
  moreover have "get_workflow (xe_workflows mute_env) (st_workflowId sample_start) (st_workflowVersion sample_start) =
      Inr mute_workflow"
    by (simp add: sample_start_def mute_get)
  ultimately show ?thesis using cr r(4) by (auto simp: start_unfold and_then_def)
qed

lemma failed_start_leaves_instance_witness:
  "\<exists>e s1 r. start_instance mute_env ''i'' sample_start empty_db = (Inl e, s1) \<and>
     start_instance mute_env ''j'' sample_start s1 = (Inr (Some r), s1) \<and>
     in_instanceId r = ''i'' \<and> in_status r = Running \<and>
     map sp_status (find_steps ''i'' s1) = [StepPending]"
proof -
  from mute_start obtain e s1 where f: "start_instance mute_env ''i'' sample_start empty_db = (Inl e, s1)"
    by blast
  have acts: "length (wd_actions mute_workflow) = 1" by (simp add: mute_workflow_def sample_workflow_def)
  have "\<exists>r. start_instance mute_env ''j'' sample_start s1 = (Inr (Some r), s1) \<and> in_instanceId r = ''i'' \<and>
      in_status r = Running \<and> map sp_status (find_steps ''i'' s1) = replicate (length (wd_actions mute_workflow)) StepPending"
    by (rule failed_start_leaves_instance[OF _ _ _ _ f])
      (simp_all add: sample_start_def mute_get find_by_correlation_def empty_db_def mute_actions)
  then show ?thesis using f by (auto simp: acts)
qed


section \<open>Requests that are not counted\<close>

text \<open>
  A stored instance of a workflow of two independent actions, both pending: one that can be
  called, then a wait that is malformed.
\<close>

definition before_bad_wait ::
  "exec_env \<Rightarrow> string \<Rightarrow> workflow_action \<Rightarrow> workflow_action \<Rightarrow> error \<Rightarrow> instance_db \<Rightarrow> bool" where
  "before_bad_wait xe i a w e s \<longleftrightarrow>
     (\<exists>r d. find_by_id i s = Some r \<and> \<not> terminal (in_status r) \<and>
        get_workflow (xe_workflows xe) (in_workflowId r) (in_workflowVersion r) = Inr d \<and>
        wd_actions d = [a, w] \<and> wa_actionId a \<noteq> wa_actionId w \<and>
        opt_list (wa_dependsOn a) = [] \<and> opt_list (wa_dependsOn w) = [] \<and>
        action_callable xe (in_context r) a \<and> network_accepts xe \<and>
        is_wait_for_signal w \<and> read_wait_parameters w = Inl e \<and>
        find_steps i s = [pending_step i (wa_actionId a), pending_step i (wa_actionId w)])"

lemma before_bad_wait_advance:
  assumes "before_bad_wait xe i a w e s"
  shows "\<exists>s'. advance xe i s = (Inl e, s') \<and> tables s' = tables s \<and>
    (\<exists>rq. idb_requests s' = idb_requests s @ [rq] \<and> rq_actionId rq = wa_actionId a)"
proof -
  obtain r d where r: "find_by_id i s = Some r" "\<not> terminal (in_status r)"
      "get_workflow (xe_workflows xe) (in_workflowId r) (in_workflowVersion r) = Inr d"
      "wd_actions d = [a, w]" "wa_actionId a \<noteq> wa_actionId w"
      "opt_list (wa_dependsOn a) = []" "opt_list (wa_dependsOn w) = []"
      "action_callable xe (in_context r) a" "network_accepts xe"
      "is_wait_for_signal w" "read_wait_parameters w = Inl e"
      "find_steps i s = [pending_step i (wa_actionId a), pending_step i (wa_actionId w)]"
    using assms unfolding before_bad_wait_def by blast
  let ?m = "step_map_of (find_steps i s)"
  have m: "obj_get ?m (wa_actionId a) = Some \<lparr>sv_status = StepPending, sv_attempts = 0\<rparr>"
      "obj_get ?m (wa_actionId w) = Some \<lparr>sv_status = StepPending, sv_attempts = 0\<rparr>"
    using r(5) by (simp_all add: r(12) step_map_of_def pending_step_def)
  obtain out s1 where v: "visit_action xe i (in_context r) a ?m s = (Inr out, s1)" "out \<noteq> Halted"
    using visit_callable[OF r(8,9)] by blast
  have call: "visit_action xe i (in_context r) a ?m = call_action xe i (in_context r) a
      \<lparr>sv_status = StepPending, sv_attempts = 0\<rparr> ?m"
    using m(1) r(6,8)
    by (simp add: visit_action_def is_done_def dependencies_met_def action_callable_def opt_list_def)
  have "out \<noteq> PassedOver"
    using v(1) unfolding call call_action_def
    by (auto simp: and_then_def ret_def Let_def split: prod.splits sum.splits if_splits)
  with v obtain m' where p: "visit_action xe i (in_context r) a ?m s = (Inr (Progressed m'), s1)"
    by (cases out) auto
  have "\<not> is_wait_for_signal a" using r(8) by (simp add: action_callable_def)
  then obtain rq where rq: "idb_requests s1 = idb_requests s @ [rq]" "rq_actionId rq = wa_actionId a"
    using visit_progressed_effect(2)[OF p] by auto
  have "obj_get m' (wa_actionId w) = Some \<lparr>sv_status = StepPending, sv_attempts = 0\<rparr>"
    using visit_progressed(1)[OF p] r(5) m by (auto simp: set_status_def)
  then have "visit_action xe i (in_context r) w m' s1 = (Inl e, s1)"
    using r(7,10,11)
    by (simp add: visit_action_def is_done_def dependencies_met_def wait_action_def and_then_def
        lift_result_def opt_list_def)
  then have "walk (Suc (length [a, w])) xe i (in_context r) [a, w] ?m s = (Inl e, s1)"
    by (simp add: and_then_def p)
  then have "advance xe i s = (Inl e, s\<lparr>idb_requests := idb_requests s1, idb_ticks := idb_ticks s1\<rparr>)"
    by (simp add: advance_def with_locked_instance_def inst_transaction_def advance_locked_def r(1-4)
        and_then_def lift_result_def read_state_def del: walk.simps)
  then show ?thesis by (simp add: tables_def rq)
qed

lemma before_bad_wait_same:
  "tables s' = tables s \<Longrightarrow> before_bad_wait xe i a w e s' = before_bad_wait xe i a w e s"
  by (simp add: before_bad_wait_def tables_def find_by_id_def find_steps_def)

text \<open>
  The attempt counter of a step counts committed failures only. When every advance of an
  instance throws after having called an action (here because a later wait is malformed,
  which validation accepts), each one sends the request again, and after any number of them
  the stored rows, with the counter at 0, are as they were.
\<close>

theorem resent_uncounted:
  assumes "before_bad_wait xe i a w e s"
  shows "let s' = ((\<lambda>s. snd (advance xe i s)) ^^ n) s
    in tables s' = tables s \<and> sent_ids s s' = replicate n (wa_actionId a) \<and>
       list_all (\<lambda>r. sp_attempts r = 0) (find_steps i s')"
proof -
  define adv where "adv = (\<lambda>s. snd (advance xe i s))"
  have "tables ((adv ^^ n) s) = tables s \<and>
      (\<exists>rqs. idb_requests ((adv ^^ n) s) = idb_requests s @ rqs \<and>
         map rq_actionId rqs = replicate n (wa_actionId a))"
  proof (induction n)
    case (Suc n)
    let ?s = "(adv ^^ n) s"
    have "before_bad_wait xe i a w e ?s" using Suc assms before_bad_wait_same by blast
    from before_bad_wait_advance[OF this] obtain rq where "tables (adv ?s) = tables ?s"
        "idb_requests (adv ?s) = idb_requests ?s @ [rq]" "rq_actionId rq = wa_actionId a"
      by (auto simp: adv_def)
    moreover obtain rqs where "idb_requests ?s = idb_requests s @ rqs"
        "map rq_actionId rqs = replicate n (wa_actionId a)"
      using Suc by blast
    ultimately show ?case
      using Suc by (auto simp: replicate_append_same intro!: exI[of _ "rqs @ [rq]"])
  qed simp
  moreover have "find_steps i ((adv ^^ n) s) = find_steps i s"
    using calculation by (simp add: tables_def find_steps_def)
  moreover have "list_all (\<lambda>r. sp_attempts r = 0) (find_steps i s)"
    using assms by (auto simp: before_bad_wait_def pending_step_def)
  ultimately show ?thesis by (auto simp: Let_def sent_ids_def adv_def)
qed

text \<open>Such an instance, accepted by validation, after 100 advances.\<close>

definition bad_wait_workflow :: workflow_definition where
  "bad_wait_workflow = sample_workflow [sample_call ''a'' [], mute_action]"

abbreviation bad_wait_env :: exec_env where
  "bad_wait_env \<equiv> sample_env (wd_actions bad_wait_workflow) accepted_answer"

definition bad_wait_db :: instance_db where
  "bad_wait_db = created_db ''i'' 0 (create_input sample_start bad_wait_workflow) empty_db"

lemma resent_uncounted_witness:
  "wv_valid (validate_workflow_definition bad_wait_workflow) \<and>
   (let s' = ((\<lambda>s. snd (advance bad_wait_env ''i'' s)) ^^ 100) bad_wait_db
    in tables s' = tables bad_wait_db \<and> sent_ids bad_wait_db s' = replicate 100 ''a'' \<and>
       list_all (\<lambda>r. sp_attempts r = 0) (find_steps ''i'' s'))"
proof
  have "ref_resolved (cap_ref ''catalog-microservice'' ''product-tags'')"
    by (simp add: ref_resolved_def cap_ref_def capability_snapshots_def starts_with_def)
  then show "wv_valid (validate_workflow_definition bad_wait_workflow)"
    by (simp add: validate_workflow_definition_def workflow_findings_verdict workflow_accepted_def
        bad_wait_workflow_def sample_workflow_def trigger_accepted_def known_trigger_types_def
        starts_with_def opt_list_def)
      (simp add: action_accepted_def sample_call_def sample_action_def known_action_types_def
        opt_list_def opt_missing_marker_def starts_with_def)
next
  have get: "get_workflow (xe_workflows bad_wait_env) ''w'' 1 = Inr bad_wait_workflow"
    unfolding bad_wait_workflow_def by (simp add: sample_get)
      (simp add: sample_workflow_def)
  have acts: "wd_actions bad_wait_workflow = [sample_call ''a'' [], mute_action]"
    by (simp add: bad_wait_workflow_def sample_workflow_def)
  let ?r = "new_instance ''i'' 0 (create_input sample_start bad_wait_workflow)"
  have ids: "ci_actionIds (create_input sample_start bad_wait_workflow) = [''a'', ''wait'']"
    by (simp add: create_input_def acts sample_call_def sample_action_def)
  obtain e where e: "read_wait_parameters mute_action = Inl e"
    by (auto simp: read_wait_parameters_def sample_action_def)
  have "find_by_id ''i'' bad_wait_db = Some ?r"
    by (simp add: bad_wait_db_def created_db_def find_by_id_def empty_db_def new_instance_def)
  moreover have "find_steps ''i'' bad_wait_db = [pending_step ''i'' ''a'', pending_step ''i'' ''wait'']"
    by (simp add: bad_wait_db_def created_db_def ids find_steps_def empty_db_def pending_step_def)
  moreover have "network_accepts bad_wait_env"
    by (simp add: network_accepts_def sample_env_def accepted_answer_def answer_output_def response_ok_def)
  moreover have "in_workflowId ?r = ''w''" "in_workflowVersion ?r = 1" "\<not> terminal (in_status ?r)"
    by (simp_all add: new_instance_def create_input_def sample_start_def terminal_def)
  moreover have "action_callable bad_wait_env ctx (sample_call ''a'' [])" for ctx
    by (rule sample_call_callable)
  ultimately have "before_bad_wait bad_wait_env ''i'' (sample_call ''a'' []) mute_action e bad_wait_db"
    unfolding before_bad_wait_def using get acts e
    by (intro exI[of _ ?r] exI[of _ bad_wait_workflow])
      (simp add: sample_call_def sample_action_def opt_list_def is_wait_for_signal_def)
  from resent_uncounted[OF this, of 100]
  show "let s' = ((\<lambda>s. snd (advance bad_wait_env ''i'' s)) ^^ 100) bad_wait_db
    in tables s' = tables bad_wait_db \<and> sent_ids bad_wait_db s' = replicate 100 ''a'' \<and>
       list_all (\<lambda>r. sp_attempts r = 0) (find_steps ''i'' s')"
    by (simp add: sample_call_def sample_action_def)
qed

end
