(* ===== verification/InstanceProperties.thy ===== *)
theory InstanceProperties
  imports RunProperties
begin

text \<open>
  Invariants of the instance tables under every operation: what an advance leaves alone,
  the well-formedness of the rows, the bound on attempts, and the life of a signal.
\<close>

section \<open>Relations that a whole advance keeps\<close>

locale advance_frame = executor_frame +
  assumes completing: "R s (mark_completed i s)"
begin

lemma keeps_advance: "keeps R (advance xe i)"
  unfolding keeps_def
proof
  fix s
  show "R s (snd (advance xe i s))"
  proof (cases "advance xe i s")
    case (Pair res s')
    show ?thesis
    proof (cases res)
      case (Inl e)
      then have "same_tables s s'"
        using Pair
        by (auto simp: advance_def with_locked_instance_def inst_transaction_def same_tables_def
            tables_def split: prod.splits sum.splits)
      then show ?thesis using quiet Pair by simp
    next
      case (Inr r)
      then have "advance xe i s = (Inr r, s')" using Pair by simp
      then have "R s s'"
      proof (cases rule: advanceE)
        case (walked inst d w s1)
        have "R s s1" by (rule keepsD[OF keeps_walk walked(4)])
        moreover have "R s1 s'" using walked(5) completing refl by simp
        ultimately show ?thesis by (rule trans)
      qed (simp add: refl)
      then show ?thesis using Pair by simp
    qed
  qed
qed

end


section \<open>Keys and other instances\<close>

text \<open>The identifying columns of the three tables.\<close>

definition table_keys ::
  "instance_db \<Rightarrow> (string \<times> string \<times> string) list \<times> (string \<times> string) list \<times> (string \<times> string) list" where
  "table_keys s =
     (map (\<lambda>r. (in_instanceId r, in_workflowId r, in_correlationKey r)) (idb_instances s),
      map step_key (idb_steps s), map (\<lambda>r. (sg_signalId r, sg_instanceId r)) (idb_signals s))"

definition same_keys :: "instance_db \<Rightarrow> instance_db \<Rightarrow> bool" where
  "same_keys s s' \<longleftrightarrow> table_keys s' = table_keys s"

lemma same_keys_update:
  "(\<And>r. in_instanceId (f r) = in_instanceId r \<and> in_workflowId (f r) = in_workflowId r \<and>
        in_correlationKey (f r) = in_correlationKey r) \<Longrightarrow> same_keys s (update_instance i f s)"
  by (simp add: same_keys_def table_keys_def update_instance_def patch_rows_map_key)

lemma same_keys_claim: "keeps same_keys (claim_signal returning t i name)"
  by (simp add: keeps_def claim_signal_def Let_def same_keys_def table_keys_def patch_rows_map_key
      split: list.splits)

lemma same_keys_step:
  "(\<And>r. step_key (f r) = step_key r) \<Longrightarrow> same_keys s (update_step i a f s)"
  by (simp add: same_keys_def table_keys_def update_step_def patch_rows_map_key)

interpretation keys: advance_frame same_keys i for i
proof unfold_locales
  show "same_keys s s" for s by (simp add: same_keys_def)
  show "same_keys s u" if "same_keys s t" "same_keys t u" for s t u using that by (simp add: same_keys_def)
  show "same_keys s s'" if "same_tables s s'" for s s'
    using that by (simp add: same_keys_def table_keys_def same_tables_def tables_def)
qed (auto simp: same_keys_claim mark_completed_def intro!: same_keys_update same_keys_step)

definition signal_ids :: "instance_db \<Rightarrow> string list" where
  "signal_ids s = map sg_signalId (idb_signals s)"

lemma same_keys_signal_ids: "same_keys s s' \<Longrightarrow> signal_ids s' = signal_ids s"
proof -
  assume "same_keys s s'"
  then have "map fst (map (\<lambda>r. (sg_signalId r, sg_instanceId r)) (idb_signals s')) =
      map fst (map (\<lambda>r. (sg_signalId r, sg_instanceId r)) (idb_signals s))"
    by (simp add: same_keys_def table_keys_def)
  then show ?thesis by (simp add: signal_ids_def comp_def)
qed

text \<open>The rows of all instances but one.\<close>

definition other_rows :: "string \<Rightarrow> instance_db \<Rightarrow> instance_row list \<times> step_row list \<times> signal_row list" where
  "other_rows i s =
     (filter (\<lambda>r. in_instanceId r \<noteq> i) (idb_instances s), filter (\<lambda>r. sp_instanceId r \<noteq> i) (idb_steps s),
      filter (\<lambda>r. sg_instanceId r \<noteq> i) (idb_signals s))"

definition isolated :: "string \<Rightarrow> instance_db \<Rightarrow> instance_db \<Rightarrow> bool" where
  "isolated i s s' \<longleftrightarrow>
     (distinct (signal_ids s) \<longrightarrow> distinct (signal_ids s') \<and> other_rows i s' = other_rows i s)"

lemma filter_patch_out:
  "(\<And>r. q r \<Longrightarrow> \<not> p r \<and> \<not> p (f r)) \<Longrightarrow> filter p (patch_rows q f rows) = filter p rows"
  by (induction rows) auto

lemma isolated_update:
  assumes "\<And>r. in_instanceId (f r) = in_instanceId r"
  shows "isolated i s (update_instance i f s)"
proof -
  have "filter (\<lambda>r. in_instanceId r \<noteq> i) (patch_rows (\<lambda>r. in_instanceId r = i) f rows) =
      filter (\<lambda>r. in_instanceId r \<noteq> i) rows" for rows
    by (rule filter_patch_out) (simp add: assms)
  then show ?thesis by (simp add: isolated_def signal_ids_def other_rows_def update_instance_def)
qed

lemma isolated_step:
  assumes "\<And>r. step_key (f r) = step_key r"
  shows "isolated i s (update_step i a f s)"
proof -
  have "filter (\<lambda>r. sp_instanceId r \<noteq> i) (patch_rows (\<lambda>r. sp_instanceId r = i \<and> sp_actionId r = a) f rows) =
      filter (\<lambda>r. sp_instanceId r \<noteq> i) rows" for rows
    using assms by (intro filter_patch_out) (auto simp: step_key_def)
  then show ?thesis by (simp add: isolated_def signal_ids_def other_rows_def update_step_def)
qed

lemma open_signals_head:
  assumes "open_signals i name s = c # cs"
  shows "c \<in> set (idb_signals s)" and "sg_instanceId c = i" and "sg_name c = name" and "sg_consumedAt c = None"
proof -
  have "c \<in> set (open_signals i name s)" using assms by simp
  then show "c \<in> set (idb_signals s)" "sg_instanceId c = i" "sg_name c = name" "sg_consumedAt c = None"
    by (auto simp: open_signals_def)
qed

lemma unique_signal:
  "distinct (signal_ids s) \<Longrightarrow> c \<in> set (idb_signals s) \<Longrightarrow> r \<in> set (idb_signals s) \<Longrightarrow>
   sg_signalId r = sg_signalId c \<Longrightarrow> r = c"
  by (auto simp: signal_ids_def distinct_map inj_on_def)

lemma patch_rows_cong:
  "(\<And>r. r \<in> set rows \<Longrightarrow> p r = q r) \<Longrightarrow> patch_rows p f rows = patch_rows q f rows"
  by (simp add: patch_rows_def)

text \<open>With unique ids, a claim consumes exactly the first open signal of that name.\<close>

lemma claim_signal_eq:
  assumes "distinct (signal_ids s)"
  shows "snd (claim_signal returning t i name s) =
    (case open_signals i name s of [] \<Rightarrow> s
     | c # _ \<Rightarrow> s\<lparr>idb_signals := patch_rows (\<lambda>r. r = c) (\<lambda>r. r\<lparr>sg_consumedAt := Some t\<rparr>) (idb_signals s)\<rparr>)"
proof (cases "open_signals i name s")
  case (Cons c cs)
  have "patch_rows (\<lambda>r. sg_signalId r = sg_signalId c) f (idb_signals s) = patch_rows (\<lambda>r. r = c) f (idb_signals s)" for f
    using unique_signal[OF assms open_signals_head(1)[OF Cons]] by (intro patch_rows_cong) blast
  then show ?thesis by (simp add: claim_signal_def Cons Let_def)
qed (simp add: claim_signal_def)

lemma isolated_claim: "keeps (isolated i) (claim_signal returning t i name)"
  unfolding keeps_def isolated_def
proof (intro allI impI)
  fix s :: instance_db
  assume d: "distinct (signal_ids s)"
  show "distinct (signal_ids (snd (claim_signal returning t i name s))) \<and>
      other_rows i (snd (claim_signal returning t i name s)) = other_rows i s"
    unfolding claim_signal_eq[OF d]
  proof (cases "open_signals i name s")
    case (Cons c cs)
    let ?rows = "patch_rows (\<lambda>r. r = c) (\<lambda>r. r\<lparr>sg_consumedAt := Some t\<rparr>) (idb_signals s)"
    have "filter (\<lambda>r. sg_instanceId r \<noteq> i) ?rows = filter (\<lambda>r. sg_instanceId r \<noteq> i) (idb_signals s)"
      using open_signals_head(2)[OF Cons] by (intro filter_patch_out) auto
    moreover have "map sg_signalId ?rows = map sg_signalId (idb_signals s)"
      by (rule patch_rows_map_key) simp
    ultimately show "distinct (signal_ids (case open_signals i name s of [] \<Rightarrow> s
       | c # _ \<Rightarrow> s\<lparr>idb_signals := patch_rows (\<lambda>r. r = c) (\<lambda>r. r\<lparr>sg_consumedAt := Some t\<rparr>) (idb_signals s)\<rparr>)) \<and>
      other_rows i (case open_signals i name s of [] \<Rightarrow> s
       | c # _ \<Rightarrow> s\<lparr>idb_signals := patch_rows (\<lambda>r. r = c) (\<lambda>r. r\<lparr>sg_consumedAt := Some t\<rparr>) (idb_signals s)\<rparr>) =
      other_rows i s"
      using d by (simp add: Cons signal_ids_def other_rows_def)
  qed (simp add: d)
qed

interpretation iso: advance_frame "isolated i" i for i
proof unfold_locales
  show "isolated i s s" for s by (simp add: isolated_def)
  show "isolated i s u" if "isolated i s t" "isolated i t u" for s t u using that by (simp add: isolated_def)
  show "isolated i s s'" if "same_tables s s'" for s s'
    using that by (simp add: isolated_def signal_ids_def other_rows_def same_tables_def tables_def)
qed (auto simp: isolated_claim mark_completed_def intro!: isolated_update isolated_step)


lemma advance_rows_kept:
  "distinct (signal_ids s) \<Longrightarrow> other_rows i (snd (advance xe i s)) = other_rows i s"
  using iso.keeps_advance by (simp add: keeps_def isolated_def)

text \<open>
  C38. An advance, successful or not, touches only the rows of its own instance: the
  instance, step and signal rows of every other instance stay as they are.
\<close>

theorem advance_isolated:
  assumes "distinct (signal_ids s)"
  shows "other_rows i (snd (advance xe i s)) = other_rows i s"
  using assms by (rule advance_rows_kept)

text \<open>A second instance beside the first, with a step and a signal of its own.\<close>

definition crowded_db :: instance_db where
  "crowded_db = chain_db\<lparr>
     idb_instances := [chain_instance, chain_instance\<lparr>in_instanceId := ''j'', in_correlationKey := ''l''\<rparr>],
     idb_steps := idb_steps chain_db @ [pending_step ''j'' ''a''],
     idb_signals := [\<lparr>sg_signalId = ''g'', sg_instanceId = ''j'', sg_name = ''paid'', sg_payload = [],
       sg_receivedAt = 0, sg_consumedAt = None\<rparr>]\<rparr>"

lemma advance_isolated_witness:
  "other_rows ''i'' (snd (advance chain_env ''i'' crowded_db)) =
     ([chain_instance\<lparr>in_instanceId := ''j'', in_correlationKey := ''l''\<rparr>], [pending_step ''j'' ''a''],
      [\<lparr>sg_signalId = ''g'', sg_instanceId = ''j'', sg_name = ''paid'', sg_payload = [],
        sg_receivedAt = 0, sg_consumedAt = None\<rparr>])"
proof -
  have "distinct (signal_ids crowded_db)" by (simp add: signal_ids_def crowded_db_def)
  from advance_isolated[OF this] show ?thesis
    by (simp add: other_rows_def crowded_db_def chain_db_def pending_step_def new_instance_def)
qed


section \<open>The life of a signal\<close>

text \<open>A signal row changes at most once, when it is consumed.\<close>

definition signal_kept :: "signal_row \<Rightarrow> signal_row \<Rightarrow> bool" where
  "signal_kept r r' \<longleftrightarrow>
     r' = r \<or> (sg_consumedAt r = None \<and> sg_consumedAt r' \<noteq> None \<and>
               r' = r\<lparr>sg_consumedAt := sg_consumedAt r'\<rparr>)"

lemma signal_kept_refl [simp]: "signal_kept r r"
  by (simp add: signal_kept_def)

lemma signal_kept_trans: "signal_kept r s \<Longrightarrow> signal_kept s t \<Longrightarrow> signal_kept r t"
  by (auto simp: signal_kept_def)

definition signals_kept :: "instance_db \<Rightarrow> instance_db \<Rightarrow> bool" where
  "signals_kept s s' \<longleftrightarrow>
     (distinct (signal_ids s) \<longrightarrow>
        distinct (signal_ids s') \<and> list_all2 signal_kept (idb_signals s) (idb_signals s'))"

lemma list_all2_kept_refl [simp]: "list_all2 signal_kept rows rows"
  by (rule list_all2_refl) simp

lemma list_all2_kept_trans:
  assumes "list_all2 signal_kept xs ys" and "list_all2 signal_kept ys zs"
  shows "list_all2 signal_kept xs zs"
  by (rule list_all2_trans[OF _ assms]) (rule signal_kept_trans)

lemma signals_kept_same: "idb_signals s' = idb_signals s \<Longrightarrow> signals_kept s s'"
  by (simp add: signals_kept_def signal_ids_def)

lemma signals_kept_claim: "keeps signals_kept (claim_signal returning t i name)"
  unfolding keeps_def signals_kept_def
proof (intro allI impI)
  fix s :: instance_db
  assume d: "distinct (signal_ids s)"
  have ids: "signal_ids (snd (claim_signal returning t i name s)) = signal_ids s"
    using same_keys_claim same_keys_signal_ids by (auto simp: keeps_def)
  show "distinct (signal_ids (snd (claim_signal returning t i name s))) \<and>
      list_all2 signal_kept (idb_signals s) (idb_signals (snd (claim_signal returning t i name s)))"
  proof (cases "open_signals i name s")
    case (Cons c cs)
    have "sg_consumedAt c = None" by (rule open_signals_head(4)[OF Cons])
    then have "list_all2 signal_kept rows (patch_rows (\<lambda>r. r = c) (\<lambda>r. r\<lparr>sg_consumedAt := Some t\<rparr>) rows)" for rows
      by (induction rows) (auto simp: signal_kept_def)
    then show ?thesis using d ids by (simp add: claim_signal_eq[OF d] Cons)
  qed (use d in \<open>simp add: claim_signal_eq\<close>)
qed

interpretation sigs: advance_frame signals_kept i for i
proof unfold_locales
  show "signals_kept s u" if "signals_kept s t" "signals_kept t u" for s t u
    using that list_all2_kept_trans unfolding signals_kept_def by blast
qed (auto simp: signals_kept_claim same_tables_def tables_def update_step_def update_instance_def
      intro!: signals_kept_same)


section \<open>Well-formed rows\<close>

text \<open>
  A wait descriptor exactly while waiting, naming the current action; an error once failed;
  no current action once completed.
\<close>

definition row_ok :: "instance_row \<Rightarrow> bool" where
  "row_ok r \<longleftrightarrow>
     (case in_wait r of
        None \<Rightarrow> in_status r \<noteq> Waiting
      | Some w \<Rightarrow> in_status r = Waiting \<and> in_currentState r = Some (wx_actionId w)) \<and>
     (in_status r = InstFailed \<longrightarrow> in_lastError r \<noteq> None) \<and>
     (in_status r = Completed \<longrightarrow> in_currentState r = None)"

definition rows_ok :: "instance_db \<Rightarrow> bool" where
  "rows_ok s \<longleftrightarrow> list_all row_ok (idb_instances s)"

lemma rows_ok_update: "(\<And>r. row_ok r \<Longrightarrow> row_ok (f r)) \<Longrightarrow> rows_ok s \<Longrightarrow> rows_ok (update_instance i f s)"
  by (auto simp: rows_ok_def update_instance_def list_all_iff set_patch_rows)

lemma rows_ok_same: "idb_instances s' = idb_instances s \<Longrightarrow> rows_ok s \<Longrightarrow> rows_ok s'"
  by (simp add: rows_ok_def)

interpretation wellf: advance_frame "preserves rows_ok" i for i
proof unfold_locales
  show "keeps (preserves rows_ok) (claim_signal returning t i name)" for returning t i name
    by (rule claim_signal_keeps_instances) (auto simp: preserves_def intro: rows_ok_same)
  show "preserves rows_ok s s'" if "same_tables s s'" for s s'
    using that by (auto simp: preserves_def same_tables_def tables_def intro: rows_ok_same)
  show "preserves rows_ok s (update_step i a f s)" for i a f s
    by (simp add: preserves_def update_step_def rows_ok_def)
qed (auto simp: preserves_def mark_completed_def intro!: rows_ok_update, auto simp: row_ok_def)



section \<open>Attempts\<close>

definition own_steps :: "(step_row \<Rightarrow> bool) \<Rightarrow> string \<Rightarrow> instance_db \<Rightarrow> bool" where
  "own_steps p i s \<longleftrightarrow> list_all (\<lambda>r. sp_instanceId r = i \<longrightarrow> p r) (idb_steps s)"

definition tried :: "int \<Rightarrow> step_row \<Rightarrow> bool" where
  "tried n r \<longleftrightarrow> 0 \<le> sp_attempts r \<and> sp_attempts r \<le> n"

definition all_failed :: "string \<Rightarrow> instance_db \<Rightarrow> bool" where
  "all_failed i s \<longleftrightarrow> list_all (\<lambda>r. in_instanceId r = i \<longrightarrow> in_status r = InstFailed) (idb_instances s)"

lemma own_steps_cong: "idb_steps s' = idb_steps s \<Longrightarrow> own_steps p i s' = own_steps p i s"
  by (simp add: own_steps_def)

lemma own_steps_patch:
  assumes own: "own_steps p i s" and weaken: "\<And>r. p r \<Longrightarrow> q r"
    and f: "\<And>r. sp_instanceId (f r) = sp_instanceId r" "\<And>r. p r \<Longrightarrow> q (f r)"
    and s': "idb_steps s' = patch_rows c f (idb_steps s)"
  shows "own_steps q i s'"
proof -
  have "list_all (\<lambda>r. sp_instanceId r = i \<longrightarrow> p r) rows \<Longrightarrow>
      list_all (\<lambda>r. sp_instanceId r = i \<longrightarrow> q r) (patch_rows c f rows)" for rows
  proof (induction rows)
    case (Cons r rows)
    then show ?case using weaken[of r] f(1)[of r] f(2)[of r] by simp
  qed simp
  then show ?thesis using own by (simp add: own_steps_def s')
qed

lemma own_steps_succeeds:
  assumes "own_steps (tried n) i s" and "step_succeeds i a s s'"
  shows "own_steps (tried n) i s'"
proof -
  obtain f where f: "\<And>r. sp_instanceId (f r) = sp_instanceId r" "\<And>r. sp_attempts (f r) = sp_attempts r"
    and s': "idb_steps s' = patch_rows (\<lambda>r. sp_instanceId r = i \<and> sp_actionId r = a) f (idb_steps s)"
    using assms(2) by (auto simp: step_succeeds_def step_key_def)
  show ?thesis by (rule own_steps_patch[OF assms(1) _ f(1) _ s']) (simp_all add: tried_def f(2))
qed

lemma own_steps_update:
  assumes "own_steps (tried n) i s" and "n \<le> k" and "\<And>r. sp_instanceId (f r) = sp_instanceId r"
    and "\<And>r. 0 \<le> sp_attempts (f r) \<and> sp_attempts (f r) \<le> k"
  shows "own_steps (tried k) i (update_step i a f s)"
proof (rule own_steps_patch[OF assms(1) _ assms(3)])
  show "idb_steps (update_step i a f s) =
      patch_rows (\<lambda>r. sp_instanceId r = i \<and> sp_actionId r = a) f (idb_steps s)"
    by (simp add: update_step_def)
  show "tried k r" if "tried n r" for r using that assms(2) by (simp add: tried_def)
  show "tried k (f r)" for r using assms(4) by (simp add: tried_def)
qed

lemma synced_attempts:
  assumes "synced i m s" and "own_steps (tried n) i s" and "obj_get m a = Some step"
  shows "0 \<le> sv_attempts step \<and> sv_attempts step \<le> n"
proof -
  obtain r where "find_step i a s = Some r" "step = view_of r"
    using assms(1,3) by (auto simp: synced_def)
  then show ?thesis
    using assms(2) find_SomeD[of _ "idb_steps s" r]
    by (auto simp: find_step_def own_steps_def list_all_iff tried_def view_of_def)
qed

text \<open>After a walk: at most two attempts everywhere, or three and the instance failed.\<close>

definition attempts_after :: "string \<Rightarrow> instance_db \<Rightarrow> bool" where
  "attempts_after i s \<longleftrightarrow>
     own_steps (tried 2) i s \<or> (own_steps (tried 3) i s \<and> all_failed i s)"

lemma all_failed_update:
  assumes "\<And>r. in_status (f r) = InstFailed"
  shows "all_failed i (update_instance i f s)"
proof -
  have "list_all (\<lambda>r. in_instanceId r = i \<longrightarrow> in_status r = InstFailed)
      (patch_rows (\<lambda>r. in_instanceId r = i) f rows)" for rows
    by (induction rows) (simp_all add: assms)
  then show ?thesis by (simp add: all_failed_def update_instance_def)
qed

lemma fail_instance_eq:
  "fail_instance xe i a n err s = (r, s') \<Longrightarrow>
   \<exists>t c. s' = update_instance i (\<lambda>r. r\<lparr>in_status := InstFailed, in_currentState := Some a,
      in_lastError := Some err, in_wait := None\<rparr>)
     (update_step i a (\<lambda>r. r\<lparr>sp_status := StepFailed, sp_attempts := n, sp_error := Some err,
      sp_finishedAt := Some t\<rparr>) (s\<lparr>idb_ticks := c\<rparr>))"
  by (auto simp: fail_instance_def and_then_def read_clock_def modify_def)

lemma attempts_steps:
  "walk_steps xe i ctx actions (\<lambda>m s. synced i m s \<and> own_steps (tried 2) i s) (attempts_after i)"
proof (rule walk_stepsI)
  fix action m s m' s'
  assume "synced i m s \<and> own_steps (tried 2) i s"
    and v: "visit_action xe i ctx action m s = (Inr (Progressed m'), s')"
  then show "synced i m' s' \<and> own_steps (tried 2) i s'"
    using synced_progress[OF _ v] own_steps_succeeds visit_progressed_effect(1)[OF v] by blast
next
  fix action m s s'
  assume p: "synced i m s \<and> own_steps (tried 2) i s"
    and v: "visit_action xe i ctx action m s = (Inr Halted, s')"
  from v show "attempts_after i s'"
  proof (cases rule: visit_haltedE)
    case (waits params s1)
    then have "idb_steps s' = idb_steps s" by (simp add: claim_signal_frame start_waiting_frame)
    then show ?thesis using p by (simp add: attempts_after_def own_steps_def)
  next
    case (fails step err s1)
    let ?n = "sv_attempts step + 1"
    have n: "0 \<le> ?n \<and> ?n \<le> 3" using synced_attempts[OF _ _ fails(2), of i s 2] p by simp
    from fail_instance_eq[OF fails(5)] obtain t c where s':
      "s' = update_instance i (\<lambda>r. r\<lparr>in_status := InstFailed, in_currentState := Some (wa_actionId action),
          in_lastError := Some err, in_wait := None\<rparr>)
        (update_step i (wa_actionId action) (\<lambda>r. r\<lparr>sp_status := StepFailed, sp_attempts := ?n,
          sp_error := Some err, sp_finishedAt := Some t\<rparr>) (s1\<lparr>idb_ticks := c\<rparr>))" by blast
    have "own_steps (tried 2) i (s1\<lparr>idb_ticks := c\<rparr>)"
      using p execute_frame(2)[OF fails(3)] by (simp add: own_steps_def)
    then have "own_steps (tried 3) i (update_step i (wa_actionId action) (\<lambda>r. r\<lparr>sp_status := StepFailed,
        sp_attempts := ?n, sp_error := Some err, sp_finishedAt := Some t\<rparr>) (s1\<lparr>idb_ticks := c\<rparr>))"
      by (rule own_steps_update) (use n in simp_all)
    moreover have "all_failed i s'"
      unfolding s' by (rule all_failed_update) simp
    moreover have "own_steps (tried 3) i s' = own_steps (tried 3) i (update_step i (wa_actionId action)
        (\<lambda>r. r\<lparr>sp_status := StepFailed, sp_attempts := ?n, sp_error := Some err,
          sp_finishedAt := Some t\<rparr>) (s1\<lparr>idb_ticks := c\<rparr>))"
      unfolding s' by (rule own_steps_cong) (simp add: update_instance_def)
    ultimately show ?thesis by (simp add: attempts_after_def)
  next
    case (retries step err s1)
    let ?n = "sv_attempts step + 1"
    have n: "0 \<le> ?n \<and> ?n \<le> 2"
      using synced_attempts[OF _ _ retries(2), of i s 2] retries(5) p by (simp add: max_attempts_def)
    have "own_steps (tried 2) i s1" using p execute_frame(2)[OF retries(3)] by (simp add: own_steps_def)
    then have "own_steps (tried 2) i s'"
      unfolding retries(6) by (rule own_steps_update) (use n in simp_all)
    then show ?thesis by (simp add: attempts_after_def)
  qed
qed



section \<open>The invariant of the instance tables\<close>

definition keys_ok :: "instance_db \<Rightarrow> bool" where
  "keys_ok s \<longleftrightarrow>
     (case table_keys s of (insts, steps, signals) \<Rightarrow>
        distinct (map fst insts) \<and> distinct (map snd insts) \<and> distinct steps \<and>
        distinct (map fst signals) \<and>
        list_all (\<lambda>k. fst k \<in> set (map fst insts)) steps \<and>
        list_all (\<lambda>k. snd k \<in> set (map fst insts)) signals)"

definition attempts_ok :: "instance_db \<Rightarrow> bool" where
  "attempts_ok s \<longleftrightarrow>
     list_all (\<lambda>r. tried 3 r \<and> (sp_attempts r = 3 \<longrightarrow> all_failed (sp_instanceId r) s)) (idb_steps s)"

text \<open>
  Keys are unique, steps and signals belong to an instance, rows are well-formed, and no
  attempt counter is above three, or at three except in a failed instance.
\<close>

definition instances_ok :: "instance_db \<Rightarrow> bool" where
  "instances_ok s \<longleftrightarrow> keys_ok s \<and> rows_ok s \<and> attempts_ok s"

lemma keys_ok_facts:
  assumes "keys_ok s"
  shows "distinct (map in_instanceId (idb_instances s))" "distinct (map step_key (idb_steps s))"
    "distinct (signal_ids s)"
  using assms by (simp_all add: keys_ok_def table_keys_def signal_ids_def comp_def)

lemma keys_ok_iff:
  "keys_ok s \<longleftrightarrow>
     distinct (map in_instanceId (idb_instances s)) \<and>
     distinct (map (\<lambda>r. (in_workflowId r, in_correlationKey r)) (idb_instances s)) \<and>
     distinct (map step_key (idb_steps s)) \<and> distinct (signal_ids s) \<and>
     (\<forall>r \<in> set (idb_steps s). sp_instanceId r \<in> in_instanceId ` set (idb_instances s)) \<and>
     (\<forall>r \<in> set (idb_signals s). sg_instanceId r \<in> in_instanceId ` set (idb_instances s))"
  by (simp add: keys_ok_def table_keys_def signal_ids_def comp_def list_all_iff image_image step_key_def)

lemma keys_ok_same: "same_keys s s' \<Longrightarrow> keys_ok s' = keys_ok s"
  by (simp add: keys_ok_def same_keys_def)

lemma all_failed_others:
  "other_rows i s' = other_rows i s \<Longrightarrow> j \<noteq> i \<Longrightarrow> all_failed j s' = all_failed j s"
proof -
  assume o: "other_rows i s' = other_rows i s" and ne: "j \<noteq> i"
  let ?p = "\<lambda>r. in_instanceId r = j \<longrightarrow> in_status r = InstFailed"
  have sub: "list_all ?p rows = list_all ?p (filter (\<lambda>r. in_instanceId r \<noteq> i) rows)" for rows
    using ne by (induction rows) auto
  have "filter (\<lambda>r. in_instanceId r \<noteq> i) (idb_instances s') = filter (\<lambda>r. in_instanceId r \<noteq> i) (idb_instances s)"
    using o by (simp add: other_rows_def)
  then show ?thesis
    unfolding all_failed_def sub[of "idb_instances s'"] sub[of "idb_instances s"] by (simp only:)
qed

text \<open>Only the steps of one instance need attention when the other rows stay.\<close>

lemma attempts_ok_isolated:
  assumes ok: "attempts_ok s" and o: "other_rows i s' = other_rows i s" and own: "attempts_after i s'"
  shows "attempts_ok s'"
  unfolding attempts_ok_def list_all_iff
proof
  fix r
  assume r: "r \<in> set (idb_steps s')"
  show "tried 3 r \<and> (sp_attempts r = 3 \<longrightarrow> all_failed (sp_instanceId r) s')"
  proof (cases "sp_instanceId r = i")
    case True
    then show ?thesis using own r by (auto simp: attempts_after_def own_steps_def list_all_iff tried_def)
  next
    case False
    then have "r \<in> set (filter (\<lambda>r. sp_instanceId r \<noteq> i) (idb_steps s'))" using r by simp
    moreover have "filter (\<lambda>r. sp_instanceId r \<noteq> i) (idb_steps s') = filter (\<lambda>r. sp_instanceId r \<noteq> i) (idb_steps s)"
      using o by (simp add: other_rows_def)
    ultimately have "r \<in> set (idb_steps s)" by simp
    then show ?thesis
      using ok all_failed_others[OF o False] by (simp add: attempts_ok_def list_all_iff)
  qed
qed

lemma attempts_open:
  assumes "attempts_ok s" and "find_by_id i s = Some inst" and "in_status inst \<noteq> InstFailed"
  shows "own_steps (tried 2) i s"
proof -
  have "\<not> all_failed i s"
    using assms(2,3) find_SomeD[of _ "idb_instances s" inst]
    by (auto simp: all_failed_def find_by_id_def list_all_iff)
  then show ?thesis
    using assms(1) by (fastforce simp: attempts_ok_def own_steps_def list_all_iff tried_def)
qed

lemma advance_attempts:
  assumes "attempts_ok s" and "keys_ok s"
  shows "attempts_ok (snd (advance xe i s))"
proof (cases "advance xe i s")
  case (Pair res s')
  show ?thesis
  proof (cases res)
    case (Inl e)
    then have "same_tables s s'"
      using Pair
      by (auto simp: advance_def with_locked_instance_def inst_transaction_def same_tables_def
          tables_def split: prod.splits sum.splits)
    then show ?thesis
      using assms(1) Pair by (simp add: attempts_ok_def all_failed_def same_tables_def tables_def)
  next
    case (Inr r)
    then have adv: "advance xe i s = (Inr r, s')" using Pair by simp
    then have "attempts_ok s'"
    proof (cases rule: advanceE)
      case terminal
      then show ?thesis using assms(1) by simp
    next
      case (walked inst d w s1)
      have start: "synced i (step_map_of (find_steps i s)) s \<and> own_steps (tried 2) i s"
        using synced_start[OF keys_ok_facts(2)[OF assms(2)]] attempts_open[OF assms(1) walked(1)] walked(2)
        by (simp add: terminal_def)
      have "w \<noteq> OutOfFuel" using walk_has_fuel walked(4) by (metis fst_conv)
      with walk_rule[OF attempts_steps start walked(4)]
      have after: "attempts_after i s1 \<and> (completes (wd_actions d) w \<longrightarrow> own_steps (tried 2) i s1)"
        by (cases w) (auto simp: attempts_after_def completes_def)
      have "attempts_after i s'"
        using after walked(5) by (auto simp: attempts_after_def own_steps_def)
      moreover have "other_rows i s' = other_rows i s"
        using advance_rows_kept[OF keys_ok_facts(3)[OF assms(2)], of i xe] adv by simp
      ultimately show ?thesis using attempts_ok_isolated[OF assms(1)] by blast
    qed
    then show ?thesis using adv by simp
  qed
qed

lemma advance_ok:
  assumes "instances_ok s"
  shows "instances_ok (snd (advance xe i s))"
  using assms keys_ok_same[of s "snd (advance xe i s)"] keys.keeps_advance wellf.keeps_advance advance_attempts
  by (auto simp: instances_ok_def keeps_def preserves_def)

text \<open>The other operations.\<close>

lemma insert_steps_Inr:
  "insert_steps i ids s = (Inr u, s') \<Longrightarrow>
   s' = s\<lparr>idb_steps := idb_steps s @ map (pending_step i) ids\<rparr> \<and>
   (distinct (map step_key (idb_steps s)) \<longrightarrow> distinct (map step_key (idb_steps s')))"
proof (induction ids arbitrary: s)
  case (Cons a ids)
  let ?s = "s\<lparr>idb_steps := idb_steps s @ [pending_step i a]\<rparr>"
  have fresh: "\<forall>r \<in> set (idb_steps s). \<not> same_step (pending_step i a) r"
    and rest: "insert_steps i ids ?s = (Inr u, s')"
    using Cons.prems by (auto simp: insert_row_def split: sum.splits if_splits)
  have "distinct (map step_key (idb_steps s)) \<longrightarrow> distinct (map step_key (idb_steps ?s))"
    using fresh by (auto simp: same_step_def step_key_def)
  then have "distinct (map step_key (idb_steps s)) \<longrightarrow> distinct (map step_key (idb_steps s'))"
    using Cons.IH[OF rest] by blast
  moreover have "s' = s\<lparr>idb_steps := idb_steps s @ map (pending_step i) (a # ids)\<rparr>"
    using Cons.IH[OF rest] by simp
  ultimately show ?case by blast
qed simp

lemma create_ok:
  assumes ok: "instances_ok s" and new: "find_by_id newId s = None"
  shows "instances_ok (snd (create_if_absent newId dbnow ci s))"
proof (cases "create_if_absent newId dbnow ci s")
  case (Pair res s')
  show ?thesis
  proof (cases res)
    case (Inl e)
    then have "same_tables s s'"
      using Pair
      by (auto simp: create_if_absent_def inst_transaction_def same_tables_def tables_def
          split: prod.splits sum.splits)
    then show ?thesis
      using ok Pair
      by (simp add: instances_ok_def keys_ok_def table_keys_def rows_ok_def attempts_ok_def
          all_failed_def same_tables_def tables_def)
  next
    case (Inr x)
    then obtain inst created where cr: "create_if_absent newId dbnow ci s = (Inr (inst, created), s')"
      using Pair by (cases x) auto
    then have "instances_ok s'"
    proof (cases rule: create_if_absentE)
      case existing
      then show ?thesis using ok by simp
    next
      case fresh
      let ?r = "new_instance newId dbnow ci"
      have s': "s' = s\<lparr>idb_instances := idb_instances s @ [?r],
          idb_steps := idb_steps s @ map (pending_step newId) (ci_actionIds ci)\<rparr>"
        using insert_steps_Inr[OF fresh(5)] fresh(3) by simp
      have "distinct (map step_key (idb_steps (s\<lparr>idb_instances := idb_instances s @ [inst]\<rparr>)))"
        using ok by (simp add: instances_ok_def keys_ok_facts)
      then have steps: "distinct (map step_key (idb_steps s'))"
        using insert_steps_Inr[OF fresh(5)] by blast
      have ids: "newId \<notin> in_instanceId ` set (idb_instances s)"
        using new by (auto simp: find_by_id_def find_None_iff_all)
      have "keys_ok s'"
        unfolding keys_ok_iff
      proof (intro conjI)
        show "distinct (map step_key (idb_steps s'))" by (rule steps)
        show "distinct (map (\<lambda>r. (in_workflowId r, in_correlationKey r)) (idb_instances s'))"
          using ok fresh(1)
          by (auto simp: instances_ok_def keys_ok_iff s' new_instance_def find_by_correlation_def
              find_None_iff_all)
      qed (use ok ids in \<open>auto simp: instances_ok_def keys_ok_iff s' new_instance_def signal_ids_def
          pending_step_def\<close>)
      moreover have "rows_ok s'"
        using ok by (simp add: instances_ok_def rows_ok_def s' new_instance_def row_ok_def)
      moreover have "attempts_ok s'"
      proof -
        have "all_failed j s' = all_failed j s" if "j \<noteq> newId" for j
          using that by (simp add: all_failed_def s' new_instance_def)
        moreover have "sp_instanceId r \<noteq> newId" if "r \<in> set (idb_steps s)" for r
          using ok ids that
          by (fastforce simp: instances_ok_def keys_ok_iff)
        ultimately show ?thesis
          using ok
          by (auto simp: instances_ok_def attempts_ok_def list_all_iff s' pending_step_def tried_def)
      qed
      ultimately show ?thesis by (simp add: instances_ok_def)
    qed
    then show ?thesis using Pair cr by simp
  qed
qed

lemma record_signal_ok:
  assumes ok: "instances_ok s" and new: "newId \<notin> set (signal_ids s)"
  shows "instances_ok (snd (record_signal newId dbnow i name payload s))"
proof (cases "find_by_id i s")
  case None
  then show ?thesis using ok by (simp add: record_signal_def)
next
  case (Some inst)
  then have "i \<in> in_instanceId ` set (idb_instances s)"
    using find_SomeD[of _ "idb_instances s" inst] by (auto simp: find_by_id_def)
  then have "keys_ok (snd (record_signal newId dbnow i name payload s))"
    using ok new Some by (auto simp: record_signal_def Let_def instances_ok_def keys_ok_iff signal_ids_def)
  then show ?thesis
    using ok Some
    by (simp add: record_signal_def Let_def instances_ok_def rows_ok_def attempts_ok_def all_failed_def)
qed

lemma attempts_ok_settled:
  assumes "attempts_ok s" and "idb_steps s' = idb_steps s" and "other_rows i s' = other_rows i s"
    and "all_failed i s' \<or> own_steps (tried 2) i s"
  shows "attempts_ok s'"
proof (rule attempts_ok_isolated[OF assms(1,3)])
  show "attempts_after i s'"
    using assms(1,2,4) by (auto simp: attempts_after_def own_steps_def attempts_ok_def list_all_iff)
qed

lemma cancel_ok:
  assumes ok: "instances_ok s"
  shows "instances_ok (snd (cancel_instance i s))"
proof (cases "find_by_id i s")
  case None
  then show ?thesis
    using ok by (simp add: cancel_instance_def with_locked_instance_def inst_transaction_def throw_def)
next
  case (Some inst)
  let ?f = "\<lambda>r. r\<lparr>in_status := Cancelled, in_wait := None\<rparr>"
  have eq: "snd (cancel_instance i s) =
      (if in_status inst = Completed \<or> in_status inst = InstFailed then s else update_instance i ?f s)"
    using Some
    by (simp add: cancel_instance_def with_locked_instance_def inst_transaction_def ret_def modify_def
        and_then_def read_state_def)
  show ?thesis
  proof (cases "in_status inst = Completed \<or> in_status inst = InstFailed")
    case False
    have "keys_ok (update_instance i ?f s)"
      using ok keys_ok_same[OF same_keys_update[of ?f s i]] by (simp add: instances_ok_def)
    moreover have "rows_ok (update_instance i ?f s)"
      using ok by (intro rows_ok_update) (auto simp: instances_ok_def row_ok_def)
    moreover have a: "attempts_ok s" using ok by (simp add: instances_ok_def)
    have "attempts_ok (update_instance i ?f s)"
    proof (rule attempts_ok_settled[OF a])
      show "other_rows i (update_instance i ?f s) = other_rows i s"
        using isolated_update[of ?f i s] ok by (simp add: isolated_def instances_ok_def keys_ok_facts)
      show "all_failed i (update_instance i ?f s) \<or> own_steps (tried 2) i s"
        using attempts_open[OF a Some] False by simp
    qed (simp add: update_instance_def)
    ultimately show ?thesis using eq False by (simp add: instances_ok_def)
  qed (use ok eq in simp)
qed

lemma fail_wait_timeout_eq:
  "\<exists>err t c. snd (fail_wait_timeout clock i a s) =
     update_instance i (\<lambda>r. r\<lparr>in_status := InstFailed, in_lastError := Some err, in_wait := None\<rparr>)
       (update_step i a (\<lambda>r. r\<lparr>sp_status := StepFailed, sp_error := Some err, sp_finishedAt := Some t\<rparr>)
         (s\<lparr>idb_ticks := c\<rparr>)) \<and>
     fst (fail_wait_timeout clock i a s) = Inr ()"
  by (simp add: fail_wait_timeout_def and_then_def read_clock_def modify_def inst_transaction_def
      Let_def) blast

lemma timeout_ok:
  assumes ok: "instances_ok s"
  shows "instances_ok (snd (fail_wait_timeout clock i a s))"
proof -
  obtain err t c where eq: "snd (fail_wait_timeout clock i a s) =
     update_instance i (\<lambda>r. r\<lparr>in_status := InstFailed, in_lastError := Some err, in_wait := None\<rparr>)
       (update_step i a (\<lambda>r. r\<lparr>sp_status := StepFailed, sp_error := Some err, sp_finishedAt := Some t\<rparr>)
         (s\<lparr>idb_ticks := c\<rparr>))"
    using fail_wait_timeout_eq by blast
  let ?f = "\<lambda>r. r\<lparr>in_status := InstFailed, in_lastError := Some err, in_wait := None\<rparr>"
  let ?g = "\<lambda>r. r\<lparr>sp_status := StepFailed, sp_error := Some err, sp_finishedAt := Some t\<rparr>"
  let ?s1 = "update_step i a ?g (s\<lparr>idb_ticks := c\<rparr>)"
  have s0: "instances_ok (s\<lparr>idb_ticks := c\<rparr>)"
    using ok by (simp add: instances_ok_def keys_ok_def table_keys_def rows_ok_def attempts_ok_def all_failed_def)
  have k1: "keys_ok ?s1" using s0 keys_ok_same[OF same_keys_step[of ?g]] by (simp add: instances_ok_def step_key_def)
  have "list_all (\<lambda>r. tried 3 r \<and> (sp_attempts r = 3 \<longrightarrow> P (sp_instanceId r))) rows \<Longrightarrow>
      list_all (\<lambda>r. tried 3 r \<and> (sp_attempts r = 3 \<longrightarrow> P (sp_instanceId r))) (patch_rows q ?g rows)" for P q rows
    by (induction rows) (auto simp: tried_def)
  from this[of "\<lambda>j. all_failed j s"] have a1: "attempts_ok ?s1"
    using ok unfolding instances_ok_def attempts_ok_def by (simp add: update_step_def all_failed_def)
  have "keys_ok (update_instance i ?f ?s1)"
    using k1 keys_ok_same[OF same_keys_update[of ?f ?s1 i]] by simp
  moreover have "rows_ok (update_instance i ?f ?s1)"
    using s0 by (intro rows_ok_update) (auto simp: instances_ok_def row_ok_def rows_ok_def update_step_def)
  moreover have "attempts_ok (update_instance i ?f ?s1)"
  proof (rule attempts_ok_settled[OF a1])
    show "other_rows i (update_instance i ?f ?s1) = other_rows i ?s1"
      using isolated_update[of ?f i ?s1] k1 by (simp add: isolated_def keys_ok_facts)
    show "all_failed i (update_instance i ?f ?s1) \<or> own_steps (tried 2) i ?s1"
      by (rule disjI1, rule all_failed_update) simp
  qed (simp add: update_instance_def)
  ultimately show ?thesis unfolding eq by (simp add: instances_ok_def)
qed


section \<open>Reachable tables\<close>

text \<open>
  The transactions of the service, in any order and interleaving: create, record a signal,
  advance (each committed on its own), cancel, and the failing of a wait by a sweep that
  may be working on an outdated list. Ids come fresh from the database.
\<close>

inductive instances_reachable :: "instance_db \<Rightarrow> bool" where
  empty: "instances_reachable empty_db"
| created: "instances_reachable s \<Longrightarrow> find_by_id newId s = None \<Longrightarrow>
    instances_reachable (snd (create_if_absent newId dbnow ci s))"
| recorded: "instances_reachable s \<Longrightarrow> newId \<notin> set (signal_ids s) \<Longrightarrow>
    instances_reachable (snd (record_signal newId dbnow i name payload s))"
| advanced: "instances_reachable s \<Longrightarrow> instances_reachable (snd (advance xe i s))"
| cancelled: "instances_reachable s \<Longrightarrow> instances_reachable (snd (cancel_instance i s))"
| timed_out: "instances_reachable s \<Longrightarrow> instances_reachable (snd (fail_wait_timeout clock i a s))"

lemma reachable_tables_ok:
  assumes "instances_reachable s"
  shows "instances_ok s"
  using assms
proof induction
  case empty
  show ?case
    by (simp add: instances_ok_def keys_ok_def table_keys_def rows_ok_def attempts_ok_def empty_db_def)
qed (simp_all add: create_ok record_signal_ok advance_ok cancel_ok timeout_ok)

text \<open>
  C5. In every reachable state of the tables instance ids, correlation keys, step keys
  and signal ids are unique, steps and signals belong to an instance, an instance has a wait
  descriptor exactly while it waits and an error once it failed, and the attempt counter of
  a step, which counts committed failures of its action, is never above three and reaches
  three only in a failed instance. (The counter does not bound the calls: an advance that
  throws undoes it, as \<open>resent_uncounted\<close> shows.)
\<close>

theorem instance_tables_invariant:
  assumes "instances_reachable s"
  shows "instances_ok s"
  using assms by (rule reachable_tables_ok)

text \<open>Starting and delivering a signal are sequences of such transactions.\<close>

lemma start_reachable:
  assumes "instances_reachable s" and "find_by_id newId s = None"
  shows "instances_reachable (snd (start_instance xe newId input s))"
proof (cases "get_workflow (xe_workflows xe) (st_workflowId input) (st_workflowVersion input)")
  case (Inl e)
  then show ?thesis using assms(1) by (simp add: start_instance_def and_then_def lift_result_def)
next
  case (Inr d)
  obtain r s1 where cr: "create_if_absent newId (xe_dbnow xe) (create_input input d) s = (r, s1)" by fastforce
  then have s1: "instances_reachable s1" using created[OF assms, of "xe_dbnow xe" "create_input input d"] by simp
  have eq: "snd (start_instance xe newId input s) =
      (case r of Inl e \<Rightarrow> s1 | Inr (inst, created) \<Rightarrow> snd ((if \<not> created then ret (Some inst)
         else advance xe (in_instanceId inst)) s1))"
    unfolding start_unfold[OF Inr] by (simp add: and_then_def cr split: sum.splits prod.splits)
  show ?thesis
  proof (cases r)
    case (Inr x)
    then show ?thesis using eq s1 advanced[OF s1, of xe] by (cases x) (simp add: ret_def)
  qed (use eq s1 in simp)
qed

lemma deliver_reachable:
  assumes "instances_reachable s" and "newId \<notin> set (signal_ids s)"
  shows "instances_reachable (snd (deliver_signal xe newId i name payload s))"
proof -
  obtain r s1 where rec: "record_signal newId (xe_dbnow xe) i name payload s = (r, s1)" by fastforce
  then have s1: "instances_reachable s1"
    using recorded[OF assms, of "xe_dbnow xe" i name payload] by simp
  have "snd (deliver_signal xe newId i name payload s) =
      (case r of Inl e \<Rightarrow> s1 | Inr _ \<Rightarrow> snd (advance xe i s1))"
    by (simp add: deliver_signal_def and_then_def rec split: sum.splits)
  then show ?thesis using s1 advanced[OF s1, of xe i] by (simp split: sum.splits)
qed

lemma instance_tables_invariant_witness:
  "instances_ok (snd (fail_wait_timeout (\<lambda>_. 0) ''i'' ''a''
     (snd (advance chain_env ''i'' (snd (start_instance chain_env ''i'' sample_start empty_db))))))"
proof -
  have "instances_reachable (snd (start_instance chain_env ''i'' sample_start empty_db))"
    by (rule start_reachable[OF instances_reachable.empty]) (simp add: find_by_id_def empty_db_def)
  then show ?thesis
    by (intro instance_tables_invariant instances_reachable.timed_out instances_reachable.advanced)
qed

end
