(* ===== verification/SignalProperties.thy ===== *)
theory SignalProperties
  imports InstanceProperties
begin

text \<open>
  Signals, waits and timeouts: an advance turns open signals into resumed waits one for
  one, an instance never starts waiting for a signal that has already arrived, and what a
  timeout sweep does to the waits it examines.
\<close>

section \<open>Claims\<close>

text \<open>
  The driver hands the updated rows back, in either of its two shapes.
\<close>

definition faithful :: "exec_env \<Rightarrow> bool" where
  "faithful xe \<longleftrightarrow> (\<forall>rows. unwrap_rows (xe_returning xe rows) = rows)"

lemma unwrap_flat: "unwrap_rows (flat_returning rows) = rows"
  by (induction rows) (simp_all add: flat_returning_def)

lemma unwrap_tuple: "unwrap_rows (tuple_returning rows) = rows"
  by (simp add: tuple_returning_def)

lemma sample_faithful: "faithful (sample_env actions answer)"
  by (simp add: faithful_def sample_env_def unwrap_tuple)

definition open_of :: "string \<Rightarrow> instance_db \<Rightarrow> signal_row list" where
  "open_of i s = filter (\<lambda>r. sg_instanceId r = i \<and> sg_consumedAt r = None) (idb_signals s)"

lemma length_filter_patch:
  "distinct rows \<Longrightarrow> c \<in> set rows \<Longrightarrow> p c \<Longrightarrow> \<not> p (f c) \<Longrightarrow>
   Suc (length (filter p (patch_rows (\<lambda>r. r = c) f rows))) = length (filter p rows)"
proof (induction rows)
  case (Cons r rows)
  show ?case
  proof (cases "r = c")
    case True
    then have "patch_rows (\<lambda>r. r = c) f rows = rows"
      using Cons.prems(1) by (intro patch_rows_none) auto
    then show ?thesis using True Cons.prems by simp
  next
    case False
    then show ?thesis using Cons by auto
  qed
qed simp

lemma claim_faithful:
  assumes "faithful xe" and d: "distinct (signal_ids s)"
    and "claim_signal (xe_returning xe) t i name s = (Inr found, s')"
  shows "case found of None \<Rightarrow> s' = s \<and> open_signals i name s = []
     | Some c \<Rightarrow> Suc (length (open_of i s')) = length (open_of i s)"
proof (cases "open_signals i name s")
  case Nil
  then show ?thesis using assms(1,3) by (auto simp: claim_signal_def faithful_def)
next
  case (Cons c cs)
  note h = open_signals_head[OF Cons]
  let ?hit = "\<lambda>r. sg_signalId r = sg_signalId c"
  let ?rows = "patch_rows ?hit (\<lambda>r. r\<lparr>sg_consumedAt := Some t\<rparr>) (idb_signals s)"
  have "c\<lparr>sg_consumedAt := Some t\<rparr> \<in> set (filter ?hit ?rows)"
    using h(1) by (auto simp: set_patch_rows)
  then have "filter ?hit ?rows \<noteq> []" by force
  then have "found \<noteq> None"
    using assms(1,3) Cons by (auto simp: claim_signal_def faithful_def Let_def split: list.splits)
  moreover have "s' = s\<lparr>idb_signals := patch_rows (\<lambda>r. r = c) (\<lambda>r. r\<lparr>sg_consumedAt := Some t\<rparr>) (idb_signals s)\<rparr>"
    using claim_signal_eq[OF d, of "xe_returning xe" t i name] assms(3) Cons by simp
  moreover have "distinct (idb_signals s)" using d by (simp add: signal_ids_def distinct_map)
  ultimately show ?thesis
    using length_filter_patch[OF _ h(1), of "\<lambda>r. sg_instanceId r = i \<and> sg_consumedAt r = None"
        "\<lambda>r. r\<lparr>sg_consumedAt := Some t\<rparr>"] h(2,4)
    by (auto simp: open_of_def)
qed


section \<open>Signals and resumed waits\<close>

definition waits_done :: "string \<Rightarrow> workflow_action list \<Rightarrow> instance_db \<Rightarrow> nat" where
  "waits_done i actions s =
     length (filter (\<lambda>a. is_wait_for_signal a \<and> step_status_of i (wa_actionId a) s = Some StepSucceeded) actions)"

text \<open>Open signals and succeeded waits together.\<close>

definition signal_balance :: "string \<Rightarrow> workflow_action list \<Rightarrow> instance_db \<Rightarrow> nat" where
  "signal_balance i actions s = waits_done i actions s + length (open_of i s)"

lemma waits_done_cong:
  "(\<And>a. a \<in> set actions \<Longrightarrow> is_wait_for_signal a \<Longrightarrow>
      step_status_of i (wa_actionId a) s' = step_status_of i (wa_actionId a) s) \<Longrightarrow>
   waits_done i actions s' = waits_done i actions s"
  unfolding waits_done_def by (intro arg_cong[of _ _ length] filter_cong) auto

lemma waits_done_Suc:
  assumes "distinct (map wa_actionId actions)" and "action \<in> set actions" and "is_wait_for_signal action"
    and "step_status_of i (wa_actionId action) s \<noteq> Some StepSucceeded"
    and "\<And>b. step_status_of i b s' =
      (if b = wa_actionId action then Some StepSucceeded else step_status_of i b s)"
  shows "waits_done i actions s' = Suc (waits_done i actions s)"
  using assms(1,2)
proof (induction actions)
  case (Cons a actions)
  show ?case
  proof (cases "a = action")
    case True
    have "waits_done i actions s' = waits_done i actions s"
    proof (rule waits_done_cong)
      fix b
      assume b: "b \<in> set actions"
      have "wa_actionId action \<notin> wa_actionId ` set actions" using Cons.prems(1) True by simp
      then have "wa_actionId b \<noteq> wa_actionId action" using b by (metis imageI)
      then show "step_status_of i (wa_actionId b) s' = step_status_of i (wa_actionId b) s"
        using assms(5) by simp
    qed
    then show ?thesis using True assms(3-5) by (simp add: waits_done_def)
  next
    case False
    then have "waits_done i actions s' = Suc (waits_done i actions s)" using Cons by simp
    moreover have "wa_actionId a \<noteq> wa_actionId action" using Cons.prems False by auto
    ultimately show ?thesis using assms(5) by (simp add: waits_done_def)
  qed
qed simp

definition balanced ::
  "string \<Rightarrow> workflow_action list \<Rightarrow> nat \<Rightarrow> step_map \<Rightarrow> instance_db \<Rightarrow> bool" where
  "balanced i actions n m s \<longleftrightarrow>
     synced i m s \<and> distinct (signal_ids s) \<and> signal_balance i actions s = n"

lemma visit_signal_ids: "visit_action xe i ctx action m s = (r, s') \<Longrightarrow> signal_ids s' = signal_ids s"
  by (rule same_keys_signal_ids) (rule keepsD[OF keys.keeps_visit])

lemma balanced_progress:
  assumes f: "faithful xe" and ids: "distinct (map wa_actionId actions)" and a: "action \<in> set actions"
    and b: "balanced i actions n m s"
    and v: "visit_action xe i ctx action m s = (Inr (Progressed m'), s')"
  shows "balanced i actions n m' s'"
proof -
  let ?a = "wa_actionId action"
  have sync: "synced i m s" and d: "distinct (signal_ids s)" and n: "signal_balance i actions s = n"
    using b by (simp_all add: balanced_def)
  note p = visit_progressed[OF v]
  note st = step_succeeds_status[OF sync visit_progressed_effect(1)[OF v] p(2)]
  have "step_status_of i ?a s \<noteq> Some StepSucceeded"
    using p(3) synced_status[OF sync] by (simp add: is_done_def)
  from v have "signal_balance i actions s' = n"
  proof (cases rule: visit_progressedE)
    case (resumes params sgl s1)
    have "Suc (length (open_of i s1)) = length (open_of i s)"
      using claim_faithful[OF f d resumes(3)] by simp
    moreover have "idb_signals s' = idb_signals s1" by (rule resume_from_effect(3)[OF resumes(4)])
    then have "open_of i s' = open_of i s1" by (simp add: open_of_def)
    ultimately show ?thesis
      using waits_done_Suc[OF ids a resumes(1) \<open>step_status_of i ?a s \<noteq> Some StepSucceeded\<close> st] n
      by (simp add: signal_balance_def)
  next
    case (calls step out s1)
    have "idb_signals s' = idb_signals s"
      using execute_frame(3)[OF calls(3)] succeed_step_effect(4)[OF calls(4)] by simp
    moreover have "waits_done i actions s' = waits_done i actions s"
    proof (rule waits_done_cong)
      fix b
      assume "b \<in> set actions" "is_wait_for_signal b"
      then have "wa_actionId b \<noteq> ?a" using calls(1) a ids by (metis distinct_map inj_on_def)
      then show "step_status_of i (wa_actionId b) s' = step_status_of i (wa_actionId b) s" using st by simp
    qed
    ultimately show ?thesis using n by (simp add: signal_balance_def open_of_def)
  qed
  then show ?thesis
    using synced_progress[OF sync v] visit_signal_ids[OF v] d by (simp add: balanced_def)
qed

lemma balanced_halted:
  assumes f: "faithful xe" and ids: "distinct (map wa_actionId actions)" and a: "action \<in> set actions"
    and b: "balanced i actions n m s"
    and v: "visit_action xe i ctx action m s = (Inr Halted, s')"
  shows "signal_balance i actions s' = n"
proof -
  have d: "distinct (signal_ids s)" and n: "signal_balance i actions s = n"
    using b by (simp_all add: balanced_def)
  have other: "waits_done i actions s' = waits_done i actions s" if "\<not> is_wait_for_signal action"
  proof (rule waits_done_cong)
    fix b
    assume "b \<in> set actions" "is_wait_for_signal b"
    then have "wa_actionId b \<noteq> wa_actionId action" using that a ids by (metis distinct_map inj_on_def)
    then show "step_status_of i (wa_actionId b) s' = step_status_of i (wa_actionId b) s"
      using visit_halted(3)[OF v] by (simp add: step_status_of_def)
  qed
  from v show ?thesis
  proof (cases rule: visit_haltedE)
    case (waits params s1)
    have "s1 = s" using claim_faithful[OF f d waits(3)] by simp
    then have "idb_steps s' = idb_steps s" "idb_signals s' = idb_signals s"
      using start_waiting_frame[OF waits(4)] by simp_all
    then show ?thesis
      using n by (simp add: signal_balance_def open_of_def waits_done_def step_status_of_def find_step_def)
  next
    case (fails step err s1)
    have "idb_signals s' = idb_signals s"
      using execute_frame(3)[OF fails(3)] fail_instance_effect(3)[OF fails(5)] by simp
    then show ?thesis using n other[OF fails(1)] by (simp add: signal_balance_def open_of_def)
  next
    case (retries step err s1)
    have "idb_signals s' = idb_signals s"
      using execute_frame(3)[OF retries(3)] retries(6) by (simp add: update_step_def)
    then show ?thesis using n other[OF retries(1)] by (simp add: signal_balance_def open_of_def)
  qed
qed

text \<open>
  C8. An advance uses up signals one for one: the number of succeeded waits of the
  instance plus the number of its unconsumed signals stays the same, so every resumed wait
  has consumed exactly one signal and no signal is lost.
\<close>

theorem signals_conserved:
  assumes ok: "instances_ok s" and f: "faithful xe" and inst: "find_by_id i s = Some inst"
    and d: "get_workflow (xe_workflows xe) (in_workflowId inst) (in_workflowVersion inst) = Inr d"
    and ids: "distinct (map wa_actionId (wd_actions d))" and adv: "advance xe i s = (Inr r, s')"
  shows "waits_done i (wd_actions d) s' + length (open_of i s') =
    waits_done i (wd_actions d) s + length (open_of i s)"
  using adv
proof (cases rule: advanceE)
  case (walked inst' d' w s1)
  have dd: "d' = d" using walked(1,3) inst d by simp
  have keys: "keys_ok s" using ok by (simp add: instances_ok_def)
  let ?n = "signal_balance i (wd_actions d) s"
  have steps: "walk_steps xe i ctx (wd_actions d) (balanced i (wd_actions d) ?n)
      (\<lambda>s'. signal_balance i (wd_actions d) s' = ?n)" for ctx
    using balanced_progress[OF f ids] balanced_halted[OF f ids] by (intro walk_stepsI) blast+
  have start: "balanced i (wd_actions d) ?n (step_map_of (find_steps i s)) s"
    using synced_start keys_ok_facts[OF keys] by (simp add: balanced_def)
  have "signal_balance i (wd_actions d) s1 = ?n"
    using walk_rule[OF steps start walked(4)[unfolded dd]] by (cases w) (auto simp: balanced_def)
  moreover have "signal_balance i (wd_actions d) s' = signal_balance i (wd_actions d) s1"
    using walked(5)
    by (simp add: signal_balance_def open_of_def waits_done_def step_status_of_def find_step_def)
  ultimately show ?thesis by (simp add: signal_balance_def)
qed simp



section \<open>Waiting\<close>

text \<open>The signal an instance waits for has not arrived.\<close>

definition waits_in_vain :: "string \<Rightarrow> instance_db \<Rightarrow> bool" where
  "waits_in_vain i s \<longleftrightarrow>
     (case Option.bind (find_by_id i s) in_wait of None \<Rightarrow> True | Some w \<Rightarrow> open_signals i (wx_signalName w) s = [])"

definition no_wait :: "string \<Rightarrow> instance_db \<Rightarrow> bool" where
  "no_wait i s \<longleftrightarrow> Option.bind (find_by_id i s) in_wait = None"

lemma no_wait_cong: "idb_instances s' = idb_instances s \<Longrightarrow> no_wait i s \<Longrightarrow> no_wait i s'"
  by (simp add: no_wait_def find_by_id_def)

lemma no_wait_vain: "no_wait i s \<Longrightarrow> waits_in_vain i s"
  by (simp add: no_wait_def waits_in_vain_def)

lemma no_wait_update:
  "(\<And>r. in_instanceId (f r) = in_instanceId r) \<Longrightarrow> (\<And>r. in_wait (f r) = None) \<Longrightarrow>
   no_wait i (update_instance i f s)"
  by (cases "find_by_id i s") (simp_all add: no_wait_def find_by_id_update)

lemma resume_from_eq:
  "resume_from xe i action sgl s = (r, s') \<Longrightarrow>
   \<exists>s1. s' = update_instance i (\<lambda>r. r\<lparr>in_status := Running, in_wait := None\<rparr>) s1"
  by (auto simp: resume_from_def and_then_def read_clock_def modify_def)

lemma start_waiting_eq:
  assumes "start_waiting xe i action params s = (Inr (), s')"
  shows "\<exists>w c. wx_signalName w = wp_signalName params \<and> s' = update_instance i
    (\<lambda>r. r\<lparr>in_status := Waiting, in_currentState := Some (wa_actionId action), in_wait := Some w\<rparr>)
    (s\<lparr>idb_ticks := c\<rparr>)"
proof -
  from assms obtain now s1 timeoutAt s2 where
    "read_clock (xe_clock xe) s = (Inr now, s1)" "timeout_at xe (wp_timeoutMs params) s1 = (Inr timeoutAt, s2)"
    and s': "s' = update_instance i (\<lambda>r. r\<lparr>in_status := Waiting,
       in_currentState := Some (wa_actionId action),
       in_wait := Some \<lparr>wx_actionId = wa_actionId action, wx_signalName = wp_signalName params,
         wx_waitingSince = iso_render now, wx_timeoutAt = timeoutAt,
         wx_onTimeout = wp_onTimeout params\<rparr>\<rparr>) s2"
    unfolding start_waiting_def by (auto simp: modify_def elim!: and_then_InrE)
  then have "\<exists>c. s2 = s\<lparr>idb_ticks := c\<rparr>"
    by (auto simp: read_clock_def timeout_at_def ret_def lift_result_def elim!: and_then_InrE
        split: option.splits)
  then show ?thesis using s' by (metis wait_descriptor.select_convs(2))
qed

lemma vain_steps:
  assumes f: "faithful xe"
  shows "walk_steps xe i ctx actions (\<lambda>m s. distinct (signal_ids s) \<and> no_wait i s) (waits_in_vain i)"
proof (rule walk_stepsI)
  fix action m s m' s'
  assume p: "distinct (signal_ids s) \<and> no_wait i s"
    and v: "visit_action xe i ctx action m s = (Inr (Progressed m'), s')"
  from v have "no_wait i s'"
  proof (cases rule: visit_progressedE)
    case (resumes params sgl s1)
    from resume_from_eq[OF this(4)] obtain s2 where
      s': "s' = update_instance i (\<lambda>r. r\<lparr>in_status := Running, in_wait := None\<rparr>) s2" by blast
    show ?thesis unfolding s' by (rule no_wait_update) simp_all
  next
    case (calls step out s1)
    have "idb_instances s' = idb_instances s"
      using execute_frame(1)[OF calls(3)] succeed_step_effect(2)[OF calls(4)] by simp
    then show ?thesis using p by (auto intro: no_wait_cong)
  qed
  then show "distinct (signal_ids s') \<and> no_wait i s'" using p visit_signal_ids[OF v] by simp
next
  fix action m s s'
  assume p: "distinct (signal_ids s) \<and> no_wait i s"
    and v: "visit_action xe i ctx action m s = (Inr Halted, s')"
  from v show "waits_in_vain i s'"
  proof (cases rule: visit_haltedE)
    case (waits params s1)
    have s1: "s1 = s" "open_signals i (wp_signalName params) s = []"
      using claim_faithful[OF f _ waits(3)] p by simp_all
    from start_waiting_eq[OF waits(4)] obtain w c where w: "wx_signalName w = wp_signalName params"
      and s': "s' = update_instance i (\<lambda>r. r\<lparr>in_status := Waiting,
        in_currentState := Some (wa_actionId action), in_wait := Some w\<rparr>) (s1\<lparr>idb_ticks := c\<rparr>)" by blast
    have "open_signals i (wx_signalName w) s' = []"
      using s1 w by (simp add: s' open_signals_def update_instance_def)
    then show ?thesis
      by (cases "find_by_id i (s1\<lparr>idb_ticks := c\<rparr>)") (simp_all add: waits_in_vain_def s' find_by_id_update)
  next
    case (fails step err s1)
    from fail_instance_eq[OF fails(5)] obtain s2 where
      s': "s' = update_instance i (\<lambda>r. r\<lparr>in_status := InstFailed, in_currentState := Some (wa_actionId action),
          in_lastError := Some err, in_wait := None\<rparr>) s2" by blast
    show ?thesis unfolding s' by (rule no_wait_vain, rule no_wait_update) simp_all
  next
    case (retries step err s1)
    have "idb_instances s' = idb_instances s"
      using execute_frame(1)[OF retries(3)] retries(6) by (simp add: update_step_def)
    then show ?thesis using p no_wait_cong no_wait_vain by blast
  qed
qed

text \<open>
  C14. An instance never starts waiting for a signal that has already arrived: when an
  advance of a running instance leaves it waiting, no unconsumed signal of the awaited name
  is in the table.
\<close>

theorem waiting_means_no_signal:
  assumes ok: "instances_ok s" and f: "faithful xe" and inst: "find_by_id i s = Some inst"
    and run: "in_status inst = Running" and adv: "advance xe i s = (Inr (Some r), s')"
    and w: "in_wait r = Some w"
  shows "open_signals i (wx_signalName w) s' = []"
  using adv
proof (cases rule: advanceE)
  case terminal
  then show ?thesis using inst run by (simp add: terminal_def)
next
  case (walked inst' d wk s1)
  have "row_ok inst"
    using ok inst find_SomeD[of _ "idb_instances s" inst]
    by (auto simp: instances_ok_def rows_ok_def find_by_id_def list_all_iff)
  then have "in_wait inst = None" using run by (auto simp: row_ok_def split: option.splits)
  then have start: "distinct (signal_ids s) \<and> no_wait i s"
    using ok inst by (simp add: no_wait_def instances_ok_def keys_ok_facts)
  have "wk \<noteq> OutOfFuel" using walk_has_fuel walked(4) by (metis fst_conv)
  with walk_rule[OF vain_steps[OF f] start walked(4)] have "waits_in_vain i s1"
    by (cases wk) (auto simp: no_wait_vain)
  moreover have "waits_in_vain i (mark_completed i s1)"
    unfolding mark_completed_def by (intro no_wait_vain no_wait_update) simp_all
  ultimately have "waits_in_vain i s'" using walked(5) by simp
  moreover have "find_by_id i s' = Some r" using walked(6) by simp
  ultimately show ?thesis using w by (simp add: waits_in_vain_def)
qed



section \<open>When an advance fails\<close>

definition wait_ready :: "exec_env \<Rightarrow> workflow_action \<Rightarrow> bool" where
  "wait_ready xe a \<longleftrightarrow>
     (is_wait_for_signal a \<longrightarrow>
        (case read_wait_parameters a of
           Inl e \<Rightarrow> False
         | Inr params \<Rightarrow>
             (case wp_timeoutMs params of None \<Rightarrow> True
              | Some ms \<Rightarrow> \<forall>k. \<not> isl (deadline_text (xe_clock xe k) ms))))"

lemma claim_signal_total: "\<exists>found s'. claim_signal returning t i name s = (Inr found, s')"
  by (cases "open_signals i name s") (simp_all add: claim_signal_def Let_def)

lemma visit_total:
  assumes "wait_ready xe action"
  shows "\<exists>out s'. visit_action xe i ctx action m s = (Inr out, s')"
proof -
  have wait: "\<exists>out s'. wait_action xe i action m s = (Inr out, s')" if w: "is_wait_for_signal action"
  proof -
    from assms w obtain params where params: "read_wait_parameters action = Inr params"
      and dl: "\<And>ms k. wp_timeoutMs params = Some ms \<Longrightarrow> \<not> isl (deadline_text (xe_clock xe k) ms)"
      by (cases "read_wait_parameters action") (auto simp: wait_ready_def split: option.splits)
    obtain found s1 where cl: "claim_signal (xe_returning xe) (xe_dbnow xe) i (wp_signalName params) s = (Inr found, s1)"
      using claim_signal_total by blast
    show ?thesis
    proof (cases found)
      case None
      have "\<exists>t s2. timeout_at xe (wp_timeoutMs params) s' = (Inr t, s2)" for s'
      proof (cases "wp_timeoutMs params")
        case (Some ms)
        then obtain t where "deadline_text (xe_clock xe (idb_ticks s')) ms = Inr t"
          using dl[OF Some, of "idb_ticks s'"] by (cases "deadline_text (xe_clock xe (idb_ticks s')) ms") auto
        then show ?thesis
          using Some by (simp add: timeout_at_def and_then_def read_clock_def lift_result_def ret_def)
      qed (simp add: timeout_at_def ret_def)
      then have "\<exists>s2. start_waiting xe i action params s1 = (Inr (), s2)"
        unfolding start_waiting_def and_then_def read_clock_def modify_def
        by (simp split: prod.split sum.split) (metis Inl_Inr_False prod.inject)
      then show ?thesis
        using cl None by (auto simp: wait_action_def lift_result_def params and_then_def ret_def)
    next
      case (Some sgl)
      then show ?thesis
        using cl by (simp add: wait_action_def lift_result_def params and_then_def ret_def
            resume_from_def read_clock_def modify_def)
    qed
  qed
  have call: "\<exists>out s'. call_action xe i ctx action step m s = (Inr out, s')" for step
  proof -
    obtain res s1 where ex: "execute (xe_env xe) (xe_net xe) (xe_clock xe) action ctx s = (Inr res, s1)"
      using execute_result[where env = "xe_env xe" and net = "xe_net xe" and clock = "xe_clock xe"
          and action = action and ctx = ctx and s = s]
      by (cases "execute (xe_env xe) (xe_net xe) (xe_clock xe) action ctx s") (auto split: sum.splits)
    then show ?thesis
      by (cases res) (simp_all add: call_action_def and_then_def Let_def ret_def succeed_step_def
          read_clock_def modify_def fail_instance_def)
  qed
  show ?thesis using wait call by (simp add: visit_action_def ret_def split: option.splits)
qed

lemma walk_total:
  assumes "list_all (wait_ready xe) actions"
  shows "\<exists>w s'. walk fuel xe i ctx actions m s = (Inr w, s')"
proof (induction fuel arbitrary: m s)
  case (Suc fuel)
  have "\<exists>r s'. pass_actions xe i ctx actions b m s = (Inr r, s')" for b m s
    using assms
  proof (induction actions arbitrary: b m s)
    case (Cons a actions)
    then have "wait_ready xe a" and rest: "list_all (wait_ready xe) actions" by simp_all
    from visit_total[OF this(1)] obtain out s1 where v: "visit_action xe i ctx a m s = (Inr out, s1)" by blast
    note IH = Cons.IH[OF rest]
    show ?case using v IH by (cases out) (simp_all add: and_then_def ret_def)
  qed (simp add: ret_def)
  then obtain r s1 where "pass_actions xe i ctx actions False m s = (Inr r, s1)" by blast
  then show ?case
    using Suc.IH by (cases r) (auto simp: and_then_def ret_def split: prod.split)
qed (simp add: ret_def)

text \<open>
  C27. An advance of a stored instance of a registered workflow returns the instance,
  whatever the network answers; it can only fail on a wait action without a signal name or
  with a deadline that is no valid date.
\<close>

theorem advance_returns_instance:
  assumes inst: "find_by_id i s = Some inst"
    and d: "get_workflow (xe_workflows xe) (in_workflowId inst) (in_workflowVersion inst) = Inr d"
    and ready: "list_all (wait_ready xe) (wd_actions d)"
  shows "\<exists>r s'. advance xe i s = (Inr (Some r), s') \<and> in_instanceId r = i \<and> find_by_id i s' = Some r"
proof (cases "terminal (in_status inst)")
  case True
  then show ?thesis
    using inst find_by_id_SomeD[OF inst]
    by (simp add: advance_def with_locked_instance_def inst_transaction_def advance_locked_def ret_def)
next
  case False
  obtain w s1 where wk: "walk (Suc (length (wd_actions d))) xe i (in_context inst) (wd_actions d)
      (step_map_of (find_steps i s)) s = (Inr w, s1)"
    using walk_total[OF ready] by blast
  let ?s' = "if completes (wd_actions d) w then mark_completed i s1 else s1"
  have adv: "advance xe i s = (Inr (find_by_id i ?s'), ?s')"
    using inst d wk False
    by (simp add: advance_def with_locked_instance_def inst_transaction_def advance_locked_def
        and_then_def lift_result_def read_state_def finish_walk_eq Let_def del: walk.simps)
  have "find_by_id i s1 \<noteq> None"
    using keepsD[OF kept.keeps_walk wk] inst by (simp add: preserves_def)
  then have "find_by_id i ?s' \<noteq> None" by (simp add: find_by_id_mark_completed)
  then obtain r where r: "find_by_id i ?s' = Some r" by blast
  then show ?thesis using adv find_by_id_SomeD[OF r] by simp
qed



section \<open>A waiting workflow\<close>

abbreviation pause_action :: workflow_action where
  "pause_action \<equiv> sample_action ''pause'' ''wait-for-signal'' [] [(''signalName'', JStr ''go'')]"

abbreviation pause_env :: exec_env where
  "pause_env \<equiv> sample_env [pause_action] accepted_answer"

abbreviation pause_workflow :: workflow_definition where
  "pause_workflow \<equiv> sample_workflow [pause_action]"

abbreviation pause_instance :: instance_row where
  "pause_instance \<equiv> new_instance ''i'' 0 (create_input sample_start pause_workflow)"

definition pause_db :: "signal_row list \<Rightarrow> instance_db" where
  "pause_db signals = empty_db\<lparr>idb_instances := [pause_instance],
     idb_steps := [pending_step ''i'' ''pause''], idb_signals := signals\<rparr>"

definition go_signal :: signal_row where
  "go_signal = \<lparr>sg_signalId = ''s'', sg_instanceId = ''i'', sg_name = ''go'', sg_payload = [],
     sg_receivedAt = 0, sg_consumedAt = None\<rparr>"

lemma pause_facts:
  "find_by_id ''i'' (pause_db signals) = Some pause_instance"
  "get_workflow (xe_workflows pause_env) (in_workflowId pause_instance) (in_workflowVersion pause_instance) =
     Inr pause_workflow"
  "wd_actions pause_workflow = [pause_action]" "in_status pause_instance = Running"
  by (simp add: pause_db_def find_by_id_def new_instance_def,
      simp add: sample_get new_instance_def create_input_def sample_start_def,
      simp add: sample_workflow_def, simp add: new_instance_def)

lemma pause_ok: "list_all (\<lambda>r. sg_instanceId r = ''i'') signals \<Longrightarrow> distinct (map sg_signalId signals) \<Longrightarrow>
  instances_ok (pause_db signals)"
  by (auto simp: instances_ok_def keys_ok_iff rows_ok_def attempts_ok_def pause_db_def signal_ids_def
      pending_step_def tried_def row_ok_def new_instance_def list_all_iff)

lemma pause_ready: "list_all (wait_ready pause_env) (wd_actions pause_workflow)"
proof -
  have "wait_ready xe pause_action" for xe
    by (simp add: wait_ready_def read_wait_parameters_def read_timeout_ms_def sample_action_def)
  then show ?thesis by (simp add: pause_facts(3))
qed

lemma advance_returns_instance_witness:
  "\<exists>r s'. advance pause_env ''i'' (pause_db []) = (Inr (Some r), s') \<and> in_instanceId r = ''i'' \<and>
     find_by_id ''i'' s' = Some r"
  by (rule advance_returns_instance[OF pause_facts(1,2) pause_ready])

lemma pause_advances:
  "\<exists>r s'. advance pause_env ''i'' (pause_db signals) = (Inr (Some r), s')"
proof -
  obtain w s1 where wk: "walk (Suc (length (wd_actions pause_workflow))) pause_env ''i''
      (in_context pause_instance) (wd_actions pause_workflow)
      (step_map_of (find_steps ''i'' (pause_db signals))) (pause_db signals) = (Inr w, s1)"
    using walk_total[OF pause_ready] by blast
  let ?s' = "if completes (wd_actions pause_workflow) w then mark_completed ''i'' s1 else s1"
  have adv: "advance pause_env ''i'' (pause_db signals) = (Inr (find_by_id ''i'' ?s'), ?s')"
    using pause_facts(1,2,4) wk
    by (simp add: advance_def with_locked_instance_def inst_transaction_def advance_locked_def
        terminal_def and_then_def lift_result_def read_state_def finish_walk_eq Let_def del: walk.simps)
  have "find_by_id ''i'' s1 \<noteq> None"
    using keepsD[OF kept.keeps_walk wk] pause_facts(1) by (simp add: preserves_def)
  then have "find_by_id ''i'' ?s' \<noteq> None" by (simp add: find_by_id_mark_completed)
  then show ?thesis using adv by auto
qed

lemma signals_conserved_witness:
  "\<exists>r s'. advance pause_env ''i'' (pause_db [go_signal]) = (Inr r, s') \<and>
     waits_done ''i'' [pause_action] s' + length (open_of ''i'' s') = 1"
proof -
  obtain r s' where adv: "advance pause_env ''i'' (pause_db [go_signal]) = (Inr (Some r), s')"
    using pause_advances by blast
  have "instances_ok (pause_db [go_signal])" by (rule pause_ok) (simp_all add: go_signal_def)
  from signals_conserved[OF this sample_faithful pause_facts(1,2) _ adv]
  have "waits_done ''i'' [pause_action] s' + length (open_of ''i'' s') =
      waits_done ''i'' [pause_action] (pause_db [go_signal]) + length (open_of ''i'' (pause_db [go_signal]))"
    by (simp add: pause_facts)
  moreover have "open_of ''i'' (pause_db [go_signal]) = [go_signal]"
    by (simp add: open_of_def pause_db_def go_signal_def)
  moreover have "waits_done ''i'' [pause_action] (pause_db [go_signal]) = 0"
    by (simp add: waits_done_def step_status_of_def find_step_def pause_db_def pending_step_def sample_action_def)
  ultimately show ?thesis using adv by auto
qed

lemma pause_waits:
  "\<exists>r s' w. advance pause_env ''i'' (pause_db []) = (Inr (Some r), s') \<and> in_wait r = Some w \<and>
     wx_signalName w = ''go''"
proof -
  let ?s = "pause_db []" and ?m = "step_map_of (find_steps ''i'' (pause_db []))"
  let ?w = "\<lparr>wx_actionId = ''pause'', wx_signalName = ''go'', wx_waitingSince = iso_render 0,
      wx_timeoutAt = None, wx_onTimeout = OnTimeoutFail\<rparr>"
  let ?s1 = "update_instance ''i'' (\<lambda>r. r\<lparr>in_status := Waiting, in_currentState := Some ''pause'',
      in_wait := Some ?w\<rparr>) (?s\<lparr>idb_ticks := Suc 0\<rparr>)"
  have m: "obj_get ?m ''pause'' = Some \<lparr>sv_status = StepPending, sv_attempts = 0\<rparr>"
    by (simp add: step_map_of_def find_steps_def pause_db_def pending_step_def)
  have par: "read_wait_parameters pause_action =
      Inr \<lparr>wp_signalName = ''go'', wp_timeoutMs = None, wp_onTimeout = OnTimeoutFail\<rparr>"
    by (simp add: read_wait_parameters_def read_timeout_ms_def sample_action_def)
  have cl: "claim_signal (xe_returning pause_env) t ''i'' ''go'' ?s = (Inr None, ?s)" for t
    by (simp add: claim_signal_def open_signals_def pause_db_def empty_db_def sample_env_def tuple_returning_def)
  have clk: "read_clock (xe_clock pause_env) ?s = (Inr 0, ?s\<lparr>idb_ticks := Suc 0\<rparr>)"
    by (simp add: read_clock_def sample_env_def pause_db_def empty_db_def)
  have act: "wa_actionId pause_action = ''pause''" "is_wait_for_signal pause_action"
      "dependencies_met pause_action ?m"
    by (simp_all add: sample_action_def is_wait_for_signal_def dependencies_met_def)
  have "wait_action pause_env ''i'' pause_action ?m ?s = (Inr Halted, ?s1)"
    by (simp add: wait_action_def lift_result_def par and_then_def cl start_waiting_def clk act
        timeout_at_def ret_def modify_def)
  then have "visit_action pause_env ''i'' (in_context pause_instance) pause_action ?m ?s = (Inr Halted, ?s1)"
    using act m by (simp add: visit_action_def is_done_def)
  then have wk: "walk (Suc (length [pause_action])) pause_env ''i'' (in_context pause_instance) [pause_action] ?m ?s =
      (Inr WalkHalted, ?s1)"
    by (simp add: and_then_def ret_def)
  have "advance pause_env ''i'' ?s = (Inr (find_by_id ''i'' ?s1), ?s1)"
    using pause_facts wk
    by (simp add: advance_def with_locked_instance_def inst_transaction_def advance_locked_def terminal_def
        and_then_def lift_result_def read_state_def finish_walk_eq completes_def Let_def del: walk.simps)
  moreover have "find_by_id ''i'' (?s\<lparr>idb_ticks := Suc 0\<rparr>) = Some pause_instance"
    using pause_facts(1) by (simp add: find_by_id_def)
  ultimately show ?thesis by (simp add: find_by_id_update)
qed

lemma waiting_means_no_signal_witness:
  "\<exists>r s' w. advance pause_env ''i'' (pause_db []) = (Inr (Some r), s') \<and> in_wait r = Some w \<and>
     wx_signalName w = ''go'' \<and> open_signals ''i'' ''go'' s' = []"
proof -
  from pause_waits obtain r s' w where adv: "advance pause_env ''i'' (pause_db []) = (Inr (Some r), s')"
    and w: "in_wait r = Some w" "wx_signalName w = ''go''" by blast
  have "instances_ok (pause_db [])" by (rule pause_ok) simp_all
  from waiting_means_no_signal[OF this sample_faithful pause_facts(1,4) adv w(1)] show ?thesis
    using adv w by auto
qed

section \<open>Timeouts\<close>

text \<open>
  C37. Failing a timed-out wait takes no lock and looks at no status: whatever the instance
  has become since the sweep read it, completed or cancelled included, it is failed.
\<close>

theorem timeout_overrides_status:
  assumes "find_by_id i s = Some inst"
  shows "status_in i (snd (fail_wait_timeout clock i a s)) = Some InstFailed"
proof -
  obtain err t c where "snd (fail_wait_timeout clock i a s) =
     update_instance i (\<lambda>r. r\<lparr>in_status := InstFailed, in_lastError := Some err, in_wait := None\<rparr>)
       (update_step i a (\<lambda>r. r\<lparr>sp_status := StepFailed, sp_error := Some err, sp_finishedAt := Some t\<rparr>)
         (s\<lparr>idb_ticks := c\<rparr>))"
    using fail_wait_timeout_eq by blast
  moreover have "find_by_id i (update_step i a f (s\<lparr>idb_ticks := c\<rparr>)) = Some inst" for f
    using assms by (simp add: find_by_id_def update_step_def)
  ultimately show ?thesis by (simp add: status_in_def find_by_id_update)
qed

lemma timeout_overrides_status_witness:
  "\<exists>r s'. advance chain_env ''i'' chain_db = (Inr (Some r), s') \<and> in_status r = Completed \<and>
     status_in ''i'' (snd (fail_wait_timeout (\<lambda>_. 0) ''i'' ''a'' s')) = Some InstFailed"
proof -
  from chain_advance obtain r s' where adv: "advance chain_env ''i'' chain_db = (Inr (Some r), s')"
    and c: "in_status r = Completed" by blast
  have "find_by_id ''i'' s' = Some r" using advance_returns[OF adv] by simp
  from timeout_overrides_status[OF this] show ?thesis using adv c by blast
qed


section \<open>The sweep\<close>

text \<open>Once failed, an instance stays failed through whatever a sweep does.\<close>

lemma all_failed_update_other:
  "i \<noteq> j \<Longrightarrow> (\<And>r. in_instanceId (f r) = in_instanceId r) \<Longrightarrow> all_failed j s \<Longrightarrow>
   all_failed j (update_instance i f s)"
  by (auto simp: all_failed_def update_instance_def list_all_iff set_patch_rows)

lemma all_failed_cong: "idb_instances s' = idb_instances s \<Longrightarrow> all_failed j s \<Longrightarrow> all_failed j s'"
  by (simp add: all_failed_def)

interpretation failed: advance_frame "\<lambda>s s'. i \<noteq> j \<longrightarrow> all_failed j s \<longrightarrow> all_failed j s'" i for i j
proof unfold_locales
  show "keeps (\<lambda>s s'. i \<noteq> j \<longrightarrow> all_failed j s \<longrightarrow> all_failed j s') (claim_signal returning t i name)"
    for i j returning t name
    by (rule claim_signal_keeps_instances) (auto intro: all_failed_cong)
qed (auto simp: same_tables_def tables_def update_step_def mark_completed_def
      intro: all_failed_cong all_failed_update_other)

lemma advance_keeps_failed: "all_failed j s \<Longrightarrow> all_failed j (snd (advance xe i s))"
proof (cases "i = j")
  case False
  then show "all_failed j s \<Longrightarrow> ?thesis" using failed.keeps_advance[of i j xe] by (auto simp: keeps_def)
next
  case True
  assume f: "all_failed j s"
  show ?thesis
  proof (cases "find_by_id i s")
    case None
    then show ?thesis
      using f by (simp add: advance_def with_locked_instance_def inst_transaction_def throw_def all_failed_def)
  next
    case (Some inst)
    then have "in_status inst = InstFailed"
      using f True find_SomeD[of _ "idb_instances s" inst]
      by (auto simp: all_failed_def find_by_id_def list_all_iff)
    then show ?thesis
      using f Some by (simp add: advance_def with_locked_instance_def inst_transaction_def
          advance_locked_def terminal_def ret_def)
  qed
qed

lemma deliver_keeps_failed:
  assumes "all_failed j s"
  shows "all_failed j (snd (deliver_signal xe newId i name payload s))"
proof (cases "find_by_id i s")
  case None
  then show ?thesis using assms by (simp add: deliver_signal_def and_then_def record_signal_def)
next
  case (Some inst)
  obtain r s1 where rec: "record_signal newId (xe_dbnow xe) i name payload s = (Inr r, s1)"
    and same: "idb_instances s1 = idb_instances s"
    using Some by (simp add: record_signal_def Let_def)
  have "all_failed j s1" by (rule all_failed_cong[OF same assms])
  then show ?thesis using advance_keeps_failed by (simp add: deliver_signal_def and_then_def rec)
qed

lemma timeout_fails:
  "all_failed j s \<or> j = i \<Longrightarrow> all_failed j (snd (fail_wait_timeout clock i a s))"
proof -
  assume j: "all_failed j s \<or> j = i"
  obtain err t c where eq: "snd (fail_wait_timeout clock i a s) =
     update_instance i (\<lambda>r. r\<lparr>in_status := InstFailed, in_lastError := Some err, in_wait := None\<rparr>)
       (update_step i a (\<lambda>r. r\<lparr>sp_status := StepFailed, sp_error := Some err, sp_finishedAt := Some t\<rparr>)
         (s\<lparr>idb_ticks := c\<rparr>))"
    using fail_wait_timeout_eq by blast
  show ?thesis
  proof (cases "j = i")
    case True
    show ?thesis unfolding eq True by (rule all_failed_update) simp
  next
    case False
    have "all_failed j (update_step i a f (s\<lparr>idb_ticks := c\<rparr>))" for f
      using j False all_failed_cong[of "update_step i a f (s\<lparr>idb_ticks := c\<rparr>)" s j] by (simp add: update_step_def)
    then show ?thesis unfolding eq using False by (intro all_failed_update_other) simp_all
  qed
qed

definition fails_on_timeout :: "instance_row \<Rightarrow> bool" where
  "fails_on_timeout r \<longleftrightarrow> (case in_wait r of None \<Rightarrow> False | Some w \<Rightarrow> wx_onTimeout w = OnTimeoutFail)"

lemma sweep_one_outcome:
  assumes "sweep_one xe newId inst s = ((f, c), s')"
  shows "f = (if fails_on_timeout inst then 1 else 0)" and "f + c \<le> 1"
    and "fails_on_timeout inst \<Longrightarrow> all_failed (in_instanceId inst) s'"
    and "all_failed j s \<Longrightarrow> all_failed j s'"
proof -
  have all: "f = (if fails_on_timeout inst then 1 else 0) \<and> f + c \<le> 1 \<and>
      (fails_on_timeout inst \<longrightarrow> all_failed (in_instanceId inst) s') \<and> (all_failed j s \<longrightarrow> all_failed j s')" for j
  proof (cases "in_wait inst")
    case None
    then show ?thesis using assms by (auto simp: sweep_one_def fails_on_timeout_def)
  next
    case (Some w)
    show ?thesis
    proof (cases "wx_onTimeout w")
      case OnTimeoutFail
      have "fst (fail_wait_timeout (xe_clock xe) (in_instanceId inst) (wx_actionId w) s) = Inr ()"
        using fail_wait_timeout_eq by blast
      then have "f = 1 \<and> c = 0 \<and> s' = snd (fail_wait_timeout (xe_clock xe) (in_instanceId inst) (wx_actionId w) s)"
        using assms Some OnTimeoutFail by (auto simp: sweep_one_def split: prod.splits sum.splits)
      then show ?thesis using timeout_fails Some OnTimeoutFail by (simp add: fails_on_timeout_def)
    next
      case OnTimeoutContinue
      let ?m = "deliver_signal xe newId (in_instanceId inst) (wx_signalName w) [(''timedOut'', JBool True)] s"
      have "f = 0 \<and> c \<le> 1 \<and> s' = snd ?m"
        using assms Some OnTimeoutContinue by (auto simp: sweep_one_def split: prod.splits sum.splits)
      then show ?thesis using deliver_keeps_failed Some OnTimeoutContinue by (simp add: fails_on_timeout_def)
    qed
  qed
  show "f = (if fails_on_timeout inst then 1 else 0)" "f + c \<le> 1"
    "fails_on_timeout inst \<Longrightarrow> all_failed (in_instanceId inst) s'" "all_failed j s \<Longrightarrow> all_failed j s'"
    using all by blast+
qed

lemma sweep_all_outcome:
  "sweep_all xe ids insts s = ((f, c), s') \<Longrightarrow>
   f = length (filter fails_on_timeout insts) \<and> f + c \<le> length insts \<and>
   list_all (\<lambda>r. fails_on_timeout r \<longrightarrow> all_failed (in_instanceId r) s') insts \<and>
   (\<forall>j. all_failed j s \<longrightarrow> all_failed j s')"
proof (induction insts arbitrary: s f c s')
  case (Cons inst insts)
  obtain f1 c1 s1 where one: "sweep_one xe (ids (length insts)) inst s = ((f1, c1), s1)"
    by (metis prod.exhaust)
  obtain f2 c2 s2 where rest: "sweep_all xe ids insts s1 = ((f2, c2), s2)" by (metis prod.exhaust)
  have eq: "f = f1 + f2" "c = c1 + c2" "s' = s2" using Cons.prems by (simp_all add: one rest)
  show ?case
    using sweep_one_outcome[OF one] Cons.IH[OF rest] by (auto simp: eq)
qed simp

text \<open>
  A sweep examines every expired wait: each of those that fail on timeout is counted
  as failed and its instance is failed at the end of the sweep, whatever the signals
  delivered in the same sweep do; the others are counted at most once. When the deadlines
  cannot be read the sweep fails and does nothing.
\<close>

lemma sweep_outcome:
  "case find_expired_waits as_timestamp now s of
     Inl e \<Rightarrow> sweep xe as_timestamp ids now s = (Inl e, s)
   | Inr expired \<Rightarrow>
       (case sweep xe as_timestamp ids now s of
          (Inl e, s') \<Rightarrow> False
        | (Inr res, s') \<Rightarrow>
            sw_examined res = length expired \<and>
            sw_failed res = length (filter fails_on_timeout expired) \<and>
            sw_failed res + sw_continued res \<le> sw_examined res \<and>
            list_all (\<lambda>r. all_failed (in_instanceId r) s') (filter fails_on_timeout expired))"
proof (cases "find_expired_waits as_timestamp now s")
  case (Inr expired)
  obtain f c s' where all: "sweep_all xe ids expired s = ((f, c), s')" by (metis prod.exhaust)
  have "sweep xe as_timestamp ids now s =
      (Inr \<lparr>sw_examined = length expired, sw_failed = f, sw_continued = c\<rparr>, s')"
    by (simp add: sweep_def Inr all)
  moreover note sweep_all_outcome[OF all]
  moreover from this have "list_all (\<lambda>r. all_failed (in_instanceId r) s') (filter fails_on_timeout expired)"
    by (simp add: list_all_iff)
  ultimately show ?thesis using Inr by simp
qed (simp add: sweep_def)

end
