(* ===== verification/InstanceApi.thy ===== *)
theory InstanceApi
  imports Executor
begin

text \<open>
  The HTTP surface of instances: \<open>src/src/instances/instance.controller.ts\<close>. Each
  handler fills in defaults, translates a miss and passes the call on.
\<close>

record create_instance_dto =
  cd_workflowId :: string
  cd_workflowVersion :: int
  cd_correlationKey :: string
  cd_context :: "json_object option"

record deliver_signal_dto =
  ds_name :: string
  ds_payload :: "json_object option"

definition create_handler ::
  "exec_env \<Rightarrow> string \<Rightarrow> create_instance_dto \<Rightarrow> (instance_db, instance_row option) op" where
  "create_handler xe newId body =
     start_instance xe newId
       \<lparr>st_workflowId = cd_workflowId body, st_workflowVersion = cd_workflowVersion body,
        st_correlationKey = cd_correlationKey body,
        st_context = Some (case cd_context body of None \<Rightarrow> [] | Some c \<Rightarrow> c)\<rparr>"

definition list_handler :: "string option \<Rightarrow> string option \<Rightarrow> (instance_db, instance_row list) op" where
  "list_handler correlationKey status = read_state (list_instances correlationKey status)"

definition instance_missing :: "string \<Rightarrow> error" where
  "instance_missing i = NotFoundException (''workflow instance '' @ i @ '' not found'')"

definition find_one :: "string \<Rightarrow> (instance_db, instance_row) op" where
  "find_one i =
     and_then (read_state (find_by_id i)) (\<lambda>found.
       case found of None \<Rightarrow> throw (instance_missing i) | Some inst \<Rightarrow> ret inst)"

definition audit_handler :: "string \<Rightarrow> (instance_db, instance_row \<times> step_row list) op" where
  "audit_handler i =
     and_then (read_state (find_by_id i)) (\<lambda>found.
       case found of
         None \<Rightarrow> throw (instance_missing i)
       | Some inst \<Rightarrow> and_then (read_state (find_steps i)) (\<lambda>steps. ret (inst, steps)))"

definition signal_handler ::
  "exec_env \<Rightarrow> string \<Rightarrow> string \<Rightarrow> deliver_signal_dto \<Rightarrow> (instance_db, instance_row option) op" where
  "signal_handler xe newId i body =
     deliver_signal xe newId i (ds_name body) (case ds_payload body of None \<Rightarrow> [] | Some p \<Rightarrow> p)"

definition cancel_handler :: "string \<Rightarrow> (instance_db, instance_row option) op" where
  "cancel_handler i = cancel_instance i"

text \<open>
  For an instance that is not stored no request changes any table; reading it is
  answered with a not-found error and cancelling it with the repository's typed miss, but a
  signal to it surfaces as a violated foreign key of the database.
\<close>

theorem unknown_instance_requests:
  assumes "find_by_id i s = None"
  shows "find_one i s = (Inl (instance_missing i), s) \<and>
    audit_handler i s = (Inl (instance_missing i), s) \<and>
    fst (cancel_handler i s) = Inl (InstanceNotFoundError i) \<and>
    snd (cancel_handler i s) = s \<and>
    signal_handler xe newId i body s =
      (Inl (ForeignKeyViolation ''bpcp_instance_signal_instanceId_fkey''), s)"
  using assms
  by (simp add: find_one_def audit_handler_def cancel_handler_def cancel_instance_def
      with_locked_instance_def inst_transaction_def signal_handler_def deliver_signal_def
      record_signal_def and_then_def read_state_def throw_def)

lemma unknown_instance_requests_witness:
  "let s = \<lparr>idb_instances = [], idb_steps = [], idb_signals = [], idb_requests = [], idb_ticks = 0\<rparr> in
   find_one ''i'' s = (Inl (instance_missing ''i''), s) \<and>
   signal_handler
     \<lparr>xe_workflows = [], xe_env = (\<lambda>_. None), xe_net = (\<lambda>_ _. NetworkError []), xe_clock = (\<lambda>_. 0),
      xe_returning = tuple_returning, xe_dbnow = 0\<rparr> ''s'' ''i'' \<lparr>ds_name = ''go'', ds_payload = None\<rparr> s =
     (Inl (ForeignKeyViolation ''bpcp_instance_signal_instanceId_fkey''), s)"
proof -
  let ?s = "\<lparr>idb_instances = [], idb_steps = [], idb_signals = [], idb_requests = [], idb_ticks = 0\<rparr>"
  have "find_by_id ''i'' ?s = None" by (simp add: find_by_id_def)
  from unknown_instance_requests[OF this] show ?thesis by (simp add: Let_def)
qed

end
