(* ===== verification/Policy.thy ===== *)
theory Policy
  imports Workflow
begin

text \<open>
  Policy definitions: \<open>src/src/policies/policy.types.ts\<close> (the data) and
  \<open>policy-registry.service.ts\<close> (the built-in Holiday Discount policy, the registry
  and the validation). A policy value is a JSON value; an absent optional field is
  \<open>None\<close>.
\<close>

section \<open>Data\<close>

definition known_policy_condition_types :: "string list" where
  "known_policy_condition_types =
     [''process-window'', ''category-match'', ''customer-segment'', ''kill-switch'']"

definition known_policy_effect_types :: "string list" where
  "known_policy_effect_types = [''percentage-discount'', ''stacking-rule'', ''display-badge'']"

datatype policy_operator =
    OpEquals | OpNotEquals | OpIn | OpNotIn | OpAnyOf | OpAllOf | OpBetween | OpExists

record policy_condition =
  pc_conditionId :: string
  pc_type :: string
  pc_factRef :: string
  pc_operator :: policy_operator
  pc_value :: "json option"
  pc_parameters :: "json_object option"
  pc_serviceCapabilityRefs :: "capability_ref list option"

record policy_effect =
  pe_effectId :: string
  pe_type :: string
  pe_target :: string
  pe_parameters :: json_object
  pe_serviceCapabilityRefs :: "capability_ref list"

record policy_audit =
  pm_createdBy :: string
  pm_source :: string
  pm_notes :: "string list"

record policy_definition =
  po_schemaVersion :: string
  po_policyId :: string
  po_version :: int
  po_status :: lifecycle_status
  po_description :: string
  po_appliesToProcessRefs :: "string list"
  po_priority :: int
  po_conditions :: "policy_condition list"
  po_effects :: "policy_effect list"
  po_requiredCapabilities :: "capability_ref list"
  po_missingRuntimeFacts :: "string list"
  po_audit :: policy_audit
  po_createdAt :: string
  po_updatedAt :: string

record policy_validation =
  pr_policyId :: string
  pr_version :: int
  pr_valid :: bool
  pr_findings :: "ref_finding list"


section \<open>The built-in Holiday Discount policy\<close>

definition holiday_policy_created_at :: string where
  "holiday_policy_created_at = ''2026-07-02T00:00:00.000Z''"

definition holiday_discount_policy :: policy_definition where
  "holiday_discount_policy =
   \<lparr>po_schemaVersion = ''bpcp.policy.v1'',
    po_policyId = ''holiday-10-percent-selected-categories'',
    po_version = 1,
    po_status = Draft,
    po_description = ''Apply a 10 percent holiday discount to approved selected-category items for the Holiday Discount 2026 process.'',
    po_appliesToProcessRefs = [''holiday-discount-2026''],
    po_priority = 100,
    po_conditions =
      [\<lparr>pc_conditionId = ''holiday-process-window-active'',
        pc_type = ''process-window'',
        pc_factRef = ''holiday-discount-2026.activeWindow'',
        pc_operator = OpBetween,
        pc_value = None,
        pc_parameters = Some
          [(''activeFrom'', JStr ''2026-12-01T00:00:00Z''),
           (''activeTo'', JStr ''2027-01-07T23:59:59Z'')],
        pc_serviceCapabilityRefs = None\<rparr>,
       \<lparr>pc_conditionId = ''product-in-selected-holiday-category'',
        pc_type = ''category-match'',
        pc_factRef = ''catalog.product.categoryRefs'',
        pc_operator = OpAnyOf,
        pc_value = None,
        pc_parameters = Some
          [(''selectedCategoryRefs'',
            JArr [JStr ''[MISSING: approved Holiday Discount selected category references]''])],
        pc_serviceCapabilityRefs = Some
          [cap_ref_because ''catalog-microservice'' ''discount-eligibility-facts''
             ''Catalog owns product category and eligibility facts for selected-category matching.'']\<rparr>,
       \<lparr>pc_conditionId = ''holiday-kill-switch-enabled'',
        pc_type = ''kill-switch'',
        pc_factRef = ''holiday-discount-2026.killSwitch'',
        pc_operator = OpEquals,
        pc_value = Some (JBool True),
        pc_parameters = None,
        pc_serviceCapabilityRefs = None\<rparr>],
    po_effects =
      [\<lparr>pe_effectId = ''apply-ten-percent-line-discount'',
        pe_type = ''percentage-discount'',
        pe_target = ''eligible-line-items'',
        pe_parameters =
          [(''percent'', JNum (Fin 10)),
           (''label'', JStr ''Holiday 10%''),
           (''roundingMode'', JStr ''[MISSING: pricing rounding mode and monetary precision contract]'')],
        pe_serviceCapabilityRefs =
          [cap_ref_because ''[MISSING: pricing service owner]'' ''discount-evaluation''
             ''Monetary authority must evaluate and quote the discount.'']\<rparr>,
       \<lparr>pe_effectId = ''block-unapproved-discount-stacking'',
        pe_type = ''stacking-rule'',
        pe_target = ''discount-combinability'',
        pe_parameters =
          [(''allowStacking'', JBool False),
           (''precedence'', JStr ''[MISSING: approved discount precedence and stacking contract]'')],
        pe_serviceCapabilityRefs =
          [cap_ref_because ''[MISSING: pricing service owner]'' ''final-price-quote''
             ''Final quote owner must enforce precedence and prevent unauthorized stacking.'']\<rparr>],
    po_requiredCapabilities =
      [cap_ref_because ''catalog-microservice'' ''discount-eligibility-facts''
         ''Selected-category eligibility source.'',
       cap_ref_because ''[MISSING: pricing service owner]'' ''discount-evaluation''
         ''Discount calculation and final price quote source.''],
    po_missingRuntimeFacts =
      [''[MISSING: approved Holiday Discount selected category references]'',
       ''[MISSING: pricing service owner and API contract]'',
       ''[MISSING: pricing rounding mode and monetary precision contract]'',
       ''[MISSING: approved discount precedence and stacking contract]''],
    po_audit =
      \<lparr>pm_createdBy = ''bpcp-policy-workflow lane'',
       pm_source = ''BPCP Holiday Discount plan'',
       pm_notes =
         [''Policy registry is in-memory until a persistent policy store is approved.'',
          ''[MISSING: signed publication and policy audit-log contract]'']\<rparr>,
    po_createdAt = holiday_policy_created_at,
    po_updatedAt = holiday_policy_created_at\<rparr>"


section \<open>The registry\<close>

type_synonym policy_map = "(string \<times> policy_definition) list"

definition policy_key :: "policy_definition \<Rightarrow> string" where
  "policy_key p = composite_key (po_policyId p) (po_version p)"

definition upsert_policy :: "policy_definition \<Rightarrow> policy_map \<Rightarrow> policy_map" where
  "upsert_policy p m = obj_set (policy_key p) p m"

definition new_policy_registry :: policy_map where
  "new_policy_registry = upsert_policy holiday_discount_policy []"

definition list_policies :: "(string \<Rightarrow> string) \<Rightarrow> policy_map \<Rightarrow> policy_definition list" where
  "list_policies collate m = sort_key (\<lambda>p. collate (policy_key p)) (map snd m)"

definition get_policy :: "policy_map \<Rightarrow> string \<Rightarrow> int \<Rightarrow> error + policy_definition" where
  "get_policy m policyId version =
     (case obj_get m (composite_key policyId version) of
        None \<Rightarrow> Inl (NotFoundException
          (''Policy '' @ policyId @ '':'' @ int_str version @ '' was not found''))
      | Some p \<Rightarrow> Inr p)"


section \<open>Validation\<close>

text \<open>The percentage of a discount: a number above 0 and at most 100.\<close>

definition percent_ok :: "json option \<Rightarrow> bool" where
  "percent_ok percent \<longleftrightarrow>
     (case percent of
        Some (JNum n) \<Rightarrow> js_less (Fin 0) n \<and> js_le n (Fin 100)
      | _ \<Rightarrow> False)"

definition condition_findings :: "policy_condition \<Rightarrow> ref_finding list" where
  "condition_findings c =
     (if pc_type c \<notin> set known_policy_condition_types
      then [mk_finding ''UNKNOWN_CONDITION_TYPE'' Fail
              (''Condition '' @ pc_conditionId c @ '' uses unknown condition type '' @ pc_type c @
               ''; validation fails closed.'')]
      else []) @
     (if contains_missing_marker (JStr (pc_factRef c)) \<or>
         opt_missing_marker (map_option JObj (pc_parameters c)) \<or>
         opt_missing_marker (pc_value c)
      then [mk_finding ''POLICY_CONDITION_RUNTIME_FACT_MISSING'' Fail
              (''Condition '' @ pc_conditionId c @
               '' contains unresolved runtime facts; validation fails closed.'')]
      else []) @
     (case pc_serviceCapabilityRefs c of
        None \<Rightarrow> []
      | Some refs \<Rightarrow> validate_capability_refs refs (''Policy condition '' @ pc_conditionId c))"

definition effect_findings :: "policy_effect \<Rightarrow> ref_finding list" where
  "effect_findings e =
     (if pe_type e \<notin> set known_policy_effect_types
      then [mk_finding ''UNKNOWN_EFFECT_TYPE'' Fail
              (''Effect '' @ pe_effectId e @ '' uses unknown effect type '' @ pe_type e @
               ''; validation fails closed.'')]
      else []) @
     (if pe_type e = ''percentage-discount''
      then [mk_finding ''PERCENTAGE_DISCOUNT_VALUE_VALID''
              (check (percent_ok (obj_get (pe_parameters e) ''percent'')))
              (''Effect '' @ pe_effectId e @ '' must define percent as a number between 0 and 100.'')]
      else []) @
     (if contains_missing_marker (JObj (pe_parameters e))
      then [mk_finding ''POLICY_EFFECT_RUNTIME_FACT_MISSING'' Fail
              (''Effect '' @ pe_effectId e @
               '' contains unresolved runtime facts; validation fails closed.'')]
      else []) @
     validate_capability_refs (pe_serviceCapabilityRefs e) (''Policy effect '' @ pe_effectId e)"

definition policy_findings :: "policy_definition \<Rightarrow> ref_finding list" where
  "policy_findings p =
     [mk_finding ''POLICY_ID_PRESENT'' (check (po_policyId p \<noteq> []))
        ''Policy id must be present.'',
      mk_finding ''POLICY_PROCESS_REFS_PRESENT'' (check (po_appliesToProcessRefs p \<noteq> []))
        ''Policy must reference at least one business process.'',
      mk_finding ''POLICY_CONDITIONS_PRESENT'' (check (po_conditions p \<noteq> []))
        ''Policy must define at least one condition.'',
      mk_finding ''POLICY_EFFECTS_PRESENT'' (check (po_effects p \<noteq> []))
        ''Policy must define at least one effect.''] @
     concat (map condition_findings (po_conditions p)) @
     concat (map effect_findings (po_effects p)) @
     validate_capability_refs (po_requiredCapabilities p)
       (''Policy '' @ po_policyId p @ '' required capabilities'') @
     map (\<lambda>missingFact. mk_finding ''POLICY_RUNTIME_FACT_MISSING'' Fail
            (missingFact @ ''; policy cannot be published until resolved.''))
         (po_missingRuntimeFacts p) @
     [mk_finding ''POLICY_PERSISTENCE_MISSING'' Warning
        ''[MISSING: persistent policy store is not implemented in skeleton]'']"

definition validate_policy_definition :: "policy_definition \<Rightarrow> policy_validation" where
  "validate_policy_definition p =
     \<lparr>pr_policyId = po_policyId p, pr_version = po_version p,
      pr_valid = verdict (policy_findings p), pr_findings = policy_findings p\<rparr>"

definition validate_policy :: "policy_map \<Rightarrow> string \<Rightarrow> int \<Rightarrow> error + policy_validation" where
  "validate_policy m policyId version =
     (case get_policy m policyId version of
        Inl e \<Rightarrow> Inl e
      | Inr p \<Rightarrow> Inr (validate_policy_definition p))"

interpretation po_validator: validator policy_findings "\<lambda>p. pr_valid (validate_policy_definition p)"
  by unfold_locales (simp add: validate_policy_definition_def)

interpretation po_map: keyed_registry policy_key upsert_policy obj_get
  by unfold_locales (simp add: upsert_policy_def)


section \<open>What the validation accepts\<close>

definition condition_accepted :: "policy_condition \<Rightarrow> bool" where
  "condition_accepted c \<longleftrightarrow>
     pc_type c \<in> set known_policy_condition_types \<and>
     \<not> js_includes missing_marker (pc_factRef c) \<and>
     \<not> opt_missing_marker (map_option JObj (pc_parameters c)) \<and>
     \<not> opt_missing_marker (pc_value c) \<and>
     pc_serviceCapabilityRefs c \<noteq> Some [] \<and>
     list_all ref_resolved (opt_list (pc_serviceCapabilityRefs c))"

definition effect_accepted :: "policy_effect \<Rightarrow> bool" where
  "effect_accepted e \<longleftrightarrow>
     (pe_type e = ''percentage-discount'' \<and> percent_ok (obj_get (pe_parameters e) ''percent'') \<or>
      pe_type e = ''stacking-rule'' \<or> pe_type e = ''display-badge'') \<and>
     \<not> contains_missing_marker (JObj (pe_parameters e)) \<and>
     pe_serviceCapabilityRefs e \<noteq> [] \<and> list_all ref_resolved (pe_serviceCapabilityRefs e)"

definition policy_accepted :: "policy_definition \<Rightarrow> bool" where
  "policy_accepted p \<longleftrightarrow>
     po_policyId p \<noteq> [] \<and> po_appliesToProcessRefs p \<noteq> [] \<and>
     po_conditions p \<noteq> [] \<and> list_all condition_accepted (po_conditions p) \<and>
     po_effects p \<noteq> [] \<and> list_all effect_accepted (po_effects p) \<and>
     po_requiredCapabilities p \<noteq> [] \<and> list_all ref_resolved (po_requiredCapabilities p) \<and>
     po_missingRuntimeFacts p = []"

lemma condition_findings_verdict [simp]:
  "verdict (condition_findings c) \<longleftrightarrow> condition_accepted c"
  by (auto simp: condition_findings_def condition_accepted_def opt_list_def split: option.splits)

lemma effect_findings_verdict [simp]:
  "verdict (effect_findings e) \<longleftrightarrow> effect_accepted e"
  by (auto simp: effect_findings_def effect_accepted_def known_policy_effect_types_def)

lemma policy_findings_verdict: "verdict (policy_findings p) \<longleftrightarrow> policy_accepted p"
proof -
  have "verdict (map (\<lambda>m. mk_finding c Fail (g m)) ms) \<longleftrightarrow> ms = []" for c g and ms :: "string list"
    by (cases ms) (simp_all add: verdict_map)
  moreover have "list_all verdict (map condition_findings cs) \<longleftrightarrow> list_all condition_accepted cs"
    and "list_all verdict (map effect_findings es) \<longleftrightarrow> list_all effect_accepted es" for cs es
    by (simp_all add: list.pred_map o_def)
  ultimately show ?thesis unfolding policy_findings_def policy_accepted_def by auto
qed

text \<open>
  A policy is valid exactly when its id, process references, conditions and effects
  are present, every condition and effect has a known type, carries no unresolved marker
  and names registered capabilities (a condition may name none at all, but an empty list
  blocks), every percentage discount is a number above 0 and at most 100, the required
  capabilities are registered and no runtime fact is missing. The operator, the priority
  and the audit data play no part.
\<close>

theorem policy_valid_iff: "pr_valid (validate_policy_definition p) = policy_accepted p"
  by (simp add: validate_policy_definition_def policy_findings_verdict)


section \<open>The registry after construction\<close>

lemma new_policy_registry_lookup:
  "get_policy new_policy_registry i v =
   (if i = holiday_policy_ref \<and> v = 1 then Inr holiday_discount_policy
    else Inl (NotFoundException (''Policy '' @ i @ '':'' @ int_str v @ '' was not found'')))"
  unfolding get_policy_def new_policy_registry_def po_map.lookup_upsert
  by (simp add: policy_key_def holiday_discount_policy_def holiday_policy_ref_def)

text \<open>
  The policy that the workflow validation accepts as the only known reference is the
  one policy that the policy registry holds, under version 1; its validation fails with
  exactly thirteen failing findings, and validating any other policy raises the not-found
  error. So no workflow that validates refers to a policy that validates.
\<close>

theorem policy_registry_fails_closed:
  "(case validate_policy new_policy_registry i v of
      Inr r \<Rightarrow> i = holiday_policy_ref \<and> v = 1 \<and> \<not> pr_valid r \<and>
               severity_count Fail (pr_findings r) = 13
    | Inl e \<Rightarrow> \<not> (i = holiday_policy_ref \<and> v = 1) \<and>
               e = NotFoundException (''Policy '' @ i @ '':'' @ int_str v @ '' was not found''))"
proof -
  have "severity_count Fail (policy_findings holiday_discount_policy) = 13"
    by code_simp
  then show ?thesis
    by (auto simp: validate_policy_def new_policy_registry_lookup validate_policy_definition_def
        verdict_iff_no_fail)
qed

end
