(* ===== verification/JsRounding.thy ===== *)
theory JsRounding
  imports JsNumber
begin

text \<open>
  The rounding error of binary64: a result below \<open>2 ^ K\<close> is off by at most
  \<open>2 ^ K / 2 ^ 54\<close>, and does not overflow. This is what the amounts of money of the
  simulation are checked with.
\<close>

lemma pow2_powi: "pow2 e = 2 powi e"
  by (simp add: pow2_def power_int_def power_one_over inverse_eq_divide)

lemma pow2_pos [simp]: "0 < pow2 e"
  by (simp add: pow2_powi)

lemma pow2_add: "pow2 (a + b) = pow2 a * pow2 b"
  by (simp add: pow2_powi power_int_add)

lemma pow2_diff: "pow2 (a - b) = pow2 a / pow2 b"
  by (simp add: pow2_powi power_int_diff)

lemma pow2_mono: "a \<le> b \<Longrightarrow> pow2 a \<le> pow2 b"
  by (simp add: pow2_powi power_int_increasing)

lemma pow2_less: "pow2 a < pow2 b \<Longrightarrow> a < b"
  by (metis linorder_not_less pow2_mono)

lemma pow2_nat: "pow2 (int n) = 2 ^ n"
  by (simp add: pow2_def)

lemma lead_exp_le:
  assumes "0 < x"
  shows "pow2 (lead_exp x) \<le> x"
proof -
  obtain n d where nd: "quotient_of x = (n, d)" by force
  have d: "0 < d" and x: "x = of_int n / of_int d"
    using nd by (simp_all add: quotient_of_denom_pos quotient_of_div)
  have n: "0 < n" using assms d by (simp add: x zero_less_divide_iff)
  note bn = bit_len_bounds[OF n] and bd = bit_len_bounds[OF d]
  have "pow2 (int (bit_len n) - int (bit_len d) - 1) = pow2 (int (bit_len n - 1)) / pow2 (int (bit_len d))"
    using bn by (simp add: pow2_diff[symmetric] of_nat_diff algebra_simps)
  also have "\<dots> \<le> of_int n / of_int d"
  proof (rule frac_le)
    have "(of_int (2 ^ (bit_len n - 1)) :: rat) \<le> of_int n" using bn by (simp only: of_int_le_iff)
    then show "pow2 (int (bit_len n - 1)) \<le> of_int n" by (simp add: pow2_nat)
    have "d \<le> 2 ^ bit_len d" using bd by linarith
    then have "(of_int d :: rat) \<le> of_int (2 ^ bit_len d)" by (simp only: of_int_le_iff)
    then show "of_int d \<le> pow2 (int (bit_len d))" by (simp add: pow2_nat)
  qed (use n d in simp_all)
  finally have "pow2 (int (bit_len n) - int (bit_len d) - 1) \<le> x" by (simp add: x)
  then show ?thesis by (simp add: lead_exp_def nd Let_def)
qed

lemma round_half_even_near: "\<bar>of_int (round_half_even y) - y\<bar> \<le> 1 / 2"
proof -
  define f where "f = (of_int \<lfloor>y\<rfloor> :: rat)"
  have "f \<le> y" "y < f + 1" unfolding f_def by linarith+
  then show ?thesis unfolding round_half_even_def Let_def abs_le_iff
    by (auto simp: f_def[symmetric])
qed

lemma round_double_pos_error:
  assumes "0 < x" and "x < 2 ^ K" and "K \<le> 1000"
  shows "\<exists>v. round_double x = Fin v \<and> \<bar>v - x\<bar> \<le> 2 ^ K / 2 ^ 54"
proof -
  define q where "q = unit_exp x"
  define v where "v = of_int (round_half_even (x / pow2 q)) * pow2 q"
  have "pow2 (lead_exp x) < pow2 (int K)"
    using lead_exp_le[OF assms(1)] assms(2) by (simp add: pow2_nat)
  then have "q \<le> int K - 53" using pow2_less[of "lead_exp x" "int K"] by (simp add: q_def unit_exp_def)
  then have "pow2 q \<le> pow2 (int K - 53)" by (rule pow2_mono)
  also have "\<dots> = 2 ^ K / 2 ^ 53"
    using pow2_nat[of 53] by (simp add: pow2_diff pow2_nat)
  finally have pq: "pow2 q \<le> 2 ^ K / 2 ^ 53" .
  have "v - x = (of_int (round_half_even (x / pow2 q)) - x / pow2 q) * pow2 q"
    using pow2_pos[of q] by (simp add: v_def left_diff_distrib less_imp_neq[symmetric])
  then have "\<bar>v - x\<bar> = \<bar>of_int (round_half_even (x / pow2 q)) - x / pow2 q\<bar> * pow2 q"
    by (simp add: abs_mult abs_of_pos)
  also have "\<dots> \<le> 1 / 2 * pow2 q"
    by (intro mult_right_mono round_half_even_near less_imp_le) simp
  finally have err: "\<bar>v - x\<bar> \<le> 2 ^ K / 2 ^ 54" using pq by simp
  have "(2::rat) ^ K / 2 ^ 54 \<le> 2 ^ K" by simp
  then have "v < 2 ^ Suc K" using err assms(2) abs_ge_self[of "v - x"] unfolding power_Suc by linarith
  also have "\<dots> \<le> 2 ^ 1024" using assms(3) by (intro power_increasing) auto
  also have "\<dots> = pow2 1024" using pow2_nat[of 1024] by simp
  finally have "v < pow2 1024" .
  then have "round_double x = Fin v"
    using assms(1) by (simp add: round_double_def Let_def q_def[symmetric] v_def[symmetric])
  with err show ?thesis by blast
qed

lemma round_double_error:
  assumes "\<bar>x\<bar> < 2 ^ K" and "K \<le> 1000"
  obtains v where "round_double x = Fin v" and "\<bar>v - x\<bar> \<le> 2 ^ K / 2 ^ 54"
proof -
  consider "x = 0" | "0 < x" | "0 < - x" by linarith
  then have "\<exists>v. round_double x = Fin v \<and> \<bar>v - x\<bar> \<le> 2 ^ K / 2 ^ 54"
  proof cases
    case 1
    then show ?thesis by (auto simp: round_double_def)
  next
    case 2
    with assms show ?thesis by (intro round_double_pos_error) auto
  next
    case 3
    with assms obtain v where v: "round_double (- x) = Fin v" "\<bar>v - - x\<bar> \<le> 2 ^ K / 2 ^ 54"
      using round_double_pos_error[of "- x" K] by auto
    then have "round_double x = Fin (- v)" using round_double_uminus[of "- x"] by simp
    moreover have "\<bar>- v - x\<bar> = \<bar>v - - x\<bar>" by linarith
    ultimately show ?thesis using v(2) by auto
  qed
  with that show thesis by blast
qed

corollary round_double_error_le:
  assumes "\<bar>x\<bar> < 2 ^ K" and "K \<le> 1000" and "2 ^ K / 2 ^ 54 \<le> e"
  obtains v where "round_double x = Fin v" and "\<bar>v - x\<bar> \<le> e"
  using round_double_error[OF assms(1,2)] assms(3) by (metis order_trans)


section \<open>Evaluation\<close>

lemma lead_exp_gt:
  assumes "0 < x"
  shows "x < pow2 (lead_exp x + 1)"
proof -
  obtain n d where nd: "quotient_of x = (n, d)" by force
  have d: "0 < d" and x: "x = of_int n / of_int d"
    using nd by (simp_all add: quotient_of_denom_pos quotient_of_div)
  have n: "0 < n" using assms d by (simp add: x zero_less_divide_iff)
  note bn = bit_len_bounds[OF n] and bd = bit_len_bounds[OF d]
  have "(of_int n :: rat) < of_int (2 ^ bit_len n)" using bn by (simp only: of_int_less_iff)
  moreover have "(of_int (2 ^ (bit_len d - 1)) :: rat) \<le> of_int d" using bd by (simp only: of_int_le_iff)
  ultimately have "of_int n / of_int d < pow2 (int (bit_len n)) / pow2 (int (bit_len d - 1))"
    using n d by (intro frac_less) (simp_all add: pow2_nat)
  also have "\<dots> = pow2 (int (bit_len n) - int (bit_len d) + 1)"
    using bd by (simp add: pow2_diff[symmetric] of_nat_diff algebra_simps)
  finally show ?thesis by (auto simp: lead_exp_def nd x[symmetric] Let_def)
qed

text \<open>The significand of a result with a known leading exponent.\<close>

lemma round_double_eqI:
  assumes "pow2 L \<le> x" and "x < pow2 (L + 1)" and "- 1022 \<le> L" and "L \<le> 1000"
    and "\<bar>of_int k - x * pow2 (52 - L)\<bar> < 1 / 2"
  shows "round_double x = Fin (of_int k / pow2 (52 - L))"
proof -
  have x: "0 < x" using assms(1) by (metis less_le_trans pow2_pos)
  have "L < lead_exp x + 1" using assms(1) lead_exp_gt[OF x] by (metis le_less_trans pow2_less)
  moreover have "lead_exp x < L + 1" using assms(2) lead_exp_le[OF x] by (metis le_less_trans pow2_less)
  ultimately have "lead_exp x = L" by simp
  with assms(3) have u: "unit_exp x = L - 52" by (simp add: unit_exp_def)
  have p: "x / pow2 (L - 52) = x * pow2 (52 - L)"
    by (simp add: pow2_diff)
  have "\<bar>of_int (round_half_even (x * pow2 (52 - L))) - of_int k :: rat\<bar> < 1"
    using round_half_even_near[of "x * pow2 (52 - L)"] assms(5) by linarith
  then have r: "round_half_even (x * pow2 (52 - L)) = k" by linarith
  have "of_int k * pow2 (L - 52) = of_int k / pow2 (52 - L)" by (simp add: pow2_diff)
  moreover have "of_int k / pow2 (52 - L) < pow2 1024"
  proof -
    have "of_int k < x * pow2 (52 - L) + 1" using assms(5) by linarith
    then have "of_int k / pow2 (52 - L) < x + 1 / pow2 (52 - L)"
      using pow2_pos[of "52 - L"] by (simp add: field_simps less_imp_neq[symmetric])
    also have "\<dots> \<le> pow2 (L + 1) + pow2 (L + 1)"
    proof -
      have "1 / pow2 (52 - L) = pow2 (L - 52)" by (simp add: pow2_diff)
      also have "\<dots> \<le> pow2 (L + 1)" by (rule pow2_mono) simp
      finally show ?thesis using assms(2) by linarith
    qed
    also have "\<dots> = pow2 (L + 2)"
      using pow2_add[of 1 "L + 1"] by (simp add: pow2_def[of 1] add.commute)
    also have "\<dots> \<le> pow2 1024" using assms(4) by (intro pow2_mono) simp
    finally show ?thesis .
  qed
  ultimately show ?thesis using x by (simp add: round_double_def Let_def u p r)
qed

end
