(* ===== verification/Simulation.thy ===== *)
theory Simulation
  imports JsRounding JsDate JsValue Findings "HOL-Library.List_Lexorder" "HOL-Library.Char_ord"
begin

text \<open>
  The Holiday Discount simulation: \<open>src/src/simulation/simulation.types.ts\<close> (the data),
  \<open>simulation.scenarios.ts\<close> (the process fixture and the five scenarios) and
  \<open>simulation.service.ts\<close> (the evaluation of a request). Requests have the declared
  types. A date is its time value, \<open>None\<close> when invalid; \<open>host\<close> is the engine's own
  reading of dates outside the standard's format. The three amounts of a response
  (subtotal, discount total, total) are grouped as a \<open>quote\<close>.
\<close>

section \<open>Data\<close>

datatype decision_code =
    ApplyDiscount | NotEligible | ProcessNotSupported | ProcessNotStarted | ProcessExpired
  | ControlledOff

datatype decision_reason =
    RsProcessSupported | RsProcessNotSupported | RsProcessActiveWindow | RsProcessNotStarted
  | RsProcessExpired | RsProcessPaused | RsKillSwitchActive | RsEligibleCategory
  | RsCategoryNotEligible | RsOrderSnapshotPresent

datatype active_window = NotStarted | InWindow | Expired

datatype snapshot_status = SnapshotPreserved | SnapshotPreservedDespiteNewQuote

record process_fixture =
  fx_processId :: string
  fx_processVersion :: js_number
  fx_policyId :: string
  fx_activeFrom :: string
  fx_activeTo :: string
  fx_eligibleCategoryIds :: "string list"
  fx_discountPercent :: rat
  fx_defaultDate :: string
  fx_defaultStatus :: lifecycle_status

record applied_discount =
  ad_processId :: string
  ad_processVersion :: js_number
  ad_policyId :: string
  ad_amount :: js_number

record order_snapshot =
  os_snapshotId :: string
  os_capturedAt :: string
  os_subtotal :: js_number
  os_discountTotal :: js_number
  os_total :: js_number
  os_appliedDiscounts :: "applied_discount list"

record simulation_request =
  sq_scenarioId :: "string option"
  sq_processId :: string
  sq_processVersion :: js_number
  sq_productCategoryIds :: "string list option"
  sq_cartSubtotal :: "js_number option"
  sq_currentDate :: "string option"
  sq_processStatus :: "lifecycle_status option"
  sq_killSwitchActive :: "bool option"
  sq_orderSnapshot :: "order_snapshot option"

record quote =
  qt_subtotal :: js_number
  qt_discountTotal :: js_number
  qt_total :: js_number

record snapshot_expectation =
  se_immutable :: bool
  se_expectation :: string
  se_status :: snapshot_status
  se_snapshotId :: string
  se_snapshot :: quote
  se_simulatedQuote :: quote
  se_message :: string

record validation_gate =
  vg_code :: string
  vg_severity :: severity
  vg_passed :: bool
  vg_message :: string

record simulation_decision =
  dc_code :: decision_code
  dc_eligible :: bool
  dc_reasons :: "decision_reason list"

record simulation_response =
  sr_schemaVersion :: string
  sr_scenarioId :: "string option"
  sr_processId :: string
  sr_processVersion :: js_number
  sr_processStatus :: lifecycle_status
  sr_currentDate :: string
  sr_productCategoryIds :: "string list"
  sr_activeDate :: bool
  sr_eligibleCategory :: bool
  sr_eligible :: bool
  sr_quote :: quote
  sr_appliedDiscounts :: "applied_discount list"
  sr_decision :: simulation_decision
  sr_validationGates :: "validation_gate list"
  sr_orderSnapshotExpectation :: "snapshot_expectation option"
  sr_warnings :: "string list"

record scenario_expectation =
  ex_decision :: decision_code
  ex_eligible :: bool
  ex_activeDate :: bool
  ex_eligibleCategory :: bool
  ex_discountTotal :: js_number
  ex_total :: js_number
  ex_reasons :: "decision_reason list"
  ex_orderSnapshotImmutable :: "bool option"

record scenario_summary =
  sn_id :: string
  sn_title :: string
  sn_purpose :: string
  sn_expected :: scenario_expectation
  sn_warnings :: "string list"

record scenario_definition = scenario_summary +
  sn_request :: simulation_request


section \<open>Fixture and scenarios\<close>

definition holiday_discount_process :: process_fixture where
  "holiday_discount_process =
   \<lparr>fx_processId = ''holiday-discount-2026'',
    fx_processVersion = Fin 1,
    fx_policyId = ''holiday-10-percent-selected-categories'',
    fx_activeFrom = ''2026-12-01T00:00:00Z'',
    fx_activeTo = ''2027-01-07T23:59:59Z'',
    fx_eligibleCategoryIds = [''christmas-gifts'', ''winter-season''],
    fx_discountPercent = 10,
    fx_defaultDate = ''2026-12-24T12:00:00Z'',
    fx_defaultStatus = Active\<rparr>"

definition common_warnings :: "string list" where
  "common_warnings =
     [''[MISSING: pricing/cart service quote API; simulation uses deterministic fixture math]'',
      ''[MISSING: production policy registry; Holiday Discount fixture is embedded in simulation lane]'']"

definition scenario_request ::
  "string \<Rightarrow> string \<Rightarrow> rat \<Rightarrow> string \<Rightarrow> lifecycle_status \<Rightarrow> bool option \<Rightarrow> order_snapshot option \<Rightarrow>
   simulation_request" where
  "scenario_request i category subtotal date st kill snapshot =
   \<lparr>sq_scenarioId = Some i,
    sq_processId = fx_processId holiday_discount_process,
    sq_processVersion = fx_processVersion holiday_discount_process,
    sq_productCategoryIds = Some [category],
    sq_cartSubtotal = Some (Fin subtotal),
    sq_currentDate = Some date,
    sq_processStatus = Some st,
    sq_killSwitchActive = kill,
    sq_orderSnapshot = snapshot\<rparr>"

definition scenario_eligible_category :: scenario_definition where
  "scenario_eligible_category =
   \<lparr>sn_id = ''holiday-discount-eligible-category'',
    sn_title = ''Holiday Discount eligible category'',
    sn_purpose = ''Applies the 10 percent Holiday Discount when the category and date are eligible.'',
    sn_expected =
      \<lparr>ex_decision = ApplyDiscount, ex_eligible = True, ex_activeDate = True,
       ex_eligibleCategory = True, ex_discountTotal = Fin 100, ex_total = Fin 900,
       ex_reasons = [RsProcessSupported, RsProcessActiveWindow, RsEligibleCategory],
       ex_orderSnapshotImmutable = None\<rparr>,
    sn_warnings = common_warnings,
    sn_request = scenario_request ''holiday-discount-eligible-category'' ''christmas-gifts'' 1000
      ''2026-12-24T12:00:00Z'' Active None None\<rparr>"

definition scenario_ineligible_category :: scenario_definition where
  "scenario_ineligible_category =
   \<lparr>sn_id = ''holiday-discount-ineligible-category'',
    sn_title = ''Holiday Discount ineligible category'',
    sn_purpose = ''Rejects the discount when the product categories do not match the policy fixture.'',
    sn_expected =
      \<lparr>ex_decision = NotEligible, ex_eligible = False, ex_activeDate = True,
       ex_eligibleCategory = False, ex_discountTotal = Fin 0, ex_total = Fin 1000,
       ex_reasons = [RsProcessSupported, RsProcessActiveWindow, RsCategoryNotEligible],
       ex_orderSnapshotImmutable = None\<rparr>,
    sn_warnings = common_warnings,
    sn_request = scenario_request ''holiday-discount-ineligible-category'' ''clearance'' 1000
      ''2026-12-24T12:00:00Z'' Active None None\<rparr>"

definition scenario_expired_process :: scenario_definition where
  "scenario_expired_process =
   \<lparr>sn_id = ''holiday-discount-expired-process'',
    sn_title = ''Holiday Discount expired process'',
    sn_purpose = ''Rejects the discount after the configured process window has ended.'',
    sn_expected =
      \<lparr>ex_decision = ProcessExpired, ex_eligible = False, ex_activeDate = False,
       ex_eligibleCategory = True, ex_discountTotal = Fin 0, ex_total = Fin 1000,
       ex_reasons = [RsProcessSupported, RsProcessExpired, RsEligibleCategory],
       ex_orderSnapshotImmutable = None\<rparr>,
    sn_warnings = common_warnings,
    sn_request = scenario_request ''holiday-discount-expired-process'' ''christmas-gifts'' 1000
      ''2027-01-08T00:00:00Z'' Active None None\<rparr>"

definition scenario_paused_kill_switch :: scenario_definition where
  "scenario_paused_kill_switch =
   \<lparr>sn_id = ''holiday-discount-paused-kill-switch'',
    sn_title = ''Holiday Discount paused or killed'',
    sn_purpose = ''Rejects the discount when a pause-like control state or kill switch disables execution.'',
    sn_expected =
      \<lparr>ex_decision = ControlledOff, ex_eligible = False, ex_activeDate = True,
       ex_eligibleCategory = True, ex_discountTotal = Fin 0, ex_total = Fin 1000,
       ex_reasons =
         [RsProcessSupported, RsProcessActiveWindow, RsProcessPaused, RsKillSwitchActive,
          RsEligibleCategory],
       ex_orderSnapshotImmutable = None\<rparr>,
    sn_warnings = common_warnings,
    sn_request = scenario_request ''holiday-discount-paused-kill-switch'' ''christmas-gifts'' 1000
      ''2026-12-24T12:00:00Z'' Paused (Some True) None\<rparr>"

definition scenario_order_snapshot :: scenario_definition where
  "scenario_order_snapshot =
   \<lparr>sn_id = ''holiday-discount-order-snapshot-immutable'',
    sn_title = ''Holiday Discount order snapshot immutability'',
    sn_purpose = ''Shows that an existing order snapshot remains the authority even when a later simulation quote changes.'',
    sn_expected =
      \<lparr>ex_decision = ApplyDiscount, ex_eligible = True, ex_activeDate = True,
       ex_eligibleCategory = True, ex_discountTotal = Fin 120, ex_total = Fin 1080,
       ex_reasons =
         [RsProcessSupported, RsProcessActiveWindow, RsEligibleCategory, RsOrderSnapshotPresent],
       ex_orderSnapshotImmutable = Some True\<rparr>,
    sn_warnings = common_warnings @
      [''[MISSING: orders-microservice final immutable discount snapshot field contract]''],
    sn_request = scenario_request ''holiday-discount-order-snapshot-immutable'' ''christmas-gifts'' 1200
      ''2026-12-24T12:00:00Z'' Active None
      (Some
        \<lparr>os_snapshotId = ''order-snapshot-holiday-001'',
         os_capturedAt = ''2026-12-24T10:15:00Z'',
         os_subtotal = Fin 1000, os_discountTotal = Fin 100, os_total = Fin 900,
         os_appliedDiscounts =
           [\<lparr>ad_processId = fx_processId holiday_discount_process,
             ad_processVersion = fx_processVersion holiday_discount_process,
             ad_policyId = fx_policyId holiday_discount_process,
             ad_amount = Fin 100\<rparr>]\<rparr>)\<rparr>"

definition holiday_discount_scenarios :: "scenario_definition list" where
  "holiday_discount_scenarios =
     [scenario_eligible_category, scenario_ineligible_category, scenario_expired_process,
      scenario_paused_kill_switch, scenario_order_snapshot]"

definition list_simulation_scenarios :: "scenario_summary list" where
  "list_simulation_scenarios = map scenario_summary.truncate holiday_discount_scenarios"

definition get_simulation_scenario :: "string \<Rightarrow> scenario_definition option" where
  "get_simulation_scenario scenarioId = find (\<lambda>s. sn_id s = scenarioId) holiday_discount_scenarios"

definition is_simulation_scenario_id :: "string \<Rightarrow> bool" where
  "is_simulation_scenario_id scenarioId \<longleftrightarrow>
     list_ex (\<lambda>s. sn_id s = scenarioId) holiday_discount_scenarios"


section \<open>Evaluation of a request\<close>

definition base_warnings :: "string list" where
  "base_warnings =
     [''[MISSING: pricing/cart service quote API; simulation uses deterministic fixture math]'',
      ''[MISSING: production policy registry; Holiday Discount fixture is embedded in simulation lane]'']"

definition round_money :: "js_number \<Rightarrow> js_number" where
  "round_money amount = js_div_const (js_round (js_mul amount (Fin 100))) 100"

text \<open>Date and subtotal of a request, with the warnings pushed so far extended.\<close>

definition resolve_date ::
  "host_parse \<Rightarrow> string option \<Rightarrow> string list \<Rightarrow> instant option \<times> string list" where
  "resolve_date host currentDate warnings =
     (let date = date_parse host
            (case currentDate of Some s \<Rightarrow> s | None \<Rightarrow> fx_defaultDate holiday_discount_process)
      in if date = None
         then (date_parse host (fx_defaultDate holiday_discount_process),
               warnings @ [''[MISSING: runtime validation pipe rejected invalid currentDate; default date used]''])
         else (date, warnings))"

definition resolve_subtotal ::
  "js_number option \<Rightarrow> string list \<Rightarrow> js_number \<times> string list" where
  "resolve_subtotal cartSubtotal warnings =
     (case cartSubtotal of
        None \<Rightarrow> (Fin 0, warnings)
      | Some n \<Rightarrow>
          if \<not> is_finite n \<or> js_less n (Fin 0)
          then (Fin 0,
                warnings @ [''[MISSING: runtime validation pipe rejected invalid cartSubtotal; zero used]''])
          else (round_money n, warnings))"

text \<open>\<open><\<close> of two dates compares their time values and is false on an invalid one.\<close>

definition date_less :: "instant option \<Rightarrow> instant option \<Rightarrow> bool" where
  "date_less a b = (case (a, b) of (Some s, Some t) \<Rightarrow> s < t | _ \<Rightarrow> False)"

definition resolve_active_window :: "host_parse \<Rightarrow> instant option \<Rightarrow> active_window" where
  "resolve_active_window host currentDate =
     (let activeFrom = date_parse host (fx_activeFrom holiday_discount_process);
          activeTo = date_parse host (fx_activeTo holiday_discount_process)
      in if date_less currentDate activeFrom then NotStarted
         else if date_less activeTo currentDate then Expired
         else InWindow)"

text \<open>What the decision, the reasons and the gates are computed from.\<close>

record decision_input =
  di_processSupported :: bool
  di_activeWindow :: active_window
  di_eligibleCategory :: bool
  di_processStatus :: lifecycle_status
  di_killSwitchActive :: bool
  di_orderSnapshot :: "order_snapshot option"

definition resolve_decision_code :: "decision_input \<Rightarrow> decision_code" where
  "resolve_decision_code d =
     (if \<not> di_processSupported d then ProcessNotSupported
      else if di_processStatus d = Paused \<or> di_killSwitchActive d then ControlledOff
      else if di_activeWindow d = NotStarted then ProcessNotStarted
      else if di_activeWindow d = Expired then ProcessExpired
      else if \<not> di_eligibleCategory d then NotEligible
      else ApplyDiscount)"

definition resolve_reasons :: "decision_input \<Rightarrow> decision_reason list" where
  "resolve_reasons d =
     [if di_processSupported d then RsProcessSupported else RsProcessNotSupported] @
     [if di_activeWindow d = InWindow then RsProcessActiveWindow
      else if di_activeWindow d = Expired then RsProcessExpired else RsProcessNotStarted] @
     (if di_processStatus d = Paused then [RsProcessPaused] else []) @
     (if di_killSwitchActive d then [RsKillSwitchActive] else []) @
     [if di_eligibleCategory d then RsEligibleCategory else RsCategoryNotEligible] @
     (if di_orderSnapshot d \<noteq> None then [RsOrderSnapshotPresent] else [])"

definition window_text :: "active_window \<Rightarrow> string" where
  "window_text w = (case w of NotStarted \<Rightarrow> ''not-started'' | InWindow \<Rightarrow> ''active'' | Expired \<Rightarrow> ''expired'')"

definition build_validation_gates :: "decision_input \<Rightarrow> validation_gate list" where
  "build_validation_gates d =
     (let controlledOff = (di_processStatus d = Paused \<or> di_killSwitchActive d)
      in [\<lparr>vg_code = ''PROCESS_FIXTURE_SUPPORTED'',
           vg_severity = check (di_processSupported d),
           vg_passed = di_processSupported d,
           vg_message = (if di_processSupported d
             then ''Simulation request matches the embedded Holiday Discount fixture.''
             else ''[MISSING: reusable process fixture registry for non-Holiday Discount scenarios]'')\<rparr>,
          \<lparr>vg_code = ''PROCESS_ACTIVE_WINDOW'',
           vg_severity = check (di_activeWindow d = InWindow),
           vg_passed = (di_activeWindow d = InWindow),
           vg_message = (if di_activeWindow d = InWindow
             then ''Simulation date is inside the Holiday Discount active window.''
             else ''Simulation date is '' @ window_text (di_activeWindow d) @
                  '' for the Holiday Discount active window.'')\<rparr>,
          \<lparr>vg_code = ''CONTROL_STATE_EXECUTABLE'',
           vg_severity = (if controlledOff then Fail else Pass),
           vg_passed = (\<not> controlledOff),
           vg_message = (if controlledOff
             then ''Process execution is disabled by pause-like state or kill switch.''
             else ''Process control state allows evaluation.'')\<rparr>,
          \<lparr>vg_code = ''CATEGORY_ELIGIBLE'',
           vg_severity = check (di_eligibleCategory d),
           vg_passed = di_eligibleCategory d,
           vg_message = (if di_eligibleCategory d
             then ''At least one product category is eligible for the Holiday Discount fixture.''
             else ''No product category is eligible for the Holiday Discount fixture.'')\<rparr>,
          \<lparr>vg_code = ''PRICING_CART_AUTHORITY'',
           vg_severity = Warning,
           vg_passed = False,
           vg_message = ''[MISSING: pricing/cart service quote API; simulation is not monetary authority]''\<rparr>] @
         (if di_orderSnapshot d \<noteq> None
          then [\<lparr>vg_code = ''ORDER_SNAPSHOT_IMMUTABILITY'',
                 vg_severity = Warning,
                 vg_passed = True,
                 vg_message = ''[MISSING: final orders snapshot field contract] Existing order snapshots must be preserved after quote changes.''\<rparr>]
          else []))"

definition build_order_snapshot_expectation ::
  "order_snapshot \<Rightarrow> quote \<Rightarrow> string list \<Rightarrow> snapshot_expectation \<times> string list" where
  "build_order_snapshot_expectation snapshot q warnings =
     (let changed = (\<not> js_eq (os_subtotal snapshot) (qt_subtotal q) \<or>
                     \<not> js_eq (os_discountTotal snapshot) (qt_discountTotal q) \<or>
                     \<not> js_eq (os_total snapshot) (qt_total q))
      in (\<lparr>se_immutable = True,
           se_expectation = ''preserve-existing-order-snapshot'',
           se_status = (if changed then SnapshotPreservedDespiteNewQuote else SnapshotPreserved),
           se_snapshotId = os_snapshotId snapshot,
           se_snapshot = \<lparr>qt_subtotal = os_subtotal snapshot,
                          qt_discountTotal = os_discountTotal snapshot,
                          qt_total = os_total snapshot\<rparr>,
           se_simulatedQuote = q,
           se_message = ''Simulation may produce a fresh quote, but an already captured order discount snapshot remains immutable.''\<rparr>,
          warnings @ [''[MISSING: orders-microservice final immutable discount snapshot field contract]'']))"

text \<open>Discount and total for a resolved subtotal.\<close>

definition quote_of :: "bool \<Rightarrow> js_number \<Rightarrow> quote" where
  "quote_of eligible subtotal =
     (let discountTotal =
            (if eligible
             then round_money
                    (js_div_const (js_mul subtotal (Fin (fx_discountPercent holiday_discount_process))) 100)
             else Fin 0)
      in \<lparr>qt_subtotal = subtotal, qt_discountTotal = discountTotal,
          qt_total = round_money (js_sub subtotal discountTotal)\<rparr>)"

definition process_supported :: "simulation_request \<Rightarrow> bool" where
  "process_supported r \<longleftrightarrow>
     sq_processId r = fx_processId holiday_discount_process \<and>
     js_eq (sq_processVersion r) (fx_processVersion holiday_discount_process)"

definition category_eligible :: "string list \<Rightarrow> bool" where
  "category_eligible categories \<longleftrightarrow>
     list_ex (\<lambda>c. c \<in> set (fx_eligibleCategoryIds holiday_discount_process)) categories"

text \<open>
  The evaluation. \<open>toISOString\<close> at the end throws a RangeError on an invalid date.
\<close>

definition simulate_holiday_discount ::
  "host_parse \<Rightarrow> simulation_request \<Rightarrow> error + simulation_response" where
  "simulate_holiday_discount host r =
     (let processStatus = (case sq_processStatus r of
            Some st \<Rightarrow> st | None \<Rightarrow> fx_defaultStatus holiday_discount_process);
          killSwitchActive = (case sq_killSwitchActive r of Some k \<Rightarrow> k | None \<Rightarrow> False);
          (currentDate, warnings1) = resolve_date host (sq_currentDate r) base_warnings;
          (subtotal, warnings2) = resolve_subtotal (sq_cartSubtotal r) warnings1;
          categories = sort (case sq_productCategoryIds r of Some cs \<Rightarrow> cs | None \<Rightarrow> []);
          activeWindow = resolve_active_window host currentDate;
          d = \<lparr>di_processSupported = process_supported r,
               di_activeWindow = activeWindow,
               di_eligibleCategory = category_eligible categories,
               di_processStatus = processStatus,
               di_killSwitchActive = killSwitchActive,
               di_orderSnapshot = sq_orderSnapshot r\<rparr>;
          decisionCode = resolve_decision_code d;
          eligible = (decisionCode = ApplyDiscount);
          q = quote_of eligible subtotal;
          (expectation, warnings3) = (case sq_orderSnapshot r of
            None \<Rightarrow> (None, warnings2)
          | Some snapshot \<Rightarrow>
              (case build_order_snapshot_expectation snapshot q warnings2 of (e, ws) \<Rightarrow> (Some e, ws)))
      in case Option.bind currentDate to_iso of
           None \<Rightarrow> Inl (RangeError ''Invalid time value'')
         | Some shownDate \<Rightarrow> Inr
             \<lparr>sr_schemaVersion = ''bpcp.simulation-result.v1'',
              sr_scenarioId = sq_scenarioId r,
              sr_processId = sq_processId r,
              sr_processVersion = sq_processVersion r,
              sr_processStatus = processStatus,
              sr_currentDate = shownDate,
              sr_productCategoryIds = categories,
              sr_activeDate = (activeWindow = InWindow),
              sr_eligibleCategory = category_eligible categories,
              sr_eligible = eligible,
              sr_quote = q,
              sr_appliedDiscounts =
                (if eligible
                 then [\<lparr>ad_processId = sq_processId r, ad_processVersion = sq_processVersion r,
                        ad_policyId = fx_policyId holiday_discount_process,
                        ad_amount = qt_discountTotal q\<rparr>]
                 else []),
              sr_decision = \<lparr>dc_code = decisionCode, dc_eligible = eligible,
                             dc_reasons = resolve_reasons d\<rparr>,
              sr_validationGates = build_validation_gates d,
              sr_orderSnapshotExpectation = expectation,
              sr_warnings = warnings3\<rparr>)"

text \<open>
  A scenario by its id. The request is passed as a JSON copy, which for the scenarios, all
  of whose numbers are finite, is the request itself.
\<close>

definition simulate_scenario :: "host_parse \<Rightarrow> string \<Rightarrow> error + simulation_response" where
  "simulate_scenario host scenarioId =
     (case get_simulation_scenario scenarioId of
        None \<Rightarrow> Inl (NotFoundException (''Simulation scenario '' @ scenarioId @ '' was not found''))
      | Some scenario \<Rightarrow> simulate_holiday_discount host (sn_request scenario))"

end
