(* ===== verification/SimulationProperties.thy ===== *)
theory SimulationProperties
  imports Simulation
begin

text \<open>
  Properties of the simulation: its decision agrees with its gates and reasons, the five
  scenarios meet their own expectations, and amounts of money stay in whole cents.
\<close>

section \<open>The dates of the fixture\<close>

lemma fixture_dates [simp]:
  "date_parse host (fx_defaultDate holiday_discount_process) = Some 1798113600000"
  "date_parse host (fx_activeFrom holiday_discount_process) = Some 1796083200000"
  "date_parse host (fx_activeTo holiday_discount_process) = Some 1799366399000"
proof -
  have "iso_parse (fx_defaultDate holiday_discount_process) = Some (Some 1798113600000)"
    and "iso_parse (fx_activeFrom holiday_discount_process) = Some (Some 1796083200000)"
    and "iso_parse (fx_activeTo holiday_discount_process) = Some (Some 1799366399000)"
    by code_simp+
  then show
    "date_parse host (fx_defaultDate holiday_discount_process) = Some 1798113600000"
    "date_parse host (fx_activeFrom holiday_discount_process) = Some 1796083200000"
    "date_parse host (fx_activeTo holiday_discount_process) = Some 1799366399000"
    by (simp_all add: date_parse_def)
qed

lemma resolve_date_valid:
  obtains t ws where "resolve_date host currentDate warnings = (Some t, ws)" and "\<bar>t\<bar> \<le> max_time"
proof (cases "fst (resolve_date host currentDate warnings)")
  case None
  then show ?thesis by (auto simp: resolve_date_def Let_def split: if_splits)
next
  case (Some t)
  have "\<bar>t\<bar> \<le> max_time"
    using Some date_parse_bound[of host "fx_defaultDate holiday_discount_process"]
      date_parse_bound
    by (auto simp: resolve_date_def Let_def split: if_splits)
  with Some that show ?thesis by (metis prod.collapse)
qed


section \<open>The decision\<close>

text \<open>The fields of a request that the decision depends on, as the evaluation computes them.\<close>

definition decision_input_of :: "host_parse \<Rightarrow> simulation_request \<Rightarrow> decision_input" where
  "decision_input_of host r =
     \<lparr>di_processSupported = process_supported r,
      di_activeWindow = resolve_active_window host (fst (resolve_date host (sq_currentDate r) [])),
      di_eligibleCategory = category_eligible (case sq_productCategoryIds r of Some cs \<Rightarrow> cs | None \<Rightarrow> []),
      di_processStatus = (case sq_processStatus r of Some st \<Rightarrow> st | None \<Rightarrow> Active),
      di_killSwitchActive = (sq_killSwitchActive r = Some True),
      di_orderSnapshot = sq_orderSnapshot r\<rparr>"

definition subtotal_of :: "simulation_request \<Rightarrow> js_number" where
  "subtotal_of r = fst (resolve_subtotal (sq_cartSubtotal r) [])"

lemma category_eligible_sort [simp]: "category_eligible (sort cs) = category_eligible cs"
  by (simp add: category_eligible_def list_ex_iff)

lemma resolve_date_fst: "fst (resolve_date host currentDate ws) = fst (resolve_date host currentDate [])"
  by (simp add: resolve_date_def Let_def)

lemma resolve_subtotal_fst: "fst (resolve_subtotal s ws) = fst (resolve_subtotal s [])"
  by (simp add: resolve_subtotal_def split: option.splits)

text \<open>Every request is answered; the answer in terms of the decision input and the subtotal.\<close>

lemma simulate_answers:
  obtains resp where "simulate_holiday_discount host r = Inr resp"
    and "sr_eligible resp = (resolve_decision_code (decision_input_of host r) = ApplyDiscount)"
    and "sr_decision resp =
           \<lparr>dc_code = resolve_decision_code (decision_input_of host r), dc_eligible = sr_eligible resp,
            dc_reasons = resolve_reasons (decision_input_of host r)\<rparr>"
    and "sr_validationGates resp = build_validation_gates (decision_input_of host r)"
    and "sr_quote resp = quote_of (sr_eligible resp) (subtotal_of r)"
    and "sr_appliedDiscounts resp =
           (if sr_eligible resp
            then [\<lparr>ad_processId = sq_processId r, ad_processVersion = sq_processVersion r,
                   ad_policyId = fx_policyId holiday_discount_process,
                   ad_amount = qt_discountTotal (sr_quote resp)\<rparr>]
            else [])"
    and "sr_activeDate resp = (di_activeWindow (decision_input_of host r) = InWindow)"
    and "sr_eligibleCategory resp = di_eligibleCategory (decision_input_of host r)"
    and "sr_orderSnapshotExpectation resp =
           map_option (\<lambda>s. fst (build_order_snapshot_expectation s (sr_quote resp) []))
             (sq_orderSnapshot r)"
proof -
  obtain t ws where date: "resolve_date host (sq_currentDate r) base_warnings = (Some t, ws)"
    and t: "\<bar>t\<bar> \<le> max_time" by (rule resolve_date_valid)
  obtain ss where iso: "to_iso t = Some ss" using t to_iso_Some_iff by blast
  obtain sub ws2 where sub: "resolve_subtotal (sq_cartSubtotal r) ws = (sub, ws2)" by force
  have "subtotal_of r = sub"
    using resolve_subtotal_fst[of "sq_cartSubtotal r" ws] by (simp add: subtotal_of_def sub)
  moreover have "fst (resolve_date host (sq_currentDate r) []) = Some t"
    using resolve_date_fst[of host "sq_currentDate r" base_warnings] by (simp add: date)
  ultimately show thesis
    by (intro that[of "case simulate_holiday_discount host r of Inr x \<Rightarrow> x"])
      (simp_all add: simulate_holiday_discount_def date sub iso decision_input_of_def Let_def
        build_order_snapshot_expectation_def holiday_discount_process_def
        split: option.splits)
qed


text \<open>The decision read off the gates and the reasons of a response alone.\<close>

definition gate_passed :: "string \<Rightarrow> validation_gate list \<Rightarrow> bool" where
  "gate_passed code gates \<longleftrightarrow> list_ex (\<lambda>g. vg_code g = code \<and> vg_passed g) gates"

definition decision_of_gates :: "validation_gate list \<Rightarrow> decision_reason list \<Rightarrow> decision_code" where
  "decision_of_gates gates reasons =
     (if \<not> gate_passed ''PROCESS_FIXTURE_SUPPORTED'' gates then ProcessNotSupported
      else if \<not> gate_passed ''CONTROL_STATE_EXECUTABLE'' gates then ControlledOff
      else if \<not> gate_passed ''PROCESS_ACTIVE_WINDOW'' gates then
        (if RsProcessNotStarted \<in> set reasons then ProcessNotStarted else ProcessExpired)
      else if \<not> gate_passed ''CATEGORY_ELIGIBLE'' gates then NotEligible
      else ApplyDiscount)"

lemma decision_gates_agree:
  "decision_of_gates (build_validation_gates d) (resolve_reasons d) = resolve_decision_code d"
  by (cases "di_activeWindow d")
    (auto simp: decision_of_gates_def gate_passed_def build_validation_gates_def resolve_reasons_def
      resolve_decision_code_def Let_def)

lemma apply_iff_no_failing_gate:
  "resolve_decision_code d = ApplyDiscount \<longleftrightarrow>
   list_all (\<lambda>g. vg_severity g \<noteq> Fail) (build_validation_gates d)"
  by (cases "di_activeWindow d")
    (auto simp: build_validation_gates_def resolve_decision_code_def Let_def)

text \<open>
  C24. Every simulation request is answered, and the answer is consistent: the decision
  code is the one that the validation gates determine (the fixture first, then the control
  state, the window and the category), the request is eligible exactly when no gate fails,
  a discount is applied exactly then, and an order snapshot of the request comes back
  unchanged whatever the new quote is.
\<close>

theorem simulation_consistent:
  "(case simulate_holiday_discount host r of
      Inl e \<Rightarrow> False
    | Inr resp \<Rightarrow>
        dc_code (sr_decision resp) =
          decision_of_gates (sr_validationGates resp) (dc_reasons (sr_decision resp)) \<and>
        sr_eligible resp = list_all (\<lambda>g. vg_severity g \<noteq> Fail) (sr_validationGates resp) \<and>
        dc_eligible (sr_decision resp) = sr_eligible resp \<and>
        map ad_amount (sr_appliedDiscounts resp) =
          (if sr_eligible resp then [qt_discountTotal (sr_quote resp)] else []) \<and>
        map_option se_snapshot (sr_orderSnapshotExpectation resp) =
          map_option (\<lambda>s. \<lparr>qt_subtotal = os_subtotal s, qt_discountTotal = os_discountTotal s,
                           qt_total = os_total s\<rparr>) (sq_orderSnapshot r))"
proof -
  obtain resp where resp: "simulate_holiday_discount host r = Inr resp"
    and eligible: "sr_eligible resp = (resolve_decision_code (decision_input_of host r) = ApplyDiscount)"
    and decision: "sr_decision resp =
           \<lparr>dc_code = resolve_decision_code (decision_input_of host r), dc_eligible = sr_eligible resp,
            dc_reasons = resolve_reasons (decision_input_of host r)\<rparr>"
    and gates: "sr_validationGates resp = build_validation_gates (decision_input_of host r)"
    and applied: "sr_appliedDiscounts resp =
           (if sr_eligible resp
            then [\<lparr>ad_processId = sq_processId r, ad_processVersion = sq_processVersion r,
                   ad_policyId = fx_policyId holiday_discount_process,
                   ad_amount = qt_discountTotal (sr_quote resp)\<rparr>]
            else [])"
    and snapshot: "sr_orderSnapshotExpectation resp =
           map_option (\<lambda>s. fst (build_order_snapshot_expectation s (sr_quote resp) []))
             (sq_orderSnapshot r)"
    by (rule simulate_answers)
  have "sr_eligible resp = list_all (\<lambda>g. vg_severity g \<noteq> Fail) (sr_validationGates resp)"
    by (simp only: eligible gates apply_iff_no_failing_gate)
  moreover have "map_option se_snapshot (sr_orderSnapshotExpectation resp) =
      map_option (\<lambda>s. \<lparr>qt_subtotal = os_subtotal s, qt_discountTotal = os_discountTotal s,
                       qt_total = os_total s\<rparr>) (sq_orderSnapshot r)"
    by (simp add: snapshot build_order_snapshot_expectation_def Let_def option.map_comp o_def)
  ultimately show ?thesis
    by (simp add: resp decision gates decision_gates_agree applied)
qed


section \<open>The scenarios\<close>

definition meets_expectation :: "simulation_response \<Rightarrow> scenario_definition \<Rightarrow> bool" where
  "meets_expectation resp s \<longleftrightarrow>
     (let ex = sn_expected s in
      dc_code (sr_decision resp) = ex_decision ex \<and> sr_eligible resp = ex_eligible ex \<and>
      sr_activeDate resp = ex_activeDate ex \<and> sr_eligibleCategory resp = ex_eligibleCategory ex \<and>
      qt_discountTotal (sr_quote resp) = ex_discountTotal ex \<and> qt_total (sr_quote resp) = ex_total ex \<and>
      dc_reasons (sr_decision resp) = ex_reasons ex \<and>
      map_option se_immutable (sr_orderSnapshotExpectation resp) = ex_orderSnapshotImmutable ex \<and>
      sr_warnings resp = sn_warnings s)"

lemma scenario_dates [simp]:
  "date_parse host ''2026-12-24T12:00:00Z'' = Some 1798113600000"
  "date_parse host ''2027-01-08T00:00:00Z'' = Some 1799366400000"
proof -
  have "iso_parse ''2026-12-24T12:00:00Z'' = Some (Some 1798113600000)"
    and "iso_parse ''2027-01-08T00:00:00Z'' = Some (Some 1799366400000)"
    by code_simp+
  then show "date_parse host ''2026-12-24T12:00:00Z'' = Some 1798113600000"
    and "date_parse host ''2027-01-08T00:00:00Z'' = Some 1799366400000"
    by (simp_all add: date_parse_def)
qed

text \<open>Whole amounts are exact.\<close>

lemma round_money_int:
  assumes "\<bar>100 * k\<bar> < 2 ^ 53"
  shows "round_money (Fin (of_int k)) = Fin (of_int k)"
proof -
  have "round_double (of_int (100 * k)) = Fin (of_int (100 * k))"
    using assms by (rule round_double_int)
  moreover have "round_double (of_int k) = Fin (of_int k)"
    using assms by (intro round_double_int) auto
  moreover have "\<lfloor>of_int (100 * k) + 1 / 2 :: rat\<rfloor> = 100 * k" by linarith
  ultimately show ?thesis by (simp add: round_money_def mult.commute)
qed

lemma quote_of_int:
  assumes "0 \<le> k" and "k < 2 ^ 40"
  shows "quote_of True (Fin (of_int (10 * k))) =
           \<lparr>qt_subtotal = Fin (of_int (10 * k)), qt_discountTotal = Fin (of_int k),
            qt_total = Fin (of_int (9 * k))\<rparr>"
    and "quote_of False (Fin (of_int k)) =
           \<lparr>qt_subtotal = Fin (of_int k), qt_discountTotal = Fin 0, qt_total = Fin (of_int k)\<rparr>"
proof -
  have e: "round_double (of_int i) = Fin (of_int i)" if "0 \<le> i" "i \<le> 100 * k" for i
    using that assms by (intro round_double_int) auto
  have r: "round_money (Fin (of_int i)) = Fin (of_int i)" if "0 \<le> i" "i \<le> 10 * k" for i
    using that assms by (intro round_money_int) auto
  have "round_double (of_int (10 * k) * 10) = Fin (of_int (100 * k))"
    "round_double (of_int (100 * k) / 100) = Fin (of_int k)"
    "round_double (of_int (10 * k) - of_int k) = Fin (of_int (9 * k))"
    "round_double (of_int k) = Fin (of_int k)"
    using e[of "100 * k"] e[of k] e[of "9 * k"] assms(1) by (simp_all add: algebra_simps)
  with r[of k] r[of "9 * k"] assms(1)
  show "quote_of True (Fin (of_int (10 * k))) =
           \<lparr>qt_subtotal = Fin (of_int (10 * k)), qt_discountTotal = Fin (of_int k),
            qt_total = Fin (of_int (9 * k))\<rparr>"
    and "quote_of False (Fin (of_int k)) =
           \<lparr>qt_subtotal = Fin (of_int k), qt_discountTotal = Fin 0, qt_total = Fin (of_int k)\<rparr>"
    by (simp_all add: quote_of_def holiday_discount_process_def js_sub_def)
qed

lemma scenario_quotes:
  "round_money (Fin 1000) = Fin 1000" "round_money (Fin 1200) = Fin 1200"
  "quote_of True (Fin 1000) = \<lparr>qt_subtotal = Fin 1000, qt_discountTotal = Fin 100, qt_total = Fin 900\<rparr>"
  "quote_of False (Fin 1000) = \<lparr>qt_subtotal = Fin 1000, qt_discountTotal = Fin 0, qt_total = Fin 1000\<rparr>"
  "quote_of True (Fin 1200) = \<lparr>qt_subtotal = Fin 1200, qt_discountTotal = Fin 120, qt_total = Fin 1080\<rparr>"
  using round_money_int[of 1000] round_money_int[of 1200] quote_of_int(1)[of 100]
    quote_of_int(2)[of 1000] quote_of_int(1)[of 120] by simp_all

lemmas simulate_unfold =
  simulate_holiday_discount_def resolve_date_def resolve_subtotal_def resolve_active_window_def
  resolve_decision_code_def resolve_reasons_def date_less_def process_supported_def
  category_eligible_def build_order_snapshot_expectation_def meets_expectation_def
  scenario_request_def to_iso_def time_clip_def max_time_def js_eq_def scenario_quotes
  base_warnings_def common_warnings_def Let_def

lemma scenarios_run:
  assumes "s \<in> set holiday_discount_scenarios"
  shows "case simulate_holiday_discount host (sn_request s) of
           Inl e \<Rightarrow> False | Inr resp \<Rightarrow> meets_expectation resp s"
proof -
  consider "s = scenario_eligible_category" | "s = scenario_ineligible_category"
    | "s = scenario_expired_process" | "s = scenario_paused_kill_switch"
    | "s = scenario_order_snapshot"
    using assms by (auto simp: holiday_discount_scenarios_def)
  then show ?thesis
  proof cases
    case 1
    then show ?thesis
      by (simp add: scenario_eligible_category_def simulate_unfold)
        (simp add: holiday_discount_process_def)
  next
    case 2
    then show ?thesis
      by (simp add: scenario_ineligible_category_def simulate_unfold)
        (simp add: holiday_discount_process_def)
  next
    case 3
    then show ?thesis
      by (simp add: scenario_expired_process_def simulate_unfold)
        (simp add: holiday_discount_process_def)
  next
    case 4
    then show ?thesis
      by (simp add: scenario_paused_kill_switch_def simulate_unfold)
        (simp add: holiday_discount_process_def)
  next
    case 5
    then show ?thesis
      by (simp add: scenario_order_snapshot_def simulate_unfold)
        (simp add: holiday_discount_process_def)
  qed
qed

text \<open>
  Each of the five built-in scenarios, simulated by its id, gives the response its
  author expected: decision, eligibility, window, category, discount, total, reasons,
  snapshot immutability and warnings; any other id is not found.
\<close>

theorem scenarios_meet_expectations:
  "(case simulate_scenario host i of
      Inr resp \<Rightarrow>
        (case get_simulation_scenario i of
           Some s \<Rightarrow> sn_id s = i \<and> meets_expectation resp s
         | None \<Rightarrow> False)
    | Inl e \<Rightarrow> \<not> is_simulation_scenario_id i \<and>
               e = NotFoundException (''Simulation scenario '' @ i @ '' was not found''))"
proof (cases "get_simulation_scenario i")
  case None
  then have "\<not> is_simulation_scenario_id i"
    by (simp add: get_simulation_scenario_def is_simulation_scenario_id_def find_None_iff_all list_ex_iff)
  with None show ?thesis by (simp add: simulate_scenario_def)
next
  case (Some s)
  then have s: "s \<in> set holiday_discount_scenarios" "sn_id s = i"
    unfolding get_simulation_scenario_def by (auto dest: find_SomeD)
  with scenarios_run[OF s(1), of host] show ?thesis
    by (simp add: simulate_scenario_def Some split: sum.splits)
qed


section \<open>Amounts of money\<close>

text \<open>The double nearest to a number of cents.\<close>

definition cents :: "int \<Rightarrow> js_number" where
  "cents k = round_double (of_int k / 100)"

lemma cents_0 [simp]: "cents 0 = Fin 0"
  by (simp add: cents_def round_double_def)

lemma of_int_range: "0 \<le> k \<Longrightarrow> k \<le> 100000000001 \<Longrightarrow> 0 \<le> (of_int k :: rat) \<and> (of_int k :: rat) \<le> 100000000001"
  using of_int_le_iff[of k 100000000001, where 'a = rat] by simp

lemma cents_near:
  assumes "0 \<le> k" and "k \<le> 100000000001"
  obtains v where "cents k = Fin v" and "\<bar>v - of_int k / 100\<bar> \<le> 1 / 10000000"
    and "\<bar>v\<bar> \<le> 1000000002"
proof -
  have k: "0 \<le> (of_int k :: rat)" "(of_int k :: rat) \<le> 100000000001"
    using of_int_range[OF assms] by auto
  then have "\<bar>of_int k / 100 :: rat\<bar> < 2 ^ 30" by simp
  then obtain v where v: "round_double (of_int k / 100) = Fin v" "\<bar>v - of_int k / 100\<bar> \<le> 1 / 10000000"
    by (rule round_double_error_le[of _ 30 "1 / 10000000"]) simp_all
  moreover have "\<bar>v\<bar> \<le> 1000000002" using v(2) k by linarith
  ultimately show thesis by (intro that) (simp_all add: cents_def)
qed

lemma round_money_cents:
  assumes "\<bar>x\<bar> \<le> 2100000000"
  obtains k where "round_money (Fin x) = cents k" and "\<bar>of_int k - 100 * x\<bar> \<le> 1 / 2 + 1 / 50000"
proof -
  have "\<bar>x * 100\<bar> < 2 ^ 38" using assms by (simp add: abs_mult)
  then obtain a where a: "round_double (x * 100) = Fin a" "\<bar>a - x * 100\<bar> \<le> 1 / 50000"
    by (rule round_double_error_le[of _ 38 "1 / 50000"]) simp_all
  define f where "f = (of_int \<lfloor>a + 1 / 2\<rfloor> :: rat)"
  have "f \<le> a + 1 / 2" "a + 1 / 2 < f + 1" unfolding f_def by linarith+
  then have "\<bar>f - 100 * x\<bar> \<le> 1 / 2 + 1 / 50000" using a(2) by linarith
  then show thesis
    using that[of "\<lfloor>a + 1 / 2\<rfloor>"] by (simp add: round_money_def cents_def a(1) f_def)
qed

lemma round_money_near_cents:
  assumes "\<bar>x\<bar> \<le> 2100000000" and "\<bar>100 * x - of_int k\<bar> < 1 / 2 - 1 / 50000"
  shows "round_money (Fin x) = cents k"
proof -
  obtain j where j: "round_money (Fin x) = cents j" "\<bar>of_int j - 100 * x\<bar> \<le> 1 / 2 + 1 / 50000"
    using assms(1) by (rule round_money_cents)
  have "\<bar>of_int j - of_int k :: rat\<bar> < 1" using j(2) assms(2) by linarith
  then have "j = k" by linarith
  with j(1) show ?thesis by simp
qed

text \<open>Ten percent of a number of cents, computed in doubles.\<close>

lemma ten_percent_cents:
  assumes "\<bar>s - of_int n / 100\<bar> \<le> 1 / 10000000" and "\<bar>s\<bar> \<le> 1000000002"
  obtains m where "round_money (js_div_const (js_mul (Fin s) (Fin 10)) 100) = cents m"
    and "\<bar>10 * m - n\<bar> \<le> 5"
proof -
  have "\<bar>s * 10\<bar> < 2 ^ 34" using assms(2) by (simp add: abs_mult)
  then obtain p where p: "round_double (s * 10) = Fin p" "\<bar>p - s * 10\<bar> \<le> 1 / 1000000"
    by (rule round_double_error_le[of _ 34 "1 / 1000000"]) simp_all
  have "\<bar>p / 100\<bar> < 1073741824" using p(2) assms(2) by linarith
  then have "\<bar>p / 100\<bar> < 2 ^ 30" by simp
  then obtain q where q: "round_double (p / 100) = Fin q" "\<bar>q - p / 100\<bar> \<le> 1 / 10000000"
    by (rule round_double_error_le[of _ 30 "1 / 10000000"]) simp_all
  have "\<bar>q\<bar> \<le> 2100000000" using p(2) q(2) assms(2) by linarith
  then obtain m where m: "round_money (Fin q) = cents m" "\<bar>of_int m - 100 * q\<bar> \<le> 1 / 2 + 1 / 50000"
    by (rule round_money_cents)
  have "\<bar>10 * of_int m - of_int n :: rat\<bar> < 6" using assms(1) p(2) q(2) m(2) by linarith
  then have "\<bar>10 * m - n\<bar> \<le> 5" by linarith
  with m(1) show thesis by (intro that) (simp_all add: p(1) q(1))
qed

lemma difference_in_cents:
  assumes "\<bar>s - of_int n / 100\<bar> \<le> 1 / 10000000" and "\<bar>s\<bar> \<le> 1000000002"
    and "\<bar>d - of_int m / 100\<bar> \<le> 1 / 10000000" and "\<bar>d\<bar> \<le> 1000000002"
  shows "round_money (js_sub (Fin s) (Fin d)) = cents (n - m)"
proof -
  have "\<bar>s - d\<bar> < 2147483648" using assms(2,4) by linarith
  then have "\<bar>s - d\<bar> < 2 ^ 31" by simp
  then obtain u where u: "round_double (s - d) = Fin u" "\<bar>u - (s - d)\<bar> \<le> 1 / 5000000"
    by (rule round_double_error_le[of _ 31 "1 / 5000000"]) simp_all
  have "\<bar>u\<bar> \<le> 2100000000" using u(2) assms(2,4) by linarith
  moreover have "\<bar>100 * u - (of_int n - of_int m)\<bar> < 1 / 2 - 1 / 50000"
    using u(2) assms(1,3) by linarith
  ultimately have "round_money (Fin u) = cents (n - m)"
    by (intro round_money_near_cents) simp_all
  then show ?thesis by (simp add: js_sub_def u(1))
qed

text \<open>The quote of a number of cents.\<close>

lemma quote_in_cents:
  assumes "0 \<le> n" and "n \<le> 100000000001"
  obtains m where "quote_of eligible (cents n) =
      \<lparr>qt_subtotal = cents n, qt_discountTotal = cents m, qt_total = cents (n - m)\<rparr>"
    and "0 \<le> m" and "m \<le> n" and "if eligible then \<bar>10 * m - n\<bar> \<le> 5 else m = 0"
proof -
  obtain s where s: "cents n = Fin s" "\<bar>s - of_int n / 100\<bar> \<le> 1 / 10000000" "\<bar>s\<bar> \<le> 1000000002"
    using assms by (rule cents_near)
  obtain m where m: "qt_discountTotal (quote_of eligible (Fin s)) = cents m"
    "if eligible then \<bar>10 * m - n\<bar> \<le> 5 else m = 0"
  proof (cases eligible)
    case True
    obtain m where "round_money (js_div_const (js_mul (Fin s) (Fin 10)) 100) = cents m"
      and "\<bar>10 * m - n\<bar> \<le> 5" using s(2,3) by (rule ten_percent_cents)
    with True show thesis
      by (intro that[of m])
        (simp_all add: quote_of_def holiday_discount_process_def Let_def
          del: js_mul.simps js_div_const.simps)
  next
    case False
    then show thesis using that[of 0] by (simp add: quote_of_def Let_def)
  qed
  have b: "0 \<le> m" "m \<le> n" using m(2) assms(1) by (auto split: if_splits)
  have "m \<le> 100000000001" using b(2) assms(2) by (rule order_trans)
  then obtain d where d: "cents m = Fin d" "\<bar>d - of_int m / 100\<bar> \<le> 1 / 10000000" "\<bar>d\<bar> \<le> 1000000002"
    by (rule cents_near[OF b(1)])
  have "round_money (js_sub (Fin s) (Fin d)) = cents (n - m)"
    using s(2,3) d(2,3) by (rule difference_in_cents)
  then have "quote_of eligible (cents n) =
      \<lparr>qt_subtotal = cents n, qt_discountTotal = cents m, qt_total = cents (n - m)\<rparr>"
    using m(1) unfolding quote_of_def s(1) d(1) Let_def by simp
  with b m(2) show thesis by (intro that)
qed

text \<open>
  C23. For a cart subtotal of at most a thousand million the amounts are whole cents and
  add up: the subtotal is the cart's rounded to a cent, the discount is zero or ten
  percent of the subtotal rounded to a cent, it never exceeds the subtotal, and the total
  is exactly the difference in cents, although every step is computed in binary doubles.
\<close>

theorem amounts_in_cents:
  assumes "sq_cartSubtotal r = Some (Fin c)" and "0 \<le> c" and "c \<le> 1000000000"
  shows "\<exists>resp n m. simulate_holiday_discount host r = Inr resp \<and>
           sr_quote resp =
             \<lparr>qt_subtotal = cents n, qt_discountTotal = cents m, qt_total = cents (n - m)\<rparr> \<and>
           \<bar>of_int n - 100 * c\<bar> \<le> 1 / 2 + 1 / 50000 \<and> 0 \<le> m \<and> m \<le> n \<and>
           (if sr_eligible resp then \<bar>10 * m - n\<bar> \<le> 5 else m = 0)"
proof -
  have "\<bar>c\<bar> \<le> 2100000000" using assms(2,3) by simp
  then obtain n where n: "round_money (Fin c) = cents n" "\<bar>of_int n - 100 * c\<bar> \<le> 1 / 2 + 1 / 50000"
    by (rule round_money_cents)
  have "(of_int n :: rat) > -1" "(of_int n :: rat) < 100000000001"
    using n(2) assms(2,3) by linarith+
  then have nb: "0 \<le> n" "n \<le> 100000000001" by linarith+
  obtain resp where resp: "simulate_holiday_discount host r = Inr resp"
      "sr_quote resp = quote_of (sr_eligible resp) (subtotal_of r)"
    by (rule simulate_answers)
  have sub: "subtotal_of r = cents n"
    using assms by (simp add: subtotal_of_def resolve_subtotal_def n(1))
  obtain m where m: "quote_of (sr_eligible resp) (cents n) =
      \<lparr>qt_subtotal = cents n, qt_discountTotal = cents m, qt_total = cents (n - m)\<rparr>"
    "0 \<le> m" "m \<le> n" "if sr_eligible resp then \<bar>10 * m - n\<bar> \<le> 5 else m = 0"
    using nb by (rule quote_in_cents)
  show ?thesis
    using resp(1) m n(2) by (intro exI conjI) (simp_all add: resp(2) sub)
qed


lemma amounts_in_cents_witness:
  "\<exists>resp n m. simulate_holiday_discount (\<lambda>_. None) (sn_request scenario_order_snapshot) = Inr resp \<and>
     sr_quote resp =
       \<lparr>qt_subtotal = cents n, qt_discountTotal = cents m, qt_total = cents (n - m)\<rparr> \<and>
     \<bar>of_int n - 100 * 1200\<bar> \<le> (1 / 2 + 1 / 50000 :: rat) \<and> 0 \<le> m \<and> m \<le> n \<and>
     (if sr_eligible resp then \<bar>10 * m - n\<bar> \<le> 5 else m = 0)"
  by (rule amounts_in_cents) (simp_all add: scenario_order_snapshot_def scenario_request_def)


text \<open>
  On exactly half a cent the rounding goes either way: ten percent of 0.05 is rounded up to
  0.01 and ten percent of 1.45 down to 0.14, because the doubles computed on the way are
  not the exact halves.
\<close>

lemma half_cents_either_way:
  "qt_discountTotal (quote_of True (cents 5)) = cents 1 \<and>
   qt_discountTotal (quote_of True (cents 145)) = cents 14"
proof -
  have "round_double (5 / 100) = Fin (3602879701896397 / 72057594037927936)"
    using round_double_eqI[of "- 5" "5 / 100" 7205759403792794] by (simp add: pow2_def)
  moreover have "round_double (3602879701896397 / 72057594037927936 * 10) = Fin (1 / 2)"
    using round_double_eqI[of "- 1" "3602879701896397 / 72057594037927936 * 10" 4503599627370496]
    by (simp add: pow2_def)
  moreover have "round_double (1 / 200) = Fin (5764607523034235 / 1152921504606846976)"
    using round_double_eqI[of "- 8" "1 / 200" 5764607523034235] by (simp add: pow2_def)
  moreover have "round_double (5764607523034235 / 1152921504606846976 * 100) = Fin (1 / 2)"
    using round_double_eqI[of "- 1" "5764607523034235 / 1152921504606846976 * 100" 4503599627370496]
    by (simp add: pow2_def)
  ultimately have five: "qt_discountTotal (quote_of True (cents 5)) = cents 1"
    by (simp add: quote_of_def cents_def round_money_def holiday_discount_process_def Let_def)
  have "round_double (145 / 100) = Fin (6530219459687219 / 4503599627370496)"
    using round_double_eqI[of 0 "145 / 100" 6530219459687219] by (simp add: pow2_def)
  moreover have "round_double (6530219459687219 / 4503599627370496 * 10) = Fin (29 / 2)"
    using round_double_eqI[of 3 "6530219459687219 / 4503599627370496 * 10" 8162774324609024]
    by (simp add: pow2_def)
  moreover have "round_double (29 / 200) = Fin (5224175567749775 / 36028797018963968)"
    using round_double_eqI[of "- 3" "29 / 200" 5224175567749775] by (simp add: pow2_def)
  moreover have "round_double (5224175567749775 / 36028797018963968 * 100) =
      Fin (8162774324609023 / 562949953421312)"
    using round_double_eqI[of 3 "5224175567749775 / 36028797018963968 * 100" 8162774324609023]
    by (simp add: pow2_def)
  moreover have "\<lfloor>8444249301319679 / 562949953421312 :: rat\<rfloor> = 14"
    by (rule floor_unique) simp_all
  ultimately have "qt_discountTotal (quote_of True (cents 145)) = cents 14"
    by (simp add: quote_of_def cents_def round_money_def holiday_discount_process_def Let_def)
  with five show ?thesis ..
qed

end
