(* ===== verification/Auth.thy ===== *)
theory Auth
  imports Dispatcher ProcessRegistry
begin

text \<open>
  Authentication: \<open>src/src/auth/auth-validation.client.ts\<close> (the validation of a bearer
  token by the authentication service) and \<open>auth-identity.guard.ts\<close> (the guard of the
  protected endpoints). The configuration, the platform's URL constructor (\<open>make_url path
  base\<close>, \<open>None\<close> when it throws) and the network are parameters; a timeout that
  aborts the request is a \<open>NetworkError\<close>.
\<close>

section \<open>Words and letter case\<close>

text \<open>
  Case conversion, as far as the program compares its result with ASCII words: the other
  letters below code unit 256 never become one of those words.
\<close>

definition ascii_upper :: "char \<Rightarrow> char" where
  "ascii_upper c = (let n = (of_char c :: nat) in if 97 \<le> n \<and> n \<le> 122 then char_of (n - 32) else c)"

definition ascii_lower :: "char \<Rightarrow> char" where
  "ascii_lower c = (let n = (of_char c :: nat) in if 65 \<le> n \<and> n \<le> 90 then char_of (n + 32) else c)"

text \<open>\<open>s.split(/\s+/)\<close>.\<close>

function split_spaces :: "string \<Rightarrow> string list" where
  "split_spaces s =
     (case dropWhile (\<lambda>c. \<not> js_space c) s of
        [] \<Rightarrow> [s]
      | c # r \<Rightarrow> takeWhile (\<lambda>c. \<not> js_space c) s # split_spaces (dropWhile js_space r))"
  by pat_completeness auto
termination
proof (relation "measure length")
  fix s :: string and c r
  assume "dropWhile (\<lambda>c. \<not> js_space c) s = c # r"
  then have "length (c # r) \<le> length s" by (metis length_dropWhile_le)
  moreover have "length (dropWhile js_space r) \<le> length r" by (rule length_dropWhile_le)
  ultimately show "(dropWhile js_space r, s) \<in> measure length" by simp
qed simp

declare split_spaces.simps [simp del]


section \<open>The validation client\<close>

record auth_request =
  aq_url :: string
  aq_method :: string
  aq_headers :: "(string \<times> string) list"
  aq_body :: "json option"
  aq_timeoutMs :: js_number

definition default_validation_path :: string where
  "default_validation_path = ''/auth/validate''"

definition resolve_validation_endpoint ::
  "environment \<Rightarrow> (string \<Rightarrow> string \<Rightarrow> string option) \<Rightarrow> string option" where
  "resolve_validation_endpoint env make_url =
     (let baseUrl = js_trim (or_else (env ''AUTH_SERVICE_URL'') [])
      in if baseUrl = [] then None
         else
           let configured = js_trim (or_else (env ''AUTH_VALIDATION_PATH'') []);
               path = (if configured = [] then default_validation_path else configured)
           in make_url path (if ends_with ''/'' baseUrl then baseUrl else baseUrl @ ''/''))"

definition validation_method :: "environment \<Rightarrow> string" where
  "validation_method env =
     (let method = map_option (\<lambda>s. map ascii_upper (js_trim s)) (env ''AUTH_VALIDATION_METHOD'')
      in if method = Some ''GET'' then ''GET'' else if method = Some ''POST'' then ''POST'' else ''POST'')"

definition validation_timeout_ms :: "environment \<Rightarrow> js_number" where
  "validation_timeout_ms env =
     (let parsed = parse_int (or_else (env ''AUTH_VALIDATION_TIMEOUT_MS'') [])
      in if is_finite parsed \<and> js_less (Fin 0) parsed then parsed else Fin 3000)"

definition to_record :: "json option \<Rightarrow> json_object option" where
  "to_record value = (case value of Some (JObj kvs) \<Rightarrow> Some kvs | _ \<Rightarrow> None)"

definition read_string :: "json option \<Rightarrow> string option" where
  "read_string value =
     (case value of Some (JStr s) \<Rightarrow> if js_trim s \<noteq> [] then Some (js_trim s) else None | _ \<Rightarrow> None)"

text \<open>The first present string of a chain of \<open>??\<close>.\<close>

fun first_string :: "json option list \<Rightarrow> string option" where
  "first_string [] = None"
| "first_string (v # vs) = (case read_string v of Some s \<Rightarrow> Some s | None \<Rightarrow> first_string vs)"

definition extract_identity :: "json \<Rightarrow> auth_identity option" where
  "extract_identity payload =
     (case to_record (Some payload) of
        None \<Rightarrow> None
      | Some record \<Rightarrow>
          if obj_get record ''valid'' = Some (JBool False) \<or>
             obj_get record ''authenticated'' = Some (JBool False)
          then None
          else
            let envelope = or_else (to_record (obj_get record ''data'')) record;
                user = to_record (obj_get envelope ''user'');
                identity = to_record (obj_get envelope ''identity'')
            in case first_string
                  [obj_get envelope ''subject'', obj_get envelope ''sub'', obj_get envelope ''userId'',
                   obj_get envelope ''id'', opt_get user ''id'', opt_get user ''userId'',
                   opt_get identity ''subject'', opt_get identity ''id''] of
                 None \<Rightarrow> None
               | Some subject \<Rightarrow>
                   Some \<lparr>ai_subject = subject,
                         ai_actor = or_else (first_string
                           [obj_get envelope ''actor'', obj_get envelope ''username'',
                            opt_get user ''email'', opt_get user ''username'']) subject\<rparr>)"

definition auth_request_for :: "environment \<Rightarrow> string \<Rightarrow> string \<Rightarrow> auth_request" where
  "auth_request_for env endpoint token =
     (let method = validation_method env
      in \<lparr>aq_url = endpoint, aq_method = method,
          aq_headers = [(''Authorization'', ''Bearer '' @ token), (''Accept'', ''application/json'')] @
            (if method = ''POST'' then [(''Content-Type'', ''application/json'')] else []),
          aq_body = (if method = ''POST'' then Some (JObj [(''token'', JStr token)]) else None),
          aq_timeoutMs = validation_timeout_ms env\<rparr>)"

text \<open>\<open>safeJson\<close>: a body that cannot be read as JSON counts as \<open>null\<close>.\<close>

definition safe_json :: "string + json \<Rightarrow> json" where
  "safe_json body = (case body of Inl _ \<Rightarrow> JNull | Inr j \<Rightarrow> j)"

text \<open>The identity, if any, and the requests sent.\<close>

definition validate_bearer_token ::
  "environment \<Rightarrow> (string \<Rightarrow> string \<Rightarrow> string option) \<Rightarrow> (auth_request \<Rightarrow> http_answer) \<Rightarrow> string \<Rightarrow>
   auth_identity option \<times> auth_request list" where
  "validate_bearer_token env make_url net token =
     (case resolve_validation_endpoint env make_url of
        None \<Rightarrow> (None, [])
      | Some endpoint \<Rightarrow>
          if endpoint = [] then (None, [])
          else
            let rq = auth_request_for env endpoint token
            in (case net rq of
                  NetworkError m \<Rightarrow> None
                | Response status body json \<Rightarrow>
                    if status = 401 \<or> status = 403 then None
                    else if \<not> response_ok status then None
                    else extract_identity (safe_json json), [rq]))"


section \<open>The guard\<close>

text \<open>The \<open>authorization\<close> header: a string, or several values in an array.\<close>

datatype header_value = HeaderText string | HeaderList "string list"

definition read_bearer_token :: "header_value option \<Rightarrow> string option" where
  "read_bearer_token header =
     (case header of
        Some (HeaderText h) \<Rightarrow>
          if h = [] then None
          else (case split_spaces (js_trim h) of
                  [scheme, token] \<Rightarrow>
                    if scheme = [] \<or> map ascii_lower scheme \<noteq> ''bearer'' \<or> token = [] then None
                    else Some token
                | _ \<Rightarrow> None)
      | _ \<Rightarrow> None)"

definition can_activate ::
  "environment \<Rightarrow> (string \<Rightarrow> string \<Rightarrow> string option) \<Rightarrow> (auth_request \<Rightarrow> http_answer) \<Rightarrow>
   header_value option \<Rightarrow> (error + auth_identity) \<times> auth_request list" where
  "can_activate env make_url net authorization =
     (case read_bearer_token authorization of
        None \<Rightarrow> (Inl (UnauthorizedException ''Bearer token is required for this endpoint''), [])
      | Some token \<Rightarrow>
          (case validate_bearer_token env make_url net token of
             (None, sent) \<Rightarrow>
               (Inl (UnauthorizedException ''Authentication identity could not be confirmed''), sent)
           | (Some identity, sent) \<Rightarrow> (Inr identity, sent)))"


section \<open>Reading the header\<close>

lemma takeWhile_all: "\<forall>c \<in> set s. P c \<Longrightarrow> takeWhile P s = s \<and> dropWhile P s = []"
  by (induction s) auto

lemma split_spaces_word: "\<forall>c \<in> set s. \<not> js_space c \<Longrightarrow> split_spaces s = [s]"
  by (subst split_spaces.simps) (simp add: takeWhile_all)

lemma split_spaces_step:
  assumes "\<forall>c \<in> set w. \<not> js_space c" and "js_space c" and "dropWhile js_space r = r'"
  shows "split_spaces (w @ c # r) = w # split_spaces r'"
proof -
  have "takeWhile (\<lambda>c. \<not> js_space c) (w @ c # r) = w"
    and "dropWhile (\<lambda>c. \<not> js_space c) (w @ c # r) = c # r"
    using assms(1,2) by (induction w) auto
  then show ?thesis by (simp add: split_spaces.simps[of "w @ c # r"] assms(3))
qed

lemma split_spaces_cases:
  obtains (word) "\<forall>c \<in> set s. \<not> js_space c" "split_spaces s = [s]"
    | (step) w c r where "s = w @ c # r" "\<forall>d \<in> set w. \<not> js_space d" "js_space c"
        "split_spaces s = w # split_spaces (dropWhile js_space r)"
proof (cases "dropWhile (\<lambda>c. \<not> js_space c) s")
  case Nil
  then have "\<forall>c \<in> set s. \<not> js_space c" by (simp add: dropWhile_eq_Nil_conv)
  then show thesis using word split_spaces_word by blast
next
  case (Cons c r)
  define w where "w = takeWhile (\<lambda>c. \<not> js_space c) s"
  have "w @ dropWhile (\<lambda>c. \<not> js_space c) s = s" unfolding w_def by (rule takeWhile_dropWhile_id)
  then have s: "s = w @ c # r" by (simp add: Cons)
  have w: "\<forall>d \<in> set w. \<not> js_space d" unfolding w_def by (auto dest: set_takeWhileD)
  have c: "js_space c" using hd_dropWhile[of "\<lambda>c. \<not> js_space c" s] by (simp add: Cons)
  have "split_spaces s = w # split_spaces (dropWhile js_space r)"
    unfolding s by (rule split_spaces_step[OF w c refl])
  with s w c show thesis by (rule step)
qed

lemma split_spaces_nonempty: "split_spaces s \<noteq> []"
  by (cases s rule: split_spaces_cases) auto

lemma split_spaces_two:
  "split_spaces s = [a, b] \<longleftrightarrow>
   (\<exists>c r. s = a @ c # r \<and> js_space c \<and> b = dropWhile js_space r \<and>
          (\<forall>d \<in> set a. \<not> js_space d) \<and> (\<forall>d \<in> set b. \<not> js_space d))"
proof
  assume two: "split_spaces s = [a, b]"
  then show "\<exists>c r. s = a @ c # r \<and> js_space c \<and> b = dropWhile js_space r \<and>
          (\<forall>d \<in> set a. \<not> js_space d) \<and> (\<forall>d \<in> set b. \<not> js_space d)"
  proof (cases s rule: split_spaces_cases)
    case word
    with two show ?thesis by simp
  next
    case (step w c r)
    with two have w: "w = a" and b: "split_spaces (dropWhile js_space r) = [b]" by auto
    from b have "b = dropWhile js_space r \<and> (\<forall>d \<in> set b. \<not> js_space d)"
      by (cases "dropWhile js_space r" rule: split_spaces_cases) (auto simp: split_spaces_nonempty split_spaces_nonempty[symmetric])
    with step w show ?thesis by blast
  qed
next
  assume "\<exists>c r. s = a @ c # r \<and> js_space c \<and> b = dropWhile js_space r \<and>
          (\<forall>d \<in> set a. \<not> js_space d) \<and> (\<forall>d \<in> set b. \<not> js_space d)"
  then obtain c r where s: "s = a @ c # r" "js_space c" "b = dropWhile js_space r"
    and a: "\<forall>d \<in> set a. \<not> js_space d" and b: "\<forall>d \<in> set b. \<not> js_space d" by blast
  show "split_spaces s = [a, b]"
    unfolding s(1) split_spaces_step[OF a s(2) s(3)[symmetric]] using split_spaces_word[OF b] by simp
qed

lemma ascii_lower_space: "js_space c \<Longrightarrow> ascii_lower c = c"
  by (auto simp: js_space_def ascii_lower_def)

lemma bearer_no_space:
  assumes "map ascii_lower scheme = ''bearer''"
  shows "\<forall>d \<in> set scheme. \<not> js_space d"
proof (intro ballI notI)
  fix d
  assume d: "d \<in> set scheme" "js_space d"
  then have "d \<in> ascii_lower ` set scheme" by (metis ascii_lower_space imageI)
  then have "d \<in> set ''bearer''" unfolding assms[symmetric] by simp
  with d(2) show False by (auto simp: js_space_def)
qed

text \<open>
  The guard reads a token from exactly the headers of the form
  \<open>Bearer <token>\<close>: one string, in any case of the scheme, with any white space around
  and at least one between, and one non-empty token without white space.
\<close>

theorem bearer_header_iff:
  "read_bearer_token header = Some token \<longleftrightarrow>
   (\<exists>h scheme gap. header = Some (HeaderText h) \<and> js_trim h = scheme @ gap @ token \<and>
      map ascii_lower scheme = ''bearer'' \<and> gap \<noteq> [] \<and> list_all js_space gap \<and>
      token \<noteq> [] \<and> list_all (\<lambda>c. \<not> js_space c) token)"
proof
  assume "read_bearer_token header = Some token"
  then obtain h scheme where h: "header = Some (HeaderText h)"
    and two: "split_spaces (js_trim h) = [scheme, token]"
    and b: "map ascii_lower scheme = ''bearer''" and t: "token \<noteq> []"
    by (auto simp: read_bearer_token_def split: option.splits header_value.splits list.splits if_splits)
  from two obtain c r where r: "js_trim h = scheme @ c # r" "js_space c" "token = dropWhile js_space r"
    and nt: "\<forall>d \<in> set token. \<not> js_space d"
    unfolding split_spaces_two by blast
  have "r = takeWhile js_space r @ token" using r(3) by simp
  then have "js_trim h = scheme @ (c # takeWhile js_space r) @ token" using r(1) by simp
  moreover have "list_all js_space (c # takeWhile js_space r)"
    using r(2) by (auto simp: list_all_iff dest: set_takeWhileD)
  ultimately show "\<exists>h scheme gap. header = Some (HeaderText h) \<and> js_trim h = scheme @ gap @ token \<and>
      map ascii_lower scheme = ''bearer'' \<and> gap \<noteq> [] \<and> list_all js_space gap \<and>
      token \<noteq> [] \<and> list_all (\<lambda>c. \<not> js_space c) token"
    using h b t nt by (intro exI[of _ h] exI[of _ scheme] exI[of _ "c # takeWhile js_space r"])
      (simp add: list_all_iff)
next
  assume "\<exists>h scheme gap. header = Some (HeaderText h) \<and> js_trim h = scheme @ gap @ token \<and>
      map ascii_lower scheme = ''bearer'' \<and> gap \<noteq> [] \<and> list_all js_space gap \<and>
      token \<noteq> [] \<and> list_all (\<lambda>c. \<not> js_space c) token"
  then show "read_bearer_token header = Some token"
  proof (elim exE conjE)
    fix h scheme gap'
    assume h': "header = Some (HeaderText h)" "js_trim h = scheme @ gap' @ token"
        "map ascii_lower scheme = ''bearer''"
      and sp': "gap' \<noteq> []" "list_all js_space gap'"
      and t': "token \<noteq> []" "list_all (\<lambda>c. \<not> js_space c) token"
    have t: "token \<noteq> []" "\<forall>d \<in> set token. \<not> js_space d" using t' by (simp_all add: list_all_iff)
    obtain c gap where g: "gap' = c # gap" using sp'(1) by (cases gap') auto
    have trimmed: "js_trim h = scheme @ c # gap @ token" using h'(2) by (simp only: g append_Cons)
    have sp: "js_space c" "\<forall>d \<in> set gap. js_space d" using sp'(2) by (simp_all add: g list_all_iff)
    have "dropWhile js_space (gap @ token) = token"
      using sp(2) t by (induction gap) (auto simp: neq_Nil_conv)
    then have "split_spaces (js_trim h) = [scheme, token]"
      unfolding split_spaces_two trimmed using sp(1) t(2) bearer_no_space[OF h'(3)] by auto
    moreover have "h \<noteq> []" using trimmed by (auto simp: js_trim_def)
    moreover have "scheme \<noteq> []" using h'(3) by auto
    ultimately show ?thesis
      using h'(1,3) t(1) by (simp add: read_bearer_token_def)
  qed
qed


section \<open>The guard fails closed\<close>

lemma read_string_Some: "read_string v = Some s \<Longrightarrow> s \<noteq> [] \<and> js_trim s = s"
  by (auto simp: read_string_def split: option.splits json.splits if_splits)

lemma first_string_Some: "first_string vs = Some s \<Longrightarrow> s \<noteq> [] \<and> js_trim s = s"
  by (induction vs) (auto dest: read_string_Some split: option.splits)

lemma extract_identity_Some:
  assumes "extract_identity payload = Some identity"
  shows "ai_subject identity \<noteq> [] \<and> js_trim (ai_subject identity) = ai_subject identity \<and>
         ai_actor identity \<noteq> [] \<and> js_trim (ai_actor identity) = ai_actor identity"
proof -
  obtain subject vs ws where s: "first_string vs = Some subject"
    and i: "identity = \<lparr>ai_subject = subject, ai_actor = or_else (first_string ws) subject\<rparr>"
    using assms unfolding extract_identity_def Let_def
    by (auto simp del: first_string.simps split: option.splits if_splits)
  show ?thesis
    using first_string_Some[OF s] first_string_Some[of ws]
    by (cases "first_string ws") (simp_all add: i or_else_def)
qed

text \<open>
  What the answer of the authentication service has to say, stated on the document alone.
  \<open>json_at\<close> follows a path of member names; \<open>first_name\<close> is the first of several paths
  that leads to a text that is not blank, trimmed.
\<close>

fun json_at :: "string list \<Rightarrow> json_object \<Rightarrow> json option" where
  "json_at [] obj = Some (JObj obj)"
| "json_at (k # ks) obj =
     (case obj_get obj k of
        None \<Rightarrow> None
      | Some (JObj inner) \<Rightarrow> json_at ks inner
      | Some v \<Rightarrow> if ks = [] then Some v else None)"

definition first_name :: "json_object \<Rightarrow> string list list \<Rightarrow> string \<Rightarrow> bool" where
  "first_name obj paths s \<longleftrightarrow>
     (\<exists>before p after v. paths = before @ p # after \<and> json_at p obj = Some (JStr v) \<and>
        js_trim v \<noteq> [] \<and> s = js_trim v \<and>
        (\<forall>q \<in> set before. \<forall>w. json_at q obj = Some (JStr w) \<longrightarrow> js_trim w = []))"

definition subject_paths :: "string list list" where
  "subject_paths =
     [[''subject''], [''sub''], [''userId''], [''id''], [''user'', ''id''], [''user'', ''userId''],
      [''identity'', ''subject''], [''identity'', ''id'']]"

definition actor_paths :: "string list list" where
  "actor_paths = [[''actor''], [''username''], [''user'', ''email''], [''user'', ''username'']]"

definition vouches_for :: "json \<Rightarrow> auth_identity \<Rightarrow> bool" where
  "vouches_for payload identity \<longleftrightarrow>
     (\<exists>answer claims. payload = JObj answer \<and>
        obj_get answer ''valid'' \<noteq> Some (JBool False) \<and>
        obj_get answer ''authenticated'' \<noteq> Some (JBool False) \<and>
        (if \<exists>inner. obj_get answer ''data'' = Some (JObj inner)
         then obj_get answer ''data'' = Some (JObj claims) else claims = answer) \<and>
        first_name claims subject_paths (ai_subject identity) \<and>
        (if \<exists>name. first_name claims actor_paths name
         then first_name claims actor_paths (ai_actor identity)
         else ai_actor identity = ai_subject identity))"

lemma first_name_Nil [simp]: "\<not> first_name obj [] s"
  by (simp add: first_name_def)

lemma first_name_Cons:
  "first_name obj (p # ps) s \<longleftrightarrow>
     (case read_string (json_at p obj) of Some s' \<Rightarrow> s = s' | None \<Rightarrow> first_name obj ps s)"
proof (cases "read_string (json_at p obj)")
  case None
  then have blank: "json_at p obj = Some (JStr w) \<Longrightarrow> js_trim w = []" for w
    by (auto simp: read_string_def split: if_splits)
  have "first_name obj (p # ps) s \<longleftrightarrow> first_name obj ps s"
  proof
    assume "first_name obj (p # ps) s"
    then obtain before q after v where q: "p # ps = before @ q # after"
        "json_at q obj = Some (JStr v)" "js_trim v \<noteq> []" "s = js_trim v"
        "\<forall>q \<in> set before. \<forall>w. json_at q obj = Some (JStr w) \<longrightarrow> js_trim w = []"
      unfolding first_name_def by blast
    then obtain before' where "before = p # before'" using blank by (cases before) auto
    with q show "first_name obj ps s" unfolding first_name_def by auto
  next
    assume "first_name obj ps s"
    then obtain before q after v where q: "ps = before @ q # after"
        "json_at q obj = Some (JStr v)" "js_trim v \<noteq> []" "s = js_trim v"
        "\<forall>q \<in> set before. \<forall>w. json_at q obj = Some (JStr w) \<longrightarrow> js_trim w = []"
      unfolding first_name_def by blast
    then show "first_name obj (p # ps) s" unfolding first_name_def
      using blank by (intro exI[of _ "p # before"] exI[of _ q] exI[of _ after] exI[of _ v]) auto
  qed
  with None show ?thesis by simp
next
  case (Some s')
  then obtain v where v: "json_at p obj = Some (JStr v)" "js_trim v \<noteq> []" "s' = js_trim v"
    by (auto simp: read_string_def split: option.splits json.splits if_splits)
  have "first_name obj (p # ps) s \<longleftrightarrow> s = s'"
  proof
    assume "first_name obj (p # ps) s"
    then obtain before q after u where q: "p # ps = before @ q # after"
        "json_at q obj = Some (JStr u)" "s = js_trim u"
        "\<forall>q \<in> set before. \<forall>w. json_at q obj = Some (JStr w) \<longrightarrow> js_trim w = []"
      unfolding first_name_def by blast
    then show "s = s'" using v by (cases before) auto
  next
    assume "s = s'"
    with v show "first_name obj (p # ps) s" unfolding first_name_def
      by (intro exI[of _ "[]"] exI[of _ p] exI[of _ ps] exI[of _ v]) simp
  qed
  with Some show ?thesis by simp
qed

lemma first_string_paths:
  "first_string (map (\<lambda>p. json_at p obj) paths) = Some s \<longleftrightarrow> first_name obj paths s"
  by (induction paths) (auto simp: first_name_Cons split: option.splits)

lemma json_at_one: "json_at [k] obj = obj_get obj k"
  by (auto split: option.splits json.splits)

lemma json_at_two: "json_at [k, l] obj = opt_get (to_record (obj_get obj k)) l"
  by (auto simp: to_record_def opt_get_def split: option.splits json.splits)

lemma extract_identity_iff: "extract_identity payload = Some identity \<longleftrightarrow> vouches_for payload identity"
proof (cases payload)
  case (JObj answer)
  define claims where "claims = or_else (to_record (obj_get answer ''data'')) answer"
  have pick: "(if \<exists>inner. obj_get answer ''data'' = Some (JObj inner)
      then obj_get answer ''data'' = Some (JObj c) else c = answer) \<longleftrightarrow> c = claims" for c
    by (auto simp: claims_def to_record_def or_else_def split: option.splits json.splits)
  have paths:
    "[obj_get claims ''subject'', obj_get claims ''sub'', obj_get claims ''userId'',
      obj_get claims ''id'', opt_get (to_record (obj_get claims ''user'')) ''id'',
      opt_get (to_record (obj_get claims ''user'')) ''userId'',
      opt_get (to_record (obj_get claims ''identity'')) ''subject'',
      opt_get (to_record (obj_get claims ''identity'')) ''id''] =
     map (\<lambda>p. json_at p claims) subject_paths"
    "[obj_get claims ''actor'', obj_get claims ''username'',
      opt_get (to_record (obj_get claims ''user'')) ''email'',
      opt_get (to_record (obj_get claims ''user'')) ''username''] =
     map (\<lambda>p. json_at p claims) actor_paths"
    by (simp_all only: subject_paths_def actor_paths_def list.map json_at_one json_at_two)
  let ?subject = "first_string (map (\<lambda>p. json_at p claims) subject_paths)"
  let ?actor = "first_string (map (\<lambda>p. json_at p claims) actor_paths)"
  have "extract_identity payload =
     (if obj_get answer ''valid'' = Some (JBool False) \<or>
         obj_get answer ''authenticated'' = Some (JBool False) then None
      else map_option (\<lambda>s. \<lparr>ai_subject = s, ai_actor = or_else ?actor s\<rparr>) ?subject)"
    unfolding extract_identity_def JObj to_record_def[of "Some (JObj answer)"]
    by (simp only: option.case json.case claims_def[symmetric] Let_def paths map_option_case)
  moreover have "(\<exists>name. first_name claims actor_paths name) \<longleftrightarrow> ?actor \<noteq> None"
    by (auto simp: first_string_paths[symmetric])
  ultimately show ?thesis
    unfolding vouches_for_def JObj
    by (cases identity)
      (auto simp: pick first_string_paths[symmetric] or_else_def split: option.splits)
qed (simp_all add: extract_identity_def to_record_def vouches_for_def)

text \<open>The configured address of the service, and the header of a bearer token.\<close>

definition service_endpoint ::
  "environment \<Rightarrow> (string \<Rightarrow> string \<Rightarrow> string option) \<Rightarrow> string \<Rightarrow> bool" where
  "service_endpoint env make_url endpoint \<longleftrightarrow>
     (\<exists>base stem path. env ''AUTH_SERVICE_URL'' = Some base \<and> js_trim base \<noteq> [] \<and>
        (js_trim base = stem @ ''/'' \<or> js_trim base = stem \<and> last stem \<noteq> CHR ''/'') \<and>
        (path = ''/auth/validate'' \<and>
           (\<forall>p. env ''AUTH_VALIDATION_PATH'' = Some p \<longrightarrow> js_trim p = []) \<or>
         path \<noteq> [] \<and> (\<exists>p. env ''AUTH_VALIDATION_PATH'' = Some p \<and> path = js_trim p)) \<and>
        make_url path (stem @ ''/'') = Some endpoint)"

definition bearer_header :: "header_value option \<Rightarrow> string \<Rightarrow> bool" where
  "bearer_header header token \<longleftrightarrow>
     (\<exists>h scheme gap. header = Some (HeaderText h) \<and> js_trim h = scheme @ gap @ token \<and>
        map ascii_lower scheme = ''bearer'' \<and> gap \<noteq> [] \<and> list_all js_space gap \<and>
        token \<noteq> [] \<and> list_all (\<lambda>c. \<not> js_space c) token)"

lemma bearer_header_token: "read_bearer_token header = Some token \<longleftrightarrow> bearer_header header token"
  unfolding bearer_header_def by (rule bearer_header_iff)

lemma ends_with_iff: "ends_with p s \<longleftrightarrow> (\<exists>stem. s = stem @ p)"
  unfolding ends_with_def starts_with_iff by (metis rev_append rev_rev_ident)

lemma with_slash:
  assumes "b \<noteq> []"
  shows "(\<exists>stem. (b = stem @ ''/'' \<or> b = stem \<and> last stem \<noteq> CHR ''/'') \<and> P (stem @ ''/'')) \<longleftrightarrow>
         P (if ends_with ''/'' b then b else b @ ''/'')"
proof (cases "ends_with ''/'' b")
  case True
  then obtain stem where "b = stem @ ''/''" by (auto simp: ends_with_iff)
  with True show ?thesis by auto
next
  case False
  moreover have "last b \<noteq> CHR ''/''"
    using False append_butlast_last_id[OF assms] by (metis ends_with_iff)
  ultimately show ?thesis by (auto simp: ends_with_iff)
qed

lemma service_endpoint_iff:
  "resolve_validation_endpoint env make_url = Some endpoint \<longleftrightarrow> service_endpoint env make_url endpoint"
proof (cases "js_trim (or_else (env ''AUTH_SERVICE_URL'') []) = []")
  case True
  then show ?thesis
    by (auto simp: resolve_validation_endpoint_def service_endpoint_def or_else_def split: option.splits)
next
  case False
  then obtain base where b: "env ''AUTH_SERVICE_URL'' = Some base" "js_trim base \<noteq> []"
    by (cases "env ''AUTH_SERVICE_URL''") (auto simp: or_else_def js_trim_def)
  define path where "path =
    (let configured = js_trim (or_else (env ''AUTH_VALIDATION_PATH'') [])
     in if configured = [] then ''/auth/validate'' else configured)"
  have path: "(p = ''/auth/validate'' \<and> (\<forall>c. env ''AUTH_VALIDATION_PATH'' = Some c \<longrightarrow> js_trim c = []) \<or>
      p \<noteq> [] \<and> (\<exists>c. env ''AUTH_VALIDATION_PATH'' = Some c \<and> p = js_trim c)) \<longleftrightarrow> p = path" for p
    by (cases "env ''AUTH_VALIDATION_PATH''") (auto simp: path_def or_else_def js_trim_def)
  have "resolve_validation_endpoint env make_url = Some endpoint \<longleftrightarrow>
      make_url path (if ends_with ''/'' (js_trim base) then js_trim base else js_trim base @ ''/'')
        = Some endpoint"
    using b by (simp add: resolve_validation_endpoint_def path_def default_validation_path_def
        Let_def or_else_def)
  also have "\<dots> \<longleftrightarrow> service_endpoint env make_url endpoint"
    unfolding service_endpoint_def path
    using with_slash[OF b(2), of "\<lambda>u. make_url path u = Some endpoint"] b by auto
  finally show ?thesis .
qed

text \<open>
  C21. The guard lets a request through exactly when its header holds a bearer token, the
  address of the authentication service is configured, the service answers the one request
  sent to that address with that token by a status from 200 to 299, and the document it
  answers vouches for an identity: an object without \<open>valid\<close> or \<open>authenticated\<close> being
  false (a rejection inside its \<open>data\<close> member is not looked at), whose \<open>data\<close> member (or
  which itself) names a subject. That identity is passed on, and its actor is recorded by
  the registry as it is, never replaced by the fallback name. In every other case an
  unauthorized error is raised, and no request leaves without a token.
\<close>

theorem guard_fails_closed:
  "(can_activate env make_url net authorization = (Inr identity, sent) \<longleftrightarrow>
      (\<exists>token endpoint rq status body payload.
         bearer_header authorization token \<and> service_endpoint env make_url endpoint \<and>
         endpoint \<noteq> [] \<and> rq = auth_request_for env endpoint token \<and>
         aq_url rq = endpoint \<and> (''Authorization'', ''Bearer '' @ token) \<in> set (aq_headers rq) \<and>
         sent = [rq] \<and> net rq = Response status body (Inr payload) \<and>
         200 \<le> status \<and> status \<le> 299 \<and> vouches_for payload identity)) \<and>
   (case can_activate env make_url net authorization of
      (Inr named, _) \<Rightarrow>
        ai_subject named \<noteq> [] \<and> normalized_actor (request_actor (Some named)) = ai_actor named
    | (Inl e, asked) \<Rightarrow>
        (\<exists>message. e = UnauthorizedException message) \<and>
        length asked \<le> (if \<exists>token. bearer_header authorization token then 1 else 0))"
proof -
  have null: "extract_identity JNull = None" by (simp add: extract_identity_def to_record_def)
  have rq: "aq_url (auth_request_for env e t) = e"
    "(''Authorization'', ''Bearer '' @ t) \<in> set (aq_headers (auth_request_for env e t))" for e t
    by (simp_all add: auth_request_for_def Let_def)
  have named: "ai_subject i \<noteq> [] \<and> normalized_actor (request_actor (Some i)) = ai_actor i"
    if "extract_identity payload = Some i" for payload i
    using extract_identity_Some[OF that] by (simp add: normalized_actor_def request_actor_def)
  note specs = bearer_header_token[symmetric] service_endpoint_iff[symmetric]
    extract_identity_iff[symmetric]
  show ?thesis
  proof (cases "read_bearer_token authorization")
    case None
    then show ?thesis by (simp add: can_activate_def specs)
  next
    case (Some token)
    show ?thesis
    proof (cases "resolve_validation_endpoint env make_url")
      case None
      with Some show ?thesis by (simp add: can_activate_def validate_bearer_token_def specs)
    next
      case endpoint: (Some endpoint)
      show ?thesis
        using Some endpoint null named rq
        by (cases "net (auth_request_for env endpoint token)")
          (auto simp: can_activate_def validate_bearer_token_def safe_json_def Let_def response_ok_def
            specs split: option.splits sum.splits if_splits)
    qed
  qed
qed

text \<open>
  A rejection is only read at the top level of the payload, while the identity is also
  read from its \<open>data\<close> member: a payload whose \<open>data\<close> says that the token is not
  valid still yields the identity in it.
\<close>

lemma nested_rejection_ignored:
  "extract_identity (JObj [(''data'', JObj [(''valid'', JBool False), (''sub'', JStr ''u1'')])]) =
   Some \<lparr>ai_subject = ''u1'', ai_actor = ''u1''\<rparr>"
  by (simp add: extract_identity_def to_record_def read_string_def or_else_def js_trim_def js_space_def)

end
