(* ===== verification/JsonText.thy ===== *)
theory JsonText
  imports JsValue JsDate
begin

text \<open>
  JSON values as text and as JavaScript values: \<open>JSON.stringify\<close>, \<open>String(v)\<close> as
  template literals apply it, truthiness, the identity of \<open>Set\<close> and \<open>Map\<close> keys,
  the conversion of a value to a date, and the regular expressions of the validators under
  \<open>src/process-registry/validators\<close> as recognisers. \<open>shown\<close> renders the numbers that
  are not integers below \<open>10 ^ 21\<close>. The members of an object are listed in JavaScript's
  property order, with distinct names.
\<close>

section \<open>Values as text\<close>

definition number_text :: "(rat \<Rightarrow> string) \<Rightarrow> js_number \<Rightarrow> string" where
  "number_text shown n =
     (case n of
        JsNaN \<Rightarrow> ''NaN'' | PosInf \<Rightarrow> ''Infinity'' | NegInf \<Rightarrow> ''-Infinity''
      | Fin x \<Rightarrow> if of_int \<lfloor>x\<rfloor> = x \<and> \<bar>x\<bar> < 10 ^ 21 then int_str \<lfloor>x\<rfloor> else shown x)"

definition hex_digit :: "nat \<Rightarrow> char" where
  "hex_digit n = (if n < 10 then digit_char n else char_of (87 + n))"

definition escape_char :: "char \<Rightarrow> string" where
  "escape_char c =
     (let n = (of_char c :: nat) in
      if n = 34 then [CHR 0x5C, CHR 0x22]
      else if n = 92 then [CHR 0x5C, CHR 0x5C]
      else if n = 8 then CHR 0x5C # ''b''
      else if n = 9 then CHR 0x5C # ''t''
      else if n = 10 then CHR 0x5C # ''n''
      else if n = 12 then CHR 0x5C # ''f''
      else if n = 13 then CHR 0x5C # ''r''
      else if n < 32 then CHR 0x5C # ''u00'' @ [hex_digit (n div 16), hex_digit (n mod 16)]
      else [c])"

definition quote_string :: "string \<Rightarrow> string" where
  "quote_string s = [CHR 0x22] @ concat (map escape_char s) @ [CHR 0x22]"

fun stringify :: "(rat \<Rightarrow> string) \<Rightarrow> json \<Rightarrow> string" where
  "stringify shown JNull = ''null''"
| "stringify shown (JBool b) = (if b then ''true'' else ''false'')"
| "stringify shown (JNum n) = (if is_finite n then number_text shown n else ''null'')"
| "stringify shown (JStr s) = quote_string s"
| "stringify shown (JArr xs) = ''['' @ js_join '','' (map (stringify shown) xs) @ '']''"
| "stringify shown (JObj kvs) =
     ''{'' @ js_join '','' (map (\<lambda>(k, v). quote_string k @ '':'' @ stringify shown v) kvs) @ ''}''"

fun to_text :: "(rat \<Rightarrow> string) \<Rightarrow> json \<Rightarrow> string" where
  "to_text shown JNull = ''null''"
| "to_text shown (JBool b) = (if b then ''true'' else ''false'')"
| "to_text shown (JNum n) = number_text shown n"
| "to_text shown (JStr s) = s"
| "to_text shown (JArr xs) =
     js_join '','' (map (\<lambda>x. if x = JNull then [] else to_text shown x) xs)"
| "to_text shown (JObj kvs) = ''[object Object]''"

text \<open>\<open>${v}\<close> of a value that may be undefined.\<close>

definition shown_value :: "(rat \<Rightarrow> string) \<Rightarrow> json option \<Rightarrow> string" where
  "shown_value shown v = (case v of None \<Rightarrow> ''undefined'' | Some j \<Rightarrow> to_text shown j)"


section \<open>Truthiness, identity, properties\<close>

definition truthy :: "json option \<Rightarrow> bool" where
  "truthy v \<longleftrightarrow>
     (case v of
        None \<Rightarrow> False | Some JNull \<Rightarrow> False | Some (JBool b) \<Rightarrow> b
      | Some (JNum n) \<Rightarrow> n \<noteq> JsNaN \<and> n \<noteq> Fin 0
      | Some (JStr s) \<Rightarrow> s \<noteq> []
      | Some _ \<Rightarrow> True)"

definition is_nullish :: "json option \<Rightarrow> bool" where
  "is_nullish v \<longleftrightarrow> v = None \<or> v = Some JNull"

text \<open>Objects and arrays are identical only to themselves, never to another one.\<close>

definition is_primitive :: "json option \<Rightarrow> bool" where
  "is_primitive v \<longleftrightarrow> (case v of Some (JArr _) \<Rightarrow> False | Some (JObj _) \<Rightarrow> False | _ \<Rightarrow> True)"

definition same_key :: "json option \<Rightarrow> json option \<Rightarrow> bool" where
  "same_key a b \<longleftrightarrow> is_primitive a \<and> a = b"

definition is_object :: "json option \<Rightarrow> bool" where
  "is_object v \<longleftrightarrow> (case v of Some (JObj _) \<Rightarrow> True | _ \<Rightarrow> False)"

definition array_of :: "json option \<Rightarrow> json list" where
  "array_of v = (case v of Some (JArr xs) \<Rightarrow> xs | _ \<Rightarrow> [])"

text \<open>
  \<open>v?.k\<close>, and \<open>v.k\<close> of a value that is not null. No name the validators read is a
  property of strings, numbers, booleans or arrays.
\<close>

definition opt_prop :: "json option \<Rightarrow> string \<Rightarrow> json option" where
  "opt_prop v k = (case v of Some (JObj kvs) \<Rightarrow> obj_get kvs k | _ \<Rightarrow> None)"

definition read_prop :: "json \<Rightarrow> string \<Rightarrow> error + json option" where
  "read_prop v k =
     (case v of
        JNull \<Rightarrow> Inl (TypeError (''Cannot read properties of null (reading '' @ [CHR 0x27] @ k @ [CHR 0x27] @ '')''))
      | _ \<Rightarrow> Inr (opt_prop (Some v) k))"

definition is_text :: "(string \<Rightarrow> bool) \<Rightarrow> json option \<Rightarrow> bool" where
  "is_text p v \<longleftrightarrow> (case v of Some (JStr s) \<Rightarrow> p s | _ \<Rightarrow> False)"

abbreviation nonempty_text :: "json option \<Rightarrow> bool" where
  "nonempty_text \<equiv> is_text (\<lambda>s. s \<noteq> [])"

abbreviation one_of :: "string list \<Rightarrow> json option \<Rightarrow> bool" where
  "one_of xs \<equiv> is_text (\<lambda>s. s \<in> set xs)"

text \<open>\<open>for (const x of v || [])\<close>: the values iterated over.\<close>

definition iterated :: "json option \<Rightarrow> error + json list" where
  "iterated v =
     (if \<not> truthy v then Inr []
      else case v of
             Some (JArr xs) \<Rightarrow> Inr xs
           | Some (JStr s) \<Rightarrow> Inr (map (\<lambda>c. JStr [c]) s)
           | _ \<Rightarrow> Inl (TypeError ''object is not iterable''))"

text \<open>\<open>new Date(v)\<close>.\<close>

definition date_of :: "(rat \<Rightarrow> string) \<Rightarrow> host_parse \<Rightarrow> json \<Rightarrow> instant option" where
  "date_of shown host v =
     (case v of
        JNull \<Rightarrow> Some 0
      | JBool b \<Rightarrow> Some (if b then 1 else 0)
      | JNum (Fin x) \<Rightarrow> time_clip (rat_trunc x)
      | JNum _ \<Rightarrow> None
      | _ \<Rightarrow> date_parse host (to_text shown v))"

definition date_before :: "instant option \<Rightarrow> instant option \<Rightarrow> bool" where
  "date_before a b = (case (a, b) of (Some s, Some t) \<Rightarrow> s < t | _ \<Rightarrow> False)"


section \<open>Regular expressions\<close>

definition is_lower :: "char \<Rightarrow> bool" where
  "is_lower c \<longleftrightarrow> (let n = (of_char c :: nat) in 97 \<le> n \<and> n \<le> 122)"

definition is_word :: "char \<Rightarrow> bool" where
  "is_word c \<longleftrightarrow>
     is_lower c \<or> is_digit c \<or> c = CHR ''_'' \<or> (let n = (of_char c :: nat) in 65 \<le> n \<and> n \<le> 90)"

fun split_on :: "char \<Rightarrow> string \<Rightarrow> string list" where
  "split_on sep [] = [[]]"
| "split_on sep (c # s) =
     (if c = sep then [] # split_on sep s
      else case split_on sep s of [] \<Rightarrow> [[c]] | w # ws \<Rightarrow> (c # w) # ws)"

text \<open>\<open>/^[a-z][a-z0-9_]*$/\<close>\<close>

definition ident :: "string \<Rightarrow> bool" where
  "ident s \<longleftrightarrow> (case s of [] \<Rightarrow> False
     | c # cs \<Rightarrow> is_lower c \<and> list_all (\<lambda>d. is_lower d \<or> is_digit d \<or> d = CHR ''_'') cs)"

text \<open>\<open>/^[a-z][a-z0-9]*(\.[a-z][a-z0-9_]*)+$/\<close>\<close>

definition process_key_pattern :: "string \<Rightarrow> bool" where
  "process_key_pattern s \<longleftrightarrow>
     (case split_on (CHR ''.'') s of
        (c # cs) # p # ps \<Rightarrow>
          is_lower c \<and> list_all (\<lambda>d. is_lower d \<or> is_digit d) cs \<and> list_all ident (p # ps)
      | _ \<Rightarrow> False)"

text \<open>\<open>/^[0-9]+\.[0-9]+\.[0-9]+$/\<close>\<close>

definition semver :: "string \<Rightarrow> bool" where
  "semver s \<longleftrightarrow>
     (let parts = split_on (CHR ''.'') s
      in length parts = 3 \<and> list_all (\<lambda>p. p \<noteq> [] \<and> list_all is_digit p) parts)"

text \<open>A shape in which \<open>d\<close> stands for a digit, and the rest of the string after it.\<close>

fun after_shape :: "string \<Rightarrow> string \<Rightarrow> string option" where
  "after_shape [] s = Some s"
| "after_shape (p # ps) [] = None"
| "after_shape (p # ps) (c # s) =
     (if (if p = CHR ''d'' then is_digit c else c = p) then after_shape ps s else None)"

text \<open>\<open>/^\d{4}-\d{2}-\d{2}T\d{2}:\d{2}:\d{2}(?:\.\d+)?Z$/\<close>\<close>

definition date_time :: "string \<Rightarrow> bool" where
  "date_time s \<longleftrightarrow>
     (case after_shape ''dddd-dd-ddTdd:dd:dd'' s of
        None \<Rightarrow> False
      | Some r \<Rightarrow>
          r = ''Z'' \<or>
          (case r of
             c # t \<Rightarrow> c = CHR ''.'' \<and> takeWhile is_digit t \<noteq> [] \<and> dropWhile is_digit t = ''Z''
           | [] \<Rightarrow> False))"

text \<open>\<open>/^sha256:[a-f0-9]{64}$/\<close>\<close>

definition sha256 :: "string \<Rightarrow> bool" where
  "sha256 s \<longleftrightarrow>
     starts_with ''sha256:'' s \<and> length s = 71 \<and>
     list_all (\<lambda>c. is_digit c \<or> (let n = (of_char c :: nat) in 97 \<le> n \<and> n \<le> 102)) (drop 7 s)"

definition marker_open :: "string \<Rightarrow> bool" where
  "marker_open s \<longleftrightarrow> starts_with ''[MISSING:'' s \<or> starts_with ''[UNKNOWN:'' s"

text \<open>\<open>/\[(MISSING|UNKNOWN):[^\]]+\]/\<close>, and the number of matches of its opening.\<close>

fun has_marker :: "string \<Rightarrow> bool" where
  "has_marker [] \<longleftrightarrow> False"
| "has_marker (c # s) \<longleftrightarrow>
     marker_open (c # s) \<and>
       takeWhile (\<lambda>d. d \<noteq> CHR '']'') (drop 9 (c # s)) \<noteq> [] \<and> CHR '']'' \<in> set (drop 9 (c # s)) \<or>
     has_marker s"

fun count_markers :: "string \<Rightarrow> nat" where
  "count_markers [] = 0"
| "count_markers (c # s) = (if marker_open (c # s) then 1 else 0) + count_markers s"

text \<open>
  \<open>/=>|function\s|\beval\s*\(|\bnew Function\b/\<close>; the first argument says whether
  the character before the string is a word character.
\<close>

fun executable_from :: "bool \<Rightarrow> string \<Rightarrow> bool" where
  "executable_from after_word [] \<longleftrightarrow> False"
| "executable_from after_word (c # s) \<longleftrightarrow>
     starts_with ''=>'' (c # s) \<or>
     starts_with ''function'' (c # s) \<and> drop 8 (c # s) \<noteq> [] \<and> js_space (hd (drop 8 (c # s))) \<or>
     \<not> after_word \<and> starts_with ''eval'' (c # s) \<and>
       starts_with ''('' (dropWhile js_space (drop 4 (c # s))) \<or>
     \<not> after_word \<and> starts_with ''new Function'' (c # s) \<and>
       (drop 12 (c # s) = [] \<or> \<not> is_word (hd (drop 12 (c # s)))) \<or>
     executable_from (is_word c) s"

definition executable :: "string \<Rightarrow> bool" where
  "executable s \<longleftrightarrow> executable_from False s"

end
