(* ===== verification/ProcessArtifact.thy ===== *)
theory ProcessArtifact
  imports JsonText
begin

text \<open>
  The validator of process definition documents,
  \<open>src/process-registry/validators/validate-process-definition.mjs\<close>: its command line,
  the checks in the order in which they report errors, the search for unreachable steps,
  the conditions on approved and active documents, and the exit code. A \<open>TypeError\<close>
  that the checks run into is the \<open>Inl\<close> of the result. Reading the file is modelled in
  the theory Scripts; the report is left out.
\<close>

section \<open>Command line\<close>

record definition_args =
  da_file :: "string option"
  da_expect :: "string option"
  da_report :: "string option"
  da_now :: "string option"
  da_requireRuntimeReady :: bool

definition falsy_text :: "string option \<Rightarrow> bool" where
  "falsy_text s \<longleftrightarrow> s = None \<or> s = Some []"

definition first_arg :: "string list \<Rightarrow> string option" where
  "first_arg argv = (case argv of [] \<Rightarrow> None | a # _ \<Rightarrow> Some a)"

fun scan_args :: "definition_args \<Rightarrow> string list \<Rightarrow> error + definition_args" where
  "scan_args args [] = Inr args"
| "scan_args args (v # rest) =
     (if v = ''--expect'' then scan_args (args\<lparr>da_expect := first_arg rest\<rparr>) (tl rest)
      else if v = ''--report'' then scan_args (args\<lparr>da_report := first_arg rest\<rparr>) (tl rest)
      else if v = ''--now'' then scan_args (args\<lparr>da_now := first_arg rest\<rparr>) (tl rest)
      else if v = ''--require-runtime-ready'' then scan_args (args\<lparr>da_requireRuntimeReady := True\<rparr>) rest
      else if falsy_text (da_file args) then scan_args (args\<lparr>da_file := Some v\<rparr>) rest
      else Inl (PlainError (''Unexpected argument: '' @ v)))"

definition parse_args :: "string list \<Rightarrow> error + definition_args" where
  "parse_args argv =
     (case scan_args \<lparr>da_file = None, da_expect = None, da_report = None,
                      da_now = Some ''2026-07-06T00:00:00Z'', da_requireRuntimeReady = False\<rparr> argv of
        Inl e \<Rightarrow> Inl e
      | Inr args \<Rightarrow>
          if falsy_text (da_file args)
          then Inl (PlainError ''Usage: node validate-process-definition.mjs <definition.json> [--expect pass|fail] [--report report.json] [--require-runtime-ready]'')
          else if \<not> falsy_text (da_expect args) \<and> da_expect args \<notin> {Some ''pass'', Some ''fail''}
          then Inl (PlainError ''--expect must be pass or fail'')
          else Inr args)"


section \<open>Findings and their sequence\<close>

record artifact_error =
  ae_code :: string
  ae_path :: string
  ae_message :: string

definition add_error :: "string \<Rightarrow> string \<Rightarrow> string \<Rightarrow> artifact_error" where
  "add_error code message path = \<lparr>ae_code = code, ae_path = path, ae_message = message\<rparr>"

definition error_if :: "bool \<Rightarrow> string \<Rightarrow> string \<Rightarrow> string \<Rightarrow> artifact_error list" where
  "error_if b code message path = (if b then [add_error code message path] else [])"

text \<open>Checks one after the other; the first exception ends them.\<close>

fun collect :: "(error + 'a list) list \<Rightarrow> error + 'a list" where
  "collect [] = Inr []"
| "collect (Inl e # rs) = Inl e"
| "collect (Inr xs # rs) = (case collect rs of Inl e \<Rightarrow> Inl e | Inr ys \<Rightarrow> Inr (xs @ ys))"

definition indexed_path :: "string \<Rightarrow> nat \<Rightarrow> string" where
  "indexed_path p i = p @ ''['' @ nat_str i @ '']''"

definition for_each :: "(nat \<Rightarrow> 'a \<Rightarrow> error + 'b list) \<Rightarrow> 'a list \<Rightarrow> error + 'b list" where
  "for_each f xs = collect (map (\<lambda>(i, x). f i x) (List.enumerate 0 xs))"


section \<open>The parts of a document\<close>

definition known_statuses :: "string list" where
  "known_statuses = [''draft'', ''review'', ''approved'', ''active'', ''retired'', ''rejected'']"

definition step_types :: "string list" where
  "step_types = [''start'', ''task'', ''service_task'', ''human_task'', ''gateway'', ''event'', ''end'']"

definition guard_types :: "string list" where
  "guard_types = [''condition'', ''approval'', ''unconditional'', ''missing'']"

definition required_top_level :: "string list" where
  "required_top_level =
     [''schema_version'', ''process_key'', ''version'', ''status'', ''title'', ''owner'', ''approver'',
      ''approval_evidence'', ''approval_timestamp'', ''effective_from'', ''effective_to'',
      ''rollback_to'', ''ips_trace'', ''steps'', ''events'', ''guards'', ''allowed_transitions'',
      ''validation_evidence'', ''runtime_invariants'']"

definition required_trace :: "string list" where
  "required_trace =
     [''vision'', ''goal_impact'', ''system'', ''feature'', ''task'', ''execution_plan'',
      ''coding_prompt'', ''code'', ''validation'']"

definition validate_actor ::
  "(rat \<Rightarrow> string) \<Rightarrow> json option \<Rightarrow> string \<Rightarrow> artifact_error list" where
  "validate_actor shown actor path =
     (if \<not> is_object actor then [add_error ''actor.object'' ''actor must be an object'' path]
      else
        concat (map (\<lambda>key. error_if (\<not> nonempty_text (opt_prop actor key)) ''actor.required''
                  (key @ '' must be a non-empty string'') (path @ ''.'' @ key))
                  [''type'', ''id'', ''display_name'']) @
        error_if (is_text (\<lambda>t. t \<notin> {''person'', ''team'', ''system'', ''missing''}) (opt_prop actor ''type''))
          ''actor.type'' (''actor type '' @ shown_value shown (opt_prop actor ''type'') @ '' is not allowed'')
          (path @ ''.type''))"

definition validate_evidence ::
  "(rat \<Rightarrow> string) \<Rightarrow> json option \<Rightarrow> string \<Rightarrow> artifact_error list" where
  "validate_evidence shown evidence path =
     (if \<not> is_object evidence then [add_error ''evidence.object'' ''evidence must be an object'' path]
      else
        concat (map (\<lambda>key. error_if (\<not> nonempty_text (opt_prop evidence key)) ''evidence.required''
                  (key @ '' must be a non-empty string'') (path @ ''.'' @ key))
                  [''kind'', ''ref'', ''result'', ''recorded_at'']) @
        error_if (is_text (\<lambda>t. t \<notin> {''approval'', ''ci'', ''scheduled_validation'', ''manual_review'',
                                     ''runtime_probe'', ''missing''}) (opt_prop evidence ''kind''))
          ''evidence.kind'' (''evidence kind '' @ shown_value shown (opt_prop evidence ''kind'') @
            '' is not allowed'') (path @ ''.kind'') @
        error_if (is_text (\<lambda>t. t \<notin> {''pass'', ''fail'', ''blocked'', ''missing'', ''unknown''})
                    (opt_prop evidence ''result''))
          ''evidence.result'' (''evidence result '' @ shown_value shown (opt_prop evidence ''result'') @
            '' is not allowed'') (path @ ''.result'') @
        error_if (is_text (\<lambda>t. \<not> date_time t) (opt_prop evidence ''recorded_at''))
          ''evidence.recorded_at'' ''recorded_at must be UTC date-time'' (path @ ''.recorded_at''))"

definition validate_trace :: "(rat \<Rightarrow> string) \<Rightarrow> json option \<Rightarrow> artifact_error list" where
  "validate_trace shown trace =
     (if \<not> is_object trace
      then [add_error ''trace.object'' ''ips_trace must be an object'' ''$.ips_trace'']
      else concat (map (\<lambda>key.
        let v = opt_prop trace key; path = ''$.ips_trace.'' @ key in
        if \<not> is_object v then [add_error ''trace.required'' (''missing trace entry '' @ key) path]
        else
          error_if (\<not> nonempty_text (opt_prop v ''ref'')) ''trace.ref'' ''trace ref must be non-empty''
            (path @ ''.ref'') @
          error_if (\<not> one_of [''linked'', ''missing'', ''unknown''] (opt_prop v ''status'')) ''trace.status''
            (''trace status '' @ shown_value shown (opt_prop v ''status'') @ '' is not allowed'')
            (path @ ''.status'')) required_trace))"

fun duplicates_from ::
  "json option list \<Rightarrow> json option list \<Rightarrow> json option list \<Rightarrow> json option list" where
  "duplicates_from seen dupes [] = dupes"
| "duplicates_from seen dupes (i # ids) =
     duplicates_from (seen @ [i])
       (if list_ex (same_key i) seen \<and> \<not> list_ex (same_key i) dupes then dupes @ [i] else dupes) ids"

definition duplicate_ids :: "json list \<Rightarrow> string \<Rightarrow> json option list" where
  "duplicate_ids items id_key = duplicates_from [] [] (map (\<lambda>x. opt_prop (Some x) id_key) items)"


section \<open>Steps, events and guards\<close>

definition step_errors :: "(rat \<Rightarrow> string) \<Rightarrow> nat \<Rightarrow> json \<Rightarrow> error + artifact_error list" where
  "step_errors shown i step =
     (let path = indexed_path ''$.steps'' i; s = Some step in
      if \<not> is_object s then Inr [add_error ''step.object'' ''step must be an object'' path]
      else case iterated (opt_prop s ''emits_events'') of
             Inl e \<Rightarrow> Inl e
           | Inr emitted \<Rightarrow> Inr
               (error_if (\<not> is_text ident (opt_prop s ''id'')) ''step.id''
                  ''step id must be lower snake identifier'' (path @ ''.id'') @
                error_if (\<not> nonempty_text (opt_prop s ''name'')) ''step.name'' ''step name is required''
                  (path @ ''.name'') @
                error_if (\<not> one_of step_types (opt_prop s ''type'')) ''step.type''
                  (''step type '' @ shown_value shown (opt_prop s ''type'') @ '' is not allowed'')
                  (path @ ''.type'') @
                validate_actor shown (opt_prop s ''owner'') (path @ ''.owner'') @
                concat (map (\<lambda>k. error_if (\<not> is_text ident (Some k)) ''step.emits_events.identifier''
                  ''emitted event must be an identifier'' (path @ ''.emits_events'')) emitted)))"

definition in_force :: "json option \<Rightarrow> bool" where
  "in_force status \<longleftrightarrow> one_of [''approved'', ''active''] status"

text \<open>\<open>MARKER.test(v || "")\<close>.\<close>

definition marker_in :: "(rat \<Rightarrow> string) \<Rightarrow> json option \<Rightarrow> bool" where
  "marker_in shown v \<longleftrightarrow> truthy v \<and> has_marker (shown_value shown v)"

definition event_errors :: "(rat \<Rightarrow> string) \<Rightarrow> json option \<Rightarrow> nat \<Rightarrow> json \<Rightarrow> artifact_error list" where
  "event_errors shown status i event =
     (let path = indexed_path ''$.events'' i; e = Some event in
      if \<not> is_object e then [add_error ''event.object'' ''event must be an object'' path]
      else
        error_if (\<not> is_text ident (opt_prop e ''key'')) ''event.key''
          ''event key must be lower snake identifier'' (path @ ''.key'') @
        error_if (\<not> nonempty_text (opt_prop e ''name'')) ''event.name'' ''event name is required''
          (path @ ''.name'') @
        error_if (\<not> nonempty_text (opt_prop e ''source'')) ''event.source'' ''event source is required''
          (path @ ''.source'') @
        error_if (\<not> nonempty_text (opt_prop e ''payload_contract'')) ''event.payload_contract''
          ''event payload_contract is required'' (path @ ''.payload_contract'') @
        error_if (in_force status \<and>
                  (marker_in shown (opt_prop e ''source'') \<or> marker_in shown (opt_prop e ''payload_contract'')))
          ''event.unresolved'' ''approved or active event source and payload_contract must be resolved'' path)"

definition guard_errors :: "(rat \<Rightarrow> string) \<Rightarrow> json option \<Rightarrow> nat \<Rightarrow> json \<Rightarrow> artifact_error list" where
  "guard_errors shown status i guard =
     (let path = indexed_path ''$.guards'' i; g = Some guard in
      if \<not> is_object g then [add_error ''guard.object'' ''guard must be an object'' path]
      else
        error_if (\<not> is_text ident (opt_prop g ''id'')) ''guard.id''
          ''guard id must be lower snake identifier'' (path @ ''.id'') @
        error_if (\<not> one_of guard_types (opt_prop g ''type'')) ''guard.type''
          (''guard type '' @ shown_value shown (opt_prop g ''type'') @ '' is not allowed'') (path @ ''.type'') @
        error_if (in_force status \<and> opt_prop g ''type'' = Some (JStr ''missing'')) ''guard.missing''
          ''approved or active guard type must not be missing'' path @
        error_if (\<not> nonempty_text (opt_prop g ''expression'')) ''guard.expression''
          ''guard expression is required'' (path @ ''.expression'') @
        error_if (\<not> nonempty_text (opt_prop g ''reason'')) ''guard.reason'' ''guard reason is required''
          (path @ ''.reason'') @
        error_if (truthy (opt_prop g ''expression'') \<and>
                  executable (shown_value shown (opt_prop g ''expression''))) ''guard.executable''
          ''guard expression must be declarative and not executable JavaScript'' (path @ ''.expression''))"

text \<open>The string identifiers that the objects of a list declare.\<close>

definition declared :: "string \<Rightarrow> json list \<Rightarrow> string list" where
  "declared key items =
     concat (map (\<lambda>x. case opt_prop (Some x) key of Some (JStr s) \<Rightarrow> [s] | _ \<Rightarrow> []) items)"


section \<open>Transitions\<close>

text \<open>\<open>guards.find((guard) => guard.id === ref)\<close>, which throws on a null before the match.\<close>

fun find_guard :: "json list \<Rightarrow> string \<Rightarrow> error + json option" where
  "find_guard [] ref = Inr None"
| "find_guard (g # gs) ref =
     (case read_prop g ''id'' of
        Inl e \<Rightarrow> Inl e
      | Inr i \<Rightarrow> if i = Some (JStr ref) then Inr (Some g) else find_guard gs ref)"

definition comparable_guard :: "json option \<Rightarrow> json" where
  "comparable_guard g =
     JObj (concat (map (\<lambda>k. case opt_prop g k of None \<Rightarrow> [] | Some v \<Rightarrow> [(k, v)])
       [''type'', ''expression'', ''reason'']))"

definition guard_ref_errors ::
  "(rat \<Rightarrow> string) \<Rightarrow> json list \<Rightarrow> string list \<Rightarrow> string \<Rightarrow> json option \<Rightarrow> error + artifact_error list" where
  "guard_ref_errors shown guards guardIds path t =
     (case opt_prop t ''guard_ref'' of
        Some (JStr ref) \<Rightarrow>
          if ref \<notin> set guardIds
          then Inr [add_error ''transition.guard_ref'' (''missing guard_ref '' @ ref) (path @ ''.guard_ref'')]
          else (case find_guard guards ref of
                  Inl e \<Rightarrow> Inl e
                | Inr found \<Rightarrow> Inr
                    (error_if (map_option (stringify shown) (map_option (\<lambda>g. comparable_guard (Some g)) found)
                               \<noteq> map_option (stringify shown) (opt_prop t ''guard''))
                       ''transition.guard.mismatch''
                       (''embedded guard does not match declared guard '' @ ref) (path @ ''.guard'')))
      | ref \<Rightarrow> Inr [add_error ''transition.guard_ref'' (''missing guard_ref '' @ shown_value shown ref)
                    (path @ ''.guard_ref'')])"

definition transition_errors ::
  "(rat \<Rightarrow> string) \<Rightarrow> json option \<Rightarrow> string list \<Rightarrow> string list \<Rightarrow> string list \<Rightarrow> json list \<Rightarrow>
   nat \<Rightarrow> json \<Rightarrow> error + artifact_error list" where
  "transition_errors shown status stepIds eventKeys guardIds guards i transition =
     (let path = indexed_path ''$.allowed_transitions'' i; t = Some transition in
      if \<not> is_object t then Inr [add_error ''transition.object'' ''transition must be an object'' path]
      else case guard_ref_errors shown guards guardIds path t of
             Inl e \<Rightarrow> Inl e
           | Inr refErrors \<Rightarrow> Inr
               (concat (map (\<lambda>key. error_if (\<not> is_text ident (opt_prop t key)) ''transition.identifier''
                   (key @ '' must be lower snake identifier'') (path @ ''.'' @ key))
                   [''from_step'', ''to_step'', ''event'', ''guard_ref'']) @
                error_if (\<not> one_of stepIds (opt_prop t ''from_step'')) ''transition.from_step''
                  (''missing from_step '' @ shown_value shown (opt_prop t ''from_step'')) (path @ ''.from_step'') @
                error_if (\<not> one_of stepIds (opt_prop t ''to_step'')) ''transition.to_step''
                  (''missing to_step '' @ shown_value shown (opt_prop t ''to_step'')) (path @ ''.to_step'') @
                error_if (\<not> one_of eventKeys (opt_prop t ''event'')) ''transition.event''
                  (''missing event '' @ shown_value shown (opt_prop t ''event'')) (path @ ''.event'') @
                refErrors @
                error_if (in_force status \<and> opt_prop (opt_prop t ''guard'') ''type'' = Some (JStr ''missing''))
                  ''transition.guard.missing'' ''approved or active transition guard must not be missing''
                  (path @ ''.guard'')))"

text \<open>The maps \<open>outgoing\<close> and \<open>incoming\<close>, as the list of edges they are filled with.\<close>

definition edges_of :: "json list \<Rightarrow> (json option \<times> json option) list" where
  "edges_of transitions =
     map (\<lambda>t. (opt_prop (Some t) ''from_step'', opt_prop (Some t) ''to_step''))
       (filter (\<lambda>t. is_object (Some t)) transitions)"

definition has_outgoing :: "(json option \<times> json option) list \<Rightarrow> json option \<Rightarrow> bool" where
  "has_outgoing edges i \<longleftrightarrow> list_ex (\<lambda>(f, t). same_key f i) edges"

definition has_incoming :: "(json option \<times> json option) list \<Rightarrow> json option \<Rightarrow> bool" where
  "has_incoming edges i \<longleftrightarrow> list_ex (\<lambda>(f, t). same_key t i) edges"


section \<open>The graph\<close>

definition graph_errors ::
  "(rat \<Rightarrow> string) \<Rightarrow> (json option \<times> json option) list \<Rightarrow> string list \<Rightarrow> json \<Rightarrow>
   error + artifact_error list" where
  "graph_errors shown edges eventKeys step =
     (case (read_prop step ''type'', read_prop step ''id'') of
        (Inr type, Inr i) \<Rightarrow>
          (case iterated (opt_prop (Some step) ''emits_events'') of
             Inl e \<Rightarrow> Inl e
           | Inr emitted \<Rightarrow> Inr
               (error_if (type \<noteq> Some (JStr ''end'') \<and> \<not> has_outgoing edges i) ''graph.outgoing''
                  (''non-end step '' @ shown_value shown i @ '' has no outgoing transition'') ''$.allowed_transitions'' @
                error_if (type \<noteq> Some (JStr ''start'') \<and> \<not> has_incoming edges i) ''graph.incoming''
                  (''non-start step '' @ shown_value shown i @ '' has no incoming transition'') ''$.allowed_transitions'' @
                concat (map (\<lambda>k. error_if (\<not> one_of eventKeys (Some k)) ''step.emits_events.missing''
                  (''step '' @ shown_value shown i @ '' emits undeclared event '' @ to_text shown k) ''$.steps'')
                  emitted)))
      | (Inl e, _) \<Rightarrow> Inl e
      | (_, Inl e) \<Rightarrow> Inl e)"

definition targets :: "(json option \<times> json option) list \<Rightarrow> json option \<Rightarrow> json option list" where
  "targets edges i = map snd (filter (\<lambda>(f, t). same_key f i) edges)"

fun visit :: "json option list \<Rightarrow> json option list \<times> json option list \<Rightarrow>
              json option list \<times> json option list" where
  "visit [] rq = rq"
| "visit (n # ns) (reachable, queue) =
     (if list_ex (same_key n) reachable then visit ns (reachable, queue)
      else visit ns (reachable @ [n], queue @ [n]))"

text \<open>What a pass over the queue can still add: primitive targets not yet reached.\<close>

definition unreached :: "(json option \<times> json option) list \<Rightarrow> json option list \<Rightarrow> json option set" where
  "unreached edges reachable = {n \<in> snd ` set edges. is_primitive n \<and> n \<notin> set reachable}"

lemma same_key_simps [simp]:
  "list_ex (same_key n) xs \<longleftrightarrow> is_primitive n \<and> n \<in> set xs"
  by (auto simp: same_key_def list_ex_iff)

lemma unreached_finite [simp]: "finite (unreached edges reachable)"
  by (simp add: unreached_def)

lemma visit_work:
  "set ns \<subseteq> snd ` set edges \<Longrightarrow> visit ns (r, q) = (r', q') \<Longrightarrow>
   card (unreached edges r') + length (filter is_primitive q') =
   card (unreached edges r) + length (filter is_primitive q)"
proof (induction ns arbitrary: r q)
  case Nil
  then show ?case by simp
next
  case (Cons n ns)
  have IH: "visit ns (r1, q1) = (r', q') \<Longrightarrow>
      card (unreached edges r') + length (filter is_primitive q') =
      card (unreached edges r1) + length (filter is_primitive q1)" for r1 q1
    by (rule Cons.IH) (use Cons.prems(1) in simp)
  show ?case
  proof (cases "is_primitive n \<and> n \<in> set r")
    case True
    then show ?thesis using Cons.prems(2) IH by simp
  next
    case new: False
    then have v: "visit ns (r @ [n], q @ [n]) = (r', q')" using Cons.prems(2) by (simp split: if_splits)
    show ?thesis
    proof (cases "is_primitive n")
      case True
      with new have "n \<in> unreached edges r" using Cons.prems(1) by (auto simp: unreached_def)
      moreover have "unreached edges (r @ [n]) = unreached edges r - {n}" by (auto simp: unreached_def)
      ultimately have "card (unreached edges r) = Suc (card (unreached edges (r @ [n])))"
        by (metis card_Suc_Diff1 unreached_finite)
      with IH[OF v] True show ?thesis by simp
    next
      case False
      then have "unreached edges (r @ [n]) = unreached edges r" by (auto simp: unreached_def)
      with IH[OF v] False show ?thesis by simp
    qed
  qed
qed

lemma targets_subset: "set (targets edges i) \<subseteq> snd ` set edges"
  by (auto simp: targets_def)

lemma targets_primitive: "\<not> is_primitive i \<Longrightarrow> targets edges i = []"
  by (auto simp: targets_def same_key_def filter_empty_conv)

definition search_order ::
  "(((json option \<times> json option) list \<times> json option list \<times> json option list) \<times>
    ((json option \<times> json option) list \<times> json option list \<times> json option list)) set" where
  "search_order =
     measures [\<lambda>(edges, r, q). card (unreached edges r) + length (filter is_primitive q),
               \<lambda>(edges, r, q). length q]"

lemma search_order_step:
  assumes "visit (targets edges i) (reachable, queue) = (r', q')"
  shows "((edges, r', q'), (edges, reachable, i # queue)) \<in> search_order"
proof (cases "is_primitive i")
  case True
  then show ?thesis using visit_work[OF targets_subset assms] by (simp add: search_order_def)
next
  case False
  then show ?thesis using assms by (simp add: search_order_def targets_primitive)
qed

function reach_from ::
  "(json option \<times> json option) list \<Rightarrow> json option list \<Rightarrow> json option list \<Rightarrow> json option list" where
  "reach_from edges reachable [] = reachable"
| "reach_from edges reachable (i # queue) =
     (case visit (targets edges i) (reachable, queue) of (r', q') \<Rightarrow> reach_from edges r' q')"
  by pat_completeness auto
termination
proof (relation search_order)
  show "wf search_order" by (simp add: search_order_def)
qed (metis search_order_step)


section \<open>The validation\<close>

definition typed_ids :: "string \<Rightarrow> json list \<Rightarrow> json option list" where
  "typed_ids type steps =
     map (\<lambda>s. opt_prop (Some s) ''id'')
       (filter (\<lambda>s. opt_prop (Some s) ''type'' = Some (JStr type)) steps)"

definition reachable_errors ::
  "(rat \<Rightarrow> string) \<Rightarrow> (json option \<times> json option) list \<Rightarrow> json list \<Rightarrow> artifact_error list" where
  "reachable_errors shown edges steps =
     (let startSteps = typed_ids ''start'' steps; endSteps = typed_ids ''end'' steps;
          reachable = reach_from edges startSteps startSteps
      in error_if (startSteps = []) ''graph.start'' ''definition must contain at least one start step'' ''$.steps'' @
         error_if (endSteps = []) ''graph.end'' ''definition must contain at least one end step'' ''$.steps'' @
         concat (map (\<lambda>s. let i = opt_prop (Some s) ''id'' in
           error_if (opt_prop (Some s) ''type'' \<noteq> Some (JStr ''start'') \<and> \<not> list_ex (same_key i) reachable)
             ''graph.reachable'' (''step '' @ shown_value shown i @ '' is not reachable from a start step'') ''$.steps'')
           steps))"

definition header_errors :: "(rat \<Rightarrow> string) \<Rightarrow> json \<Rightarrow> artifact_error list" where
  "header_errors shown definition =
     (let d = (\<lambda>k. opt_prop (Some definition) k) in
      concat (map (\<lambda>key. error_if (d key = None) ''top.required''
        (''missing required top-level field '' @ key) (''$.'' @ key)) required_top_level) @
      error_if (d ''schema_version'' \<noteq> Some (JStr ''process-definition.v1'')) ''schema_version.const''
        ''schema_version must be process-definition.v1'' ''$.schema_version'' @
      error_if (\<not> is_text process_key_pattern (d ''process_key'')) ''process_key.pattern''
        ''process_key must be lowercase dotted notation'' ''$.process_key'' @
      error_if (\<not> is_text semver (d ''version'')) ''version.semver''
        ''version must use MAJOR.MINOR.PATCH'' ''$.version'' @
      error_if (\<not> one_of known_statuses (d ''status'')) ''status.enum''
        (''status '' @ shown_value shown (d ''status'') @ '' is not allowed'') ''$.status'' @
      error_if (\<not> nonempty_text (d ''title'')) ''title.required'' ''title must be a non-empty string'' ''$.title'' @
      validate_actor shown (d ''owner'') ''$.owner'' @
      validate_trace shown (d ''ips_trace'') @
      (if is_nullish (d ''approver'') then [] else validate_actor shown (d ''approver'') ''$.approver'') @
      (if is_nullish (d ''approval_evidence'') then []
       else validate_evidence shown (d ''approval_evidence'') ''$.approval_evidence'') @
      concat (map (\<lambda>field. error_if (\<not> is_nullish (d field) \<and> \<not> is_text date_time (d field))
        (field @ ''.date_time'') (field @ '' must be null or UTC date-time'') (''$.'' @ field))
        [''approval_timestamp'', ''effective_from'', ''effective_to'']))"

definition size_errors :: "json list \<Rightarrow> json list \<Rightarrow> json list \<Rightarrow> json list \<Rightarrow> artifact_error list" where
  "size_errors steps events guards transitions =
     error_if (length steps < 2) ''steps.min'' ''steps must contain at least two entries'' ''$.steps'' @
     error_if (length events < 1) ''events.min'' ''events must contain at least one entry'' ''$.events'' @
     error_if (length guards < 1) ''guards.min'' ''guards must contain at least one entry'' ''$.guards'' @
     error_if (length transitions < 1) ''transitions.min''
       ''allowed_transitions must contain at least one entry'' ''$.allowed_transitions''"

definition duplicate_errors ::
  "(rat \<Rightarrow> string) \<Rightarrow> json list \<Rightarrow> json list \<Rightarrow> json list \<Rightarrow> artifact_error list" where
  "duplicate_errors shown steps events guards =
     map (\<lambda>i. add_error ''steps.duplicate'' (''duplicate step id '' @ shown_value shown i) ''$.steps'')
       (duplicate_ids steps ''id'') @
     map (\<lambda>i. add_error ''events.duplicate'' (''duplicate event key '' @ shown_value shown i) ''$.events'')
       (duplicate_ids events ''key'') @
     map (\<lambda>i. add_error ''guards.duplicate'' (''duplicate guard id '' @ shown_value shown i) ''$.guards'')
       (duplicate_ids guards ''id'')"

definition active_errors :: "(rat \<Rightarrow> string) \<Rightarrow> json \<Rightarrow> json list \<Rightarrow> artifact_error list" where
  "active_errors shown definition evidence =
     (let d = (\<lambda>k. opt_prop (Some definition) k); status = d ''status'';
          marked = has_marker (stringify shown definition);
          hasPassingEvidence = list_ex (\<lambda>e. opt_prop (Some e) ''result'' = Some (JStr ''pass'')) evidence
      in error_if (status = Some (JStr ''approved'') \<and> marked) ''approved.markers''
           ''approved definitions must contain no unresolved markers'' ''$'' @
         (if status \<noteq> Some (JStr ''active'') then []
          else
            error_if marked ''active.markers'' ''active definitions must contain no unresolved markers'' ''$'' @
            error_if (opt_prop (d ''owner'') ''type'' = Some (JStr ''missing'')) ''active.owner''
              ''active definition owner must not be missing'' ''$.owner'' @
            error_if (\<not> truthy (d ''approver'') \<or> opt_prop (d ''approver'') ''type'' = Some (JStr ''missing''))
              ''active.approver'' ''active definition approver is required'' ''$.approver'' @
            error_if (\<not> truthy (d ''approval_evidence'') \<or>
                      opt_prop (d ''approval_evidence'') ''result'' \<noteq> Some (JStr ''pass''))
              ''active.approval_evidence'' ''active definition requires passing approval evidence''
              ''$.approval_evidence'' @
            error_if (\<not> truthy (d ''approval_timestamp'')) ''active.approval_timestamp''
              ''active definition requires approval_timestamp'' ''$.approval_timestamp'' @
            error_if (\<not> truthy (d ''effective_from'')) ''active.effective_from''
              ''active definition requires effective_from'' ''$.effective_from'' @
            error_if (\<not> hasPassingEvidence) ''active.validation_evidence''
              ''active definition requires at least one passing validation evidence record''
              ''$.validation_evidence'' @
            concat (map (\<lambda>key.
              error_if (opt_prop (opt_prop (d ''ips_trace'') key) ''status'' \<noteq> Some (JStr ''linked''))
                ''active.ips_trace'' (''active definition trace '' @ key @ '' must be linked'')
                (''$.ips_trace.'' @ key)) required_trace)))"

definition window_errors ::
  "(rat \<Rightarrow> string) \<Rightarrow> host_parse \<Rightarrow> instant option \<Rightarrow> bool \<Rightarrow> json \<Rightarrow> artifact_error list" where
  "window_errors shown host now requireRuntimeReady definition =
     (let d = (\<lambda>k. opt_prop (Some definition) k); active = (d ''status'' = Some (JStr ''active''));
          date = (\<lambda>v. Option.bind v (date_of shown host))
      in error_if (active \<and> truthy (d ''effective_from'') \<and> date_before now (date (d ''effective_from'')))
           ''active.effective_window'' ''active definition effective_from is in the future'' ''$.effective_from'' @
         error_if (active \<and> truthy (d ''effective_to'') \<and> date_before (date (d ''effective_to'')) now)
           ''active.effective_window'' ''active definition is expired'' ''$.effective_to'' @
         error_if (requireRuntimeReady \<and> \<not> active) ''runtime_ready.status''
           ''runtime-ready validation requires status=active'' ''$.status'')"

record definition_summary =
  ds_process_key :: "json option"
  ds_version :: "json option"
  ds_status :: "json option"
  ds_steps :: nat
  ds_events :: nat
  ds_guards :: nat
  ds_transitions :: nat
  ds_unresolved_marker_count :: nat

record definition_report =
  dr_valid :: bool
  dr_errors :: "artifact_error list"
  dr_warnings :: "string list"
  dr_summary :: "definition_summary option"

text \<open>
  The validation, with \<open>clock\<close> the current time, read when the options name none.
\<close>

definition validate_definition ::
  "(rat \<Rightarrow> string) \<Rightarrow> host_parse \<Rightarrow> instant \<Rightarrow> string option \<Rightarrow> bool \<Rightarrow> json \<Rightarrow> error + definition_report" where
  "validate_definition shown host clock now requireRuntimeReady definition =
     (if \<not> is_object (Some definition)
      then Inr \<lparr>dr_valid = False,
                dr_errors = [add_error ''definition.object'' ''process definition must be a JSON object'' ''$''],
                dr_warnings = [], dr_summary = None\<rparr>
      else
        let d = (\<lambda>k. opt_prop (Some definition) k);
            steps = array_of (d ''steps''); events = array_of (d ''events'');
            guards = array_of (d ''guards''); transitions = array_of (d ''allowed_transitions'');
            evidence = array_of (d ''validation_evidence'');
            stepIds = declared ''id'' steps; eventKeys = declared ''key'' events;
            guardIds = declared ''id'' guards; edges = edges_of transitions;
            current = (if falsy_text now then Some clock else Option.bind now (date_parse host))
        in case collect
             [Inr (header_errors shown definition),
              Inr (size_errors steps events guards transitions),
              Inr (duplicate_errors shown steps events guards),
              for_each (step_errors shown) steps,
              for_each (\<lambda>i e. Inr (event_errors shown (d ''status'') i e)) events,
              for_each (\<lambda>i g. Inr (guard_errors shown (d ''status'') i g)) guards,
              for_each (transition_errors shown (d ''status'') stepIds eventKeys guardIds guards) transitions,
              for_each (\<lambda>i s. graph_errors shown edges eventKeys s) steps,
              Inr (reachable_errors shown edges steps),
              for_each (\<lambda>i e. Inr (validate_evidence shown (Some e) (indexed_path ''$.validation_evidence'' i))) evidence,
              Inr (active_errors shown definition evidence),
              Inr (window_errors shown host current requireRuntimeReady definition)] of
             Inl e \<Rightarrow> Inl e
           | Inr errors \<Rightarrow> Inr
               \<lparr>dr_valid = (errors = []), dr_errors = errors, dr_warnings = [],
                dr_summary = Some
                  \<lparr>ds_process_key = d ''process_key'', ds_version = d ''version'', ds_status = d ''status'',
                   ds_steps = length steps, ds_events = length events, ds_guards = length guards,
                   ds_transitions = length transitions,
                   ds_unresolved_marker_count = count_markers (stringify shown definition)\<rparr>\<rparr>)"

text \<open>The exit code of a run, from the expectation and the verdict.\<close>

definition exit_code :: "string option \<Rightarrow> bool \<Rightarrow> nat" where
  "exit_code expect valid =
     (let actual = (if valid then ''pass'' else ''fail'')
      in if \<not> falsy_text expect \<and> expect \<noteq> Some actual then 2
         else if falsy_text expect \<and> \<not> valid then 1
         else 0)"


section \<open>Sequences of checks\<close>

lemma collect_Inr_append:
  "collect rs = Inr zs \<longleftrightarrow> (\<exists>xss. rs = map Inr xss \<and> zs = concat xss)"
proof (induction rs arbitrary: zs rule: collect.induct)
  case 1
  then show ?case by auto
next
  case (2 e rs)
  then show ?case by (auto simp: Cons_eq_map_conv)
next
  case (3 xs rs)
  show ?case
  proof
    assume "collect (Inr xs # rs) = Inr zs"
    then obtain ys where "collect rs = Inr ys" "zs = xs @ ys" by (auto split: sum.splits)
    with 3 obtain yss where "rs = map Inr yss" "zs = xs @ concat yss" by blast
    then show "\<exists>xss. Inr xs # rs = map Inr xss \<and> zs = concat xss" by (intro exI[of _ "xs # yss"]) simp
  next
    assume "\<exists>xss. Inr xs # rs = map Inr xss \<and> zs = concat xss"
    then obtain xss where "rs = map Inr xss" "zs = xs @ concat xss" by (auto simp: Cons_eq_map_conv)
    then have "collect rs = Inr (concat xss)" using 3 by blast
    then show "collect (Inr xs # rs) = Inr zs" using \<open>zs = _\<close> by simp
  qed
qed

lemma collect_clean: "collect rs = Inr [] \<longleftrightarrow> list_all (\<lambda>r. r = Inr []) rs"
  by (induction rs rule: collect.induct) (auto split: sum.splits)

lemma for_each_clean: "for_each f xs = Inr [] \<longleftrightarrow> (\<forall>i < length xs. f i (xs ! i) = Inr [])"
  unfolding for_each_def collect_clean list_all_length by (simp add: nth_enumerate_eq)

lemma error_if_Nil [simp]: "error_if b c m p = [] \<longleftrightarrow> \<not> b" "[] = error_if b c m p \<longleftrightarrow> \<not> b"
  by (simp_all add: error_if_def)


section \<open>The search is right\<close>

text \<open>One transition between string or other primitive identifiers.\<close>

definition edge_rel :: "(json option \<times> json option) list \<Rightarrow> (json option \<times> json option) set" where
  "edge_rel edges = {(f, t). (f, t) \<in> set edges \<and> is_primitive f}"

lemma targets_edge: "t \<in> set (targets edges i) \<longleftrightarrow> (i, t) \<in> edge_rel edges"
  by (auto simp: targets_def edge_rel_def same_key_def image_iff)

lemma visit_sets:
  "visit ns (r, q) = (r', q') \<Longrightarrow>
   set r \<subseteq> set r' \<and> set q \<subseteq> set q' \<and> set r' - set r \<subseteq> set q' \<and>
   set r' \<subseteq> set r \<union> set ns \<and> (\<forall>n \<in> set ns. is_primitive n \<longrightarrow> n \<in> set r') \<and>
   (set q \<subseteq> set r \<longrightarrow> set q' \<subseteq> set r')"
proof (induction ns arbitrary: r q)
  case Nil
  then show ?case by simp
next
  case (Cons n ns)
  show ?case
  proof (cases "is_primitive n \<and> n \<in> set r")
    case True
    with Cons.prems have "visit ns (r, q) = (r', q')" by simp
    from Cons.IH[OF this] True show ?thesis by auto
  next
    case False
    with Cons.prems have "visit ns (r @ [n], q @ [n]) = (r', q')" by (simp split: if_splits)
    from Cons.IH[OF this] show ?thesis by auto
  qed
qed

lemma reach_from_invariant:
  assumes "set q \<subseteq> set r"
    and "\<forall>n \<in> set r. n \<in> set q \<or> (\<forall>t. (n, t) \<in> edge_rel edges \<longrightarrow> is_primitive t \<longrightarrow> t \<in> set r)"
  shows "set r \<subseteq> set (reach_from edges r q) \<and>
         set (reach_from edges r q) \<subseteq> (edge_rel edges)\<^sup>* `` set r \<and>
         (\<forall>n \<in> set (reach_from edges r q). \<forall>t.
            (n, t) \<in> edge_rel edges \<longrightarrow> is_primitive t \<longrightarrow> t \<in> set (reach_from edges r q))"
  using assms
proof (induction edges r q rule: reach_from.induct)
  case (1 edges r)
  then show ?case by auto
next
  case (2 edges r i queue)
  obtain r' q' where v: "visit (targets edges i) (r, queue) = (r', q')" by force
  note sets = visit_sets[OF v]
  have sub: "set q' \<subseteq> set r'" using sets "2.prems"(1) by simp
  have closed: "\<forall>n \<in> set r'. n \<in> set q' \<or>
      (\<forall>t. (n, t) \<in> edge_rel edges \<longrightarrow> is_primitive t \<longrightarrow> t \<in> set r')"
  proof (intro ballI)
    fix n
    assume n: "n \<in> set r'"
    show "n \<in> set q' \<or> (\<forall>t. (n, t) \<in> edge_rel edges \<longrightarrow> is_primitive t \<longrightarrow> t \<in> set r')"
    proof (cases "n \<in> set r")
      case True
      then consider "n = i" | "n \<in> set queue"
        | "\<forall>t. (n, t) \<in> edge_rel edges \<longrightarrow> is_primitive t \<longrightarrow> t \<in> set r"
        using "2.prems"(2) by auto
      then show ?thesis
      proof cases
        case 1
        then show ?thesis using sets targets_edge by blast
      qed (use sets in blast)+
    next
      case False
      with n sets show ?thesis by blast
    qed
  qed
  have IH: "set r' \<subseteq> set (reach_from edges r' q') \<and>
      set (reach_from edges r' q') \<subseteq> (edge_rel edges)\<^sup>* `` set r' \<and>
      (\<forall>n \<in> set (reach_from edges r' q'). \<forall>t.
         (n, t) \<in> edge_rel edges \<longrightarrow> is_primitive t \<longrightarrow> t \<in> set (reach_from edges r' q'))"
    using "2.IH"[OF v[symmetric] sub closed] .
  have "i \<in> set r" using "2.prems"(1) by simp
  have "set r' \<subseteq> (edge_rel edges)\<^sup>* `` set r"
  proof
    fix n
    assume "n \<in> set r'"
    then have "n \<in> set r \<or> (i, n) \<in> edge_rel edges" using sets targets_edge by blast
    then show "n \<in> (edge_rel edges)\<^sup>* `` set r" using \<open>i \<in> set r\<close> by blast
  qed
  then have "(edge_rel edges)\<^sup>* `` set r' \<subseteq> (edge_rel edges)\<^sup>* `` set r"
    by (blast intro: rtrancl_trans)
  with IH sets show ?case by (simp add: v) blast
qed

end
