(* ===== verification/ArtifactProperties.thy ===== *)
theory ArtifactProperties
  imports ProcessArtifact
begin

text \<open>
  What the validator of process definitions guarantees of a document it accepts: a sound
  graph of steps and, for an active document, the conditions of publication; and the
  documents on which it fails with an exception instead of a report.
\<close>

section \<open>Accepted documents\<close>

abbreviation doc_array :: "json \<Rightarrow> string \<Rightarrow> json list" where
  "doc_array document k \<equiv> array_of (opt_prop (Some document) k)"

abbreviation member :: "json \<Rightarrow> string \<Rightarrow> json option" where
  "member x k \<equiv> opt_prop (Some x) k"

text \<open>
  The steps are objects with distinct identifiers, among them a start and an end; every
  transition joins declared steps; every step but the starts is reached from a start, and
  every step but the ends is left by a transition.
\<close>

definition graph_sound :: "json \<Rightarrow> bool" where
  "graph_sound document \<longleftrightarrow>
     (let steps = doc_array document ''steps'';
          edges = edges_of (doc_array document ''allowed_transitions'')
      in list_all (\<lambda>s. is_object (Some s) \<and> is_text ident (member s ''id'')) steps \<and>
         distinct (map (\<lambda>s. member s ''id'') steps) \<and>
         typed_ids ''start'' steps \<noteq> [] \<and> typed_ids ''end'' steps \<noteq> [] \<and>
         set edges \<subseteq> (\<lambda>s. member s ''id'') ` set steps \<times> (\<lambda>s. member s ''id'') ` set steps \<and>
         (\<forall>s \<in> set steps. member s ''type'' = Some (JStr ''start'') \<or>
            (\<exists>i \<in> set (typed_ids ''start'' steps). (i, member s ''id'') \<in> (set edges)\<^sup>*)) \<and>
         (\<forall>s \<in> set steps. member s ''type'' = Some (JStr ''end'') \<or>
            member s ''id'' \<in> fst ` set edges))"

definition active_ready ::
  "(rat \<Rightarrow> string) \<Rightarrow> host_parse \<Rightarrow> instant option \<Rightarrow> json \<Rightarrow> bool" where
  "active_ready shown host now document \<longleftrightarrow>
     \<not> has_marker (stringify shown document) \<and>
     truthy (member document ''approver'') \<and>
     opt_prop (member document ''approval_evidence'') ''result'' = Some (JStr ''pass'') \<and>
     list_ex (\<lambda>e. member e ''result'' = Some (JStr ''pass'')) (doc_array document ''validation_evidence'') \<and>
     list_all (\<lambda>key. opt_prop (opt_prop (member document ''ips_trace'') key) ''status'' = Some (JStr ''linked''))
       required_trace \<and>
     \<not> date_before now (Option.bind (member document ''effective_from'') (date_of shown host)) \<and>
     (is_nullish (member document ''effective_to'') \<or>
      \<not> date_before (Option.bind (member document ''effective_to'') (date_of shown host)) now)"

lemma duplicates_from_mono: "set dupes \<subseteq> set (duplicates_from seen dupes ids)"
proof (induction ids arbitrary: seen dupes)
  case (Cons i ids)
  show ?case using Cons[of dupes "seen @ [i]"] Cons[of "dupes @ [i]" "seen @ [i]"] by auto
qed simp

lemma duplicates_from_Nil:
  "duplicates_from seen [] ids = [] \<Longrightarrow>
   distinct (filter is_primitive ids) \<and> set (filter is_primitive ids) \<inter> set seen = {}"
proof (induction ids arbitrary: seen)
  case Nil
  then show ?case by simp
next
  case (Cons i ids)
  have new: "\<not> (is_primitive i \<and> i \<in> set seen)"
    using Cons.prems duplicates_from_mono[of "[i]" "seen @ [i]" ids] by (auto split: if_splits)
  with Cons.prems have "duplicates_from (seen @ [i]) [] ids = []" by (auto split: if_splits)
  from Cons.IH[OF this] new show ?case by auto
qed

lemma text_primitive: "is_text p v \<Longrightarrow> is_primitive v"
  by (auto simp: is_text_def is_primitive_def split: option.splits json.splits)

lemma duplicate_ids_Nil:
  "duplicate_ids items key = [] \<Longrightarrow> list_all (\<lambda>x. is_text p (member x key)) items \<Longrightarrow>
   distinct (map (\<lambda>x. member x key) items)"
proof -
  assume d: "duplicate_ids items key = []" and t: "list_all (\<lambda>x. is_text p (member x key)) items"
  have "filter is_primitive (map (\<lambda>x. member x key) items) = map (\<lambda>x. member x key) items"
    using t by (intro filter_True) (auto simp: list_all_iff dest: text_primitive)
  then show ?thesis using duplicates_from_Nil[of "[]" "map (\<lambda>x. member x key) items"] d
    by (simp add: duplicate_ids_def)
qed

lemma declared_member:
  "one_of (declared key items) v \<Longrightarrow> v \<in> (\<lambda>x. member x key) ` set items"
  by (auto simp: is_text_def declared_def image_iff split: option.splits json.splits)

text \<open>The checks of an accepted document, one by one.\<close>

lemma accepted_parts:
  assumes "validate_definition shown host clock now ready document = Inr r" and "dr_valid r"
  shows "is_object (Some document)"
    and "header_errors shown document = []"
    and "duplicate_errors shown (doc_array document ''steps'') (doc_array document ''events'')
           (doc_array document ''guards'') = []"
    and "for_each (step_errors shown) (doc_array document ''steps'') = Inr []"
    and "for_each (transition_errors shown (member document ''status'')
           (declared ''id'' (doc_array document ''steps'')) (declared ''key'' (doc_array document ''events''))
           (declared ''id'' (doc_array document ''guards'')) (doc_array document ''guards''))
           (doc_array document ''allowed_transitions'') = Inr []"
    and "for_each (\<lambda>i s. graph_errors shown (edges_of (doc_array document ''allowed_transitions''))
           (declared ''key'' (doc_array document ''events'')) s) (doc_array document ''steps'') = Inr []"
    and "reachable_errors shown (edges_of (doc_array document ''allowed_transitions''))
           (doc_array document ''steps'') = []"
    and "active_errors shown document (doc_array document ''validation_evidence'') = []"
    and "window_errors shown host
           (if falsy_text now then Some clock else Option.bind now (date_parse host)) ready document = []"
proof -
  show obj: "is_object (Some document)"
    using assms by (auto simp: validate_definition_def split: if_splits)
  note parts = assms[unfolded validate_definition_def Let_def]
  obtain es where es: "dr_errors r = es" "es = []"
    using assms by (auto simp: validate_definition_def Let_def split: if_splits sum.splits)
  show "header_errors shown document = []"
    and "duplicate_errors shown (doc_array document ''steps'') (doc_array document ''events'')
           (doc_array document ''guards'') = []"
    and "for_each (step_errors shown) (doc_array document ''steps'') = Inr []"
    and "for_each (transition_errors shown (member document ''status'')
           (declared ''id'' (doc_array document ''steps'')) (declared ''key'' (doc_array document ''events''))
           (declared ''id'' (doc_array document ''guards'')) (doc_array document ''guards''))
           (doc_array document ''allowed_transitions'') = Inr []"
    and "for_each (\<lambda>i s. graph_errors shown (edges_of (doc_array document ''allowed_transitions''))
           (declared ''key'' (doc_array document ''events'')) s) (doc_array document ''steps'') = Inr []"
    and "reachable_errors shown (edges_of (doc_array document ''allowed_transitions''))
           (doc_array document ''steps'') = []"
    and "active_errors shown document (doc_array document ''validation_evidence'') = []"
    and "window_errors shown host
           (if falsy_text now then Some clock else Option.bind now (date_parse host)) ready document = []"
    using parts obj by (auto simp: collect_clean split: sum.splits dest!: arg_cong[of _ _ collect])
qed


lemma accepted_steps:
  assumes "for_each (step_errors shown) steps = Inr []"
  shows "list_all (\<lambda>s. is_object (Some s) \<and> is_text ident (member s ''id'')) steps"
proof -
  have "is_object (Some s) \<and> is_text ident (member s ''id'')" if "step_errors shown i s = Inr []" for i s
    using that by (auto simp: step_errors_def Let_def add_error_def split: if_splits sum.splits)
  then show ?thesis using assms unfolding for_each_clean list_all_length by blast
qed

lemma accepted_edges:
  assumes "for_each (transition_errors shown status ids keys guardIds guards) transitions = Inr []"
  shows "\<forall>(f, t) \<in> set (edges_of transitions). one_of ids f \<and> one_of ids t"
proof -
  have one: "one_of ids (member x ''from_step'') \<and> one_of ids (member x ''to_step'')"
    if "transition_errors shown status ids keys guardIds guards i x = Inr []" for i x
    using that by (auto simp: transition_errors_def Let_def split: if_splits sum.splits)
  show ?thesis
  proof
    fix e
    assume "e \<in> set (edges_of transitions)"
    then obtain x where "x \<in> set transitions" and e: "e = (member x ''from_step'', member x ''to_step'')"
      by (auto simp: edges_of_def)
    then obtain i where "i < length transitions" "transitions ! i = x" by (metis in_set_conv_nth)
    with assms have "transition_errors shown status ids keys guardIds guards i x = Inr []"
      unfolding for_each_clean by blast
    then show "case e of (f, t) \<Rightarrow> one_of ids f \<and> one_of ids t" using one by (simp add: e)
  qed
qed

lemma accepted_outgoing:
  assumes "for_each (\<lambda>i s. graph_errors shown edges keys s) steps = Inr []" and "s \<in> set steps"
  shows "member s ''type'' = Some (JStr ''end'') \<or> member s ''id'' \<in> fst ` set edges"
proof -
  obtain i where i: "i < length steps" "steps ! i = s" using assms(2) by (metis in_set_conv_nth)
  with assms(1) have "graph_errors shown edges keys s = Inr []" unfolding for_each_clean by blast
  then have "member s ''type'' = Some (JStr ''end'') \<or> has_outgoing edges (member s ''id'')"
    by (cases s) (auto simp: graph_errors_def read_prop_def split: sum.splits)
  moreover have "has_outgoing edges (member s ''id'') \<Longrightarrow> member s ''id'' \<in> fst ` set edges"
    by (force simp: has_outgoing_def list_ex_iff same_key_def)
  ultimately show ?thesis by blast
qed

lemma accepted_reachable:
  assumes "reachable_errors shown edges steps = []" and "s \<in> set steps"
  shows "member s ''type'' = Some (JStr ''start'') \<or>
         (\<exists>i \<in> set (typed_ids ''start'' steps). (i, member s ''id'') \<in> (set edges)\<^sup>*)"
proof -
  let ?S = "typed_ids ''start'' steps"
  have r: "member s ''type'' = Some (JStr ''start'') \<or> member s ''id'' \<in> set (reach_from edges ?S ?S)"
    using assms by (auto simp: reachable_errors_def Let_def)
  have "set (reach_from edges ?S ?S) \<subseteq> (edge_rel edges)\<^sup>* `` set ?S"
    using reach_from_invariant[of ?S ?S edges] by simp
  moreover have "(edge_rel edges)\<^sup>* \<subseteq> (set edges)\<^sup>*"
    by (rule rtrancl_mono) (auto simp: edge_rel_def)
  ultimately show ?thesis using r by blast
qed

lemma header_date:
  assumes "header_errors shown document = []" and "\<not> is_nullish (member document ''effective_to'')"
  shows "truthy (member document ''effective_to'')"
proof -
  have "is_text date_time (member document ''effective_to'')"
    using assms by (simp add: header_errors_def Let_def)
  then obtain t where t: "member document ''effective_to'' = Some (JStr t)" "date_time t"
    by (auto simp: is_text_def split: option.splits json.splits)
  then have "t \<noteq> []" by (auto simp: date_time_def)
  with t(1) show ?thesis by (simp add: truthy_def)
qed

lemma accepted_active:
  assumes "header_errors shown document = []"
    and "active_errors shown document (doc_array document ''validation_evidence'') = []"
    and "window_errors shown host now ready document = []"
    and "member document ''status'' = Some (JStr ''active'')"
  shows "active_ready shown host now document"
  using assms(2-4) header_date[OF assms(1)]
  by (auto simp: active_ready_def active_errors_def window_errors_def Let_def list_all_iff)

lemma accepted_sound:
  assumes "validate_definition shown host clock now ready document = Inr r" and "dr_valid r"
  shows "graph_sound document \<and>
         (if member document ''status'' = Some (JStr ''active'')
          then active_ready shown host
                 (if falsy_text now then Some clock else Option.bind now (date_parse host)) document
          else \<not> ready)"
proof -
  note parts = accepted_parts[OF assms]
  let ?steps = "doc_array document ''steps''"
  let ?edges = "edges_of (doc_array document ''allowed_transitions'')"
  have steps: "list_all (\<lambda>s. is_object (Some s) \<and> is_text ident (member s ''id'')) ?steps"
    by (rule accepted_steps[OF parts(4)])
  have "distinct (map (\<lambda>s. member s ''id'') ?steps)"
    using parts(3) steps
    by (intro duplicate_ids_Nil[where p = ident]) (auto simp: duplicate_errors_def list_all_iff)
  moreover have "typed_ids ''start'' ?steps \<noteq> []" "typed_ids ''end'' ?steps \<noteq> []"
    using parts(7) by (auto simp: reachable_errors_def Let_def)
  moreover have "set ?edges \<subseteq> (\<lambda>s. member s ''id'') ` set ?steps \<times> (\<lambda>s. member s ''id'') ` set ?steps"
    using accepted_edges[OF parts(5)] declared_member by fastforce
  ultimately have "graph_sound document"
    using steps accepted_reachable[OF parts(7)] accepted_outgoing[OF parts(6)]
    by (simp add: graph_sound_def Let_def)
  moreover have "\<not> ready" if "member document ''status'' \<noteq> Some (JStr ''active'')"
    using parts(9) that by (simp add: window_errors_def Let_def)
  ultimately show ?thesis using accepted_active[OF parts(2,8,9)] by simp
qed

text \<open>
  C15. A process definition that the validator accepts has a sound graph: its steps have
  distinct identifiers, transitions join declared steps, the breadth-first search of the
  validator having established that every step is reached from a start step along
  transitions, and every step but the ends is left by one. If the document is active it
  carries no unresolved marker, is approved with passing evidence, is fully traced, and
  the given time lies in its window; a runtime-ready run accepts only active documents.
\<close>

theorem accepted_definition_sound:
  assumes "validate_definition shown host clock now ready document = Inr r" and "dr_valid r"
  shows "graph_sound document \<and>
         (if member document ''status'' = Some (JStr ''active'')
          then active_ready shown host
                 (if falsy_text now then Some clock else Option.bind now (date_parse host)) document
          else \<not> ready)"
  using assms by (rule accepted_sound)


section \<open>A document that is accepted\<close>

definition sample_trace :: json where
  "sample_trace = JObj (map (\<lambda>k. (k, JObj [(''ref'', JStr ''r''), (''status'', JStr ''linked'')])) required_trace)"

definition sample_actor :: json where
  "sample_actor = JObj [(''type'', JStr ''team''), (''id'', JStr ''t''), (''display_name'', JStr ''T'')]"

definition sample_evidence :: json where
  "sample_evidence =
     JObj [(''kind'', JStr ''ci''), (''ref'', JStr ''r''), (''result'', JStr ''pass''),
           (''recorded_at'', JStr ''2026-07-06T00:00:00Z'')]"

definition sample_guard :: json_object where
  "sample_guard = [(''type'', JStr ''approval''), (''expression'', JStr ''ok''), (''reason'', JStr ''r'')]"

text \<open>Its status is a parameter: active, or a draft.\<close>

definition sample_document :: "string \<Rightarrow> json" where
  "sample_document st = JObj
     [(''schema_version'', JStr ''process-definition.v1''), (''process_key'', JStr ''a.b''),
      (''version'', JStr ''1.0.0''), (''status'', JStr st), (''title'', JStr ''t''),
      (''owner'', sample_actor), (''approver'', sample_actor), (''approval_evidence'', sample_evidence),
      (''approval_timestamp'', JStr ''2026-07-06T00:00:00Z''),
      (''effective_from'', JStr ''2026-07-06T00:00:00Z''), (''effective_to'', JNull),
      (''rollback_to'', JNull), (''ips_trace'', sample_trace),
      (''steps'', JArr
        [JObj [(''id'', JStr ''s''), (''name'', JStr ''S''), (''type'', JStr ''start''), (''owner'', sample_actor)],
         JObj [(''id'', JStr ''e''), (''name'', JStr ''E''), (''type'', JStr ''end''), (''owner'', sample_actor)]]),
      (''events'', JArr
        [JObj [(''key'', JStr ''x''), (''name'', JStr ''X''), (''source'', JStr ''y''),
               (''payload_contract'', JStr ''c'')]]),
      (''guards'', JArr [JObj ((''id'', JStr ''g'') # sample_guard)]),
      (''allowed_transitions'', JArr
        [JObj [(''from_step'', JStr ''s''), (''to_step'', JStr ''e''), (''event'', JStr ''x''),
               (''guard_ref'', JStr ''g''), (''guard'', JObj sample_guard)]]),
      (''validation_evidence'', JArr [sample_evidence]), (''runtime_invariants'', JArr [])]"

lemma escape_plain [simp]:
  "of_char c \<ge> (32 :: nat) \<Longrightarrow> of_char c \<noteq> (34 :: nat) \<Longrightarrow> of_char c \<noteq> (92 :: nat) \<Longrightarrow> escape_char c = [c]"
  by (simp add: escape_char_def Let_def)

lemma has_marker_skip:
  "c \<noteq> CHR ''['' \<Longrightarrow> has_marker (c # s) = has_marker s"
  "d \<noteq> CHR ''M'' \<Longrightarrow> d \<noteq> CHR ''U'' \<Longrightarrow> has_marker (c # d # s) = has_marker (d # s)"
  by (auto simp: marker_open_def starts_with_def)

lemma doc_unmarked: "\<not> has_marker (stringify shown (sample_document ''active''))"
  by (simp add: sample_document_def sample_trace_def sample_actor_def sample_evidence_def sample_guard_def
     required_trace_def quote_string_def has_marker_skip del: has_marker.simps(2))

lemmas doc_simps = sample_document_def sample_actor_def sample_evidence_def sample_guard_def
  opt_prop_def is_object_def is_text_def is_nullish_def truthy_def array_of_def error_if_def[of False]

lemma sample_headers:
  "header_errors shown (sample_document ''active'') = []"
  "header_errors shown (sample_document ''draft'') = []"
  by (simp_all add: header_errors_def validate_actor_def validate_evidence_def validate_trace_def doc_simps
    sample_trace_def required_trace_def required_top_level_def known_statuses_def Let_def process_key_pattern_def
    ident_def semver_def date_time_def is_lower_def is_digit_def)

lemma sample_header:
  "st = ''active'' \<or> st = ''draft'' \<Longrightarrow> header_errors shown (sample_document st) = []"
  using sample_headers by blast

lemma sample_window:
  "window_errors shown host (date_parse host ''2026-07-06T00:00:00Z'') (st = ''active'') (sample_document st) = []"
  by (simp add: window_errors_def doc_simps date_of_def date_before_def Let_def split: option.splits)

definition sample_steps :: "json list" where
  "sample_steps =
     [JObj [(''id'', JStr ''s''), (''name'', JStr ''S''), (''type'', JStr ''start''), (''owner'', sample_actor)],
      JObj [(''id'', JStr ''e''), (''name'', JStr ''E''), (''type'', JStr ''end''), (''owner'', sample_actor)]]"

definition sample_edges :: "(json option \<times> json option) list" where
  "sample_edges = [(Some (JStr ''s''), Some (JStr ''e''))]"

lemma sample_members:
  "doc_array (sample_document st) ''steps'' = sample_steps"
  "doc_array (sample_document st) ''events'' =
     [JObj [(''key'', JStr ''x''), (''name'', JStr ''X''), (''source'', JStr ''y''),
            (''payload_contract'', JStr ''c'')]]"
  "doc_array (sample_document st) ''guards'' = [JObj ((''id'', JStr ''g'') # sample_guard)]"
  "doc_array (sample_document st) ''allowed_transitions'' =
     [JObj [(''from_step'', JStr ''s''), (''to_step'', JStr ''e''), (''event'', JStr ''x''),
            (''guard_ref'', JStr ''g''), (''guard'', JObj sample_guard)]]"
  "doc_array (sample_document st) ''validation_evidence'' = [sample_evidence]"
  "member (sample_document st) ''status'' = Some (JStr st)"
  by (simp_all add: sample_document_def sample_steps_def opt_prop_def array_of_def)

lemma sample_values:
  "member (sample_document st) ''owner'' = Some sample_actor"
  "member (sample_document st) ''approver'' = Some sample_actor"
  "member (sample_document st) ''approval_evidence'' = Some sample_evidence"
  "member (sample_document st) ''approval_timestamp'' = Some (JStr ''2026-07-06T00:00:00Z'')"
  "member (sample_document st) ''effective_from'' = Some (JStr ''2026-07-06T00:00:00Z'')"
  "member (sample_document st) ''ips_trace'' = Some sample_trace"
  by (simp_all add: sample_document_def opt_prop_def)

lemma sample_fields:
  "opt_prop (Some sample_actor) ''type'' = Some (JStr ''team'')"
  "opt_prop (Some sample_evidence) ''result'' = Some (JStr ''pass'')"
  "truthy (Some sample_actor)" "truthy (Some sample_evidence)"
  "truthy (Some (JStr ''2026-07-06T00:00:00Z''))"
  "concat (map (\<lambda>key. error_if (opt_prop (opt_prop (Some sample_trace) key) ''status'' \<noteq> Some (JStr ''linked''))
     c (m key) (p key)) required_trace) = []"
  by (simp_all add: sample_actor_def sample_evidence_def sample_trace_def required_trace_def
      opt_prop_def truthy_def)

lemma sample_declared:
  "declared ''id'' sample_steps = [''s'', ''e'']"
  "declared ''key'' (doc_array (sample_document st) ''events'') = [''x'']"
  "declared ''id'' (doc_array (sample_document st) ''guards'') = [''g'']"
  "edges_of (doc_array (sample_document st) ''allowed_transitions'') = sample_edges"
  unfolding sample_members
  by (simp_all add: sample_steps_def sample_edges_def declared_def edges_of_def opt_prop_def is_object_def)

lemmas check_simps = for_each_def opt_prop_def is_object_def is_text_def truthy_def iterated_def
  ident_def is_lower_def is_digit_def Let_def

lemma sample_actor_ok [simp]: "validate_actor shown (Some sample_actor) path = []"
  by (simp add: validate_actor_def sample_actor_def check_simps)

lemma sample_evidence_ok [simp]: "validate_evidence shown (Some sample_evidence) path = []"
  by (simp add: validate_evidence_def sample_evidence_def check_simps date_time_def)

lemma sample_transition_ok:
  "for_each (transition_errors shown (Some (JStr st)) [''s'', ''e''] [''x''] [''g'']
     [JObj ((''id'', JStr ''g'') # sample_guard)])
     [JObj [(''from_step'', JStr ''s''), (''to_step'', JStr ''e''), (''event'', JStr ''x''),
            (''guard_ref'', JStr ''g''), (''guard'', JObj sample_guard)]] = Inr []"
  by (simp add: transition_errors_def guard_ref_errors_def read_prop_def comparable_guard_def
      sample_guard_def check_simps)

lemma sample_search: "reach_from sample_edges [Some (JStr ''s'')] [Some (JStr ''s'')] =
   [Some (JStr ''s''), Some (JStr ''e'')]"
  by (simp add: sample_edges_def targets_def same_key_def is_primitive_def)

lemma sample_parts:
  assumes "st = ''active'' \<or> st = ''draft''"
  shows "size_errors sample_steps (doc_array (sample_document st) ''events'')
     (doc_array (sample_document st) ''guards'') (doc_array (sample_document st) ''allowed_transitions'') = []"
  "duplicate_errors shown sample_steps (doc_array (sample_document st) ''events'')
     (doc_array (sample_document st) ''guards'') = []"
  "for_each (step_errors shown) sample_steps = Inr []"
  "for_each (\<lambda>i e. Inr (event_errors shown (Some (JStr st)) i e))
     (doc_array (sample_document st) ''events'') = Inr []"
  "for_each (\<lambda>i g. Inr (guard_errors shown (Some (JStr st)) i g))
     (doc_array (sample_document st) ''guards'') = Inr []"
  "for_each (\<lambda>i s. graph_errors shown sample_edges [''x''] s) sample_steps = Inr []"
  "reachable_errors shown sample_edges sample_steps = []"
  "for_each (\<lambda>i e. Inr (validate_evidence shown (Some e) (indexed_path ''$.validation_evidence'' i)))
     [sample_evidence] = Inr []"
  "active_errors shown (sample_document st) [sample_evidence] = []"
proof -
  show "size_errors sample_steps (doc_array (sample_document st) ''events'')
     (doc_array (sample_document st) ''guards'') (doc_array (sample_document st) ''allowed_transitions'') = []"
    by (simp add: sample_members sample_steps_def size_errors_def)
  show "duplicate_errors shown sample_steps (doc_array (sample_document st) ''events'')
     (doc_array (sample_document st) ''guards'') = []"
    unfolding sample_members
    by (simp add: sample_steps_def duplicate_errors_def duplicate_ids_def opt_prop_def same_key_def)
  show "for_each (step_errors shown) sample_steps = Inr []"
    by (simp add: sample_steps_def step_errors_def step_types_def check_simps)
  show "for_each (\<lambda>i e. Inr (event_errors shown (Some (JStr st)) i e))
     (doc_array (sample_document st) ''events'') = Inr []"
    unfolding sample_members
    by (simp add: event_errors_def marker_in_def marker_open_def starts_with_def
        shown_value_def check_simps)
  show "for_each (\<lambda>i g. Inr (guard_errors shown (Some (JStr st)) i g))
     (doc_array (sample_document st) ''guards'') = Inr []"
    unfolding sample_members
    by (simp add: sample_guard_def guard_errors_def guard_types_def executable_def
        starts_with_def shown_value_def check_simps)
  show "for_each (\<lambda>i s. graph_errors shown sample_edges [''x''] s) sample_steps = Inr []"
    by (simp add: sample_steps_def sample_edges_def graph_errors_def read_prop_def has_outgoing_def
        has_incoming_def same_key_def is_primitive_def check_simps)
  show "reachable_errors shown sample_edges sample_steps = []"
    by (simp add: sample_steps_def reachable_errors_def typed_ids_def opt_prop_def sample_search Let_def
        is_primitive_def del: reach_from.simps)
  show "for_each (\<lambda>i e. Inr (validate_evidence shown (Some e) (indexed_path ''$.validation_evidence'' i)))
     [sample_evidence] = Inr []"
    by (simp add: for_each_def)
  show "active_errors shown (sample_document st) [sample_evidence] = []"
    using doc_unmarked[of shown] assms
    by (elim disjE; simp add: active_errors_def sample_members sample_values sample_fields Let_def)
qed

lemma sample_accepted:
  assumes "st = ''active'' \<or> st = ''draft''"
  shows "\<exists>r. validate_definition shown host clock (Some ''2026-07-06T00:00:00Z'') (st = ''active'')
      (sample_document st) = Inr r \<and>
       dr_valid r"
proof -
  have "is_object (Some (sample_document st))" by (simp add: sample_document_def is_object_def)
  then show ?thesis
    using sample_header[OF assms, of shown] sample_parts[OF assms] sample_transition_ok[of shown st]
      sample_window[of shown host st]
    by (simp add: validate_definition_def Let_def sample_declared[unfolded sample_members]
        sample_members falsy_text_def)
qed

lemma accepted_definition_sound_witness:
  "graph_sound (sample_document ''active'') \<and>
   active_ready (\<lambda>_. []) (\<lambda>_. None) (date_parse (\<lambda>_. None) ''2026-07-06T00:00:00Z'') (sample_document ''active'')"
proof -
  obtain r where "validate_definition (\<lambda>_. []) (\<lambda>_. None) 0 (Some ''2026-07-06T00:00:00Z'') True
      (sample_document ''active'') = Inr r" and "dr_valid r"
    using sample_accepted[of "''active''" "\<lambda>_. []" "\<lambda>_. None" 0] by auto
  from accepted_definition_sound[OF this] show ?thesis
    by (simp add: sample_members falsy_text_def)
qed

text \<open>
  A null among the steps is reported as not being an object, but the checks of the graph
  then read its type and throw, so that the run ends without a report.
\<close>

lemma null_step_throws:
  "validate_definition shown host clock now ready (JObj [(''steps'', JArr [JNull])]) =
   Inl (TypeError (''Cannot read properties of null (reading '' @ [CHR 0x27] @ ''type'' @ [CHR 0x27] @ '')''))"
  by (simp add: validate_definition_def is_object_def opt_prop_def array_of_def for_each_def
      step_errors_def graph_errors_def read_prop_def Let_def)

end
