(* ===== verification/RegistryArtifacts.thy ===== *)
theory RegistryArtifacts
  imports ProcessArtifact
begin

text \<open>
  The validators of registry collections and of event envelopes,
  \<open>src/process-registry/validators/validate-process-registry-collection.mjs\<close> and
  \<open>validate-process-event-envelope.mjs\<close>: their command lines and checks. Of the file
  system the collection validator uses whether a path exists; \<open>local_path\<close> is the path
  that a reference names relative to the directory of the collection.
\<close>

section \<open>Event envelopes\<close>

record envelope_args =
  ea_file :: "string option"
  ea_expect :: "string option"
  ea_report :: "string option"

fun scan_envelope_args :: "envelope_args \<Rightarrow> string list \<Rightarrow> error + envelope_args" where
  "scan_envelope_args args [] = Inr args"
| "scan_envelope_args args (v # rest) =
     (if v = ''--expect'' then scan_envelope_args (args\<lparr>ea_expect := first_arg rest\<rparr>) (tl rest)
      else if v = ''--report'' then scan_envelope_args (args\<lparr>ea_report := first_arg rest\<rparr>) (tl rest)
      else if falsy_text (ea_file args) then scan_envelope_args (args\<lparr>ea_file := Some v\<rparr>) rest
      else Inl (PlainError (''Unexpected argument: '' @ v)))"

definition parse_envelope_args :: "string list \<Rightarrow> error + envelope_args" where
  "parse_envelope_args argv =
     (case scan_envelope_args \<lparr>ea_file = None, ea_expect = None, ea_report = None\<rparr> argv of
        Inl e \<Rightarrow> Inl e
      | Inr args \<Rightarrow>
          if falsy_text (ea_file args)
          then Inl (PlainError ''Usage: node validate-process-event-envelope.mjs <event.json> [--expect pass|fail] [--report report.json]'')
          else if \<not> falsy_text (ea_expect args) \<and> ea_expect args \<notin> {Some ''pass'', Some ''fail''}
          then Inl (PlainError ''--expect must be pass or fail'')
          else Inr args)"

record envelope_summary =
  es_event_id :: "json option"
  es_process_key :: "json option"
  es_process_version :: "json option"
  es_decision :: json

record envelope_report =
  er_valid :: bool
  er_errors :: "artifact_error list"
  er_summary :: "envelope_summary option"

definition decisions :: "string list" where
  "decisions = [''accepted'', ''rejected'', ''blocked'']"

definition envelope_actors :: "string list" where
  "envelope_actors = [''customer'', ''staff'', ''system'', ''integration'']"

definition result_errors :: "(rat \<Rightarrow> string) \<Rightarrow> json option \<Rightarrow> artifact_error list" where
  "result_errors shown v =
     (if \<not> is_object v
      then [add_error ''validation_result.object'' ''validation_result must be an object'' ''$.validation_result'']
      else
        let decision = opt_prop v ''decision''; refs = opt_prop v ''rule_refs'' in
        error_if (\<not> one_of decisions decision) ''validation_result.decision''
          (''decision '' @ shown_value shown decision @ '' is not allowed'') ''$.validation_result.decision'' @
        error_if (array_of refs = [] \<or> list_ex (\<lambda>r. \<not> nonempty_text (Some r)) (array_of refs))
          ''validation_result.rule_refs'' ''rule_refs must contain at least one non-empty string''
          ''$.validation_result.rule_refs'' @
        error_if (one_of [''rejected'', ''blocked''] decision \<and> \<not> nonempty_text (opt_prop v ''reason''))
          ''validation_result.reason'' ''rejected or blocked decisions require a machine-actionable reason''
          ''$.validation_result.reason'')"

definition envelope_errors :: "(rat \<Rightarrow> string) \<Rightarrow> json \<Rightarrow> artifact_error list" where
  "envelope_errors shown envelope =
     (let d = (\<lambda>k. opt_prop (Some envelope) k) in
      concat (map (\<lambda>key. error_if (d key = None) ''top.required''
        (''missing required field '' @ key) (''$.'' @ key))
        [''event_id'', ''occurred_at'', ''process_key'', ''process_version'', ''transition'',
         ''source_entity'', ''actor'', ''validation_result'', ''payload'']) @
      error_if (\<not> nonempty_text (d ''event_id'')) ''event_id.required'' ''event_id is required'' ''$.event_id'' @
      error_if (\<not> is_text date_time (d ''occurred_at'')) ''occurred_at.date_time''
        ''occurred_at must be UTC date-time'' ''$.occurred_at'' @
      error_if (\<not> is_text process_key_pattern (d ''process_key'')) ''process_key.pattern''
        ''process_key must be lowercase dotted notation'' ''$.process_key'' @
      error_if (\<not> is_text semver (d ''process_version'')) ''process_version.semver''
        ''process_version must use MAJOR.MINOR.PATCH'' ''$.process_version'' @
      (if \<not> is_object (d ''transition'')
       then [add_error ''transition.object'' ''transition must be an object'' ''$.transition'']
       else concat (map (\<lambda>key. error_if (\<not> is_text ident (opt_prop (d ''transition'') key))
              ''transition.identifier'' (key @ '' must be lower snake identifier'') (''$.transition.'' @ key))
              [''from_step'', ''to_step'', ''event''])) @
      (if \<not> is_object (d ''source_entity'')
       then [add_error ''source_entity.object'' ''source_entity must be an object'' ''$.source_entity'']
       else
         error_if (\<not> nonempty_text (opt_prop (d ''source_entity'') ''type'')) ''source_entity.type''
           ''source_entity.type is required'' ''$.source_entity.type'' @
         error_if (\<not> nonempty_text (opt_prop (d ''source_entity'') ''id'')) ''source_entity.id''
           ''source_entity.id is required'' ''$.source_entity.id'') @
      (if \<not> is_object (d ''actor'')
       then [add_error ''actor.object'' ''actor must be an object'' ''$.actor'']
       else
         error_if (\<not> one_of envelope_actors (opt_prop (d ''actor'') ''type'')) ''actor.type''
           (''actor type '' @ shown_value shown (opt_prop (d ''actor'') ''type'') @ '' is not allowed'') ''$.actor.type'' @
         error_if (\<not> nonempty_text (opt_prop (d ''actor'') ''id'')) ''actor.id'' ''actor.id is required'' ''$.actor.id'') @
      result_errors shown (d ''validation_result'') @
      error_if (\<not> is_object (d ''payload'')) ''payload.object'' ''payload must be an object'' ''$.payload'')"

definition validate_envelope :: "(rat \<Rightarrow> string) \<Rightarrow> json \<Rightarrow> envelope_report" where
  "validate_envelope shown envelope =
     (if \<not> is_object (Some envelope)
      then \<lparr>er_valid = False,
            er_errors = [add_error ''envelope.object'' ''event envelope must be an object'' ''$''],
            er_summary = None\<rparr>
      else
        let d = (\<lambda>k. opt_prop (Some envelope) k); errors = envelope_errors shown envelope;
            decision = opt_prop (d ''validation_result'') ''decision''
        in \<lparr>er_valid = (errors = []), er_errors = errors,
            er_summary = Some
              \<lparr>es_event_id = d ''event_id'', es_process_key = d ''process_key'',
               es_process_version = d ''process_version'',
               es_decision = (case decision of Some j \<Rightarrow> if truthy decision then j else JNull | None \<Rightarrow> JNull)\<rparr>\<rparr>)"


section \<open>Registry collections\<close>

record collection_args =
  ca_file :: "string option"
  ca_expect :: "string option"
  ca_report :: "string option"
  ca_processKey :: "string option"
  ca_now :: "string option"

fun scan_collection_args :: "collection_args \<Rightarrow> string list \<Rightarrow> error + collection_args" where
  "scan_collection_args args [] = Inr args"
| "scan_collection_args args (v # rest) =
     (if v = ''--expect'' then scan_collection_args (args\<lparr>ca_expect := first_arg rest\<rparr>) (tl rest)
      else if v = ''--report'' then scan_collection_args (args\<lparr>ca_report := first_arg rest\<rparr>) (tl rest)
      else if v = ''--process-key'' then scan_collection_args (args\<lparr>ca_processKey := first_arg rest\<rparr>) (tl rest)
      else if v = ''--now'' then scan_collection_args (args\<lparr>ca_now := first_arg rest\<rparr>) (tl rest)
      else if falsy_text (ca_file args) then scan_collection_args (args\<lparr>ca_file := Some v\<rparr>) rest
      else Inl (PlainError (''Unexpected argument: '' @ v)))"

definition parse_collection_args :: "string list \<Rightarrow> error + collection_args" where
  "parse_collection_args argv =
     (case scan_collection_args \<lparr>ca_file = None, ca_expect = None, ca_report = None,
                                 ca_processKey = None, ca_now = Some ''2026-07-06T00:00:00Z''\<rparr> argv of
        Inl e \<Rightarrow> Inl e
      | Inr args \<Rightarrow>
          if falsy_text (ca_file args)
          then Inl (PlainError ''Usage: node validate-process-registry-collection.mjs <collection.json> [--expect pass|fail] [--report report.json] [--process-key key] [--now date-time]'')
          else if \<not> falsy_text (ca_expect args) \<and> ca_expect args \<notin> {Some ''pass'', Some ''fail''}
          then Inl (PlainError ''--expect must be pass or fail'')
          else Inr args)"

definition roles :: "string list" where
  "roles = [''viewer'', ''modeler'', ''reviewer'', ''approver'', ''publisher'', ''runtime_reader'',
            ''auditor'', ''admin'']"

definition lifecycle_roles :: "string list" where
  "lifecycle_roles = [''modeler'', ''reviewer'', ''approver'', ''publisher'', ''admin'']"

text \<open>
  \<open>resolveLocalRef\<close>, applied to \<open>v || ""\<close>: it throws on a value that is not a string, gives
  nothing for a fixture reference and a path otherwise.
\<close>

definition resolve_local_ref ::
  "(string \<Rightarrow> string) \<Rightarrow> json option \<Rightarrow> error + string option" where
  "resolve_local_ref local_path v =
     (case (if truthy v then v else Some (JStr [])) of
        Some (JStr ref) \<Rightarrow> Inr
          (if starts_with ''file://'' ref then Some (local_path (drop 7 ref))
           else if starts_with ''fixture://'' ref then None
           else Some (local_path ref))
      | _ \<Rightarrow> Inl (TypeError ''ref.startsWith is not a function''))"

definition collection_actor :: "(rat \<Rightarrow> string) \<Rightarrow> json option \<Rightarrow> string \<Rightarrow> artifact_error list" where
  "collection_actor shown actor path =
     (if \<not> is_object actor then [add_error ''actor.object'' ''actor must be an object'' path]
      else
        error_if (\<not> one_of [''person'', ''team'', ''system'', ''missing''] (opt_prop actor ''type'')) ''actor.type''
          (''actor type '' @ shown_value shown (opt_prop actor ''type'') @ '' is not allowed'') (path @ ''.type'') @
        error_if (\<not> nonempty_text (opt_prop actor ''id'')) ''actor.id'' ''actor id is required'' (path @ ''.id''))"

text \<open>\<open>new Date(v) > d\<close> and \<open>new Date(v) < d\<close> of a present value.\<close>

definition after_date :: "(rat \<Rightarrow> string) \<Rightarrow> host_parse \<Rightarrow> json option \<Rightarrow> instant option \<Rightarrow> bool" where
  "after_date shown host v d \<longleftrightarrow> truthy v \<and> date_before d (Option.bind v (date_of shown host))"

definition before_date :: "(rat \<Rightarrow> string) \<Rightarrow> host_parse \<Rightarrow> json option \<Rightarrow> instant option \<Rightarrow> bool" where
  "before_date shown host v d \<longleftrightarrow> truthy v \<and> date_before (Option.bind v (date_of shown host)) d"

definition is_currently_effective ::
  "(rat \<Rightarrow> string) \<Rightarrow> host_parse \<Rightarrow> json option \<Rightarrow> instant option \<Rightarrow> bool" where
  "is_currently_effective shown host r now \<longleftrightarrow>
     opt_prop r ''status'' = Some (JStr ''active'') \<and>
     \<not> after_date shown host (opt_prop r ''effective_from'') now \<and>
     \<not> before_date shown host (opt_prop r ''effective_to'') now"

definition storage_errors :: "json option \<Rightarrow> artifact_error list" where
  "storage_errors storage =
     (if \<not> is_object storage
      then [add_error ''storage.object'' ''storage_model must be an object'' ''$.storage_model'']
      else
        error_if (opt_prop storage ''source_of_truth'' \<noteq> Some (JStr ''git'')) ''storage.source_of_truth''
          ''source_of_truth must be git for this lane'' ''$.storage_model.source_of_truth'' @
        error_if (\<not> one_of [''none'', ''database'', ''object_store'', ''service_read_model'']
                    (opt_prop storage ''runtime_projection'')) ''storage.runtime_projection''
          ''runtime_projection is invalid'' ''$.storage_model.runtime_projection'' @
        error_if (opt_prop storage ''immutability'' \<noteq> Some (JStr ''semantic_version_required''))
          ''storage.immutability'' ''immutability must be semantic_version_required''
          ''$.storage_model.immutability'')"

definition is_boolean :: "json option \<Rightarrow> bool" where
  "is_boolean v \<longleftrightarrow> (case v of Some (JBool _) \<Rightarrow> True | _ \<Rightarrow> False)"

definition role_errors :: "(rat \<Rightarrow> string) \<Rightarrow> nat \<Rightarrow> json \<Rightarrow> artifact_error list" where
  "role_errors shown i role =
     (let path = indexed_path ''$.access_control.roles'' i; r = (\<lambda>k. opt_prop (Some role) k) in
      if \<not> is_object (Some role) then [add_error ''role.object'' ''role must be an object'' path]
      else
        error_if (\<not> one_of roles (r ''role'')) ''role.enum''
          (''role '' @ shown_value shown (r ''role'') @ '' is not allowed'') (path @ ''.role'') @
        concat (map (\<lambda>flag. error_if (\<not> is_boolean (r flag)) ''role.flag'' (flag @ '' must be boolean'')
          (path @ ''.'' @ flag)) [''can_read'', ''can_write'', ''can_approve'', ''can_activate'']) @
        error_if (r ''role'' = Some (JStr ''runtime_reader'') \<and>
                  (truthy (r ''can_write'') \<or> truthy (r ''can_approve'') \<or> truthy (r ''can_activate'')))
          ''role.runtime_reader_write'' ''runtime_reader must not write, approve, or activate'' path @
        error_if (r ''role'' = Some (JStr ''publisher'') \<and> \<not> truthy (r ''can_activate''))
          ''role.publisher_activate'' ''publisher must be able to activate'' path)"

definition role_names :: "json list \<Rightarrow> json option list" where
  "role_names rs =
     map (\<lambda>r. opt_prop (Some r) ''role'') (filter (\<lambda>r. is_object (Some r)) rs)"

definition permission_errors ::
  "(rat \<Rightarrow> string) \<Rightarrow> json option list \<Rightarrow> nat \<Rightarrow> json \<Rightarrow> artifact_error list" where
  "permission_errors shown roleNames i permission =
     (let path = indexed_path ''$.access_control.lifecycle_permissions'' i;
          p = (\<lambda>k. opt_prop (Some permission) k) in
      if \<not> is_object (Some permission)
      then [add_error ''permission.object'' ''permission must be an object'' path]
      else
        error_if (\<not> one_of lifecycle_roles (p ''role'')) ''permission.role''
          (''permission role '' @ shown_value shown (p ''role'') @ '' is not allowed'') (path @ ''.role'') @
        error_if (p ''to'' = Some (JStr ''active'') \<and> p ''role'' \<noteq> Some (JStr ''publisher''))
          ''permission.activate_role'' ''only publisher may activate a definition'' path @
        error_if (\<not> list_ex (same_key (p ''role'')) roleNames) ''permission.role_declared''
          (''permission role '' @ shown_value shown (p ''role'') @ '' is not declared'') (path @ ''.role''))"

text \<open>A \<open>Map\<close> from a value to the versions appended under it, in insertion order.\<close>

type_synonym version_map = "(json option \<times> json option list) list"

fun add_version :: "json option \<Rightarrow> json option \<Rightarrow> version_map \<Rightarrow> version_map" where
  "add_version k v [] = [(k, [v])]"
| "add_version k v ((k', vs) # m) =
     (if same_key k k' then (k', vs @ [v]) # m else (k', vs) # add_version k v m)"

fun versions_of :: "json option \<Rightarrow> version_map \<Rightarrow> json option list" where
  "versions_of k [] = []"
| "versions_of k ((k', vs) # m) = (if same_key k k' then vs else versions_of k m)"

text \<open>The state of the loop over the definition records.\<close>

record record_scan =
  rs_identity :: "string list"
  rs_active :: version_map
  rs_effective :: version_map

definition record_field_errors :: "(rat \<Rightarrow> string) \<Rightarrow> string \<Rightarrow> json \<Rightarrow> artifact_error list" where
  "record_field_errors shown path record =
     (let r = (\<lambda>k. opt_prop (Some record) k) in
      error_if (\<not> is_text process_key_pattern (r ''process_key'')) ''definition.process_key'' ''process_key is invalid''
        (path @ ''.process_key'') @
      error_if (\<not> is_text semver (r ''version'')) ''definition.version'' ''version must use MAJOR.MINOR.PATCH''
        (path @ ''.version'') @
      error_if (\<not> one_of known_statuses (r ''status'')) ''definition.status''
        (''status '' @ shown_value shown (r ''status'') @ '' is invalid'') (path @ ''.status'') @
      concat (map (\<lambda>key. error_if (\<not> nonempty_text (r key)) ''definition.required'' (key @ '' is required'')
        (path @ ''.'' @ key))
        [''artifact_id'', ''definition_ref'', ''validation_report_ref'', ''environment'', ''namespace'']) @
      error_if (\<not> is_text sha256 (r ''content_hash'')) ''definition.content_hash''
        ''content_hash must be sha256:<64 lowercase hex chars>'' (path @ ''.content_hash'') @
      error_if (\<not> one_of [''draft'', ''staging'', ''production''] (r ''environment'')) ''definition.environment''
        ''environment is invalid'' (path @ ''.environment'') @
      concat (map (\<lambda>key. error_if (\<not> is_nullish (r key) \<and> \<not> is_text date_time (r key)) ''definition.date_time''
        (key @ '' must be null or UTC date-time'') (path @ ''.'' @ key))
        [''effective_from'', ''effective_to'', ''activated_at'', ''retired_at'']) @
      concat (map (\<lambda>key. error_if (\<not> is_text date_time (r key)) ''definition.date_time''
        (key @ '' must be UTC date-time'') (path @ ''.'' @ key)) [''created_at'', ''updated_at'']) @
      collection_actor shown (r ''created_by'') (path @ ''.created_by'') @
      collection_actor shown (r ''updated_by'') (path @ ''.updated_by'') @
      (if is_nullish (r ''activated_by'') then []
       else collection_actor shown (r ''activated_by'') (path @ ''.activated_by'')) @
      (if is_nullish (r ''retired_by'') then []
       else collection_actor shown (r ''retired_by'') (path @ ''.retired_by'')))"

definition identity_text :: "(rat \<Rightarrow> string) \<Rightarrow> json \<Rightarrow> string" where
  "identity_text shown record =
     shown_value shown (opt_prop (Some record) ''process_key'') @ ''@'' @
     shown_value shown (opt_prop (Some record) ''version'')"

definition active_record_errors ::
  "(rat \<Rightarrow> string) \<Rightarrow> host_parse \<Rightarrow> instant option \<Rightarrow> string \<Rightarrow> json \<Rightarrow> artifact_error list" where
  "active_record_errors shown host now path record =
     (let r = (\<lambda>k. opt_prop (Some record) k) in
      error_if (\<not> truthy (r ''activated_by'') \<or> \<not> truthy (r ''activated_at''))
        ''definition.active_activation_metadata'' ''active records require activated_by and activated_at'' path @
      error_if (\<not> truthy (r ''effective_from'')) ''definition.active_effective_from''
        ''active records require effective_from'' (path @ ''.effective_from'') @
      error_if (after_date shown host (r ''effective_from'') now) ''definition.active_future''
        (''active record '' @ identity_text shown record @ '' is not yet effective'') (path @ ''.effective_from'') @
      error_if (before_date shown host (r ''effective_to'') now) ''definition.active_expired''
        (''active record '' @ identity_text shown record @ '' is expired'') (path @ ''.effective_to''))"

definition ref_errors ::
  "(rat \<Rightarrow> string) \<Rightarrow> (string \<Rightarrow> string) \<Rightarrow> (string \<Rightarrow> bool) \<Rightarrow> string \<Rightarrow> string \<Rightarrow> string \<Rightarrow> json \<Rightarrow>
   error + artifact_error list" where
  "ref_errors shown local_path exists code key path record =
     (case resolve_local_ref local_path (opt_prop (Some record) key) of
        Inl e \<Rightarrow> Inl e
      | Inr None \<Rightarrow> Inr []
      | Inr (Some p) \<Rightarrow> Inr
          (error_if (p \<noteq> [] \<and> \<not> exists p) code
             (key @ '' does not exist: '' @ shown_value shown (opt_prop (Some record) key)) (path @ ''.'' @ key)))"

definition scan_record ::
  "(rat \<Rightarrow> string) \<Rightarrow> host_parse \<Rightarrow> (string \<Rightarrow> string) \<Rightarrow> (string \<Rightarrow> bool) \<Rightarrow> instant option \<Rightarrow>
   nat \<Rightarrow> json \<Rightarrow> record_scan \<Rightarrow> error + artifact_error list \<times> record_scan" where
  "scan_record shown host local_path exists now i record s =
     (let path = indexed_path ''$.definitions'' i; r = (\<lambda>k. opt_prop (Some record) k) in
      if \<not> is_object (Some record)
      then Inr ([add_error ''definition.object'' ''definition record must be an object'' path], s)
      else
        let key = identity_text shown record;
            active = (r ''status'' = Some (JStr ''active''));
            s' = s\<lparr>rs_identity := key # rs_identity s,
                   rs_active := (if active then add_version (r ''process_key'') (r ''version'') (rs_active s)
                                 else rs_active s),
                   rs_effective :=
                     (if is_currently_effective shown host (Some record) now
                      then add_version (r ''process_key'') (r ''version'') (rs_effective s)
                      else rs_effective s)\<rparr>
        in case collect
             [Inr (record_field_errors shown path record),
              Inr (error_if (key \<in> set (rs_identity s)) ''definition.duplicate_identity''
                (''duplicate process identity '' @ key) path),
              Inr (if active then active_record_errors shown host now path record else []),
              ref_errors shown local_path exists ''definition.ref_missing'' ''definition_ref'' path record,
              ref_errors shown local_path exists ''definition.validation_report_ref_missing''
                ''validation_report_ref'' path record] of
             Inl e \<Rightarrow> Inl e
           | Inr errors \<Rightarrow> Inr (errors, s'))"

fun scan_records ::
  "(rat \<Rightarrow> string) \<Rightarrow> host_parse \<Rightarrow> (string \<Rightarrow> string) \<Rightarrow> (string \<Rightarrow> bool) \<Rightarrow> instant option \<Rightarrow>
   nat \<Rightarrow> json list \<Rightarrow> record_scan \<Rightarrow> error + artifact_error list \<times> record_scan" where
  "scan_records shown host local_path exists now i [] s = Inr ([], s)"
| "scan_records shown host local_path exists now i (r # rs) s =
     (case scan_record shown host local_path exists now i r s of
        Inl e \<Rightarrow> Inl e
      | Inr (es, s') \<Rightarrow>
          (case scan_records shown host local_path exists now (Suc i) rs s' of
             Inl e \<Rightarrow> Inl e
           | Inr (es', s'') \<Rightarrow> Inr (es @ es', s'')))"

definition or_empty :: "string option \<Rightarrow> string" where
  "or_empty s = (case s of Some t \<Rightarrow> t | None \<Rightarrow> [])"

text \<open>\<open>versions.join(", ")\<close>.\<close>

definition joined_versions :: "(rat \<Rightarrow> string) \<Rightarrow> json option list \<Rightarrow> string" where
  "joined_versions shown vs =
     js_join '', '' (map (\<lambda>v. if is_nullish v then [] else shown_value shown v) vs)"

definition effective_errors ::
  "(rat \<Rightarrow> string) \<Rightarrow> string option \<Rightarrow> version_map \<Rightarrow> artifact_error list" where
  "effective_errors shown processKey m =
     concat (map (\<lambda>(k, vs). error_if (length vs > 1) ''active.duplicate''
       (''more than one currently effective active version for '' @ shown_value shown k @ '': '' @
        joined_versions shown vs) ''$.definitions'') m) @
     (if falsy_text processKey then []
      else
        let k = or_empty processKey; vs = versions_of (Some (JStr k)) m in
        error_if (vs = []) ''active.zero'' (''no currently effective active version for '' @ k) ''$.definitions'' @
        error_if (length vs > 1) ''active.process_key_duplicate''
          (''multiple currently effective active versions for '' @ k @ '': '' @ joined_versions shown vs)
          ''$.definitions'')"

record collection_summary =
  cm_registry_key :: "json option"
  cm_definitions :: nat
  cm_active_status_process_keys :: nat
  cm_currently_effective_active_process_keys :: nat
  cm_roles :: nat
  cm_lifecycle_permissions :: nat

record collection_report =
  cr_valid :: bool
  cr_errors :: "artifact_error list"
  cr_summary :: "collection_summary option"

definition collection_header_errors :: "json \<Rightarrow> artifact_error list" where
  "collection_header_errors collection =
     (let d = (\<lambda>k. opt_prop (Some collection) k) in
      concat (map (\<lambda>key. error_if (d key = None) ''top.required'' (''missing required field '' @ key) (''$.'' @ key))
        [''schema_version'', ''registry_key'', ''storage_model'', ''access_control'', ''definitions'']) @
      error_if (d ''schema_version'' \<noteq> Some (JStr ''process-registry-collection.v1'')) ''schema_version.const''
        ''schema_version must be process-registry-collection.v1'' ''$.schema_version'' @
      error_if (\<not> is_text process_key_pattern (d ''registry_key'')) ''registry_key.pattern''
        ''registry_key must be lowercase dotted notation'' ''$.registry_key'')"

definition validate_collection ::
  "(rat \<Rightarrow> string) \<Rightarrow> host_parse \<Rightarrow> (string \<Rightarrow> string) \<Rightarrow> (string \<Rightarrow> bool) \<Rightarrow>
   string option \<Rightarrow> string option \<Rightarrow> json \<Rightarrow> error + collection_report" where
  "validate_collection shown host local_path exists now processKey collection =
     (if \<not> is_object (Some collection)
      then Inr \<lparr>cr_valid = False,
                cr_errors = [add_error ''collection.object'' ''collection must be an object'' ''$''],
                cr_summary = None\<rparr>
      else
        let d = (\<lambda>k. opt_prop (Some collection) k); access = d ''access_control'';
            rs = array_of (opt_prop access ''roles'');
            permissions = array_of (opt_prop access ''lifecycle_permissions'');
            definitions = array_of (d ''definitions'');
            nowText = (if falsy_text now then ''2026-07-06T00:00:00Z'' else or_empty now);
            current = date_parse host nowText
        in case scan_records shown host local_path exists current 0 definitions
                  \<lparr>rs_identity = [], rs_active = [], rs_effective = []\<rparr> of
             Inl e \<Rightarrow> Inl e
           | Inr (recordErrors, s) \<Rightarrow>
               let errors =
                 collection_header_errors collection @
                 storage_errors (d ''storage_model'') @
                 error_if (\<not> is_object access) ''access.object'' ''access_control must be an object'' ''$.access_control'' @
                 error_if (rs = []) ''access.roles.min'' ''roles must not be empty'' ''$.access_control.roles'' @
                 concat (map (\<lambda>(i, r). role_errors shown i r) (List.enumerate 0 rs)) @
                 concat (map (\<lambda>(i, p). permission_errors shown (role_names rs) i p) (List.enumerate 0 permissions)) @
                 error_if (definitions = []) ''definitions.min'' ''definitions must not be empty'' ''$.definitions'' @
                 recordErrors @
                 effective_errors shown processKey (rs_effective s)
               in Inr \<lparr>cr_valid = (errors = []), cr_errors = errors,
                      cr_summary = Some
                        \<lparr>cm_registry_key = d ''registry_key'', cm_definitions = length definitions,
                         cm_active_status_process_keys = length (rs_active s),
                         cm_currently_effective_active_process_keys = length (rs_effective s),
                         cm_roles = length rs, cm_lifecycle_permissions = length permissions\<rparr>\<rparr>)"

end
