(* ===== verification/CollectionProperties.thy ===== *)
theory CollectionProperties
  imports RegistryArtifacts
begin

text \<open>
  What the collection validator guarantees of a collection it accepts: at most one
  currently effective version per process, unique identities, and roles that keep
  activation with the publisher.
\<close>

section \<open>The maps of versions\<close>

lemma versions_of_add:
  assumes "is_primitive k"
  shows "versions_of k (add_version k' v m) =
         (if k = k' then versions_of k m @ [v] else versions_of k m)"
  by (induction m) (use assms in \<open>auto simp: same_key_def\<close>)

lemma versions_of_entry: "versions_of k m = [] \<or> versions_of k m \<in> snd ` set m"
  by (induction k m rule: versions_of.induct) auto

text \<open>The versions that are effective now under a key, in the order of the records.\<close>

definition effective_versions ::
  "(rat \<Rightarrow> string) \<Rightarrow> host_parse \<Rightarrow> instant option \<Rightarrow> string \<Rightarrow> json list \<Rightarrow> json option list" where
  "effective_versions shown host now k records =
     map (\<lambda>r. opt_prop (Some r) ''version'')
       (filter (\<lambda>r. is_currently_effective shown host (Some r) now \<and>
                    opt_prop (Some r) ''process_key'' = Some (JStr k)) records)"

lemma effective_is_object: "is_currently_effective shown host (Some r) now \<Longrightarrow> is_object (Some r)"
  by (auto simp: is_currently_effective_def opt_prop_def is_object_def split: json.splits)

lemma scan_record_effective:
  assumes "scan_record shown host lp ex now i r s = Inr (es, s')"
  shows "versions_of (Some (JStr k)) (rs_effective s') =
         versions_of (Some (JStr k)) (rs_effective s) @ effective_versions shown host now k [r]"
proof -
  have "is_primitive (Some (JStr k))" by (simp add: is_primitive_def)
  then show ?thesis
    using assms effective_is_object[of shown host r now]
    by (auto simp: scan_record_def effective_versions_def versions_of_add Let_def
        split: if_splits sum.splits)
qed

lemma scan_records_effective:
  "scan_records shown host lp ex now i rs s = Inr (es, s') \<Longrightarrow>
   versions_of (Some (JStr k)) (rs_effective s') =
   versions_of (Some (JStr k)) (rs_effective s) @ effective_versions shown host now k rs"
proof (induction rs arbitrary: i s es)
  case Nil
  then show ?case by (simp add: effective_versions_def)
next
  case (Cons r rs)
  from Cons.prems obtain es1 s1 es2 where
    one: "scan_record shown host lp ex now i r s = Inr (es1, s1)" and
    rest: "scan_records shown host lp ex now (Suc i) rs s1 = Inr (es2, s')"
    by (auto split: sum.splits)
  have "effective_versions shown host now k (r # rs) =
      effective_versions shown host now k [r] @ effective_versions shown host now k rs"
    by (simp add: effective_versions_def)
  with Cons.IH[OF rest] scan_record_effective[OF one] show ?case by simp
qed

section \<open>Identities\<close>

lemma scan_record_identity:
  assumes "scan_record shown host lp ex now i r s = Inr ([], s')"
  shows "is_object (Some r) \<and> identity_text shown r \<notin> set (rs_identity s) \<and>
         rs_identity s' = identity_text shown r # rs_identity s"
  using assms
  by (auto simp: scan_record_def Let_def error_if_def add_error_def
      split: if_splits sum.splits)

lemma scan_records_identity:
  "scan_records shown host lp ex now i rs s = Inr ([], s') \<Longrightarrow>
   list_all (\<lambda>r. is_object (Some r)) rs \<and> distinct (map (identity_text shown) rs) \<and>
   set (map (identity_text shown) rs) \<inter> set (rs_identity s) = {}"
proof (induction rs arbitrary: i s)
  case Nil
  then show ?case by simp
next
  case (Cons r rs)
  from Cons.prems obtain s1 where
    one: "scan_record shown host lp ex now i r s = Inr ([], s1)" and
    rest: "scan_records shown host lp ex now (Suc i) rs s1 = Inr ([], s')"
    by (auto split: sum.splits)
  from Cons.IH[OF rest] scan_record_identity[OF one] show ?case by auto
qed


section \<open>Accepted collections\<close>

abbreviation records_of :: "json \<Rightarrow> json list" where
  "records_of collection \<equiv> array_of (opt_prop (Some collection) ''definitions'')"

abbreviation access_list :: "json \<Rightarrow> string \<Rightarrow> json list" where
  "access_list collection k \<equiv> array_of (opt_prop (opt_prop (Some collection) ''access_control'') k)"

definition role_safe :: "json \<Rightarrow> bool" where
  "role_safe role \<longleftrightarrow>
     (let r = (\<lambda>k. opt_prop (Some role) k) in
      one_of roles (r ''role'') \<and>
      (r ''role'' \<noteq> Some (JStr ''runtime_reader'') \<or>
       \<not> truthy (r ''can_write'') \<and> \<not> truthy (r ''can_approve'') \<and> \<not> truthy (r ''can_activate'')))"

definition permission_safe :: "json list \<Rightarrow> json \<Rightarrow> bool" where
  "permission_safe declaredRoles permission \<longleftrightarrow>
     (let p = (\<lambda>k. opt_prop (Some permission) k) in
      p ''role'' \<in> (\<lambda>r. opt_prop (Some r) ''role'') ` set declaredRoles \<and>
      (p ''to'' \<noteq> Some (JStr ''active'') \<or> p ''role'' = Some (JStr ''publisher'')))"

lemma concat_enumerate_Nil:
  "concat (map (\<lambda>(i, x). f i x) (List.enumerate n xs)) = [] \<Longrightarrow> (\<And>i x. f i x = [] \<Longrightarrow> P x) \<Longrightarrow> list_all P xs"
  by (induction xs arbitrary: n) auto

lemma role_errors_Nil: "role_errors shown i role = [] \<Longrightarrow> role_safe role"
  by (auto simp: role_errors_def role_safe_def Let_def split: if_splits)

lemma permission_errors_Nil:
  "permission_errors shown (role_names rs) i p = [] \<Longrightarrow> permission_safe rs p"
  by (auto simp: permission_errors_def permission_safe_def role_names_def Let_def add_error_def
      split: if_splits)

definition collection_now :: "host_parse \<Rightarrow> string option \<Rightarrow> instant option" where
  "collection_now host now =
     date_parse host (if falsy_text now then ''2026-07-06T00:00:00Z'' else or_empty now)"

text \<open>
  C16. In a collection that the validator accepts no process has two versions that are
  effective at the given time, and the process asked for has exactly one; no two records
  share process key and version; the runtime reader neither writes nor approves nor
  activates, and every lifecycle permission belongs to a declared role, the permission to
  activate to the publisher alone. (What the flags of the other roles say is not checked.)
\<close>

theorem accepted_collection_safe:
  assumes "validate_collection shown host lp ex now processKey collection = Inr r" and "cr_valid r"
  shows "length (effective_versions shown host (collection_now host now) k (records_of collection)) \<le> 1 \<and>
         (if falsy_text processKey then True
          else length (effective_versions shown host (collection_now host now) (or_empty processKey)
                 (records_of collection)) = 1) \<and>
         distinct (map (identity_text shown) (records_of collection)) \<and>
         list_all role_safe (access_list collection ''roles'') \<and>
         list_all (permission_safe (access_list collection ''roles''))
           (access_list collection ''lifecycle_permissions'')"
proof -
  let ?s0 = "\<lparr>rs_identity = [], rs_active = [], rs_effective = []\<rparr>"
  let ?rs = "access_list collection ''roles''"
  obtain s where scan: "scan_records shown host lp ex (collection_now host now) 0 (records_of collection) ?s0
      = Inr ([], s)"
    and effective: "effective_errors shown processKey (rs_effective s) = []"
    and rs: "concat (map (\<lambda>(i, r). role_errors shown i r) (List.enumerate 0 ?rs)) = []"
    and ps: "concat (map (\<lambda>(i, p). permission_errors shown (role_names ?rs) i p)
      (List.enumerate 0 (access_list collection ''lifecycle_permissions''))) = []"
    using assms unfolding validate_collection_def Let_def collection_now_def
    by (auto split: if_splits sum.splits)
  have versions: "versions_of (Some (JStr k')) (rs_effective s) =
      effective_versions shown host (collection_now host now) k' (records_of collection)" for k'
    using scan_records_effective[OF scan, of k'] by simp
  have short: "length (versions_of (Some (JStr k')) (rs_effective s)) \<le> 1" for k'
    using effective versions_of_entry[of "Some (JStr k')" "rs_effective s"]
    by (fastforce simp: effective_errors_def Let_def split: prod.splits)
  have "length (versions_of (Some (JStr (or_empty processKey))) (rs_effective s)) = 1"
    if "\<not> falsy_text processKey"
    using effective that short[of "or_empty processKey"]
    by (cases "versions_of (Some (JStr (or_empty processKey))) (rs_effective s)")
      (auto simp: effective_errors_def Let_def)
  moreover have "list_all role_safe ?rs"
    using rs by (rule concat_enumerate_Nil) (rule role_errors_Nil)
  moreover have "list_all (permission_safe ?rs) (access_list collection ''lifecycle_permissions'')"
    using ps by (rule concat_enumerate_Nil) (rule permission_errors_Nil)
  ultimately show ?thesis
    using short[of k] scan_records_identity[OF scan] by (simp add: versions)
qed


section \<open>A collection that is accepted\<close>

definition sample_person :: json where
  "sample_person = JObj [(''type'', JStr ''team''), (''id'', JStr ''t'')]"

text \<open>The key of its process is a parameter.\<close>

definition sample_record :: "string \<Rightarrow> json" where
  "sample_record key = JObj
     [(''process_key'', JStr key), (''version'', JStr ''1.0.0''), (''status'', JStr ''active''),
      (''artifact_id'', JStr ''a''), (''definition_ref'', JStr ''fixture://d''),
      (''validation_report_ref'', JStr ''fixture://r''), (''environment'', JStr ''production''),
      (''namespace'', JStr ''n''),
      (''content_hash'', JStr (''sha256:'' @ replicate 64 (CHR ''a''))),
      (''effective_from'', JStr ''2026-07-06T00:00:00Z''), (''effective_to'', JNull),
      (''activated_at'', JStr ''2026-07-06T00:00:00Z''), (''activated_by'', sample_person),
      (''created_at'', JStr ''2026-07-06T00:00:00Z''), (''updated_at'', JStr ''2026-07-06T00:00:00Z''),
      (''created_by'', sample_person), (''updated_by'', sample_person)]"

definition sample_role :: "string \<Rightarrow> bool \<Rightarrow> json" where
  "sample_role name active =
     JObj [(''role'', JStr name), (''can_read'', JBool True), (''can_write'', JBool False),
           (''can_approve'', JBool False), (''can_activate'', JBool active)]"

definition sample_collection :: "string \<Rightarrow> json" where
  "sample_collection key = JObj
     [(''schema_version'', JStr ''process-registry-collection.v1''), (''registry_key'', JStr ''a.b''),
      (''storage_model'', JObj
        [(''source_of_truth'', JStr ''git''), (''runtime_projection'', JStr ''none''),
         (''immutability'', JStr ''semantic_version_required'')]),
      (''access_control'', JObj
        [(''roles'', JArr [sample_role ''publisher'' True, sample_role ''runtime_reader'' False]),
         (''lifecycle_permissions'', JArr
           [JObj [(''role'', JStr ''publisher''), (''to'', JStr ''active'')]])]),
      (''definitions'', JArr [sample_record key])]"

lemmas value_simps = opt_prop_def is_object_def is_text_def truthy_def is_nullish_def array_of_def
  is_boolean_def Let_def

lemma sample_date: "date_parse host ''2026-07-06T00:00:00Z'' = Some 1783296000000"
proof -
  have "iso_parse ''2026-07-06T00:00:00Z'' = Some (Some 1783296000000)" by code_simp
  then show ?thesis by (simp add: date_parse_def)
qed

lemma sample_person_ok [simp]: "collection_actor shown (Some sample_person) path = []"
  by (simp add: collection_actor_def sample_person_def value_simps)

lemma sample_effective: "is_currently_effective shown host (Some (sample_record key)) (Some 1783296000000)"
  by (simp add: is_currently_effective_def after_date_def before_date_def date_before_def
      sample_record_def date_of_def sample_date value_simps)

lemma list_all_replicate: "list_all P (replicate n x) \<longleftrightarrow> n = 0 \<or> P x"
  by (induction n) auto

lemma sample_fields_ok:
  "process_key_pattern key \<Longrightarrow> record_field_errors shown path (sample_record key) = []"
  by (simp add: record_field_errors_def sample_record_def known_statuses_def
      semver_def sha256_def date_time_def starts_with_def is_lower_def is_digit_def list_all_replicate value_simps)

lemma sample_active_ok: "active_record_errors shown host (Some 1783296000000) path (sample_record key) = []"
  by (simp add: active_record_errors_def after_date_def before_date_def date_before_def date_of_def
      sample_record_def sample_person_def sample_date value_simps)

lemma sample_refs_ok:
  "ref_errors shown lp ex code ''definition_ref'' path (sample_record key) = Inr []"
  "ref_errors shown lp ex code ''validation_report_ref'' path (sample_record key) = Inr []"
  by (simp_all add: ref_errors_def resolve_local_ref_def sample_record_def starts_with_def value_simps)

lemma sample_record_members:
  "opt_prop (Some (sample_record key)) ''status'' = Some (JStr ''active'')"
  "opt_prop (Some (sample_record key)) ''process_key'' = Some (JStr key)"
  "opt_prop (Some (sample_record key)) ''version'' = Some (JStr ''1.0.0'')"
  "is_object (Some (sample_record key))"
  by (simp_all add: sample_record_def opt_prop_def is_object_def)

lemma sample_scan:
  assumes "process_key_pattern key"
  shows "\<exists>s. scan_records shown host lp ex (Some 1783296000000) 0 [sample_record key]
         \<lparr>rs_identity = [], rs_active = [], rs_effective = []\<rparr> = Inr ([], s) \<and>
       rs_effective s = [(Some (JStr key), [Some (JStr ''1.0.0'')])]"
  by (simp add: scan_record_def sample_record_members sample_fields_ok[OF assms] sample_active_ok
      sample_refs_ok sample_effective Let_def)

lemma sample_collection_accepted:
  assumes "process_key_pattern key"
  shows "\<exists>r. validate_collection shown host lp ex None (Some key) (sample_collection key) = Inr r \<and> cr_valid r"
proof -
  obtain s where s: "scan_records shown host lp ex (Some 1783296000000) 0 [sample_record key]
        \<lparr>rs_identity = [], rs_active = [], rs_effective = []\<rparr> = Inr ([], s)"
      "rs_effective s = [(Some (JStr key), [Some (JStr ''1.0.0'')])]"
    using sample_scan[OF assms] by blast
  have "collection_header_errors (sample_collection key) = []"
    by (simp add: collection_header_errors_def sample_collection_def process_key_pattern_def ident_def
        is_lower_def value_simps)
  moreover have "storage_errors (opt_prop (Some (sample_collection key)) ''storage_model'') = []"
    by (simp add: storage_errors_def sample_collection_def value_simps)
  moreover have "effective_errors shown (Some key) (rs_effective s) = []"
    by (simp add: effective_errors_def s(2) falsy_text_def or_empty_def same_key_def is_primitive_def)
  moreover have "is_object (Some (sample_collection key))"
      "is_object (opt_prop (Some (sample_collection key)) ''access_control'')"
      "records_of (sample_collection key) = [sample_record key]"
      "access_list (sample_collection key) ''roles'' = [sample_role ''publisher'' True, sample_role ''runtime_reader'' False]"
      "access_list (sample_collection key) ''lifecycle_permissions'' =
         [JObj [(''role'', JStr ''publisher''), (''to'', JStr ''active'')]]"
    by (simp_all add: sample_collection_def opt_prop_def is_object_def array_of_def)
  moreover have "role_errors shown i (sample_role ''publisher'' True) = []"
      "role_errors shown i (sample_role ''runtime_reader'' False) = []" for i
    by (simp_all add: role_errors_def sample_role_def roles_def value_simps)
  moreover have "permission_errors shown (role_names [sample_role ''publisher'' True, sample_role ''runtime_reader'' False])
      i (JObj [(''role'', JStr ''publisher''), (''to'', JStr ''active'')]) = []" for i
    by (simp add: permission_errors_def role_names_def sample_role_def lifecycle_roles_def
        same_key_def is_primitive_def value_simps)
  ultimately show ?thesis
    by (simp add: validate_collection_def Let_def falsy_text_def sample_date s(1) del: scan_records.simps)
qed

lemma collection_sample_key: "process_key_pattern ''a.b''"
  by (simp add: process_key_pattern_def ident_def is_lower_def)

lemma accepted_collection_safe_witness:
  "length (effective_versions (\<lambda>_. []) (\<lambda>_. None) (collection_now (\<lambda>_. None) None) ''a.b''
     (records_of (sample_collection ''a.b''))) = 1"
proof -
  obtain r where "validate_collection (\<lambda>_. []) (\<lambda>_. None) (\<lambda>p. p) (\<lambda>_. False) None (Some ''a.b'')
      (sample_collection ''a.b'') = Inr r" and "cr_valid r"
    using sample_collection_accepted[OF collection_sample_key] by blast
  from accepted_collection_safe[OF this] show ?thesis
    by (simp add: falsy_text_def or_empty_def)
qed

end
