(* ===== verification/Api.thy ===== *)
theory Api
  imports ProcessProperties Auth
begin

text \<open>
  The HTTP surface of the process registry and the outbox:
  \<open>src/src/processes/process-registry.controller.ts\<close> and
  \<open>src/src/events/events.controller.ts\<close>, with the guard in front of the endpoints that
  carry it. The framework runs the guard first, then the pipes, then the handler; what the
  integer pipe makes of the version in the path and what validation makes of the body is an
  argument, an error or a value.
\<close>

section \<open>Environment and answers\<close>

record api_env =
  ae_host :: host_parse
  ae_collate :: "string \<Rightarrow> string"
  ae_env :: environment
  ae_makeUrl :: "string \<Rightarrow> string \<Rightarrow> string option"
  ae_auth :: "auth_request \<Rightarrow> http_answer"
  ae_clock :: clock_reads
  ae_clock2 :: clock_reads
  ae_hmac :: "string \<Rightarrow> event_envelope \<Rightarrow> string"
  ae_returning :: "outbox_row list \<Rightarrow> outbox_row raw list"
  ae_attempts :: "nat \<Rightarrow> attempt_env"
  ae_dbnow :: db_time

record lifecycle_answer =
  la_status :: string
  la_process :: process_definition
  la_warnings :: "string list"

datatype http_body =
    BodyProcesses "process_definition list"
  | BodyProcess process_definition
  | BodyLifecycle lifecycle_answer
  | BodyValidation process_validation
  | BodyStoreInfo store_info
  | BodyAudit "process_audit_event list"
  | BodyEvents "event_envelope list"
  | BodyOutboxInfo outbox_info
  | BodyDispatch dispatch_summary
  | BodyTransport transport_info

type_synonym api_op = "(process_db, http_body) op"

text \<open>\<open>@UseGuards(AuthIdentityGuard)\<close>: the handler runs with the identity, or not at all.\<close>

definition identity_of :: "api_env \<Rightarrow> header_value option \<Rightarrow> error + auth_identity" where
  "identity_of ae authorization = fst (can_activate (ae_env ae) (ae_makeUrl ae) (ae_auth ae) authorization)"

definition guarded :: "api_env \<Rightarrow> header_value option \<Rightarrow> (string \<Rightarrow> api_op) \<Rightarrow> api_op" where
  "guarded ae authorization handler =
     (case identity_of ae authorization of
        Inl e \<Rightarrow> throw e
      | Inr identity \<Rightarrow> handler (request_actor (Some identity)))"

definition piped :: "error + 'a \<Rightarrow> ('a \<Rightarrow> api_op) \<Rightarrow> api_op" where
  "piped v handler = (case v of Inl e \<Rightarrow> throw e | Inr x \<Rightarrow> handler x)"

definition answer :: "('a \<Rightarrow> http_body) \<Rightarrow> (process_db, 'a) op \<Rightarrow> api_op" where
  "answer body m = and_then m (\<lambda>x. ret (body x))"


section \<open>The process registry\<close>

definition list_processes_handler :: "api_env \<Rightarrow> api_op" where
  "list_processes_handler ae = answer BodyProcesses (list_processes (ae_collate ae))"

definition create_process_handler ::
  "api_env \<Rightarrow> header_value option \<Rightarrow> error + create_process_dto \<Rightarrow> api_op" where
  "create_process_handler ae authorization body =
     guarded ae authorization (\<lambda>actor. piped body (\<lambda>dto.
       answer BodyProcess (create_process (ae_host ae) (ae_clock ae) dto actor)))"

definition store_info_handler :: "api_env \<Rightarrow> api_op" where
  "store_info_handler ae = answer BodyStoreInfo get_store_info"

definition process_audit_handler :: "api_env \<Rightarrow> string \<Rightarrow> api_op" where
  "process_audit_handler ae i = answer BodyAudit (list_audit i None)"

definition get_process_handler :: "api_env \<Rightarrow> string \<Rightarrow> error + int \<Rightarrow> api_op" where
  "get_process_handler ae i version = piped version (\<lambda>v. answer BodyProcess (get_process i v))"

definition version_audit_handler :: "api_env \<Rightarrow> string \<Rightarrow> error + int \<Rightarrow> api_op" where
  "version_audit_handler ae i version = piped version (\<lambda>v. answer BodyAudit (list_audit i (Some v)))"

definition validate_process_handler ::
  "api_env \<Rightarrow> header_value option \<Rightarrow> string \<Rightarrow> error + int \<Rightarrow> api_op" where
  "validate_process_handler ae authorization i version =
     guarded ae authorization (\<lambda>actor. piped version (\<lambda>v.
       answer BodyValidation (validate_process (ae_host ae) (ae_clock ae) i v actor)))"

definition lifecycle_body :: "string \<Rightarrow> string \<Rightarrow> process_definition \<Rightarrow> http_body" where
  "lifecycle_body status warning p =
     BodyLifecycle \<lparr>la_status = status, la_process = p, la_warnings = [warning]\<rparr>"

definition schedule_process_handler ::
  "api_env \<Rightarrow> header_value option \<Rightarrow> string \<Rightarrow> error + int \<Rightarrow> api_op" where
  "schedule_process_handler ae authorization i version =
     guarded ae authorization (\<lambda>actor. piped version (\<lambda>v.
       answer (lifecycle_body ''scheduled-in-registry'' ''[MISSING: activation scheduler runtime is not wired]'')
         (schedule_process (ae_host ae) (ae_clock ae) (ae_clock2 ae) i v actor)))"

definition publish_process_handler ::
  "api_env \<Rightarrow> header_value option \<Rightarrow> string \<Rightarrow> error + int \<Rightarrow> api_op" where
  "publish_process_handler ae authorization i version =
     guarded ae authorization (\<lambda>actor. piped version (\<lambda>v.
       answer (lifecycle_body ''published-in-registry'' ''[MISSING: signed publication and event bus broadcast]'')
         (publish_process (ae_host ae) (ae_clock ae) (ae_clock2 ae) i v actor)))"

definition pause_process_handler ::
  "api_env \<Rightarrow> header_value option \<Rightarrow> string \<Rightarrow> error + int \<Rightarrow> api_op" where
  "pause_process_handler ae authorization i version =
     guarded ae authorization (\<lambda>actor. piped version (\<lambda>v.
       answer (lifecycle_body ''paused-in-registry'' ''[MISSING: pause event broadcast to service adapters]'')
         (pause_process (ae_host ae) (ae_clock ae) i v actor)))"

definition retire_process_handler ::
  "api_env \<Rightarrow> header_value option \<Rightarrow> string \<Rightarrow> error + int \<Rightarrow> api_op" where
  "retire_process_handler ae authorization i version =
     guarded ae authorization (\<lambda>actor. piped version (\<lambda>v.
       answer (lifecycle_body ''retired-in-registry'' ''[MISSING: retirement event broadcast to service adapters]'')
         (retire_process (ae_host ae) (ae_clock ae) i v actor)))"


section \<open>The outbox\<close>

definition list_outbox_handler :: "api_env \<Rightarrow> string option \<Rightarrow> api_op" where
  "list_outbox_handler ae processId = answer BodyEvents (list_events processId)"

definition outbox_info_handler :: "api_env \<Rightarrow> api_op" where
  "outbox_info_handler ae = answer BodyOutboxInfo (get_outbox_info (ae_env ae))"

definition dispatch_outbox_handler :: "api_env \<Rightarrow> header_value option \<Rightarrow> string option \<Rightarrow> api_op" where
  "dispatch_outbox_handler ae authorization limit =
     guarded ae authorization (\<lambda>_. piped (parse_limit limit) (\<lambda>n.
       answer (\<lambda>(summary, sent). BodyDispatch summary)
         (dispatch_pending (ae_env ae) (ae_hmac ae) (ae_returning ae) (ae_attempts ae) (ae_dbnow ae) n)))"

definition replay_outbox_handler ::
  "api_env \<Rightarrow> header_value option \<Rightarrow> string option \<Rightarrow> string option \<Rightarrow> string option \<Rightarrow> api_op" where
  "replay_outbox_handler ae authorization limit processId eventType =
     guarded ae authorization (\<lambda>_. piped (parse_limit limit) (\<lambda>n.
       answer (\<lambda>(summary, sent). BodyDispatch summary)
         (replay_dispatched (ae_env ae) (ae_hmac ae) (ae_attempts ae) n processId eventType)))"

definition process_outbox_handler :: "api_env \<Rightarrow> string \<Rightarrow> api_op" where
  "process_outbox_handler ae i = answer BodyEvents (list_events (Some i))"

definition transport_info_handler :: "api_env \<Rightarrow> api_op" where
  "transport_info_handler ae = ret (BodyTransport (get_transport_info (ae_env ae)))"


section \<open>The service\<close>

datatype http_call =
    CallListProcesses
  | CallCreateProcess "error + create_process_dto"
  | CallStoreInfo
  | CallProcessAudit string
  | CallGetProcess string "error + int"
  | CallVersionAudit string "error + int"
  | CallValidate string "error + int"
  | CallSchedule string "error + int"
  | CallPublish string "error + int"
  | CallPause string "error + int"
  | CallRetire string "error + int"
  | CallListOutbox "string option"
  | CallOutboxInfo
  | CallDispatch "string option"
  | CallReplay "string option" "string option" "string option"
  | CallProcessOutbox string
  | CallTransportInfo

definition serve :: "api_env \<Rightarrow> header_value option \<Rightarrow> http_call \<Rightarrow> api_op" where
  "serve ae authorization call =
     (case call of
        CallListProcesses \<Rightarrow> list_processes_handler ae
      | CallCreateProcess body \<Rightarrow> create_process_handler ae authorization body
      | CallStoreInfo \<Rightarrow> store_info_handler ae
      | CallProcessAudit i \<Rightarrow> process_audit_handler ae i
      | CallGetProcess i v \<Rightarrow> get_process_handler ae i v
      | CallVersionAudit i v \<Rightarrow> version_audit_handler ae i v
      | CallValidate i v \<Rightarrow> validate_process_handler ae authorization i v
      | CallSchedule i v \<Rightarrow> schedule_process_handler ae authorization i v
      | CallPublish i v \<Rightarrow> publish_process_handler ae authorization i v
      | CallPause i v \<Rightarrow> pause_process_handler ae authorization i v
      | CallRetire i v \<Rightarrow> retire_process_handler ae authorization i v
      | CallListOutbox p \<Rightarrow> list_outbox_handler ae p
      | CallOutboxInfo \<Rightarrow> outbox_info_handler ae
      | CallDispatch limit \<Rightarrow> dispatch_outbox_handler ae authorization limit
      | CallReplay limit p t \<Rightarrow> replay_outbox_handler ae authorization limit p t
      | CallProcessOutbox i \<Rightarrow> process_outbox_handler ae i
      | CallTransportInfo \<Rightarrow> transport_info_handler ae)"

end
