(* ===== verification/ApiProperties.thy ===== *)
theory ApiProperties
  imports Api
begin

text \<open>
  What a request over HTTP can do to the process registry and the outbox: nothing without
  a confirmed identity, and under the name of that identity otherwise.
\<close>

lemma snd_answer [simp]: "snd (answer body m s) = snd (m s)"
  by (simp add: answer_def and_then_def ret_def split: prod.split sum.split)

lemma identity_named:
  assumes "identity_of ae authorization = Inr identity"
  shows "normalized_actor (request_actor (Some identity)) = ai_actor identity"
proof -
  have "\<exists>payload. extract_identity payload = Some identity"
    using assms by (auto simp: identity_of_def can_activate_def validate_bearer_token_def Let_def
        split: option.splits prod.splits if_splits http_answer.splits)
  then show ?thesis
    using extract_identity_Some by (auto simp: normalized_actor_def request_actor_def)
qed

text \<open>
  The audit trail grows at its end, by rows of one actor; the processes stay as they are
  when it does not grow.
\<close>

definition recorded_by :: "string \<Rightarrow> process_db \<Rightarrow> process_db \<Rightarrow> bool" where
  "recorded_by actor s s' \<longleftrightarrow>
     (\<exists>rows. db_audit s' = db_audit s @ rows \<and> list_all (\<lambda>a. ar_actor a = actor) rows \<and>
        (rows = [] \<longrightarrow> db_processes s' = db_processes s))"

lemma recorded_by_refl: "db_audit s' = db_audit s \<Longrightarrow> db_processes s' = db_processes s \<Longrightarrow> recorded_by actor s s'"
  by (simp add: recorded_by_def)

lemma recorded_by_trans: "recorded_by actor s s' \<Longrightarrow> recorded_by actor s' s'' \<Longrightarrow> recorded_by actor s s''"
proof -
  assume "recorded_by actor s s'" and "recorded_by actor s' s''"
  then obtain rows rows' where "db_audit s' = db_audit s @ rows" "list_all (\<lambda>a. ar_actor a = actor) rows"
      "rows = [] \<longrightarrow> db_processes s' = db_processes s" "db_audit s'' = db_audit s' @ rows'"
      "list_all (\<lambda>a. ar_actor a = actor) rows'" "rows' = [] \<longrightarrow> db_processes s'' = db_processes s'"
    unfolding recorded_by_def by blast
  then show ?thesis unfolding recorded_by_def by (intro exI[of _ "rows @ rows'"]) simp
qed

lemma recorded_by_recorded: "recorded_by actor s (recorded ck action r actor details s)"
  by (simp add: recorded_by_def appended_audit_def audit_entity_def)

lemma transition_recorded:
  "process_db_ok s \<Longrightarrow> clock_ok ck \<Longrightarrow>
   recorded_by (normalized_actor actor) s (snd (transition host ck i v status action details actor guard s))"
  by (auto simp: transition_eq recorded_by_recorded recorded_by_refl split: option.splits)

lemma validate_recorded:
  "process_db_ok s \<Longrightarrow> clock_ok ck \<Longrightarrow>
   recorded_by (normalized_actor actor) s (snd (validate_process host ck i v actor s))"
  by (auto simp: validate_process_eq Let_def recorded_by_recorded recorded_by_refl split: option.splits)

lemma gated_recorded:
  assumes ok: "process_db_ok s" and ck: "clock_ok ck" and ck': "clock_ok ck'"
  shows "recorded_by (normalized_actor actor) s (snd (gated host ck ck' i v actor verb status action details s))"
proof (cases "lookup_process (db_processes s) (i, v)")
  case None
  then show ?thesis by (simp add: gated_def and_then_def validate_process_eq[OF ok ck] recorded_by_refl)
next
  case (Some r)
  then show ?thesis
    by (auto simp: gated_eq[OF assms Some] intro: recorded_by_trans recorded_by_recorded)
qed

lemma create_recorded:
  "process_db_ok s \<Longrightarrow> clock_ok ck \<Longrightarrow>
   recorded_by (normalized_actor actor) s (snd (create_process host ck dto actor s))"
  by (auto simp: create_process_eq recorded_by_recorded recorded_by_refl split: option.splits)

lemma dispatch_recorded:
  "recorded_by actor s (snd (dispatch_pending env hmac returning att t limit s))"
  using delivery_only_dispatch[of s env hmac returning att t limit]
  by (auto simp: delivery_only_def intro!: recorded_by_refl)

lemma replay_recorded:
  "recorded_by actor s (snd (replay_dispatched env hmac att limit processId eventType s))"
  by (simp add: replay_pure recorded_by_refl)

text \<open>A guarded handler, given what it does once it runs.\<close>

lemma guarded_recorded:
  assumes "\<And>identity. identity_of ae authorization = Inr identity \<Longrightarrow>
      recorded_by (ai_actor identity) s (snd (handler (request_actor (Some identity)) s))"
  shows "case identity_of ae authorization of
      Inl e \<Rightarrow> snd (guarded ae authorization handler s) = s
    | Inr identity \<Rightarrow> recorded_by (ai_actor identity) s (snd (guarded ae authorization handler s))"
  using assms by (auto simp: guarded_def throw_def split: sum.splits)

lemma piped_recorded:
  "(\<And>x. recorded_by actor s (snd (handler x s))) \<Longrightarrow> recorded_by actor s (snd (piped v handler s))"
  by (simp add: piped_def throw_def recorded_by_refl split: sum.splits)

text \<open>Reading requests change nothing.\<close>

lemma readers_pure:
  assumes "process_db_ok s"
  shows "snd (list_processes c s) = s" "snd (get_store_info s) = s" "snd (list_audit i w s) = s"
    "snd (get_process i v s) = s" "snd (list_events p s) = s" "snd (get_outbox_info env s) = s"
  using assms
  by (simp_all add: list_processes_def get_store_info_def counts_def list_audit_def get_process_def
      find_process_eq list_events_def get_outbox_info_def count_by_state_def and_then_def ret_def throw_def
      int4_parameter_def split: option.splits prod.splits sum.splits)

lemma serve_reader:
  assumes "snd (serve ae authorization call s) = s"
  shows "case identity_of ae authorization of
      Inl e \<Rightarrow> snd (serve ae authorization call s) = s
    | Inr identity \<Rightarrow> recorded_by (ai_actor identity) s (snd (serve ae authorization call s))"
  using assms by (simp add: recorded_by_refl split: sum.splits)

text \<open>Every request over HTTP, by whether its bearer token is confirmed.\<close>

lemma serve_recorded:
  assumes ok: "process_db_ok s" and ck: "clock_ok (ae_clock ae)" and ck2: "clock_ok (ae_clock2 ae)"
  shows "case identity_of ae authorization of
      Inl e \<Rightarrow> snd (serve ae authorization call s) = s
    | Inr identity \<Rightarrow> recorded_by (ai_actor identity) s (snd (serve ae authorization call s))"
proof -
  note named = identity_named[of ae authorization]
  note pure = readers_pure[OF ok]
  have piped_pure: "snd (piped v handler s) = s" if "\<And>x. snd (handler x s) = s" for v :: "error + int" and handler
    using that by (simp add: piped_def throw_def split: sum.splits)
  note handlers = create_process_handler_def validate_process_handler_def schedule_process_handler_def
    publish_process_handler_def pause_process_handler_def retire_process_handler_def
    dispatch_outbox_handler_def replay_outbox_handler_def
  note readers = list_processes_handler_def store_info_handler_def process_audit_handler_def
    get_process_handler_def version_audit_handler_def list_outbox_handler_def outbox_info_handler_def
    process_outbox_handler_def transport_info_handler_def
  show ?thesis
  proof (cases call)
    case (CallCreateProcess body)
    show ?thesis unfolding CallCreateProcess serve_def http_call.case handlers
      by (intro guarded_recorded piped_recorded) (simp add: named[symmetric] create_recorded[OF ok ck])
  next
    case (CallValidate i v)
    show ?thesis unfolding CallValidate serve_def http_call.case handlers
      by (intro guarded_recorded piped_recorded) (simp add: named[symmetric] validate_recorded[OF ok ck])
  next
    case (CallSchedule i v)
    show ?thesis unfolding CallSchedule serve_def http_call.case handlers schedule_gated
      by (intro guarded_recorded piped_recorded) (simp add: named[symmetric] gated_recorded[OF ok ck ck2])
  next
    case (CallPublish i v)
    show ?thesis unfolding CallPublish serve_def http_call.case handlers publish_gated
      by (intro guarded_recorded piped_recorded) (simp add: named[symmetric] gated_recorded[OF ok ck ck2])
  next
    case (CallPause i v)
    show ?thesis unfolding CallPause serve_def http_call.case handlers pause_process_def
      by (intro guarded_recorded piped_recorded) (simp add: named[symmetric] transition_recorded[OF ok ck])
  next
    case (CallRetire i v)
    show ?thesis unfolding CallRetire serve_def http_call.case handlers retire_process_def
      by (intro guarded_recorded piped_recorded) (simp add: named[symmetric] transition_recorded[OF ok ck])
  next
    case (CallDispatch limit)
    show ?thesis unfolding CallDispatch serve_def http_call.case handlers
      by (intro guarded_recorded piped_recorded) (simp add: dispatch_recorded)
  next
    case (CallReplay limit p t)
    show ?thesis unfolding CallReplay serve_def http_call.case handlers
      by (intro guarded_recorded piped_recorded) (simp add: replay_recorded)
  qed (rule serve_reader, simp add: serve_def readers pure piped_pure ret_def)+
qed

text \<open>
  C17. Over HTTP, a request whose bearer token the authentication service does not confirm
  changes nothing, and a request with a confirmed identity changes processes only together
  with audit rows, all of them under the name of that identity.
\<close>

theorem mutations_authenticated:
  assumes ok: "process_db_ok s" and ck: "clock_ok (ae_clock ae)" and ck2: "clock_ok (ae_clock2 ae)"
  shows "case identity_of ae authorization of
      Inl e \<Rightarrow> snd (serve ae authorization call s) = s
    | Inr identity \<Rightarrow> recorded_by (ai_actor identity) s (snd (serve ae authorization call s))"
  by (rule serve_recorded[OF assms])

text \<open>
  C39. Round trip: what the creation request answers is what reading the new version
  afterwards answers, for any caller; a creation that is refused changes nothing.
\<close>

theorem create_then_get:
  assumes ok: "process_db_ok s" and ck: "clock_ok (ae_clock ae)"
  shows "case serve ae authorization (CallCreateProcess (Inr dto)) s of
      (Inr body, s') \<Rightarrow>
        serve ae reader (CallGetProcess (cp_processId dto) (Inr (or_else (cp_version dto) 1))) s' = (Inr body, s')
    | (Inl e, s') \<Rightarrow> s' = s"
proof (cases "identity_of ae authorization")
  case (Inl e)
  then show ?thesis by (simp add: serve_def create_process_handler_def guarded_def throw_def)
next
  case (Inr identity)
  let ?k = "(cp_processId dto, or_else (cp_version dto) 1)"
  let ?s' = "recorded (ae_clock ae) ActCreated (created_row dto (ck_now (ae_clock ae)))
      (normalized_actor (request_actor (Some identity))) [(''source'', JStr ''api'')] s"
  show ?thesis
  proof (cases "int4 (or_else (cp_version dto) 1)")
    case True
    have ok': "process_db_ok ?s'" by (rule recorded_ok[OF ok row_ok_updates(3)[OF ck True] ck])
    have "lookup_process (db_processes ?s') ?k = Some (created_row dto (ck_now (ae_clock ae)))"
      by (simp add: lookup_put)
    then have get: "get_process (fst ?k) (snd ?k) ?s' =
        (Inr (new_process_definition dto (ck_now (ae_clock ae))), ?s')"
      by (simp add: get_process_def and_then_def find_process_eq[OF ok'] ret_def definition_of_created True)
    show ?thesis
      using Inr get True
      by (cases "lookup_process (db_processes s) ?k")
        (simp_all add: serve_def create_process_handler_def get_process_handler_def guarded_def piped_def
          answer_def and_then_def ret_def create_process_eq[OF ok ck])
  next
    case False
    then show ?thesis
      using Inr by (simp add: serve_def create_process_handler_def guarded_def piped_def
          answer_def and_then_def create_process_eq[OF ok ck])
  qed
qed


section \<open>A request with a token\<close>

definition sample_api :: api_env where
  "sample_api =
     \<lparr>ae_host = (\<lambda>_. None), ae_collate = (\<lambda>s. s),
      ae_env = (\<lambda>k. if k = ''AUTH_SERVICE_URL'' then Some ''http://auth'' else None),
      ae_makeUrl = (\<lambda>path base. Some (base @ path)),
      ae_auth = (\<lambda>_. Response 200 (Inr []) (Inr (JObj [(''sub'', JStr ''ops'')]))),
      ae_clock = sample_clock, ae_clock2 = sample_clock, ae_hmac = (\<lambda>_ _. []),
      ae_returning = (\<lambda>rows. []), ae_attempts = (\<lambda>_. sample_attempt), ae_dbnow = 0\<rparr>"

lemma sample_identity:
  "identity_of sample_api (Some (HeaderText ''Bearer t'')) = Inr \<lparr>ai_subject = ''ops'', ai_actor = ''ops''\<rparr>"
proof -
  have token: "read_bearer_token (Some (HeaderText ''Bearer t'')) = Some ''t''"
    by (simp add: read_bearer_token_def js_trim_def js_space_def)
      (subst split_spaces.simps, simp add: js_space_def, subst split_spaces.simps,
        simp add: js_space_def ascii_lower_def char_of_def bit_iff_odd)
  have "extract_identity (JObj [(''sub'', JStr ''ops'')]) = Some \<lparr>ai_subject = ''ops'', ai_actor = ''ops''\<rparr>"
    by (simp add: extract_identity_def to_record_def read_string_def or_else_def js_trim_def js_space_def)
  then show ?thesis
    by (simp add: identity_of_def can_activate_def token validate_bearer_token_def sample_api_def Let_def
        resolve_validation_endpoint_def or_else_def js_trim_def js_space_def default_validation_path_def
        response_ok_def safe_json_def)
qed

lemma mutations_authenticated_witness:
  "recorded_by ''ops'' sample_registry
     (snd (serve sample_api (Some (HeaderText ''Bearer t'')) (CallPublish ''holiday-discount-2026'' (Inr 1)) sample_registry))"
proof -
  have "clock_ok (ae_clock sample_api)" "clock_ok (ae_clock2 sample_api)"
    by (simp_all add: sample_api_def sample_clock_ok)
  from mutations_authenticated[OF sample_registry_ok this, of "Some (HeaderText ''Bearer t'')"
      "CallPublish ''holiday-discount-2026'' (Inr 1)"]
  show ?thesis by (simp add: sample_identity)
qed


definition sample_dto :: create_process_dto where
  "sample_dto =
     \<lparr>cp_processId = ''p'', cp_version = Some 2, cp_status = None, cp_activeFrom = None, cp_activeTo = None,
      cp_policyRefs = [], cp_workflowRefs = [], cp_campaignRefs = None, cp_killSwitch = None\<rparr>"

lemma create_then_get_witness:
  "\<exists>body s'. serve sample_api (Some (HeaderText ''Bearer t'')) (CallCreateProcess (Inr sample_dto)) sample_registry =
      (Inr body, s') \<and> serve sample_api None (CallGetProcess ''p'' (Inr 2)) s' = (Inr body, s')"
proof -
  have ck: "clock_ok (ae_clock sample_api)" by (simp add: sample_api_def sample_clock_ok)
  have "lookup_process (db_processes sample_registry) (''p'', 2) = None"
    by (simp add: sample_registry_def lookup_process_def sample_process_row_def process_entity_def
        process_key_def seed_holiday_discount_definition_def empty_db_def del: process_key_fold)
  moreover have fields: "cp_processId sample_dto = ''p''" "or_else (cp_version sample_dto) 1 = 2"
    by (simp_all add: sample_dto_def or_else_def)
  ultimately have "\<exists>p s'. create_process host (ae_clock sample_api) sample_dto actor sample_registry = (Inr p, s')"
    for host actor
    using create_process_eq[OF sample_registry_ok ck, of host sample_dto actor]
    by (simp add: fields int4_def)
  then obtain p s' where p: "create_process (ae_host sample_api) (ae_clock sample_api) sample_dto
      (request_actor (Some \<lparr>ai_subject = ''ops'', ai_actor = ''ops''\<rparr>)) sample_registry = (Inr p, s')"
    by blast
  have c: "serve sample_api (Some (HeaderText ''Bearer t'')) (CallCreateProcess (Inr sample_dto)) sample_registry =
      (Inr (BodyProcess p), s')"
    by (simp only: serve_def http_call.case create_process_handler_def guarded_def sample_identity sum.case piped_def
        answer_def and_then_def ret_def p prod.case)
  from create_then_get[OF sample_registry_ok ck, where authorization = "Some (HeaderText ''Bearer t'')"
      and dto = sample_dto and reader = None]
  have "serve sample_api None (CallGetProcess ''p'' (Inr 2)) s' = (Inr (BodyProcess p), s')"
    by (simp only: c prod.case sum.case fields)
  with c show ?thesis by blast
qed

end
