(* ===== verification/BusinessHealth.thy ===== *)
theory BusinessHealth
  imports JsValue JsDate
begin

text \<open>
  The business health report: \<open>src/src/business-health/business-health.types.ts\<close> (the
  data), \<open>business-health.evidence-adapter-runner.ts\<close> (six adapters over constant
  definitions, run in a fixed order) and \<open>business-health.service.ts\<close> (the report). The
  fields whose type has a single value in the source (\<open>mutatesProduction: false\<close>,
  \<open>mutationType: 'none'\<close>) are kept as fields.
\<close>

section \<open>Data\<close>

datatype health_status = HealthPass | HealthWarn | HealthFail | HealthBlocked | HealthReady

datatype plane_key = ControlPlane | Warehouse | Orders | Catalog | Suppliers | Marketplaces

fun plane_text :: "plane_key \<Rightarrow> string" where
  "plane_text ControlPlane = ''controlPlane''"
| "plane_text Warehouse = ''warehouse''"
| "plane_text Orders = ''orders''"
| "plane_text Catalog = ''catalog''"
| "plane_text Suppliers = ''suppliers''"
| "plane_text Marketplaces = ''marketplaces''"

record mutation_boundary =
  mb_mutatesProduction :: bool
  mb_mutationType :: string
  mb_declaration :: string

record evidence_summary =
  es_plane :: plane_key
  es_status :: health_status
  es_summary :: string
  es_source :: "string option"
  es_sourceRefs :: "string list"
  es_blockers :: "string list"
  es_mutationBoundary :: mutation_boundary
  es_mutatesProduction :: bool

record adapter_result =
  ar_plane :: plane_key
  ar_status :: health_status
  ar_evidence :: evidence_summary
  ar_blockers :: "string list"
  ar_sourceRefs :: "string list"
  ar_mutationBoundary :: mutation_boundary

record ownership_boundary =
  ob_owner :: string
  ob_declaration :: string
  ob_forbiddenRuntimeReads :: "string list"

record intent_preservation =
  ip_vision :: string
  ip_goalImpact :: string
  ip_system :: string
  ip_feature :: string
  ip_task :: string
  ip_executionPlan :: string
  ip_codingPrompt :: string
  ip_code :: string
  ip_validation :: string

record health_report =
  hr_schemaVersion :: string
  hr_processId :: string
  hr_generatedAt :: string
  hr_mutatesProduction :: bool
  hr_overallStatus :: health_status
  hr_planes :: "(string \<times> health_status) list"
  hr_evidence :: "evidence_summary list"
  hr_blockers :: "string list"
  hr_nextAction :: string
  hr_ownershipBoundary :: ownership_boundary
  hr_intentPreservation :: intent_preservation
  hr_sourceRefs :: "string list"


section \<open>The adapters\<close>

definition checkpoint_doc :: string where
  "checkpoint_doc = ''docs/orchestrator/2026-07-06-business-health-integration-checkpoint.md''"

definition process_contract_doc :: string where
  "process_contract_doc = ''docs/orchestrator/2026-07-06-stock-reservation-cross-channel-process-contract.md''"

definition read_only_boundary :: mutation_boundary where
  "read_only_boundary =
     \<lparr>mb_mutatesProduction = False, mb_mutationType = ''none'',
      mb_declaration = ''In-process BPCP adapter runner returns committed source references only; it performs no sibling repo filesystem reads, service calls, provider calls, deploys, Kubernetes access, secret reads, or production mutations.''\<rparr>"

record adapter_definition =
  ha_plane :: plane_key
  ha_status :: health_status
  ha_summary :: string
  ha_sourceRefs :: "string list"
  ha_blockers :: "string list"

definition collect_evidence :: "adapter_definition \<Rightarrow> adapter_result" where
  "collect_evidence d =
     \<lparr>ar_plane = ha_plane d, ar_status = ha_status d,
      ar_evidence =
        \<lparr>es_plane = ha_plane d, es_status = ha_status d, es_summary = ha_summary d,
         es_source = (case ha_sourceRefs d of [] \<Rightarrow> None | r # _ \<Rightarrow> Some r),
         es_sourceRefs = ha_sourceRefs d, es_blockers = ha_blockers d,
         es_mutationBoundary = read_only_boundary, es_mutatesProduction = False\<rparr>,
      ar_blockers = ha_blockers d, ar_sourceRefs = ha_sourceRefs d,
      ar_mutationBoundary = read_only_boundary\<rparr>"

definition control_plane_adapter :: adapter_definition where
  "control_plane_adapter =
     \<lparr>ha_plane = ControlPlane, ha_status = HealthReady,
      ha_summary = ''BPCP source checkpoint, process contract, and in-process adapter runner exist for the business-health aggregation schema.'',
      ha_sourceRefs =
        [checkpoint_doc,
         process_contract_doc,
         ''src/business-health/business-health.evidence-adapter-runner.ts''],
      ha_blockers =
        []\<rparr>"

definition warehouse_adapter :: adapter_definition where
  "warehouse_adapter =
     \<lparr>ha_plane = Warehouse, ha_status = HealthWarn,
      ha_summary = ''Warehouse read-only stock authority evidence endpoint exists; live stock-row proof remains runtime-packet gated.'',
      ha_sourceRefs =
        [''warehouse-microservice/src/business-health/business-health.controller.ts'',
         ''warehouse-microservice/src/business-health/business-health.service.ts'',
         ''warehouse-microservice/docs/orchestrator/2026-07-06-warehouse-business-health-handoff.md''],
      ha_blockers =
        [''[MISSING: approved live Warehouse stock authority runtime evidence packet for target products]'',
         ''[MISSING: exact target product/warehouse/reservation readback scope for live stock-row proof]'']\<rparr>"

definition orders_adapter :: adapter_definition where
  "orders_adapter =
     \<lparr>ha_plane = Orders, ha_status = HealthWarn,
      ha_summary = ''Orders read-only order/reservation correlation evidence endpoint exists; live order proof remains runtime-packet gated.'',
      ha_sourceRefs =
        [''orders-microservice/src/business-health/business-health.controller.ts'',
         ''orders-microservice/src/business-health/business-health.service.ts'',
         ''orders-microservice/docs/orchestrator/2026-07-06-orders-business-health-handoff.md''],
      ha_blockers =
        [''[MISSING: approved live Orders/Warehouse runtime evidence packet for target order/product/channel]'',
         ''[MISSING: exact target order/product/channel and warehouse reservation lookup scope for live correlation proof]'',
         ''[MISSING: approved cleanup/payment/provider boundary packet if runtime proof creates or cancels a real order]'']\<rparr>"

definition catalog_adapter :: adapter_definition where
  "catalog_adapter =
     \<lparr>ha_plane = Catalog, ha_status = HealthWarn,
      ha_summary = ''Catalog read-only channel availability evidence endpoint exists; live product/channel proof remains runtime-packet gated.'',
      ha_sourceRefs =
        [''catalog-microservice/src/business-health/business-health.controller.ts'',
         ''catalog-microservice/src/business-health/business-health.service.ts'',
         ''catalog-microservice/docs/orchestrator/2026-07-06-catalog-channel-business-health-handoff.md''],
      ha_blockers =
        [''[MISSING: approved live Catalog channel availability runtime evidence packet for target products]'',
         ''[MISSING: exact target product IDs and channel list for live business-health proof]'',
         ''[MISSING: approved protected Catalog service token or JWT for live coverage/projection/readiness checks]'',
         ''[MISSING: channel-owner credentials/ownership packet for marketplace-side listing status proof]'']\<rparr>"

definition suppliers_adapter :: adapter_definition where
  "suppliers_adapter =
     \<lparr>ha_plane = Suppliers, ha_status = HealthWarn,
      ha_summary = ''Suppliers read-only supplier-to-Warehouse traceability endpoint exists; real supplier procurement readiness remains data-gated.'',
      ha_sourceRefs =
        [''suppliers-microservice/src/business-health/business-health.controller.ts'',
         ''suppliers-microservice/src/business-health/business-health.service.ts'',
         ''suppliers-microservice/docs/orchestrator/2026-07-06-suppliers-business-health-handoff.md''],
      ha_blockers =
        [''[MISSING: real supplier display name, stable supplier code, business owner, technical owner, and escalation path]'',
         ''[MISSING: authentication shape and runtime credential reference key names]'',
         ''[MISSING: product identity mapping, Catalog category mapping prerequisites, and Catalog write constraints]'',
         ''[MISSING: warehouse/location mapping, dropship versus supplier-managed semantics, and Warehouse mutation approval boundary]'',
         ''[MISSING: owner validation evidence and explicit approval for any runtime import, deployment, Catalog write, or Warehouse mutation]'']\<rparr>"

definition marketplaces_adapter :: adapter_definition where
  "marketplaces_adapter =
     \<lparr>ha_plane = Marketplaces, ha_status = HealthWarn,
      ha_summary = ''Marketplace inventory exists; Aukro read-only channel readback endpoint exists; Heureka read-only channel readback endpoint exists; Allegro read-only channel readback endpoint exists; Bazos read-only channel readback endpoint exists; remaining channel envelopes and live provider proofs are gated.'',
      ha_sourceRefs =
        [''docs/orchestrator/2026-07-06-marketplace-channel-business-health-inventory.md'',
         ''aukro/services/aukro-service/src/business-health/business-health.controller.ts'',
         ''aukro/services/aukro-service/src/business-health/business-health.service.ts'',
         ''aukro/docs/orchestrator/2026-07-06-aukro-business-health-handoff.md'',
         ''heureka/services/heureka-service/src/business-health/business-health.controller.ts'',
         ''heureka/services/heureka-service/src/business-health/business-health.service.ts'',
         ''heureka/docs/orchestrator/2026-07-06-heureka-business-health-handoff.md'',
         ''allegro/services/allegro-service/src/business-health/business-health.controller.ts'',
         ''allegro/services/allegro-service/src/business-health/business-health.service.ts'',
         ''allegro/docs/orchestrator/2026-07-06-allegro-business-health-handoff.md'',
         ''bazos/services/aukro-service/src/business-health/business-health.controller.ts'',
         ''bazos/services/aukro-service/src/business-health/business-health.service.ts'',
         ''bazos/docs/orchestrator/2026-07-06-bazos-business-health-handoff.md''],
      ha_blockers =
        [''[MISSING: FlipFlop service-owned channel readback business-health endpoint]'',
         ''[MISSING: approved live Aukro readback packet]'',
         ''[MISSING: approved live Heureka readback packet]'',
         ''[MISSING: approved live Allegro readback packet]'',
         ''[MISSING: approved live Bazos readback packet]'',
         ''[MISSING: approved marketplace sandbox/dry-run/de-list policy for each live channel]'']\<rparr>"


definition adapter_definitions :: "adapter_definition list" where
  "adapter_definitions =
     [control_plane_adapter, warehouse_adapter, orders_adapter, catalog_adapter, suppliers_adapter,
      marketplaces_adapter]"

definition adapter_order :: "plane_key list" where
  "adapter_order = [ControlPlane, Warehouse, Orders, Catalog, Suppliers, Marketplaces]"

definition require_adapter :: "adapter_definition list \<Rightarrow> plane_key \<Rightarrow> error + adapter_definition" where
  "require_adapter adapters plane =
     (case List.find (\<lambda>d. ha_plane d = plane) adapters of
        None \<Rightarrow> Inl (PlainError (''Missing business health evidence adapter for '' @ plane_text plane))
      | Some d \<Rightarrow> Inr d)"

fun run_adapters :: "adapter_definition list \<Rightarrow> plane_key list \<Rightarrow> error + adapter_result list" where
  "run_adapters adapters [] = Inr []"
| "run_adapters adapters (plane # planes) =
     (case require_adapter adapters plane of
        Inl e \<Rightarrow> Inl e
      | Inr d \<Rightarrow>
          (case run_adapters adapters planes of
             Inl e \<Rightarrow> Inl e
           | Inr results \<Rightarrow> Inr (collect_evidence d # results)))"


section \<open>The report\<close>

definition global_blockers :: "string list" where
  "global_blockers =
     [''[MISSING: payment outcome redaction boundary and finality evidence source]'',
      ''[MISSING: scheduler owner, cadence, alert routing, and dashboard/report destination]'',
      ''[MISSING: business health evidence retention policy]'',
      ''[MISSING: synthetic product/warehouse/channel runtime packet]'',
      ''[MISSING: cleanup/retention policy for synthetic orders and reservations]'']"

text \<open>\<open>[...new Set(xs)]\<close>\<close>

definition unique :: "string list \<Rightarrow> string list" where
  "unique xs = fold (\<lambda>x seen. if x \<in> set seen then seen else seen @ [x]) xs []"

definition compute_overall_status :: "health_status list \<Rightarrow> string list \<Rightarrow> health_status" where
  "compute_overall_status statuses blockers =
     (if HealthFail \<in> set statuses then HealthFail
      else if blockers \<noteq> [] \<or> HealthBlocked \<in> set statuses then HealthBlocked
      else if HealthWarn \<in> set statuses then HealthWarn
      else HealthPass)"

definition health_report_of :: "instant \<Rightarrow> adapter_result list \<Rightarrow> health_report" where
  "health_report_of now results =
     (let blockers = unique (concat (map ar_blockers results) @ global_blockers) in
      \<lparr>hr_schemaVersion = ''stock-order-marketplace-business-health.v1'',
       hr_processId = ''stock-reservation-cross-channel-v1'',
       hr_generatedAt = iso_render now,
       hr_mutatesProduction = False,
       hr_overallStatus = compute_overall_status (map ar_status results) blockers,
       hr_planes = fold (\<lambda>r acc. obj_set (plane_text (ar_plane r)) (ar_status r) acc) results [],
       hr_evidence = map ar_evidence results,
       hr_blockers = blockers,
       hr_nextAction = ''Domain services must publish service-owned evidence envelopes before BPCP can aggregate runtime truth.'',
       hr_ownershipBoundary =
         \<lparr>ob_owner = ''business-process-control-plane'',
          ob_declaration = ''BPCP declares integration readiness from committed source checkpoints; domain services own domain truth and mutation authority.'',
          ob_forbiddenRuntimeReads =
            [''No filesystem reads of sibling repositories from Nest runtime.'',
             ''No live stock, order, product, supplier, payment, or marketplace service calls.'',
             ''No provider, Kubernetes, secret, deploy, or mutation side effects.'']\<rparr>,
       hr_intentPreservation =
         \<lparr>ip_vision = ''Alfares commerce must only expose sellable stock when service-owned evidence proves fulfillment readiness.'',
          ip_goalImpact = ''Expose the first BPCP API scaffold for monitorable business-health readiness without live mutations.'',
          ip_system = ''BPCP owns process contracts, aggregation schema, audit metadata, and future monitor lifecycle.'',
          ip_feature = ''stock-order-marketplace-business-health.v1'',
          ip_task = ''Return the committed source-only integration-readiness checkpoint through a Nest API.'',
          ip_executionPlan = ''Run in-process read-only evidence adapters over committed source references until service-owned runtime evidence exists.'',
          ip_codingPrompt = ''Keep the report read-only, preserve blockers, and do not infer domain truth from BPCP.'',
          ip_code = ''src/business-health/*'',
          ip_validation = ''npm run build; node scripts/verify-business-health-integration-contract.js; git diff --check''\<rparr>,
       hr_sourceRefs = unique ([checkpoint_doc, process_contract_doc] @ concat (map ar_sourceRefs results))\<rparr>)"

definition get_stock_order_marketplace_health :: "instant \<Rightarrow> error + health_report" where
  "get_stock_order_marketplace_health now =
     (case run_adapters adapter_definitions adapter_order of
        Inl e \<Rightarrow> Inl e
      | Inr results \<Rightarrow> Inr (health_report_of now results))"


section \<open>Properties\<close>

lemma unique_step:
  "distinct seen \<Longrightarrow>
   distinct (fold (\<lambda>x seen. if x \<in> set seen then seen else seen @ [x]) xs seen) \<and>
   set (fold (\<lambda>x seen. if x \<in> set seen then seen else seen @ [x]) xs seen) = set seen \<union> set xs"
  by (induction xs arbitrary: seen) auto

lemma unique_spec: "distinct (unique xs)" "set (unique xs) = set xs"
  using unique_step[of "[]" xs] by (simp_all add: unique_def)

lemma global_blockers_kept: "unique (xs @ global_blockers) \<noteq> []"
proof -
  have "set (unique (xs @ global_blockers)) \<noteq> {}" by (simp add: unique_spec global_blockers_def)
  then show ?thesis by (metis set_empty)
qed

lemma all_adapters:
  "run_adapters adapter_definitions adapter_order = Inr (map collect_evidence adapter_definitions)"
proof -
  have planes: "map ha_plane adapter_definitions = adapter_order"
    by (simp add: adapter_definitions_def adapter_order_def control_plane_adapter_def warehouse_adapter_def
        orders_adapter_def catalog_adapter_def suppliers_adapter_def marketplaces_adapter_def)
  have "run_adapters defs (map ha_plane ds) = Inr (map collect_evidence ds)"
    if "distinct (map ha_plane defs)" "set ds \<subseteq> set defs" for ds defs
    using that
  proof (induction ds)
    case (Cons d ds)
    have "List.find (\<lambda>x. ha_plane x = ha_plane d) defs = Some d"
      using Cons.prems by (simp add: find_by_key)
    then show ?case using Cons by (simp add: require_adapter_def)
  qed simp
  from this[of adapter_definitions adapter_definitions] show ?thesis
    unfolding planes by (simp add: adapter_order_def)
qed

text \<open>
  The business health endpoint always answers, with evidence for every plane in order
  and no adapter missing. Its overall status is \<open>fail\<close> when a plane fails and
  \<open>blocked\<close> otherwise, never \<open>pass\<close> or \<open>warn\<close>: the blockers are, each once, those
  of the adapters and the global ones.
\<close>

theorem health_never_ready:
  "(\<exists>r. get_stock_order_marketplace_health now = Inr r \<and> map es_plane (hr_evidence r) = adapter_order \<and>
        hr_overallStatus r = HealthBlocked) \<and>
   hr_overallStatus (health_report_of now results) =
     (if HealthFail \<in> ar_status ` set results then HealthFail else HealthBlocked) \<and>
   distinct (hr_blockers (health_report_of now results)) \<and>
   set (hr_blockers (health_report_of now results)) = (\<Union>r \<in> set results. set (ar_blockers r)) \<union> set global_blockers"
proof -
  have general: "hr_overallStatus (health_report_of now rs) =
     (if HealthFail \<in> ar_status ` set rs then HealthFail else HealthBlocked)" for rs
    using global_blockers_kept by (simp add: health_report_of_def compute_overall_status_def Let_def)
  have "HealthFail \<notin> ar_status ` set (map collect_evidence adapter_definitions)"
    and "map es_plane (map ar_evidence (map collect_evidence adapter_definitions)) = adapter_order"
    by (simp_all add: adapter_definitions_def adapter_order_def collect_evidence_def control_plane_adapter_def
        warehouse_adapter_def orders_adapter_def catalog_adapter_def suppliers_adapter_def marketplaces_adapter_def)
  then have "\<exists>r. get_stock_order_marketplace_health now = Inr r \<and> map es_plane (hr_evidence r) = adapter_order \<and>
        hr_overallStatus r = HealthBlocked"
    using general by (simp add: get_stock_order_marketplace_health_def all_adapters)
      (simp add: health_report_of_def Let_def)
  moreover have "distinct (hr_blockers (health_report_of now results))"
    and "set (hr_blockers (health_report_of now results)) = (\<Union>r \<in> set results. set (ar_blockers r)) \<union> set global_blockers"
    by (simp_all add: health_report_of_def Let_def unique_spec)
  ultimately show ?thesis using general by blast
qed

end
