(* ===== verification/Editor.thy ===== *)
theory Editor
  imports JsonText
begin

text \<open>
  The process editor: the script of the page that \<open>src/src/editor/editor-ui.ts\<close>
  serves, as a state machine. The state is the draft on the canvas with the selection, the
  armed edge source, the drag in progress, the last validation and the texts shown; an
  event handler is a function on it, and \<open>editor_reachable\<close> closes the start page
  under the handlers. Coordinates are JavaScript numbers; the layout of the canvas, clock
  readings and the answers of clipboard and server are arguments. Dropped items come from
  the palette of the page, so their type, label and description are strings or absent.
\<close>

section \<open>Numbers and text\<close>

text \<open>\<open>Math.max\<close>, \<open>Math.min\<close> and \<open>Math.abs\<close>.\<close>

definition js_max :: "js_number \<Rightarrow> js_number \<Rightarrow> js_number" where
  "js_max a b = (if a = JsNaN \<or> b = JsNaN then JsNaN else if js_less a b then b else a)"

definition js_min :: "js_number \<Rightarrow> js_number \<Rightarrow> js_number" where
  "js_min a b = (if a = JsNaN \<or> b = JsNaN then JsNaN else if js_less b a then b else a)"

definition clamp :: "js_number \<Rightarrow> js_number \<Rightarrow> js_number \<Rightarrow> js_number" where
  "clamp v lo hi = js_min (js_max v lo) hi"

definition lower_char :: "char \<Rightarrow> char" where
  "lower_char c =
     (let n = (of_char c :: nat)
      in if 65 \<le> n \<and> n \<le> 90 \<or> 192 \<le> n \<and> n \<le> 222 \<and> n \<noteq> 215 then char_of (n + 32) else c)"

text \<open>Runs of other characters than \<open>[a-z0-9]\<close> become one dash each.\<close>

fun dash_runs :: "bool \<Rightarrow> string \<Rightarrow> string" where
  "dash_runs in_run [] = []"
| "dash_runs in_run (c # s) =
     (if is_lower c \<or> is_digit c then c # dash_runs False s
      else if in_run then dash_runs True s
      else CHR ''-'' # dash_runs True s)"

definition strip_dashes :: "string \<Rightarrow> string" where
  "strip_dashes s =
     (let t = (if starts_with ''-'' s then tl s else s)
      in if t \<noteq> [] \<and> last t = CHR ''-'' then butlast t else t)"

definition slugify :: "string \<Rightarrow> string" where
  "slugify value =
     (let s = strip_dashes (dash_runs False (map lower_char (if value = [] then ''node'' else value)))
      in if s = [] then ''node'' else s)"

text \<open>\<open>JSON.stringify(v, null, 2)\<close>: \<open>ind\<close> is the indentation of the line.\<close>

definition new_line :: "string \<Rightarrow> string" where
  "new_line ind = CHR 0x0A # ind"

fun pretty :: "(rat \<Rightarrow> string) \<Rightarrow> string \<Rightarrow> json \<Rightarrow> string" where
  "pretty shown ind (JArr xs) =
     (if xs = [] then ''[]''
      else ''['' @ new_line (ind @ ''  '') @
           js_join ('','' @ new_line (ind @ ''  '')) (map (pretty shown (ind @ ''  '')) xs) @
           new_line ind @ '']'')"
| "pretty shown ind (JObj kvs) =
     (if kvs = [] then ''{}''
      else ''{'' @ new_line (ind @ ''  '') @
           js_join ('','' @ new_line (ind @ ''  ''))
             (map (\<lambda>(k, v). quote_string k @ '': '' @ pretty shown (ind @ ''  '') v) kvs) @
           new_line ind @ ''}'')"
| "pretty shown ind v = stringify shown v"


section \<open>The draft\<close>

definition node_width :: js_number where
  "node_width = Fin 208"

definition node_height :: js_number where
  "node_height = Fin 82"

record node_type =
  nt_title :: string
  nt_color :: string
  nt_requiresIncoming :: bool
  nt_requiresOutgoing :: bool
  nt_next :: "string list"

definition node_types :: "(string \<times> node_type) list" where
  "node_types =
     [(''event'', \<lparr>nt_title = ''Event'', nt_color = ''#2563eb'', nt_requiresIncoming = False,
         nt_requiresOutgoing = True, nt_next = [''condition'', ''action'']\<rparr>),
      (''condition'', \<lparr>nt_title = ''Condition'', nt_color = ''#0891b2'', nt_requiresIncoming = True,
         nt_requiresOutgoing = True, nt_next = [''condition'', ''policy'']\<rparr>),
      (''policy'', \<lparr>nt_title = ''Policy'', nt_color = ''#7c3aed'', nt_requiresIncoming = True,
         nt_requiresOutgoing = True, nt_next = [''action'']\<rparr>),
      (''action'', \<lparr>nt_title = ''Action'', nt_color = ''#059669'', nt_requiresIncoming = True,
         nt_requiresOutgoing = True, nt_next = [''slot'']\<rparr>),
      (''slot'', \<lparr>nt_title = ''Slot'', nt_color = ''#c2410c'', nt_requiresIncoming = True,
         nt_requiresOutgoing = False, nt_next = []\<rparr>)]"

definition node_type_of :: "string \<Rightarrow> node_type option" where
  "node_type_of t = obj_get node_types t"

record canvas_node =
  cn_id :: string
  cn_type :: string
  cn_label :: string
  cn_description :: string
  cn_x :: js_number
  cn_y :: js_number
  cn_config :: json_object

record canvas_edge =
  ce_id :: string
  ce_source :: string
  ce_target :: string
  ce_label :: string

record canvas_draft =
  cd_schemaVersion :: string
  cd_processId :: string
  cd_processVersion :: js_number
  cd_nodes :: "canvas_node list"
  cd_edges :: "canvas_edge list"

definition canvas_node_of ::
  "string \<Rightarrow> string \<Rightarrow> string \<Rightarrow> string \<Rightarrow> rat \<Rightarrow> rat \<Rightarrow> json_object \<Rightarrow> canvas_node" where
  "canvas_node_of i t label description x y config =
     \<lparr>cn_id = i, cn_type = t, cn_label = label, cn_description = description,
      cn_x = Fin x, cn_y = Fin y, cn_config = config\<rparr>"

definition canvas_edge_of :: "string \<Rightarrow> string \<Rightarrow> string \<Rightarrow> string \<Rightarrow> canvas_edge" where
  "canvas_edge_of i source target label =
     \<lparr>ce_id = i, ce_source = source, ce_target = target, ce_label = label\<rparr>"

definition seed_nodes :: "canvas_node list" where
  "seed_nodes =
     [canvas_node_of ''event-cart-updated'' ''event'' ''CartUpdated''
        ''Checkout cart event starts holiday eligibility.'' 32 160
        [(''source'', JStr ''checkout''), (''eventName'', JStr ''cart.updated'')],
      canvas_node_of ''condition-category-in'' ''condition'' ''Category In''
        ''Cart contains a holiday-eligible catalog category.'' 274 96
        [(''fact'', JStr ''productCategoryIds''), (''operator'', JStr ''contains''),
         (''value'', JStr ''christmas-gifts'')],
      canvas_node_of ''condition-date-window'' ''condition'' ''Date Window''
        ''Current date is inside the Holiday Discount campaign window.'' 274 224
        [(''start'', JStr ''2026-12-01T00:00:00Z''), (''end'', JStr ''2026-12-31T23:59:59Z'')],
      canvas_node_of ''policy-10-discount'' ''policy'' ''10% Holiday Discount''
        ''Apply an exclusive 10 percent discount when all checks pass.'' 514 160
        [(''discountPercent'', JNum (Fin 10)), (''exclusivity'', JStr ''exclusive'')],
      canvas_node_of ''action-evaluate-discount'' ''action'' ''Evaluate Discount''
        ''Send accepted policy context to pricing authority.'' 274 352
        [(''authority'', JStr ''pricing''), (''action'', JStr ''evaluate-discount'')],
      canvas_node_of ''slot-upsell'' ''slot'' ''Upsell Slot''
        ''Expose the eligible holiday upsell placement to the storefront.'' 514 352
        [(''placement'', JStr ''cart-side-panel''), (''channel'', JStr ''storefront'')]]"

definition seed_edges :: "canvas_edge list" where
  "seed_edges =
     [canvas_edge_of ''edge-cart-category'' ''event-cart-updated'' ''condition-category-in'' ''cart facts'',
      canvas_edge_of ''edge-cart-date'' ''event-cart-updated'' ''condition-date-window'' ''time facts'',
      canvas_edge_of ''edge-category-policy'' ''condition-category-in'' ''policy-10-discount'' ''eligible category'',
      canvas_edge_of ''edge-date-policy'' ''condition-date-window'' ''policy-10-discount'' ''active window'',
      canvas_edge_of ''edge-policy-action'' ''policy-10-discount'' ''action-evaluate-discount'' ''approved policy'',
      canvas_edge_of ''edge-action-slot'' ''action-evaluate-discount'' ''slot-upsell'' ''present result'']"

definition seed_draft :: canvas_draft where
  "seed_draft =
     \<lparr>cd_schemaVersion = ''bpcp.canvas.v1'', cd_processId = ''holiday-discount-2026'',
      cd_processVersion = Fin 1, cd_nodes = seed_nodes, cd_edges = seed_edges\<rparr>"

definition find_node :: "canvas_node list \<Rightarrow> string option \<Rightarrow> canvas_node option" where
  "find_node nodes i = List.find (\<lambda>n. Some (cn_id n) = i) nodes"


section \<open>Validation\<close>

datatype issue_severity = IssueError | IssueWarning

record draft_issue =
  di_severity :: issue_severity
  di_title :: string
  di_detail :: string
  di_nodeId :: "string option"

record draft_validation =
  dv_errors :: "draft_issue list"
  dv_warnings :: "draft_issue list"

definition draft_issue_of :: "issue_severity \<Rightarrow> string \<Rightarrow> string \<Rightarrow> string \<Rightarrow> draft_issue" where
  "draft_issue_of severity title detail nodeId =
     \<lparr>di_severity = severity, di_title = title, di_detail = detail,
      di_nodeId = (if nodeId = [] then None else Some nodeId)\<rparr>"

definition issue_if :: "bool \<Rightarrow> issue_severity \<Rightarrow> string \<Rightarrow> string \<Rightarrow> string \<Rightarrow> draft_issue list" where
  "issue_if bad severity title detail nodeId =
     (if bad then [draft_issue_of severity title detail nodeId] else [])"

definition or_text :: "string \<Rightarrow> string \<Rightarrow> string" where
  "or_text a b = (if a = [] then b else a)"

text \<open>The checks of one node, given the identifiers of the nodes before it.\<close>

definition node_issues :: "string list \<Rightarrow> canvas_node \<Rightarrow> draft_issue list" where
  "node_issues ids n =
     issue_if (cn_id n = [] \<or> cn_id n \<in> set ids) IssueError ''Invalid node id''
       ''Each node needs a unique id.'' (cn_id n) @
     issue_if (node_type_of (cn_type n) = None) IssueError ''Invalid node type''
       (or_text (cn_label n) (cn_id n) @ '' uses unsupported type '' @ cn_type n @ ''.'') (cn_id n) @
     issue_if (cn_label n = [] \<or> js_trim (cn_label n) = []) IssueError ''Missing node label''
       (cn_id n @ '' needs an operator-readable label.'') (cn_id n) @
     issue_if (\<not> is_finite (cn_x n) \<or> \<not> is_finite (cn_y n)) IssueError ''Invalid node position''
       (or_text (cn_label n) (cn_id n) @ '' is missing canvas coordinates.'') (cn_id n)"

fun nodes_issues :: "string list \<Rightarrow> canvas_node list \<Rightarrow> draft_issue list" where
  "nodes_issues ids [] = []"
| "nodes_issues ids (n # ns) = node_issues ids n @ nodes_issues (ids @ [cn_id n]) ns"

text \<open>The counters \<open>incoming\<close> and \<open>outgoing\<close> of connectors at each node.\<close>

type_synonym counters = "(string \<times> nat) list"

definition zero_counters :: "canvas_node list \<Rightarrow> counters" where
  "zero_counters nodes = fold (\<lambda>n c. obj_set (cn_id n) 0 c) nodes []"

definition count_of :: "counters \<Rightarrow> string \<Rightarrow> nat" where
  "count_of c i = (case obj_get c i of Some k \<Rightarrow> k | None \<Rightarrow> 0)"

definition increment :: "string \<Rightarrow> counters \<Rightarrow> counters" where
  "increment i c = obj_set i (count_of c i + 1) c"

definition may_follow :: "string \<Rightarrow> string \<Rightarrow> bool" where
  "may_follow source target \<longleftrightarrow>
     (case node_type_of source of None \<Rightarrow> False | Some t \<Rightarrow> target \<in> set (nt_next t))"

text \<open>One connector: its issues and the counters after it.\<close>

definition edge_check ::
  "canvas_node list \<Rightarrow> canvas_edge \<Rightarrow> draft_issue list \<times> counters \<times> counters \<Rightarrow>
   draft_issue list \<times> counters \<times> counters" where
  "edge_check nodes e acc =
     (case acc of (errors, incoming, outgoing) \<Rightarrow>
        case (find_node nodes (Some (ce_source e)), find_node nodes (Some (ce_target e))) of
          (Some source, Some target) \<Rightarrow>
            (errors @
               issue_if (cn_id source = cn_id target) IssueError ''Invalid connector''
                 (ce_id e @ '' connects a node to itself.'') (cn_id source) @
               issue_if (\<not> may_follow (cn_type source) (cn_type target)) IssueError
                 ''Invalid connector order''
                 (cn_label source @ '' cannot connect directly to '' @ cn_label target @ ''.'')
                 (cn_id source),
             increment (cn_id target) incoming, increment (cn_id source) outgoing)
        | _ \<Rightarrow>
            (errors @ [draft_issue_of IssueError ''Invalid connector''
               (ce_id e @ '' references a missing source or target.'')
               (or_text (ce_source e) (ce_target e))], incoming, outgoing))"

definition check_edges ::
  "canvas_node list \<Rightarrow> canvas_edge list \<Rightarrow> draft_issue list \<times> counters \<times> counters" where
  "check_edges nodes edges =
     fold (edge_check nodes) edges ([], zero_counters nodes, zero_counters nodes)"

definition connector_issues :: "counters \<Rightarrow> counters \<Rightarrow> canvas_node \<Rightarrow> draft_issue list" where
  "connector_issues incoming outgoing n =
     (case node_type_of (cn_type n) of
        None \<Rightarrow> []
      | Some t \<Rightarrow>
          issue_if (nt_requiresIncoming t \<and> count_of incoming (cn_id n) = 0) IssueError
            ''Missing incoming connector'' (cn_label n @ '' needs an upstream connector.'') (cn_id n) @
          issue_if (nt_requiresOutgoing t \<and> count_of outgoing (cn_id n) = 0) IssueError
            ''Missing outgoing connector'' (cn_label n @ '' needs a downstream connector.'') (cn_id n) @
          issue_if (count_of incoming (cn_id n) = 0 \<and> count_of outgoing (cn_id n) = 0) IssueError
            ''Disconnected node'' (cn_label n @ '' is isolated from the process graph.'') (cn_id n))"

text \<open>The search from the event nodes.\<close>

definition next_nodes :: "canvas_edge list \<Rightarrow> string list \<Rightarrow> string \<Rightarrow> string list" where
  "next_nodes edges reachable i =
     filter (\<lambda>t. t \<notin> set reachable) (map ce_target (filter (\<lambda>e. ce_source e = i) edges))"

function explore :: "canvas_edge list \<Rightarrow> string list \<Rightarrow> string list \<Rightarrow> string list" where
  "explore edges reachable [] = reachable"
| "explore edges reachable (i # queue) =
     (if i \<in> set reachable then explore edges reachable queue
      else explore edges (reachable @ [i]) (queue @ next_nodes edges (reachable @ [i]) i))"
  by pat_completeness auto
termination
proof (relation "measures [\<lambda>(edges, reachable, queue).
    card ((set queue \<union> ce_target ` set edges) - set reachable), \<lambda>(edges, reachable, queue). length queue]")
  fix edges :: "canvas_edge list" and reachable queue :: "string list" and i :: string
  assume "i \<in> set reachable"
  then have "(set (i # queue) \<union> ce_target ` set edges) - set reachable =
      (set queue \<union> ce_target ` set edges) - set reachable" by auto
  then show "((edges, reachable, queue), edges, reachable, i # queue) \<in> measures
      [\<lambda>(edges, reachable, queue). card ((set queue \<union> ce_target ` set edges) - set reachable),
       \<lambda>(edges, reachable, queue). length queue]"
    by simp
next
  fix edges :: "canvas_edge list" and reachable queue :: "string list" and i :: string
  assume "i \<notin> set reachable"
  then have "(set (queue @ next_nodes edges (reachable @ [i]) i) \<union> ce_target ` set edges) - set (reachable @ [i])
      \<subset> (set (i # queue) \<union> ce_target ` set edges) - set reachable"
    by (auto simp: next_nodes_def)
  then have "card ((set (queue @ next_nodes edges (reachable @ [i]) i) \<union> ce_target ` set edges) - set (reachable @ [i]))
      < card ((set (i # queue) \<union> ce_target ` set edges) - set reachable)"
    by (intro psubset_card_mono) auto
  then show "((edges, reachable @ [i], queue @ next_nodes edges (reachable @ [i]) i), edges, reachable, i # queue)
      \<in> measures [\<lambda>(edges, reachable, queue). card ((set queue \<union> ce_target ` set edges) - set reachable),
       \<lambda>(edges, reachable, queue). length queue]"
    by simp
qed simp

definition reachable_from_events :: "canvas_draft \<Rightarrow> string list" where
  "reachable_from_events d =
     explore (cd_edges d) [] (map cn_id (filter (\<lambda>n. cn_type n = ''event'') (cd_nodes d)))"

definition validate_draft :: "canvas_draft \<Rightarrow> draft_validation" where
  "validate_draft d =
     (case check_edges (cd_nodes d) (cd_edges d) of (edge_errors, incoming, outgoing) \<Rightarrow>
        let reachable = reachable_from_events d in
        \<lparr>dv_errors = nodes_issues [] (cd_nodes d) @ edge_errors @
            concat (map (connector_issues incoming outgoing) (cd_nodes d)),
         dv_warnings = concat (map (\<lambda>n. issue_if (1 < length (cd_nodes d) \<and> cn_id n \<notin> set reachable)
            IssueWarning ''Not reachable from event''
            (cn_label n @ '' is not on a path from an event node.'') (cn_id n)) (cd_nodes d))\<rparr>)"


section \<open>The page\<close>

datatype output_mode = CanvasExport | SimulationResponse | SimulationError

fun output_mode_text :: "output_mode \<Rightarrow> string" where
  "output_mode_text CanvasExport = ''canvas export''"
| "output_mode_text SimulationResponse = ''simulation response''"
| "output_mode_text SimulationError = ''simulation error''"

record drag_state =
  dg_nodeId :: string
  dg_x :: js_number
  dg_y :: js_number
  dg_clientX :: js_number
  dg_clientY :: js_number
  dg_moved :: bool

text \<open>
  The variables of the script and, of the page, the texts that are not redrawn from them:
  the status line, the output panel with its mode, and what was handed to the browser
  (clipboard writes under way, downloads).
\<close>

record editor =
  ed_draft :: canvas_draft
  ed_selected :: "string option"
  ed_edgeSource :: "string option"
  ed_validation :: "draft_validation option"
  ed_mode :: output_mode
  ed_drag :: "drag_state option"
  ed_status :: string
  ed_output :: string
  ed_jsonMode :: string
  ed_copying :: "string list"
  ed_downloads :: "(string \<times> string) list"

abbreviation ed_nodes :: "editor \<Rightarrow> canvas_node list" where
  "ed_nodes ed \<equiv> cd_nodes (ed_draft ed)"

abbreviation ed_edges :: "editor \<Rightarrow> canvas_edge list" where
  "ed_edges ed \<equiv> cd_edges (ed_draft ed)"

definition node_payload :: "canvas_node \<Rightarrow> json" where
  "node_payload n =
     JObj [(''id'', JStr (cn_id n)), (''type'', JStr (cn_type n)), (''label'', JStr (cn_label n)),
           (''description'', JStr (cn_description n)), (''x'', JNum (cn_x n)), (''y'', JNum (cn_y n)),
           (''config'', JObj (cn_config n))]"

definition edge_payload :: "canvas_edge \<Rightarrow> json" where
  "edge_payload e =
     JObj [(''id'', JStr (ce_id e)), (''source'', JStr (ce_source e)), (''target'', JStr (ce_target e)),
           (''label'', JStr (ce_label e))]"

definition issue_count :: "(draft_validation \<Rightarrow> draft_issue list) \<Rightarrow> draft_validation option \<Rightarrow> json" where
  "issue_count part v = JNum (Fin (of_nat (case v of None \<Rightarrow> 0 | Some w \<Rightarrow> length (part w))))"

definition create_export_payload :: "instant \<Rightarrow> editor \<Rightarrow> json" where
  "create_export_payload now ed =
     JObj [(''schemaVersion'', JStr (cd_schemaVersion (ed_draft ed))),
           (''processId'', JStr (cd_processId (ed_draft ed))),
           (''processVersion'', JNum (cd_processVersion (ed_draft ed))),
           (''updatedAt'', JStr (iso_render now)),
           (''nodes'', JArr (map node_payload (ed_nodes ed))),
           (''edges'', JArr (map edge_payload (ed_edges ed))),
           (''validation'', JObj [(''errors'', issue_count dv_errors (ed_validation ed)),
                                (''warnings'', issue_count dv_warnings (ed_validation ed))])]"

definition export_text :: "(rat \<Rightarrow> string) \<Rightarrow> instant \<Rightarrow> editor \<Rightarrow> string" where
  "export_text shown now ed = pretty shown [] (create_export_payload now ed)"

definition show_status :: "string \<Rightarrow> editor \<Rightarrow> editor" where
  "show_status message ed = ed\<lparr>ed_status := message\<rparr>"

text \<open>Canvas, inspector and issue list are redrawn from the state (theory EditorView).\<close>

definition render :: "(rat \<Rightarrow> string) \<Rightarrow> instant \<Rightarrow> editor \<Rightarrow> editor" where
  "render shown now ed =
     (let ed1 = ed\<lparr>ed_validation := Some (validate_draft (ed_draft ed))\<rparr>;
          ed2 = (if ed_mode ed1 = CanvasExport then ed1\<lparr>ed_output := export_text shown now ed1\<rparr> else ed1)
      in ed2\<lparr>ed_jsonMode := output_mode_text (ed_mode ed2)\<rparr>)"

text \<open>The page after loading; the status line and the mode text are those of the markup.\<close>

definition start_page :: "(rat \<Rightarrow> string) \<Rightarrow> instant \<Rightarrow> editor" where
  "start_page shown now = render shown now
     \<lparr>ed_draft = seed_draft,
      ed_selected = Some (cn_id (hd (cd_nodes seed_draft))), ed_edgeSource = None,
      ed_validation = None, ed_mode = CanvasExport, ed_drag = None,
      ed_status = ''Select a node to inspect it.'', ed_output = [], ed_jsonMode = ''canvas export'',
      ed_copying = [], ed_downloads = []\<rparr>"


section \<open>Canvas events\<close>

text \<open>The canvas as the browser has laid it out.\<close>

record canvas_rect =
  cr_left :: js_number
  cr_top :: js_number
  cr_width :: js_number
  cr_height :: js_number

record palette_item =
  pi_type :: "string option"
  pi_label :: "string option"
  pi_description :: "string option"

definition palette_item_of :: "string \<Rightarrow> string \<Rightarrow> string \<Rightarrow> palette_item" where
  "palette_item_of t label description =
     \<lparr>pi_type = Some t, pi_label = Some label, pi_description = Some description\<rparr>"

definition palette :: "palette_item list" where
  "palette =
     [palette_item_of ''event'' ''CartUpdated'' ''Checkout cart event'',
      palette_item_of ''event'' ''OrderPaid'' ''Post-purchase event'',
      palette_item_of ''condition'' ''Category In'' ''Catalog category eligibility check'',
      palette_item_of ''condition'' ''Date Window'' ''Holiday activation window'',
      palette_item_of ''policy'' ''10% Holiday Discount'' ''Exclusive discount policy'',
      palette_item_of ''action'' ''Evaluate Discount'' ''Pricing authority call'',
      palette_item_of ''slot'' ''Upsell Slot'' ''Frontend upsell placement'']"

definition text_or :: "string option \<Rightarrow> string \<Rightarrow> string" where
  "text_or v d = (case v of None \<Rightarrow> d | Some s \<Rightarrow> or_text s d)"

definition keep_inside :: "js_number \<Rightarrow> js_number \<Rightarrow> js_number \<Rightarrow> js_number" where
  "keep_inside v extent side =
     clamp (js_round v) (Fin 8) (js_max (Fin 8) (js_round (js_sub (js_sub extent side) (Fin 8))))"

definition create_node ::
  "canvas_rect \<Rightarrow> palette_item \<Rightarrow> js_number \<Rightarrow> js_number \<Rightarrow> editor \<Rightarrow> canvas_node" where
  "create_node rect item x y ed =
     (let nextNumber = length (filter (\<lambda>n. Some (cn_type n) = pi_type item) (ed_nodes ed)) + 1;
          safeType = (case pi_type item of
             None \<Rightarrow> ''condition''
           | Some t \<Rightarrow> if node_type_of t \<noteq> None then t else ''condition'');
          title = (case node_type_of safeType of None \<Rightarrow> [] | Some t \<Rightarrow> nt_title t)
      in \<lparr>cn_id = safeType @ ''-'' @ slugify (text_or (pi_label item) safeType) @ ''-'' @ nat_str nextNumber,
          cn_type = safeType,
          cn_label = text_or (pi_label item) title,
          cn_description = text_or (pi_description item) [],
          cn_x = keep_inside (js_sub x (js_div_const node_width 2)) (cr_width rect) node_width,
          cn_y = keep_inside (js_sub y (js_div_const node_height 2)) (cr_height rect) node_height,
          cn_config = []\<rparr>)"

definition drop_item ::
  "(rat \<Rightarrow> string) \<Rightarrow> instant \<Rightarrow> canvas_rect \<Rightarrow> palette_item \<Rightarrow> js_number \<Rightarrow> js_number \<Rightarrow> editor \<Rightarrow> editor" where
  "drop_item shown now rect item clientX clientY ed =
     (let n = create_node rect item (js_sub clientX (cr_left rect)) (js_sub clientY (cr_top rect)) ed
      in render shown now
           (show_status (''Added '' @ cn_label n @ ''. Missing connector checks updated.'')
             (ed\<lparr>ed_draft := (ed_draft ed)\<lparr>cd_nodes := ed_nodes ed @ [n]\<rparr>,
                 ed_selected := Some (cn_id n), ed_mode := CanvasExport\<rparr>)))"

definition reset_seed :: "(rat \<Rightarrow> string) \<Rightarrow> instant \<Rightarrow> editor \<Rightarrow> editor" where
  "reset_seed shown now ed =
     render shown now (show_status ''Holiday Discount seed restored.''
       (ed\<lparr>ed_draft := seed_draft, ed_selected := Some (cn_id (hd (cd_nodes seed_draft))),
           ed_edgeSource := None, ed_mode := CanvasExport\<rparr>))"

definition clear_canvas :: "(rat \<Rightarrow> string) \<Rightarrow> instant \<Rightarrow> editor \<Rightarrow> editor" where
  "clear_canvas shown now ed =
     render shown now (show_status ''Canvas cleared. Validation is now blocking.''
       (ed\<lparr>ed_draft := (ed_draft ed)\<lparr>cd_nodes := [], cd_edges := []\<rparr>, ed_selected := None,
           ed_edgeSource := None, ed_mode := CanvasExport\<rparr>))"

definition create_edge ::
  "(rat \<Rightarrow> string) \<Rightarrow> instant \<Rightarrow> string option \<Rightarrow> string \<Rightarrow> editor \<Rightarrow> editor" where
  "create_edge shown now sourceId targetId ed =
     (case (find_node (ed_nodes ed) sourceId, find_node (ed_nodes ed) (Some targetId)) of
        (Some source, Some target) \<Rightarrow>
          if sourceId = Some targetId
          then show_status ''Self edges are blocked by draft validation.'' ed
          else if list_ex (\<lambda>e. Some (ce_source e) = sourceId \<and> ce_target e = targetId) (ed_edges ed)
          then render shown now (show_status ''That connector already exists.'' (ed\<lparr>ed_edgeSource := None\<rparr>))
          else
            let label = (if may_follow (cn_type source) (cn_type target)
                         then cn_type source @ '' to '' @ cn_type target else ''review connector'');
                e = canvas_edge_of
                  (''edge-'' @ slugify (cn_label source) @ ''-'' @ slugify (cn_label target) @ ''-'' @
                   nat_str (length (ed_edges ed) + 1)) (cn_id source) targetId label
            in render shown now
                 (show_status (''Connector created: '' @ cn_label source @ '' -> '' @ cn_label target @ ''.'')
                   (ed\<lparr>ed_draft := (ed_draft ed)\<lparr>cd_edges := ed_edges ed @ [e]\<rparr>,
                       ed_selected := Some targetId, ed_edgeSource := None, ed_mode := CanvasExport\<rparr>))
      | _ \<Rightarrow> show_status ''Cannot create edge because one selected node is missing.'' ed)"

text \<open>\<open>edgeSourceId && edgeSourceId !== id\<close>\<close>

definition armed_for :: "editor \<Rightarrow> string \<Rightarrow> bool" where
  "armed_for ed i \<longleftrightarrow> (case ed_edgeSource ed of None \<Rightarrow> False | Some s \<Rightarrow> s \<noteq> [] \<and> s \<noteq> i)"

text \<open>Pressing the pointer on the \<open>k\<close>-th node; \<open>primary\<close> is \<open>event.button === 0\<close>.\<close>

definition pointer_down ::
  "(rat \<Rightarrow> string) \<Rightarrow> instant \<Rightarrow> nat \<Rightarrow> bool \<Rightarrow> js_number \<Rightarrow> js_number \<Rightarrow> editor \<Rightarrow> editor" where
  "pointer_down shown now k primary clientX clientY ed =
     (if \<not> primary \<or> length (ed_nodes ed) \<le> k then ed
      else
        let n = ed_nodes ed ! k in
        if armed_for ed (cn_id n) then create_edge shown now (ed_edgeSource ed) (cn_id n) ed
        else render shown now
          (ed\<lparr>ed_selected := Some (cn_id n),
              ed_drag := Some \<lparr>dg_nodeId = cn_id n, dg_x = cn_x n, dg_y = cn_y n, dg_clientX = clientX,
                               dg_clientY = clientY, dg_moved = False\<rparr>,
              ed_mode := CanvasExport\<rparr>))"

text \<open>Assignment to a field of the node that \<open>findNode\<close> returns.\<close>

fun update_node :: "string \<Rightarrow> (canvas_node \<Rightarrow> canvas_node) \<Rightarrow> canvas_node list \<Rightarrow> canvas_node list" where
  "update_node i f [] = []"
| "update_node i f (n # ns) = (if cn_id n = i then f n # ns else n # update_node i f ns)"

definition pointer_move :: "canvas_rect \<Rightarrow> js_number \<Rightarrow> js_number \<Rightarrow> editor \<Rightarrow> editor" where
  "pointer_move rect clientX clientY ed =
     (case ed_drag ed of
        None \<Rightarrow> ed
      | Some d \<Rightarrow>
          if find_node (ed_nodes ed) (Some (dg_nodeId d)) = None then ed
          else
            let nextX = js_sub (js_add (dg_x d) clientX) (dg_clientX d);
                nextY = js_sub (js_add (dg_y d) clientY) (dg_clientY d)
            in ed\<lparr>ed_draft := (ed_draft ed)\<lparr>cd_nodes := update_node (dg_nodeId d)
                     (\<lambda>n. n\<lparr>cn_x := keep_inside nextX (cr_width rect) node_width,
                           cn_y := keep_inside nextY (cr_height rect) node_height\<rparr>) (ed_nodes ed)\<rparr>,
                   ed_mode := CanvasExport, ed_drag := Some (d\<lparr>dg_moved := True\<rparr>)\<rparr>)"

definition pointer_up :: "(rat \<Rightarrow> string) \<Rightarrow> instant \<Rightarrow> editor \<Rightarrow> editor" where
  "pointer_up shown now ed =
     (if ed_drag ed = None then ed else render shown now (ed\<lparr>ed_drag := None\<rparr>))"


section \<open>Inspector and toolbar\<close>

definition change_type :: "(rat \<Rightarrow> string) \<Rightarrow> instant \<Rightarrow> string \<Rightarrow> string \<Rightarrow> editor \<Rightarrow> editor" where
  "change_type shown now i v ed =
     render shown now (show_status ''Node type updated.''
       (ed\<lparr>ed_draft := (ed_draft ed)\<lparr>cd_nodes := update_node i (\<lambda>n. n\<lparr>cn_type := v\<rparr>) (ed_nodes ed)\<rparr>,
           ed_mode := CanvasExport\<rparr>))"

definition change_label :: "(rat \<Rightarrow> string) \<Rightarrow> instant \<Rightarrow> string \<Rightarrow> string \<Rightarrow> editor \<Rightarrow> editor" where
  "change_label shown now i v ed =
     render shown now
       (ed\<lparr>ed_draft := (ed_draft ed)\<lparr>cd_nodes := update_node i (\<lambda>n. n\<lparr>cn_label := v\<rparr>) (ed_nodes ed)\<rparr>,
           ed_mode := CanvasExport\<rparr>)"

definition change_description :: "(rat \<Rightarrow> string) \<Rightarrow> instant \<Rightarrow> string \<Rightarrow> string \<Rightarrow> editor \<Rightarrow> editor" where
  "change_description shown now i v ed =
     render shown now
       (ed\<lparr>ed_draft := (ed_draft ed)\<lparr>cd_nodes := update_node i (\<lambda>n. n\<lparr>cn_description := v\<rparr>) (ed_nodes ed)\<rparr>,
           ed_mode := CanvasExport\<rparr>)"

definition set_edge_source :: "(rat \<Rightarrow> string) \<Rightarrow> instant \<Rightarrow> string \<Rightarrow> editor \<Rightarrow> editor" where
  "set_edge_source shown now i ed =
     (let source = (if ed_edgeSource ed = Some i then None else Some i)
      in render shown now (show_status
           (if source \<noteq> None \<and> source \<noteq> Some [] then ''Select a target node to create an edge.''
            else ''Edge source cleared.'')
           (ed\<lparr>ed_edgeSource := source, ed_mode := CanvasExport\<rparr>)))"

definition delete_node :: "(rat \<Rightarrow> string) \<Rightarrow> instant \<Rightarrow> string \<Rightarrow> editor \<Rightarrow> editor" where
  "delete_node shown now i ed =
     (let nodes = filter (\<lambda>n. cn_id n \<noteq> i) (ed_nodes ed);
          edges = filter (\<lambda>e. ce_source e \<noteq> i \<and> ce_target e \<noteq> i) (ed_edges ed)
      in render shown now (show_status
           (case find_node (ed_nodes ed) (Some i) of
              Some n \<Rightarrow> ''Deleted '' @ cn_label n @ '' and attached edges.''
            | None \<Rightarrow> ''Node deleted.'')
           (ed\<lparr>ed_draft := (ed_draft ed)\<lparr>cd_nodes := nodes, cd_edges := edges\<rparr>,
               ed_edgeSource := (if ed_edgeSource ed = Some i then None else ed_edgeSource ed),
               ed_selected := (case nodes of [] \<Rightarrow> None | n # _ \<Rightarrow> Some (cn_id n)),
               ed_mode := CanvasExport\<rparr>)))"

definition delete_edge :: "(rat \<Rightarrow> string) \<Rightarrow> instant \<Rightarrow> string \<Rightarrow> editor \<Rightarrow> editor" where
  "delete_edge shown now i ed =
     render shown now (show_status ''Connector removed. Validation updated.''
       (ed\<lparr>ed_draft := (ed_draft ed)\<lparr>cd_edges := filter (\<lambda>e. ce_id e \<noteq> i) (ed_edges ed)\<rparr>,
           ed_mode := CanvasExport\<rparr>))"

definition copy_json :: "(rat \<Rightarrow> string) \<Rightarrow> instant \<Rightarrow> bool \<Rightarrow> editor \<Rightarrow> editor" where
  "copy_json shown now clipboard ed =
     (let payload = export_text shown now ed in
      if \<not> clipboard
      then show_status ''Clipboard unavailable. JSON refreshed in the output panel.'' (ed\<lparr>ed_output := payload\<rparr>)
      else ed\<lparr>ed_copying := ed_copying ed @ [payload]\<rparr>)"

text \<open>The clipboard answers the \<open>k\<close>-th write under way.\<close>

definition clipboard_answer :: "nat \<Rightarrow> bool \<Rightarrow> editor \<Rightarrow> editor" where
  "clipboard_answer k written ed =
     (if length (ed_copying ed) \<le> k then ed
      else
        let payload = ed_copying ed ! k;
            ed1 = ed\<lparr>ed_copying := take k (ed_copying ed) @ drop (Suc k) (ed_copying ed)\<rparr>
        in if written then show_status ''Draft JSON copied.'' ed1
           else show_status ''Clipboard copy failed. JSON refreshed in the output panel.''
                  (ed1\<lparr>ed_output := payload\<rparr>))"

definition download_json :: "(rat \<Rightarrow> string) \<Rightarrow> instant \<Rightarrow> editor \<Rightarrow> editor" where
  "download_json shown now ed =
     show_status ''Draft JSON download prepared.''
       (ed\<lparr>ed_downloads := ed_downloads ed @
            [(cd_processId (ed_draft ed) @ ''-canvas.json'', export_text shown now ed)]\<rparr>)"

text \<open>The body that the sample run posts to \<open>/api/simulate\<close>.\<close>

definition sample_run_body :: json where
  "sample_run_body =
     JObj [(''processId'', JStr ''holiday-discount-2026''), (''processVersion'', JNum (Fin 1)),
           (''productCategoryIds'', JArr [JStr ''christmas-gifts'']), (''cartSubtotal'', JNum (Fin 1000)),
           (''currentDate'', JStr ''2026-12-24T12:00:00Z'')]"

text \<open>The answer to the sample run: the body, or the text of the error.\<close>

definition sample_answer :: "(rat \<Rightarrow> string) \<Rightarrow> string + json \<Rightarrow> editor \<Rightarrow> editor" where
  "sample_answer shown r ed =
     (case r of
        Inr body \<Rightarrow>
          show_status ''Sample simulation completed.''
            (ed\<lparr>ed_mode := SimulationResponse, ed_jsonMode := output_mode_text SimulationResponse,
                ed_output := pretty shown [] body\<rparr>)
      | Inl e \<Rightarrow>
          show_status ''Sample simulation failed.''
            (ed\<lparr>ed_mode := SimulationError, ed_jsonMode := output_mode_text SimulationError,
                ed_output := pretty shown [] (JObj [(''error'', JStr e)])\<rparr>))"


section \<open>Reachable pages\<close>

datatype editor_event =
    Drop canvas_rect palette_item js_number js_number
  | ResetSeed
  | ClearCanvas
  | PointerDown nat bool js_number js_number
  | PointerMove canvas_rect js_number js_number
  | PointerUp
  | ChangeType string
  | ChangeLabel string
  | ChangeDescription string
  | SetEdgeSource
  | ConnectSelected
  | DeleteNode
  | DeleteEdge string
  | CopyJson bool
  | ClipboardAnswer nat bool
  | DownloadJson
  | SampleAnswer "string + json"

text \<open>
  The controls of the inspector belong to the node it shows; the button that connects is
  disabled unless another node is armed, edges are removed by the buttons of the edges
  attached to the node, and the type list offers the known types. On an
  empty inspector the controls do not exist.
\<close>

definition handle_event :: "(rat \<Rightarrow> string) \<Rightarrow> instant \<Rightarrow> editor_event \<Rightarrow> editor \<Rightarrow> editor" where
  "handle_event shown now ev ed =
     (let on_shown = (\<lambda>f. case find_node (ed_nodes ed) (ed_selected ed) of None \<Rightarrow> ed | Some n \<Rightarrow> f (cn_id n)) in
      case ev of
        Drop rect item x y \<Rightarrow> drop_item shown now rect item x y ed
      | ResetSeed \<Rightarrow> reset_seed shown now ed
      | ClearCanvas \<Rightarrow> clear_canvas shown now ed
      | PointerDown k primary x y \<Rightarrow> pointer_down shown now k primary x y ed
      | PointerMove rect x y \<Rightarrow> pointer_move rect x y ed
      | PointerUp \<Rightarrow> pointer_up shown now ed
      | ChangeType v \<Rightarrow> if node_type_of v = None then ed else on_shown (\<lambda>i. change_type shown now i v ed)
      | ChangeLabel v \<Rightarrow> on_shown (\<lambda>i. change_label shown now i v ed)
      | ChangeDescription v \<Rightarrow> on_shown (\<lambda>i. change_description shown now i v ed)
      | SetEdgeSource \<Rightarrow> on_shown (\<lambda>i. set_edge_source shown now i ed)
      | ConnectSelected \<Rightarrow>
          on_shown (\<lambda>i. if armed_for ed i then create_edge shown now (ed_edgeSource ed) i ed else ed)
      | DeleteNode \<Rightarrow> on_shown (\<lambda>i. delete_node shown now i ed)
      | DeleteEdge e \<Rightarrow>
          on_shown (\<lambda>i. if list_ex (\<lambda>x. ce_id x = e \<and> (ce_target x = i \<or> ce_source x = i)) (ed_edges ed)
                          then delete_edge shown now e ed else ed)
      | CopyJson clipboard \<Rightarrow> copy_json shown now clipboard ed
      | ClipboardAnswer k written \<Rightarrow> clipboard_answer k written ed
      | DownloadJson \<Rightarrow> download_json shown now ed
      | SampleAnswer r \<Rightarrow> sample_answer shown r ed)"

text \<open>What the browser reports: positions and sizes are finite, and a page is not that large.\<close>

definition pixel :: "js_number \<Rightarrow> bool" where
  "pixel v \<longleftrightarrow> (case v of Fin x \<Rightarrow> \<bar>x\<bar> < 2 ^ 30 | _ \<Rightarrow> False)"

definition rect_ok :: "canvas_rect \<Rightarrow> bool" where
  "rect_ok r \<longleftrightarrow> pixel (cr_left r) \<and> pixel (cr_top r) \<and> pixel (cr_width r) \<and> pixel (cr_height r)"

definition event_ok :: "editor_event \<Rightarrow> bool" where
  "event_ok ev \<longleftrightarrow>
     (case ev of
        Drop rect item x y \<Rightarrow> rect_ok rect \<and> pixel x \<and> pixel y
      | PointerDown k primary x y \<Rightarrow> pixel x \<and> pixel y
      | PointerMove rect x y \<Rightarrow> rect_ok rect \<and> pixel x \<and> pixel y
      | _ \<Rightarrow> True)"

inductive editor_reachable :: "(rat \<Rightarrow> string) \<Rightarrow> editor \<Rightarrow> bool" for shown where
  load: "editor_reachable shown (start_page shown now)"
| event: "editor_reachable shown ed \<Longrightarrow> event_ok ev \<Longrightarrow> editor_reachable shown (handle_event shown now ev ed)"

end
