(* ===== verification/EditorProperties.thy ===== *)
theory EditorProperties
  imports Editor JsRounding
begin

text \<open>
  Properties of the process editor: what its validation decides, the search from the
  events, the invariant of the page, and the identifiers that a drop makes up.
\<close>

section \<open>What a handler changes\<close>

lemma render_fields [simp]:
  "ed_draft (render shown now ed) = ed_draft ed"
  "ed_selected (render shown now ed) = ed_selected ed"
  "ed_edgeSource (render shown now ed) = ed_edgeSource ed"
  "ed_drag (render shown now ed) = ed_drag ed"
  "ed_mode (render shown now ed) = ed_mode ed"
  "ed_status (render shown now ed) = ed_status ed"
  "ed_copying (render shown now ed) = ed_copying ed"
  "ed_downloads (render shown now ed) = ed_downloads ed"
  "ed_validation (render shown now ed) = Some (validate_draft (ed_draft ed))"
  by (simp_all add: render_def Let_def)

lemma show_status_fields [simp]:
  "ed_draft (show_status m ed) = ed_draft ed"
  "ed_selected (show_status m ed) = ed_selected ed"
  "ed_edgeSource (show_status m ed) = ed_edgeSource ed"
  "ed_drag (show_status m ed) = ed_drag ed"
  "ed_mode (show_status m ed) = ed_mode ed"
  "ed_validation (show_status m ed) = ed_validation ed"
  by (simp_all add: show_status_def)

lemma find_node_Some:
  "find_node nodes i = Some n \<Longrightarrow> n \<in> set nodes \<and> i = Some (cn_id n)"
  by (auto simp: find_node_def find_Some_iff)

lemma find_node_None: "find_node nodes (Some i) = None \<longleftrightarrow> i \<notin> cn_id ` set nodes"
  by (auto simp: find_node_def find_None_iff)

lemma find_node_ex: "i \<in> cn_id ` set nodes \<Longrightarrow> \<exists>n. find_node nodes (Some i) = Some n \<and> cn_id n = i"
  using find_node_None[of nodes i] find_node_Some[of nodes "Some i"]
  by (cases "find_node nodes (Some i)") simp_all

lemma find_node_distinct:
  "distinct (map cn_id nodes) \<Longrightarrow> n \<in> set nodes \<Longrightarrow> find_node nodes (Some (cn_id n)) = Some n"
  by (simp add: find_node_def find_by_key)

lemma update_node_ids [simp]:
  "(\<And>n. cn_id (f n) = cn_id n) \<Longrightarrow> map cn_id (update_node i f nodes) = map cn_id nodes"
  by (induction nodes) auto

lemma update_node_all:
  "list_all P nodes \<Longrightarrow> (\<And>n. P n \<Longrightarrow> P (f n)) \<Longrightarrow> list_all P (update_node i f nodes)"
  by (induction nodes) auto


section \<open>The search from the events\<close>

abbreviation edge_pairs :: "canvas_edge list \<Rightarrow> (string \<times> string) set" where
  "edge_pairs edges \<equiv> (\<lambda>e. (ce_source e, ce_target e)) ` set edges"

lemma next_nodes_set:
  "set (next_nodes edges r i) = {t. (i, t) \<in> edge_pairs edges \<and> t \<notin> set r}"
  by (auto simp: next_nodes_def)

text \<open>The nodes reached are closed under edges up to what is still queued.\<close>

lemma closed_image:
  "E `` R \<subseteq> R \<union> Q \<Longrightarrow> E\<^sup>* `` R \<subseteq> R \<union> E\<^sup>* `` Q"
proof -
  assume "E `` R \<subseteq> R \<union> Q"
  then have "E `` (R \<union> E\<^sup>* `` Q) \<subseteq> R \<union> E\<^sup>* `` Q"
    by (auto intro: rtrancl_into_rtrancl)
  from Image_closed_trancl[OF this] show ?thesis by blast
qed

lemma explore_set:
  "edge_pairs edges `` set reachable \<subseteq> set reachable \<union> set queue \<Longrightarrow>
   set (explore edges reachable queue) = set reachable \<union> (edge_pairs edges)\<^sup>* `` set queue"
proof (induction edges reachable queue rule: explore.induct)
  case (1 edges reachable)
  then show ?case by simp
next
  case (2 edges reachable i queue)
  let ?E = "edge_pairs edges" and ?r = "reachable @ [i]"
  let ?q = "queue @ next_nodes edges ?r i"
  show ?case
  proof (cases "i \<in> set reachable")
    case True
    have closed: "?E `` set reachable \<subseteq> set reachable \<union> set queue" using 2(3) True by auto
    have "?E\<^sup>* `` {i} \<subseteq> set reachable \<union> ?E\<^sup>* `` set queue"
      using closed_image[OF closed] True by auto
    then show ?thesis using 2(1)[OF True closed] True by auto
  next
    case False
    have closed: "?E `` set ?r \<subseteq> set ?r \<union> set ?q" using 2(3) by (auto simp: next_nodes_set)
    have result: "set (explore edges reachable (i # queue)) = insert i (set reachable) \<union> ?E\<^sup>* `` set ?q"
      using 2(2)[OF False closed] False by simp
    have split: "?E\<^sup>* `` set (i # queue) = ?E\<^sup>* `` {i} \<union> ?E\<^sup>* `` set queue" by auto
    have alg: "i \<in> S \<Longrightarrow> U \<subseteq> S \<union> T \<Longrightarrow> S \<subseteq> insert i R \<union> U \<Longrightarrow> T \<subseteq> U \<Longrightarrow> insert i R \<union> U = R \<union> (S \<union> T)"
      for R S T U :: "string set" by blast
    have "?E\<^sup>* `` set ?q \<subseteq> ?E\<^sup>* `` {i} \<union> ?E\<^sup>* `` set queue"
      by (auto simp: next_nodes_set intro: converse_rtrancl_into_rtrancl)
    moreover have "?E\<^sup>* `` {i} \<subseteq> insert i (set reachable) \<union> ?E\<^sup>* `` set ?q"
      using closed_image[OF closed] by auto
    ultimately show ?thesis unfolding result split by (intro alg) auto
  qed
qed

definition event_ids :: "canvas_draft \<Rightarrow> string set" where
  "event_ids d = cn_id ` {n \<in> set (cd_nodes d). cn_type n = ''event''}"

lemma reachable_from_events_set:
  "set (reachable_from_events d) = (edge_pairs (cd_edges d))\<^sup>* `` event_ids d"
proof -
  have "set (map cn_id (filter (\<lambda>n. cn_type n = ''event'') (cd_nodes d))) = event_ids d"
    by (auto simp: event_ids_def)
  then show ?thesis
    using explore_set[of "cd_edges d" "[]" "map cn_id (filter (\<lambda>n. cn_type n = ''event'') (cd_nodes d))"]
    unfolding reachable_from_events_def by simp
qed


section \<open>What the validation decides\<close>

text \<open>
  A draft without errors, in terms of the graph: distinct nodes with known types, labels
  and positions; connectors between different nodes in a permitted order; a connector into
  every node but the events, and one out of every node but the slots.
\<close>

definition node_well :: "canvas_node \<Rightarrow> bool" where
  "node_well n \<longleftrightarrow>
     cn_id n \<noteq> [] \<and> node_type_of (cn_type n) \<noteq> None \<and> js_trim (cn_label n) \<noteq> [] \<and>
     is_finite (cn_x n) \<and> is_finite (cn_y n)"

definition draft_ok :: "canvas_draft \<Rightarrow> bool" where
  "draft_ok d \<longleftrightarrow>
     distinct (map cn_id (cd_nodes d)) \<and> list_all node_well (cd_nodes d) \<and>
     (\<forall>e \<in> set (cd_edges d). \<exists>s \<in> set (cd_nodes d). \<exists>t \<in> set (cd_nodes d).
        ce_source e = cn_id s \<and> ce_target e = cn_id t \<and> cn_id s \<noteq> cn_id t \<and>
        may_follow (cn_type s) (cn_type t)) \<and>
     (\<forall>n \<in> set (cd_nodes d). cn_type n = ''event'' \<or> cn_id n \<in> ce_target ` set (cd_edges d)) \<and>
     (\<forall>n \<in> set (cd_nodes d). cn_type n = ''slot'' \<or> cn_id n \<in> ce_source ` set (cd_edges d))"

lemma issue_if_Nil [simp]: "issue_if bad severity t m i = [] \<longleftrightarrow> \<not> bad"
  by (simp add: issue_if_def)

lemma js_trim_Nil [simp]: "js_trim [] = []"
  by (simp add: js_trim_def)

lemma node_issues_Nil: "node_issues ids n = [] \<longleftrightarrow> node_well n \<and> cn_id n \<notin> set ids"
  by (cases "cn_label n = []") (auto simp: node_issues_def node_well_def)

lemma nodes_issues_Nil:
  "nodes_issues ids nodes = [] \<longleftrightarrow>
     distinct (map cn_id nodes) \<and> cn_id ` set nodes \<inter> set ids = {} \<and> list_all node_well nodes"
  by (induction nodes arbitrary: ids) (auto simp: node_issues_Nil)

definition joined :: "canvas_node list \<Rightarrow> canvas_edge \<Rightarrow> bool" where
  "joined nodes e \<longleftrightarrow> ce_source e \<in> cn_id ` set nodes \<and> ce_target e \<in> cn_id ` set nodes"

definition edge_ok :: "canvas_node list \<Rightarrow> canvas_edge \<Rightarrow> bool" where
  "edge_ok nodes e \<longleftrightarrow>
     (case (find_node nodes (Some (ce_source e)), find_node nodes (Some (ce_target e))) of
        (Some s, Some t) \<Rightarrow> cn_id s \<noteq> cn_id t \<and> may_follow (cn_type s) (cn_type t)
      | _ \<Rightarrow> False)"

lemma count_of_increment: "count_of (increment i c) j = count_of c j + (if j = i then 1 else 0)"
  by (simp add: count_of_def increment_def)

lemma edge_ends:
  obtains s t where "find_node nodes (Some (ce_source e)) = Some s" "find_node nodes (Some (ce_target e)) = Some t"
      "cn_id s = ce_source e" "cn_id t = ce_target e" "joined nodes e"
  | "find_node nodes (Some (ce_source e)) = None \<or> find_node nodes (Some (ce_target e)) = None" "\<not> joined nodes e"
proof (cases "joined nodes e")
  case True
  then obtain s t where "find_node nodes (Some (ce_source e)) = Some s" "cn_id s = ce_source e"
      "find_node nodes (Some (ce_target e)) = Some t" "cn_id t = ce_target e"
    unfolding joined_def by (metis find_node_ex)
  with True that(1) show ?thesis by blast
next
  case False
  with that(2) find_node_None show ?thesis unfolding joined_def by metis
qed

lemma edge_ok_ends:
  assumes "edge_ok nodes e"
  shows "\<exists>s \<in> set nodes. \<exists>t \<in> set nodes. ce_source e = cn_id s \<and> ce_target e = cn_id t \<and>
      cn_id s \<noteq> cn_id t \<and> may_follow (cn_type s) (cn_type t)"
    and "joined nodes e"
  by (rule edge_ends[of nodes e]; use assms in \<open>force simp: edge_ok_def dest: find_node_Some split: option.splits\<close>)+

lemma edge_check_effect:
  assumes "edge_check nodes e (err, inc, out) = (err', inc', out')"
  shows "err' = [] \<longleftrightarrow> err = [] \<and> edge_ok nodes e"
    and "count_of inc' i = count_of inc i + (if joined nodes e \<and> ce_target e = i then 1 else 0)"
    and "count_of out' i = count_of out i + (if joined nodes e \<and> ce_source e = i then 1 else 0)"
  by (rule edge_ends[of nodes e]; use assms in
      \<open>auto simp: edge_check_def edge_ok_def count_of_increment split: option.splits\<close>)+

lemma check_edges_effect:
  "fold (edge_check nodes) edges (err, inc, out) = (err', inc', out') \<Longrightarrow>
   (err' = [] \<longleftrightarrow> err = [] \<and> list_all (edge_ok nodes) edges) \<and>
   count_of inc' i = count_of inc i + length (filter (\<lambda>e. joined nodes e \<and> ce_target e = i) edges) \<and>
   count_of out' i = count_of out i + length (filter (\<lambda>e. joined nodes e \<and> ce_source e = i) edges)"
proof (induction edges arbitrary: err inc out)
  case Nil
  then show ?case by simp
next
  case (Cons e edges)
  obtain err1 inc1 out1 where s: "edge_check nodes e (err, inc, out) = (err1, inc1, out1)"
    using prod_cases3 by blast
  then have "fold (edge_check nodes) edges (err1, inc1, out1) = (err', inc', out')" using Cons.prems by simp
  from Cons.IH[OF this] edge_check_effect(1)[OF s] edge_check_effect(2,3)[OF s, of i]
  show ?case by (auto split: if_splits)
qed

lemma zero_counters [simp]: "count_of (zero_counters nodes) i = 0"
proof -
  have "count_of (fold (\<lambda>n c. obj_set (cn_id n) 0 c) nodes c) i = 0" if "count_of c i = 0" for c
    using that by (induction nodes arbitrary: c) (simp_all add: count_of_def)
  then show ?thesis by (simp add: zero_counters_def count_of_def)
qed


lemma node_type_of_cases:
  "node_type_of t \<noteq> None \<longleftrightarrow> t \<in> set [''event'', ''condition'', ''policy'', ''action'', ''slot'']"
  by (auto simp: node_type_of_def node_types_def split: if_splits)

lemma connector_issues_Nil:
  assumes "node_type_of (cn_type n) \<noteq> None"
  shows "connector_issues inc out n = [] \<longleftrightarrow>
     (cn_type n = ''event'' \<or> count_of inc (cn_id n) \<noteq> 0) \<and> (cn_type n = ''slot'' \<or> count_of out (cn_id n) \<noteq> 0)"
proof -
  consider "cn_type n = ''event''" | "cn_type n = ''condition''" | "cn_type n = ''policy''"
    | "cn_type n = ''action''" | "cn_type n = ''slot''"
    using assms unfolding node_type_of_cases by auto
  then show ?thesis
    by cases (auto simp: connector_issues_def node_type_of_def node_types_def)
qed

lemma draft_errors_iff: "dv_errors (validate_draft d) = [] \<longleftrightarrow> draft_ok d"
proof -
  let ?nodes = "cd_nodes d" and ?edges = "cd_edges d"
  obtain err inc out where c: "check_edges ?nodes ?edges = (err, inc, out)" using prod_cases3 by blast
  note effect = check_edges_effect[of ?nodes ?edges "[]" "zero_counters ?nodes" "zero_counters ?nodes" err inc out,
      folded check_edges_def, OF c, simplified]
  have errors: "dv_errors (validate_draft d) = [] \<longleftrightarrow>
      nodes_issues [] ?nodes = [] \<and> err = [] \<and> (\<forall>n \<in> set ?nodes. connector_issues inc out n = [])"
    by (auto simp: validate_draft_def c Let_def)
  show ?thesis
  proof (cases "distinct (map cn_id ?nodes) \<and> list_all node_well ?nodes \<and> list_all (edge_ok ?nodes) ?edges")
    case False
    have "edge_ok ?nodes e" if "s \<in> set ?nodes" "t \<in> set ?nodes" "ce_source e = cn_id s" "ce_target e = cn_id t"
        "cn_id s \<noteq> cn_id t" "may_follow (cn_type s) (cn_type t)" "distinct (map cn_id ?nodes)" for e s t
      using that by (simp add: edge_ok_def find_node_distinct)
    then show ?thesis using False errors effect[of "[]"]
      by (auto simp: draft_ok_def nodes_issues_Nil list_all_iff)
  next
    case True
    then have ok: "edge_ok ?nodes e" if "e \<in> set ?edges" for e using that by (simp add: list_all_iff)
    note ends = edge_ok_ends[OF ok]
    have inc: "count_of inc i \<noteq> 0 \<longleftrightarrow> i \<in> ce_target ` set ?edges" for i
      using effect[of i] ends(2) by (auto simp: filter_empty_conv)
    have out: "count_of out i \<noteq> 0 \<longleftrightarrow> i \<in> ce_source ` set ?edges" for i
      using effect[of i] ends(2) by (auto simp: filter_empty_conv)
    have "connector_issues inc out n = [] \<longleftrightarrow>
        (cn_type n = ''event'' \<or> cn_id n \<in> ce_target ` set ?edges) \<and>
        (cn_type n = ''slot'' \<or> cn_id n \<in> ce_source ` set ?edges)" if "n \<in> set ?nodes" for n
      using connector_issues_Nil[of n inc out, unfolded inc out] True that
      by (auto simp: list_all_iff node_well_def)
    moreover have "err = []" "nodes_issues [] ?nodes = []" using True effect by (simp_all add: nodes_issues_Nil)
    ultimately show ?thesis using True ends(1) unfolding errors draft_ok_def by auto
  qed
qed


lemma draft_warnings:
  "dv_warnings (validate_draft d) =
     map (\<lambda>n. draft_issue_of IssueWarning ''Not reachable from event''
            (cn_label n @ '' is not on a path from an event node.'') (cn_id n))
       (filter (\<lambda>n. 1 < length (cd_nodes d) \<and> cn_id n \<notin> (edge_pairs (cd_edges d))\<^sup>* `` event_ids d) (cd_nodes d))"
proof -
  have issues: "concat (map (\<lambda>n. issue_if (p n) sv t (m n) (i n)) ns) =
      map (\<lambda>n. draft_issue_of sv t (m n) (i n)) (filter p ns)" for p sv t m i and ns :: "canvas_node list"
    by (induction ns) (simp_all add: issue_if_def)
  obtain err inc out where c: "check_edges (cd_nodes d) (cd_edges d) = (err, inc, out)" using prod_cases3 by blast
  show ?thesis
    unfolding validate_draft_def c Let_def prod.case draft_validation.simps issues reachable_from_events_set ..
qed

text \<open>
  C20. The validation of a draft reports no errors exactly when the graph is well-formed:
  nodes with distinct identifiers, known types, labels and positions, connectors between
  different nodes in a permitted order, a connector into every node but the events and out
  of every node but the slots. It warns of exactly the nodes, in a draft of more than one,
  that no path of connectors joins to an event node.
\<close>

theorem draft_validation_correct:
  "(dv_errors (validate_draft d) = [] \<longleftrightarrow> draft_ok d) \<and>
   dv_warnings (validate_draft d) =
     map (\<lambda>n. draft_issue_of IssueWarning ''Not reachable from event''
            (cn_label n @ '' is not on a path from an event node.'') (cn_id n))
       (filter (\<lambda>n. 1 < length (cd_nodes d) \<and> cn_id n \<notin> (edge_pairs (cd_edges d))\<^sup>* `` event_ids d) (cd_nodes d))"
  using draft_errors_iff draft_warnings by blast

text \<open>The validation does not depend on where a node lies, as long as it lies somewhere.\<close>

definition node_shape :: "canvas_node \<Rightarrow> string \<times> string \<times> string \<times> bool \<times> bool" where
  "node_shape n = (cn_id n, cn_type n, cn_label n, is_finite (cn_x n), is_finite (cn_y n))"

lemma shapes_all2:
  "map node_shape ns = map node_shape ns' \<Longrightarrow> list_all2 (\<lambda>n n'. node_shape n = node_shape n') ns ns'"
proof -
  assume eq: "map node_shape ns = map node_shape ns'"
  then have len: "length ns = length ns'" by (rule map_eq_imp_length_eq)
  moreover have "node_shape (ns ! k) = node_shape (ns' ! k)" if "k < length ns" for k
    using arg_cong[OF eq, of "\<lambda>xs. xs ! k"] that len by simp
  ultimately show ?thesis by (simp add: list_all2_conv_all_nth)
qed

lemma shapes_find:
  "map node_shape ns = map node_shape ns' \<Longrightarrow>
   map_option node_shape (find_node ns i) = map_option node_shape (find_node ns' i)"
proof (induction ns arbitrary: ns')
  case Nil
  then show ?case by simp
next
  case (Cons n ns)
  then obtain n' ms where ns': "ns' = n' # ms" "node_shape n = node_shape n'" "map node_shape ns = map node_shape ms"
    by (auto simp: Cons_eq_map_conv)
  then have "cn_id n = cn_id n'" by (simp add: node_shape_def)
  with Cons.IH[OF ns'(3)] ns'(1,2) show ?case by (simp add: find_node_def)
qed

lemma shapes_edge_check:
  assumes "map node_shape ns = map node_shape ns'"
  shows "edge_check ns e acc = edge_check ns' e acc"
proof -
  have same: "(\<exists>n n'. find_node ns i = Some n \<and> find_node ns' i = Some n' \<and> cn_id n = cn_id n' \<and>
        cn_type n = cn_type n' \<and> cn_label n = cn_label n') \<or> find_node ns i = None \<and> find_node ns' i = None" for i
    using shapes_find[OF assms, of i]
    by (cases "find_node ns i"; cases "find_node ns' i") (simp_all add: node_shape_def)
  show ?thesis
    using same[of "Some (ce_source e)"] same[of "Some (ce_target e)"]
    by (elim disjE exE conjE) (simp_all add: edge_check_def)
qed

lemma shapes_nodes_issues:
  "map node_shape ns = map node_shape ns' \<Longrightarrow> nodes_issues ids ns = nodes_issues ids ns'"
proof (induction ns arbitrary: ns' ids)
  case (Cons n ns)
  then obtain n' ms where "ns' = n' # ms" "node_shape n = node_shape n'" "map node_shape ns = map node_shape ms"
    by (auto simp: Cons_eq_map_conv)
  then show ?case using Cons.IH[OF \<open>map node_shape ns = map node_shape ms\<close>]
    by (auto simp: node_issues_def node_shape_def)
qed simp

lemma shapes_map:
  assumes "map node_shape ns = map node_shape ns'" and "\<And>n n'. node_shape n = node_shape n' \<Longrightarrow> f n = f n'"
  shows "map f ns = map f ns'"
  using shapes_all2[OF assms(1)]
proof (induction rule: list_all2_induct)
  case (Cons n ns n' ns')
  then show ?case using assms(2)[of n n'] by simp
qed simp

lemma shapes_event_ids:
  assumes "map node_shape ns = map node_shape ns'"
  shows "map cn_id (filter (\<lambda>n. cn_type n = ''event'') ns) = map cn_id (filter (\<lambda>n. cn_type n = ''event'') ns')"
  using shapes_all2[OF assms] by (induction rule: list_all2_induct) (simp_all add: node_shape_def)

lemma shapes_validate:
  assumes "map node_shape (cd_nodes d) = map node_shape (cd_nodes d')" and "cd_edges d = cd_edges d'"
  shows "validate_draft d = validate_draft d'"
proof -
  have "edge_check (cd_nodes d) = edge_check (cd_nodes d')"
    using shapes_edge_check[OF assms(1)] by blast
  moreover have "zero_counters (cd_nodes d) = zero_counters (cd_nodes d')"
  proof -
    have "zero_counters ns = fold (\<lambda>i c. obj_set i 0 c) (map cn_id ns) []" for ns
      by (simp add: zero_counters_def fold_map comp_def)
    moreover have "map cn_id (cd_nodes d) = map cn_id (cd_nodes d')"
      using assms(1) by (rule shapes_map) (simp add: node_shape_def)
    ultimately show ?thesis by simp
  qed
  moreover have "map (connector_issues inc out) (cd_nodes d) = map (connector_issues inc out) (cd_nodes d')" for inc out
    using assms(1) by (rule shapes_map) (auto simp: node_shape_def connector_issues_def split: option.splits)
  moreover have "reachable_from_events d = reachable_from_events d'"
    using shapes_event_ids[OF assms(1)] assms(2) by (simp add: reachable_from_events_def)
  moreover have "map (\<lambda>n. issue_if (b \<and> cn_id n \<notin> R) IssueWarning ''Not reachable from event''
        (cn_label n @ '' is not on a path from an event node.'') (cn_id n)) (cd_nodes d) =
      map (\<lambda>n. issue_if (b \<and> cn_id n \<notin> R) IssueWarning ''Not reachable from event''
        (cn_label n @ '' is not on a path from an event node.'') (cn_id n)) (cd_nodes d')" for b R
    using assms(1) by (rule shapes_map) (auto simp: node_shape_def)
  moreover have "length (cd_nodes d) = length (cd_nodes d')" using assms(1) by (rule map_eq_imp_length_eq)
  ultimately show ?thesis
    by (simp add: validate_draft_def check_edges_def assms(2) Let_def shapes_nodes_issues[OF assms(1)])
qed


section \<open>Positions\<close>

lemma js_add_near:
  assumes "\<bar>a\<bar> < 2 ^ 40" and "\<bar>b\<bar> < 2 ^ 40"
  shows "\<exists>v. js_add (Fin a) (Fin b) = Fin v \<and> \<bar>v - (a + b)\<bar> \<le> 1"
proof -
  have "\<bar>a + b\<bar> < 2 ^ 41" using assms by (auto simp: abs_if split: if_splits)
  then obtain v where "round_double (a + b) = Fin v" "\<bar>v - (a + b)\<bar> \<le> 2 ^ 41 / 2 ^ 54"
    by (rule round_double_error) simp_all
  then show ?thesis by (auto intro: order_trans)
qed

lemma js_sub_near:
  assumes "\<bar>a\<bar> < 2 ^ 40" and "\<bar>b\<bar> < 2 ^ 40"
  shows "\<exists>v. js_sub (Fin a) (Fin b) = Fin v \<and> \<bar>v - (a - b)\<bar> \<le> 1"
  using js_add_near[of a "- b"] assms by (simp add: js_sub_def)

definition placed :: "js_number \<Rightarrow> bool" where
  "placed v \<longleftrightarrow> (case v of Fin x \<Rightarrow> 8 \<le> x \<and> x < 2 ^ 31 | _ \<Rightarrow> False)"

lemma pixel_Fin: "pixel v \<longleftrightarrow> (\<exists>x. v = Fin x \<and> \<bar>x\<bar> < 2 ^ 30)"
  by (simp add: pixel_def split: js_number.splits)

lemma placed_Fin: "placed v \<longleftrightarrow> (\<exists>x. v = Fin x \<and> 8 \<le> x \<and> x < 2 ^ 31)"
  by (simp add: placed_def split: js_number.splits)

lemma clamp_between:
  assumes "v \<noteq> JsNaN" and "lo \<le> hi"
  shows "\<exists>z. clamp v (Fin lo) (Fin hi) = Fin z \<and> lo \<le> z \<and> z \<le> hi"
  using assms by (cases v) (auto simp: clamp_def js_min_def js_max_def)

lemma keep_inside_placed:
  assumes "pixel extent" and "side \<in> {node_width, node_height}" and "v \<noteq> JsNaN"
  shows "placed (keep_inside v extent side)"
proof -
  obtain e where e: "extent = Fin e" "\<bar>e\<bar> < 2 ^ 30" using assms(1) pixel_Fin by blast
  obtain b where b: "side = Fin b" "\<bar>b\<bar> \<le> 208" using assms(2) by (auto simp: node_width_def node_height_def)
  have "\<bar>e\<bar> < 2 ^ 40" "\<bar>b\<bar> < 2 ^ 40" using e b by simp_all
  from js_sub_near[OF this] obtain w where w: "js_sub extent side = Fin w" "\<bar>w - (e - b)\<bar> \<le> 1"
    unfolding e(1) b(1) by blast
  have wb: "\<bar>w\<bar> < 2 ^ 30 + 300" using w(2) e(2) b(2) by (simp add: abs_if split: if_splits)
  then have "\<bar>w\<bar> < 2 ^ 40" "\<bar>8\<bar> < (2 ^ 40 :: rat)" by simp_all
  from js_sub_near[OF this] obtain u where u: "js_sub (Fin w) (Fin 8) = Fin u" "\<bar>u - (w - 8)\<bar> \<le> 1" by blast
  define r :: rat where "r = of_int \<lfloor>u + 1 / 2\<rfloor>"
  have "r \<le> u + 1 / 2" unfolding r_def by simp
  then have r: "r < 2 ^ 31" using u(2) wb by (simp add: abs_if split: if_splits)
  have limit: "js_max (Fin 8) (js_round (js_sub (js_sub extent side) (Fin 8))) = Fin (max 8 r)"
    by (simp add: w u js_max_def flip: r_def)
  have "js_round v \<noteq> JsNaN" using assms(3) by (cases v) simp_all
  from clamp_between[OF this, of 8 "max 8 r"] obtain z
    where "clamp (js_round v) (Fin 8) (Fin (max 8 r)) = Fin z" "8 \<le> z" "z \<le> max 8 r" by auto
  moreover from this(3) have "z < 2 ^ 31" using r by simp
  ultimately show ?thesis by (simp only: keep_inside_def limit placed_Fin) blast
qed

lemma centred_not_NaN:
  assumes "pixel x" and "pixel l" and "h \<in> {node_width, node_height}"
  shows "js_sub (js_sub x l) (js_div_const h 2) \<noteq> JsNaN"
proof -
  obtain a b where "x = Fin a" "\<bar>a\<bar> < 2 ^ 30" "l = Fin b" "\<bar>b\<bar> < 2 ^ 30" using assms(1,2) pixel_Fin by blast
  moreover obtain c where "js_div_const h 2 = Fin c"
    using assms(3) round_double_int[of 104] round_double_int[of 41] by (auto simp: node_width_def node_height_def)
  moreover obtain d where "js_sub (Fin a) (Fin b) = Fin d"
    using js_sub_near[of a b] calculation by force
  ultimately show ?thesis by (simp add: js_sub_def round_double_def Let_def)
qed

lemma dragged_not_NaN:
  assumes "placed p" and "pixel x" and "pixel x0"
  shows "js_sub (js_add p x) x0 \<noteq> JsNaN"
proof -
  obtain a where a: "p = Fin a" "8 \<le> a" "a < 2 ^ 31" using assms(1) placed_Fin by blast
  obtain b where b: "x = Fin b" "\<bar>b\<bar> < 2 ^ 30" using assms(2) pixel_Fin by blast
  obtain c where c: "x0 = Fin c" using assms(3) pixel_Fin by blast
  have "\<bar>a\<bar> < 2 ^ 40" "\<bar>b\<bar> < 2 ^ 40" using a b by simp_all
  from js_add_near[OF this] obtain d where "js_add (Fin a) (Fin b) = Fin d" by blast
  then show ?thesis by (simp add: a b c js_sub_def round_double_def Let_def)
qed

lemma keep_inside_finite: "placed v \<Longrightarrow> is_finite v"
  by (auto simp: placed_Fin)


section \<open>The invariant of the page\<close>

definition node_sound :: "canvas_node \<Rightarrow> bool" where
  "node_sound n \<longleftrightarrow> cn_id n \<noteq> [] \<and> node_type_of (cn_type n) \<noteq> None \<and> placed (cn_x n) \<and> placed (cn_y n)"

definition edges_sound :: "string list \<Rightarrow> canvas_edge list \<Rightarrow> bool" where
  "edges_sound ids edges \<longleftrightarrow>
     list_all (\<lambda>e. ce_source e \<in> set ids \<and> ce_target e \<in> set ids \<and> ce_source e \<noteq> ce_target e) edges \<and>
     distinct (map (\<lambda>e. (ce_source e, ce_target e)) edges)"

definition drag_sound :: "drag_state \<Rightarrow> bool" where
  "drag_sound d \<longleftrightarrow> placed (dg_x d) \<and> placed (dg_y d) \<and> pixel (dg_clientX d) \<and> pixel (dg_clientY d)"

text \<open>
  Every connector joins two different nodes of the canvas, no two connectors join the same
  two, the selection and the armed source are nodes of the canvas, something is selected
  unless the canvas is empty, the nodes have known types and finite positions at least
  eight pixels from the left and top edge of the canvas.
\<close>

definition page_sound :: "editor \<Rightarrow> bool" where
  "page_sound ed \<longleftrightarrow>
     list_all node_sound (ed_nodes ed) \<and>
     edges_sound (map cn_id (ed_nodes ed)) (ed_edges ed) \<and>
     (ed_selected ed = None \<longrightarrow> ed_nodes ed = []) \<and>
     (\<forall>i \<in> set_option (ed_selected ed) \<union> set_option (ed_edgeSource ed). i \<in> cn_id ` set (ed_nodes ed)) \<and>
     (\<forall>d \<in> set_option (ed_drag ed). drag_sound d)"

lemma page_sound_render [simp]: "page_sound (render shown now ed) = page_sound ed"
  by (simp add: page_sound_def)

lemma page_sound_status [simp]: "page_sound (show_status m ed) = page_sound ed"
  by (simp add: page_sound_def)

lemma seed_sound: "list_all node_sound seed_nodes \<and> edges_sound (map cn_id seed_nodes) seed_edges"
  by (simp add: seed_nodes_def seed_edges_def node_sound_def edges_sound_def canvas_node_of_def
      canvas_edge_of_def placed_def node_type_of_def node_types_def)

lemma seed_first: "cn_id (hd seed_nodes) \<in> cn_id ` set seed_nodes"
  by (simp add: seed_nodes_def)

lemma condition_known: "node_type_of ''condition'' \<noteq> None"
  by (simp add: node_type_of_def node_types_def)

lemma created_sound:
  assumes "rect_ok rect" and "pixel x" and "pixel y"
  shows "node_sound (create_node rect item (js_sub x (cr_left rect)) (js_sub y (cr_top rect)) ed)"
proof -
  have r: "pixel (cr_left rect)" "pixel (cr_top rect)" "pixel (cr_width rect)" "pixel (cr_height rect)"
    using assms(1) by (simp_all add: rect_ok_def)
  have "placed (keep_inside (js_sub (js_sub x (cr_left rect)) (js_div_const node_width 2)) (cr_width rect) node_width)"
    by (rule keep_inside_placed[OF r(3) _ centred_not_NaN[OF assms(2) r(1)]]) simp_all
  moreover have "placed (keep_inside (js_sub (js_sub y (cr_top rect)) (js_div_const node_height 2)) (cr_height rect) node_height)"
    by (rule keep_inside_placed[OF r(4) _ centred_not_NaN[OF assms(3) r(2)]]) simp_all
  ultimately show ?thesis
    using condition_known by (auto simp: node_sound_def create_node_def Let_def split: option.splits)
qed

lemma edges_sound_more: "edges_sound ids edges \<Longrightarrow> edges_sound (ids @ ids') edges"
  by (auto simp: edges_sound_def list_all_iff)

lemma drop_sound:
  assumes "page_sound ed" and "rect_ok rect" and "pixel x" and "pixel y"
  shows "page_sound (drop_item shown now rect item x y ed)"
  using assms(1) created_sound[OF assms(2-4)]
  by (auto simp: page_sound_def drop_item_def Let_def edges_sound_more split: option.splits)

lemma reset_sound: "page_sound ed \<Longrightarrow> page_sound (reset_seed shown now ed)"
  using seed_sound seed_first by (simp add: page_sound_def reset_seed_def seed_draft_def)

lemma clear_sound: "page_sound ed \<Longrightarrow> page_sound (clear_canvas shown now ed)"
  by (simp add: page_sound_def clear_canvas_def edges_sound_def)

lemma create_edge_sound:
  assumes "page_sound ed"
  shows "page_sound (create_edge shown now sourceId targetId ed)"
proof (cases "find_node (ed_nodes ed) sourceId")
  case None
  then show ?thesis using assms by (simp add: create_edge_def)
next
  case (Some s)
  note s = this find_node_Some[OF this]
  show ?thesis
  proof (cases "find_node (ed_nodes ed) (Some targetId)")
    case None
    then show ?thesis using assms s by (simp add: create_edge_def)
  next
    case (Some t)
    note t = this find_node_Some[OF this]
    have ids: "cn_id s \<in> cn_id ` set (ed_nodes ed)" "targetId \<in> cn_id ` set (ed_nodes ed)" using s t by auto
    show ?thesis
      using assms s t ids
      by (auto simp: create_edge_def page_sound_def edges_sound_def canvas_edge_of_def Let_def list_ex_iff)
  qed
qed

lemma pointer_down_sound:
  assumes "page_sound ed" and "pixel x" and "pixel y"
  shows "page_sound (pointer_down shown now k primary x y ed)"
proof (cases "k < length (ed_nodes ed)")
  case True
  then have "ed_nodes ed ! k \<in> set (ed_nodes ed)" by simp
  moreover from this have "node_sound (ed_nodes ed ! k)" using assms(1) by (simp add: page_sound_def list_all_iff)
  moreover have "page_sound (if armed_for ed i then create_edge shown now (ed_edgeSource ed) i ed
      else render shown now (ed\<lparr>ed_selected := Some (cn_id n), ed_drag := Some d, ed_mode := m\<rparr>))"
    if "n \<in> set (ed_nodes ed)" "drag_sound d" for i n d m
    using assms(1) that create_edge_sound[OF assms(1)] by (simp add: page_sound_def)
  ultimately show ?thesis
    using assms by (simp add: pointer_down_def Let_def drag_sound_def node_sound_def)
next
  case False
  then show ?thesis using assms(1) by (simp add: pointer_down_def)
qed

lemma update_sound:
  assumes "page_sound ed" and "\<And>n. cn_id (f n) = cn_id n" and "\<And>n. node_sound n \<Longrightarrow> node_sound (f n)"
  shows "page_sound (ed\<lparr>ed_draft := (ed_draft ed)\<lparr>cd_nodes := update_node i f (ed_nodes ed)\<rparr>\<rparr>)"
proof -
  have ids: "map cn_id (update_node i f (ed_nodes ed)) = map cn_id (ed_nodes ed)" using assms(2) by simp
  then have "cn_id ` set (update_node i f (ed_nodes ed)) = cn_id ` set (ed_nodes ed)"
    by (metis list.set_map)
  moreover have "update_node i f (ed_nodes ed) = [] \<longleftrightarrow> ed_nodes ed = []"
    by (metis ids list.map_disc_iff)
  moreover have "list_all node_sound (update_node i f (ed_nodes ed))"
    using assms by (intro update_node_all) (simp_all add: page_sound_def)
  ultimately show ?thesis using assms(1) ids by (simp add: page_sound_def split: option.splits)
qed


lemma change_sound:
  assumes "page_sound ed" and "\<And>n. cn_id (f n) = cn_id n" and "\<And>n. node_sound n \<Longrightarrow> node_sound (f n)"
  shows "page_sound (ed\<lparr>ed_draft := (ed_draft ed)\<lparr>cd_nodes := update_node i f (ed_nodes ed)\<rparr>, ed_mode := m\<rparr>)"
  using update_sound[OF assms, of i] by (simp add: page_sound_def)

lemma changes_sound:
  assumes "page_sound ed"
  shows "node_type_of v \<noteq> None \<Longrightarrow> page_sound (change_type shown now i v ed)"
    and "page_sound (change_label shown now i v ed)"
    and "page_sound (change_description shown now i v ed)"
proof -
  show "page_sound (change_type shown now i v ed)" if "node_type_of v \<noteq> None"
    unfolding change_type_def page_sound_render page_sound_status
    by (rule change_sound[OF assms]) (use that in \<open>simp_all add: node_sound_def\<close>)
  show "page_sound (change_label shown now i v ed)"
    unfolding change_label_def page_sound_render
    by (rule change_sound[OF assms]) (simp_all add: node_sound_def)
  show "page_sound (change_description shown now i v ed)"
    unfolding change_description_def page_sound_render
    by (rule change_sound[OF assms]) (simp_all add: node_sound_def)
qed

lemma pointer_move_sound:
  assumes "page_sound ed" and "rect_ok rect" and "pixel x" and "pixel y"
  shows "page_sound (pointer_move rect x y ed)"
proof (cases "ed_drag ed")
  case None
  then show ?thesis using assms(1) by (simp add: pointer_move_def)
next
  case (Some d)
  then have d: "drag_sound d" using assms(1) by (simp add: page_sound_def)
  let ?f = "\<lambda>n. n\<lparr>cn_x := keep_inside (js_sub (js_add (dg_x d) x) (dg_clientX d)) (cr_width rect) node_width,
    cn_y := keep_inside (js_sub (js_add (dg_y d) y) (dg_clientY d)) (cr_height rect) node_height\<rparr>"
  have "node_sound (?f n)" if "node_sound n" for n
    using that d assms(2-4)
    by (simp add: node_sound_def drag_sound_def rect_ok_def keep_inside_placed dragged_not_NaN)
  then have "page_sound (ed\<lparr>ed_draft := (ed_draft ed)\<lparr>cd_nodes := update_node (dg_nodeId d) ?f (ed_nodes ed)\<rparr>\<rparr>)"
    by (intro update_sound[OF assms(1)]) simp_all
  then show ?thesis
    using Some d assms(1) by (simp add: pointer_move_def Let_def page_sound_def drag_sound_def)
qed

lemma delete_node_sound:
  assumes "page_sound ed"
  shows "page_sound (delete_node shown now i ed)"
proof -
  let ?ns = "filter (\<lambda>n. cn_id n \<noteq> i) (ed_nodes ed)"
  have "edges_sound (map cn_id ?ns) (filter (\<lambda>e. ce_source e \<noteq> i \<and> ce_target e \<noteq> i) (ed_edges ed))"
    using assms by (auto simp: page_sound_def edges_sound_def list_all_iff intro: distinct_map_filter)
  moreover have "list_all node_sound ?ns" using assms by (simp add: page_sound_def list_all_iff)
  moreover have "\<forall>j \<in> set_option (if ed_edgeSource ed = Some i then None else ed_edgeSource ed). j \<in> cn_id ` set ?ns"
    using assms by (auto simp: page_sound_def)
  moreover have "\<forall>d \<in> set_option (ed_drag ed). drag_sound d" using assms by (simp add: page_sound_def)
  ultimately show ?thesis
    by (cases ?ns) (simp_all add: delete_node_def Let_def page_sound_def ball_Un)
qed

lemma delete_edge_sound: "page_sound ed \<Longrightarrow> page_sound (delete_edge shown now e ed)"
  by (auto simp: page_sound_def delete_edge_def edges_sound_def list_all_iff intro: distinct_map_filter)

lemma set_edge_source_sound:
  "page_sound ed \<Longrightarrow> i \<in> cn_id ` set (ed_nodes ed) \<Longrightarrow> page_sound (set_edge_source shown now i ed)"
  by (auto simp: page_sound_def set_edge_source_def Let_def)

lemma output_sound:
  assumes "page_sound ed"
  shows "page_sound (copy_json shown now clipboard ed)" "page_sound (clipboard_answer k written ed)"
    "page_sound (download_json shown now ed)" "page_sound (sample_answer shown r ed)"
    "page_sound (pointer_up shown now ed)"
  using assms
  by (auto simp: page_sound_def copy_json_def clipboard_answer_def download_json_def sample_answer_def
      pointer_up_def Let_def split: sum.splits)

lemma event_sound:
  assumes "page_sound ed" and "event_ok ev"
  shows "page_sound (handle_event shown now ev ed)"
proof -
  note handlers = handle_event_def event_ok_def drop_sound reset_sound clear_sound pointer_down_sound
    pointer_move_sound output_sound
  show ?thesis
  proof (cases "find_node (ed_nodes ed) (ed_selected ed)")
    case None
    then show ?thesis using assms by (cases ev) (simp_all add: handlers)
  next
    case (Some n)
    then have "cn_id n \<in> cn_id ` set (ed_nodes ed)" using find_node_Some by blast
    then show ?thesis
      using assms Some
      by (cases ev) (simp_all add: handlers changes_sound set_edge_source_sound create_edge_sound
          delete_node_sound delete_edge_sound)
  qed
qed

text \<open>What is shown as the validation is the validation of the draft on the canvas.\<close>

definition validation_current :: "editor \<Rightarrow> bool" where
  "validation_current ed \<longleftrightarrow> ed_validation ed = Some (validate_draft (ed_draft ed))"

lemma current_render [simp]: "validation_current (render shown now ed)"
  by (simp add: validation_current_def)

lemma current_status [simp]: "validation_current (show_status m ed) = validation_current ed"
  by (simp add: validation_current_def)

lemma create_edge_current:
  "validation_current ed \<Longrightarrow> validation_current (create_edge shown now s t ed)"
  by (auto simp: create_edge_def Let_def split: option.splits)

lemma shape_update:
  assumes "list_all node_sound nodes" and "\<And>n. node_sound n \<Longrightarrow> node_shape (f n) = node_shape n"
  shows "map node_shape (update_node i f nodes) = map node_shape nodes"
  using assms(1) by (induction nodes) (simp_all add: assms(2))

lemma sound_shape:
  "node_sound n \<Longrightarrow> placed x \<Longrightarrow> placed y \<Longrightarrow> node_shape (n\<lparr>cn_x := x, cn_y := y\<rparr>) = node_shape n"
  by (auto simp: node_shape_def node_sound_def placed_Fin)

lemma pointer_move_current:
  assumes "page_sound ed" and "validation_current ed" and "rect_ok rect" and "pixel x" and "pixel y"
  shows "validation_current (pointer_move rect x y ed)"
proof (cases "ed_drag ed")
  case None
  then show ?thesis using assms(2) by (simp add: pointer_move_def)
next
  case (Some d)
  then have d: "drag_sound d" using assms(1) by (simp add: page_sound_def)
  let ?f = "\<lambda>n. n\<lparr>cn_x := keep_inside (js_sub (js_add (dg_x d) x) (dg_clientX d)) (cr_width rect) node_width,
    cn_y := keep_inside (js_sub (js_add (dg_y d) y) (dg_clientY d)) (cr_height rect) node_height\<rparr>"
  have "node_shape (?f n) = node_shape n" if "node_sound n" for n
    using that d assms(3-5)
    by (intro sound_shape) (simp_all add: drag_sound_def rect_ok_def keep_inside_placed dragged_not_NaN)
  then have "map node_shape (update_node (dg_nodeId d) ?f (ed_nodes ed)) = map node_shape (ed_nodes ed)"
    using assms(1) by (intro shape_update) (simp_all add: page_sound_def)
  then have "validate_draft ((ed_draft ed)\<lparr>cd_nodes := update_node (dg_nodeId d) ?f (ed_nodes ed)\<rparr>) =
      validate_draft (ed_draft ed)"
    by (intro shapes_validate) simp_all
  then show ?thesis
    using Some assms(2) by (simp add: pointer_move_def Let_def validation_current_def)
qed

lemma event_current:
  assumes "page_sound ed" and "validation_current ed" and "event_ok ev"
  shows "validation_current (handle_event shown now ev ed)"
proof -
  note handlers = handle_event_def event_ok_def pointer_move_current create_edge_current
    drop_item_def reset_seed_def clear_canvas_def pointer_down_def pointer_up_def change_type_def
    change_label_def change_description_def set_edge_source_def delete_node_def delete_edge_def Let_def
  have outputs: "validation_current (copy_json shown now clipboard ed)" "validation_current (clipboard_answer k written ed)"
    "validation_current (download_json shown now ed)" "validation_current (sample_answer shown r ed)" for clipboard k written r
    using assms(2)
    by (auto simp: validation_current_def copy_json_def clipboard_answer_def download_json_def sample_answer_def
        Let_def split: sum.splits)
  show ?thesis
    using assms
    by (cases "find_node (ed_nodes ed) (ed_selected ed)"; cases ev) (simp_all add: handlers outputs)
qed

text \<open>
  C19. In every page the user can reach, each connector joins two different nodes on the
  canvas and no two join the same pair; the selected node and the armed source exist, and
  something is selected unless the canvas is empty; nodes have known types and finite
  positions at least eight pixels from the left and top edge; and the validation shown is that of the draft on the canvas.
\<close>

theorem editor_invariant:
  assumes "editor_reachable shown ed"
  shows "page_sound ed \<and> validation_current ed"
  using assms
proof induction
  case (load now)
  have "page_sound (start_page shown now)"
    using seed_sound seed_first by (simp add: start_page_def page_sound_def seed_draft_def)
  then show ?case by (simp add: start_page_def)
next
  case (event ed ev now)
  then show ?case using event_sound event_current by blast
qed

lemma editor_invariant_witness:
  "page_sound (handle_event (\<lambda>_. []) 0 DeleteNode (start_page (\<lambda>_. []) 0)) \<and>
   validation_current (handle_event (\<lambda>_. []) 0 DeleteNode (start_page (\<lambda>_. []) 0))"
  by (rule editor_invariant[where shown = "\<lambda>_. []"])
    (intro editor_reachable.intros, simp add: event_ok_def)

end
