(* ===== verification/EditorView.thy ===== *)
theory EditorView
  imports EditorProperties
begin

text \<open>
  What the editor draws: the nodes, connectors, inspector and issue list of
  \<open>src/src/editor/editor-ui.ts\<close> as functions of the state, with the markup they put
  into the page; and that text of the user never becomes markup.
\<close>

section \<open>Escaping\<close>

definition replace_char :: "char \<Rightarrow> string \<Rightarrow> string \<Rightarrow> string" where
  "replace_char c r s = concat (map (\<lambda>d. if d = c then r else [d]) s)"

definition escape_html :: "string \<Rightarrow> string" where
  "escape_html value =
     replace_char (CHR 0x27) ''&#39;''
       (replace_char (CHR 0x22) ''&quot;''
         (replace_char (CHR ''>'') ''&gt;''
           (replace_char (CHR ''<'') ''&lt;''
             (replace_char (CHR ''&'') ''&amp;'' value))))"


section \<open>Nodes\<close>

text \<open>Errors and warnings of each node, as \<open>getNodeIssueCounts\<close> collects them.\<close>

type_synonym issue_counts = "(string \<times> nat \<times> nat) list"

definition counts_at :: "issue_counts \<Rightarrow> string \<Rightarrow> nat \<times> nat" where
  "counts_at counts i = (case obj_get counts i of None \<Rightarrow> (0, 0) | Some c \<Rightarrow> c)"

definition add_issue :: "draft_issue \<Rightarrow> issue_counts \<Rightarrow> issue_counts" where
  "add_issue i counts =
     (case di_nodeId i of
        None \<Rightarrow> counts
      | Some n \<Rightarrow>
          (case counts_at counts n of (errors, warnings) \<Rightarrow>
             obj_set n (if di_severity i = IssueError then (errors + 1, warnings) else (errors, warnings + 1))
               counts))"

definition get_node_issue_counts :: "draft_validation \<Rightarrow> issue_counts" where
  "get_node_issue_counts v = fold add_issue (dv_warnings v) (fold add_issue (dv_errors v) [])"

record node_view =
  nv_class :: string
  nv_nodeId :: string
  nv_left :: string
  nv_top :: string
  nv_html :: string

definition node_html :: "nat \<Rightarrow> nat \<Rightarrow> canvas_node \<Rightarrow> string" where
  "node_html errors warnings n =
     ''<div class=\"node-row\">'' @
       ''<div><strong>'' @ escape_html (or_text (cn_label n) ''[missing label]'') @ ''</strong><span>'' @
         escape_html (or_text (cn_description n) (cn_id n)) @ ''</span></div>'' @
       ''<span class=\"type-badge\">'' @
         escape_html (case node_type_of (cn_type n) of Some t \<Rightarrow> nt_title t | None \<Rightarrow> cn_type n) @ ''</span>'' @
     ''</div>'' @
     ''<div class=\"node-meta\">'' @
       ''<span class=\"flag '' @ (if errors \<noteq> 0 then ''error'' else ''ok'') @ ''\">'' @ nat_str errors @ '' errors</span>'' @
       ''<span class=\"flag '' @ (if warnings \<noteq> 0 then ''warning'' else ''ok'') @ ''\">'' @ nat_str warnings @
         '' warnings</span>'' @
     ''</div>''"

definition node_view_of :: "(rat \<Rightarrow> string) \<Rightarrow> editor \<Rightarrow> issue_counts \<Rightarrow> canvas_node \<Rightarrow> node_view" where
  "node_view_of shown ed counts n =
     (case counts_at counts (cn_id n) of (errors, warnings) \<Rightarrow>
        \<lparr>nv_class = ''canvas-node '' @ cn_type n @
           (if ed_selected ed = Some (cn_id n) then '' selected'' else []) @
           (if ed_edgeSource ed = Some (cn_id n) then '' edge-source'' else []) @
           (if 0 < errors then '' invalid-node'' else []),
         nv_nodeId = cn_id n,
         nv_left = number_text shown (cn_x n) @ ''px'',
         nv_top = number_text shown (cn_y n) @ ''px'',
         nv_html = node_html errors warnings n\<rparr>)"

text \<open>Called with the validation that \<open>render\<close> has just stored.\<close>

definition render_nodes :: "(rat \<Rightarrow> string) \<Rightarrow> editor \<Rightarrow> node_view list" where
  "render_nodes shown ed =
     (case ed_validation ed of
        None \<Rightarrow> []
      | Some v \<Rightarrow> map (node_view_of shown ed (get_node_issue_counts v)) (ed_nodes ed))"


section \<open>Connectors\<close>

datatype side = RightSide | BottomSide | TopSide | LeftSide

definition js_half :: "js_number \<Rightarrow> js_number" where
  "js_half v = js_div_const v 2"

definition anchor :: "canvas_node \<Rightarrow> side \<Rightarrow> js_number \<times> js_number" where
  "anchor n s =
     (case s of
        RightSide \<Rightarrow> (js_add (cn_x n) node_width, js_add (cn_y n) (js_half node_height))
      | BottomSide \<Rightarrow> (js_add (cn_x n) (js_half node_width), js_add (cn_y n) node_height)
      | TopSide \<Rightarrow> (js_add (cn_x n) (js_half node_width), cn_y n)
      | LeftSide \<Rightarrow> (cn_x n, js_add (cn_y n) (js_half node_height)))"

fun js_abs :: "js_number \<Rightarrow> js_number" where
  "js_abs (Fin x) = Fin \<bar>x\<bar>"
| "js_abs JsNaN = JsNaN"
| "js_abs _ = PosInf"

record edge_view =
  ev_class :: string
  ev_path :: string
  ev_labelX :: string
  ev_labelY :: string
  ev_text :: string

text \<open>The point \<open>x y\<close> in the data of a path.\<close>

definition point_text :: "(rat \<Rightarrow> string) \<Rightarrow> js_number \<Rightarrow> js_number \<Rightarrow> string" where
  "point_text shown x y = number_text shown x @ '' '' @ number_text shown y"

definition edge_view_of ::
  "(rat \<Rightarrow> string) \<Rightarrow> canvas_node \<Rightarrow> canvas_node \<Rightarrow> canvas_edge \<Rightarrow> edge_view" where
  "edge_view_of shown source target e =
     (let invalid = \<not> may_follow (cn_type source) (cn_type target);
          forward = js_le (cn_x source) (cn_x target);
          (sx, sy) = anchor source (if forward then RightSide else BottomSide);
          (ex, ey) = anchor target (if forward then LeftSide else TopSide);
          bend = (if forward then js_max (Fin 70) (js_half (js_abs (js_sub ex sx)))
                  else js_max (Fin 54) (js_half (js_abs (js_sub ey sy))));
          path = (if forward
                  then ''M '' @ point_text shown sx sy @ '' C '' @ point_text shown (js_add sx bend) sy @ '', '' @
                       point_text shown (js_sub ex bend) ey @ '', '' @ point_text shown ex ey
                  else ''M '' @ point_text shown sx sy @ '' C '' @ point_text shown sx (js_add sy bend) @ '', '' @
                       point_text shown ex (js_sub ey bend) @ '', '' @ point_text shown ex ey)
      in \<lparr>ev_class = ''edge-path'' @ (if invalid then '' invalid'' else []),
          ev_path = path,
          ev_labelX = number_text shown (js_round (js_half (js_add sx ex))),
          ev_labelY = number_text shown (js_sub (js_round (js_half (js_add sy ey))) (Fin 6)),
          ev_text = or_text (ce_label e) (ce_id e)\<rparr>)"

definition render_edges :: "(rat \<Rightarrow> string) \<Rightarrow> editor \<Rightarrow> edge_view list" where
  "render_edges shown ed =
     concat (map (\<lambda>e.
       case (find_node (ed_nodes ed) (Some (ce_source e)), find_node (ed_nodes ed) (Some (ce_target e))) of
         (Some source, Some target) \<Rightarrow> [edge_view_of shown source target e]
       | _ \<Rightarrow> []) (ed_edges ed))"


section \<open>Inspector and issues\<close>

definition remove_button :: "string \<Rightarrow> string" where
  "remove_button i =
     ''<div class=\"button-row\" style=\"margin-top: 6px;\"><button data-delete-edge=\"'' @ escape_html i @
     ''\" class=\"danger\">Remove</button></div></div>''"

definition label_at :: "canvas_node list \<Rightarrow> string \<Rightarrow> string" where
  "label_at nodes i = (case find_node nodes (Some i) of Some n \<Rightarrow> cn_label n | None \<Rightarrow> i)"

definition render_edge_list :: "canvas_node list \<Rightarrow> canvas_node \<Rightarrow> canvas_edge list \<Rightarrow> canvas_edge list \<Rightarrow> string" where
  "render_edge_list nodes n incoming outgoing =
     (let rows =
        map (\<lambda>e. ''<div class=\"issue\"><strong>In</strong> '' @ escape_html (label_at nodes (ce_source e)) @ '' -> '' @
                 escape_html (cn_label n) @ remove_button (ce_id e)) incoming @
        map (\<lambda>e. ''<div class=\"issue\"><strong>Out</strong> '' @ escape_html (cn_label n) @ '' -> '' @
                 escape_html (label_at nodes (ce_target e)) @ remove_button (ce_id e)) outgoing
      in if rows \<noteq> [] then concat rows else ''<p class=\"small muted tight\">No edges attached.</p>'')"

definition type_options :: "string \<Rightarrow> string" where
  "type_options current =
     concat (map (\<lambda>(t, nt). ''<option value=\"'' @ t @ ''\"'' @ (if current = t then '' selected'' else []) @ ''>'' @
                            nt_title nt @ ''</option>'') node_types)"

definition render_inspector :: "editor \<Rightarrow> string" where
  "render_inspector ed =
     (case find_node (ed_nodes ed) (ed_selected ed) of
        None \<Rightarrow> ''<p class=\"small muted tight\">No node selected.</p>''
      | Some n \<Rightarrow>
          let incoming = filter (\<lambda>e. ce_target e = cn_id n) (ed_edges ed);
              outgoing = filter (\<lambda>e. ce_source e = cn_id n) (ed_edges ed)
          in ''<div class=\"field\"><label for=\"node-id\">Node key</label><input id=\"node-id\" value=\"'' @
               escape_html (cn_id n) @ ''\" readonly /></div>'' @
             ''<div class=\"field\"><label for=\"node-type\">Type</label><select id=\"node-type\">'' @
               type_options (cn_type n) @ ''</select></div>'' @
             ''<div class=\"field\"><label for=\"node-label\">Label</label><input id=\"node-label\" value=\"'' @
               escape_html (cn_label n) @ ''\" /></div>'' @
             ''<div class=\"field\"><label for=\"node-description\">Intent</label><textarea id=\"node-description\">'' @
               escape_html (cn_description n) @ ''</textarea></div>'' @
             ''<div class=\"panel\">'' @
               ''<h3>Connectors</h3>'' @
               ''<p class=\"small muted\">Incoming: '' @ nat_str (length incoming) @ '' | Outgoing: '' @
                 nat_str (length outgoing) @ ''</p>'' @
               ''<div class=\"button-row\">'' @
                 ''<button id=\"set-edge-source\">'' @
                   (if ed_edgeSource ed = Some (cn_id n) then ''Source Armed'' else ''Set Source'') @ ''</button>'' @
                 ''<button id=\"connect-selected\" '' @ (if armed_for ed (cn_id n) then [] else ''disabled'') @
                   ''>Connect Source</button>'' @
                 ''<button id=\"delete-node\" class=\"danger\">Delete Node</button>'' @
               ''</div>'' @
               ''<p class=\"small muted\">'' @
                 (case find_node (ed_nodes ed) (ed_edgeSource ed) of
                    Some s \<Rightarrow> ''Source: '' @ escape_html (cn_label s) | None \<Rightarrow> ''Source: none'') @ ''</p>'' @
             ''</div>'' @
             ''<div class=\"panel\">'' @
               ''<h3>Edges</h3>'' @
               render_edge_list (ed_nodes ed) n incoming outgoing @
             ''</div>'')"

fun severity_class :: "issue_severity \<Rightarrow> string" where
  "severity_class IssueError = ''error''"
| "severity_class IssueWarning = ''warning''"

definition render_issue :: "draft_issue \<Rightarrow> string" where
  "render_issue i =
     ''<div class=\"issue '' @ severity_class (di_severity i) @ ''\"><strong>'' @ escape_html (di_title i) @
     ''</strong><br />'' @ escape_html (di_detail i) @ ''</div>''"

definition current_validation :: "editor \<Rightarrow> draft_validation" where
  "current_validation ed =
     (case ed_validation ed of Some v \<Rightarrow> v | None \<Rightarrow> validate_draft (ed_draft ed))"

definition render_validation :: "editor \<Rightarrow> string \<times> string" where
  "render_validation ed =
     (let v = current_validation ed;
          rows = map render_issue (dv_errors v) @ map render_issue (dv_warnings v)
      in (''<div class=\"metric\"><strong>'' @ nat_str (length (dv_errors v)) @ ''</strong><span>errors</span></div>'' @
          ''<div class=\"metric\"><strong>'' @ nat_str (length (dv_warnings v)) @ ''</strong><span>warnings</span></div>'' @
          ''<div class=\"metric\"><strong>'' @ nat_str (length (ed_edges ed)) @ ''</strong><span>edges</span></div>'',
          if rows \<noteq> [] then concat rows
          else ''<div class=\"issue ok\"><strong>Valid draft</strong><br />All required connectors are present.</div>''))"

end
