(* ===== verification/EditorPageProperties.thy ===== *)
theory EditorPageProperties
  imports EditorView
begin

text \<open>
  What the user sees of the editor: text of the draft is shown as it is and never becomes
  markup; made-up identifiers can repeat; the seed and the empty canvas both validate; the
  exported text agrees with the page.
\<close>

section \<open>Text and markup\<close>

text \<open>The reading of character references by the browser, as far as the page writes them.\<close>

function html_text :: "string \<Rightarrow> string" where
  "html_text s =
     (if s = [] then []
      else if starts_with ''&amp;'' s then CHR ''&'' # html_text (drop 5 s)
      else if starts_with ''&lt;'' s then CHR ''<'' # html_text (drop 4 s)
      else if starts_with ''&gt;'' s then CHR ''>'' # html_text (drop 4 s)
      else if starts_with ''&quot;'' s then CHR 0x22 # html_text (drop 6 s)
      else if starts_with ''&#39;'' s then CHR 0x27 # html_text (drop 5 s)
      else hd s # html_text (tl s))"
  by pat_completeness auto
termination by (relation "measure length") (simp_all add: length_greater_0_conv[symmetric] del: length_greater_0_conv)

declare html_text.simps [simp del]

definition escape_one :: "char \<Rightarrow> string" where
  "escape_one c =
     (if c = CHR ''&'' then ''&amp;'' else if c = CHR ''<'' then ''&lt;'' else if c = CHR ''>'' then ''&gt;''
      else if c = CHR 0x22 then ''&quot;'' else if c = CHR 0x27 then ''&#39;'' else [c])"

lemma replace_char_simps [simp]:
  "replace_char c r [] = []"
  "replace_char c r (d # s) = (if d = c then r else [d]) @ replace_char c r s"
  "replace_char c r (s @ t) = replace_char c r s @ replace_char c r t"
  by (simp_all add: replace_char_def)

lemma escape_html_simps [simp]:
  "escape_html [] = []"
  "escape_html (c # s) = escape_one c @ escape_html s"
  by (auto simp: escape_html_def escape_one_def)

lemma html_text_one: "html_text (escape_one c @ s) = c # html_text s"
  by (subst html_text.simps) (simp add: escape_one_def starts_with_def)

text \<open>
  What the page writes into its markup for a text of the draft, the browser shows as
  exactly that text.
\<close>

lemma escape_html_shown: "html_text (escape_html value) = value"
proof (induction "value")
  case Nil
  show ?case by (subst html_text.simps) simp
next
  case (Cons c s)
  then show ?case by (simp add: html_text_one)
qed

text \<open>The characters that can open or close a tag or an attribute value.\<close>

definition markup :: "string \<Rightarrow> string" where
  "markup s = filter (\<lambda>c. c = CHR ''<'' \<or> c = CHR ''>'' \<or> c = CHR 0x22) s"

lemma markup_simps [simp]:
  "markup [] = []"
  "markup (s @ t) = markup s @ markup t"
  "markup (c # s) = (if c = CHR ''<'' \<or> c = CHR ''>'' \<or> c = CHR 0x22 then c # markup s else markup s)"
  by (simp_all add: markup_def)

lemma markup_append: "markup (s @ t) = markup s @ markup t"
  by simp

lemma markup_concat: "markup (concat xs) = concat (map markup xs)"
  by (induction xs) simp_all

lemma markup_escape [simp]: "markup (escape_html s) = []"
  by (induction s) (auto simp: escape_one_def)

lemma markup_nat [simp]: "markup (nat_str n) = []"
  using nat_str_digits[of n] by (auto simp: markup_def filter_empty_conv is_digit_def)

text \<open>Typing other labels and descriptions into the draft.\<close>

definition retext :: "(canvas_node \<Rightarrow> string) \<Rightarrow> (canvas_node \<Rightarrow> string) \<Rightarrow> editor \<Rightarrow> editor" where
  "retext label description ed =
     ed\<lparr>ed_draft := (ed_draft ed)\<lparr>cd_nodes :=
       map (\<lambda>n. n\<lparr>cn_label := label n, cn_description := description n\<rparr>) (ed_nodes ed)\<rparr>\<rparr>"

lemma find_node_retext:
  "find_node (map (\<lambda>n. n\<lparr>cn_label := label n, cn_description := description n\<rparr>) ns) i =
     map_option (\<lambda>n. n\<lparr>cn_label := label n, cn_description := description n\<rparr>) (find_node ns i)"
  by (induction ns) (simp_all add: find_node_def)

lemma markup_node: "markup (node_html errors warnings n) = markup (node_html 0 0 m)"
  by (simp add: node_html_def)

lemma markup_issue: "markup (render_issue i) = markup (render_issue j)"
  by (cases "di_severity i"; cases "di_severity j") (simp_all add: render_issue_def)

lemma markup_edge_list:
  "map ce_id incoming = map ce_id incoming' \<Longrightarrow> map ce_id outgoing = map ce_id outgoing' \<Longrightarrow>
   markup (render_edge_list ns n incoming outgoing) = markup (render_edge_list ms m incoming' outgoing')"
proof -
  assume ids: "map ce_id incoming = map ce_id incoming'" "map ce_id outgoing = map ce_id outgoing'"
  then have len: "length incoming = length incoming'" "length outgoing = length outgoing'"
    by (auto dest: map_eq_imp_length_eq)
  have same: "concat (map (\<lambda>_. s) xs) = concat (map (\<lambda>_. s) ys)" if "length xs = length ys"
    for s :: string and xs ys :: "canvas_edge list"
    using that by (induction rule: list_induct2) simp_all
  have "incoming = [] \<longleftrightarrow> incoming' = []" "outgoing = [] \<longleftrightarrow> outgoing' = []" using len by auto
  then show ?thesis
    using same[OF len(1)] same[OF len(2)]
    by (simp add: render_edge_list_def remove_button_def markup_concat comp_def)
qed

text \<open>
  C32. Text never becomes markup: whatever labels and descriptions the nodes carry, the
  tags and attribute delimiters of a node, of an issue and of the inspector are the same.
\<close>

theorem text_is_not_markup:
  "markup (node_html errors warnings n) = markup (node_html 0 0 m) \<and>
   markup (render_issue i) = markup (render_issue j) \<and>
   markup (render_inspector (retext label description ed)) = markup (render_inspector ed)"
proof -
  have "markup (render_inspector (retext label description ed)) = markup (render_inspector ed)"
  proof (cases "find_node (ed_nodes ed) (ed_selected ed)")
    case None
    then show ?thesis by (simp add: render_inspector_def retext_def find_node_retext)
  next
    case (Some n)
    let ?m = "n\<lparr>cn_label := label n, cn_description := description n\<rparr>"
    have edge_list: "markup (render_edge_list ns ?m inc out) = markup (render_edge_list (ed_nodes ed) n inc out)"
      for ns inc out
      by (rule markup_edge_list) simp_all
    have source: "markup (case v of Some s \<Rightarrow> ''Source: '' @ escape_html (cn_label s) | None \<Rightarrow> ''Source: none'') = []" for v
      by (simp split: option.splits)
    have same: "ed_selected (retext label description ed) = ed_selected ed" "ed_edges (retext label description ed) = ed_edges ed"
      "ed_edgeSource (retext label description ed) = ed_edgeSource ed"
      "find_node (ed_nodes (retext label description ed)) (ed_selected ed) = Some ?m"
      "armed_for (retext label description ed) i = armed_for ed i" "cn_id ?m = cn_id n" "cn_type ?m = cn_type n" for i
      using Some by (simp_all add: retext_def find_node_retext armed_for_def)
    show ?thesis
      by (simp only: render_inspector_def same Some option.case Let_def markup_append markup_escape markup_nat
          source edge_list)
  qed
  then show ?thesis using markup_node markup_issue by blast
qed


section \<open>Seed, empty canvas, export\<close>

lemma seed_explored:
  "reachable_from_events seed_draft =
     [''event-cart-updated'', ''condition-category-in'', ''condition-date-window'', ''policy-10-discount'',
      ''action-evaluate-discount'', ''slot-upsell'']"
  by (simp add: reachable_from_events_def seed_draft_def seed_nodes_def seed_edges_def canvas_node_of_def
      canvas_edge_of_def next_nodes_def)

lemma seed_valid: "validate_draft seed_draft = \<lparr>dv_errors = [], dv_warnings = []\<rparr>"
  unfolding validate_draft_def seed_explored
  by (simp add: check_edges_def edge_check_def seed_draft_def seed_nodes_def seed_edges_def canvas_node_of_def
      canvas_edge_of_def node_issues_def connector_issues_def node_type_of_def node_types_def may_follow_def
      find_node_def issue_if_def count_of_def increment_def zero_counters_def js_trim_def js_space_def)

lemma empty_valid: "cd_nodes d = [] \<Longrightarrow> cd_edges d = [] \<Longrightarrow> validate_draft d = \<lparr>dv_errors = [], dv_warnings = []\<rparr>"
  by (simp add: validate_draft_def check_edges_def)

text \<open>
  The seed button brings back the seed draft, and that draft validates without an issue.
  Clearing the canvas leaves a draft that validates without an issue, too, although the
  status line then says that validation is blocking.
\<close>

lemma reset_and_clear:
  "ed_draft (handle_event shown now ResetSeed ed) = seed_draft \<and>
   ed_validation (handle_event shown now ResetSeed ed) = Some \<lparr>dv_errors = [], dv_warnings = []\<rparr> \<and>
   ed_nodes (handle_event shown now ClearCanvas ed) = [] \<and>
   ed_validation (handle_event shown now ClearCanvas ed) = Some \<lparr>dv_errors = [], dv_warnings = []\<rparr> \<and>
   ed_status (handle_event shown now ClearCanvas ed) = ''Canvas cleared. Validation is now blocking.''"
  by (simp add: handle_event_def reset_seed_def clear_canvas_def seed_valid empty_valid show_status_def)


section \<open>Identifiers that repeat\<close>

definition cart_item :: palette_item where
  "cart_item = palette_item_of ''event'' ''CartUpdated'' ''Checkout cart event''"

definition some_rect :: canvas_rect where
  "some_rect = \<lparr>cr_left = Fin 250, cr_top = Fin 60, cr_width = Fin 800, cr_height = Fin 600\<rparr>"

definition drop_cart :: editor_event where
  "drop_cart = Drop some_rect cart_item (Fin 400) (Fin 300)"

lemma drop_cart_ok: "event_ok drop_cart"
  by (simp add: drop_cart_def event_ok_def rect_ok_def some_rect_def pixel_def)

lemma cart_slug: "slugify ''CartUpdated'' = ''cartupdated''"
  by (simp add: slugify_def lower_char_def char_of_def bit_iff_odd is_lower_def is_digit_def strip_dashes_def
      starts_with_def)

lemma nat_str_2: "nat_str (Suc (Suc 0)) = ''2''"
  by (subst nat_str.simps) (simp add: digit_char_def char_of_def bit_iff_odd)

text \<open>Dropping the item when the canvas has one event node.\<close>

lemma drop_cart_nodes:
  assumes "length (filter (\<lambda>n. cn_type n = ''event'') (ed_nodes ed)) = 1"
  shows "\<exists>n. ed_nodes (handle_event shown now drop_cart ed) = ed_nodes ed @ [n] \<and>
    ed_selected (handle_event shown now drop_cart ed) = Some ''event-cartupdated-2'' \<and>
    ed_edges (handle_event shown now drop_cart ed) = ed_edges ed \<and>
    ed_edgeSource (handle_event shown now drop_cart ed) = ed_edgeSource ed \<and>
    cn_id n = ''event-cartupdated-2'' \<and> cn_type n = ''event''"
  using assms
  by (simp add: handle_event_def drop_cart_def drop_item_def create_node_def cart_item_def palette_item_of_def
      text_or_def or_text_def node_type_of_def node_types_def cart_slug nat_str_2 Let_def)

text \<open>Selecting the first node, then deleting it.\<close>

lemma delete_first:
  assumes "ed_nodes ed = n # ns" and "ed_edgeSource ed = None"
  shows "ed_nodes (handle_event shown now2 DeleteNode (handle_event shown now1 (PointerDown 0 True x y) ed)) =
      filter (\<lambda>m. cn_id m \<noteq> cn_id n) ns"
    and "ed_edgeSource (handle_event shown now2 DeleteNode (handle_event shown now1 (PointerDown 0 True x y) ed)) = None"
  using assms
  by (simp_all add: handle_event_def pointer_down_def armed_for_def find_node_def delete_node_def Let_def)

text \<open>
  C33. The identifier of a dropped node counts the nodes of its type, so it can be that of a
  node already on the canvas: a page can be reached on which two nodes have one identifier,
  and deleting one of them deletes both. (The proof drops an event, deletes the event that
  was there before and drops the same event again.)
\<close>

theorem dropped_identifiers_repeat:
  "\<exists>ed. editor_reachable (\<lambda>_. []) ed \<and>
     length (filter (\<lambda>n. cn_id n = ''event-cartupdated-2'') (ed_nodes ed)) = 2 \<and>
     filter (\<lambda>n. cn_id n = ''event-cartupdated-2'') (ed_nodes (handle_event (\<lambda>_. []) 0 DeleteNode ed)) = []"
proof -
  let ?h = "handle_event (\<lambda>_. []) 0"
  define p0 where "p0 = start_page (\<lambda>_. []) 0"
  define p1 where "p1 = ?h drop_cart p0"
  define p2 where "p2 = ?h (PointerDown 0 True (Fin 300) (Fin 250)) p1"
  define p3 where "p3 = ?h DeleteNode p2"
  define p4 where "p4 = ?h drop_cart p3"
  have reach: "editor_reachable (\<lambda>_. []) p4"
    unfolding p4_def p3_def p2_def p1_def p0_def
    by (intro editor_reachable.intros drop_cart_ok) (simp_all add: event_ok_def pixel_def)
  have p0: "ed_nodes p0 = seed_nodes" "ed_edgeSource p0 = None"
    by (simp_all add: p0_def start_page_def seed_draft_def)
  obtain n where n: "ed_nodes p1 = seed_nodes @ [n]" "ed_edgeSource p1 = None" "cn_id n = ''event-cartupdated-2''"
      "cn_type n = ''event''"
    using drop_cart_nodes[of p0 "\<lambda>_. []" 0] p0 unfolding p1_def
    by (auto simp: seed_nodes_def canvas_node_of_def)
  obtain m ms where seed: "seed_nodes = m # ms" "cn_id m = ''event-cart-updated''"
      "filter (\<lambda>k. cn_id k \<noteq> cn_id m) ms = ms" "filter (\<lambda>k. cn_type k = ''event'') ms = []"
      "filter (\<lambda>k. cn_id k = ''event-cartupdated-2'') ms = []"
    by (simp add: seed_nodes_def canvas_node_of_def)
  have p3: "ed_nodes p3 = ms @ [n]"
    using delete_first(1)[of p1 m "ms @ [n]"] n seed unfolding p3_def p2_def by simp
  obtain k where k: "ed_nodes p4 = (ms @ [n]) @ [k]" "ed_selected p4 = Some ''event-cartupdated-2''"
      "cn_id k = ''event-cartupdated-2''"
    using drop_cart_nodes[of p3 "\<lambda>_. []" 0] p3 n seed(4) unfolding p4_def by auto
  have "\<exists>s. find_node (ed_nodes p4) (ed_selected p4) = Some s \<and> cn_id s = ''event-cartupdated-2''"
    unfolding k(2) by (rule find_node_ex) (simp add: k(1,3))
  then have "filter (\<lambda>n. cn_id n = ''event-cartupdated-2'') (ed_nodes (?h DeleteNode p4)) = []"
    by (auto simp: handle_event_def delete_node_def Let_def filter_empty_conv)
  moreover have "length (filter (\<lambda>n. cn_id n = ''event-cartupdated-2'') (ed_nodes p4)) = 2"
    using k n(3) seed(5) by simp
  ultimately show ?thesis using reach by blast
qed

end
