(* ===== verification/JsonParse.thy ===== *)
theory JsonParse
  imports JsonText
begin

text \<open>
  \<open>JSON.parse\<close>: a scanner that turns the text into tokens and a reader that builds the
  value with a stack of open arrays and objects, one token at a time. \<open>None\<close> is the
  \<open>SyntaxError\<close>. A member that occurs twice keeps its first place and its last value.
  Escapes of code units above 255 are outside the strings of the model and rejected.
\<close>

section \<open>Scanning\<close>

datatype token =
    OpenBrace
  | CloseBrace
  | OpenBracket
  | CloseBracket
  | Comma
  | Colon
  | Lit json

definition json_space :: "char \<Rightarrow> bool" where
  "json_space c \<longleftrightarrow> c \<in> set [CHR 0x09, CHR 0x0A, CHR 0x0D, CHR 0x20]"

fun hex_value :: "char \<Rightarrow> nat option" where
  "hex_value c =
     (let n = (of_char c :: nat) in
      if 48 \<le> n \<and> n \<le> 57 then Some (n - 48)
      else if 97 \<le> n \<and> n \<le> 102 then Some (n - 87)
      else if 65 \<le> n \<and> n \<le> 70 then Some (n - 55)
      else None)"

definition hex_char :: "string \<Rightarrow> char option" where
  "hex_char ds =
     (case map hex_value ds of
        [Some 0, Some 0, Some h, Some l] \<Rightarrow> Some (char_of (16 * h + l))
      | _ \<Rightarrow> None)"

definition simple_escape :: "char \<Rightarrow> char option" where
  "simple_escape c =
     (if c = CHR 0x22 \<or> c = CHR 0x5C \<or> c = CHR 0x2F then Some c
      else if c = CHR ''b'' then Some (CHR 0x08)
      else if c = CHR ''t'' then Some (CHR 0x09)
      else if c = CHR ''n'' then Some (CHR 0x0A)
      else if c = CHR ''f'' then Some (CHR 0x0C)
      else if c = CHR ''r'' then Some (CHR 0x0D)
      else None)"

text \<open>The rest of a string literal, after its opening quotation mark, and what follows it.\<close>

fun read_chars :: "string \<Rightarrow> (string \<times> string) option" where
  "read_chars [] = None"
| "read_chars (c # s) =
     (if c = CHR 0x22 then Some ([], s)
      else if c = CHR 0x5C then
        (case s of
           [] \<Rightarrow> None
         | d # s' \<Rightarrow>
             if d = CHR ''u'' then
               (case s' of
                  a # b # e # f # s'' \<Rightarrow>
                    Option.bind (hex_char [a, b, e, f])
                      (\<lambda>x. map_option (\<lambda>(xs, r). (x # xs, r)) (read_chars s''))
                | _ \<Rightarrow> None)
             else Option.bind (simple_escape d)
               (\<lambda>x. map_option (\<lambda>(xs, r). (x # xs, r)) (read_chars s')))
      else if of_char c < (32 :: nat) then None
      else map_option (\<lambda>(xs, r). (c # xs, r)) (read_chars s))"

definition digits_of :: "string \<Rightarrow> string \<times> string" where
  "digits_of s = (takeWhile is_digit s, dropWhile is_digit s)"

text \<open>The parts of a number: the integer, the digits of the fraction, the exponent.\<close>

definition read_integer :: "string \<Rightarrow> (string \<times> string) option" where
  "read_integer s =
     (case s of
        [] \<Rightarrow> None
      | c # r \<Rightarrow> if c = CHR ''0'' then Some ([c], r)
                else if is_digit c then Some (digits_of s)
                else None)"

definition read_fraction_digits :: "string \<Rightarrow> (string \<times> string) option" where
  "read_fraction_digits s =
     (case s of
        [] \<Rightarrow> Some ([], s)
      | c # r \<Rightarrow> if c = CHR ''.''
                then (let (ds, r') = digits_of r in if ds = [] then None else Some (ds, r'))
                else Some ([], s))"

definition read_signed_digits :: "string \<Rightarrow> (int \<times> string) option" where
  "read_signed_digits s =
     (let negative = (case s of c # r \<Rightarrow> c = CHR ''-'' | [] \<Rightarrow> False);
          r = (case s of c # r \<Rightarrow> if c = CHR ''-'' \<or> c = CHR ''+'' then r else s | [] \<Rightarrow> s);
          (ds, r') = digits_of r
      in if ds = [] then None
         else Some (if negative then - int (digits_val 0 ds) else int (digits_val 0 ds), r'))"

definition read_exponent :: "string \<Rightarrow> (int \<times> string) option" where
  "read_exponent s =
     (case s of
        [] \<Rightarrow> Some (0, s)
      | c # r \<Rightarrow> if c = CHR ''e'' \<or> c = CHR ''E'' then read_signed_digits r else Some (0, s))"

definition decimal_value :: "bool \<Rightarrow> string \<Rightarrow> string \<Rightarrow> int \<Rightarrow> rat" where
  "decimal_value negative ip fp e =
     (let m = of_nat (digits_val 0 (ip @ fp)) :: rat; k = e - int (length fp);
          x = (if 0 \<le> k then m * 10 ^ nat k else m / 10 ^ nat (- k))
      in if negative then - x else x)"

definition read_number :: "string \<Rightarrow> (js_number \<times> string) option" where
  "read_number s =
     (let negative = (case s of c # r \<Rightarrow> c = CHR ''-'' | [] \<Rightarrow> False);
          s' = (if negative then tl s else s)
      in Option.bind (read_integer s') (\<lambda>(ip, r).
         Option.bind (read_fraction_digits r) (\<lambda>(fp, r').
         map_option (\<lambda>(e, r''). (round_double (decimal_value negative ip fp e), r''))
           (read_exponent r'))))"

definition read_token :: "string \<Rightarrow> (token \<times> string) option" where
  "read_token s =
     (case s of
        [] \<Rightarrow> None
      | c # r \<Rightarrow>
          if c = CHR ''{'' then Some (OpenBrace, r)
          else if c = CHR ''}'' then Some (CloseBrace, r)
          else if c = CHR ''['' then Some (OpenBracket, r)
          else if c = CHR '']'' then Some (CloseBracket, r)
          else if c = CHR '','' then Some (Comma, r)
          else if c = CHR '':'' then Some (Colon, r)
          else if c = CHR 0x22 then map_option (\<lambda>(xs, r'). (Lit (JStr xs), r')) (read_chars r)
          else if starts_with ''null'' s then Some (Lit JNull, drop 4 s)
          else if starts_with ''true'' s then Some (Lit (JBool True), drop 4 s)
          else if starts_with ''false'' s then Some (Lit (JBool False), drop 5 s)
          else map_option (\<lambda>(n, r'). (Lit (JNum n), r')) (read_number s))"

lemma read_chars_shorter: "read_chars s = Some (xs, r) \<Longrightarrow> length r < length s"
  by (induction s arbitrary: xs r rule: read_chars.induct)
    (fastforce split: if_splits list.splits simp: bind_eq_Some_conv)+

lemma digits_of_length: "digits_of s = (ds, r) \<Longrightarrow> length ds + length r = length s"
  unfolding digits_of_def by (metis Pair_inject length_append takeWhile_dropWhile_id)

lemma read_integer_shorter: "read_integer s = Some (ip, r) \<Longrightarrow> length r < length s"
  by (auto simp: read_integer_def digits_of_def split: list.splits if_splits
      intro: le_imp_less_Suc length_dropWhile_le)

lemma read_fraction_digits_le: "read_fraction_digits s = Some (fp, r) \<Longrightarrow> length r \<le> length s"
  by (auto simp: read_fraction_digits_def digits_of_def Let_def split: list.splits if_splits
      intro: le_SucI length_dropWhile_le)

lemma read_signed_digits_le: "read_signed_digits s = Some (e, r) \<Longrightarrow> length r \<le> length s"
  by (auto simp: read_signed_digits_def digits_of_def Let_def split: list.splits if_splits
      intro: le_SucI length_dropWhile_le)

lemma read_exponent_le: "read_exponent s = Some (e, r) \<Longrightarrow> length r \<le> length s"
  by (auto simp: read_exponent_def split: list.splits if_splits dest!: read_signed_digits_le)

lemma read_number_shorter: "read_number s = Some (n, r) \<Longrightarrow> length r < length s"
  by (cases s) (auto simp: read_number_def Let_def bind_eq_Some_conv split: if_splits
      dest!: read_integer_shorter read_fraction_digits_le read_exponent_le)

lemma read_token_shorter: "read_token s = Some (t, r) \<Longrightarrow> length r < length s"
  by (auto simp: read_token_def split: list.splits if_splits
      dest!: read_chars_shorter read_number_shorter)

function tokens :: "string \<Rightarrow> token list option" where
  "tokens s =
     (case dropWhile json_space s of
        [] \<Rightarrow> Some []
      | c # s' \<Rightarrow>
          (case read_token (c # s') of
             None \<Rightarrow> None
           | Some (t, r) \<Rightarrow> map_option (\<lambda>ts. t # ts) (tokens r)))"
  by pat_completeness auto

termination
proof (relation "measure length")
  fix s c s' p t r
  assume "dropWhile json_space s = c # s'" and "read_token (c # s') = Some p" and "(t, r) = p"
  then show "(r, s) \<in> measure length"
    using length_dropWhile_le[of json_space s] by (auto dest!: read_token_shorter)
qed simp

declare tokens.simps [simp del]


section \<open>Reading values\<close>

datatype open_value = OpenArray "json list" | OpenObject json_object string

datatype reading =
    WantValue
  | WantItem
  | WantMember
  | WantName json_object
  | WantColon json_object string
  | Done json

fun read_json :: "reading \<Rightarrow> open_value list \<Rightarrow> token list \<Rightarrow> json option" where
  "read_json (Done v) [] ts = (if ts = [] then Some v else None)"
| "read_json (Done v) (OpenArray xs # os) (Comma # ts) = read_json WantValue (OpenArray (xs @ [v]) # os) ts"
| "read_json (Done v) (OpenArray xs # os) (CloseBracket # ts) = read_json (Done (JArr (xs @ [v]))) os ts"
| "read_json (Done v) (OpenObject m k # os) (Comma # ts) = read_json (WantName (obj_set k v m)) os ts"
| "read_json (Done v) (OpenObject m k # os) (CloseBrace # ts) = read_json (Done (JObj (obj_set k v m))) os ts"
| "read_json (Done v) _ _ = None"
| "read_json WantItem os (CloseBracket # ts) = read_json (Done (JArr [])) os ts"
| "read_json WantItem os ts =
     (case ts of
        Lit j # ts' \<Rightarrow> read_json (Done j) (OpenArray [] # os) ts'
      | OpenBracket # ts' \<Rightarrow> read_json WantItem (OpenArray [] # os) ts'
      | OpenBrace # ts' \<Rightarrow> read_json WantMember (OpenArray [] # os) ts'
      | _ \<Rightarrow> None)"
| "read_json WantValue os ts =
     (case ts of
        Lit j # ts' \<Rightarrow> read_json (Done j) os ts'
      | OpenBracket # ts' \<Rightarrow> read_json WantItem os ts'
      | OpenBrace # ts' \<Rightarrow> read_json WantMember os ts'
      | _ \<Rightarrow> None)"
| "read_json WantMember os (CloseBrace # ts) = read_json (Done (JObj [])) os ts"
| "read_json WantMember os (Lit (JStr k) # ts) = read_json (WantColon [] k) os ts"
| "read_json WantMember os _ = None"
| "read_json (WantName m) os (Lit (JStr k) # ts) = read_json (WantColon m k) os ts"
| "read_json (WantName m) os _ = None"
| "read_json (WantColon m k) os (Colon # ts) = read_json WantValue (OpenObject m k # os) ts"
| "read_json (WantColon m k) os _ = None"

definition parse_json :: "string \<Rightarrow> json option" where
  "parse_json s = Option.bind (tokens s) (read_json WantValue [])"


section \<open>Parsing what was stringified\<close>

text \<open>
  The values whose text is read back unchanged: numbers are integers that a double
  represents exactly, and no object has two members of one name.
\<close>

fun json_exact :: "json \<Rightarrow> bool" where
  "json_exact (JNum n) \<longleftrightarrow> (case n of Fin x \<Rightarrow> of_int \<lfloor>x\<rfloor> = x \<and> \<bar>x\<bar> < 2 ^ 53 | _ \<Rightarrow> False)"
| "json_exact (JArr xs) \<longleftrightarrow> list_all json_exact xs"
| "json_exact (JObj kvs) \<longleftrightarrow> distinct (map fst kvs) \<and> list_all (\<lambda>(k, v). json_exact v) kvs"
| "json_exact j \<longleftrightarrow> True"

fun commas :: "token list list \<Rightarrow> token list" where
  "commas [] = []"
| "commas [t] = t"
| "commas (t # u # us) = t @ Comma # commas (u # us)"

fun json_tokens :: "json \<Rightarrow> token list" where
  "json_tokens (JArr xs) = OpenBracket # commas (map json_tokens xs) @ [CloseBracket]"
| "json_tokens (JObj kvs) =
     OpenBrace # commas (map (\<lambda>(k, v). Lit (JStr k) # Colon # json_tokens v) kvs) @ [CloseBrace]"
| "json_tokens j = [Lit j]"

lemma hex_value_digit: "d < 16 \<Longrightarrow> hex_value (hex_digit d) = Some d"
  by (simp add: hex_digit_def digit_char_def Let_def)

lemma escaped_chars:
  "(char_of (34 :: nat) :: char) = CHR 0x22" "(char_of (92 :: nat) :: char) = CHR 0x5C"
  "(char_of (8 :: nat) :: char) = CHR 0x08" "(char_of (9 :: nat) :: char) = CHR 0x09"
  "(char_of (10 :: nat) :: char) = CHR 0x0A" "(char_of (12 :: nat) :: char) = CHR 0x0C"
  "(char_of (13 :: nat) :: char) = CHR 0x0D"
  by (simp_all add: char_of_def bit_iff_odd)

lemma read_escaped:
  "read_chars (escape_char c @ t) = map_option (\<lambda>(xs, r). (c # xs, r)) (read_chars t)"
proof -
  have same: "c = char_of n" if "of_char c = n" for n :: nat
    using that by auto
  have hex: "hex_char [CHR ''0'', CHR ''0'', hex_digit (of_char c div 16), hex_digit (of_char c mod 16)] = Some c"
    if "of_char c < (32 :: nat)"
    using that by (simp add: hex_char_def hex_value_digit Let_def del: hex_value.simps)
      (simp add: Let_def mult.commute)
  show ?thesis
    using hex
    by (auto simp: escape_char_def Let_def simple_escape_def escaped_chars dest!: same
        split: if_splits simp del: hex_value.simps)
qed

lemma read_quoted:
  "read_chars (concat (map escape_char s) @ [CHR 0x22] @ r) = Some (s, r)"
  by (induction s) (simp_all add: read_escaped)

definition ends_value :: "string \<Rightarrow> bool" where
  "ends_value r \<longleftrightarrow> (case r of [] \<Rightarrow> True | c # r' \<Rightarrow> c \<in> {CHR '','', CHR '']'', CHR ''}''})"

lemma ends_value_scan:
  assumes "ends_value r"
  shows "takeWhile is_digit (ds @ r) = takeWhile is_digit ds"
    and "list_all is_digit ds \<Longrightarrow> dropWhile is_digit (ds @ r) = r"
    and "read_fraction_digits r = Some ([], r)" and "read_exponent r = Some (0, r)"
proof -
  have stop: "r = [] \<or> \<not> is_digit (hd r)"
    using assms by (auto simp: ends_value_def is_digit_def split: list.splits)
  then have "takeWhile is_digit r = []" "dropWhile is_digit r = r"
    by (cases r; simp)+
  then show "takeWhile is_digit (ds @ r) = takeWhile is_digit ds"
    and "list_all is_digit ds \<Longrightarrow> dropWhile is_digit (ds @ r) = r"
    by (induction ds) auto
  show "read_fraction_digits r = Some ([], r)" and "read_exponent r = Some (0, r)"
    using assms by (auto simp: ends_value_def read_fraction_digits_def read_exponent_def split: list.splits)
qed

lemma nat_str_head:
  assumes "0 < n"
  shows "\<exists>c s. nat_str n = c # s \<and> is_digit c \<and> c \<noteq> CHR ''0''"
  using assms
proof (induction n rule: nat_str.induct)
  case (1 n)
  show ?case
  proof (cases "n < 10")
    case True
    then have "nat_str n = [digit_char n]" by (subst nat_str.simps) simp
    moreover have "digit_val (digit_char n) \<noteq> digit_val (CHR ''0'')"
      using True 1(2) digit_char_digit[of n] by (simp add: digit_val_def)
    ultimately show ?thesis using True digit_char_digit[of n] by auto
  next
    case False
    then have "0 < n div 10" by (simp add: div_greater_zero_iff)
    with 1(1) False obtain c s where "nat_str (n div 10) = c # s" "is_digit c" "c \<noteq> CHR ''0''"
      by blast
    then show ?thesis using False by (subst nat_str.simps) simp
  qed
qed

lemma read_integer_nat_str:
  assumes "ends_value r"
  shows "read_integer (nat_str n @ r) = Some (nat_str n, r)"
proof (cases "n = 0")
  case True
  have "nat_str 0 = ''0''" by (subst nat_str.simps) (simp add: js_simps)
  then show ?thesis by (simp add: True read_integer_def)
next
  case False
  then obtain c s where cs: "nat_str n = c # s" "is_digit c" "c \<noteq> CHR ''0''"
    using nat_str_head[of n] by auto
  have all: "list_all is_digit (nat_str n)" using nat_str_digits[of n] by (simp add: list_all_iff)
  then have "digits_of (nat_str n @ r) = (nat_str n, r)"
    using ends_value_scan(1,2)[OF assms]
    by (metis digits_of_def list_all_iff takeWhile_eq_all_conv)
  then show ?thesis using cs by (simp add: read_integer_def)
qed

lemma read_int_str:
  assumes "\<bar>i\<bar> < 2 ^ 53" and r: "ends_value r"
  shows "read_number (int_str i @ r) = Some (Fin (of_int i), r)"
proof -
  have decimal: "decimal_value neg (nat_str n) [] 0 = (if neg then - of_nat n else of_nat n)" for neg n
    by (simp add: decimal_value_def)
  obtain c s where cs: "nat_str n @ r = c # s" and c: "c \<noteq> CHR ''-''" if "n = nat \<bar>i\<bar>" for n
    using minus_notin_nat_str[of "nat \<bar>i\<bar>"] nat_str_nonempty[of "nat \<bar>i\<bar>"]
    by (metis append_Cons list.set_intros(1) neq_Nil_conv)
  have int: "read_integer (nat_str n @ r) = Some (nat_str n, r)" for n
    by (rule read_integer_nat_str[OF r])
  show ?thesis
  proof (cases "i < 0")
    case True
    then have "- of_nat (nat (- i)) = (of_int i :: rat)" by simp
    with True show ?thesis
      using round_double_int[OF assms(1)]
      by (simp add: read_number_def int_str_def int decimal ends_value_scan(3,4)[OF r])
  next
    case False
    then have "of_nat (nat i) = (of_int i :: rat)" and "nat \<bar>i\<bar> = nat i"
      and "int_str i = nat_str (nat i)" by (simp_all add: int_str_def)
    then show ?thesis
      using cs[OF refl] c[OF refl] round_double_int[OF assms(1)] int[of "nat i"]
      by (simp add: read_number_def decimal ends_value_scan(3,4)[OF r])
  qed
qed

text \<open>One token at the front of a text.\<close>

lemma tokens_step:
  assumes "read_token (c # s) = Some (t, r)" and "\<not> json_space c"
  shows "tokens (c # s) = map_option (\<lambda>ts. t # ts) (tokens r)"
  using assms by (subst tokens.simps) simp

lemma tokens_Nil [simp]: "tokens [] = Some []"
  by (subst tokens.simps) simp

lemma tokens_marks:
  "tokens (CHR ''['' # s) = map_option (\<lambda>ts. OpenBracket # ts) (tokens s)"
  "tokens (CHR '']'' # s) = map_option (\<lambda>ts. CloseBracket # ts) (tokens s)"
  "tokens (CHR ''{'' # s) = map_option (\<lambda>ts. OpenBrace # ts) (tokens s)"
  "tokens (CHR ''}'' # s) = map_option (\<lambda>ts. CloseBrace # ts) (tokens s)"
  "tokens (CHR '','' # s) = map_option (\<lambda>ts. Comma # ts) (tokens s)"
  "tokens (CHR '':'' # s) = map_option (\<lambda>ts. Colon # ts) (tokens s)"
  by (rule tokens_step; simp add: read_token_def json_space_def)+

lemma tokens_quoted:
  "tokens (quote_string s @ r) = map_option (\<lambda>ts. Lit (JStr s) # ts) (tokens r)"
  using read_quoted[of s r]
  by (simp add: quote_string_def tokens_step read_token_def json_space_def)

lemma tokens_words:
  "tokens (''null'' @ r) = map_option (\<lambda>ts. Lit JNull # ts) (tokens r)"
  "tokens (''true'' @ r) = map_option (\<lambda>ts. Lit (JBool True) # ts) (tokens r)"
  "tokens (''false'' @ r) = map_option (\<lambda>ts. Lit (JBool False) # ts) (tokens r)"
  by (simp_all add: tokens_step read_token_def json_space_def starts_with_def)

lemma number_start:
  assumes "is_digit c \<or> c = CHR ''-''"
  shows "\<not> json_space c"
    and "read_token (c # s) = map_option (\<lambda>(n, r). (Lit (JNum n), r)) (read_number (c # s))"
proof -
  have "c \<notin> {CHR ''{'', CHR ''}'', CHR ''['', CHR '']'', CHR '','', CHR '':'', CHR 0x22, CHR ''n'',
      CHR ''t'', CHR ''f'', CHR 0x09, CHR 0x0A, CHR 0x0D, CHR 0x20}"
    using assms by (auto simp: is_digit_def)
  then show "\<not> json_space c"
    and "read_token (c # s) = map_option (\<lambda>(n, r). (Lit (JNum n), r)) (read_number (c # s))"
    by (simp_all add: json_space_def read_token_def starts_with_def)
qed

lemma tokens_int:
  assumes "\<bar>i\<bar> < 2 ^ 53" and r: "ends_value r"
  shows "tokens (int_str i @ r) = map_option (\<lambda>ts. Lit (JNum (Fin (of_int i))) # ts) (tokens r)"
proof -
  have "\<exists>c s. nat_str n @ r = c # s \<and> is_digit c" for n
    using nat_str_digits[of n] nat_str_nonempty[of n]
    by (metis append_Cons list.set_intros(1) neq_Nil_conv)
  then obtain c s where cs: "int_str i @ r = c # s" and c: "is_digit c \<or> c = CHR ''-''"
    by (cases "i < 0") (simp_all add: int_str_def, blast)
  have "read_number (c # s) = Some (Fin (of_int i), r)"
    using read_int_str[OF assms] by (simp add: cs)
  then show ?thesis
    using number_start(1)[OF c] number_start(2)[OF c, of s] by (simp add: cs tokens_step)
qed

text \<open>The text of a value scans to its tokens.\<close>

lemma ends_value_marks [simp]:
  "ends_value (CHR '','' # r)" "ends_value (CHR '']'' # r)" "ends_value (CHR ''}'' # r)" "ends_value []"
  by (simp_all add: ends_value_def)

lemma tokens_joined:
  assumes "\<And>x r. x \<in> set xs \<Longrightarrow> ends_value r \<Longrightarrow> tokens (f x @ r) = map_option (\<lambda>ts. g x @ ts) (tokens r)"
    and "ends_value r"
  shows "tokens (js_join '','' (map f xs) @ r) = map_option (\<lambda>ts. commas (map g xs) @ ts) (tokens r)"
  using assms
proof (induction xs rule: induct_list012)
  case 1
  then show ?case by (cases "tokens r") simp_all
next
  case (3 x y zs)
  have "tokens (js_join '','' (map f (y # zs)) @ r) =
      map_option (\<lambda>ts. commas (map g (y # zs)) @ ts) (tokens r)"
    using 3 by simp
  then show ?case
    using 3(3)[of x "CHR '','' # js_join '','' (map f (y # zs)) @ r"]
    by (simp add: tokens_marks option.map_comp o_def)
qed simp

lemma tokens_stringify:
  "json_exact j \<Longrightarrow> ends_value r \<Longrightarrow>
   tokens (stringify shown j @ r) = map_option (\<lambda>ts. json_tokens j @ ts) (tokens r)"
proof (induction j arbitrary: r)
  case JNull
  then show ?case using tokens_words(1)[of r] by simp
next
  case (JBool b)
  then show ?case using tokens_words(2,3)[of r] by (cases b) simp_all
next
  case (JNum n)
  then obtain x where n: "n = Fin x" "of_int \<lfloor>x\<rfloor> = x" "\<bar>x\<bar> < 2 ^ 53" by (cases n) auto
  then have "(of_int \<bar>\<lfloor>x\<rfloor>\<bar> :: rat) < of_int (2 ^ 53)" by (metis of_int_abs of_int_numeral of_int_power)
  then have small: "\<bar>\<lfloor>x\<rfloor>\<bar> < 2 ^ 53" by (simp only: of_int_less_iff)
  have "\<bar>x\<bar> < 10 ^ 21" using n(3) by simp
  then show ?case
    using tokens_int[OF small JNum.prems(2)] n by (simp add: number_text_def)
next
  case (JStr s)
  then show ?case using tokens_quoted[of s r] by simp
next
  case (JArr xs)
  have "tokens (js_join '','' (map (stringify shown) xs) @ CHR '']'' # r) =
      map_option (\<lambda>ts. commas (map json_tokens xs) @ ts) (tokens (CHR '']'' # r))"
    using JArr by (intro tokens_joined) (auto simp: list_all_iff)
  then show ?case by (simp add: tokens_marks option.map_comp o_def)
next
  case (JObj kvs)
  have "tokens (js_join '','' (map (\<lambda>(k, v). quote_string k @ '':'' @ stringify shown v) kvs) @ CHR ''}'' # r) =
      map_option (\<lambda>ts. commas (map (\<lambda>(k, v). Lit (JStr k) # Colon # json_tokens v) kvs) @ ts)
        (tokens (CHR ''}'' # r))"
  proof (rule tokens_joined)
    fix p r'
    assume p: "p \<in> set kvs" and r': "ends_value r'"
    obtain k v where kv: "p = (k, v)" by force
    have "tokens (stringify shown v @ r') = map_option (\<lambda>ts. json_tokens v @ ts) (tokens r')"
      using JObj.prems p r' by (intro JObj.IH[of p v]) (auto simp: kv list_all_iff)
    then show "tokens ((case p of (k, v) \<Rightarrow> quote_string k @ '':'' @ stringify shown v) @ r') =
        map_option (\<lambda>ts. (case p of (k, v) \<Rightarrow> Lit (JStr k) # Colon # json_tokens v) @ ts) (tokens r')"
      using tokens_quoted[of k "CHR '':'' # stringify shown v @ r'"]
      by (simp add: kv tokens_marks option.map_comp o_def)
  qed simp
  then show ?case by (simp add: tokens_marks option.map_comp o_def)
qed

text \<open>The tokens of a value read as that value.\<close>

lemma obj_set_fresh: "k \<notin> fst ` set m \<Longrightarrow> obj_set k v m = m @ [(k, v)]"
  by (induction m) (auto simp: obj_set_def)

lemma read_items:
  assumes "\<And>x os ts. x \<in> set xs \<Longrightarrow> read_json WantValue os (json_tokens x @ ts) = read_json (Done x) os ts"
    and "xs \<noteq> []"
  shows "read_json WantValue (OpenArray ys # os) (commas (map json_tokens xs) @ CloseBracket # ts) =
         read_json (Done (JArr (ys @ xs))) os ts"
  using assms
proof (induction xs arbitrary: ys rule: induct_list012)
  case (3 x y zs)
  then show ?case by simp
qed simp_all

lemma read_members:
  assumes "\<And>k v os ts. (k, v) \<in> set kvs \<Longrightarrow>
      read_json WantValue os (json_tokens v @ ts) = read_json (Done v) os ts"
    and "kvs \<noteq> []" and "distinct (map fst (m @ kvs))"
  shows "read_json (WantName m) os
           (commas (map (\<lambda>(k, v). Lit (JStr k) # Colon # json_tokens v) kvs) @ CloseBrace # ts) =
         read_json (Done (JObj (m @ kvs))) os ts"
  using assms
proof (induction kvs arbitrary: m rule: induct_list012)
  case (2 p)
  obtain k v where p: "p = (k, v)" by force
  have "obj_set k v m = m @ [(k, v)]" using 2(3) by (simp add: p obj_set_fresh)
  then show ?case using 2(1)[of k v] by (simp add: p)
next
  case (3 p q kvs)
  obtain k v where p: "p = (k, v)" by force
  have "obj_set k v m = m @ [(k, v)]" using 3(5) by (simp add: p obj_set_fresh)
  moreover have "read_json (WantName (m @ [(k, v)])) os
      (commas (map (\<lambda>(k, v). Lit (JStr k) # Colon # json_tokens v) (q # kvs)) @ CloseBrace # ts) =
      read_json (Done (JObj ((m @ [(k, v)]) @ q # kvs))) os ts"
  proof (rule 3(2))
    show "distinct (map fst ((m @ [(k, v)]) @ q # kvs))" using 3(5) by (simp add: p)
  next
    fix k' v' os ts
    assume "(k', v') \<in> set (q # kvs)"
    then show "read_json WantValue os (json_tokens v' @ ts) = read_json (Done v') os ts"
      by (intro 3(3)) auto
  qed simp
  ultimately show ?case
    using 3(3)[of k v] by (simp add: p)
qed simp

lemma read_json_tokens:
  "json_exact j \<Longrightarrow> read_json WantValue os (json_tokens j @ ts) = read_json (Done j) os ts"
proof (induction j arbitrary: os ts)
  case (JArr xs)
  show ?case
  proof (cases xs)
    case (Cons x xs')
    obtain us where us: "commas (map json_tokens xs) @ CloseBracket # ts = json_tokens x @ us"
      using Cons by (cases xs') simp_all
    have "read_json WantValue os (json_tokens (JArr xs) @ ts) = read_json WantItem os (json_tokens x @ us)"
      using us by simp
    also have "\<dots> = read_json WantValue (OpenArray [] # os) (json_tokens x @ us)"
      by (cases x) simp_all
    also have "\<dots> = read_json (Done (JArr ([] @ xs))) os ts"
      using JArr Cons unfolding us[symmetric] by (intro read_items) (auto simp: list_all_iff)
    finally show ?thesis by simp
  qed simp
next
  case (JObj kvs)
  show ?case
  proof (cases kvs)
    case (Cons p kvs')
    have first: "read_json WantMember os (Lit (JStr k) # us) = read_json (WantName []) os (Lit (JStr k) # us)"
      for k us by simp
    have "read_json (WantName []) os
        (commas (map (\<lambda>(k, v). Lit (JStr k) # Colon # json_tokens v) kvs) @ CloseBrace # ts) =
        read_json (Done (JObj ([] @ kvs))) os ts"
      using JObj Cons by (intro read_members) (fastforce simp: list_all_iff)+
    then show ?thesis
      using Cons by (cases kvs'; cases p) simp_all
  qed simp
qed simp_all

lemma parse_stringify: "json_exact j \<Longrightarrow> parse_json (stringify shown j) = Some j"
  using tokens_stringify[of j "[]" shown] read_json_tokens[of j "[]" "[]"]
  by (simp add: parse_json_def)

end
