(* ===== verification/Scripts.thy ===== *)
theory Scripts
  imports RegistryArtifacts JsonParse
begin

text \<open>
  Runs of the command-line scripts: the file system they read, what a run prints and the
  status it ends with, and the \<open>main\<close> functions of the three registry validators.

  A path is absolute and without a trailing slash, so the root directory is the empty
  string; \<open>path_join\<close> is \<open>path.join\<close> of such a directory and a relative path without
  dots. The content of a file is its decoded text. The time stamps of reports and the
  listing of what the validators print are left out.
\<close>

section \<open>Files\<close>

datatype file_entry = FileEntry string | DirEntry "string list"

type_synonym file_system = "string \<Rightarrow> file_entry option"

definition path_join :: "string \<Rightarrow> string \<Rightarrow> string" where
  "path_join base path = base @ ''/'' @ path"

text \<open>\<open>path.resolve\<close> of a directory and a path: empty segments and dots disappear, two dots
  go up.\<close>

definition step_into :: "string \<Rightarrow> string list \<Rightarrow> string list" where
  "step_into segment dirs =
     (if segment = [] \<or> segment = ''.'' then dirs
      else if segment = ''..'' then butlast dirs
      else dirs @ [segment])"

definition path_resolve :: "string \<Rightarrow> string \<Rightarrow> string" where
  "path_resolve dir path =
     (let full = (if starts_with ''/'' path then path else dir @ ''/'' @ path)
      in concat (map (\<lambda>s. ''/'' @ s) (fold step_into (split_on (CHR ''/'') full) [])))"

text \<open>\<open>path.resolve(dir, '..')\<close>, which is also \<open>path.dirname\<close>, of a normal path.\<close>

definition parent_dir :: "string \<Rightarrow> string" where
  "parent_dir dir = rev (tl (dropWhile (\<lambda>c. c \<noteq> CHR ''/'') (rev dir)))"

definition exists_sync :: "file_system \<Rightarrow> string \<Rightarrow> bool" where
  "exists_sync fs path \<longleftrightarrow> fs path \<noteq> None"

definition no_entry :: "string \<Rightarrow> error" where
  "no_entry path =
     PlainError (''ENOENT: no such file or directory, open '' @ [CHR 0x27] @ path @ [CHR 0x27])"

definition read_file_sync :: "file_system \<Rightarrow> string \<Rightarrow> error + string" where
  "read_file_sync fs path =
     (case fs path of
        None \<Rightarrow> Inl (no_entry path)
      | Some (DirEntry _) \<Rightarrow> Inl (PlainError ''EISDIR: illegal operation on a directory, read'')
      | Some (FileEntry t) \<Rightarrow> Inr t)"

definition read_dir_sync :: "file_system \<Rightarrow> string \<Rightarrow> error + string list" where
  "read_dir_sync fs path =
     (case fs path of
        None \<Rightarrow> Inl (no_entry path)
      | Some (FileEntry _) \<Rightarrow> Inl (PlainError ''ENOTDIR: not a directory, scandir'')
      | Some (DirEntry names) \<Rightarrow> Inr names)"

definition parse_or_throw :: "string \<Rightarrow> error + json" where
  "parse_or_throw t =
     (case parse_json t of None \<Rightarrow> Inl (PlainError ''SyntaxError'') | Some j \<Rightarrow> Inr j)"

text \<open>\<open>Buffer.byteLength\<close> of a text in UTF-8.\<close>

definition byte_length :: "string \<Rightarrow> nat" where
  "byte_length t = sum_list (map (\<lambda>c. if of_char c < (128 :: nat) then 1 else 2) t)"


section \<open>Runs\<close>

text \<open>
  What a run leaves: its exit status, the lines on the two streams, and the exception that
  ended it, if one did.
\<close>

record script_run =
  run_status :: nat
  run_stdout :: "string list"
  run_stderr :: "string list"
  run_uncaught :: "error option"

definition passed :: "string list \<Rightarrow> script_run" where
  "passed lines = \<lparr>run_status = 0, run_stdout = lines, run_stderr = [], run_uncaught = None\<rparr>"

definition failed_with :: "string list \<Rightarrow> script_run" where
  "failed_with lines = \<lparr>run_status = 1, run_stdout = [], run_stderr = lines, run_uncaught = None\<rparr>"

definition crashed :: "error \<Rightarrow> script_run" where
  "crashed e = \<lparr>run_status = 1, run_stdout = [], run_stderr = [], run_uncaught = Some e\<rparr>"

text \<open>A step that may throw, and the rest of the script.\<close>

definition attempt :: "error + 'a \<Rightarrow> ('a \<Rightarrow> script_run) \<Rightarrow> script_run" where
  "attempt r rest = (case r of Inl e \<Rightarrow> crashed e | Inr x \<Rightarrow> rest x)"

definition reading :: "file_system \<Rightarrow> string \<Rightarrow> string \<Rightarrow> (string \<Rightarrow> script_run) \<Rightarrow> script_run" where
  "reading fs base path rest = attempt (read_file_sync fs (path_join base path)) rest"

definition listed :: "string \<Rightarrow> string list \<Rightarrow> string list" where
  "listed heading items = heading # map (\<lambda>i. ''- '' @ i) items"

text \<open>A guard that ends the run with a message.\<close>

definition require :: "bool \<Rightarrow> string list \<Rightarrow> script_run \<Rightarrow> script_run" where
  "require ok message rest = (if ok then rest else failed_with message)"

text \<open>Tables of contents and the markers they must contain.\<close>

definition missing_markers :: "(string \<times> string) list \<Rightarrow> string list" where
  "missing_markers checks = map snd (filter (\<lambda>(content, marker). \<not> js_includes marker content) checks)"

definition missing_files :: "file_system \<Rightarrow> string \<Rightarrow> string list \<Rightarrow> string list" where
  "missing_files fs base paths = filter (\<lambda>f. \<not> exists_sync fs (path_join base f)) paths"

definition require_markers :: "string \<Rightarrow> (string \<times> string) list \<Rightarrow> script_run \<Rightarrow> script_run" where
  "require_markers heading checks rest =
     require (missing_markers checks = []) (listed heading (missing_markers checks)) rest"

definition require_files ::
  "string \<Rightarrow> file_system \<Rightarrow> string \<Rightarrow> string list \<Rightarrow> script_run \<Rightarrow> script_run" where
  "require_files heading fs base paths rest =
     require (missing_files fs base paths = []) (listed heading (missing_files fs base paths)) rest"

named_theorems run_passes "when the steps of a script pass"

lemma passed_status [run_passes]: "run_status (passed ls) = 0"
  by (simp add: passed_def)

lemma failed_status [run_passes]: "run_status (failed_with ls) \<noteq> 0"
  by (simp add: failed_with_def)

lemma attempt_passes [run_passes]:
  "run_status (attempt r rest) = 0 \<longleftrightarrow> (\<exists>x. r = Inr x \<and> run_status (rest x) = 0)"
  by (auto simp: attempt_def crashed_def split: sum.splits)

lemma read_file_Inr: "read_file_sync fs path = Inr t \<longleftrightarrow> fs path = Some (FileEntry t)"
  by (auto simp: read_file_sync_def split: option.splits file_entry.splits)

lemma reading_passes [run_passes]:
  "run_status (reading fs base path rest) = 0 \<longleftrightarrow>
   (\<exists>t. fs (path_join base path) = Some (FileEntry t) \<and> run_status (rest t) = 0)"
  by (simp add: reading_def attempt_passes read_file_Inr)

lemma require_passes [run_passes]:
  "run_status (require ok message rest) = 0 \<longleftrightarrow> ok \<and> run_status rest = 0"
  by (simp add: require_def failed_with_def)

lemma missing_markers_Nil:
  "missing_markers checks = [] \<longleftrightarrow> list_all (\<lambda>(content, marker). js_includes marker content) checks"
  by (auto simp: missing_markers_def filter_empty_conv list_all_iff)

lemma missing_files_Nil:
  "missing_files fs base paths = [] \<longleftrightarrow> list_all (\<lambda>f. exists_sync fs (path_join base f)) paths"
  by (auto simp: missing_files_def filter_empty_conv list_all_iff)

lemma require_markers_passes [run_passes]:
  "run_status (require_markers heading checks rest) = 0 \<longleftrightarrow>
   list_all (\<lambda>(content, marker). js_includes marker content) checks \<and> run_status rest = 0"
  by (simp add: require_markers_def require_passes missing_markers_Nil)

lemma require_files_passes [run_passes]:
  "run_status (require_files heading fs base paths rest) = 0 \<longleftrightarrow>
   list_all (\<lambda>f. exists_sync fs (path_join base f)) paths \<and> run_status rest = 0"
  by (simp add: require_files_def require_passes missing_files_Nil)


section \<open>The validators as programs\<close>

text \<open>
  \<open>main\<close> of the three validators, run in the directory \<open>cwd\<close> with the arguments
  \<open>argv\<close>. The result is the exit status; an exception ends a run with status 1. The file a
  run writes with \<open>--report\<close> is left out: no run of the
  program uses that option.
\<close>

definition status_of :: "error + nat \<Rightarrow> nat" where
  "status_of r = (case r of Inl e \<Rightarrow> 1 | Inr n \<Rightarrow> n)"

definition read_document ::
  "file_system \<Rightarrow> string \<Rightarrow> string option \<Rightarrow> error + json" where
  "read_document fs cwd file =
     (case read_file_sync fs (path_resolve cwd (or_empty file)) of Inl e \<Rightarrow> Inl e | Inr t \<Rightarrow> parse_or_throw t)"

definition definition_main ::
  "(rat \<Rightarrow> string) \<Rightarrow> host_parse \<Rightarrow> file_system \<Rightarrow> string \<Rightarrow>
   instant \<Rightarrow> string list \<Rightarrow> nat" where
  "definition_main shown host fs cwd clock argv = status_of
     (case parse_args argv of
        Inl e \<Rightarrow> Inl e
      | Inr args \<Rightarrow>
          (case read_document fs cwd (da_file args) of
             Inl e \<Rightarrow> Inl e
           | Inr doc \<Rightarrow>
               (case validate_definition shown host clock (da_now args) (da_requireRuntimeReady args) doc of
                  Inl e \<Rightarrow> Inl e
                | Inr r \<Rightarrow> Inr (exit_code (da_expect args) (dr_valid r)))))"

definition envelope_main ::
  "(rat \<Rightarrow> string) \<Rightarrow> file_system \<Rightarrow> string \<Rightarrow> string list \<Rightarrow> nat" where
  "envelope_main shown fs cwd argv = status_of
     (case parse_envelope_args argv of
        Inl e \<Rightarrow> Inl e
      | Inr args \<Rightarrow>
          (case read_document fs cwd (ea_file args) of
             Inl e \<Rightarrow> Inl e
           | Inr doc \<Rightarrow> Inr (exit_code (ea_expect args) (er_valid (validate_envelope shown doc)))))"

definition collection_main ::
  "(rat \<Rightarrow> string) \<Rightarrow> host_parse \<Rightarrow> file_system \<Rightarrow> string \<Rightarrow>
   string list \<Rightarrow> nat" where
  "collection_main shown host fs cwd argv = status_of
     (case parse_collection_args argv of
        Inl e \<Rightarrow> Inl e
      | Inr args \<Rightarrow>
          let file = path_resolve cwd (or_empty (ca_file args)) in
          (case read_document fs cwd (ca_file args) of
             Inl e \<Rightarrow> Inl e
           | Inr doc \<Rightarrow>
               (case validate_collection shown host (path_resolve (parent_dir file)) (exists_sync fs)
                       (ca_now args) (ca_processKey args) doc of
                  Inl e \<Rightarrow> Inl e
                | Inr r \<Rightarrow> Inr (exit_code (ca_expect args) (cr_valid r)))))"

end
