(* ===== verification/PackageCheck.thy ===== *)
theory PackageCheck
  imports Scripts ArtifactProperties CollectionProperties
begin

text \<open>
  \<open>src/scripts/verify-process-registry.js\<close>: the markers of the registry's sources, the
  files of the \<open>process-registry\<close> package, its manifest and documents, and the runs of the
  three validators on the documents of the package with the verdicts expected of them.
  What a validator prints is left out of the complaint about a failed run. \<open>clock\<close> is the
  reading of the clock by a validator that is given no time.
\<close>

section \<open>What is checked\<close>

definition registry_markers ::
  "string \<Rightarrow> string \<Rightarrow> string \<Rightarrow> string \<Rightarrow> string \<Rightarrow> string \<Rightarrow> string \<Rightarrow> (string \<times> string) list" where
  "registry_markers service repository processEntity auditEntity migration controller types =
     [(service, ''ProcessRegistryRepository''),
      (service, ''POSTGRES_RUNTIME_STORE_CONFIGURED''),
      (service, ''appendAuditAndEvent''),
      (service, ''ensureSeedProcesses''),
      (service, ''holiday-discount-2026''),
      (service, ''seedFlipFlopSuccessfulCustomerJourneyDefinition''),
      (service, ''flipflop.successful_customer_journey.v1''),
      (service, ''process-registry/definitions/flipflop.successful_customer_journey.v1/1.0.0-draft.json''),
      (controller, ''@UseGuards(AuthIdentityGuard)''),
      (repository, ''pessimistic_write''),
      (repository, ''bpcp_process_audit_event_seq''),
      (processEntity, ''@Entity('' @ [CHR 0x27] @ ''bpcp_process_definition'' @ [CHR 0x27] @ '')''),
      (auditEntity, ''@Entity('' @ [CHR 0x27] @ ''bpcp_process_audit_event'' @ [CHR 0x27] @ '')''),
      (migration, ''bpcp_process_definition''),
      (migration, ''bpcp_process_audit_event''),
      (migration, ''bpcp_process_audit_event_seq''),
      (types, ''bpcp.process-audit.v1'')]"

definition package_files :: "string list" where
  "package_files =
     [''MANIFEST.json'',
      ''README.md'',
      ''registry.collection.json'',
      ''definitions/flipflop.successful_customer_journey.v1/1.0.0-draft.json'',
      ''docs/ADR-001-flipflop-process-runtime-path.md'',
      ''docs/PROCESS-REGISTRY-STORAGE-ACCESS-MODEL.md'',
      ''docs/PROCESS-REGISTRY-VALIDATION-CONTRACT.md'',
      ''reports/PROCESS-REGISTRY-VALIDATION-REPORT.md'',
      ''reports/PACKAGE-SMOKE-REPORT.md'',
      ''schemas/process-definition.schema.json'',
      ''schemas/process-event-envelope.schema.json'',
      ''schemas/process-registry-collection.schema.json'',
      ''validators/validate-process-definition.mjs'',
      ''validators/validate-process-event-envelope.mjs'',
      ''validators/validate-process-registry-collection.mjs'']"

definition package_markers ::
  "string \<Rightarrow> string \<Rightarrow> string \<Rightarrow> string \<Rightarrow> (string \<times> string) list" where
  "package_markers readme adr report packageSmoke =
     [(readme, ''business-process-control-plane is the source-of-truth repo''),
      (adr, ''Camunda 8 / Zeebe''),
      (adr, ''Temporal''),
      (adr, ''Flowable''),
      (adr, ''n8n''),
      (adr, ''Vision -> Goal Impact -> System -> Feature -> Task -> Execution Plan -> Coding Prompt -> Code -> Validation''),
      (report, ''zero-active runtime-blocking condition''),
      (packageSmoke, ''source-of-truth repo for process-registry package placement'')]"

text \<open>The runs of \<open>runPackageValidator\<close>: which validator, and its arguments.\<close>

datatype package_validator = DefinitionValidator | EnvelopeValidator | CollectionValidator

definition validator_file :: "package_validator \<Rightarrow> string" where
  "validator_file v =
     (case v of
        DefinitionValidator \<Rightarrow> ''validators/validate-process-definition.mjs''
      | EnvelopeValidator \<Rightarrow> ''validators/validate-process-event-envelope.mjs''
      | CollectionValidator \<Rightarrow> ''validators/validate-process-registry-collection.mjs'')"

definition package_runs :: "(package_validator \<times> string list) list" where
  "package_runs =
     [(DefinitionValidator, [''definitions/flipflop.successful_customer_journey.v1/1.0.0-draft.json'', ''--expect'', ''pass'']),
      (DefinitionValidator, [''definitions/flipflop.successful_customer_journey.v1/1.0.0-draft.json'', ''--require-runtime-ready'', ''--expect'', ''fail'']),
      (EnvelopeValidator, [''fixtures/valid-blocked-event-envelope.json'', ''--expect'', ''pass'']),
      (EnvelopeValidator, [''fixtures/invalid-blocked-event-envelope-missing-reason.json'', ''--expect'', ''fail'']),
      (CollectionValidator, [''fixtures/registry-valid.collection.json'', ''--process-key'', ''flipflop.successful_customer_journey.v1'', ''--expect'', ''pass'']),
      (CollectionValidator, [''fixtures/registry-duplicate-active.collection.json'', ''--process-key'', ''flipflop.successful_customer_journey.v1'', ''--expect'', ''fail'']),
      (CollectionValidator, [''fixtures/registry-zero-active.collection.json'', ''--process-key'', ''flipflop.successful_customer_journey.v1'', ''--expect'', ''fail'']),
      (CollectionValidator, [''fixtures/registry-runtime-reader-write.collection.json'', ''--process-key'', ''flipflop.successful_customer_journey.v1'', ''--expect'', ''fail'']),
      (CollectionValidator, [''registry.collection.json'', ''--process-key'', ''flipflop.successful_customer_journey.v1'', ''--expect'', ''fail''])]"


section \<open>The script\<close>

definition package_validator_status ::
  "(rat \<Rightarrow> string) \<Rightarrow> host_parse \<Rightarrow> instant \<Rightarrow> file_system \<Rightarrow> string \<Rightarrow> package_validator \<Rightarrow> string list \<Rightarrow> nat" where
  "package_validator_status shown host clock fs packageRoot v args =
     (case v of
        DefinitionValidator \<Rightarrow> definition_main shown host fs packageRoot clock args
      | EnvelopeValidator \<Rightarrow> envelope_main shown fs packageRoot args
      | CollectionValidator \<Rightarrow> collection_main shown host fs packageRoot args)"

fun run_package_validators ::
  "(package_validator \<Rightarrow> string list \<Rightarrow> nat) \<Rightarrow> (package_validator \<times> string list) list \<Rightarrow> script_run \<Rightarrow> script_run" where
  "run_package_validators status [] rest = rest"
| "run_package_validators status ((v, args) # runs) rest =
     (if status v args \<noteq> 0
      then (failed_with [''Process registry package validator failed: node '' @
              js_join '' '' (validator_file v # args)])\<lparr>run_status := status v args\<rparr>
      else run_package_validators status runs rest)"

definition verify_package ::
  "(rat \<Rightarrow> string) \<Rightarrow> host_parse \<Rightarrow> instant \<Rightarrow> file_system \<Rightarrow> string \<Rightarrow> script_run" where
  "verify_package shown host clock fs packageRoot =
     require (exists_sync fs packageRoot)
       [''Process registry package verification failed. Missing process-registry directory.'']
     (require_files ''Process registry package verification failed. Missing package files:'' fs packageRoot package_files
     (reading fs packageRoot ''MANIFEST.json'' (\<lambda>t. attempt (parse_or_throw t) (\<lambda>manifest.
      attempt (read_prop manifest ''process_key'') (\<lambda>key.
      require (key = Some (JStr ''flipflop.successful_customer_journey.v1''))
        [''Process registry package verification failed. Unexpected process key: '' @ shown_value shown key]
     (require (opt_prop (Some manifest) ''runtime_ready'' = Some (JBool False) \<and>
               opt_prop (Some manifest) ''status'' = Some (JStr ''draft-package''))
        [''Process registry package verification failed. FlipFlop package must remain draft-package and runtime_ready=false until approval/runtime blockers are resolved.'']
     (reading fs packageRoot ''README.md'' (\<lambda>readme.
      reading fs packageRoot ''docs/ADR-001-flipflop-process-runtime-path.md'' (\<lambda>adr.
      reading fs packageRoot ''reports/PROCESS-REGISTRY-VALIDATION-REPORT.md'' (\<lambda>report.
      reading fs packageRoot ''reports/PACKAGE-SMOKE-REPORT.md'' (\<lambda>packageSmoke.
      require_markers ''Process registry package verification failed. Missing package markers:''
        (package_markers readme adr report packageSmoke)
     (run_package_validators (package_validator_status shown host clock fs packageRoot) package_runs
     (passed [''BPCP process registry verification passed, including FlipFlop process-registry package checks.''])))))))))))))"

definition verify_process_registry ::
  "(rat \<Rightarrow> string) \<Rightarrow> host_parse \<Rightarrow> instant \<Rightarrow> file_system \<Rightarrow> string \<Rightarrow> script_run" where
  "verify_process_registry shown host clock fs base =
     (reading fs base ''src/processes/process-registry.service.ts'' (\<lambda>service.
      reading fs base ''src/processes/process-registry.repository.ts'' (\<lambda>repository.
      reading fs base ''src/processes/entities/process-definition.entity.ts'' (\<lambda>processEntity.
      reading fs base ''src/processes/entities/process-audit-event.entity.ts'' (\<lambda>auditEntity.
      reading fs base ''src/database/migrations/1756660000000-CreateProcessRegistryOutboxTables.ts'' (\<lambda>migration.
      reading fs base ''src/processes/process-registry.controller.ts'' (\<lambda>controller.
      reading fs base ''src/processes/process.types.ts'' (\<lambda>types.
      require_markers ''Process registry verification failed. Missing markers:''
        (registry_markers service repository processEntity auditEntity migration controller types)
     (require (\<not> (js_includes ''JsonFileStoreService'' service \<or> js_includes ''processes.json'' service))
        [''Process registry verification failed. File-backed process persistence markers are still present.'']
     (verify_package shown host clock fs (path_join base ''process-registry'')))))))))))"



section \<open>What a passing run guarantees\<close>

definition document_at :: "file_system \<Rightarrow> string \<Rightarrow> json \<Rightarrow> bool" where
  "document_at fs path doc \<longleftrightarrow> (\<exists>t. fs path = Some (FileEntry t) \<and> parse_json t = Some doc)"

definition packaged_definition :: string where
  "packaged_definition = ''definitions/flipflop.successful_customer_journey.v1/1.0.0-draft.json''"

lemma read_document_Inr:
  "read_document fs cwd file = Inr doc \<longleftrightarrow> document_at fs (path_resolve cwd (or_empty file)) doc"
  by (auto simp: read_document_def document_at_def read_file_sync_def parse_or_throw_def
      split: option.splits file_entry.splits)

lemma exit_code_zero [simp]:
  "exit_code (Some ''pass'') valid = 0 \<longleftrightarrow> valid" "exit_code (Some ''fail'') valid = 0 \<longleftrightarrow> \<not> valid"
  by (simp_all add: exit_code_def falsy_text_def)

lemma run_package_validators_passes:
  "run_status (run_package_validators status runs rest) = 0 \<longleftrightarrow>
   list_all (\<lambda>(v, args). status v args = 0) runs \<and> run_status rest = 0"
  by (induction runs) (auto split: if_splits)

lemma definition_run_zero:
  assumes "parse_args argv = Inr args"
  shows "definition_main shown host fs cwd clock argv = 0 \<longleftrightarrow>
    (\<exists>doc r. document_at fs (path_resolve cwd (or_empty (da_file args))) doc \<and>
       validate_definition shown host clock (da_now args) (da_requireRuntimeReady args) doc = Inr r \<and>
       exit_code (da_expect args) (dr_valid r) = 0)"
  unfolding read_document_Inr[symmetric]
  by (auto simp: definition_main_def assms status_of_def split: sum.splits)

text \<open>The two runs of the definition validator on the packaged document.\<close>

definition packaged_args :: "string \<Rightarrow> bool \<Rightarrow> definition_args" where
  "packaged_args expect ready =
     \<lparr>da_file = Some packaged_definition, da_expect = Some expect, da_report = None,
      da_now = Some ''2026-07-06T00:00:00Z'', da_requireRuntimeReady = ready\<rparr>"

lemma packaged_runs:
  "parse_args [packaged_definition, ''--expect'', ''pass''] = Inr (packaged_args ''pass'' False)"
  "parse_args [packaged_definition, ''--require-runtime-ready'', ''--expect'', ''fail''] =
     Inr (packaged_args ''fail'' True)"
  by (simp_all add: parse_args_def falsy_text_def first_arg_def packaged_args_def packaged_definition_def)

lemma ready_of_active:
  "member doc ''status'' = Some (JStr ''active'') \<Longrightarrow>
   validate_definition shown host clock now True doc = validate_definition shown host clock now False doc"
  by (simp add: validate_definition_def window_errors_def Let_def)

lemma verify_process_registry_runs:
  assumes "run_status (verify_process_registry shown host clock fs base) = 0"
  shows "list_all (\<lambda>(v, args).
      package_validator_status shown host clock fs (path_join base ''process-registry'') v args = 0) package_runs"
    and "\<exists>manifest. document_at fs (path_join (path_join base ''process-registry'') ''MANIFEST.json'') manifest \<and>
      member manifest ''runtime_ready'' = Some (JBool False)"
  using assms unfolding verify_process_registry_def verify_package_def
  by (auto simp: run_passes run_package_validators_passes document_at_def parse_or_throw_def
      split: option.splits)

lemma collection_run_zero:
  assumes "parse_collection_args argv = Inr args"
  shows "collection_main shown host fs cwd argv = 0 \<longleftrightarrow>
    (\<exists>doc r. document_at fs (path_resolve cwd (or_empty (ca_file args))) doc \<and>
       validate_collection shown host
         (path_resolve (parent_dir (path_resolve cwd (or_empty (ca_file args))))) (exists_sync fs)
         (ca_now args) (ca_processKey args) doc = Inr r \<and>
       exit_code (ca_expect args) (cr_valid r) = 0)"
  unfolding read_document_Inr[symmetric]
  by (auto simp: collection_main_def assms status_of_def Let_def split: sum.splits)

definition packaged_registry :: string where
  "packaged_registry = ''registry.collection.json''"

definition packaged_key :: string where
  "packaged_key = ''flipflop.successful_customer_journey.v1''"

definition collection_args_for :: "string \<Rightarrow> string \<Rightarrow> collection_args" where
  "collection_args_for file expect =
     \<lparr>ca_file = Some file, ca_expect = Some expect, ca_report = None, ca_processKey = Some packaged_key,
      ca_now = Some ''2026-07-06T00:00:00Z''\<rparr>"

lemma parse_packaged_collection:
  assumes "file \<notin> {''--expect'', ''--report'', ''--process-key'', ''--now'', []}"
    and "expect \<in> {''pass'', ''fail''}"
  shows "parse_collection_args [file, ''--process-key'', packaged_key, ''--expect'', expect] =
    Inr (collection_args_for file expect)"
  using assms by (auto simp: parse_collection_args_def falsy_text_def first_arg_def collection_args_for_def)

lemma package_runs_named:
  "(DefinitionValidator, [packaged_definition, ''--expect'', ''pass'']) \<in> set package_runs"
  "(DefinitionValidator, [packaged_definition, ''--require-runtime-ready'', ''--expect'', ''fail'']) \<in> set package_runs"
  "(CollectionValidator, [packaged_registry, ''--process-key'', packaged_key, ''--expect'', ''fail'']) \<in> set package_runs"
  by (simp_all add: package_runs_def packaged_definition_def packaged_registry_def packaged_key_def)

text \<open>
  C29. When the process registry script passes, the packaged definition of the customer
  journey has a sound step graph but is not active, its manifest declares it not ready to
  run, and its validator rejects the packaged registry for that process: the package cannot be
  run by mistake.
\<close>

theorem package_check_sound:
  assumes "run_status (verify_process_registry shown host clock fs base) = 0"
  shows "\<exists>doc manifest registry r.
    document_at fs (path_resolve (path_join base ''process-registry'') packaged_definition) doc \<and>
    graph_sound doc \<and> member doc ''status'' \<noteq> Some (JStr ''active'') \<and>
    document_at fs (path_join (path_join base ''process-registry'') ''MANIFEST.json'') manifest \<and>
    member manifest ''runtime_ready'' = Some (JBool False) \<and>
    document_at fs (path_resolve (path_join base ''process-registry'') packaged_registry) registry \<and>
    validate_collection shown host
      (path_resolve (parent_dir (path_resolve (path_join base ''process-registry'') packaged_registry)))
      (exists_sync fs) (Some ''2026-07-06T00:00:00Z'') (Some packaged_key) registry = Inr r \<and> \<not> cr_valid r"
proof -
  let ?root = "path_join base ''process-registry''"
  note runs = verify_process_registry_runs(1)[OF assms, unfolded list_all_iff]
  have run1: "definition_main shown host fs ?root clock [packaged_definition, ''--expect'', ''pass''] = 0"
    and run2: "definition_main shown host fs ?root clock
      [packaged_definition, ''--require-runtime-ready'', ''--expect'', ''fail''] = 0"
    and run3: "collection_main shown host fs ?root
      [packaged_registry, ''--process-key'', packaged_key, ''--expect'', ''fail''] = 0"
    using runs package_runs_named by (fastforce simp: package_validator_status_def)+
  obtain doc r where doc: "document_at fs (path_resolve ?root packaged_definition) doc"
    and r: "validate_definition shown host clock (Some ''2026-07-06T00:00:00Z'') False doc = Inr r" "dr_valid r"
    using run1 unfolding definition_run_zero[OF packaged_runs(1)] by (auto simp: packaged_args_def or_empty_def)
  obtain doc' r' where doc': "document_at fs (path_resolve ?root packaged_definition) doc'"
    and r': "validate_definition shown host clock (Some ''2026-07-06T00:00:00Z'') True doc' = Inr r'" "\<not> dr_valid r'"
    using run2 unfolding definition_run_zero[OF packaged_runs(2)] by (auto simp: packaged_args_def or_empty_def)
  have "doc' = doc" using doc doc' by (auto simp: document_at_def)
  then have "member doc ''status'' \<noteq> Some (JStr ''active'')" using r r' by (auto simp: ready_of_active)
  moreover have "graph_sound doc" using accepted_sound[OF r] by simp
  moreover have "parse_collection_args [packaged_registry, ''--process-key'', packaged_key, ''--expect'', ''fail''] =
      Inr (collection_args_for packaged_registry ''fail'')"
    by (rule parse_packaged_collection) (simp_all add: packaged_registry_def)
  moreover from this obtain registry s where
      "document_at fs (path_resolve ?root packaged_registry) registry"
      "validate_collection shown host (path_resolve (parent_dir (path_resolve ?root packaged_registry)))
        (exists_sync fs) (Some ''2026-07-06T00:00:00Z'') (Some packaged_key) registry = Inr s" "\<not> cr_valid s"
    using run3 by (auto simp: collection_run_zero collection_args_for_def or_empty_def)
  ultimately show ?thesis
    using doc verify_process_registry_runs(2)[OF assms] by blast
qed

end
