(* ===== verification/PackageWitness.thy ===== *)
theory PackageWitness
  imports PackageCheck
begin

text \<open>
  A repository on which the process registry script passes: a draft definition, a valid
  event envelope, a collection with one effective version, documents that the validators
  must reject, and sources and documents that consist of the markers looked for.
\<close>

section \<open>The files\<close>

definition sample_manifest :: json where
  "sample_manifest = JObj
     [(''process_key'', JStr packaged_key), (''status'', JStr ''draft-package''), (''runtime_ready'', JBool False)]"

definition sample_envelope :: json where
  "sample_envelope = JObj
     [(''event_id'', JStr ''e''), (''occurred_at'', JStr ''2026-07-06T00:00:00Z''),
      (''process_key'', JStr ''a.b''), (''process_version'', JStr ''1.0.0''),
      (''transition'', JObj [(''from_step'', JStr ''s''), (''to_step'', JStr ''e''), (''event'', JStr ''x'')]),
      (''source_entity'', JObj [(''type'', JStr ''order''), (''id'', JStr ''o'')]),
      (''actor'', JObj [(''type'', JStr ''customer''), (''id'', JStr ''c'')]),
      (''validation_result'', JObj [(''decision'', JStr ''accepted''), (''rule_refs'', JArr [JStr ''r''])]),
      (''payload'', JObj [])]"

definition sample_markers :: "string list" where
  "sample_markers = map snd (registry_markers [] [] [] [] [] [] [] @ package_markers [] [] [] [])"

definition sample_documents :: "(string \<times> json) list" where
  "sample_documents =
     [(''MANIFEST.json'', sample_manifest),
      (packaged_definition, sample_document ''draft''),
      (''fixtures/valid-blocked-event-envelope.json'', sample_envelope),
      (''fixtures/invalid-blocked-event-envelope-missing-reason.json'', JNull),
      (''fixtures/registry-valid.collection.json'', sample_collection packaged_key),
      (''fixtures/registry-duplicate-active.collection.json'', JNull),
      (''fixtures/registry-zero-active.collection.json'', JNull),
      (''fixtures/registry-runtime-reader-write.collection.json'', JNull),
      (packaged_registry, JNull)]"

definition sample_root :: string where
  "sample_root = ''/w/process-registry''"

definition sample_files :: file_system where
  "sample_files path =
     (case find (\<lambda>(f, _). path = sample_root @ ''/'' @ f) sample_documents of
        Some (_, doc) \<Rightarrow> Some (FileEntry (stringify (\<lambda>_. []) doc))
      | None \<Rightarrow> Some (FileEntry (concat sample_markers)))"


section \<open>The script passes\<close>

lemma includes_concat: "m \<in> set ms \<Longrightarrow> js_includes m (concat ms)"
  unfolding js_includes_iff by (metis concat.simps(2) concat_append split_list)

lemma js_includes_skip: "c \<noteq> d \<Longrightarrow> js_includes (d # p) (c # s) = js_includes (d # p) s"
  by (simp add: starts_with_def)

lemma sample_sources_clean:
  "\<not> js_includes ''JsonFileStoreService'' (concat sample_markers)"
  "\<not> js_includes ''processes.json'' (concat sample_markers)"
  by (simp_all add: sample_markers_def registry_markers_def package_markers_def js_includes_skip starts_with_def
      del: js_includes.simps(2) add: js_includes.simps(2)[of "CHR ''J'' # p" "CHR ''J''" for p]
      js_includes.simps(2)[of "CHR ''p'' # q" "CHR ''p''" for q])

lemma packaged_key_pattern: "process_key_pattern packaged_key"
  by (simp add: process_key_pattern_def packaged_key_def ident_def is_lower_def is_digit_def)

lemma sample_documents_exact: "list_all (\<lambda>(f, doc). json_exact doc) sample_documents"
  by (simp add: sample_documents_def sample_manifest_def sample_envelope_def sample_document_def
      sample_collection_def sample_record_def sample_role_def sample_person_def sample_actor_def
      sample_evidence_def sample_guard_def sample_trace_def required_trace_def)

lemma sample_names_distinct: "distinct (map fst sample_documents)"
  by (simp add: sample_documents_def packaged_definition_def packaged_registry_def)

lemma document_stored:
  assumes "(f, doc) \<in> set sample_documents"
  shows "document_at sample_files (sample_root @ ''/'' @ f) doc"
proof -
  have "find (\<lambda>(g, _). sample_root @ ''/'' @ f = sample_root @ ''/'' @ g) sample_documents = Some (f, doc)"
    using find_by_key[OF sample_names_distinct assms] by (simp add: case_prod_beta' eq_commute)
  moreover have "json_exact doc" using assms sample_documents_exact by (auto simp: list_all_iff)
  ultimately show ?thesis
    by (simp add: document_at_def sample_files_def parse_stringify)
qed

lemma entry_exists: "exists_sync sample_files path"
  by (auto simp: exists_sync_def sample_files_def split: option.splits)

lemma other_files:
  assumes "list_all (\<lambda>(f, _). path \<noteq> sample_root @ ''/'' @ f) sample_documents"
  shows "sample_files path = Some (FileEntry (concat sample_markers))"
proof -
  have "find (\<lambda>(f, _). path = sample_root @ ''/'' @ f) sample_documents = None"
    using assms by (auto simp: find_None_iff_all list_all_iff)
  then show ?thesis by (simp add: sample_files_def)
qed

lemma arguments_resolved:
  "list_all (\<lambda>(v, args). path_resolve sample_root (hd args) = sample_root @ ''/'' @ hd args) package_runs"
  by code_simp

lemma resolved:
  assumes "(v, f # args) \<in> set package_runs"
  shows "path_resolve sample_root f = sample_root @ ''/'' @ f"
  using bspec[OF arguments_resolved[unfolded list_all_iff] assms] by simp

text \<open>The runs of the validators.\<close>

lemma collect_returns: "(\<exists>zs. collect rs = Inr zs) \<longleftrightarrow> list_all (\<lambda>r. \<exists>x. r = Inr x) rs"
  by (induction rs rule: collect.induct) (auto split: sum.splits)

lemma validation_returns:
  "(\<exists>r. validate_definition shown host clock now ready doc = Inr r) \<longleftrightarrow>
   (\<exists>r. validate_definition shown host clock now ready' doc = Inr r)"
proof (cases "is_object (Some doc)")
  case True
  have "(\<exists>r. (case x of Inl e \<Rightarrow> Inl e | Inr ys \<Rightarrow> Inr (f ys)) = Inr r) \<longleftrightarrow> (\<exists>zs. x = Inr zs)"
    for x :: "error + artifact_error list" and f :: "artifact_error list \<Rightarrow> definition_report"
    by (auto split: sum.splits)
  with True show ?thesis
    by (simp add: validate_definition_def Let_def collect_returns del: collect.simps)
qed (simp add: validate_definition_def)

lemma ready_run_rejects:
  assumes "validate_definition shown host clock now False doc = Inr r"
    and "member doc ''status'' \<noteq> Some (JStr ''active'')"
  shows "\<exists>r'. validate_definition shown host clock now True doc = Inr r' \<and> \<not> dr_valid r'"
proof -
  obtain r' where r': "validate_definition shown host clock now True doc = Inr r'"
    using assms(1) validation_returns by blast
  moreover have "\<not> dr_valid r'" using accepted_sound[OF r'] assms(2) by auto
  ultimately show ?thesis by blast
qed

lemma definition_runs:
  "definition_main shown host sample_files sample_root clock [packaged_definition, ''--expect'', ''pass''] = 0"
  "definition_main shown host sample_files sample_root clock
     [packaged_definition, ''--require-runtime-ready'', ''--expect'', ''fail''] = 0"
proof -
  have doc: "document_at sample_files (path_resolve sample_root packaged_definition) (sample_document ''draft'')"
    using resolved[OF package_runs_named(1)]
      document_stored[of packaged_definition "sample_document ''draft''"]
    by (simp add: sample_documents_def)
  obtain r where r: "validate_definition shown host clock (Some ''2026-07-06T00:00:00Z'') False
      (sample_document ''draft'') = Inr r" "dr_valid r"
    using sample_accepted[of "''draft''" shown host clock] by auto
  with doc show "definition_main shown host sample_files sample_root clock
      [packaged_definition, ''--expect'', ''pass''] = 0"
    unfolding definition_run_zero[OF packaged_runs(1)] by (auto simp: packaged_args_def or_empty_def)
  obtain r' where "validate_definition shown host clock (Some ''2026-07-06T00:00:00Z'') True
      (sample_document ''draft'') = Inr r'" "\<not> dr_valid r'"
    using ready_run_rejects[OF r(1)] by (auto simp: sample_members)
  with doc show "definition_main shown host sample_files sample_root clock
     [packaged_definition, ''--require-runtime-ready'', ''--expect'', ''fail''] = 0"
    unfolding definition_run_zero[OF packaged_runs(2)] by (auto simp: packaged_args_def or_empty_def)
qed

lemma expected_verdicts [simp]:
  "exit_code (Some ''pass'') True = 0" "exit_code (Some ''fail'') False = 0"
  by (simp_all add: exit_code_def falsy_text_def)

lemma sample_envelope_valid: "er_valid (validate_envelope shown sample_envelope)"
  by (simp add: validate_envelope_def envelope_errors_def result_errors_def sample_envelope_def
      decisions_def envelope_actors_def process_key_pattern_def ident_def semver_def date_time_def
      is_lower_def is_digit_def value_simps)

lemma envelope_run:
  assumes "(EnvelopeValidator, [f, ''--expect'', e]) \<in> set package_runs"
    and "(f, doc) \<in> set sample_documents" and "er_valid (validate_envelope shown doc) = (e = ''pass'')"
  shows "envelope_main shown sample_files sample_root [f, ''--expect'', e] = 0"
proof -
  have "read_document sample_files sample_root (Some f) = Inr doc"
    using document_stored[OF assms(2)] resolved[OF assms(1)] by (simp add: read_document_Inr or_empty_def)
  moreover have "parse_envelope_args [f, ''--expect'', e] =
      Inr \<lparr>ea_file = Some f, ea_expect = Some e, ea_report = None\<rparr>" and "e = ''pass'' \<or> e = ''fail''"
    using assms(1) by (auto simp: package_runs_def parse_envelope_args_def falsy_text_def first_arg_def)
  ultimately show ?thesis
    using assms(3) by (auto simp: envelope_main_def status_of_def)
qed

lemma collection_run:
  assumes "(CollectionValidator, [f, ''--process-key'', packaged_key, ''--expect'', e]) \<in> set package_runs"
    and "(f, doc) \<in> set sample_documents"
    and "\<And>lp. \<exists>r. validate_collection shown host lp (exists_sync sample_files)
           (Some ''2026-07-06T00:00:00Z'') (Some packaged_key) doc = Inr r \<and> cr_valid r = (e = ''pass'')"
  shows "collection_main shown host sample_files sample_root
    [f, ''--process-key'', packaged_key, ''--expect'', e] = 0"
proof -
  have "document_at sample_files (path_resolve sample_root f) doc"
    using document_stored[OF assms(2)] resolved[OF assms(1)] by simp
  moreover have args: "parse_collection_args [f, ''--process-key'', packaged_key, ''--expect'', e] =
      Inr (collection_args_for f e)" and e: "e = ''pass'' \<or> e = ''fail''"
    using assms(1) by (auto simp: package_runs_def parse_packaged_collection)
  moreover obtain r where "validate_collection shown host
      (path_resolve (parent_dir (path_resolve sample_root f))) (exists_sync sample_files)
      (Some ''2026-07-06T00:00:00Z'') (Some packaged_key) doc = Inr r" "cr_valid r = (e = ''pass'')"
    using assms(3) by blast
  ultimately show ?thesis
    by (auto simp: collection_run_zero[OF args] collection_args_for_def or_empty_def)
qed

lemma collection_default_now:
  "validate_collection shown host lp ex (Some ''2026-07-06T00:00:00Z'') k doc =
   validate_collection shown host lp ex None k doc"
  by (simp add: validate_collection_def falsy_text_def or_empty_def Let_def)

lemma null_rejected:
  "\<exists>r. validate_collection shown host lp ex now k JNull = Inr r \<and> \<not> cr_valid r"
  "\<not> er_valid (validate_envelope shown JNull)"
  by (simp_all add: validate_collection_def validate_envelope_def is_object_def)


lemma sample_runs:
  "list_all (\<lambda>(v, args).
     package_validator_status shown host clock sample_files sample_root v args = 0) package_runs"
proof -
  have envelopes:
    "envelope_main shown sample_files sample_root [''fixtures/valid-blocked-event-envelope.json'', ''--expect'', ''pass''] = 0"
    "envelope_main shown sample_files sample_root
       [''fixtures/invalid-blocked-event-envelope-missing-reason.json'', ''--expect'', ''fail''] = 0"
    by (rule envelope_run[where doc = sample_envelope];
        simp add: package_runs_def sample_documents_def sample_envelope_valid)
      (rule envelope_run[where doc = JNull];
        simp add: package_runs_def sample_documents_def null_rejected)
  have valid: "collection_main shown host sample_files sample_root
      [''fixtures/registry-valid.collection.json'', ''--process-key'', packaged_key, ''--expect'', ''pass''] = 0"
    using sample_collection_accepted[OF packaged_key_pattern]
    by (intro collection_run[where doc = "sample_collection packaged_key"])
      (simp_all add: package_runs_def sample_documents_def packaged_key_def[symmetric] collection_default_now)
  have rejected: "collection_main shown host sample_files sample_root
      [f, ''--process-key'', packaged_key, ''--expect'', ''fail''] = 0"
    if "(CollectionValidator, [f, ''--process-key'', packaged_key, ''--expect'', ''fail'']) \<in> set package_runs"
      and "(f, JNull) \<in> set sample_documents" for f
    using that null_rejected(1) by (intro collection_run[where doc = JNull]) simp_all
  have "collection_main shown host sample_files sample_root [f, ''--process-key'', packaged_key, ''--expect'', ''fail''] = 0"
    if "f \<in> {''fixtures/registry-duplicate-active.collection.json'', ''fixtures/registry-zero-active.collection.json'',
      ''fixtures/registry-runtime-reader-write.collection.json'', packaged_registry}" for f
    using that by (intro rejected)
      (auto simp: package_runs_def sample_documents_def packaged_key_def packaged_registry_def)
  with envelopes valid definition_runs[of shown host clock] show ?thesis
    by (simp add: package_runs_def package_validator_status_def packaged_key_def packaged_definition_def
        packaged_registry_def)
qed

lemma markers_found:
  "list_all (\<lambda>(c, m). js_includes m c) (registry_markers t t t t t t t)"
  "list_all (\<lambda>(c, m). js_includes m c) (package_markers t t t t)"
  if "t = concat sample_markers"
proof -
  have "map snd (registry_markers t t t t t t t) = map snd (registry_markers [] [] [] [] [] [] [])"
    and "fst ` set (registry_markers t t t t t t t) \<subseteq> {t}"
    by (simp_all add: registry_markers_def)
  moreover have "map snd (package_markers t t t t) = map snd (package_markers [] [] [] [])"
    and "fst ` set (package_markers t t t t) \<subseteq> {t}"
    by (simp_all add: package_markers_def)
  ultimately have "m \<in> set sample_markers \<and> c = t"
    if "(c, m) \<in> set (registry_markers t t t t t t t) \<or> (c, m) \<in> set (package_markers t t t t)" for c m
    using that unfolding sample_markers_def map_append set_append
    by (metis (no_types, lifting) UnCI fst_conv image_eqI image_set singletonD snd_conv subsetD)
  with that show "list_all (\<lambda>(c, m). js_includes m c) (registry_markers t t t t t t t)"
    and "list_all (\<lambda>(c, m). js_includes m c) (package_markers t t t t)"
    by (auto simp: list_all_iff intro: includes_concat)
qed

lemma sample_sources:
  assumes "\<not> starts_with ''process-registry/'' f"
  shows "sample_files (path_join ''/w'' f) = Some (FileEntry (concat sample_markers))"
  using assms by (intro other_files) (auto simp: list_all_iff path_join_def sample_root_def starts_with_def)

lemma sample_package_texts:
  "sample_files (path_join sample_root ''README.md'') = Some (FileEntry (concat sample_markers))"
  "sample_files (path_join sample_root ''docs/ADR-001-flipflop-process-runtime-path.md'') =
     Some (FileEntry (concat sample_markers))"
  "sample_files (path_join sample_root ''reports/PROCESS-REGISTRY-VALIDATION-REPORT.md'') =
     Some (FileEntry (concat sample_markers))"
  "sample_files (path_join sample_root ''reports/PACKAGE-SMOKE-REPORT.md'') =
     Some (FileEntry (concat sample_markers))"
  by (rule other_files;
      simp add: path_join_def sample_documents_def packaged_definition_def packaged_registry_def)+

lemma sample_package_passes:
  "run_status (verify_process_registry shown host clock sample_files ''/w'') = 0"
proof -
  have base: "path_join ''/w'' ''process-registry'' = sample_root"
    by (simp add: path_join_def sample_root_def)
  obtain t where t: "sample_files (path_join sample_root ''MANIFEST.json'') = Some (FileEntry t)"
    and manifest: "parse_json t = Some sample_manifest"
    using document_stored[of "''MANIFEST.json''" sample_manifest]
    by (auto simp: sample_documents_def path_join_def document_at_def)
  have "read_prop sample_manifest ''process_key'' = Inr (Some (JStr packaged_key))"
    and "member sample_manifest ''runtime_ready'' = Some (JBool False)"
    and "member sample_manifest ''status'' = Some (JStr ''draft-package'')"
    by (simp_all add: sample_manifest_def read_prop_def opt_prop_def)
  moreover have "list_all (\<lambda>f. exists_sync sample_files (path_join sample_root f)) package_files"
    by (simp add: list_all_iff entry_exists)
  ultimately have "run_status (verify_package shown host clock sample_files sample_root) = 0"
    by (simp add: verify_package_def run_passes run_package_validators_passes entry_exists t
        parse_or_throw_def manifest packaged_key_def[symmetric] sample_package_texts
        markers_found(2) sample_runs)
  then show ?thesis
    by (simp add: verify_process_registry_def run_passes base sample_sources starts_with_def
        markers_found(1) sample_sources_clean)
qed

lemma package_check_sound_witness:
  "\<exists>doc. document_at sample_files ''/w/process-registry/definitions/flipflop.successful_customer_journey.v1/1.0.0-draft.json'' doc \<and>
     graph_sound doc"
proof -
  have base: "path_join ''/w'' ''process-registry'' = sample_root"
    by (simp add: path_join_def sample_root_def)
  have "path_resolve sample_root packaged_definition =
      ''/w/process-registry/definitions/flipflop.successful_customer_journey.v1/1.0.0-draft.json''"
    using resolved[OF package_runs_named(1)] by (simp add: sample_root_def packaged_definition_def)
  with package_check_sound[OF sample_package_passes[of "\<lambda>_. []" "\<lambda>_. None" 0]] show ?thesis
    unfolding base by auto
qed

end
