(* ===== verification/IntegrationCheck.thy ===== *)
theory IntegrationCheck
  imports Scripts
begin

text \<open>
  \<open>src/scripts/verify-business-health-integration-contract.js\<close>: the table of files of
  this and of the neighbouring repositories with the texts each must contain, the texts
  none may contain, the loop over them, and the verdict. The time stamp of the summary is
  left out.
\<close>

section \<open>What is checked\<close>

record content_check =
  cc_label :: string
  cc_path :: string
  cc_snippets :: "string list"

definition content_check_of :: "string \<Rightarrow> string \<Rightarrow> string list \<Rightarrow> content_check" where
  "content_check_of label path snippets = \<lparr>cc_label = label, cc_path = path, cc_snippets = snippets\<rparr>"

definition bpcp_checks :: "string \<Rightarrow> content_check list" where
  "bpcp_checks bpcpRoot =
    [content_check_of ''BPCP master plan'' (path_join bpcpRoot ''docs/orchestrator/2026-07-06-stock-order-marketplace-business-health-master-plan.md'')
      [''stock-order-marketplace-business-health-v1'',
       ''stock-reservation-cross-channel-v1'',
       ''Orders live transaction packet | blocked''],
     content_check_of ''BPCP process contract'' (path_join bpcpRoot ''docs/orchestrator/2026-07-06-stock-reservation-cross-channel-process-contract.md'')
      [''Process id: `stock-reservation-cross-channel-v1`'',
       ''\"schemaVersion\": \"bpcp.health-evidence.v1\"'',
       ''\"contract\": \"stock-order-marketplace-business-health.v1\"'',
       ''Synthetic transaction execution''],
     content_check_of ''BPCP marketplace inventory'' (path_join bpcpRoot ''docs/orchestrator/2026-07-06-marketplace-channel-business-health-inventory.md'')
      [''Bazos'',
       ''Aukro'',
       ''Allegro'',
       ''Heureka'',
       ''FlipFlop'',
       ''no external API call''],
     content_check_of ''BPCP integration checkpoint'' (path_join bpcpRoot ''docs/orchestrator/2026-07-06-business-health-integration-checkpoint.md'')
      [''stock-order-marketplace-business-health.v1'',
       ''Business Health Report Shape'',
       ''BPCP source-only aggregator scaffold'',
       ''Synthetic end-to-end transaction probing remains blocked''],
     content_check_of ''BPCP business health module'' (path_join bpcpRoot ''src/business-health/business-health.module.ts'')
      [''BusinessHealthController'',
       ''BusinessHealthEvidenceAdapterRunner'',
       ''BusinessHealthService'',
       ''export class BusinessHealthModule''],
     content_check_of ''BPCP business health controller'' (path_join bpcpRoot ''src/business-health/business-health.controller.ts'')
      [''@Controller('' @ [CHR 0x27] @ ''api/business-health'' @ [CHR 0x27] @ '')'',
       ''@Get('' @ [CHR 0x27] @ ''stock-order-marketplace'' @ [CHR 0x27] @ '')'',
       ''getStockOrderMarketplaceHealth''],
     content_check_of ''BPCP business health service'' (path_join bpcpRoot ''src/business-health/business-health.service.ts'')
      [''stock-order-marketplace-business-health.v1'',
       ''stock-reservation-cross-channel-v1'',
       ''adapterRunner.runAdapters()'',
       ''computeOverallStatus'',
       ''mutatesProduction: false'',
       ''Domain services must publish service-owned evidence envelopes before BPCP can aggregate runtime truth.''],
     content_check_of ''BPCP business health adapter runner'' (path_join bpcpRoot ''src/business-health/business-health.evidence-adapter-runner.ts'')
      [''BusinessHealthEvidenceAdapterRunner'',
       ''BusinessHealthEvidenceAdapter'',
       ''runAdapters()'',
       ''plane: '' @ [CHR 0x27] @ ''controlPlane'' @ [CHR 0x27],
       ''plane: '' @ [CHR 0x27] @ ''warehouse'' @ [CHR 0x27],
       ''status: '' @ [CHR 0x27] @ ''warn'' @ [CHR 0x27],
       ''Warehouse read-only stock authority evidence endpoint exists'',
       ''approved live Warehouse stock authority runtime evidence packet'',
       ''plane: '' @ [CHR 0x27] @ ''orders'' @ [CHR 0x27],
       ''Orders read-only order/reservation correlation evidence endpoint exists'',
       ''approved live Orders/Warehouse runtime evidence packet'',
       ''plane: '' @ [CHR 0x27] @ ''catalog'' @ [CHR 0x27],
       ''Catalog read-only channel availability evidence endpoint exists'',
       ''approved live Catalog channel availability runtime evidence packet'',
       ''plane: '' @ [CHR 0x27] @ ''suppliers'' @ [CHR 0x27],
       ''Suppliers read-only supplier-to-Warehouse traceability endpoint exists'',
       ''real supplier procurement readiness remains data-gated'',
       ''plane: '' @ [CHR 0x27] @ ''marketplaces'' @ [CHR 0x27],
       ''Aukro read-only channel readback endpoint exists'',
       ''Heureka read-only channel readback endpoint exists'',
       ''Allegro read-only channel readback endpoint exists'',
       ''Bazos read-only channel readback endpoint exists'',
       ''FlipFlop service-owned channel readback business-health endpoint'',
       ''READ_ONLY_MUTATION_BOUNDARY'',
       ''mutatesProduction: false''],
     content_check_of ''BPCP business health types'' (path_join bpcpRoot ''src/business-health/business-health.types.ts'')
      [''BusinessHealthReport'',
       ''BusinessHealthPlaneKey'',
       ''BusinessHealthStatus'',
       ''EvidenceSummary'',
       ''BusinessHealthEvidenceAdapter'',
       ''BusinessHealthEvidenceAdapterResult'',
       ''BusinessHealthMutationBoundary'']]"

definition warehouse_checks :: "string \<Rightarrow> content_check list" where
  "warehouse_checks githubRoot =
    [content_check_of ''Warehouse handoff'' (path_join githubRoot ''warehouse-microservice/docs/orchestrator/2026-07-06-warehouse-business-health-handoff.md'')
      [''warehouse.stock_authority_business_health.v1'',
       ''stock-order-marketplace-business-health.v1'',
       ''mutatesWarehouse'',
       ''mutatesWarehouse false'',
       ''[MISSING:''],
     content_check_of ''Warehouse business health controller'' (path_join githubRoot ''warehouse-microservice/src/business-health/business-health.controller.ts'')
      [''@Controller('' @ [CHR 0x27] @ ''business-health'' @ [CHR 0x27] @ '')'',
       ''@Public()'',
       ''@Get('' @ [CHR 0x27] @ ''stock-authority'' @ [CHR 0x27] @ '')'',
       ''getStockAuthorityEnvelope''],
     content_check_of ''Warehouse business health service'' (path_join githubRoot ''warehouse-microservice/src/business-health/business-health.service.ts'')
      [''const ENDPOINT = '' @ [CHR 0x27] @ ''/api/business-health/stock-authority'' @ [CHR 0x27] @ '' as const;'',
       ''warehouse.stock_authority_business_health.v1'',
       ''stock-order-marketplace-business-health.v1'',
       ''runtimeDataQueried: false'',
       ''productionDbQueried: false'',
       ''liveSyntheticMutationAuthorized: false'',
       ''Keep live synthetic Warehouse mutation blocked''],
     content_check_of ''Warehouse business health types'' (path_join githubRoot ''warehouse-microservice/src/business-health/business-health.types.ts'')
      [''StockAuthorityBusinessHealthEnvelope'',
       ''endpoint: '' @ [CHR 0x27] @ ''/api/business-health/stock-authority'' @ [CHR 0x27],
       ''mutatesWarehouse: false'',
       ''productionDbQueried: false''],
     content_check_of ''Warehouse verifier'' (path_join githubRoot ''warehouse-microservice/scripts/verify-business-health-stock-authority-contract.js'')
      [''warehouse.stock_authority_business_health.v1'',
       ''mutatesWarehouse'']]"

definition orders_checks :: "string \<Rightarrow> content_check list" where
  "orders_checks githubRoot =
    [content_check_of ''Orders handoff'' (path_join githubRoot ''orders-microservice/docs/orchestrator/2026-07-06-orders-business-health-handoff.md'')
      [''Orders Business Health Handoff'',
       ''orders.order_reservation_correlation_business_health.v1'',
       ''stock-order-marketplace-business-health.v1'',
       ''reservation-before-order-acceptance'',
       ''[MISSING:''],
     content_check_of ''Orders business health controller'' (path_join githubRoot ''orders-microservice/src/business-health/business-health.controller.ts'')
      [''@Controller('' @ [CHR 0x27] @ ''business-health'' @ [CHR 0x27] @ '')'',
       ''@Public()'',
       ''@Get('' @ [CHR 0x27] @ ''order-reservation-correlation'' @ [CHR 0x27] @ '')'',
       ''getOrderReservationCorrelation''],
     content_check_of ''Orders business health service'' (path_join githubRoot ''orders-microservice/src/business-health/business-health.service.ts'')
      [''const ENDPOINT = '' @ [CHR 0x27] @ ''/api/business-health/order-reservation-correlation'' @ [CHR 0x27] @ '' as const;'',
       ''orders.order_reservation_correlation_business_health.v1'',
       ''stock-order-marketplace-business-health.v1'',
       ''mutatesOrders: false'',
       ''mutatesWarehouse: false'',
       ''mutatesPayments: false'',
       ''runtimeDataQueried: false'',
       ''productionDbQueried: false'',
       ''liveSyntheticMutationAuthorized: false'',
       ''approved live Orders/Warehouse runtime evidence packet''],
     content_check_of ''Orders business health types'' (path_join githubRoot ''orders-microservice/src/business-health/business-health.types.ts'')
      [''OrderReservationCorrelationBusinessHealthEnvelope'',
       ''endpoint: '' @ [CHR 0x27] @ ''/api/business-health/order-reservation-correlation'' @ [CHR 0x27],
       ''mutatesOrders: false'',
       ''mutatesWarehouse: false'',
       ''mutatesPayments: false'',
       ''productionDbQueried: false''],
     content_check_of ''Orders verifier'' (path_join githubRoot ''orders-microservice/scripts/verify-business-health-orders-reservation-contract.js'')
      [''orders.order_reservation_correlation_business_health.v1'',
       ''forbiddenEndpointPatternsChecked'',
       ''mutatesOrders'']]"

definition catalog_checks :: "string \<Rightarrow> content_check list" where
  "catalog_checks githubRoot =
    [content_check_of ''Catalog handoff'' (path_join githubRoot ''catalog-microservice/docs/orchestrator/2026-07-06-catalog-channel-business-health-handoff.md'')
      [''Catalog Channel Business Health Handoff'',
       ''catalog.channel_availability_business_health.v1'',
       ''stock-order-marketplace-business-health.v1'',
       ''live regression'',
       ''validation debt'',
       ''External Marketplace Mutation Blockers''],
     content_check_of ''Catalog business health controller'' (path_join githubRoot ''catalog-microservice/src/business-health/business-health.controller.ts'')
      [''@Controller(\"business-health\")'',
       ''@Get(\"channel-availability\")'',
       ''getChannelAvailabilityEnvelope''],
     content_check_of ''Catalog business health service'' (path_join githubRoot ''catalog-microservice/src/business-health/business-health.service.ts'')
      [''const ENDPOINT = \"/api/business-health/channel-availability\" as const;'',
       ''catalog.channel_availability_business_health.v1'',
       ''stock-order-marketplace-business-health.v1'',
       ''runtimeDataQueried: false'',
       ''productionDbQueried: false'',
       ''liveSyntheticMutationAuthorized: false'',
       ''approved live Catalog channel availability runtime evidence packet''],
     content_check_of ''Catalog business health types'' (path_join githubRoot ''catalog-microservice/src/business-health/business-health.types.ts'')
      [''CatalogChannelAvailabilityBusinessHealthEnvelope'',
       ''endpoint: \"/api/business-health/channel-availability\"'',
       ''mutatesCatalog: false'',
       ''mutatesWarehouse: false'',
       ''mutatesMarketplace: false'',
       ''productionDbQueried: false''],
     content_check_of ''Catalog verifier'' (path_join githubRoot ''catalog-microservice/scripts/verify-business-health-catalog-channel-contract.js'')
      [''catalog.channel_availability_business_health.v1'',
       ''mutatesCatalog'',
       ''forbiddenBusinessHealthPatternsChecked'']]"

definition suppliers_checks :: "string \<Rightarrow> content_check list" where
  "suppliers_checks githubRoot =
    [content_check_of ''Suppliers handoff'' (path_join githubRoot ''suppliers-microservice/docs/orchestrator/2026-07-06-suppliers-business-health-handoff.md'')
      [''Suppliers Business-Health Handoff'',
       ''suppliers.supplier_warehouse_traceability_business_health.v1'',
       ''stock-order-marketplace-business-health.v1'',
       ''synthetic_traceability_runtime_complete'',
       ''real_supplier_procurement_ready'',
       ''The monitor must not collapse synthetic evidence into real supplier readiness''],
     content_check_of ''Suppliers business health controller'' (path_join githubRoot ''suppliers-microservice/src/business-health/business-health.controller.ts'')
      [''@Controller(\"business-health\")'',
       ''@Public()'',
       ''@Get(\"supplier-warehouse-traceability\")'',
       ''getSupplierWarehouseTraceabilityEnvelope''],
     content_check_of ''Suppliers business health service'' (path_join githubRoot ''suppliers-microservice/src/business-health/business-health.service.ts'')
      [''const ENDPOINT = \"/api/business-health/supplier-warehouse-traceability\" as const;'',
       ''suppliers.supplier_warehouse_traceability_business_health.v1'',
       ''stock-order-marketplace-business-health.v1'',
       ''mutatesSuppliers: false'',
       ''mutatesWarehouse: false'',
       ''mutatesCatalog: false'',
       ''runtimeDataQueried: false'',
       ''productionDbQueried: false'',
       ''liveSyntheticMutationAuthorized: false'',
       ''real supplier procurement readiness''],
     content_check_of ''Suppliers business health types'' (path_join githubRoot ''suppliers-microservice/src/business-health/business-health.types.ts'')
      [''SupplierWarehouseTraceabilityEvidenceEnvelope'',
       ''endpoint: \"/api/business-health/supplier-warehouse-traceability\"'',
       ''mutatesSuppliers: false'',
       ''mutatesWarehouse: false'',
       ''mutatesCatalog: false'',
       ''productionDbQueried: false''],
     content_check_of ''Suppliers traceability verifier'' (path_join githubRoot ''suppliers-microservice/scripts/verify-business-health-suppliers-traceability-contract.js'')
      [''suppliers.supplier_warehouse_traceability_business_health.v1'',
       ''forbiddenEndpointPatternsChecked'',
       ''mutatesSuppliers''],
     content_check_of ''Suppliers verifier'' (path_join githubRoot ''suppliers-microservice/scripts/verify-business-health-suppliers-contract.js'')
      [''checkedSnippets'',
       ''missingMarkers'']]"

definition aukro_checks :: "string \<Rightarrow> content_check list" where
  "aukro_checks githubRoot =
    [content_check_of ''Aukro handoff'' (path_join githubRoot ''aukro/docs/orchestrator/2026-07-06-aukro-business-health-handoff.md'')
      [''aukro.channel_readback_business_health.v1'',
       ''stock-order-marketplace-business-health.v1'',
       ''approved live Aukro readback packet'',
       ''[MISSING:''],
     content_check_of ''Aukro business health controller'' (path_join githubRoot ''aukro/services/aukro-service/src/business-health/business-health.controller.ts'')
      [''@Controller('' @ [CHR 0x27] @ ''business-health'' @ [CHR 0x27] @ '')'',
       ''@Get('' @ [CHR 0x27] @ ''channel-readback'' @ [CHR 0x27] @ '')'',
       ''getChannelReadback''],
     content_check_of ''Aukro business health service'' (path_join githubRoot ''aukro/services/aukro-service/src/business-health/business-health.service.ts'')
      [''const ENDPOINT = '' @ [CHR 0x27] @ ''/aukro/business-health/channel-readback'' @ [CHR 0x27] @ '' as const;'',
       ''aukro.channel_readback_business_health.v1'',
       ''stock-order-marketplace-business-health.v1'',
       ''runtimeDataQueried: false'',
       ''productionDbQueried: false'',
       ''liveSyntheticMutationAuthorized: false'',
       ''mutatesMarketplaceOffer: false'',
       ''approved live Aukro readback packet''],
     content_check_of ''Aukro business health types'' (path_join githubRoot ''aukro/services/aukro-service/src/business-health/business-health.types.ts'')
      [''AukroChannelReadbackBusinessHealthEnvelope'',
       ''endpoint: '' @ [CHR 0x27] @ ''/aukro/business-health/channel-readback'' @ [CHR 0x27],
       ''mutatesMarketplaceOffer: false'',
       ''productionDbQueried: false''],
     content_check_of ''Aukro verifier'' (path_join githubRoot ''aukro/scripts/verify-business-health-aukro-channel-contract.js'')
      [''aukro.channel_readback_business_health.v1'',
       ''forbiddenPatternsChecked'']]"

definition heureka_checks :: "string \<Rightarrow> content_check list" where
  "heureka_checks githubRoot =
    [content_check_of ''Heureka handoff'' (path_join githubRoot ''heureka/docs/orchestrator/2026-07-06-heureka-business-health-handoff.md'')
      [''heureka.channel_readback_business_health.v1'',
       ''stock-order-marketplace-business-health.v1'',
       ''approved live Heureka readback packet'',
       ''[MISSING:''],
     content_check_of ''Heureka business health controller'' (path_join githubRoot ''heureka/services/heureka-service/src/business-health/business-health.controller.ts'')
      [''@Controller('' @ [CHR 0x27] @ ''business-health'' @ [CHR 0x27] @ '')'',
       ''@Get('' @ [CHR 0x27] @ ''channel-readback'' @ [CHR 0x27] @ '')'',
       ''getChannelReadback''],
     content_check_of ''Heureka business health service'' (path_join githubRoot ''heureka/services/heureka-service/src/business-health/business-health.service.ts'')
      [''const ENDPOINT = '' @ [CHR 0x27] @ ''/heureka/business-health/channel-readback'' @ [CHR 0x27] @ '' as const;'',
       ''heureka.channel_readback_business_health.v1'',
       ''stock-order-marketplace-business-health.v1'',
       ''runtimeDataQueried: false'',
       ''productionDbQueried: false'',
       ''liveSyntheticMutationAuthorized: false'',
       ''mutatesExternalFeed: false'',
       ''approved live Heureka readback packet''],
     content_check_of ''Heureka business health types'' (path_join githubRoot ''heureka/services/heureka-service/src/business-health/business-health.types.ts'')
      [''HeurekaChannelReadbackBusinessHealthEnvelope'',
       ''endpoint: '' @ [CHR 0x27] @ ''/heureka/business-health/channel-readback'' @ [CHR 0x27],
       ''mutatesExternalFeed: false'',
       ''productionDbQueried: false''],
     content_check_of ''Heureka verifier'' (path_join githubRoot ''heureka/scripts/verify-business-health-heureka-channel-contract.js'')
      [''heureka.channel_readback_business_health.v1'',
       ''forbiddenPatternsChecked'']]"

definition allegro_checks :: "string \<Rightarrow> content_check list" where
  "allegro_checks githubRoot =
    [content_check_of ''Allegro handoff'' (path_join githubRoot ''allegro/docs/orchestrator/2026-07-06-allegro-business-health-handoff.md'')
      [''allegro.channel_readback_business_health.v1'',
       ''stock-order-marketplace-business-health.v1'',
       ''approved live Allegro readback packet'',
       ''[MISSING:''],
     content_check_of ''Allegro business health controller'' (path_join githubRoot ''allegro/services/allegro-service/src/business-health/business-health.controller.ts'')
      [''@Controller('' @ [CHR 0x27] @ ''allegro/business-health'' @ [CHR 0x27] @ '')'',
       ''@Get('' @ [CHR 0x27] @ ''channel-readback'' @ [CHR 0x27] @ '')'',
       ''getChannelReadback''],
     content_check_of ''Allegro business health service'' (path_join githubRoot ''allegro/services/allegro-service/src/business-health/business-health.service.ts'')
      [''const ENDPOINT = '' @ [CHR 0x27] @ ''/allegro/business-health/channel-readback'' @ [CHR 0x27] @ '' as const;'',
       ''allegro.channel_readback_business_health.v1'',
       ''stock-order-marketplace-business-health.v1'',
       ''runtimeDataQueried: false'',
       ''productionDbQueried: false'',
       ''liveSyntheticMutationAuthorized: false'',
       ''offerImportAuthorized: false'',
       ''stockSyncAuthorized: false'',
       ''orderImportAuthorized: false'',
       ''mutatesMarketplaceOffer: false'',
       ''approved live Allegro readback packet''],
     content_check_of ''Allegro business health types'' (path_join githubRoot ''allegro/services/allegro-service/src/business-health/business-health.types.ts'')
      [''AllegroChannelReadbackBusinessHealthEnvelope'',
       ''endpoint: '' @ [CHR 0x27] @ ''/allegro/business-health/channel-readback'' @ [CHR 0x27],
       ''mutatesMarketplaceOffer: false'',
       ''productionDbQueried: false''],
     content_check_of ''Allegro verifier'' (path_join githubRoot ''allegro/scripts/verify-business-health-allegro-channel-contract.js'')
      [''allegro.channel_readback_business_health.v1'',
       ''forbiddenPatternsChecked'']]"

definition bazos_checks :: "string \<Rightarrow> content_check list" where
  "bazos_checks githubRoot =
    [content_check_of ''Bazos handoff'' (path_join githubRoot ''bazos/docs/orchestrator/2026-07-06-bazos-business-health-handoff.md'')
      [''bazos.channel_readback_business_health.v1'',
       ''stock-order-marketplace-business-health.v1'',
       ''approved live Bazos readback packet'',
       ''[MISSING:''],
     content_check_of ''Bazos business health controller'' (path_join githubRoot ''bazos/services/aukro-service/src/business-health/business-health.controller.ts'')
      [''@Controller('' @ [CHR 0x27] @ ''bazos/business-health'' @ [CHR 0x27] @ '')'',
       ''@Get('' @ [CHR 0x27] @ ''channel-readback'' @ [CHR 0x27] @ '')'',
       ''getChannelReadback''],
     content_check_of ''Bazos business health service'' (path_join githubRoot ''bazos/services/aukro-service/src/business-health/business-health.service.ts'')
      [''const ENDPOINT = '' @ [CHR 0x27] @ ''/bazos/business-health/channel-readback'' @ [CHR 0x27] @ '' as const;'',
       ''bazos.channel_readback_business_health.v1'',
       ''stock-order-marketplace-business-health.v1'',
       ''runtimeDataQueried: false'',
       ''productionDbQueried: false'',
       ''liveSyntheticMutationAuthorized: false'',
       ''importOrSyncAuthorized: false'',
       ''orderIngestionAuthorized: false'',
       ''localAdMutationAuthorized: false'',
       ''mutatesMarketplaceListing: false'',
       ''approved live Bazos readback packet''],
     content_check_of ''Bazos business health types'' (path_join githubRoot ''bazos/services/aukro-service/src/business-health/business-health.types.ts'')
      [''BazosChannelReadbackBusinessHealthEnvelope'',
       ''endpoint: '' @ [CHR 0x27] @ ''/bazos/business-health/channel-readback'' @ [CHR 0x27],
       ''mutatesMarketplaceListing: false'',
       ''productionDbQueried: false''],
     content_check_of ''Bazos verifier'' (path_join githubRoot ''bazos/scripts/verify-business-health-bazos-channel-contract.js'')
      [''bazos.channel_readback_business_health.v1'',
       ''forbiddenPatternsChecked'']]"

definition content_checks :: "string \<Rightarrow> string \<Rightarrow> content_check list" where
  "content_checks bpcpRoot githubRoot =
     bpcp_checks bpcpRoot @
     warehouse_checks githubRoot @
     orders_checks githubRoot @
     catalog_checks githubRoot @
     suppliers_checks githubRoot @
     aukro_checks githubRoot @
     heureka_checks githubRoot @
     allegro_checks githubRoot @
     bazos_checks githubRoot"

definition forbidden_snippets :: "string list" where
  "forbidden_snippets =
     [''kubectl apply'',
      ''./scripts/deploy.sh'',
      ''DROP TABLE'',
      ''DELETE FROM'',
      ''UPDATE stock'',
      ''INSERT INTO stock'']"

definition runtime_source_checks :: "string list" where
  "runtime_source_checks =
     [''src/business-health/business-health.controller.ts'',
      ''src/business-health/business-health.evidence-adapter-runner.ts'',
      ''src/business-health/business-health.module.ts'',
      ''src/business-health/business-health.service.ts'',
      ''src/business-health/business-health.types.ts'']"

definition forbidden_runtime_snippets :: "string list" where
  "forbidden_runtime_snippets =
     [''readFileSync'',
      ''readdirSync'',
      ''writeFileSync'',
      ''existsSync'',
      ''createReadStream'',
      ''fetch('',
      ''axios'',
      ''HttpService'',
      ''ClientProxy'',
      ''child_process'',
      ''exec('',
      ''spawn('',
      ''kubectl'',
      ''./scripts/deploy.sh'',
      ''process.env'',
      ''@nestjs/schedule'']"


section \<open>The script\<close>

record checked_file =
  cf_label :: string
  cf_path :: string
  cf_bytes :: nat
  cf_lines :: nat

record integration_summary =
  im_schemaVersion :: string
  im_processId :: string
  im_mutatesProduction :: bool
  im_checkedFiles :: "checked_file list"
  im_missing :: "string list"
  im_forbidden :: "string list"
  im_blockersPreserved :: nat

definition empty_summary :: integration_summary where
  "empty_summary =
     \<lparr>im_schemaVersion = ''stock-order-marketplace-business-health.integration-check.v1'',
      im_processId = ''stock-reservation-cross-channel-v1'', im_mutatesProduction = False,
      im_checkedFiles = [], im_missing = [], im_forbidden = [], im_blockersPreserved = 0\<rparr>"

text \<open>Reading a file and checking its text update the summary of the run.\<close>

type_synonym 'a summary_op = "(integration_summary, 'a) op"

definition update_summary :: "(integration_summary \<Rightarrow> integration_summary) \<Rightarrow> unit summary_op" where
  "update_summary f s = (Inr (), f s)"

definition add_missing :: "string list \<Rightarrow> unit summary_op" where
  "add_missing ms = update_summary (\<lambda>s. s\<lparr>im_missing := im_missing s @ ms\<rparr>)"

definition add_forbidden :: "string list \<Rightarrow> unit summary_op" where
  "add_forbidden ms = update_summary (\<lambda>s. s\<lparr>im_forbidden := im_forbidden s @ ms\<rparr>)"

definition read_file :: "file_system \<Rightarrow> string \<Rightarrow> string \<Rightarrow> string summary_op" where
  "read_file fs filePath label =
     (if \<not> exists_sync fs filePath
      then and_then (add_missing [label @ '': missing file '' @ filePath]) (\<lambda>_. ret [])
      else and_then (lift_result (read_file_sync fs filePath)) (\<lambda>t.
        and_then (update_summary (\<lambda>s. s\<lparr>im_checkedFiles := im_checkedFiles s @
             [\<lparr>cf_label = label, cf_path = filePath, cf_bytes = byte_length t,
               cf_lines = length (split_on (CHR 0x0A) t)\<rparr>]\<rparr>)) (\<lambda>_. ret t)))"

definition check_content :: "file_system \<Rightarrow> content_check \<Rightarrow> unit summary_op" where
  "check_content fs check =
     and_then (read_file fs (cc_path check) (cc_label check)) (\<lambda>t.
       if t = [] then ret ()
       else
         and_then (add_missing (map (\<lambda>s. cc_label check @ '': missing snippet '' @ s)
           (filter (\<lambda>s. \<not> js_includes s t) (cc_snippets check)))) (\<lambda>_.
         and_then (add_forbidden (map (\<lambda>s. cc_label check @ '': forbidden snippet '' @ s)
           (filter (\<lambda>s. js_includes s t) forbidden_snippets))) (\<lambda>_.
         update_summary (\<lambda>s. s\<lparr>im_blockersPreserved := im_blockersPreserved s + count_markers t\<rparr>))))"

definition check_runtime_source :: "file_system \<Rightarrow> string \<Rightarrow> string \<Rightarrow> unit summary_op" where
  "check_runtime_source fs bpcpRoot runtimePath =
     and_then (read_file fs (path_join bpcpRoot runtimePath) (''Runtime source boundary '' @ runtimePath)) (\<lambda>t.
       if t = [] then ret ()
       else add_forbidden (map (\<lambda>s. runtimePath @ '': forbidden runtime snippet '' @ s)
              (filter (\<lambda>s. js_includes s t) forbidden_runtime_snippets)))"

fun in_sequence :: "unit summary_op list \<Rightarrow> unit summary_op" where
  "in_sequence [] = ret ()"
| "in_sequence (m # ms) = and_then m (\<lambda>_. in_sequence ms)"

definition integration_checks :: "file_system \<Rightarrow> string \<Rightarrow> unit summary_op" where
  "integration_checks fs bpcpRoot =
     and_then (in_sequence (map (check_content fs) (content_checks bpcpRoot (parent_dir bpcpRoot)))) (\<lambda>_.
     and_then (in_sequence (map (check_runtime_source fs bpcpRoot) runtime_source_checks)) (\<lambda>_.
     let verifier = path_join bpcpRoot ''scripts/verify-stock-reservation-process-contract.js'' in
     and_then (if \<not> exists_sync fs verifier
               then add_missing [''BPCP process verifier missing file '' @ verifier] else ret ()) (\<lambda>_.
     and_then (read_state im_blockersPreserved) (\<lambda>n.
     if n < 20
     then add_missing [''Expected at least 20 preserved [MISSING]/[UNKNOWN] blockers, got '' @ nat_str n]
     else ret ()))))"

text \<open>
  The run: the summary that is printed, with its status, and the exit status. An exception
  (a checked path that is a directory) ends the run without a summary.
\<close>

record integration_run =
  ir_exit :: nat
  ir_status :: string
  ir_summary :: integration_summary

definition verify_integration_contract :: "file_system \<Rightarrow> string \<Rightarrow> error + integration_run" where
  "verify_integration_contract fs bpcpRoot =
     (case integration_checks fs bpcpRoot empty_summary of
        (Inl e, _) \<Rightarrow> Inl e
      | (Inr _, s) \<Rightarrow>
          if im_missing s \<noteq> [] \<or> im_forbidden s \<noteq> []
          then Inr \<lparr>ir_exit = 1, ir_status = ''fail'', ir_summary = s\<rparr>
          else Inr \<lparr>ir_exit = 0, ir_status = ''pass'', ir_summary = s\<rparr>)"


section \<open>When the check passes\<close>

definition text_at :: "file_system \<Rightarrow> string \<Rightarrow> string option" where
  "text_at fs path = (case fs path of Some (FileEntry t) \<Rightarrow> Some t | _ \<Rightarrow> None)"

definition content_ok :: "file_system \<Rightarrow> content_check \<Rightarrow> bool" where
  "content_ok fs c \<longleftrightarrow>
     (case text_at fs (cc_path c) of
        None \<Rightarrow> False
      | Some t \<Rightarrow> t = [] \<or>
          list_all (\<lambda>s. js_includes s t) (cc_snippets c) \<and>
          list_all (\<lambda>s. \<not> js_includes s t) forbidden_snippets)"

definition runtime_ok :: "file_system \<Rightarrow> string \<Rightarrow> string \<Rightarrow> bool" where
  "runtime_ok fs bpcpRoot path \<longleftrightarrow>
     (case text_at fs (path_join bpcpRoot path) of
        None \<Rightarrow> False
      | Some t \<Rightarrow> list_all (\<lambda>s. \<not> js_includes s t) forbidden_runtime_snippets)"

definition blockers_in :: "file_system \<Rightarrow> content_check \<Rightarrow> nat" where
  "blockers_in fs c = (case text_at fs (cc_path c) of None \<Rightarrow> 0 | Some t \<Rightarrow> count_markers t)"

text \<open>
  What one step does to a summary: it either throws, or adds complaints, none exactly when
  its condition holds, and a number of blockers.
\<close>

definition adds_to_summary ::
  "unit summary_op \<Rightarrow> bool \<Rightarrow> nat \<Rightarrow> bool" where
  "adds_to_summary m ok n \<longleftrightarrow>
     (\<forall>s. case m s of
            (Inl e, _) \<Rightarrow> \<not> ok
          | (Inr _, s') \<Rightarrow>
              (im_missing s' = [] \<and> im_forbidden s' = [] \<longleftrightarrow>
                 im_missing s = [] \<and> im_forbidden s = [] \<and> ok) \<and>
              (ok \<longrightarrow> im_blockersPreserved s' = im_blockersPreserved s + n))"

lemma adds_ret: "adds_to_summary (ret ()) True 0"
  by (simp add: adds_to_summary_def ret_def)

lemma adds_and_then:
  assumes "adds_to_summary m ok n" and "adds_to_summary m' ok' n'"
  shows "adds_to_summary (and_then m (\<lambda>_. m')) (ok \<and> ok') (n + n')"
  unfolding adds_to_summary_def
proof
  fix s
  show "case and_then m (\<lambda>_. m') s of
          (Inl e, _) \<Rightarrow> \<not> (ok \<and> ok')
        | (Inr _, s') \<Rightarrow>
            (im_missing s' = [] \<and> im_forbidden s' = [] \<longleftrightarrow>
               im_missing s = [] \<and> im_forbidden s = [] \<and> ok \<and> ok') \<and>
            (ok \<and> ok' \<longrightarrow> im_blockersPreserved s' = im_blockersPreserved s + (n + n'))"
    using assms[unfolded adds_to_summary_def, rule_format, of s]
      assms(2)[unfolded adds_to_summary_def, rule_format, of "snd (m s)"]
    by (auto simp: and_then_def split: prod.splits sum.splits)
qed

lemma adds_in_sequence:
  "(\<And>x. x \<in> set xs \<Longrightarrow> adds_to_summary (f x) (p x) (n x)) \<Longrightarrow>
   adds_to_summary (in_sequence (map f xs)) (list_all p xs) (sum_list (map n xs))"
  by (induction xs) (auto intro: adds_ret adds_and_then)

lemma adds_content: "adds_to_summary (check_content fs c) (content_ok fs c) (blockers_in fs c)"
  by (auto simp: adds_to_summary_def check_content_def read_file_def content_ok_def blockers_in_def
      text_at_def exists_sync_def read_file_sync_def add_missing_def add_forbidden_def update_summary_def
      and_then_def ret_def lift_result_def filter_empty_conv list_all_iff
      split: option.splits file_entry.splits)

lemma runtime_snippets_nonempty: "[] \<notin> set forbidden_runtime_snippets"
  by (simp add: forbidden_runtime_snippets_def)

lemma adds_runtime: "adds_to_summary (check_runtime_source fs r p) (runtime_ok fs r p) 0"
  using runtime_snippets_nonempty
  by (auto simp: adds_to_summary_def check_runtime_source_def read_file_def runtime_ok_def
      text_at_def exists_sync_def read_file_sync_def add_missing_def add_forbidden_def update_summary_def
      and_then_def ret_def lift_result_def filter_empty_conv list_all_iff
      split: option.splits file_entry.splits)


lemma empty_summary_fields:
  "im_missing empty_summary = []" "im_forbidden empty_summary = []" "im_blockersPreserved empty_summary = 0"
  by (simp_all add: empty_summary_def)

text \<open>The two loops together, and the run after them.\<close>

definition sources_ok :: "file_system \<Rightarrow> string \<Rightarrow> bool" where
  "sources_ok fs bpcpRoot \<longleftrightarrow>
     list_all (content_ok fs) (content_checks bpcpRoot (parent_dir bpcpRoot)) \<and>
     list_all (runtime_ok fs bpcpRoot) runtime_source_checks"

definition blockers_total :: "file_system \<Rightarrow> string \<Rightarrow> nat" where
  "blockers_total fs bpcpRoot =
     sum_list (map (blockers_in fs) (content_checks bpcpRoot (parent_dir bpcpRoot)))"

lemma adds_loops:
  "adds_to_summary
     (and_then (in_sequence (map (check_content fs) (content_checks r (parent_dir r)))) (\<lambda>_.
        in_sequence (map (check_runtime_source fs r) runtime_source_checks)))
     (sources_ok fs r) (blockers_total fs r)"
proof -
  have "adds_to_summary (in_sequence (map (check_runtime_source fs r) runtime_source_checks))
      (list_all (runtime_ok fs r) runtime_source_checks)
      (sum_list (map (\<lambda>_. 0) runtime_source_checks))"
    by (rule adds_in_sequence) (rule adds_runtime)
  from adds_and_then[OF adds_in_sequence[OF adds_content] this] show ?thesis
    by (simp add: sources_ok_def blockers_total_def)
qed

text \<open>
  C30. The check of the business-health contract passes exactly when every file of its table
  exists and, unless it is empty, contains all its snippets and none of the forbidden ones,
  the runtime sources exist and contain no forbidden call, the process verifier exists, and
  the checked files together keep at least twenty markers of missing facts. In particular
  an empty file passes whatever the table demands of it.
\<close>

theorem integration_check_passes_iff:
  "(case verify_integration_contract fs bpcpRoot of Inl e \<Rightarrow> False | Inr r \<Rightarrow> ir_exit r = 0) \<longleftrightarrow>
   list_all (content_ok fs) (content_checks bpcpRoot (parent_dir bpcpRoot)) \<and>
   list_all (runtime_ok fs bpcpRoot) runtime_source_checks \<and>
   exists_sync fs (path_join bpcpRoot ''scripts/verify-stock-reservation-process-contract.js'') \<and>
   20 \<le> sum_list (map (blockers_in fs) (content_checks bpcpRoot (parent_dir bpcpRoot)))"
proof -
  define loops where "loops = and_then (in_sequence (map (check_content fs) (content_checks bpcpRoot (parent_dir bpcpRoot))))
    (\<lambda>_. in_sequence (map (check_runtime_source fs bpcpRoot) runtime_source_checks))"
  have split: "integration_checks fs bpcpRoot = and_then loops (\<lambda>_.
     let verifier = path_join bpcpRoot ''scripts/verify-stock-reservation-process-contract.js'' in
     and_then (if \<not> exists_sync fs verifier
               then add_missing [''BPCP process verifier missing file '' @ verifier] else ret ()) (\<lambda>_.
     and_then (read_state im_blockersPreserved) (\<lambda>n.
     if n < 20
     then add_missing [''Expected at least 20 preserved [MISSING]/[UNKNOWN] blockers, got '' @ nat_str n]
     else ret ())))"
    by (simp add: integration_checks_def loops_def and_then_assoc)
  have "adds_to_summary loops (sources_ok fs bpcpRoot) (blockers_total fs bpcpRoot)"
    unfolding loops_def by (rule adds_loops)
  then have loops: "case loops empty_summary of
      (Inl e, _) \<Rightarrow> \<not> sources_ok fs bpcpRoot
    | (Inr _, s') \<Rightarrow>
        (im_missing s' = [] \<and> im_forbidden s' = [] \<longleftrightarrow> sources_ok fs bpcpRoot) \<and>
        (sources_ok fs bpcpRoot \<longrightarrow> im_blockersPreserved s' = blockers_total fs bpcpRoot)"
    unfolding adds_to_summary_def using empty_summary_fields
    by (elim allE[where x = empty_summary]) (simp split: prod.splits sum.splits)
  have "(case verify_integration_contract fs bpcpRoot of Inl e \<Rightarrow> False | Inr r \<Rightarrow> ir_exit r = 0) \<longleftrightarrow>
      sources_ok fs bpcpRoot \<and>
      exists_sync fs (path_join bpcpRoot ''scripts/verify-stock-reservation-process-contract.js'') \<and>
      20 \<le> blockers_total fs bpcpRoot"
    using loops
    by (auto simp: verify_integration_contract_def split Let_def and_then_def read_state_def
        add_missing_def update_summary_def ret_def split: prod.splits sum.splits)
  then show ?thesis by (simp add: sources_ok_def blockers_total_def)
qed

text \<open>A file of the table that is empty is recorded as checked, and nothing is asked of it.\<close>

lemma empty_file_unchecked:
  "check_content (fs(cc_path c \<mapsto> FileEntry [])) c s =
   (Inr (), s\<lparr>im_checkedFiles := im_checkedFiles s @
      [\<lparr>cf_label = cc_label c, cf_path = cc_path c, cf_bytes = 0, cf_lines = 1\<rparr>]\<rparr>)"
  by (simp add: check_content_def read_file_def exists_sync_def read_file_sync_def byte_length_def
      and_then_def lift_result_def update_summary_def ret_def)

end
