(* ===== verification/ScenarioCheck.thy ===== *)
theory ScenarioCheck
  imports Scripts SimulationProperties
begin

text \<open>
  \<open>src/scripts/verify-simulation-scenarios.js\<close>: every built-in scenario is simulated by
  its id and compared with the expectation written beside it. The service that the script
  is run on is an argument, so that the script can be judged on any service; the script's
  own service is \<open>simulate_scenario\<close>. A value compared is a JSON value, \<open>None\<close> when
  undefined.
\<close>

section \<open>Comparisons\<close>

definition decision_text :: "decision_code \<Rightarrow> string" where
  "decision_text c =
     (case c of
        ApplyDiscount \<Rightarrow> ''APPLY_DISCOUNT''
      | NotEligible \<Rightarrow> ''NOT_ELIGIBLE''
      | ProcessNotSupported \<Rightarrow> ''PROCESS_NOT_SUPPORTED''
      | ProcessNotStarted \<Rightarrow> ''PROCESS_NOT_STARTED''
      | ProcessExpired \<Rightarrow> ''PROCESS_EXPIRED''
      | ControlledOff \<Rightarrow> ''CONTROLLED_OFF'')"

definition reason_text :: "decision_reason \<Rightarrow> string" where
  "reason_text r =
     (case r of
        RsProcessSupported \<Rightarrow> ''PROCESS_SUPPORTED''
      | RsProcessNotSupported \<Rightarrow> ''PROCESS_NOT_SUPPORTED''
      | RsProcessActiveWindow \<Rightarrow> ''PROCESS_ACTIVE_WINDOW''
      | RsProcessNotStarted \<Rightarrow> ''PROCESS_NOT_STARTED''
      | RsProcessExpired \<Rightarrow> ''PROCESS_EXPIRED''
      | RsProcessPaused \<Rightarrow> ''PROCESS_PAUSED''
      | RsKillSwitchActive \<Rightarrow> ''KILL_SWITCH_ACTIVE''
      | RsEligibleCategory \<Rightarrow> ''ELIGIBLE_CATEGORY''
      | RsCategoryNotEligible \<Rightarrow> ''CATEGORY_NOT_ELIGIBLE''
      | RsOrderSnapshotPresent \<Rightarrow> ''ORDER_SNAPSHOT_PRESENT'')"

definition snapshot_status_text :: "snapshot_status \<Rightarrow> string" where
  "snapshot_status_text s =
     (case s of
        SnapshotPreserved \<Rightarrow> ''snapshot-preserved''
      | SnapshotPreservedDespiteNewQuote \<Rightarrow> ''snapshot-preserved-despite-new-quote'')"

text \<open>\<open>===\<close> of two values neither of which is an object or array.\<close>

definition strict_equal :: "json option \<Rightarrow> json option \<Rightarrow> bool" where
  "strict_equal a b \<longleftrightarrow>
     (case (a, b) of (Some (JNum m), Some (JNum n)) \<Rightarrow> js_eq m n | _ \<Rightarrow> a = b)"

definition json_text :: "(rat \<Rightarrow> string) \<Rightarrow> json option \<Rightarrow> string" where
  "json_text shown v = (case v of None \<Rightarrow> ''undefined'' | Some j \<Rightarrow> stringify shown j)"

definition assert_equal ::
  "(rat \<Rightarrow> string) \<Rightarrow> string \<Rightarrow> json option \<Rightarrow> json option \<Rightarrow> string list" where
  "assert_equal shown label actual expected =
     (if \<not> strict_equal actual expected
      then [label @ '': expected '' @ json_text shown expected @ '', got '' @ json_text shown actual]
      else [])"

definition assert_includes :: "string \<Rightarrow> string list \<Rightarrow> string list \<Rightarrow> string list" where
  "assert_includes label actual expectedValues =
     map (\<lambda>x. label @ '': missing '' @ x) (filter (\<lambda>x. x \<notin> set actual) expectedValues)"


section \<open>The script\<close>

type_synonym scenario_service = "string \<Rightarrow> error + simulation_response"

definition verify_scenario ::
  "(rat \<Rightarrow> string) \<Rightarrow> scenario_service \<Rightarrow> scenario_definition \<Rightarrow> error + string list" where
  "verify_scenario shown service scenario =
     (case service (sn_id scenario) of
        Inl e \<Rightarrow> Inl e
      | Inr response \<Rightarrow>
          let expected = sn_expected scenario; eq = assert_equal shown;
              expectation = sr_orderSnapshotExpectation response
          in Inr
            (eq ''scenarioId'' (map_option JStr (sr_scenarioId response)) (Some (JStr (sn_id scenario))) @
             eq ''decision'' (Some (JStr (decision_text (dc_code (sr_decision response)))))
               (Some (JStr (decision_text (ex_decision expected)))) @
             eq ''eligible'' (Some (JBool (sr_eligible response))) (Some (JBool (ex_eligible expected))) @
             eq ''activeDate'' (Some (JBool (sr_activeDate response))) (Some (JBool (ex_activeDate expected))) @
             eq ''eligibleCategory'' (Some (JBool (sr_eligibleCategory response)))
               (Some (JBool (ex_eligibleCategory expected))) @
             eq ''discountTotal'' (Some (JNum (qt_discountTotal (sr_quote response))))
               (Some (JNum (ex_discountTotal expected))) @
             eq ''total'' (Some (JNum (qt_total (sr_quote response)))) (Some (JNum (ex_total expected))) @
             assert_includes ''reasons'' (map reason_text (dc_reasons (sr_decision response)))
               (map reason_text (ex_reasons expected)) @
             assert_includes ''warnings'' (sr_warnings response) (sn_warnings scenario) @
             (if ex_orderSnapshotImmutable expected = Some True
              then eq ''orderSnapshotExpectation.immutable''
                     (map_option (\<lambda>e. JBool (se_immutable e)) expectation) (Some (JBool True)) @
                   eq ''orderSnapshotExpectation.status''
                     (map_option (\<lambda>e. JStr (snapshot_status_text (se_status e))) expectation)
                     (Some (JStr ''snapshot-preserved-despite-new-quote''))
              else [])))"

text \<open>
  The loop over the scenarios, with the lines printed and the failures collected so far.
\<close>

fun verify_all ::
  "(rat \<Rightarrow> string) \<Rightarrow> scenario_service \<Rightarrow> string list \<Rightarrow> string list \<Rightarrow> scenario_definition list \<Rightarrow>
   script_run" where
  "verify_all shown service printed allFailures [] =
     (if allFailures \<noteq> []
      then \<lparr>run_status = 1, run_stdout = printed,
            run_stderr = [js_join [CHR 0x0A] allFailures], run_uncaught = None\<rparr>
      else passed (printed @
             [''Verified '' @ nat_str (length holiday_discount_scenarios) @ '' simulation scenarios.'']))"
| "verify_all shown service printed allFailures (scenario # rest) =
     (case verify_scenario shown service scenario of
        Inl e \<Rightarrow> (crashed e)\<lparr>run_stdout := printed\<rparr>
      | Inr failures \<Rightarrow>
          if failures \<noteq> []
          then verify_all shown service printed
                 (allFailures @ [sn_id scenario @ [CHR 0x0A] @ ''  - '' @
                    js_join ([CHR 0x0A] @ ''  - '') failures]) rest
          else verify_all shown service (printed @ [''PASS '' @ sn_id scenario]) allFailures rest)"

definition verify_simulation_scenarios :: "(rat \<Rightarrow> string) \<Rightarrow> scenario_service \<Rightarrow> script_run" where
  "verify_simulation_scenarios shown service = verify_all shown service [] [] holiday_discount_scenarios"


section \<open>When the script passes\<close>

lemma assert_equal_Nil: "assert_equal shown label a b = [] \<longleftrightarrow> strict_equal a b"
  by (simp add: assert_equal_def)

lemma assert_includes_Nil: "assert_includes label xs ys = [] \<longleftrightarrow> set ys \<subseteq> set xs"
  by (auto simp: assert_includes_def filter_empty_conv)

lemma strict_equal_values [simp]:
  "strict_equal (Some (JStr s)) (Some (JStr t)) \<longleftrightarrow> s = t"
  "strict_equal (Some (JBool b)) (Some (JBool c)) \<longleftrightarrow> b = c"
  "strict_equal (Some (JNum (Fin x))) (Some (JNum (Fin y))) \<longleftrightarrow> x = y"
  by (simp_all add: strict_equal_def js_eq_def)

text \<open>
  When a response agrees with the expectation of a scenario, apart from the script: the
  same decision, the same flags and amounts, at least the expected reasons and warnings,
  and where the order snapshot is to be immutable, one preserved despite the new quote.
\<close>

definition agrees :: "scenario_definition \<Rightarrow> simulation_response \<Rightarrow> bool" where
  "agrees scenario response \<longleftrightarrow>
     sr_scenarioId response = Some (sn_id scenario) \<and>
     dc_code (sr_decision response) = ex_decision (sn_expected scenario) \<and>
     sr_eligible response = ex_eligible (sn_expected scenario) \<and>
     sr_activeDate response = ex_activeDate (sn_expected scenario) \<and>
     sr_eligibleCategory response = ex_eligibleCategory (sn_expected scenario) \<and>
     js_eq (qt_discountTotal (sr_quote response)) (ex_discountTotal (sn_expected scenario)) \<and>
     js_eq (qt_total (sr_quote response)) (ex_total (sn_expected scenario)) \<and>
     set (ex_reasons (sn_expected scenario)) \<subseteq> set (dc_reasons (sr_decision response)) \<and>
     set (sn_warnings scenario) \<subseteq> set (sr_warnings response) \<and>
     (ex_orderSnapshotImmutable (sn_expected scenario) = Some True \<longrightarrow>
        (\<exists>e. sr_orderSnapshotExpectation response = Some e \<and> se_immutable e \<and>
             se_status e = SnapshotPreservedDespiteNewQuote))"

lemma decision_text_inject [simp]: "decision_text c = decision_text d \<longleftrightarrow> c = d"
  by (cases c; cases d; simp add: decision_text_def)

lemma inj_reason_text: "inj reason_text"
proof
  show "r = r'" if "reason_text r = reason_text r'" for r r'
    using that by (cases r; cases r'; simp add: reason_text_def)
qed

lemma strict_equal_numbers [simp]: "strict_equal (Some (JNum m)) (Some (JNum n)) \<longleftrightarrow> js_eq m n"
  by (simp add: strict_equal_def)

lemma verify_scenario_iff:
  "verify_scenario shown service s = Inr [] \<longleftrightarrow>
   (case service (sn_id s) of Inl e \<Rightarrow> False | Inr response \<Rightarrow> agrees s response)"
proof (cases "service (sn_id s)")
  case (Inr r)
  have snapshot: "strict_equal (map_option (\<lambda>e. JBool (se_immutable e)) x) (Some (JBool True)) \<and>
      strict_equal (map_option (\<lambda>e. JStr (snapshot_status_text (se_status e))) x)
        (Some (JStr ''snapshot-preserved-despite-new-quote'')) \<longleftrightarrow>
      (\<exists>e. x = Some e \<and> se_immutable e \<and> se_status e = SnapshotPreservedDespiteNewQuote)" for x
  proof (cases x)
    case (Some e)
    then show ?thesis by (cases "se_status e") (simp_all add: snapshot_status_text_def)
  qed (simp add: strict_equal_def)
  have named: "strict_equal (map_option JStr x) (Some (JStr i)) \<longleftrightarrow> x = Some i" for x i
    by (cases x) (simp_all add: strict_equal_def)
  show ?thesis
    using Inr snapshot[of "sr_orderSnapshotExpectation r"]
    by (auto simp: verify_scenario_def Let_def assert_equal_Nil assert_includes_Nil agrees_def named
        inj_image_subset_iff[OF inj_reason_text])
qed (simp add: verify_scenario_def)

lemma verify_all_status:
  "run_status (verify_all shown service printed failures ss) = 0 \<longleftrightarrow>
   failures = [] \<and> list_all (\<lambda>s. verify_scenario shown service s = Inr []) ss"
proof (induction ss arbitrary: printed failures)
  case (Cons s ss)
  then show ?case
    by (cases "verify_scenario shown service s") (auto simp: crashed_def)
qed (simp add: passed_def)

lemma scenario_by_id:
  assumes "s \<in> set holiday_discount_scenarios"
  shows "get_simulation_scenario (sn_id s) = Some s" and "sq_scenarioId (sn_request s) = Some (sn_id s)"
proof -
  have "distinct (map sn_id holiday_discount_scenarios)"
    by (simp add: holiday_discount_scenarios_def scenario_eligible_category_def
        scenario_ineligible_category_def scenario_expired_process_def
        scenario_paused_kill_switch_def scenario_order_snapshot_def)
  then show "get_simulation_scenario (sn_id s) = Some s"
    unfolding get_simulation_scenario_def using assms by (rule find_by_key)
  show "sq_scenarioId (sn_request s) = Some (sn_id s)"
    using assms by (auto simp: holiday_discount_scenarios_def scenario_eligible_category_def
        scenario_ineligible_category_def scenario_expired_process_def
        scenario_paused_kill_switch_def scenario_order_snapshot_def scenario_request_def)
qed

lemma response_scenario:
  "simulate_holiday_discount host r = Inr resp \<Longrightarrow> sr_scenarioId resp = sq_scenarioId r"
  by (auto simp: simulate_holiday_discount_def Let_def split: option.splits prod.splits)

text \<open>The scenario with an order snapshot is quoted anew, and its snapshot is kept.\<close>

lemma snapshot_status:
  assumes "simulate_holiday_discount host (sn_request scenario_order_snapshot) = Inr resp"
    and "meets_expectation resp scenario_order_snapshot"
  shows "map_option se_immutable (sr_orderSnapshotExpectation resp) = Some True"
    and "map_option se_status (sr_orderSnapshotExpectation resp) = Some SnapshotPreservedDespiteNewQuote"
proof -
  let ?r = "sn_request scenario_order_snapshot"
  obtain resp' where r': "simulate_holiday_discount host ?r = Inr resp'"
    "sr_orderSnapshotExpectation resp' =
       map_option (\<lambda>s. fst (build_order_snapshot_expectation s (sr_quote resp') [])) (sq_orderSnapshot ?r)"
    by (rule simulate_answers)
  have "qt_total (sr_quote resp) = Fin 1080"
    using assms(2) by (simp add: meets_expectation_def scenario_order_snapshot_def Let_def)
  then show "map_option se_immutable (sr_orderSnapshotExpectation resp) = Some True"
    and "map_option se_status (sr_orderSnapshotExpectation resp) = Some SnapshotPreservedDespiteNewQuote"
    using r' assms(1)
    by (simp_all add: scenario_order_snapshot_def scenario_request_def js_eq_def
        build_order_snapshot_expectation_def Let_def)
qed

lemma scenario_expectation:
  assumes "s \<in> set holiday_discount_scenarios"
    and "ex_orderSnapshotImmutable (sn_expected s) = Some True"
  shows "s = scenario_order_snapshot"
  using assms by (auto simp: holiday_discount_scenarios_def scenario_eligible_category_def
      scenario_ineligible_category_def scenario_expired_process_def
      scenario_paused_kill_switch_def)

lemma expected_amounts:
  assumes "s \<in> set holiday_discount_scenarios"
  shows "ex_discountTotal (sn_expected s) \<noteq> JsNaN" and "ex_total (sn_expected s) \<noteq> JsNaN"
  using assms by (auto simp: holiday_discount_scenarios_def scenario_eligible_category_def
      scenario_ineligible_category_def scenario_expired_process_def
      scenario_paused_kill_switch_def scenario_order_snapshot_def)

lemma verify_scenario_passes:
  assumes "s \<in> set holiday_discount_scenarios"
  shows "verify_scenario shown (simulate_scenario host) s = Inr []"
proof -
  obtain resp where resp: "simulate_holiday_discount host (sn_request s) = Inr resp"
    and ok: "meets_expectation resp s"
    using scenarios_run[OF assms, of host] by (auto split: sum.splits)
  have snapshot: "\<exists>e. sr_orderSnapshotExpectation resp = Some e \<and> se_immutable e \<and>
      se_status e = SnapshotPreservedDespiteNewQuote"
    if "ex_orderSnapshotImmutable (sn_expected s) = Some True"
    using snapshot_status[of host resp] resp ok scenario_expectation[OF assms that] by auto
  have "sr_scenarioId resp = Some (sn_id s)"
    using response_scenario[OF resp] scenario_by_id(2)[OF assms] by simp
  then have "agrees s resp"
    using ok snapshot expected_amounts[OF assms]
    by (simp add: agrees_def meets_expectation_def Let_def js_eq_def)
  then show ?thesis
    by (simp add: verify_scenario_iff simulate_scenario_def scenario_by_id[OF assms] resp)
qed

lemma verify_all_passes:
  "set ss \<subseteq> set holiday_discount_scenarios \<Longrightarrow>
   verify_all shown (simulate_scenario host) printed [] ss =
     passed (printed @ map (\<lambda>s. ''PASS '' @ sn_id s) ss @ [''Verified 5 simulation scenarios.''])"
proof (induction ss arbitrary: printed)
  case Nil
  have "nat_str 5 = ''5''" by (subst nat_str.simps) (simp add: js_simps)
  moreover have "length holiday_discount_scenarios = 5" by (simp add: holiday_discount_scenarios_def)
  ultimately show ?case by simp
next
  case (Cons s ss)
  then show ?case by (simp add: verify_scenario_passes)
qed

text \<open>
  C31. Run on any simulation service, the script exits with status 0 exactly when the
  service answers each of the five built-in scenarios and every answer agrees with the
  expectation of its scenario: the scenario id, the decision, the eligibility flags, the
  discount and the total, the reasons and warnings, and the preserved order snapshot. Run
  on the service of the program it passes and prints one line per scenario, in their order.
\<close>

theorem scenario_check_passes:
  "(run_status (verify_simulation_scenarios shown service) = 0 \<longleftrightarrow>
      list_all (\<lambda>scenario. case service (sn_id scenario) of
          Inl e \<Rightarrow> False
        | Inr response \<Rightarrow> agrees scenario response) holiday_discount_scenarios) \<and>
   verify_simulation_scenarios shown (simulate_scenario host) =
   \<lparr>run_status = 0,
    run_stdout =
      [''PASS holiday-discount-eligible-category'', ''PASS holiday-discount-ineligible-category'',
       ''PASS holiday-discount-expired-process'', ''PASS holiday-discount-paused-kill-switch'',
       ''PASS holiday-discount-order-snapshot-immutable'', ''Verified 5 simulation scenarios.''],
    run_stderr = [], run_uncaught = None\<rparr>"
proof
  show "run_status (verify_simulation_scenarios shown service) = 0 \<longleftrightarrow>
      list_all (\<lambda>scenario. case service (sn_id scenario) of
          Inl e \<Rightarrow> False
        | Inr response \<Rightarrow> agrees scenario response) holiday_discount_scenarios"
    by (simp only: verify_simulation_scenarios_def verify_all_status verify_scenario_iff simp_thms)
qed (simp add: verify_simulation_scenarios_def verify_all_passes passed_def,
    simp add: holiday_discount_scenarios_def scenario_eligible_category_def
      scenario_ineligible_category_def scenario_expired_process_def
      scenario_paused_kill_switch_def scenario_order_snapshot_def)

end
