(* ===== verification/SourceChecks.thy ===== *)
theory SourceChecks
  imports Scripts
begin

text \<open>
  The scripts under \<open>src/scripts/\<close> that check the sources, manifests and documents of the
  repository for files and texts that must, or must not, be there:
  \<open>verify-contracts.js\<close>, \<open>verify-deployment-wiring.js\<close>,
  \<open>verify-event-publication.js\<close>, \<open>verify-event-transport.js\<close>, \<open>verify-instances.js\<close>,
  \<open>verify-policy-workflow.js\<close>, \<open>verify-stock-reservation-process-contract.js\<close> and
  \<open>verify-editor-ui.js\<close>. \<open>base\<close> is the directory of the repository. Whether the text
  of a script parses is a parameter, the answer of \<open>new Function\<close>.
\<close>

section \<open>Contracts\<close>

text \<open>A loop that ends the run at the first marker that is missing.\<close>

definition require_each :: "string \<Rightarrow> string \<Rightarrow> string list \<Rightarrow> script_run \<Rightarrow> script_run" where
  "require_each heading content markers rest =
     (case find (\<lambda>m. \<not> js_includes m content) markers of
        Some m \<Rightarrow> failed_with [heading @ m]
      | None \<Rightarrow> rest)"

definition reading_json :: "file_system \<Rightarrow> string \<Rightarrow> string \<Rightarrow> (json \<Rightarrow> script_run) \<Rightarrow> script_run" where
  "reading_json fs base path rest = reading fs base path (\<lambda>t. attempt (parse_or_throw t) rest)"

definition contract_files :: "string list" where
  "contract_files =
     [''README.md'',
      ''AGENTS.md'',
      ''package.json'',
      ''src/main.ts'',
      ''src/app.module.ts'',
      ''src/auth/auth.module.ts'',
      ''src/auth/auth-identity.guard.ts'',
      ''src/auth/auth-validation.client.ts'',
      ''src/processes/process-registry.controller.ts'',
      ''src/processes/process-registry.repository.ts'',
      ''src/capabilities/capability-registry.controller.ts'',
      ''src/simulation/simulation.controller.ts'',
      ''src/editor/editor.controller.ts'',
      ''src/events/process-event-outbox.repository.ts'',
      ''src/database/migrations/1756660000000-CreateProcessRegistryOutboxTables.ts'',
      ''docs/business-process-control-plane/README.md'',
      ''docs/INTENT_PRESERVATION_README.md'',
      ''docs/orchestrator/STATUS.md'']"

definition verify_contracts :: "(rat \<Rightarrow> string) \<Rightarrow> file_system \<Rightarrow> string \<Rightarrow> script_run" where
  "verify_contracts shown fs base =
     require_files ''Missing required files:'' fs base contract_files
     (reading_json fs base ''package.json'' (\<lambda>packageJson.
      attempt (read_prop packageJson ''name'') (\<lambda>name.
      require (name = Some (JStr ''business-process-control-plane''))
        [''Unexpected package name: '' @ shown_value shown name]
     (reading fs base ''src/editor/editor-ui.ts'' (\<lambda>editor.
      require_each ''Editor UI missing marker: '' editor
        [''drag'', ''canvas'', ''holiday-discount-2026'', ''api/simulate'']
     (reading fs base ''src/processes/process-registry.controller.ts'' (\<lambda>processController.
      require_each ''Process controller missing marker: '' processController
        [''store/info'', ''/schedule'', ''/retire'', ''/audit'', ''@UseGuards(AuthIdentityGuard)'']
     (reading fs base ''src/events/events.controller.ts'' (\<lambda>eventsController.
      require_each ''Events controller missing marker: '' eventsController
        [''@Post('' @ [CHR 0x27] @ ''outbox/dispatch'' @ [CHR 0x27] @ '')'', ''@Post('' @ [CHR 0x27] @ ''outbox/replay'' @ [CHR 0x27] @ '')'', ''@UseGuards(AuthIdentityGuard)'']
     (reading fs base ''src/health/health.controller.ts'' (\<lambda>healthController.
      require (\<not> js_includes ''@UseGuards('' healthController)
        [''Health endpoint must remain public and unguarded.'']
     (passed [''BPCP contract verification passed.'']))))))))))))"


section \<open>Deployment wiring\<close>

definition deployment_files :: "string list" where
  "deployment_files =
     [''k8s/configmap.yaml'',
      ''k8s/external-secret.yaml'',
      ''k8s/deployment.yaml'',
      ''k8s/service.yaml'',
      ''k8s/secret.yaml.example'',
      ''deploy.config.sh'',
      ''scripts/deploy.sh'']"

definition deployment_markers ::
  "string \<Rightarrow> string \<Rightarrow> string \<Rightarrow> string \<Rightarrow> string \<Rightarrow> string \<Rightarrow> string \<Rightarrow> string \<Rightarrow> (string \<times> string) list" where
  "deployment_markers configmap externalSecret deployment service secretExample deployConfig deploy localDeploy =
     [(configmap, ''AUTH_SERVICE_URL: \"http://auth-microservice.statex-apps.svc.cluster.local:3370\"''),
      (configmap, ''AUTH_VALIDATION_PATH: \"/auth/validate\"''),
      (configmap, ''AUTH_VALIDATION_METHOD: \"POST\"''),
      (configmap, ''BPCP_EVENT_BUS_ENABLED: \"true\"''),
      (configmap, ''BPCP_EVENTS_EXCHANGE: \"bpcp.events\"''),
      (configmap, ''BPCP_EVENTS_ROUTING_KEY_PREFIX: \"bpcp.process\"''),
      (externalSecret, ''secret/prod/runlayer''),
      (externalSecret, ''property: RABBITMQ_URL''),
      (externalSecret, ''secret/prod/business-process-control-plane''),
      (externalSecret, ''BPCP_PROCESS_SIGNING_SECRET''),
      (externalSecret, ''BPCP_DATABASE_URL''),
      (deployment, ''image: localhost:5000/business-process-control-plane:latest''),
      (deployment, ''configMapRef:''),
      (deployment, ''secretRef:''),
      (deployment, ''type: Recreate''),
      (deployment, ''path: /health''),
      (deployment, ''name: workflow-seeds''),
      (service, ''port: 3375''),
      (secretExample, ''BPCP_DATABASE_URL''),
      (deployConfig, ''MANIFESTS=(configmap.yaml external-secret.yaml service.yaml deployment.yaml)''),
      (deploy, ''deploy_build_and_push_images''),
      (deploy, ''deploy_apply_manifests''),
      (deploy, ''deploy_verify_health''),
      (deploy, ''kubectl rollout status''),
      (localDeploy, ''shared/scripts/deploy.sh'')]"

definition shared_deploy_path :: "string \<Rightarrow> string" where
  "shared_deploy_path base = path_resolve base ''../shared/scripts/deploy.sh''"

definition deploy_script :: "file_system \<Rightarrow> string \<Rightarrow> string \<Rightarrow> error + string" where
  "deploy_script fs base localDeploy =
     (if js_includes ''shared/scripts/deploy.sh'' localDeploy \<and> exists_sync fs (shared_deploy_path base)
      then read_file_sync fs (shared_deploy_path base)
      else Inr localDeploy)"

definition verify_deployment_wiring :: "file_system \<Rightarrow> string \<Rightarrow> script_run" where
  "verify_deployment_wiring fs base =
     require_files ''Deployment wiring verification failed. Missing files:'' fs base deployment_files
     (reading fs base ''k8s/configmap.yaml'' (\<lambda>configmap.
      reading fs base ''k8s/external-secret.yaml'' (\<lambda>externalSecret.
      reading fs base ''k8s/deployment.yaml'' (\<lambda>deployment.
      reading fs base ''k8s/service.yaml'' (\<lambda>service.
      reading fs base ''k8s/secret.yaml.example'' (\<lambda>secretExample.
      reading fs base ''deploy.config.sh'' (\<lambda>deployConfig.
      reading fs base ''scripts/deploy.sh'' (\<lambda>localDeploy.
      attempt (deploy_script fs base localDeploy) (\<lambda>deploy.
      reading_json fs base ''package.json'' (\<lambda>packageJson.
      require_markers ''Deployment wiring verification failed. Missing markers:''
        (deployment_markers configmap externalSecret deployment service secretExample deployConfig deploy localDeploy)
     (require (\<not> (js_includes ''BPCP_DATA_DIR'' configmap \<or> js_includes ''/var/lib/bpcp'' deployment \<or>
                  js_includes ''pvc.yaml'' deployConfig))
        [''Deployment wiring verification failed. Legacy file/PVC runtime-store wiring is still present.'']
     (attempt (read_prop packageJson ''scripts'') (\<lambda>scripts.
      require (opt_prop scripts ''verify:deployment-wiring'' = Some (JStr ''node scripts/verify-deployment-wiring.js''))
        [''Deployment wiring verification failed. package.json is missing verify:deployment-wiring script.'']
     (passed [''BPCP deployment wiring verification passed.'']))))))))))))))"


section \<open>Event publication and transport\<close>

text \<open>The object \<open>files\<close> of the script.\<close>

record publication_files =
  pf_service :: string
  pf_controller :: string
  pf_eventsModule :: string
  pf_types :: string
  pf_repository :: string
  pf_entity :: string
  pf_migration :: string
  pf_processRegistry :: string
  pf_processModule :: string
  pf_appModule :: string

definition publication_markers :: "publication_files \<Rightarrow> (string \<times> string) list" where
  "publication_markers files =
     [(pf_types files, ''bpcp.process-event.v1''),
      (pf_types files, ''bpcp.process-event-outbox.v1''),
      (pf_service files, ''ProcessEventOutboxRepository''),
      (pf_service files, ''publishProcessEvent''),
      (pf_service files, ''dispatchPending''),
      (pf_service files, ''EVENT_BUS_MISSING''),
      (pf_service files, ''runtimeStore: '' @ [CHR 0x27] @ ''postgresql'' @ [CHR 0x27]),
      (pf_repository files, ''claimUndispatched''),
      (pf_repository files, ''listDispatchedForReplay''),
      (pf_repository files, ''bpcp_process_outbox_event_seq''),
      (pf_entity files, ''@Entity('' @ [CHR 0x27] @ ''bpcp_process_event_outbox'' @ [CHR 0x27] @ '')''),
      (pf_migration files, ''bpcp_process_event_outbox''),
      (pf_migration files, ''bpcp_process_outbox_event_seq''),
      (pf_controller files, ''@Controller('' @ [CHR 0x27] @ ''api/events'' @ [CHR 0x27] @ '')''),
      (pf_controller files, ''@Get('' @ [CHR 0x27] @ ''outbox'' @ [CHR 0x27] @ '')''),
      (pf_controller files, ''@Get('' @ [CHR 0x27] @ ''outbox/info'' @ [CHR 0x27] @ '')''),
      (pf_controller files, ''@Post('' @ [CHR 0x27] @ ''outbox/dispatch'' @ [CHR 0x27] @ '')''),
      (pf_controller files, ''@Post('' @ [CHR 0x27] @ ''outbox/replay'' @ [CHR 0x27] @ '')''),
      (pf_controller files, ''@UseGuards(AuthIdentityGuard)''),
      (pf_service files, ''replayDispatched''),
      (pf_types files, ''bpcp.process-event-replay-summary.v1''),
      (pf_controller files, ''@Get('' @ [CHR 0x27] @ ''outbox/:processId'' @ [CHR 0x27] @ '')''),
      (pf_eventsModule files, ''exports: [EventPublisherService]''),
      (pf_processRegistry files, ''EventPublisherService''),
      (pf_processRegistry files, ''EVENT_TYPE_BY_AUDIT_ACTION''),
      (pf_processRegistry files, [CHR 0x27] @ ''process.published'' @ [CHR 0x27]),
      (pf_processRegistry files, ''LOCAL_EVENT_OUTBOX_CONFIGURED''),
      (pf_processModule files, ''EventsModule''),
      (pf_appModule files, ''EventsModule'')]"

definition verify_event_publication :: "file_system \<Rightarrow> string \<Rightarrow> script_run" where
  "verify_event_publication fs base =
     reading fs base ''src/events/event-publisher.service.ts'' (\<lambda>service.
      reading fs base ''src/events/events.controller.ts'' (\<lambda>controller.
      reading fs base ''src/events/events.module.ts'' (\<lambda>eventsModule.
      reading fs base ''src/events/process-event.types.ts'' (\<lambda>types.
      reading fs base ''src/events/process-event-outbox.repository.ts'' (\<lambda>repository.
      reading fs base ''src/events/entities/process-event-outbox.entity.ts'' (\<lambda>entity.
      reading fs base ''src/database/migrations/1756660000000-CreateProcessRegistryOutboxTables.ts'' (\<lambda>migration.
      reading fs base ''src/processes/process-registry.service.ts'' (\<lambda>processRegistry.
      reading fs base ''src/processes/process-registry.module.ts'' (\<lambda>processModule.
      reading fs base ''src/app.module.ts'' (\<lambda>appModule.
      require_markers ''Event publication verification failed. Missing markers:''
        (publication_markers
          \<lparr>pf_service = service,
           pf_controller = controller,
           pf_eventsModule = eventsModule,
           pf_types = types,
           pf_repository = repository,
           pf_entity = entity,
           pf_migration = migration,
           pf_processRegistry = processRegistry,
           pf_processModule = processModule,
           pf_appModule = appModule\<rparr>)
     (require (\<not> js_includes ''process-event-outbox.json'' service)
        [''Event publication verification failed. File-backed outbox marker still present.'']
     (passed [''BPCP event publication verification passed.'']))))))))))))"

definition transport_markers ::
  "string \<Rightarrow> string \<Rightarrow> string \<Rightarrow> string \<Rightarrow> string \<Rightarrow> (string \<times> string) list" where
  "transport_markers transport types moduleSource controller envExample =
     [(transport, ''import * as amqp from '' @ [CHR 0x27] @ ''amqplib'' @ [CHR 0x27]),
      (transport, ''DEFAULT_EXCHANGE = '' @ [CHR 0x27] @ ''bpcp.events'' @ [CHR 0x27]),
      (transport, ''DEFAULT_ROUTING_KEY_PREFIX = '' @ [CHR 0x27] @ ''bpcp.process'' @ [CHR 0x27]),
      (transport, ''BPCP_EVENT_BUS_ENABLED''),
      (transport, ''BPCP_EVENT_BUS_URL''),
      (transport, ''RABBITMQ_URL''),
      (transport, ''BPCP_PROCESS_SIGNING_SECRET''),
      (transport, ''createHmac''),
      (transport, ''assertExchange(config.exchange,''),
      (transport, ''channel.publish(config.exchange, routingKey''),
      (transport, ''persistent: true''),
      (transport, ''messageId: event.id''),
      (transport, ''type: routingKey''),
      (transport, [CHR 0x27] @ ''x-bpcp-signature'' @ [CHR 0x27]),
      (transport, [CHR 0x27] @ ''process.published'' @ [CHR 0x27] @ '': `${prefix}.published.v1`''),
      (types, ''ProcessEventTransportInfo''),
      (types, ''ProcessEventDispatchSummary''),
      (moduleSource, ''RabbitMqProcessEventTransportService''),
      (controller, ''@Get('' @ [CHR 0x27] @ ''transport/info'' @ [CHR 0x27] @ '')''),
      (controller, ''@Post('' @ [CHR 0x27] @ ''outbox/dispatch'' @ [CHR 0x27] @ '')''),
      (envExample, ''BPCP_EVENT_BUS_ENABLED=false''),
      (envExample, ''BPCP_EVENTS_EXCHANGE=bpcp.events''),
      (envExample, ''BPCP_EVENTS_ROUTING_KEY_PREFIX=bpcp.process'')]"

definition verify_event_transport :: "file_system \<Rightarrow> string \<Rightarrow> script_run" where
  "verify_event_transport fs base =
     reading fs base ''src/events/rabbitmq-process-event-transport.service.ts'' (\<lambda>transport.
      reading fs base ''src/events/process-event.types.ts'' (\<lambda>types.
      reading fs base ''src/events/events.module.ts'' (\<lambda>moduleSource.
      reading fs base ''src/events/events.controller.ts'' (\<lambda>controller.
      reading fs base ''.env.example'' (\<lambda>envExample.
      reading_json fs base ''package.json'' (\<lambda>packageJson.
      require_markers ''Event transport verification failed. Missing markers:''
        (transport_markers transport types moduleSource controller envExample)
     (attempt (read_prop packageJson ''dependencies'') (\<lambda>dependencies.
      require (truthy (opt_prop dependencies ''amqplib'') \<and>
               truthy (opt_prop (opt_prop (Some packageJson) ''devDependencies'') ''@types/amqplib''))
        [''Event transport verification failed. Missing amqplib dependencies.'']
     (passed [''BPCP event transport verification passed.''])))))))))"


section \<open>Workflow instances\<close>

definition instance_files :: "string list" where
  "instance_files =
     [''src/instances/instance.types.ts'',
      ''src/instances/entities/workflow-instance.entity.ts'',
      ''src/instances/entities/instance-step.entity.ts'',
      ''src/instances/entities/instance-signal.entity.ts'',
      ''src/instances/instance-repository.service.ts'',
      ''src/instances/action-dispatcher.service.ts'',
      ''src/instances/workflow-executor.service.ts'',
      ''src/instances/instance-timeout.service.ts'',
      ''src/instances/instance.controller.ts'',
      ''src/instances/instances.module.ts'',
      ''src/database/database.module.ts'',
      ''docs/specs/2026-08-22-bpcp-workflow-executor-design.md'']"

text \<open>\<open>/synchronize:\s*false/\<close>\<close>

fun turns_synchronize_off :: "string \<Rightarrow> bool" where
  "turns_synchronize_off [] \<longleftrightarrow> False"
| "turns_synchronize_off (c # s) \<longleftrightarrow>
     starts_with ''synchronize:'' (c # s) \<and> starts_with ''false'' (dropWhile js_space (drop 12 (c # s))) \<or>
     turns_synchronize_off s"

text \<open>The complaint about a file, when the file is there and its text fails the check.\<close>

definition when_present ::
  "file_system \<Rightarrow> string \<Rightarrow> (string \<Rightarrow> bool) \<Rightarrow> string \<Rightarrow> error + string list" where
  "when_present fs path check complaint =
     (if \<not> exists_sync fs path then Inr []
      else case read_file_sync fs path of
             Inl e \<Rightarrow> Inl e
           | Inr t \<Rightarrow> Inr (if check t then [] else [complaint]))"

definition migrations_present :: "file_system \<Rightarrow> string \<Rightarrow> error + string list" where
  "migrations_present fs dir =
     (if \<not> exists_sync fs dir then Inr [''no migration found in src/database/migrations'']
      else case read_dir_sync fs dir of
             Inl e \<Rightarrow> Inl e
           | Inr names \<Rightarrow>
               Inr (if filter (ends_with ''.ts'') names = []
                    then [''no migration found in src/database/migrations''] else []))"

definition instance_failures :: "file_system \<Rightarrow> string \<Rightarrow> error + string list" where
  "instance_failures fs base = collect
     [Inr (map (\<lambda>f. ''missing required file: '' @ f) (missing_files fs base instance_files)),
      migrations_present fs (path_join base ''src/database/migrations''),
      when_present fs (path_join base ''src/database/database.module.ts'') turns_synchronize_off
        ''database.module.ts must set synchronize: false'',
      when_present fs (path_join base ''src/workflows/workflow.types.ts'')
        (js_includes ([CHR 0x27] @ ''wait-for-signal'' @ [CHR 0x27]))
        ''wait-for-signal is not registered in KNOWN_WORKFLOW_ACTION_TYPES'',
      when_present fs (path_join base ''src/instances/instance-repository.service.ts'')
        (js_includes ''pessimistic_write'')
        ''instance-repository.service.ts must lock instances FOR UPDATE (pessimistic_write)'']"

definition verify_instances :: "file_system \<Rightarrow> string \<Rightarrow> script_run" where
  "verify_instances fs base =
     attempt (instance_failures fs base) (\<lambda>failures.
       if failures \<noteq> []
       then failed_with (''verify:instances FAILED'' # map (\<lambda>f. ''  - '' @ f) failures)
       else passed [''verify:instances PASSED''])"


section \<open>Policies and workflows\<close>

definition policy_workflow_files :: "string list" where
  "policy_workflow_files =
     [''src/policies/capability-reference.ts'',
      ''src/policies/policy.types.ts'',
      ''src/policies/policy-registry.service.ts'',
      ''src/policies/policy-registry.controller.ts'',
      ''src/policies/policy-registry.module.ts'',
      ''src/workflows/workflow.types.ts'',
      ''src/workflows/workflow-registry.service.ts'',
      ''src/workflows/workflow-registry.controller.ts'',
      ''src/workflows/workflow-registry.module.ts'',
      ''docs/orchestrator/POLICY_WORKFLOW_HANDOFF.md'']"

definition policy_workflow_markers ::
  "string \<Rightarrow> string \<Rightarrow> string \<Rightarrow> string \<Rightarrow> (string \<times> string \<times> string) list" where
  "policy_workflow_markers policy workflow capability handoff =
     [(''policy seed'', policy, ''holiday-10-percent-selected-categories''),
      (''policy unknown condition fail-closed'', policy, ''UNKNOWN_CONDITION_TYPE''),
      (''policy unknown effect fail-closed'', policy, ''UNKNOWN_EFFECT_TYPE''),
      (''workflow product badge seed'', workflow, ''product-view-holiday-badge''),
      (''workflow cart evaluation seed'', workflow, ''cart-updated-discount-evaluation''),
      (''workflow checkout upsell seed'', workflow, ''checkout-upsell-suggestion''),
      (''workflow notification seed'', workflow, ''order-paid-holiday-notification''),
      (''workflow unknown action fail-closed'', workflow, ''UNKNOWN_WORKFLOW_ACTION_TYPE''),
      (''capability missing ref fail-closed'', capability, ''SERVICE_CAPABILITY_REF_MISSING''),
      (''capability missing owner fail-closed'', capability, ''SERVICE_OWNER_MISSING''),
      (''missing runtime fact markers'', policy @ [CHR 0x0A] @ workflow @ [CHR 0x0A] @ handoff, ''[MISSING:''),
      (''handoff policies endpoint'', handoff, ''/api/policies''),
      (''handoff workflows endpoint'', handoff, ''/api/workflows'')]"

definition missing_labelled :: "(string \<times> string \<times> string) list \<Rightarrow> (string \<times> string \<times> string) list" where
  "missing_labelled checks = filter (\<lambda>(_, content, marker). \<not> js_includes marker content) checks"

definition verify_policy_workflow :: "file_system \<Rightarrow> string \<Rightarrow> script_run" where
  "verify_policy_workflow fs base =
     require_files ''Missing policy/workflow files:'' fs base policy_workflow_files
     (reading fs base ''src/policies/policy-registry.service.ts'' (\<lambda>policy.
      reading fs base ''src/workflows/workflow-registry.service.ts'' (\<lambda>workflow.
      reading fs base ''src/policies/capability-reference.ts'' (\<lambda>capability.
      reading fs base ''docs/orchestrator/POLICY_WORKFLOW_HANDOFF.md'' (\<lambda>handoff.
      let missing = missing_labelled (policy_workflow_markers policy workflow capability handoff) in
      require (missing = [])
        (listed ''Missing policy/workflow markers:''
          (map (\<lambda>(label, _, marker). label @ '': '' @ marker) missing))
     (passed [''BPCP policy/workflow verification passed.'']))))))"


section \<open>The stock reservation contract\<close>

definition contract_snippets :: "string list" where
  "contract_snippets =
     [''# Stock Reservation Cross-Channel Process Contract'',
      ''## Intent Preservation Chain'',
      ''Process id: `stock-reservation-cross-channel-v1`'',
      ''## Process States'',
      ''## Process Steps'',
      ''## Service Ownership Boundaries'',
      ''## Health Evidence Envelope Schema'',
      ''\"schemaVersion\": \"bpcp.health-evidence.v1\"'',
      ''\"contract\": \"stock-order-marketplace-business-health.v1\"'',
      ''\"processId\": \"stock-reservation-cross-channel-v1\"'',
      ''## Required Simulation Scenarios Later'',
      ''[MISSING:'',
      ''## Validation Result'']"

definition contract_scenario_ids :: "string list" where
  "contract_scenario_ids =
     [''stock-reservation-cross-channel-stock-authority-pass'',
      ''stock-reservation-cross-channel-negative-stock-fail'',
      ''stock-reservation-cross-channel-catalog-overprojection-fail'',
      ''stock-reservation-cross-channel-reservation-before-acceptance-pass'',
      ''stock-reservation-cross-channel-missing-reservation-fail'',
      ''stock-reservation-cross-channel-convergence-pass'',
      ''stock-reservation-cross-channel-payment-success-finality-pass'',
      ''stock-reservation-cross-channel-payment-failure-release-pass'',
      ''stock-reservation-cross-channel-supplier-traceability-blocked'',
      ''stock-reservation-cross-channel-synthetic-probe-blocked'']"

definition forbidden_mutation_hints :: "string list" where
  "forbidden_mutation_hints =
     [''kubectl apply'',
      ''./scripts/deploy.sh'',
      ''npm run start:prod'',
      ''UPDATE '',
      ''DELETE FROM'',
      ''INSERT INTO'']"

definition contract_path :: "string \<Rightarrow> string" where
  "contract_path base =
     path_join base ''docs/orchestrator/2026-07-06-stock-reservation-cross-channel-process-contract.md''"

definition contract_complaints :: "string \<Rightarrow> string list" where
  "contract_complaints contract =
     map (\<lambda>s. ''Contract missing required snippet: '' @ s)
       (filter (\<lambda>s. \<not> js_includes s contract) contract_snippets) @
     map (\<lambda>s. ''Contract missing simulation scenario id: '' @ s)
       (filter (\<lambda>s. \<not> js_includes s contract) contract_scenario_ids) @
     map (\<lambda>s. ''Contract contains forbidden runtime/deploy/mutation hint: '' @ s)
       (filter (\<lambda>s. js_includes s contract) forbidden_mutation_hints)"

definition verify_stock_contract :: "file_system \<Rightarrow> string \<Rightarrow> script_run" where
  "verify_stock_contract fs base =
     require (exists_sync fs (contract_path base)) [''FAIL: Missing contract file: '' @ contract_path base]
     (attempt (read_file_sync fs (contract_path base)) (\<lambda>contract.
      require (contract_complaints contract = [])
        (map (\<lambda>c. ''FAIL: '' @ c) (contract_complaints contract))
     (passed [''PASS: stock reservation cross-channel process contract is source-valid.''])))"


section \<open>The editor page\<close>

text \<open>
  The text after the first occurrence of a pattern and the text before the last one, and
  \<open>/<script>([\s\S]*)<\/script>/\<close>, whose group runs to the last closing tag.
\<close>

fun after_first :: "string \<Rightarrow> string \<Rightarrow> string option" where
  "after_first p [] = (if p = [] then Some [] else None)"
| "after_first p (c # s) =
     (if starts_with p (c # s) then Some (drop (length p) (c # s)) else after_first p s)"

definition before_last :: "string \<Rightarrow> string \<Rightarrow> string option" where
  "before_last p s = map_option rev (after_first (rev p) (rev s))"

definition client_script :: "string \<Rightarrow> string option" where
  "client_script page = Option.bind (after_first ''<script>'' page) (before_last ''</script>'')"

text \<open>\<open>/@Get(...)\s+[\s\S]*renderProcessEditor\(\)/\<close> for the decorator \<open>head\<close>.\<close>

fun renders_editor :: "string \<Rightarrow> string \<Rightarrow> bool" where
  "renders_editor head [] \<longleftrightarrow> False"
| "renders_editor head (c # s) \<longleftrightarrow>
     starts_with head (c # s) \<and>
       (case drop (length head) (c # s) of
          [] \<Rightarrow> False
        | d # r \<Rightarrow> js_space d \<and> js_includes ''renderProcessEditor()'' r) \<or>
     renders_editor head s"

definition all_in :: "string \<Rightarrow> string list \<Rightarrow> bool" where
  "all_in t markers \<longleftrightarrow> list_all (\<lambda>m. js_includes m t) markers"

definition editor_checks :: "bool \<Rightarrow> string \<Rightarrow> string \<Rightarrow> string \<Rightarrow> (string \<times> bool) list" where
  "editor_checks clientScriptParses editorUi controller handoff =
     [(''root route renders editor'', renders_editor ''@Get()'' controller),
      (''editor route preserved'',
         renders_editor (''@Get('' @ [CHR 0x27] @ ''editor'' @ [CHR 0x27] @ '')'') controller),
      (''holiday discount draft seeded'',
         all_in editorUi [''processId: '' @ [CHR 0x27] @ ''holiday-discount-2026'' @ [CHR 0x27], ''10% Holiday Discount'']),
      (''typed nodes configured'',
         all_in editorUi (map (\<lambda>type. type @ '': {'') [''event'', ''condition'', ''policy'', ''action'', ''slot''])),
      (''edge creation controls present'',
         all_in editorUi [''set-edge-source'', ''connect-selected'', ''function createEdge'']),
      (''export controls present'',
         all_in editorUi [''copy-json'', ''download-json'', ''function createExportPayload'']),
      (''validation panel present'',
         all_in editorUi [''validation-list'', ''function validateDraft'', ''Missing incoming connector'', ''Disconnected node'']),
      (''client script parses'', clientScriptParses),
      (''handoff records validation and blockers'',
         all_in handoff [''Validation Commands'', ''[MISSING:'', ''Parallel Execution Notes''])]"

text \<open>\<open>compile\<close> gives the message of the syntax error, or nothing when the script parses.\<close>

definition verify_editor_ui :: "(string \<Rightarrow> string option) \<Rightarrow> file_system \<Rightarrow> string \<Rightarrow> script_run" where
  "verify_editor_ui compile fs base =
     reading fs base ''src/editor/editor-ui.ts'' (\<lambda>editorUi.
     reading fs base ''src/editor/editor.controller.ts'' (\<lambda>controller.
     reading fs base ''docs/orchestrator/EDITOR_HANDOFF.md'' (\<lambda>handoff.
     let problem = Option.bind (client_script editorUi) compile;
         parses = (client_script editorUi \<noteq> None \<and> problem = None);
         checks = editor_checks parses editorUi controller handoff;
         failed = filter (\<lambda>(_, ok). \<not> ok) checks;
         early = (case problem of None \<Rightarrow> [] | Some m \<Rightarrow> [''client script parse error: '' @ m]);
         printed = map (\<lambda>(name, ok). (if ok then ''PASS'' else ''FAIL'') @ '' '' @ name) checks
     in if failed \<noteq> []
        then \<lparr>run_status = 1, run_stdout = printed,
              run_stderr = early @ [''verify-editor-ui: failed '' @ nat_str (length failed) @ '' check(s)''],
              run_uncaught = None\<rparr>
        else \<lparr>run_status = 0,
              run_stdout = printed @ [''verify-editor-ui: passed '' @ nat_str (length checks) @ '' checks''],
              run_stderr = early, run_uncaught = None\<rparr>)))"

text \<open>
  The check that the root route renders the editor looks for the call anywhere after the
  decorator, so a controller whose root route answers something else passes it as well, as
  long as a later route renders the editor.
\<close>

definition other_root_controller :: string where
  "other_root_controller =
     ''@Get() root() { return 1; } @Get('' @ [CHR 0x27] @ ''editor'' @ [CHR 0x27] @
     '') editor() { return renderProcessEditor(); }''"

lemma root_route_check_lax: "renders_editor ''@Get()'' other_root_controller"
  by (simp add: other_root_controller_def starts_with_def js_space_def)

text \<open>
  Passing the two scripts about the event outbox guarantees the texts they look for in the
  publisher, and that no file-backed outbox is left.
\<close>

lemma event_publication_passes:
  assumes "run_status (verify_event_publication fs base) = 0"
  shows "\<exists>service. fs (path_join base ''src/events/event-publisher.service.ts'') = Some (FileEntry service) \<and>
    js_includes ''publishProcessEvent'' service \<and> js_includes ''dispatchPending'' service \<and>
    \<not> js_includes ''process-event-outbox.json'' service"
  using assms unfolding verify_event_publication_def publication_markers_def
  by (auto simp: run_passes simp del: js_includes.simps)

end
