(* ===== verification/Wiring.thy ===== *)
theory Wiring
  imports Prelude
begin

text \<open>
  What the service is composed of: the \<open>@Module\<close> declarations under \<open>src/src/\<close> with the
  constructor parameters of the classes they name. The framework builds a class from the
  classes visible in its module: those the module provides, those the modules it imports
  export, the repositories of the entities it registers, and what a global module provides.
\<close>

section \<open>Modules\<close>

text \<open>A class and the classes its constructor takes; optional parameters are left out.\<close>

record injectable =
  ij_class :: string
  ij_needs :: "string list"

record nest_module =
  nm_name :: string
  nm_imports :: "string list"
  nm_entities :: "string list"
  nm_controllers :: "injectable list"
  nm_guards :: "injectable list"
  nm_providers :: "injectable list"
  nm_exports :: "string list"

definition takes :: "string \<Rightarrow> string list \<Rightarrow> injectable" where
  "takes c needs = \<lparr>ij_class = c, ij_needs = needs\<rparr>"

definition plain_module :: "string \<Rightarrow> nest_module" where
  "plain_module name =
     \<lparr>nm_name = name, nm_imports = [], nm_entities = [], nm_controllers = [], nm_guards = [],
      nm_providers = [], nm_exports = []\<rparr>"

text \<open>The guard on handlers of a controller is built in the controller's module.\<close>

definition identity_guard :: injectable where
  "identity_guard = takes ''AuthIdentityGuard'' [''AuthValidationClient'']"

definition auth_module :: nest_module where
  "auth_module = (plain_module ''AuthModule'')
     \<lparr>nm_providers := [takes ''AuthValidationClient'' [''ConfigService''], identity_guard],
      nm_exports := [''AuthValidationClient'', ''AuthIdentityGuard'']\<rparr>"

definition business_health_module :: nest_module where
  "business_health_module = (plain_module ''BusinessHealthModule'')
     \<lparr>nm_controllers := [takes ''BusinessHealthController'' [''BusinessHealthService'']],
      nm_providers := [takes ''BusinessHealthEvidenceAdapterRunner'' [],
        takes ''BusinessHealthService'' [''BusinessHealthEvidenceAdapterRunner'']]\<rparr>"

definition capability_registry_module :: nest_module where
  "capability_registry_module = (plain_module ''CapabilityRegistryModule'')
     \<lparr>nm_controllers := [takes ''CapabilityRegistryController'' [''CapabilityRegistryService'']],
      nm_providers := [takes ''CapabilityRegistryService'' []]\<rparr>"

definition database_module :: nest_module where
  "database_module = (plain_module ''DatabaseModule'')"

definition editor_module :: nest_module where
  "editor_module = (plain_module ''EditorModule'')\<lparr>nm_controllers := [takes ''EditorController'' []]\<rparr>"

definition events_module :: nest_module where
  "events_module = (plain_module ''EventsModule'')
     \<lparr>nm_imports := [''AuthModule''], nm_entities := [''ProcessEventOutboxEntity''],
      nm_controllers := [takes ''EventsController'' [''EventPublisherService'']],
      nm_guards := [identity_guard],
      nm_providers := [takes ''ProcessEventOutboxRepository'' [''ProcessEventOutboxEntityRepository'', ''DataSource''],
        takes ''EventPublisherService'' [''ProcessEventOutboxRepository'', ''RabbitMqProcessEventTransportService''],
        takes ''RabbitMqProcessEventTransportService'' []],
      nm_exports := [''EventPublisherService'']\<rparr>"

definition health_module :: nest_module where
  "health_module = (plain_module ''HealthModule'')\<lparr>nm_controllers := [takes ''HealthController'' []]\<rparr>"

definition instances_module :: nest_module where
  "instances_module = (plain_module ''InstancesModule'')
     \<lparr>nm_imports := [''WorkflowRegistryModule''],
      nm_entities := [''WorkflowInstanceEntity'', ''InstanceStepEntity'', ''InstanceSignalEntity''],
      nm_controllers := [takes ''InstanceController'' [''WorkflowExecutorService'', ''InstanceRepositoryService'']],
      nm_providers := [takes ''InstanceRepositoryService'' [''DataSource''],
        takes ''ActionDispatcherService'' [],
        takes ''WorkflowExecutorService''
          [''InstanceRepositoryService'', ''ActionDispatcherService'', ''WorkflowRegistryService''],
        takes ''InstanceTimeoutService'' [''InstanceRepositoryService'', ''WorkflowExecutorService'']],
      nm_exports := [''WorkflowExecutorService'', ''InstanceRepositoryService'']\<rparr>"

definition policy_registry_module :: nest_module where
  "policy_registry_module = (plain_module ''PolicyRegistryModule'')
     \<lparr>nm_controllers := [takes ''PolicyRegistryController'' [''PolicyRegistryService'']],
      nm_providers := [takes ''PolicyRegistryService'' []],
      nm_exports := [''PolicyRegistryService'']\<rparr>"

definition process_registry_module :: nest_module where
  "process_registry_module = (plain_module ''ProcessRegistryModule'')
     \<lparr>nm_imports := [''EventsModule'', ''AuthModule''],
      nm_entities := [''ProcessDefinitionEntity'', ''ProcessAuditEventEntity''],
      nm_controllers := [takes ''ProcessRegistryController'' [''ProcessRegistryService'']],
      nm_guards := [identity_guard],
      nm_providers :=
        [takes ''ProcessRegistryRepository''
           [''ProcessDefinitionEntityRepository'', ''ProcessAuditEventEntityRepository'', ''DataSource''],
         takes ''ProcessRegistryService'' [''DataSource'', ''ProcessRegistryRepository'', ''EventPublisherService'']],
      nm_exports := [''ProcessRegistryService'']\<rparr>"

definition simulation_module :: nest_module where
  "simulation_module = (plain_module ''SimulationModule'')
     \<lparr>nm_controllers := [takes ''SimulationController'' [''SimulationService'']],
      nm_providers := [takes ''SimulationService'' []]\<rparr>"

definition workflow_registry_module :: nest_module where
  "workflow_registry_module = (plain_module ''WorkflowRegistryModule'')
     \<lparr>nm_controllers := [takes ''WorkflowRegistryController'' [''WorkflowRegistryService'']],
      nm_providers := [takes ''WorkflowRegistryService'' []],
      nm_exports := [''WorkflowRegistryService'']\<rparr>"

text \<open>
  The modules that \<open>AppModule\<close> imports, in its order, and the one they import beside
  those. \<open>ConfigModule\<close> and the connection of \<open>DatabaseModule\<close> are global.
\<close>

definition app_modules :: "nest_module list" where
  "app_modules =
     [database_module, capability_registry_module, business_health_module, editor_module, events_module,
      health_module, instances_module, policy_registry_module, process_registry_module, simulation_module,
      workflow_registry_module]"

definition global_classes :: "string list" where
  "global_classes = [''ConfigService'', ''DataSource'']"


section \<open>Resolution\<close>

definition exported_by :: "nest_module list \<Rightarrow> string \<Rightarrow> string list" where
  "exported_by ms name = concat (map nm_exports (filter (\<lambda>m. nm_name m = name) ms))"

definition visible :: "nest_module list \<Rightarrow> nest_module \<Rightarrow> string list" where
  "visible ms m =
     map ij_class (nm_providers m) @ map (\<lambda>e. e @ ''Repository'') (nm_entities m) @
     concat (map (exported_by ms) (nm_imports m)) @ global_classes"

definition built_in :: "nest_module \<Rightarrow> injectable list" where
  "built_in m = nm_providers m @ nm_controllers m @ nm_guards m"

definition unresolved :: "nest_module list \<Rightarrow> (string \<times> string) list" where
  "unresolved ms =
     concat (map (\<lambda>m. concat (map (\<lambda>i.
       map (Pair (ij_class i)) (filter (\<lambda>c. c \<notin> set (visible ms m)) (ij_needs i))) (built_in m))) ms)"

text \<open>An exported class is provided by its module; an entity belongs to the connection.\<close>

definition exports_provided :: "nest_module \<Rightarrow> bool" where
  "exports_provided m \<longleftrightarrow> list_all (\<lambda>c. c \<in> ij_class ` set (nm_providers m)) (nm_exports m)"

definition wired :: "string list \<Rightarrow> nest_module list \<Rightarrow> bool" where
  "wired entities ms \<longleftrightarrow>
     unresolved ms = [] \<and> list_all exports_provided ms \<and>
     list_all (\<lambda>m. list_all (\<lambda>e. e \<in> set entities) (nm_entities m)) ms"

text \<open>
  A module whose controllers are guarded imports the module of the guard. The controller
  of workflow instances has no guard, and its module could not build one.
\<close>

lemmas module_defs = auth_module_def business_health_module_def capability_registry_module_def
  database_module_def editor_module_def events_module_def health_module_def instances_module_def
  policy_registry_module_def process_registry_module_def simulation_module_def workflow_registry_module_def
  plain_module_def takes_def identity_guard_def

lemma instances_cannot_guard:
  "nm_guards instances_module = [] \<and>
   \<not> set (ij_needs identity_guard) \<subseteq> set (visible (auth_module # app_modules) instances_module)"
  by (simp add: module_defs visible_def exported_by_def app_modules_def global_classes_def)

end
