(* ===== verification/Startup.thy ===== *)
theory Startup
  imports ProcessRegistry Workflow Policy JsonParse Wiring
begin

text \<open>
  How the service comes up: \<open>src/src/main.ts\<close> (the bootstrap), \<open>src/src/app.module.ts\<close> (the
  parts it composes) and \<open>src/src/database/database.module.ts\<close> (the connection options).
  The framework first builds the parts, which opens the connection and fills the two
  registries, then runs the initialisation hooks (the seeding of processes) and binds the
  port. Connecting and binding are parameters.
\<close>

section \<open>\<open>Number\<close> of a string\<close>

text \<open>
  The reading of a whole string as a number: blank is zero, a prefix selects another
  radix, anything left over is \<open>NaN\<close>.
\<close>

fun radix_value :: "nat \<Rightarrow> nat \<Rightarrow> string \<Rightarrow> nat option" where
  "radix_value b acc [] = Some acc"
| "radix_value b acc (c # s) =
     (case hex_value c of
        None \<Rightarrow> None
      | Some d \<Rightarrow> if d < b then radix_value b (b * acc + d) s else None)"

definition radix_of :: "string \<Rightarrow> nat option" where
  "radix_of s =
     (case s of
        z # x # d # r \<Rightarrow>
          if z \<noteq> CHR ''0'' then None
          else if x = CHR ''x'' \<or> x = CHR ''X'' then Some 16
          else if x = CHR ''o'' \<or> x = CHR ''O'' then Some 8
          else if x = CHR ''b'' \<or> x = CHR ''B'' then Some 2
          else None
      | _ \<Rightarrow> None)"

definition decimal_number :: "bool \<Rightarrow> string \<Rightarrow> js_number" where
  "decimal_number negative s =
     (let (ip, r) = digits_of s;
          (fp, r') = (case r of c # q \<Rightarrow> if c = CHR ''.'' then digits_of q else ([], r) | [] \<Rightarrow> ([], r))
      in case read_exponent r' of
           Some (e, []) \<Rightarrow>
             if ip @ fp = [] then JsNaN else round_double (decimal_value negative ip fp e)
         | _ \<Rightarrow> JsNaN)"

definition number_of_text :: "string \<Rightarrow> js_number" where
  "number_of_text raw =
     (let s = js_trim raw;
          negative = (s \<noteq> [] \<and> hd s = CHR ''-'');
          u = (if s \<noteq> [] \<and> (hd s = CHR ''-'' \<or> hd s = CHR ''+'') then tl s else s)
      in if s = [] then Fin 0
         else case radix_of s of
                Some b \<Rightarrow>
                  (case radix_value b 0 (drop 2 s) of
                     None \<Rightarrow> JsNaN
                   | Some n \<Rightarrow> round_double (of_nat n))
              | None \<Rightarrow>
                  if u = ''Infinity'' then (if negative then NegInf else PosInf)
                  else decimal_number negative u)"


section \<open>The connection\<close>

record connection_options =
  dc_type :: string
  dc_url :: string
  dc_entities :: "string list"
  dc_migrations :: "string list"
  dc_migrationsRun :: bool
  dc_synchronize :: bool

definition missing_database :: error where
  "missing_database = PlainError ''BPCP_DATABASE_URL is not set; refusing to start without a runtime store''"

definition database_options :: "string \<Rightarrow> environment \<Rightarrow> error + connection_options" where
  "database_options dirname env =
     (case env ''BPCP_DATABASE_URL'' of
        None \<Rightarrow> Inl missing_database
      | Some url \<Rightarrow>
          if url = [] then Inl missing_database
          else Inr \<lparr>dc_type = ''postgres'', dc_url = url,
                dc_entities = [''WorkflowInstanceEntity'', ''InstanceStepEntity'', ''InstanceSignalEntity'',
                  ''ProcessDefinitionEntity'', ''ProcessAuditEventEntity'', ''ProcessEventOutboxEntity''],
                dc_migrations = [dirname @ ''/migrations/*.js''], dc_migrationsRun = True,
                dc_synchronize = False\<rparr>)"


section \<open>The bootstrap\<close>

text \<open>
  What start-up reads: the process environment, the directory of the compiled database
  module, whether \<open>reflect-metadata\<close> is installed, what connecting and binding come to, the
  seed directory of workflows and the clocks of the two seedings.
\<close>

record boot_env =
  bt_metadata :: bool
  bt_env :: environment
  bt_dirname :: string
  bt_connect :: "connection_options \<Rightarrow> error + unit"
  bt_seeds :: seed_host
  bt_shown :: "json option \<Rightarrow> string"
  bt_definition :: "json \<Rightarrow> workflow_definition"
  bt_host :: host_parse
  bt_clock :: clock_reads
  bt_clock2 :: clock_reads
  bt_listen :: "js_number \<Rightarrow> error + unit"

record pipe_options =
  vp_whitelist :: bool
  vp_transform :: bool
  vp_forbidNonWhitelisted :: bool

text \<open>The running service: the registries it holds in memory and what it was set up with.\<close>

record service =
  bp_database :: connection_options
  bp_workflows :: workflow_map
  bp_policies :: policy_map
  bp_pipe :: pipe_options
  bp_credentials :: bool
  bp_port :: js_number

definition missing_metadata :: error where
  "missing_metadata = PlainError
     ''reflect-metadata did not install Reflect.getMetadata; @Cron jobs would silently never fire''"

definition listen_port :: "environment \<Rightarrow> js_number" where
  "listen_port env = (case env ''PORT'' of None \<Rightarrow> Fin 3375 | Some raw \<Rightarrow> number_of_text raw)"

text \<open>What the framework raises for a class it cannot build (its message names the class).\<close>

definition missing_dependency :: error where
  "missing_dependency = PlainError ''Nest cannot resolve dependencies''"

definition create_app :: "boot_env \<Rightarrow> error + connection_options \<times> workflow_map \<times> policy_map" where
  "create_app be =
     (case database_options (bt_dirname be) (bt_env be) of
        Inl e \<Rightarrow> Inl e
      | Inr options \<Rightarrow>
          (case bt_connect be options of
             Inl e \<Rightarrow> Inl e
           | Inr _ \<Rightarrow>
               (case new_workflow_registry (bt_definition be)
                       (load_workflows_from_directory (bt_seeds be) (bt_shown be)
                         (bt_env be ''BPCP_WORKFLOW_SEED_DIR'')) of
                  Inl e \<Rightarrow> Inl e
                | Inr workflows \<Rightarrow> Inr (options, workflows, new_policy_registry))))"

definition bootstrap :: "boot_env \<Rightarrow> (process_db, service) op" where
  "bootstrap be =
     (if \<not> bt_metadata be then throw missing_metadata
      else
        and_then (lift_result (create_app be)) (\<lambda>(options, workflows, policies).
        and_then (ensure_seed_processes (bt_host be) (bt_clock be) (bt_clock2 be)) (\<lambda>_.
          let port = listen_port (bt_env be)
          in and_then (lift_result (bt_listen be port)) (\<lambda>_.
             ret \<lparr>bp_database = options, bp_workflows = workflows, bp_policies = policies,
                  bp_pipe = \<lparr>vp_whitelist = True, vp_transform = True, vp_forbidNonWhitelisted = True\<rparr>,
                  bp_credentials = True, bp_port = port\<rparr>))))"


section \<open>The parts fit together\<close>

text \<open>
  Every class can be built from what its module sees, and every entity that a module
  registers is among those of the connection.
\<close>

lemma modules_wired:
  "wired [''WorkflowInstanceEntity'', ''InstanceStepEntity'', ''InstanceSignalEntity'',
     ''ProcessDefinitionEntity'', ''ProcessAuditEventEntity'', ''ProcessEventOutboxEntity'']
     (auth_module # app_modules)"
  by code_simp

lemma options_wired:
  "database_options dirname env = Inr options \<Longrightarrow> wired (dc_entities options) (auth_module # app_modules)"
  using modules_wired by (auto simp: database_options_def split: option.splits if_splits)

end
