(* ===== verification/Application.thy ===== *)
theory Application
  imports Startup Api InstanceApi Simulation BusinessHealth
begin

text \<open>
  The running service: its HTTP surface as a whole and the sweep that its scheduler fires.
  Requests of the process registry and the outbox go to \<open>Api\<close>, those of instances to
  \<open>InstanceApi\<close>; the handlers of the other controllers (workflows, policies, capabilities,
  simulation, business health, health, editor) stand here. Requests are served one after
  another. What the pipes of the framework make of a parameter or a body is an argument.
\<close>

section \<open>State, environment and answers\<close>

record app_state =
  ap_processes :: process_db
  ap_instances :: instance_db
  ap_service :: "service option"

text \<open>
  What a request finds outside the service: the environments of its registry and executor
  parts, the ids the database generates, the time and the order of \<open>localeCompare\<close>.
\<close>

record request_env =
  rn_api :: api_env
  rn_exec :: exec_env
  rn_newId :: string
  rn_now :: instant
  rn_locale :: "string \<Rightarrow> string"

record health_info =
  hi_ok :: bool
  hi_service :: string
  hi_status :: string
  hi_implemented :: "string list"
  hi_missing :: "string list"

datatype app_body =
    RegistryBody http_body
  | InstanceBody "instance_row option"
  | InstancesBody "instance_row list"
  | InstanceAuditBody "instance_row \<times> step_row list"
  | WorkflowsBody "workflow_definition list"
  | WorkflowBody workflow_definition
  | WorkflowVerdictBody workflow_validation
  | PoliciesBody "policy_definition list"
  | PolicyBody policy_definition
  | PolicyVerdictBody policy_validation
  | CapabilitiesBody "service_capability list"
  | ScenariosBody "scenario_summary list"
  | SimulationBody simulation_response
  | HealthReportBody health_report
  | HealthBody health_info
  | EditorBody string

type_synonym app_op = "(app_state, app_body) op"

text \<open>A part of the state under an operation of one store, and a result without effects.\<close>

definition on_processes :: "('a \<Rightarrow> app_body) \<Rightarrow> (process_db, 'a) op \<Rightarrow> app_op" where
  "on_processes body m s =
     (case m (ap_processes s) of (r, t) \<Rightarrow> (map_sum id body r, s\<lparr>ap_processes := t\<rparr>))"

definition on_instances :: "('a \<Rightarrow> app_body) \<Rightarrow> (instance_db, 'a) op \<Rightarrow> app_op" where
  "on_instances body m s =
     (case m (ap_instances s) of (r, t) \<Rightarrow> (map_sum id body r, s\<lparr>ap_instances := t\<rparr>))"

definition returned :: "('a \<Rightarrow> app_body) \<Rightarrow> error + 'a \<Rightarrow> app_op" where
  "returned body r = lift_result (map_sum id body r)"

definition checked :: "error + 'a \<Rightarrow> ('a \<Rightarrow> app_op) \<Rightarrow> app_op" where
  "checked v handler = (case v of Inl e \<Rightarrow> throw e | Inr x \<Rightarrow> handler x)"


section \<open>The controllers without a store\<close>

definition list_workflows_handler :: "request_env \<Rightarrow> service \<Rightarrow> app_op" where
  "list_workflows_handler re sv =
     returned WorkflowsBody (Inr (list_workflows (rn_locale re) (bp_workflows sv)))"

definition get_workflow_handler :: "service \<Rightarrow> string \<Rightarrow> error + int \<Rightarrow> app_op" where
  "get_workflow_handler sv i version =
     checked version (\<lambda>v. returned WorkflowBody (get_workflow (bp_workflows sv) i v))"

definition validate_workflow_handler :: "service \<Rightarrow> string \<Rightarrow> error + int \<Rightarrow> app_op" where
  "validate_workflow_handler sv i version =
     checked version (\<lambda>v. returned WorkflowVerdictBody (validate_workflow (bp_workflows sv) i v))"

definition list_policies_handler :: "request_env \<Rightarrow> service \<Rightarrow> app_op" where
  "list_policies_handler re sv =
     returned PoliciesBody (Inr (list_policies (rn_locale re) (bp_policies sv)))"

definition get_policy_handler :: "service \<Rightarrow> string \<Rightarrow> error + int \<Rightarrow> app_op" where
  "get_policy_handler sv i version =
     checked version (\<lambda>v. returned PolicyBody (get_policy (bp_policies sv) i v))"

definition validate_policy_handler :: "service \<Rightarrow> string \<Rightarrow> error + int \<Rightarrow> app_op" where
  "validate_policy_handler sv i version =
     checked version (\<lambda>v. returned PolicyVerdictBody (validate_policy (bp_policies sv) i v))"

definition list_capabilities_handler :: app_op where
  "list_capabilities_handler = returned CapabilitiesBody (Inr list_capabilities)"

definition list_scenarios_handler :: app_op where
  "list_scenarios_handler = returned ScenariosBody (Inr list_simulation_scenarios)"

definition simulate_handler :: "request_env \<Rightarrow> simulation_request \<Rightarrow> app_op" where
  "simulate_handler re body =
     returned SimulationBody (simulate_holiday_discount (ae_host (rn_api re)) body)"

definition simulate_scenario_handler :: "request_env \<Rightarrow> string \<Rightarrow> app_op" where
  "simulate_scenario_handler re i =
     returned SimulationBody (simulate_scenario (ae_host (rn_api re)) i)"

definition business_health_handler :: "request_env \<Rightarrow> app_op" where
  "business_health_handler re =
     returned HealthReportBody (get_stock_order_marketplace_health (rn_now re))"

definition service_health :: health_info where
  "service_health =
     \<lparr>hi_ok = True, hi_service = ''business-process-control-plane'', hi_status = ''deployed-initial'',
      hi_implemented =
        [''PostgreSQL-backed process registry runtime persistence'',
         ''PostgreSQL-backed process event outbox runtime persistence'',
         ''workflow instance runtime persistence'',
         ''policy registry'',
         ''workflow registry'',
         ''simulation scenarios'',
         ''visual process editor'',
         ''RabbitMQ process event transport adapter controlled by environment'',
         ''Kubernetes Deployment, Service, ConfigMap, and secret wiring''],
      hi_missing =
        [''downstream BPCP event consumers and replay/backfill ownership'',
         ''auth RBAC role mapping'',
         ''public process-editor ingress/domain'']\<rparr>"

definition health_handler :: app_op where
  "health_handler = returned HealthBody (Inr service_health)"

text \<open>The page of the editor, by its content type; its script is the theory \<open>Editor\<close>.\<close>

definition editor_handler :: app_op where
  "editor_handler = returned EditorBody (Inr ''text/html; charset=utf-8'')"


section \<open>The service\<close>

datatype app_call =
    RegistryCall http_call
  | CreateInstance "error + create_instance_dto"
  | ListInstances "string option" "string option"
  | FindInstance string
  | AuditInstance string
  | SignalInstance string "error + deliver_signal_dto"
  | CancelInstance string
  | ListWorkflows
  | GetWorkflow string "error + int"
  | ValidateWorkflow string "error + int"
  | ListPolicies
  | GetPolicy string "error + int"
  | ValidatePolicy string "error + int"
  | ListCapabilities
  | ListScenarios
  | Simulate simulation_request
  | SimulateScenario string
  | BusinessHealthReport
  | Health
  | EditorPage

text \<open>The executor runs with the workflow registry of the running service.\<close>

definition executor_env :: "request_env \<Rightarrow> service \<Rightarrow> exec_env" where
  "executor_env re sv = (rn_exec re)\<lparr>xe_workflows := bp_workflows sv\<rparr>"

definition instance_call :: "request_env \<Rightarrow> service \<Rightarrow> app_call \<Rightarrow> app_op option" where
  "instance_call re sv call =
     (case call of
        CreateInstance body \<Rightarrow> Some (checked body (\<lambda>dto.
          on_instances InstanceBody (create_handler (executor_env re sv) (rn_newId re) dto)))
      | ListInstances correlationKey status \<Rightarrow>
          Some (on_instances InstancesBody (list_handler correlationKey status))
      | FindInstance i \<Rightarrow> Some (on_instances (\<lambda>r. InstanceBody (Some r)) (find_one i))
      | AuditInstance i \<Rightarrow> Some (on_instances InstanceAuditBody (audit_handler i))
      | SignalInstance i body \<Rightarrow> Some (checked body (\<lambda>dto.
          on_instances InstanceBody (signal_handler (executor_env re sv) (rn_newId re) i dto)))
      | CancelInstance i \<Rightarrow> Some (on_instances InstanceBody (cancel_handler i))
      | _ \<Rightarrow> None)"

definition serve_app :: "request_env \<Rightarrow> header_value option \<Rightarrow> app_call \<Rightarrow> service \<Rightarrow> app_op" where
  "serve_app re authorization call sv =
     (case instance_call re sv call of
        Some m \<Rightarrow> m
      | None \<Rightarrow>
          (case call of
             RegistryCall c \<Rightarrow> on_processes RegistryBody (serve (rn_api re) authorization c)
           | ListWorkflows \<Rightarrow> list_workflows_handler re sv
           | GetWorkflow i v \<Rightarrow> get_workflow_handler sv i v
           | ValidateWorkflow i v \<Rightarrow> validate_workflow_handler sv i v
           | ListPolicies \<Rightarrow> list_policies_handler re sv
           | GetPolicy i v \<Rightarrow> get_policy_handler sv i v
           | ValidatePolicy i v \<Rightarrow> validate_policy_handler sv i v
           | ListCapabilities \<Rightarrow> list_capabilities_handler
           | ListScenarios \<Rightarrow> list_scenarios_handler
           | Simulate body \<Rightarrow> simulate_handler re body
           | SimulateScenario i \<Rightarrow> simulate_scenario_handler re i
           | BusinessHealthReport \<Rightarrow> business_health_handler re
           | Health \<Rightarrow> health_handler
           | _ \<Rightarrow> editor_handler))"

text \<open>The sweep that the scheduler fires every minute; its counters are only logged.\<close>

definition scheduled_sweep ::
  "exec_env \<Rightarrow> (string \<Rightarrow> instant option) \<Rightarrow> (nat \<Rightarrow> string) \<Rightarrow> instant \<Rightarrow> service \<Rightarrow> app_state \<Rightarrow>
   (error + sweep_result) \<times> app_state" where
  "scheduled_sweep xe as_timestamp ids now sv s =
     (case sweep (xe\<lparr>xe_workflows := bp_workflows sv\<rparr>) as_timestamp ids now (ap_instances s) of
        (r, t) \<Rightarrow> (r, s\<lparr>ap_instances := t\<rparr>))"

text \<open>Starting the service on the stored state.\<close>

definition start_up :: "boot_env \<Rightarrow> (app_state, unit) op" where
  "start_up be s =
     (case bootstrap be (ap_processes s) of
        (Inl e, t) \<Rightarrow> (Inl e, s\<lparr>ap_processes := t\<rparr>)
      | (Inr sv, t) \<Rightarrow> (Inr (), s\<lparr>ap_processes := t, ap_service := Some sv\<rparr>))"

end
