(* ===== verification/AppProperties.thy ===== *)
theory AppProperties
  imports Application ApiProperties InstanceProperties
begin

text \<open>
  The service as a whole: when it starts, what holds of both stores in every state it can
  reach over restarts, requests and sweeps, and which requests need no identity.
\<close>

section \<open>Starting\<close>

abbreviation succeeds :: "'a + 'b \<Rightarrow> bool" where
  "succeeds r \<equiv> \<not> isl r"

text \<open>The rows of the two seeded process versions are stored.\<close>

definition seeds_present :: "process_db \<Rightarrow> bool" where
  "seeds_present s \<longleftrightarrow>
     lookup_process (db_processes s) (''holiday-discount-2026'', 1) \<noteq> None \<and>
     lookup_process (db_processes s) (''flipflop.successful_customer_journey.v1'', 1) \<noteq> None"

lemma seeding_stores_seeds:
  assumes "process_db_ok s" and "clock_ok ck" and "clock_ok ck'"
  shows "\<exists>s'. ensure_seed_processes host ck ck' s = (Inr (), s') \<and> seeds_present s'"
proof -
  have "process_key (seed_row seed_holiday_discount_definition t) = (''holiday-discount-2026'', 1)"
      "process_key (seed_row seed_flipflop_definition t) = (''flipflop.successful_customer_journey.v1'', 1)" for t
    by (simp_all add: process_key_def seed_row_def process_entity_def
        seed_holiday_discount_definition_def seed_flipflop_definition_def del: process_key_fold)
  then show ?thesis
    by (auto simp: seed_processes_eq[OF assms] seeds_present_def after_seed_lookup split: option.splits)
qed

text \<open>What start-up needs: the metadata, the connection, the mounted documents, the port.\<close>

definition connects :: "boot_env \<Rightarrow> bool" where
  "connects be \<longleftrightarrow>
     (case bt_env be ''BPCP_DATABASE_URL'' of
        None \<Rightarrow> False
      | Some url \<Rightarrow> url \<noteq> [] \<and>
          (case database_options (bt_dirname be) (bt_env be) of
             Inl e \<Rightarrow> False | Inr options \<Rightarrow> succeeds (bt_connect be options)))"

definition documents_load :: "boot_env \<Rightarrow> bool" where
  "documents_load be \<longleftrightarrow>
     succeeds (load_workflows_from_directory (bt_seeds be) (bt_shown be) (bt_env be ''BPCP_WORKFLOW_SEED_DIR''))"

definition port_binds :: "boot_env \<Rightarrow> bool" where
  "port_binds be \<longleftrightarrow> succeeds (bt_listen be (listen_port (bt_env be)))"

text \<open>A running service: a store is configured and everything built in is registered.\<close>

definition set_up :: "service \<Rightarrow> bool" where
  "set_up sv \<longleftrightarrow>
     dc_url (bp_database sv) \<noteq> [] \<and> bp_policies sv = new_policy_registry \<and>
     list_all (\<lambda>w. succeeds (get_workflow (bp_workflows sv) (wd_workflowId w) (wd_version w)))
       holiday_discount_workflows"

lemma registry_holds_built_in:
  assumes "w \<in> set holiday_discount_workflows"
  shows "succeeds (get_workflow (fold upsert_workflow documents (fold upsert_workflow holiday_discount_workflows []))
    (wd_workflowId w) (wd_version w))"
proof -
  obtain e where "obj_get (fold upsert_workflow holiday_discount_workflows []) (workflow_key w) = Some e"
    using wf_map.lookup_load_hit[OF assms] by blast
  then have "obj_get (fold upsert_workflow documents (fold upsert_workflow holiday_discount_workflows []))
      (workflow_key w) \<noteq> None"
    by (simp add: wf_map.lookup_load split: option.splits)
  then show ?thesis by (auto simp: get_workflow_def workflow_key_def split: option.splits)
qed

lemma create_app_cases:
  "case create_app be of
     Inl e \<Rightarrow> \<not> (connects be \<and> documents_load be)
   | Inr (options, workflows, policies) \<Rightarrow>
       connects be \<and> documents_load be \<and> dc_url options \<noteq> [] \<and> policies = new_policy_registry \<and>
       list_all (\<lambda>w. succeeds (get_workflow workflows (wd_workflowId w) (wd_version w))) holiday_discount_workflows"
  using options_wired[of "bt_dirname be" "bt_env be"]
  by (auto simp: create_app_def registry_holds_built_in connects_def documents_load_def database_options_def
      new_workflow_registry_def Let_def list_all_iff split: option.splits sum.splits)

lemma bootstrap_cases:
  assumes "process_db_ok s" and "clock_ok (bt_clock be)" and "clock_ok (bt_clock2 be)"
  shows "case bootstrap be s of
      (Inl e, s') \<Rightarrow> \<not> (bt_metadata be \<and> connects be \<and> documents_load be \<and> port_binds be) \<and>
        (s' = s \<or> bt_metadata be \<and> connects be \<and> documents_load be) \<and>
        s' \<in> {s, snd (ensure_seed_processes (bt_host be) (bt_clock be) (bt_clock2 be) s)}
    | (Inr sv, s') \<Rightarrow> bt_metadata be \<and> connects be \<and> documents_load be \<and> port_binds be \<and>
        set_up sv \<and> seeds_present s' \<and> s' = snd (ensure_seed_processes (bt_host be) (bt_clock be) (bt_clock2 be) s)"
proof -
  obtain s1 where seeds: "ensure_seed_processes (bt_host be) (bt_clock be) (bt_clock2 be) s = (Inr (), s1)"
    and present: "seeds_present s1"
    using seeding_stores_seeds[OF assms] by blast
  show ?thesis
    using create_app_cases[of be] present
    by (cases "create_app be"; cases "bt_listen be (listen_port (bt_env be))")
      (auto simp: bootstrap_def and_then_def lift_result_def throw_def ret_def seeds port_binds_def set_up_def Let_def)
qed

text \<open>
  C22. The service starts exactly when \<open>reflect-metadata\<close> is installed, a database is
  configured and accepts the connection, every mounted workflow document loads and the
  port can be bound. It then serves the built-in workflows and policies and has stored both
  seed processes; otherwise it does not run, and unless only binding failed nothing has
  been stored.
\<close>

theorem start_up_succeeds_iff:
  assumes "process_db_ok (ap_processes s)" and "clock_ok (bt_clock be)" and "clock_ok (bt_clock2 be)"
  shows "case start_up be s of
      (Inl e, s') \<Rightarrow> \<not> (bt_metadata be \<and> connects be \<and> documents_load be \<and> port_binds be) \<and>
        ap_service s' = ap_service s \<and> ap_instances s' = ap_instances s \<and>
        (s' = s \<or> bt_metadata be \<and> connects be \<and> documents_load be)
    | (Inr u, s') \<Rightarrow> bt_metadata be \<and> connects be \<and> documents_load be \<and> port_binds be \<and>
        (\<exists>sv. ap_service s' = Some sv \<and> set_up sv) \<and> seeds_present (ap_processes s') \<and>
        ap_instances s' = ap_instances s"
  using bootstrap_cases[OF assms] by (auto simp: start_up_def split: prod.splits sum.splits)

text \<open>The state of a fresh installation: the migrated tables, and no service yet.\<close>

definition installed :: app_state where
  "installed =
     \<lparr>ap_processes = ProcessProperties.empty_db, ap_instances = RunProperties.empty_db, ap_service = None\<rparr>"

definition sample_boot :: boot_env where
  "sample_boot =
     \<lparr>bt_metadata = True,
      bt_env = (\<lambda>k. if k = ''BPCP_DATABASE_URL'' then Some ''postgres://db/bpcp''
                     else if k = ''PORT'' then Some '' 0x0D2F '' else None),
      bt_dirname = ''/app/dist/database'', bt_connect = (\<lambda>options. Inr ()),
      bt_seeds = sample_seed_host, bt_shown = (\<lambda>_. []), bt_definition = (\<lambda>_. product_view_holiday_badge),
      bt_host = (\<lambda>_. None), bt_clock = sample_clock, bt_clock2 = sample_clock,
      bt_listen = (\<lambda>port. if port = Fin 3375 then Inr () else Inl (PlainError ''EADDRINUSE''))\<rparr>"

lemma sample_boot_ready:
  "bt_metadata sample_boot" "connects sample_boot" "documents_load sample_boot" "port_binds sample_boot"
proof -
  have "js_trim '' 0x0D2F '' = ''0x0D2F''" by (simp add: js_trim_def js_space_def)
  then have "listen_port (bt_env sample_boot) = round_double (of_nat 3375)"
    by (simp add: listen_port_def sample_boot_def number_of_text_def radix_of_def of_char_def char_of_def)
  moreover have "round_double (of_nat 3375) = Fin 3375" using round_double_int[of 3375] by simp
  ultimately show "port_binds sample_boot" by (simp add: port_binds_def sample_boot_def)
qed (simp_all add: sample_boot_def connects_def database_options_def documents_load_def
    load_workflows_from_directory_def)

lemma start_up_succeeds_iff_witness:
  "(\<exists>sv. ap_service (snd (start_up sample_boot installed)) = Some sv \<and> set_up sv) \<and>
   seeds_present (ap_processes (snd (start_up sample_boot installed)))"
proof -
  have "process_db_ok (ap_processes installed)" "clock_ok (bt_clock sample_boot)" "clock_ok (bt_clock2 sample_boot)"
    by (simp_all add: installed_def empty_db_ok sample_boot_def sample_clock_ok)
  from start_up_succeeds_iff[OF this] show ?thesis
    by (auto simp: sample_boot_ready split: prod.splits sum.splits)
qed


section \<open>Requests and sweeps\<close>

text \<open>
  What a request of the registry or the outbox does to their tables: nothing, a request of
  the lifecycle, or a dispatch run.
\<close>

lemma guarded_in:
  "(\<And>actor. snd (handler actor s) \<in> A) \<Longrightarrow> s \<in> A \<Longrightarrow> snd (guarded ae authorization handler s) \<in> A"
  by (simp add: guarded_def throw_def split: sum.splits)

lemma piped_in:
  "(\<And>x. snd (handler x s) \<in> A) \<Longrightarrow> s \<in> A \<Longrightarrow> snd (piped v handler s) \<in> A"
  by (simp add: piped_def throw_def split: sum.splits)

lemma serve_in:
  assumes ok: "process_db_ok s" and same: "s \<in> A"
    and lifecycle: "\<And>actor req. run_request (ae_host ae) (ae_clock ae) (ae_clock2 ae) actor req s \<in> A"
    and dispatch: "\<And>limit. snd (dispatch_pending (ae_env ae) (ae_hmac ae) (ae_returning ae)
                     (ae_attempts ae) (ae_dbnow ae) limit s) \<in> A"
  shows "snd (serve ae authorization call s) \<in> A"
proof -
  note pure = readers_pure[OF ok]
  note run = lifecycle[where req = "CreateReq dto" for dto] lifecycle[where req = "ValidateReq i v" for i v]
    lifecycle[where req = "ScheduleReq i v" for i v] lifecycle[where req = "PublishReq i v" for i v]
    lifecycle[where req = "PauseReq i v" for i v] lifecycle[where req = "RetireReq i v" for i v]
  note requests = run[unfolded run_request_def lifecycle_request.case]
  note handlers = create_process_handler_def validate_process_handler_def schedule_process_handler_def
    publish_process_handler_def pause_process_handler_def retire_process_handler_def
    dispatch_outbox_handler_def replay_outbox_handler_def list_processes_handler_def store_info_handler_def
    process_audit_handler_def get_process_handler_def version_audit_handler_def list_outbox_handler_def
    outbox_info_handler_def process_outbox_handler_def transport_info_handler_def
  show ?thesis
    by (cases call; simp only: serve_def http_call.case handlers;
        (intro guarded_in piped_in same)?; simp add: requests dispatch pure replay_pure same ret_def)
qed

lemma serve_keeps_invariant:
  assumes inv: "registry_inv s" and ck: "clock_ok (ae_clock ae)" "clock_ok (ae_clock2 ae)"
  shows "registry_inv (snd (serve ae authorization call s))"
proof -
  have ok: "process_db_ok s" and ob: "outbox_ok s" using inv by (simp_all add: registry_inv_def process_db_ok_def)
  have "snd (serve ae authorization call s) \<in> Collect registry_inv"
    using inv ck delivery_only_inv[OF inv delivery_only_dispatch dispatch_pending_ok[OF ob]]
    by (intro serve_in[OF ok]) (simp_all add: run_request_inv)
  then show ?thesis by simp
qed

lemma serve_keeps_seeds:
  assumes ok: "process_db_ok s" and seeds: "seeds_present s"
    and ck: "clock_ok (ae_clock ae)" "clock_ok (ae_clock2 ae)"
  shows "seeds_present (snd (serve ae authorization call s))"
proof -
  have "seeds_present (run_request (ae_host ae) (ae_clock ae) (ae_clock2 ae) actor req s)" for actor req
    using seeds version_kept[OF ok ck] by (fastforce simp: seeds_present_def)
  moreover have "db_processes (snd (dispatch_pending (ae_env ae) (ae_hmac ae) (ae_returning ae) (ae_attempts ae)
      (ae_dbnow ae) limit s)) = db_processes s" for limit
    using delivery_only_dispatch[of s "ae_env ae" "ae_hmac ae" "ae_returning ae" "ae_attempts ae" "ae_dbnow ae" limit]
    by (auto simp: delivery_only_def)
  ultimately have "snd (serve ae authorization call s) \<in> Collect seeds_present"
    using seeds by (intro serve_in[OF ok]) (simp_all add: seeds_present_def)
  then show ?thesis by simp
qed

text \<open>Ids that the database generates are new.\<close>

definition fresh_id :: "string \<Rightarrow> instance_db \<Rightarrow> bool" where
  "fresh_id i s \<longleftrightarrow> find_by_id i s = None \<and> i \<notin> set (signal_ids s)"

lemma snd_on_instances [simp]:
  "ap_instances (snd (on_instances body m s)) = snd (m (ap_instances s))"
  "ap_processes (snd (on_instances body m s)) = ap_processes s"
  "ap_service (snd (on_instances body m s)) = ap_service s"
  by (simp_all add: on_instances_def split: prod.splits)

lemma snd_on_processes [simp]:
  "ap_processes (snd (on_processes body m s)) = snd (m (ap_processes s))"
  "ap_instances (snd (on_processes body m s)) = ap_instances s"
  "ap_service (snd (on_processes body m s)) = ap_service s"
  by (simp_all add: on_processes_def split: prod.splits)

lemma snd_checked:
  "snd (checked v handler s) = (case v of Inl e \<Rightarrow> s | Inr x \<Rightarrow> snd (handler x s))"
  by (simp add: checked_def throw_def split: sum.splits)

lemma snd_returned [simp]: "snd (returned body r s) = s"
  by (simp add: returned_def lift_result_def)

lemma instance_readers_pure:
  "snd (list_handler k st s) = s" "snd (find_one i s) = s" "snd (audit_handler i s) = s"
  by (simp_all add: list_handler_def find_one_def audit_handler_def and_then_def read_state_def ret_def throw_def
      split: option.splits)

lemma instance_call_keeps:
  assumes m: "instance_call re sv call = Some m"
    and inst: "instances_reachable (ap_instances s)" and fresh: "fresh_id (rn_newId re) (ap_instances s)"
  shows "instances_reachable (ap_instances (snd (m s))) \<and>
    ap_processes (snd (m s)) = ap_processes s \<and> ap_service (snd (m s)) = ap_service s"
  using m inst start_reachable[OF inst] deliver_reachable[OF inst] instances_reachable.cancelled[OF inst] fresh
  by (cases call)
    (auto simp: instance_call_def snd_checked instance_readers_pure create_handler_def signal_handler_def
      cancel_handler_def fresh_id_def split: sum.splits)

lemma other_call_serves:
  assumes "instance_call re sv call = None"
  shows "snd (serve_app re authorization call sv s) =
    (case call of
       RegistryCall c \<Rightarrow> snd (on_processes RegistryBody (serve (rn_api re) authorization c) s)
     | _ \<Rightarrow> s)"
  using assms
  by (cases call)
    (simp_all add: serve_app_def instance_call_def snd_checked list_workflows_handler_def get_workflow_handler_def
      validate_workflow_handler_def list_policies_handler_def get_policy_handler_def validate_policy_handler_def
      list_capabilities_handler_def list_scenarios_handler_def simulate_handler_def simulate_scenario_handler_def
      business_health_handler_def health_handler_def editor_handler_def split: sum.splits)

text \<open>The sweep, which writes one signal row at most for each expired wait.\<close>

lemma deliver_signal_ids:
  "set (signal_ids (snd (deliver_signal xe newId i name payload s))) \<subseteq> insert newId (set (signal_ids s))"
proof -
  obtain r s1 where rec: "record_signal newId (xe_dbnow xe) i name payload s = (r, s1)" by fastforce
  then have "set (signal_ids s1) \<subseteq> insert newId (set (signal_ids s))"
    by (auto simp: record_signal_def signal_ids_def Let_def split: if_splits)
  moreover have "signal_ids (snd (advance xe i s1)) = signal_ids s1"
    using keys.keeps_advance by (intro same_keys_signal_ids) (simp add: keeps_def)
  moreover have "snd (deliver_signal xe newId i name payload s) \<in> {s1, snd (advance xe i s1)}"
    by (simp add: deliver_signal_def and_then_def rec split: sum.splits)
  ultimately show ?thesis by auto
qed

lemma timeout_signal_ids: "signal_ids (snd (fail_wait_timeout clock i a s)) = signal_ids s"
proof -
  obtain err t c where "snd (fail_wait_timeout clock i a s) =
     update_instance i (\<lambda>r. r\<lparr>in_status := InstFailed, in_lastError := Some err, in_wait := None\<rparr>)
       (update_step i a (\<lambda>r. r\<lparr>sp_status := StepFailed, sp_error := Some err, sp_finishedAt := Some t\<rparr>)
         (s\<lparr>idb_ticks := c\<rparr>))"
    using fail_wait_timeout_eq by blast
  then show ?thesis by (simp add: signal_ids_def update_instance_def update_step_def)
qed

lemma snd_sweep_one:
  "snd (sweep_one xe newId inst s) =
    (case in_wait inst of
       None \<Rightarrow> s
     | Some w \<Rightarrow>
         if wx_onTimeout w = OnTimeoutContinue
         then snd (deliver_signal xe newId (in_instanceId inst) (wx_signalName w) [(''timedOut'', JBool True)] s)
         else snd (fail_wait_timeout (xe_clock xe) (in_instanceId inst) (wx_actionId w) s))"
  by (simp add: sweep_one_def split: option.splits prod.splits sum.splits)

lemma sweep_one_keeps:
  assumes "instances_reachable s" and "newId \<notin> set (signal_ids s)"
  shows "instances_reachable (snd (sweep_one xe newId inst s)) \<and>
    set (signal_ids (snd (sweep_one xe newId inst s))) \<subseteq> insert newId (set (signal_ids s))"
  using assms deliver_reachable[OF assms] deliver_signal_ids instances_reachable.timed_out[OF assms(1)]
  by (auto simp: snd_sweep_one timeout_signal_ids split: option.splits)

lemma snd_sweep_all_Cons:
  "snd (sweep_all xe ids (inst # rest) s) =
   snd (sweep_all xe ids rest (snd (sweep_one xe (ids (length rest)) inst s)))"
  by (simp add: Let_def case_prod_beta)

lemma sweep_all_keeps:
  assumes "inj ids"
  shows "instances_reachable s \<Longrightarrow> (\<And>k. k < length insts \<Longrightarrow> ids k \<notin> set (signal_ids s)) \<Longrightarrow>
    instances_reachable (snd (sweep_all xe ids insts s))"
proof (induction insts arbitrary: s)
  case (Cons inst rest)
  let ?t = "snd (sweep_one xe (ids (length rest)) inst s)"
  have t: "instances_reachable ?t" "set (signal_ids ?t) \<subseteq> insert (ids (length rest)) (set (signal_ids s))"
    using sweep_one_keeps[OF Cons.prems(1), of "ids (length rest)" xe inst] Cons.prems(2) by simp_all
  have "ids k \<notin> set (signal_ids ?t)" if "k < length rest" for k
    using t(2) Cons.prems(2)[of k] that assms by (auto dest: injD)
  from Cons.IH[OF t(1) this] show ?case
    unfolding snd_sweep_all_Cons .
qed simp

lemma sweep_keeps:
  assumes "inj ids" and "\<And>k. ids k \<notin> set (signal_ids (ap_instances s))" and "instances_reachable (ap_instances s)"
  shows "instances_reachable (ap_instances (snd (scheduled_sweep xe as_timestamp ids now sv s)))"
  using sweep_all_keeps[OF assms(1,3)] assms
  by (auto simp: scheduled_sweep_def sweep_def Let_def split: prod.splits sum.splits)
    (metis snd_conv)


section \<open>Every state of the service\<close>

text \<open>
  From a fresh installation: the service is started (which may fail), stopped, answers
  requests of any caller and sweeps, in any order and in any environment. Requests run to
  completion, one after another, except that the process may die between the two
  transactions of a start or of a signal. (Interleavings of the transactions on instances
  are covered by \<open>instances_reachable\<close>.)
\<close>

inductive app_reachable :: "app_state \<Rightarrow> bool" where
  fresh: "app_reachable installed"
| started: "app_reachable s \<Longrightarrow> ap_service s = None \<Longrightarrow> clock_ok (bt_clock be) \<Longrightarrow>
    clock_ok (bt_clock2 be) \<Longrightarrow> app_reachable (snd (start_up be s))"
| stopped: "app_reachable s \<Longrightarrow> app_reachable (s\<lparr>ap_service := None\<rparr>)"
| served: "app_reachable s \<Longrightarrow> ap_service s = Some sv \<Longrightarrow> clock_ok (ae_clock (rn_api re)) \<Longrightarrow>
    clock_ok (ae_clock2 (rn_api re)) \<Longrightarrow> fresh_id (rn_newId re) (ap_instances s) \<Longrightarrow>
    app_reachable (snd (serve_app re authorization call sv s))"
| swept: "app_reachable s \<Longrightarrow> ap_service s = Some sv \<Longrightarrow> inj ids \<Longrightarrow>
    (\<And>k. ids k \<notin> set (signal_ids (ap_instances s))) \<Longrightarrow>
    app_reachable (snd (scheduled_sweep xe as_timestamp ids now sv s))"
| start_cut: "app_reachable s \<Longrightarrow> ap_service s = Some sv \<Longrightarrow>
    get_workflow (bp_workflows sv) (st_workflowId input) (st_workflowVersion input) = Inr d \<Longrightarrow>
    fresh_id newId (ap_instances s) \<Longrightarrow>
    app_reachable (s\<lparr>ap_service := None,
      ap_instances := snd (create_if_absent newId dbnow (create_input input d) (ap_instances s))\<rparr>)"
| signal_cut: "app_reachable s \<Longrightarrow> ap_service s = Some sv \<Longrightarrow> fresh_id newId (ap_instances s) \<Longrightarrow>
    app_reachable (s\<lparr>ap_service := None,
      ap_instances := snd (record_signal newId dbnow i name payload (ap_instances s))\<rparr>)"

definition app_inv :: "app_state \<Rightarrow> bool" where
  "app_inv s \<longleftrightarrow>
     registry_inv (ap_processes s) \<and> instances_reachable (ap_instances s) \<and>
     (case ap_service s of None \<Rightarrow> True | Some sv \<Rightarrow> set_up sv \<and> seeds_present (ap_processes s))"

lemma installed_inv: "app_inv installed"
  using instances_reachable.empty
  by (simp add: app_inv_def installed_def registry_inv_def empty_db_ok audit_matches_events_def)
    (simp add: ProcessProperties.empty_db_def)

lemma start_up_inv:
  assumes inv: "app_inv s" and off: "ap_service s = None"
    and ck: "clock_ok (bt_clock be)" "clock_ok (bt_clock2 be)"
  shows "app_inv (snd (start_up be s))"
proof -
  have reg: "registry_inv (ap_processes s)" using inv by (simp add: app_inv_def)
  then have "process_db_ok (ap_processes s)" by (simp add: registry_inv_def)
  from bootstrap_cases[OF this ck] seeds_inv[OF reg ck, of "bt_host be"] show ?thesis
    using inv off reg by (auto simp: start_up_def app_inv_def split: prod.splits sum.splits)
qed

lemma serve_app_inv:
  assumes inv: "app_inv s" and on: "ap_service s = Some sv"
    and ck: "clock_ok (ae_clock (rn_api re))" "clock_ok (ae_clock2 (rn_api re))"
    and new: "fresh_id (rn_newId re) (ap_instances s)"
  shows "app_inv (snd (serve_app re authorization call sv s))"
proof (cases "instance_call re sv call")
  case None
  have reg: "registry_inv (ap_processes s)" and "seeds_present (ap_processes s)"
    using inv on by (simp_all add: app_inv_def)
  then have "registry_inv (snd (serve (rn_api re) authorization c (ap_processes s)))"
      "seeds_present (snd (serve (rn_api re) authorization c (ap_processes s)))" for c
    using serve_keeps_invariant[OF reg ck] serve_keeps_seeds[OF _ _ ck] by (simp_all add: registry_inv_def)
  then show ?thesis
    unfolding other_call_serves[OF None] using inv on by (auto simp: app_inv_def split: app_call.splits)
next
  case (Some m)
  have "instances_reachable (ap_instances s)" using inv by (simp add: app_inv_def)
  from instance_call_keeps[OF Some this new] show ?thesis
    using inv by (cases "ap_service s") (simp_all add: serve_app_def Some app_inv_def)
qed

lemma sweep_inv:
  assumes "app_inv s" and "inj ids" and "\<And>k. ids k \<notin> set (signal_ids (ap_instances s))"
  shows "app_inv (snd (scheduled_sweep xe as_timestamp ids now sv s))"
proof -
  have "ap_processes (snd (scheduled_sweep xe as_timestamp ids now sv s)) = ap_processes s"
      "ap_service (snd (scheduled_sweep xe as_timestamp ids now sv s)) = ap_service s"
    by (simp_all add: scheduled_sweep_def split: prod.splits)
  then show ?thesis
    using assms sweep_keeps[OF assms(2,3)] by (cases "ap_service s") (simp_all add: app_inv_def)
qed

lemma cut_inv:
  assumes "app_inv s" and "instances_reachable t"
  shows "app_inv (s\<lparr>ap_service := None, ap_instances := t\<rparr>)"
  using assms by (simp add: app_inv_def)

lemma app_inv_tables: "app_inv s \<Longrightarrow> instances_reachable (ap_instances s)"
  by (simp add: app_inv_def)

text \<open>
  C6. Whatever starts, stops, requests and sweeps have happened: processes, audit rows and
  events have unique keys and the audit trail agrees with the outbox; the instance tables
  keep their invariant; and while the service runs it has a database configured, serves
  every built-in workflow and policy and both seed processes are stored.
\<close>

theorem service_invariant:
  assumes "app_reachable s"
  shows "registry_inv (ap_processes s) \<and> instances_ok (ap_instances s) \<and>
    (case ap_service s of None \<Rightarrow> True | Some sv \<Rightarrow> set_up sv \<and> seeds_present (ap_processes s))"
proof -
  from assms have "app_inv s"
  proof induction
    case (stopped s)
    then show ?case by (simp add: app_inv_def)
  next
    case (start_cut s sv input d newId dbnow)
    then show ?case
      by (intro cut_inv instances_reachable.created app_inv_tables) (simp_all add: fresh_id_def)
  next
    case (signal_cut s sv newId dbnow i name payload)
    then show ?case
      by (intro cut_inv instances_reachable.recorded app_inv_tables) (simp_all add: fresh_id_def)
  qed (simp_all add: installed_inv start_up_inv serve_app_inv sweep_inv)
  then show ?thesis by (simp add: app_inv_def reachable_tables_ok)
qed

text \<open>A running service with the two-step workflow of the executor's examples.\<close>

definition sample_request :: request_env where
  "sample_request =
     \<lparr>rn_api = sample_api, rn_exec = chain_env, rn_newId = ''i'', rn_now = 0, rn_locale = (\<lambda>s. s)\<rparr>"

definition sample_order :: create_instance_dto where
  "sample_order =
     \<lparr>cd_workflowId = ''w'', cd_workflowVersion = 1, cd_correlationKey = ''k'', cd_context = None\<rparr>"

lemma service_invariant_witness:
  "let s = snd (start_up sample_boot installed) in
   \<exists>sv. ap_service s = Some sv \<and>
     (let t = snd (serve_app sample_request None (CreateInstance (Inr sample_order)) sv s) in
      registry_inv (ap_processes t) \<and> instances_ok (ap_instances t))"
proof -
  let ?s = "snd (start_up sample_boot installed)"
  have ok: "process_db_ok (ap_processes installed)" and ck: "clock_ok sample_clock"
    by (simp_all add: installed_def empty_db_ok sample_clock_ok)
  have clocks: "bt_clock sample_boot = sample_clock" "bt_clock2 sample_boot = sample_clock"
      "ae_clock (rn_api sample_request) = sample_clock" "ae_clock2 (rn_api sample_request) = sample_clock"
    by (simp_all add: sample_boot_def sample_request_def sample_api_def)
  obtain sv s1 where boot: "bootstrap sample_boot (ap_processes installed) = (Inr sv, s1)"
    using bootstrap_cases[OF ok, of sample_boot] ck sample_boot_ready
    by (cases "bootstrap sample_boot (ap_processes installed)") (auto simp: clocks split: sum.splits)
  have s: "ap_service ?s = Some sv" "ap_instances ?s = RunProperties.empty_db"
    using boot by (simp_all add: start_up_def installed_def)
  have "app_reachable ?s"
    using app_reachable.started[OF app_reachable.fresh] by (simp add: clocks ck installed_def)
  then have "app_reachable (snd (serve_app sample_request None (CreateInstance (Inr sample_order)) sv ?s))"
    by (rule app_reachable.served)
      (simp_all add: s clocks ck fresh_id_def find_by_id_def signal_ids_def RunProperties.empty_db_def)
  from service_invariant[OF this] show ?thesis
    using s(1) by (simp add: Let_def)
qed


section \<open>Requests without an identity\<close>

text \<open>
  C18. The endpoints of workflow instances carry no guard. Take an authorization header that
  the guard refuses: with it no request to the registry or the outbox changes anything, and
  yet a request that creates an instance of a registered workflow is served with the same
  header. If the workflow is acyclic with distinct action ids, all its actions are callable
  with the given context and no wait actions, the network accepts every request, and no
  instance with its correlation key exists, then that request runs the workflow to
  completion and the service sends the request of every action once, in dependency order.
\<close>

theorem anonymous_run:
  assumes "identity_of (rn_api re) authorization = Inl refusal"
    and "process_db_ok (ap_processes s)"
    and "clock_ok (ae_clock (rn_api re))" and "clock_ok (ae_clock2 (rn_api re))"
    and "get_workflow (bp_workflows sv) (cd_workflowId dto) (cd_workflowVersion dto) = Inr d"
    and "list_all (action_callable (executor_env re sv) (or_else (cd_context dto) [])) (wd_actions d)"
    and "network_accepts (executor_env re sv)"
    and "distinct (map wa_actionId (wd_actions d))" and "workflow_ranked rank (wd_actions d)"
    and "instances_ok (ap_instances s)" and "fresh_id (rn_newId re) (ap_instances s)"
    and "find_by_correlation (cd_workflowId dto) (cd_correlationKey dto) (ap_instances s) = None"
  shows "snd (serve_app re authorization (RegistryCall call) sv s) = s \<and>
    (\<exists>r s'. serve_app re authorization (CreateInstance (Inr dto)) sv s = (Inr (InstanceBody (Some r)), s') \<and>
       in_status r = Completed \<and> ap_processes s' = ap_processes s \<and>
       mset (sent_ids (ap_instances s) (ap_instances s')) = mset (map wa_actionId (wd_actions d)) \<and>
       deps_first (wd_actions d) [] (sent_ids (ap_instances s) (ap_instances s')))"
proof
  have "snd (serve (rn_api re) authorization call (ap_processes s)) = ap_processes s"
    using serve_recorded[OF assms(2-4), of authorization call] assms(1) by simp
  then show "snd (serve_app re authorization (RegistryCall call) sv s) = s"
    by (cases "serve (rn_api re) authorization call (ap_processes s)")
      (simp add: serve_app_def instance_call_def on_processes_def)
next
  let ?input = "\<lparr>st_workflowId = cd_workflowId dto, st_workflowVersion = cd_workflowVersion dto,
      st_correlationKey = cd_correlationKey dto, st_context = Some (or_else (cd_context dto) [])\<rparr>"
  have eq: "serve_app re authorization (CreateInstance (Inr dto)) sv =
      on_instances InstanceBody (start_instance (executor_env re sv) (rn_newId re) ?input)"
    by (simp add: serve_app_def instance_call_def checked_def create_handler_def or_else_def)
  have "distinct (map step_key (idb_steps (ap_instances s)))"
      "list_all (\<lambda>r. sp_instanceId r \<noteq> rn_newId re) (idb_steps (ap_instances s))"
    using assms(10,11)
    by (fastforce simp: instances_ok_def keys_ok_iff list_all_iff fresh_id_def find_by_id_def find_None_iff_all)+
  then have "\<exists>r t. start_instance (executor_env re sv) (rn_newId re) ?input (ap_instances s) = (Inr (Some r), t) \<and>
      in_status r = Completed \<and> in_instanceId r = rn_newId re \<and>
      mset (sent_ids (ap_instances s) t) = mset (map wa_actionId (wd_actions d)) \<and>
      deps_first (wd_actions d) [] (sent_ids (ap_instances s) t)"
    using assms(5-9,11,12)
    by (intro acyclic_start_runs) (simp_all add: executor_env_def opt_list_def fresh_id_def)
  then show "\<exists>r s'. serve_app re authorization (CreateInstance (Inr dto)) sv s = (Inr (InstanceBody (Some r)), s') \<and>
       in_status r = Completed \<and> ap_processes s' = ap_processes s \<and>
       mset (sent_ids (ap_instances s) (ap_instances s')) = mset (map wa_actionId (wd_actions d)) \<and>
       deps_first (wd_actions d) [] (sent_ids (ap_instances s) (ap_instances s'))"
    unfolding eq on_instances_def by auto
qed

definition sample_service :: service where
  "sample_service =
     \<lparr>bp_database = \<lparr>dc_type = ''postgres'', dc_url = ''postgres://db/bpcp'', dc_entities = [], dc_migrations = [],
        dc_migrationsRun = True, dc_synchronize = False\<rparr>,
      bp_workflows = xe_workflows chain_env, bp_policies = new_policy_registry,
      bp_pipe = \<lparr>vp_whitelist = True, vp_transform = True, vp_forbidNonWhitelisted = True\<rparr>,
      bp_credentials = True, bp_port = Fin 3375\<rparr>"

lemma anonymous_run_witness:
  "identity_of (rn_api sample_request) None =
     Inl (UnauthorizedException ''Bearer token is required for this endpoint'') \<and>
   snd (serve_app sample_request None
      (RegistryCall (CallPublish ''holiday-discount-2026'' (Inr 1))) sample_service installed) = installed \<and>
   (\<exists>r s'. serve_app sample_request None (CreateInstance (Inr sample_order)) sample_service installed =
      (Inr (InstanceBody (Some r)), s') \<and>
    in_status r = Completed \<and>
    mset (sent_ids (ap_instances installed) (ap_instances s')) = {#''b'', ''a''#})"
proof (rule conjI)
  show refused: "identity_of (rn_api sample_request) None =
     Inl (UnauthorizedException ''Bearer token is required for this endpoint'')"
    by (simp add: identity_of_def can_activate_def read_bearer_token_def)
  have env: "executor_env sample_request sample_service = sample_env chain_actions accepted_answer"
    by (simp add: executor_env_def sample_request_def sample_service_def chain_workflow_def sample_workflow_def)
  have input: "cd_workflowId sample_order = st_workflowId sample_start"
      "cd_workflowVersion sample_order = st_workflowVersion sample_start"
      "or_else (cd_context sample_order) [] = opt_list (st_context sample_start)"
    by (simp_all add: sample_order_def sample_start_def or_else_def opt_list_def)
  have flows: "bp_workflows sample_service = xe_workflows (sample_env chain_actions accepted_answer)"
    by (simp add: sample_service_def chain_workflow_def sample_workflow_def)
  have tables: "ap_instances installed = RunProperties.empty_db" by (simp add: installed_def)
  have ok: "instances_ok (ap_instances installed)"
    unfolding tables by (rule reachable_tables_ok[OF instances_reachable.empty])
  have new: "fresh_id (rn_newId sample_request) (ap_instances installed)"
    by (simp add: tables fresh_id_def find_by_id_def signal_ids_def RunProperties.empty_db_def)
  have unstarted: "find_by_correlation (cd_workflowId sample_order) (cd_correlationKey sample_order)
      (ap_instances installed) = None"
    by (simp add: tables chain_ready(8))
  have stored: "process_db_ok (ap_processes installed)" "clock_ok (ae_clock (rn_api sample_request))"
      "clock_ok (ae_clock2 (rn_api sample_request))"
    by (simp_all add: installed_def empty_db_ok sample_request_def sample_api_def sample_clock_ok)
  from anonymous_run[where sv = sample_service and dto = sample_order and re = sample_request
      and authorization = None, OF refused stored, unfolded env input flows,
      OF chain_ready(1-5) ok new unstarted[unfolded input],
      where call = "CallPublish ''holiday-discount-2026'' (Inr 1)"]
  show "snd (serve_app sample_request None
      (RegistryCall (CallPublish ''holiday-discount-2026'' (Inr 1))) sample_service installed) = installed \<and>
    (\<exists>r s'. serve_app sample_request None (CreateInstance (Inr sample_order)) sample_service installed =
      (Inr (InstanceBody (Some r)), s') \<and>
    in_status r = Completed \<and>
    mset (sent_ids (ap_instances installed) (ap_instances s')) = {#''b'', ''a''#})"
    by (auto simp: sample_workflow_def sample_call_def sample_action_def)
qed

end
