(* ===== verification/Spec2Isabelle.thy ===== *)
theory Spec2Isabelle
  imports ProcessProperties SignalProperties InstanceApi Policy SimulationProperties Auth
    ArtifactProperties CollectionProperties ApiProperties BusinessHealth EditorPageProperties
    PackageWitness IntegrationCheck ScenarioCheck SourceChecks AppProperties
begin

text \<open>
  The business process control plane (BPCP), a NestJS service: it registers versioned
  business processes, policies and workflows, moves processes through a lifecycle, records
  every change in an audit trail and an event outbox, dispatches the outbox to RabbitMQ,
  and runs workflow instances. Paths below are under \<open>src/src/\<close>.

  \<^bold>\<open>Parts and theories\<close>

  \<^item> Prelude, JsNumber, JsDate, JsValue: the JavaScript the program uses (strings, decimal
    rendering, binary64 numbers with exact rounding, the date-time string format, JSON
    values), the error values, state-and-error computations and table rows. An \<open>await\<close>
    sequence is \<open>and_then\<close>; an exception is the \<open>Inl\<close> of a result.
  \<^item> Findings, Registry, SequencedLog: the contracts several components share, as locales
    (\<open>validator\<close>, \<open>keyed_registry\<close>, \<open>sequenced_log\<close>).
  \<^item> Capability: \<open>policies/capability-reference.ts\<close> and
    \<open>capabilities/capability-registry.service.ts\<close>.
  \<^item> Workflow: \<open>workflows/workflow.types.ts\<close>, \<open>workflow-seed-loader.ts\<close>,
    \<open>workflow-registry.service.ts\<close>.
  \<^item> Outbox: \<open>events/process-event-outbox.repository.ts\<close> with its entity and types.
  \<^item> Transport: \<open>events/rabbitmq-process-event-transport.service.ts\<close>; the locale
    \<open>event_transport\<close> is what the publisher relies on.
  \<^item> Publisher: \<open>events/event-publisher.service.ts\<close> and the limit parameter of
    \<open>events/events.controller.ts\<close>.
  \<^item> ProcessTypes, ProcessStore, ProcessRegistry: \<open>processes/process.types.ts\<close>,
    \<open>process-registry.repository.ts\<close>, \<open>process-registry.service.ts\<close>.
  \<^item> ProcessLifecycle, ProcessProperties: each registry operation as one equation on the
    database, and the properties that follow.

  \<^item> Instances: \<open>instances/instance-repository.service.ts\<close> with the three entities.
  \<^item> Dispatcher: \<open>instances/action-dispatcher.service.ts\<close>, an action as one HTTP request.
  \<^item> Executor: \<open>instances/workflow-executor.service.ts\<close> and
    \<open>instance-timeout.service.ts\<close>; InstanceApi: \<open>instances/instance.controller.ts\<close>.
  \<^item> ExecutorProperties (frames and effects of the executor's steps), WalkProperties (the
    rule for its two loops, the locale \<open>executor_frame\<close> of relations a walk keeps),
    AdvanceProperties, RunProperties (runs from a start), InstanceProperties (the locale
    \<open>advance_frame\<close>, the invariant of the tables), SignalProperties (signals, waits, the
    sweep).
  \<^item> Policy: \<open>policies/policy.types.ts\<close> and \<open>policy-registry.service.ts\<close>.
  \<^item> Simulation: \<open>simulation/simulation.types.ts\<close>, \<open>simulation.scenarios.ts\<close>,
    \<open>simulation.service.ts\<close>; JsRounding (the rounding error of doubles) and
    SimulationProperties (decision, scenarios, amounts of money).
  \<^item> Auth: \<open>auth/auth-validation.client.ts\<close> and \<open>auth-identity.guard.ts\<close>.
  \<^item> JsonText (JSON text, truthiness, property access and the regular expressions of the
    scripts), ProcessArtifact and RegistryArtifacts: the command-line validators of
    \<open>src/process-registry/validators/\<close> for process definitions, and for event envelopes
    and registry collections. ArtifactProperties and CollectionProperties: what an accepted
    document guarantees.
  \<^item> JsonParse: \<open>JSON.parse\<close>, with the proof that it reads back what \<open>JSON.stringify\<close>
    wrote. Scripts: the file system, the runs of command-line scripts and the \<open>main\<close>
    functions of the validators. The scripts under \<open>src/scripts/\<close>: SourceChecks (eight that
    look for files and texts), IntegrationCheck (the business-health contract),
    ScenarioCheck (the simulation), PackageCheck (the process registry package, with
    PackageWitness, a repository that passes it).
  \<^item> Api: \<open>processes/process-registry.controller.ts\<close> and \<open>events/events.controller.ts\<close>
    with the guard in front of their handlers; ApiProperties composes guard, registry and
    outbox.
  \<^item> BusinessHealth: \<open>business-health/\<close>, the adapters, their runner and the report.
  \<^item> Editor: the script in \<open>editor/editor-ui.ts\<close>, its draft, validation and event
    handlers; EditorView: what it draws; EditorProperties and EditorPageProperties: the
    validation, the invariant of the page, markup and identifiers.

  \<^item> Wiring: the \<open>@Module\<close> declarations (\<open>app.module.ts\<close> and one file per part) with the
    constructor parameters of their classes. Startup: \<open>main.ts\<close> and
    \<open>database/database.module.ts\<close>. Application: the remaining controllers and the routing of
    requests and sweeps to the two stores; AppProperties: start-up, the invariant of the
    whole service, requests without an identity.

  \<^bold>\<open>State\<close>

  The database is a record of row lists and sequence counters (\<open>process_db\<close>, which
  extends \<open>outbox_db\<close>). A transaction restores the tables on an exception but not the
  sequences. Operations run one after another: the code serialises writers of a process by
  a row lock, and what two dispatchers may see of each other is stated by the claim on the
  outbox rows. Readings of the clocks, of the environment, of the broker and of the
  database client are arguments, one per use.

  The instance tables are the record \<open>instance_db\<close>, which also holds the log of HTTP
  requests sent and the number of clock readings taken: a transaction that fails restores
  the tables but neither of these. \<open>exec_env\<close> holds what the executor runs in: the
  workflow registry, the environment variables, the network as a function from the number
  of the request to its answer, the process clock and the shape of the driver's results.
  The executor's \<open>while (progressed)\<close> loop is given as many rounds as the workflow has
  actions plus one; \<open>walk_terminates\<close> proves that it never needs more. An advance runs
  under a row lock, so it is one step; creating, recording a signal, advancing, cancelling
  and failing a wait are separate transactions, interleaved freely in
  \<open>instances_reachable\<close>.

  The record \<open>app_state\<close> joins the two stores and the running service, which holds the
  registries it built at start-up. \<open>app_reachable\<close> closes a fresh installation under starts,
  stops, requests of any caller and sweeps; a request is one step there, and may also be cut
  between the two transactions of a start or of a signal.

  The record \<open>editor\<close> holds the variables of the editor's script and the texts of the
  page that are not redrawn from them; one handler runs at a time, and
  \<open>editor_reachable\<close> closes the loaded page under the handlers. The search of the editor
  and that of the definition validator are shown to terminate by a measure on the nodes not
  yet reached.

  \<^bold>\<open>Assumptions\<close>

  Strings have code units below 256. Numbers that stand for versions are exact in a
  JavaScript number; the database refuses process versions beyond 32 bits (\<open>int4\<close>), while
  sequence numbers, attempt counters and the versions of mounted workflows are taken to fit
  their columns. Clock readings are valid dates (\<open>clock_ok\<close>). The order
  of text in the database and of \<open>localeCompare\<close> is a sort-key parameter. Names of
  properties that every JavaScript object inherits (\<open>constructor\<close>, \<open>__proto__\<close>) do not
  occur as service names, as node types dragged onto the canvas or as identifiers of nodes,
  and an object that a script prints has no member \<open>toString\<close> of its own. Simulation
  requests have their declared types, and so have the workflow documents mounted at start-up,
  which the registry casts without a check. The broker settles every call of a session: the
  declaration of the exchange, which the code awaits without a timeout, is answered, and
  closing ends, whose errors the code discards. A JSON object lists its members in the property order
  of the engine, with distinct names; the text of a non-integer number is a parameter.
  The file system that scripts and validators read is a function from absolute paths, in
  normal form, to decoded texts and directories. Whether a script of the editor page parses
  is a parameter of its check. What the platform's URL constructor makes of a base
  and a path is a parameter of the authentication client.

  \<^bold>\<open>What the lemmas show\<close>

  The validators accept exactly the stated inputs; the process lifecycle refines an
  abstract map; publishing and scheduling are gated by validation; audit trail and outbox
  agree in every reachable database; ids are unique; claims are exclusive until they are
  settled; dispatch runs record what happened if the database client hands updated rows
  back one by one, and all fail if it hands back rows and count; executing an action sends
  one request and its result follows the answer; registries resolve lookups by the last
  upsert; seeding is idempotent. Of workflow execution: calls respect dependencies, an
  acyclic workflow runs to completion, completion means that every step is done, signals
  are conserved, rows of other instances are left alone, and the instance tables keep
  their invariant. A simulation is always answered, its decision agrees with its gates,
  its five scenarios meet their expectations and its amounts stay in whole cents; the
  authentication guard lets pass exactly the tokens for which the service answers with a
  document that vouches for an identity. A process definition that its validator accepts
  has a sound step graph, and an accepted registry collection has at most one effective
  version of each process. Over HTTP registry and outbox do not change without a confirmed
  identity, and what was created can be read back. The editor's validation decides
  well-formedness and reachability of the graph, its page keeps its invariant under every
  event, and text never becomes markup. The script that checks the packaged process
  guarantees that it is sound and cannot be run, the simulation script passes exactly on
  services that agree with the expectations, and the contract script passes exactly under
  the stated conditions. The service starts exactly when its database, documents and port
  are in order, and both stores keep their invariants over every restart and request. Some
  theorems state behaviour the code presumably does not intend: the claim that throws
  after it has committed, the create request that bypasses the gate, dependency cycles
  that validation accepts, a failed start that repeating does not repair, requests that
  are sent again without being counted because a later wait is malformed, timeouts that
  overwrite a finished instance, half cents that are rounded either way, a nested
  rejection that the authentication client does not read, a null step that makes the
  definition validator throw, workflows that run for callers without an identity, an empty
  canvas that validates although the editor says it is blocking, identifiers of editor
  nodes that repeat after a deletion, and an empty file that passes the contract script.

  \<^bold>\<open>Not modelled\<close>

  HTML and CSS, the reports that validators print or write, log lines, and the text of the
  framework's own errors. The framework's pipes and body validation, connecting to the
  database and binding the port are arguments.
\<close>

end
